(* ===== verification/GoLib.thy ===== *)
theory GoLib
  imports Main "HOL-Library.AList" "HOL-Library.List_Lexorder" "HOL-Library.Char_ord"
    "HOL-Library.Sublist"
begin

text \<open>
  The prelude: what the modelled Go code uses of the language and of its standard library.
  A Go \<^verbatim>\<open>string\<close> is a list of bytes (\<^typ>\<open>string\<close>), a Go \<^verbatim>\<open>int\<close>/\<^verbatim>\<open>int64\<close> is an \<^typ>\<open>int\<close>
  whose wrap-around is written out where the code can reach it (\<open>int64_of\<close>, the saturation of
  \<open>atoi\<close>), a Go \<^verbatim>\<open>map\<close> is an association list with distinct keys (its order stands for the
  order in which keys were first stored, which no Go program can observe), and a pointer that
  may be nil is an \<^verbatim>\<open>option\<close>. White space is the ASCII white space.
\<close>

named_theorems frame_simps \<open>what an operation leaves unchanged\<close>
named_theorems go_eval \<open>definitions unfolded to evaluate library calls\<close>

type_synonym 'a alist = "(int \<times> 'a) list"

section \<open>Association lists as Go maps\<close>

abbreviation mlookup :: "('k \<times> 'v) list \<Rightarrow> 'k \<Rightarrow> 'v option" where
  "mlookup \<equiv> map_of"

abbreviation mkeys :: "('k \<times> 'v) list \<Rightarrow> 'k list" where
  "mkeys m \<equiv> map fst m"

definition mget :: "'v \<Rightarrow> ('k \<times> 'v) list \<Rightarrow> 'k \<Rightarrow> 'v" where
  "mget d m k = (case map_of m k of Some v \<Rightarrow> v | None \<Rightarrow> d)"

definition sorted_keys :: "('k::linorder \<times> 'v) list \<Rightarrow> 'k list" where
  "sorted_keys m = sort (mkeys m)"

lemma mlookup_update [simp]: "map_of (AList.update k v m) = (map_of m)(k \<mapsto> v)"
  by (rule update_conv')

lemma mget_update: "mget d (AList.update k v m) k' = (if k' = k then v else mget d m k')"
  by (simp add: mget_def)

lemma distinct_mkeys_update [intro]:
  "distinct (mkeys m) \<Longrightarrow> distinct (mkeys (AList.update k v m))"
  by (rule distinct_update)

lemma set_mkeys_update [simp]: "set (mkeys (AList.update k v m)) = insert k (set (mkeys m))"
  by (auto simp del: set_map simp: update_keys)

lemma sorted_sorted_keys [simp]: "sorted (sorted_keys m)"
  by (simp add: sorted_keys_def)

lemma set_sorted_keys [simp]: "set (sorted_keys m) = set (mkeys m)"
  by (simp add: sorted_keys_def)

lemma distinct_sorted_keys [simp]: "distinct (sorted_keys m) = distinct (mkeys m)"
  by (simp add: sorted_keys_def)

lemma map_of_map_vals:
  "map_of (map (\<lambda>(k, v). (k, f k v)) m) k = map_option (f k) (map_of m k)"
  by (induction m) auto

lemma mlookup_in_keys: "map_of m k = Some v \<Longrightarrow> k \<in> set (mkeys m)"
  by (force dest: map_of_SomeD)

lemma in_keys_mlookup: "k \<in> set (mkeys m) \<Longrightarrow> \<exists>v. map_of m k = Some v"
  by (metis map_of_eq_None_iff list.set_map option.exhaust)

section \<open>Machine integers\<close>

definition int64_of :: "int \<Rightarrow> int" where
  "int64_of x = (x + 2 ^ 63) mod 2 ^ 64 - 2 ^ 63"

definition max_int64 :: int where
  "max_int64 = 2 ^ 63 - 1"

definition min_int64 :: int where
  "min_int64 = - (2 ^ 63)"

lemma int64_of_bounds: "min_int64 \<le> int64_of x" "int64_of x \<le> max_int64"
  by (simp_all add: int64_of_def min_int64_def max_int64_def)

lemma int64_of_id: "min_int64 \<le> x \<Longrightarrow> x \<le> max_int64 \<Longrightarrow> int64_of x = x"
  by (simp add: int64_of_def min_int64_def max_int64_def mod_pos_pos_trivial)

text \<open>Go's integer division and remainder truncate towards zero.\<close>

definition go_quot :: "int \<Rightarrow> int \<Rightarrow> int" where
  "go_quot a b = sgn a * sgn b * (\<bar>a\<bar> div \<bar>b\<bar>)"

definition go_rem :: "int \<Rightarrow> int \<Rightarrow> int" where
  "go_rem a b = a - b * go_quot a b"

lemma go_quot_nonneg: "0 \<le> a \<Longrightarrow> 0 < b \<Longrightarrow> go_quot a b = a div b"
  by (cases "a = 0") (simp_all add: go_quot_def)

lemma go_rem_nonneg: "0 \<le> a \<Longrightarrow> 0 < b \<Longrightarrow> go_rem a b = a mod b"
  by (simp add: go_rem_def go_quot_nonneg minus_mult_div_eq_mod)

section \<open>Characters\<close>

definition char_code :: "char \<Rightarrow> nat" where
  "char_code c = of_char c"

definition is_digit :: "char \<Rightarrow> bool" where
  "is_digit c \<longleftrightarrow> 48 \<le> char_code c \<and> char_code c \<le> 57"

definition is_lower :: "char \<Rightarrow> bool" where
  "is_lower c \<longleftrightarrow> 97 \<le> char_code c \<and> char_code c \<le> 122"

definition is_upper :: "char \<Rightarrow> bool" where
  "is_upper c \<longleftrightarrow> 65 \<le> char_code c \<and> char_code c \<le> 90"

text \<open>The class \<^verbatim>\<open>\w\<close> of Go's regexp package (ASCII only).\<close>

definition is_word :: "char \<Rightarrow> bool" where
  "is_word c \<longleftrightarrow> is_digit c \<or> is_lower c \<or> is_upper c \<or> c = CHR ''_''"

definition is_space :: "char \<Rightarrow> bool" where
  "is_space c \<longleftrightarrow> c = CHR '' '' \<or> (9 \<le> char_code c \<and> char_code c \<le> 13)"

definition digit_val :: "char \<Rightarrow> int" where
  "digit_val c = int (char_code c) - 48"

definition to_lower_char :: "char \<Rightarrow> char" where
  "to_lower_char c = (if is_upper c then char_of (char_code c + 32) else c)"

definition to_upper_char :: "char \<Rightarrow> char" where
  "to_upper_char c = (if is_lower c then char_of (char_code c - 32) else c)"

abbreviation to_lower :: "string \<Rightarrow> string" where
  "to_lower \<equiv> map to_lower_char"

abbreviation to_upper :: "string \<Rightarrow> string" where
  "to_upper \<equiv> map to_upper_char"

lemmas char_class_defs = char_code_def is_digit_def is_lower_def is_upper_def is_word_def
  is_space_def digit_val_def

declare char_class_defs [go_eval] to_lower_char_def [go_eval] to_upper_char_def [go_eval]

abbreviation LF :: char where "LF \<equiv> CHR 0x0A"
abbreviation CR :: char where "CR \<equiv> CHR 0x0D"
abbreviation DQ :: char where "DQ \<equiv> CHR 0x22"
abbreviation BSL :: char where "BSL \<equiv> CHR 0x5C"

section \<open>The strings package\<close>

text \<open>\<open>strings.Split\<close> on one character: never empty, one element more than separators.\<close>

fun split_on :: "char \<Rightarrow> string \<Rightarrow> string list" where
  "split_on c [] = [[]]"
| "split_on c (x # xs) =
     (if x = c then [] # split_on c xs
      else (case split_on c xs of [] \<Rightarrow> [[x]] | y # ys \<Rightarrow> (x # y) # ys))"

text \<open>\<open>strings.Cut\<close> on one character.\<close>

fun str_cut :: "char \<Rightarrow> string \<Rightarrow> (string \<times> string) option" where
  "str_cut c [] = None"
| "str_cut c (x # xs) =
     (if x = c then Some ([], xs) else map_option (\<lambda>(a, b). (x # a, b)) (str_cut c xs))"

fun join :: "string \<Rightarrow> string list \<Rightarrow> string" where
  "join sep [] = []"
| "join sep [x] = x"
| "join sep (x # y # ys) = x @ sep @ join sep (y # ys)"

definition strip_prefix :: "string \<Rightarrow> string \<Rightarrow> string option" where
  "strip_prefix p s = (if prefix p s then Some (drop (length p) s) else None)"

definition strip_suffix :: "string \<Rightarrow> string \<Rightarrow> string option" where
  "strip_suffix p s = (if suffix p s then Some (take (length s - length p) s) else None)"

definition trim_prefix :: "string \<Rightarrow> string \<Rightarrow> string" where
  "trim_prefix p s = (case strip_prefix p s of Some r \<Rightarrow> r | None \<Rightarrow> s)"

definition trim_suffix :: "string \<Rightarrow> string \<Rightarrow> string" where
  "trim_suffix p s = (case strip_suffix p s of Some r \<Rightarrow> r | None \<Rightarrow> s)"

definition trim_right :: "(char \<Rightarrow> bool) \<Rightarrow> string \<Rightarrow> string" where
  "trim_right P s = rev (dropWhile P (rev s))"

definition trim_space :: "string \<Rightarrow> string" where
  "trim_space s = trim_right is_space (dropWhile is_space s)"

definition contains :: "string \<Rightarrow> string \<Rightarrow> bool" where
  "contains s sub \<longleftrightarrow> list_ex (prefix sub) (suffixes s)"

definition replace_char :: "char \<Rightarrow> string \<Rightarrow> string \<Rightarrow> string" where
  "replace_char c r s = concat (map (\<lambda>x. if x = c then r else [x]) s)"

lemma split_on_ne [simp]: "split_on c s \<noteq> []"
  by (cases s) (auto split: list.splits)

lemma split_on_app_sep: "split_on c (xs @ c # ys) = split_on c xs @ split_on c ys"
  by (induction xs) (auto split: list.splits)

lemma split_on_no_sep: "c \<notin> set s \<Longrightarrow> split_on c s = [s]"
  by (induction s) auto

lemma split_on_join: "ws \<noteq> [] \<Longrightarrow> \<forall>w \<in> set ws. c \<notin> set w \<Longrightarrow> split_on c (join [c] ws) = ws"
  by (induction "[c]" ws rule: join.induct) (auto simp: split_on_no_sep split_on_app_sep)

lemma split_on_no_sep_mem: "x \<in> set (split_on c s) \<Longrightarrow> c \<notin> set x"
proof (induction s arbitrary: x)
  case Nil
  then show ?case by simp
next
  case (Cons a s)
  obtain y ys where sp: "split_on c s = y # ys"
    by (meson split_on_ne neq_Nil_conv)
  from Cons show ?case by (auto simp: sp split: if_splits)
qed

lemma str_cut_None_iff: "str_cut c s = None \<longleftrightarrow> c \<notin> set s"
  by (induction s) auto

lemma str_cut_Some_iff: "str_cut c s = Some (a, b) \<longleftrightarrow> s = a @ c # b \<and> c \<notin> set a"
proof (induction s arbitrary: a)
  case Nil
  then show ?case by simp
next
  case (Cons x s)
  show ?case
  proof (cases a)
    case Nil
    then show ?thesis by auto
  next
    case (Cons y ys)
    then show ?thesis using Cons.IH[of ys] by auto
  qed
qed

lemma str_cut_app [simp]: "c \<notin> set a \<Longrightarrow> str_cut c (a @ c # b) = Some (a, b)"
  by (simp add: str_cut_Some_iff)

lemma trim_right_noop: "s = [] \<or> \<not> P (last s) \<Longrightarrow> trim_right P s = s"
  by (cases s rule: rev_cases) (auto simp: trim_right_def)

lemma trim_right_app: "P c \<Longrightarrow> trim_right P (s @ [c]) = trim_right P s"
  by (simp add: trim_right_def)

lemma trim_right_Nil [simp]: "trim_right P [] = []"
  by (simp add: trim_right_def)

lemma trim_right_no: "(\<And>c. c \<in> set s \<Longrightarrow> \<not> P c) \<Longrightarrow> trim_right P s = s"
  by (rule trim_right_noop) (cases s rule: rev_cases; auto)

lemma strip_prefix_app [simp]: "strip_prefix p (p @ s) = Some s"
  by (simp add: strip_prefix_def)

lemma strip_prefix_Some: "strip_prefix p s = Some r \<longleftrightarrow> s = p @ r"
  by (auto simp: strip_prefix_def prefix_def)

section \<open>The strconv package\<close>

definition digits_val :: "string \<Rightarrow> int" where
  "digits_val ds = foldl (\<lambda>n c. 10 * n + digit_val c) 0 ds"

definition sign_split :: "string \<Rightarrow> bool \<times> string" where
  "sign_split s = (case s of [] \<Rightarrow> (False, [])
     | c # cs \<Rightarrow> if c = CHR ''-'' then (True, cs) else if c = CHR ''+'' then (False, cs)
                 else (False, s))"

definition all_digits :: "string \<Rightarrow> bool" where
  "all_digits ds \<longleftrightarrow> ds \<noteq> [] \<and> list_all is_digit ds"

text \<open>
  \<open>strconv.Atoi\<close>: the value it returns (0 on a syntax error, the nearest bound on a range
  error) and whether its error is nil. The code mostly keeps the value and drops the error.
\<close>

definition atoi_val :: "string \<Rightarrow> int" where
  "atoi_val s = (case sign_split s of (neg, ds) \<Rightarrow>
     if \<not> all_digits ds then 0
     else if neg then max min_int64 (- digits_val ds)
     else min max_int64 (digits_val ds))"

definition atoi_ok :: "string \<Rightarrow> bool" where
  "atoi_ok s = (case sign_split s of (neg, ds) \<Rightarrow>
     all_digits ds \<and> (if neg then digits_val ds \<le> 2 ^ 63 else digits_val ds \<le> max_int64))"

definition atoi :: "string \<Rightarrow> int option" where
  "atoi s = (if atoi_ok s then Some (atoi_val s) else None)"

fun nat_digits :: "nat \<Rightarrow> string" where
  "nat_digits n = (if n < 10 then [char_of (48 + n)]
                   else nat_digits (n div 10) @ [char_of (48 + n mod 10)])"

declare nat_digits.simps [simp del]

definition itoa :: "int \<Rightarrow> string" where
  "itoa i = (if i < 0 then CHR ''-'' # nat_digits (nat (- i)) else nat_digits (nat i))"

lemma char_code_char_of [simp]: "n < 256 \<Longrightarrow> char_code (char_of n) = n"
  by (simp add: char_code_def)

lemma is_digit_char_of: "n < 10 \<Longrightarrow> is_digit (char_of (48 + n :: nat))"
  by (simp add: is_digit_def)

lemma digit_val_char_of: "n < 10 \<Longrightarrow> digit_val (char_of (48 + n :: nat)) = int n"
  by (simp add: digit_val_def)

lemma nat_digits_ne [simp]: "nat_digits n \<noteq> []"
  by (subst nat_digits.simps) simp

lemma nat_digits_digits: "list_all is_digit (nat_digits n)"
proof (induction n rule: nat_digits.induct)
  case (1 n)
  then show ?case
    by (subst nat_digits.simps) (auto simp: is_digit_char_of)
qed

lemma all_digits_nat_digits [simp]: "all_digits (nat_digits n)"
  by (simp add: all_digits_def nat_digits_digits)

lemma digits_val_snoc: "digits_val (ds @ [c]) = 10 * digits_val ds + digit_val c"
  by (simp add: digits_val_def)

lemma digits_val_nat_digits [simp]: "digits_val (nat_digits n) = int n"
proof (induction n rule: nat_digits.induct)
  case (1 n)
  show ?case
  proof (cases "n < 10")
    case True
    then show ?thesis
      by (subst nat_digits.simps) (simp add: digits_val_def digit_val_char_of)
  next
    case False
    with 1 have "digits_val (nat_digits (n div 10)) = int (n div 10)" by simp
    moreover have "int (10 * (n div 10) + n mod 10) = int n" by simp
    ultimately show ?thesis using False
      by (subst nat_digits.simps)
        (simp only: digits_val_snoc digit_val_char_of if_False of_nat_add of_nat_mult of_nat_numeral
          mod_less_divisor zero_less_numeral)
  qed
qed

lemma digits_no_sign: "list_all is_digit s \<Longrightarrow> sign_split s = (False, s)"
  by (cases s) (auto simp: sign_split_def is_digit_def char_code_def)

lemma atoi_val_digits:
  "all_digits ds \<Longrightarrow> atoi_val ds = min max_int64 (digits_val ds)"
  by (simp add: atoi_val_def digits_no_sign all_digits_def)

lemma atoi_val_nat_digits:
  "int n \<le> max_int64 \<Longrightarrow> atoi_val (nat_digits n) = int n"
  by (simp add: atoi_val_digits)

lemma digits_val_nonneg: "list_all is_digit ds \<Longrightarrow> 0 \<le> digits_val ds"
  by (induction ds rule: rev_induct) (auto simp: digits_val_snoc digits_val_def digit_val_def is_digit_def)

lemma atoi_val_bounds: "min_int64 \<le> atoi_val s" "atoi_val s \<le> max_int64"
  using digits_val_nonneg[of "snd (sign_split s)"]
  by (auto simp: atoi_val_def min_int64_def max_int64_def all_digits_def split: prod.splits)

lemma atoi_itoa:
  assumes "min_int64 \<le> i" and "i \<le> max_int64"
  shows "atoi (itoa i) = Some i"
proof (cases "i < 0")
  case True
  then have "itoa i = CHR ''-'' # nat_digits (nat (- i))" by (simp add: itoa_def)
  with True assms show ?thesis
    by (simp add: atoi_def atoi_ok_def atoi_val_def sign_split_def min_int64_def)
next
  case False
  then have "itoa i = nat_digits (nat i)" by (simp add: itoa_def)
  with False assms show ?thesis
    by (simp add: atoi_def atoi_ok_def atoi_val_def digits_no_sign nat_digits_digits)
qed

lemma nat_digits_no_char:
  assumes "\<not> is_digit c" shows "c \<notin> set (nat_digits n)"
  using nat_digits_digits[of n] assms by (auto simp: list_all_iff)

lemma itoa_one_line: "LF \<notin> set (itoa i)"
proof -
  have "LF \<notin> set (nat_digits n)" for n by (rule nat_digits_no_char) (simp add: is_digit_def char_code_def)
  then show ?thesis by (auto simp: itoa_def)
qed

lemma nat_digits_inj [simp]: "nat_digits m = nat_digits n \<longleftrightarrow> m = n"
  by (metis digits_val_nat_digits of_nat_eq_iff)

lemma itoa_inj [simp]: "itoa i = itoa j \<longleftrightarrow> i = j"
proof -
  have "CHR ''-'' \<notin> set (nat_digits n)" for n by (rule nat_digits_no_char) (simp add: is_digit_def char_code_def)
  then have "nat_digits n \<noteq> CHR ''-'' # w" "CHR ''-'' # w \<noteq> nat_digits n" for n w by (metis list.set_intros(1))+
  then show ?thesis by (auto simp: itoa_def)
qed

lemma trim_digits: "list_all is_digit s \<Longrightarrow> trim_space s = s"
proof -
  assume d: "list_all is_digit s"
  have n: "\<not> is_space c" if "c \<in> set s" for c
    using d that by (auto simp: list_all_iff is_digit_def is_space_def char_code_def)
  then have "dropWhile is_space s = s" by (cases s) auto
  moreover have "dropWhile is_space (rev s) = rev s" using n by (cases "rev s") (auto simp: rev_swap)
  ultimately show ?thesis by (simp add: trim_space_def trim_right_def)
qed

end
