(* ===== verification/NetAddr.thy ===== *)
theory NetAddr
  imports GoLib
begin

text \<open>
  The parts of Go's \<^verbatim>\<open>net\<close> package the program calls on text it receives: \<open>net.ParseIP\<close>,
  \<open>net.ParseCIDR\<close>, \<open>net.ParseMAC\<close>, \<open>IP.To4\<close> and \<open>IPNet.String\<close>. An address is the list of
  its sixteen bytes, an IPv4 one in its IPv4-mapped form, as \<^verbatim>\<open>net.IP\<close> holds it.
\<close>

section \<open>Addresses\<close>

definition is_hex :: "char \<Rightarrow> bool" where
  "is_hex c \<longleftrightarrow> is_digit c \<or> (97 \<le> char_code c \<and> char_code c \<le> 102)
     \<or> (65 \<le> char_code c \<and> char_code c \<le> 70)"

definition hex_val :: "char \<Rightarrow> nat" where
  "hex_val c = (if is_digit c then char_code c - 48
     else if 97 \<le> char_code c then char_code c - 87 else char_code c - 55)"

definition hex_num :: "string \<Rightarrow> nat" where
  "hex_num s = foldl (\<lambda>n c. 16 * n + hex_val c) 0 s"

definition octet :: "string \<Rightarrow> nat option" where
  "octet f = (if all_digits f \<and> (length f = 1 \<or> hd f \<noteq> CHR ''0'') \<and> digits_val f \<le> 255
     then Some (nat (digits_val f)) else None)"

definition parse_v4 :: "string \<Rightarrow> nat list option" where
  "parse_v4 s = (case map octet (split_on (CHR ''.'') s) of
       [Some a, Some b, Some c, Some d] \<Rightarrow> Some [a, b, c, d] | _ \<Rightarrow> None)"

definition v4_mapped :: "nat list \<Rightarrow> nat list" where
  "v4_mapped q = replicate 10 0 @ [255, 255] @ q"

text \<open>The loop of \<open>netip.parseIPv6\<close>: at most eight groups, one of them the ellipsis.\<close>

fun v6_loop :: "nat \<Rightarrow> nat list \<Rightarrow> nat option \<Rightarrow> string \<Rightarrow> (nat list \<times> nat option \<times> string) option"
where
  "v6_loop 0 acc e s = Some (acc, e, s)"
| "v6_loop (Suc n) acc e s =
     (let hs = takeWhile is_hex s; rest = dropWhile is_hex s;
          acc' = acc @ [hex_num hs div 256, hex_num hs mod 256]
      in if hs = [] \<or> 4 < length hs then None
         else if rest \<noteq> [] \<and> hd rest = CHR ''.'' then
           (if (e = None \<and> length acc \<noteq> 12) \<or> 16 < length acc + 4 then None
            else map_option (\<lambda>q. (acc @ q, e, [])) (parse_v4 s))
         else (case rest of
             [] \<Rightarrow> Some (acc', e, [])
           | [_] \<Rightarrow> None
           | c # d # r \<Rightarrow>
               if c \<noteq> CHR '':'' then None
               else if d = CHR '':'' then
                 (if e \<noteq> None then None
                  else if r = [] then Some (acc', Some (length acc'), [])
                  else v6_loop n acc' (Some (length acc')) r)
               else v6_loop n acc' e (d # r)))"

definition v6_finish :: "nat list \<times> nat option \<times> string \<Rightarrow> nat list option" where
  "v6_finish r = (case r of (acc, e, s) \<Rightarrow>
     if s \<noteq> [] then None
     else if length acc < 16 then
       map_option (\<lambda>k. take k acc @ replicate (16 - length acc) 0 @ drop k acc) e
     else if e \<noteq> None then None else Some acc)"

text \<open>A zone (\<^verbatim>\<open>fe80::1%eth0\<close>) parses, but \<open>ParseIP\<close> and \<open>ParseCIDR\<close> refuse it.\<close>

definition parse_v6 :: "string \<Rightarrow> nat list option" where
  "parse_v6 s =
     (if CHR ''%'' \<in> set s then None
      else case strip_prefix ''::'' s of
          Some [] \<Rightarrow> Some (replicate 16 0)
        | Some r \<Rightarrow> Option.bind (v6_loop 8 [] (Some 0) r) v6_finish
        | None \<Rightarrow> Option.bind (v6_loop 8 [] None s) v6_finish)"

datatype ip_text = V4Text "nat list" | V6Text "nat list"

definition parse_addr :: "string \<Rightarrow> ip_text option" where
  "parse_addr s =
     (case find (\<lambda>c. c = CHR ''.'' \<or> c = CHR '':'' \<or> c = CHR ''%'') s of
        Some c \<Rightarrow> if c = CHR ''.'' then map_option V4Text (parse_v4 s)
                  else if c = CHR '':'' then map_option V6Text (parse_v6 s) else None
      | None \<Rightarrow> None)"

fun ip16 :: "ip_text \<Rightarrow> nat list" where
  "ip16 (V4Text q) = v4_mapped q"
| "ip16 (V6Text b) = b"

definition parse_ip :: "string \<Rightarrow> nat list option" where
  "parse_ip s = map_option ip16 (parse_addr s)"

definition to4 :: "nat list \<Rightarrow> nat list option" where
  "to4 b = (if length b = 4 then Some b
     else if length b = 16 \<and> take 12 b = replicate 10 0 @ [255, 255] then Some (drop 12 b)
     else None)"

definition is_link_local4 :: "string \<Rightarrow> bool" where
  "is_link_local4 s = (case Option.bind (parse_ip s) to4 of
     Some (a # b # _) \<Rightarrow> a = 169 \<and> b = 254 | _ \<Rightarrow> False)"

section \<open>Prefixes\<close>

definition mask_byte :: "nat \<Rightarrow> nat \<Rightarrow> nat" where
  "mask_byte k b = b - b mod 2 ^ (8 - min 8 k)"

fun mask_bytes :: "nat \<Rightarrow> nat list \<Rightarrow> nat list" where
  "mask_bytes n [] = []"
| "mask_bytes n (b # bs) = mask_byte n b # mask_bytes (n - 8) bs"

text \<open>\<open>net.ParseCIDR\<close>: the address as written (16 bytes), the network's bytes and the prefix length.\<close>

definition parse_cidr :: "string \<Rightarrow> (nat list \<times> nat list \<times> nat) option" where
  "parse_cidr s = (case str_cut (CHR ''/'') s of
     None \<Rightarrow> None
   | Some (a, m) \<Rightarrow> (case parse_addr a of
       None \<Rightarrow> None
     | Some t \<Rightarrow>
         let bits = (case t of V4Text _ \<Rightarrow> 32 | V6Text _ \<Rightarrow> 128);
             raw = (case t of V4Text q \<Rightarrow> q | V6Text b \<Rightarrow> b);
             n = nat (digits_val m)
         in if all_digits m \<and> digits_val m \<le> bits
            then Some (ip16 t, mask_bytes n raw, n) else None))"

definition dotted :: "nat list \<Rightarrow> string" where
  "dotted q = join ''.'' (map nat_digits q)"

fun hex_digits :: "nat \<Rightarrow> string" where
  "hex_digits n = (let d = n mod 16; c = char_of (if d < 10 then 48 + d else 87 + d)
     in if n < 16 then [c] else hex_digits (n div 16) @ [c])"

declare hex_digits.simps [simp del]

fun groups16 :: "nat list \<Rightarrow> nat list" where
  "groups16 (a # b # r) = (256 * a + b) # groups16 r"
| "groups16 _ = []"

definition zero_run :: "nat list \<Rightarrow> nat \<Rightarrow> nat" where
  "zero_run gs i = length (takeWhile (\<lambda>g. g = 0) (drop i gs))"

text \<open>The first longest run of at least two zero groups is written as the ellipsis.\<close>

definition v6_string :: "nat list \<Rightarrow> string" where
  "v6_string b =
     (let gs = groups16 b;
          best = foldl (\<lambda>(st, l) i. if 2 \<le> zero_run gs i \<and> l < zero_run gs i
                                     then (i, zero_run gs i) else (st, l)) (0, 0) [0..<8]
      in case best of (st, l) \<Rightarrow>
           if l = 0 then join '':'' (map hex_digits gs)
           else join '':'' (map hex_digits (take st gs)) @ ''::''
                @ join '':'' (map hex_digits (drop (st + l) gs)))"

definition cidr_string :: "nat list \<Rightarrow> nat \<Rightarrow> string" where
  "cidr_string net n = (case to4 net of
     Some q \<Rightarrow> dotted q @ ''/'' @ nat_digits (if length net = 16 then n - 96 else n)
   | None \<Rightarrow> v6_string net @ ''/'' @ nat_digits n)"

section \<open>Hardware addresses\<close>

definition hex2_at :: "string \<Rightarrow> nat \<Rightarrow> nat option" where
  "hex2_at s x = (case drop x s of
     a # b # _ \<Rightarrow> if is_hex a \<and> is_hex b then Some (16 * hex_val a + hex_val b) else None
   | _ \<Rightarrow> None)"

definition sep_ok :: "string \<Rightarrow> nat \<Rightarrow> char \<Rightarrow> bool" where
  "sep_ok s x c \<longleftrightarrow> x < length s \<longrightarrow> s ! x = c"

fun all_some :: "'a option list \<Rightarrow> 'a list option" where
  "all_some [] = Some []"
| "all_some (None # _) = None"
| "all_some (Some a # r) = map_option (Cons a) (all_some r)"

definition parse_mac :: "string \<Rightarrow> nat list option" where
  "parse_mac s =
     (if length s < 14 then None
      else if s ! 2 = CHR '':'' \<or> s ! 2 = CHR ''-'' then
        (let n = (length s + 1) div 3
         in if (length s + 1) mod 3 \<noteq> 0 \<or> n \<notin> {6, 8, 20} then None
            else if \<not> list_all (\<lambda>i. sep_ok s (3 * i + 2) (s ! 2)) [0..<n] then None
            else all_some (map (\<lambda>i. hex2_at s (3 * i)) [0..<n]))
      else if s ! 4 = CHR ''.'' then
        (let n = 2 * (length s + 1) div 5
         in if (length s + 1) mod 5 \<noteq> 0 \<or> n \<notin> {6, 8, 20} then None
            else if \<not> list_all (\<lambda>i. sep_ok s (5 * i + 4) (s ! 4)) [0..<n div 2] then None
            else all_some (concat (map (\<lambda>i. [hex2_at s (5 * i), hex2_at s (5 * i + 2)]) [0..<n div 2])))
      else None)"

section \<open>Facts\<close>

lemma octet_le: "octet f = Some a \<Longrightarrow> a \<le> 255"
  by (auto simp: octet_def split: if_splits)

lemma parse_v4_bytes: "parse_v4 s = Some q \<Longrightarrow> length q = 4 \<and> (\<forall>b \<in> set q. b \<le> 255)"
  by (auto simp: parse_v4_def dest: octet_le split: list.splits option.splits)

lemma to4_mapped [simp]: "length q = 4 \<Longrightarrow> to4 (v4_mapped q) = Some q"
  by (simp add: to4_def v4_mapped_def numeral_eq_Suc)

lemma parse_cidr_v4:
  assumes "str_cut (CHR ''/'') s = Some (a, m)" and "parse_addr a = Some (V4Text q)"
    and "all_digits m" and "digits_val m \<le> 32"
  shows "parse_cidr s = Some (v4_mapped q, mask_bytes (nat (digits_val m)) q, nat (digits_val m))"
  using assms by (simp add: parse_cidr_def Let_def)

lemma length_mask_bytes [simp]: "length (mask_bytes n bs) = length bs"
  by (induction n bs rule: mask_bytes.induct) auto

text \<open>Masking twice is masking once: a network address is a fixed point.\<close>

lemma mask_byte_idem [simp]: "mask_byte k (mask_byte k b) = mask_byte k b"
proof -
  have "(b - b mod 2 ^ j) mod 2 ^ j = 0" for j :: nat
    by (simp add: minus_mod_eq_mult_div)
  then show ?thesis by (simp add: mask_byte_def)
qed

lemma mask_bytes_idem [simp]: "mask_bytes n (mask_bytes n bs) = mask_bytes n bs"
  by (induction n bs rule: mask_bytes.induct) auto

section \<open>Dotted addresses parse back\<close>

lemma nat_digits_no_zero_head: "0 < n \<Longrightarrow> hd (nat_digits n) \<noteq> CHR ''0''"
proof (induction n rule: nat_digits.induct)
  case (1 n)
  show ?case
  proof (cases "n < 10")
    case True
    then have "n \<in> {1, 2, 3, 4, 5, 6, 7, 8, 9}" using 1(2) by auto
    then show ?thesis by (elim insertE) (simp_all add: nat_digits.simps char_of_def)
  next
    case False
    with 1 show ?thesis by (subst nat_digits.simps) simp
  qed
qed

lemma octet_nat_digits: "a \<le> 255 \<Longrightarrow> octet (nat_digits a) = Some a"
proof (cases "a = 0")
  case True
  then show ?thesis by (simp add: octet_def nat_digits.simps is_digit_def all_digits_def digits_val_def digit_val_def)
qed (simp add: octet_def nat_digits_no_zero_head)

lemma sep_not_digit: "CHR ''.'' \<notin> set (nat_digits n)" "CHR ''/'' \<notin> set (nat_digits n)"
  "CHR '':'' \<notin> set (nat_digits n)" "CHR ''%'' \<notin> set (nat_digits n)"
  by (rule nat_digits_no_char, simp add: is_digit_def char_code_def)+

lemma parse_addr_dotted:
  assumes "length q = 4" and "\<forall>b \<in> set q. b \<le> 255"
  shows "parse_addr (dotted q) = Some (V4Text q)"
proof -
  obtain a b c d where q: "q = [a, b, c, d]" using assms(1) by (auto simp: length_Suc_conv numeral_eq_Suc)
  have s: "split_on (CHR ''.'') (dotted q) = [nat_digits a, nat_digits b, nat_digits c, nat_digits d]"
    using split_on_app_sep[of "CHR ''.''"] split_on_no_sep[OF sep_not_digit(1)] sep_not_digit(1) by (simp add: q dotted_def)
  then have v: "parse_v4 (dotted q) = Some q" using assms(2) by (simp add: parse_v4_def octet_nat_digits q)
  have f: "find (\<lambda>x. x = CHR ''.'' \<or> x = CHR '':'' \<or> x = CHR ''%'') (xs @ CHR ''.'' # ys) = Some (CHR ''.'')"
    if "CHR ''.'' \<notin> set xs" "CHR '':'' \<notin> set xs" "CHR ''%'' \<notin> set xs" for xs ys
    using that by (induction xs) auto
  have "dotted q = nat_digits a @ CHR ''.'' # join ''.'' (map nat_digits [b, c, d])" by (simp add: q dotted_def)
  with f[OF sep_not_digit(1,3,4)] v show ?thesis by (simp add: parse_addr_def)
qed

lemma parse_cidr_dotted:
  assumes "length q = 4" and "\<forall>b \<in> set q. b \<le> 255" and "n \<le> 32"
  shows "parse_cidr (dotted q @ ''/'' @ nat_digits n) = Some (v4_mapped q, mask_bytes n q, n)"
proof -
  obtain a b c d where q: "q = [a, b, c, d]" using assms(1) by (auto simp: length_Suc_conv numeral_eq_Suc)
  have "CHR ''/'' \<notin> set (dotted q)" using sep_not_digit(2) by (simp add: q dotted_def)
  then have "str_cut (CHR ''/'') (dotted q @ ''/'' @ nat_digits n) = Some (dotted q, nat_digits n)" by simp
  from parse_cidr_v4[OF this parse_addr_dotted[OF assms(1,2)]] assms(3) show ?thesis by simp
qed

lemma mask_bytes_le: "\<forall>b \<in> set q. b \<le> 255 \<Longrightarrow> \<forall>b \<in> set (mask_bytes n q). b \<le> 255"
  by (induction n q rule: mask_bytes.induct) (auto simp: mask_byte_def)

end
