(* ===== verification/UnifiCfg.thy ===== *)
theory UnifiCfg
  imports NetAddr
begin

text \<open>
  \<^verbatim>\<open>internal/unificfg/parse.go\<close>: the controller's \<^verbatim>\<open>system_cfg\<close> push (key=value text) parsed
  into a configuration. One record per struct, one definition per branch of the line loop,
  then the resolution steps that follow the loop, in the code's order. Times and identifiers
  are Go ints (\<open>atoi_val\<close> keeps what the code keeps when it drops the error of \<open>strconv.Atoi\<close>).
\<close>

section \<open>Data\<close>

record nut_server =
  ns_enabled :: bool
  ns_id :: string
  ns_port :: int
  ns_cred :: bool
  ns_user :: string
  ns_pass :: string

record outlet_cfg =
  o_index :: int
  o_name :: string
  o_relay_on :: bool

record address =
  a_dhcp :: bool
  a_ip :: string
  a_netmask :: string
  a_gateway :: string
  a_dns :: "string list"

record dhcp_guard =
  g_vlan :: int
  g_server :: string

record guard_entry = dhcp_guard +
  g_enabled :: bool

record mac_match =
  mm_mac :: string
  mm_mask :: string

record mac_acl =
  ma_name :: string
  ma_permit :: bool
  ma_vlan :: int
  ma_src :: mac_match
  ma_dst :: mac_match
  ma_unmodelled :: "string list"

record ip_match =
  im_ip :: string
  im_port :: int
  im_range :: string

record ip_acl =
  ia_name :: string
  ia_permit :: bool
  ia_type :: string
  ia_src :: ip_match
  ia_dst :: ip_match
  ia_unmodelled :: "string list"

record snmp_cfg =
  snmp_enabled :: bool
  snmp_version :: string
  snmp_community :: string

record storm_control =
  sc_enabled :: bool
  sc_type :: string
  sc_bcast :: int
  sc_mcast :: int
  sc_ucast :: int

record port_cfg =
  p_index :: int
  p_name :: string
  p_enabled :: bool
  p_opmode :: string
  p_autoneg :: bool
  p_speed :: int
  p_duplex :: bool
  p_vlan_explicit :: bool
  p_native :: int
  p_tagged :: "int list"
  p_lag :: int
  p_mirror :: int
  p_fec :: string
  p_storm :: storm_control
  p_stp_mode :: bool
  p_bpdu :: bool
  p_lldpmed :: "bool option"
  p_edge :: string
  p_keepalive :: bool

record user_cfg =
  u_name :: string
  u_hash :: string
  u_enabled :: bool

record ssh_key_cfg =
  k_type :: string
  k_value :: string
  k_comment :: string
  k_enabled :: bool

record stp_cfg =
  stp_set :: bool
  stp_enabled :: bool
  stp_version :: string
  stp_priority :: int

record igmp_cfg =
  ig_querier :: bool
  ig_querier_addr :: string
  ig_fast_leave :: bool
  ig_max_response :: int
  ig_membership :: int
  ig_router_expiry :: int
  ig_suppression :: bool
  ig_flood_unknown :: "bool option"

record vlan_cfg =
  v_id :: int
  v_mode :: string
  v_enabled :: bool
  v_igmp_set :: bool
  v_igmp_snoop :: bool
  v_igmp :: igmp_cfg

record multicast_cfg =
  mc_flood_known :: "bool option"
  mc_unknown_to_routers :: "bool option"

record ntp_entry =
  ntp_server :: string
  ntp_enabled :: bool

record config =
  c_raw :: "(string \<times> string) list"
  c_ports :: "port_cfg alist"
  c_vlans :: "vlan_cfg list"
  c_mtu :: int
  c_stp :: stp_cfg
  c_igmp_snooping :: "bool alist"
  c_igmp :: "igmp_cfg alist"
  c_multicast :: multicast_cfg
  c_outlets :: "outlet_cfg alist"
  c_address :: "address option"
  c_ssh_keys :: "ssh_key_cfg list"
  c_users :: "user_cfg list"
  c_ntp_servers :: "string list"
  c_syslog_hosts :: "string list"
  c_jumbo :: bool
  c_jumbo_set :: bool
  c_dhcp_snoop :: "bool option"
  c_dhcp_guards :: "dhcp_guard list"
  c_mac_acls :: "mac_acl list"
  c_ip_acls :: "ip_acl list"
  c_snmp :: "snmp_cfg option"
  c_nut :: "nut_server option"
  c_timezone :: string
  c_hostname :: string

text \<open>The local variables of \<open>Parse\<close> beside the configuration it returns.\<close>

record pstate = config +
  l_route_gw :: "(string \<times> string) list"
  l_default_route :: "string list"
  l_vlans :: "vlan_cfg alist"
  l_members :: "(int \<times> int \<times> string) list"
  l_ntp :: "ntp_entry alist"
  l_ssh :: "ssh_key_cfg alist"
  l_users :: "user_cfg alist"
  l_guards :: "guard_entry alist"
  l_mac_acls :: "mac_acl alist"
  l_ip_acls :: "ip_acl alist"
  l_syslog_on :: bool
  l_syslog_ip :: string
  l_syslog_port :: string
  l_locale_tz :: string

section \<open>Zero values and defaults on first sight\<close>

definition default_port :: "int \<Rightarrow> port_cfg" where
  "default_port idx = \<lparr>p_index = idx, p_name = [], p_enabled = True, p_opmode = [],
     p_autoneg = True, p_speed = 0, p_duplex = True, p_vlan_explicit = False, p_native = 0,
     p_tagged = [], p_lag = 0, p_mirror = 0, p_fec = [],
     p_storm = \<lparr>sc_enabled = False, sc_type = [], sc_bcast = -1, sc_mcast = -1, sc_ucast = -1\<rparr>,
     p_stp_mode = True, p_bpdu = False, p_lldpmed = None, p_edge = [], p_keepalive = False\<rparr>"

definition default_outlet :: "int \<Rightarrow> outlet_cfg" where
  "default_outlet idx = \<lparr>o_index = idx, o_name = [], o_relay_on = True\<rparr>"

definition zero_address :: address where
  "zero_address = \<lparr>a_dhcp = False, a_ip = [], a_netmask = [], a_gateway = [], a_dns = []\<rparr>"

definition zero_guard :: guard_entry where
  "zero_guard = \<lparr>g_vlan = 0, g_server = [], g_enabled = False\<rparr>"

definition zero_mac_acl :: mac_acl where
  "zero_mac_acl = \<lparr>ma_name = [], ma_permit = False, ma_vlan = 0,
     ma_src = \<lparr>mm_mac = [], mm_mask = []\<rparr>, ma_dst = \<lparr>mm_mac = [], mm_mask = []\<rparr>, ma_unmodelled = []\<rparr>"

definition zero_ip_acl :: ip_acl where
  "zero_ip_acl = \<lparr>ia_name = [], ia_permit = False, ia_type = [],
     ia_src = \<lparr>im_ip = [], im_port = 0, im_range = []\<rparr>,
     ia_dst = \<lparr>im_ip = [], im_port = 0, im_range = []\<rparr>, ia_unmodelled = []\<rparr>"

definition zero_igmp :: igmp_cfg where
  "zero_igmp = \<lparr>ig_querier = False, ig_querier_addr = [], ig_fast_leave = False, ig_max_response = 0,
     ig_membership = 0, ig_router_expiry = 0, ig_suppression = False, ig_flood_unknown = None\<rparr>"

definition new_vlan :: vlan_cfg where
  "new_vlan = \<lparr>v_id = 0, v_mode = [], v_enabled = True, v_igmp_set = False, v_igmp_snoop = False,
     v_igmp = zero_igmp\<rparr>"

definition zero_snmp :: snmp_cfg where
  "zero_snmp = \<lparr>snmp_enabled = False, snmp_version = [], snmp_community = []\<rparr>"

definition zero_nut :: nut_server where
  "zero_nut = \<lparr>ns_enabled = False, ns_id = [], ns_port = 0, ns_cred = False, ns_user = [], ns_pass = []\<rparr>"

definition zero_user :: user_cfg where
  "zero_user = \<lparr>u_name = [], u_hash = [], u_enabled = False\<rparr>"

definition zero_ssh_key :: ssh_key_cfg where
  "zero_ssh_key = \<lparr>k_type = [], k_value = [], k_comment = [], k_enabled = False\<rparr>"

definition zero_ntp :: ntp_entry where
  "zero_ntp = \<lparr>ntp_server = [], ntp_enabled = False\<rparr>"

definition init_pstate :: pstate where
  "init_pstate = \<lparr>c_raw = [], c_ports = [], c_vlans = [], c_mtu = 0,
     c_stp = \<lparr>stp_set = False, stp_enabled = False, stp_version = [], stp_priority = 0\<rparr>,
     c_igmp_snooping = [], c_igmp = [],
     c_multicast = \<lparr>mc_flood_known = None, mc_unknown_to_routers = None\<rparr>,
     c_outlets = [], c_address = None, c_ssh_keys = [], c_users = [], c_ntp_servers = [],
     c_syslog_hosts = [], c_jumbo = False, c_jumbo_set = False, c_dhcp_snoop = None,
     c_dhcp_guards = [], c_mac_acls = [], c_ip_acls = [], c_snmp = None, c_nut = None,
     c_timezone = [], c_hostname = [],
     l_route_gw = [], l_default_route = [], l_vlans = [], l_members = [], l_ntp = [], l_ssh = [],
     l_users = [], l_guards = [], l_mac_acls = [], l_ip_acls = [],
     l_syslog_on = False, l_syslog_ip = [], l_syslog_port = [], l_locale_tz = []\<rparr>"

text \<open>A map entry read (or created with its default), changed and stored back.\<close>

definition upsert :: "(int \<Rightarrow> 'v) \<Rightarrow> ('v \<Rightarrow> 'v) \<Rightarrow> int \<Rightarrow> 'v alist \<Rightarrow> 'v alist" where
  "upsert dflt f k m = AList.update k (f (mget (dflt k) m k)) m"

definition opt_or :: "'a \<Rightarrow> 'a option \<Rightarrow> 'a" where
  "opt_or d x = (case x of Some a \<Rightarrow> a | None \<Rightarrow> d)"

section \<open>Key patterns\<close>

text \<open>\<^verbatim>\<open>(\d+)\.\<close> at the start: the digits and what follows the dot.\<close>

definition num_dot :: "string \<Rightarrow> (string \<times> string) option" where
  "num_dot s = (let ds = takeWhile is_digit s in
     case dropWhile is_digit s of
       c # r \<Rightarrow> if ds \<noteq> [] \<and> c = CHR ''.'' then Some (ds, r) else None
     | [] \<Rightarrow> None)"

definition word_dots :: "string \<Rightarrow> bool" where
  "word_dots s \<longleftrightarrow> s \<noteq> [] \<and> list_all (\<lambda>c. is_word c \<or> c = CHR ''.'') s"

definition words :: "string \<Rightarrow> bool" where
  "words s \<longleftrightarrow> s \<noteq> [] \<and> list_all is_word s"

definition numbered :: "string \<Rightarrow> (string \<Rightarrow> bool) \<Rightarrow> string \<Rightarrow> (string \<times> string) option" where
  "numbered p ok k = Option.bind (Option.bind (strip_prefix p k) num_dot)
     (\<lambda>(n, f). if ok f then Some (n, f) else None)"

definition portRe :: "string \<Rightarrow> (string \<times> string) option" where
  "portRe = numbered ''switch.port.'' word_dots"

definition vlanRe :: "string \<Rightarrow> (string \<times> string) option" where
  "vlanRe = numbered ''switch.vlan.'' words"

definition outletRe :: "string \<Rightarrow> (string \<times> string) option" where
  "outletRe = numbered ''outlet.'' word_dots"

definition guardRe :: "string \<Rightarrow> (string \<times> string) option" where
  "guardRe = numbered ''switch.dhcp_guard.'' words"

definition vlanPortRe :: "string \<Rightarrow> (string \<times> string) option" where
  "vlanPortRe k = Option.bind (numbered ''switch.vlan.'' (\<lambda>_. True) k)
     (\<lambda>(slot, r). Option.bind (Option.bind (strip_prefix ''port.'' r) num_dot)
       (\<lambda>(port, m). if m = ''mode'' then Some (slot, port) else None))"

datatype acl_kind = MacKind | IpKind

definition aclRe :: "string \<Rightarrow> (acl_kind \<times> string \<times> string) option" where
  "aclRe k = (case numbered ''switch.acl.mac.'' word_dots k of
       Some (n, f) \<Rightarrow> Some (MacKind, n, f)
     | None \<Rightarrow> map_option (\<lambda>(n, f). (IpKind, n, f)) (numbered ''switch.acl.ip.'' word_dots k))"

text \<open>\<^verbatim>\<open>fmt.Sscanf(k, p + "%d.%s", &n, &field)\<close> with a nil error.\<close>

definition sscan_numbered :: "string \<Rightarrow> string \<Rightarrow> (int \<times> string) option" where
  "sscan_numbered p k = Option.bind (strip_prefix p k) (\<lambda>r.
     let r0 = dropWhile is_space r;
         (sgn, r1) = (case r0 of c # cs \<Rightarrow> if c = CHR ''-'' \<or> c = CHR ''+'' then ([c], cs) else ([], r0)
                               | [] \<Rightarrow> ([], []));
         ds = takeWhile is_digit r1
     in case dropWhile is_digit r1 of
          c # r2 \<Rightarrow>
            let r3 = dropWhile is_space r2 in
            if atoi_ok (sgn @ ds) \<and> c = CHR ''.'' \<and> r3 \<noteq> []
            then Some (atoi_val (sgn @ ds), takeWhile (\<lambda>x. \<not> is_space x) r3) else None
        | [] \<Rightarrow> None)"

section \<open>The branches of the line loop\<close>

definition is_address_key :: "string \<Rightarrow> bool" where
  "is_address_key k \<longleftrightarrow> prefix ''netconf.1.'' k \<or> k = ''dhcpc.1.status'' \<or> prefix ''route.'' k
     \<or> prefix ''resolv.nameserver.'' k"

definition address_line :: "string \<Rightarrow> string \<Rightarrow> pstate \<Rightarrow> pstate" where
  "address_line k v s =
     (let a = opt_or zero_address (c_address s);
          s' = s\<lparr>c_address := Some a\<rparr>
      in if k = ''netconf.1.ip'' then
           (if v \<noteq> ''0.0.0.0'' then s'\<lparr>c_address := Some (a\<lparr>a_ip := v\<rparr>)\<rparr> else s')
         else if k = ''netconf.1.netmask'' then s'\<lparr>c_address := Some (a\<lparr>a_netmask := v\<rparr>)\<rparr>
         else if k = ''dhcpc.1.status'' then s'\<lparr>c_address := Some (a\<lparr>a_dhcp := (v = ''enabled'')\<rparr>)\<rparr>
         else if prefix ''route.'' k \<and> suffix ''.gateway'' k then
           s'\<lparr>l_route_gw := AList.update (trim_suffix ''.gateway'' (trim_prefix ''route.'' k)) v (l_route_gw s)\<rparr>
         else if prefix ''route.'' k \<and> suffix ''.ip'' k then
           (if v = ''0.0.0.0''
            then s'\<lparr>l_default_route := trim_suffix ''.ip'' (trim_prefix ''route.'' k) # l_default_route s\<rparr>
            else s')
         else if prefix ''resolv.nameserver.'' k \<and> suffix ''.ip'' k then
           (if v \<noteq> [] \<and> v \<noteq> ''0.0.0.0''
            then s'\<lparr>c_address := Some (a\<lparr>a_dns := a_dns a @ [v]\<rparr>)\<rparr> else s')
         else s')"

definition outlet_field :: "string \<Rightarrow> string \<Rightarrow> outlet_cfg \<Rightarrow> outlet_cfg" where
  "outlet_field f v o' =
     (if f = ''relay_state'' then o'\<lparr>o_relay_on := (v \<noteq> ''disabled'')\<rparr>
      else if f = ''name'' then o'\<lparr>o_name := v\<rparr> else o')"

definition guard_field :: "string \<Rightarrow> string \<Rightarrow> guard_entry \<Rightarrow> guard_entry" where
  "guard_field f v g =
     (if f = ''server'' then g\<lparr>g_server := v\<rparr>
      else if f = ''vlan'' then g\<lparr>g_vlan := atoi_val v\<rparr>
      else if f = ''status'' then g\<lparr>g_enabled := (v = ''enabled'')\<rparr> else g)"

definition mac_acl_field :: "string \<Rightarrow> string \<Rightarrow> mac_acl \<Rightarrow> mac_acl" where
  "mac_acl_field f v a =
     (if f = ''name'' then a\<lparr>ma_name := v\<rparr>
      else if f = ''action'' then
        a\<lparr>ma_permit := (v = ''permit''),
          ma_unmodelled := ma_unmodelled a @ (if v \<noteq> ''permit'' \<and> v \<noteq> ''deny'' then [f @ ''='' @ v] else [])\<rparr>
      else if f = ''vlan'' then a\<lparr>ma_vlan := atoi_val v\<rparr>
      else if f = ''src.mac'' then a\<lparr>ma_src := (ma_src a)\<lparr>mm_mac := v\<rparr>\<rparr>
      else if f = ''src.mask'' then a\<lparr>ma_src := (ma_src a)\<lparr>mm_mask := v\<rparr>\<rparr>
      else if f = ''dst.mac'' then a\<lparr>ma_dst := (ma_dst a)\<lparr>mm_mac := v\<rparr>\<rparr>
      else if f = ''dst.mask'' then a\<lparr>ma_dst := (ma_dst a)\<lparr>mm_mask := v\<rparr>\<rparr>
      else a\<lparr>ma_unmodelled := ma_unmodelled a @ [f @ ''='' @ v]\<rparr>)"

definition ip_end_field :: "string \<Rightarrow> string \<Rightarrow> ip_match \<Rightarrow> ip_match" where
  "ip_end_field f v e =
     (if f = ''ip'' then e\<lparr>im_ip := v\<rparr>
      else if f = ''port'' then e\<lparr>im_port := atoi_val v\<rparr>
      else e\<lparr>im_range := v\<rparr>)"

definition ip_acl_field :: "string \<Rightarrow> string \<Rightarrow> ip_acl \<Rightarrow> ip_acl" where
  "ip_acl_field f v a =
     (let (side, field) = (case str_cut (CHR ''.'') f of Some r \<Rightarrow> r | None \<Rightarrow> (f, []));
          known = field \<in> {''ip'', ''port'', ''port_range''}
      in if f = ''name'' then a\<lparr>ia_name := v\<rparr>
         else if f = ''action'' then
           a\<lparr>ia_permit := (v = ''permit''),
             ia_unmodelled := ia_unmodelled a @ (if v \<noteq> ''permit'' \<and> v \<noteq> ''deny'' then [f @ ''='' @ v] else [])\<rparr>
         else if f = ''type'' then a\<lparr>ia_type := v\<rparr>
         else if side = ''src'' \<and> known then a\<lparr>ia_src := ip_end_field field v (ia_src a)\<rparr>
         else if side = ''dst'' \<and> known then a\<lparr>ia_dst := ip_end_field field v (ia_dst a)\<rparr>
         else a\<lparr>ia_unmodelled := ia_unmodelled a @ [f @ ''='' @ v]\<rparr>)"

definition port_field :: "string \<Rightarrow> string \<Rightarrow> port_cfg \<Rightarrow> port_cfg" where
  "port_field f v p =
     (if f = ''name'' then p\<lparr>p_name := v\<rparr>
      else if f = ''status'' then p\<lparr>p_enabled := (v \<noteq> ''disabled'')\<rparr>
      else if f = ''opmode'' then p\<lparr>p_opmode := v\<rparr>
      else if f = ''autoneg'' then p\<lparr>p_autoneg := (v \<noteq> ''disabled'')\<rparr>
      else if f = ''speed'' then p\<lparr>p_speed := atoi_val v\<rparr>
      else if f = ''duplex'' then p\<lparr>p_duplex := (v = ''enabled'')\<rparr>
      else if f = ''lag'' then p\<lparr>p_lag := atoi_val v\<rparr>
      else if f = ''mirror_port'' then p\<lparr>p_mirror := atoi_val v\<rparr>
      else if f = ''fec'' then p\<lparr>p_fec := v\<rparr>
      else if f = ''stp.port_mode'' then p\<lparr>p_stp_mode := (v \<noteq> ''disabled'')\<rparr>
      else if f = ''stp.bpdu_guard'' then p\<lparr>p_bpdu := (v = ''enabled'')\<rparr>
      else if f = ''stp.edge'' then p\<lparr>p_edge := v\<rparr>
      else if f = ''keepalive'' then p\<lparr>p_keepalive := (v = ''enabled'')\<rparr>
      else if f = ''lldpmed.opmode'' then p\<lparr>p_lldpmed := Some (v = ''enabled'')\<rparr>
      else if f = ''stormctrl.status'' then p\<lparr>p_storm := (p_storm p)\<lparr>sc_enabled := (v = ''enabled'')\<rparr>\<rparr>
      else if f = ''stormctrl.type'' then p\<lparr>p_storm := (p_storm p)\<lparr>sc_type := v\<rparr>\<rparr>
      else if f = ''stormctrl.bcast'' then p\<lparr>p_storm := (p_storm p)\<lparr>sc_bcast := atoi_val v\<rparr>\<rparr>
      else if f = ''stormctrl.mcast'' then p\<lparr>p_storm := (p_storm p)\<lparr>sc_mcast := atoi_val v\<rparr>\<rparr>
      else if f = ''stormctrl.ucast'' then p\<lparr>p_storm := (p_storm p)\<lparr>sc_ucast := atoi_val v\<rparr>\<rparr>
      else p)"

definition vlan_field :: "string \<Rightarrow> string \<Rightarrow> vlan_cfg \<Rightarrow> vlan_cfg" where
  "vlan_field f v w =
     (if f = ''id'' then w\<lparr>v_id := atoi_val v\<rparr>
      else if f = ''mode'' then w\<lparr>v_mode := v\<rparr>
      else if f = ''status'' then w\<lparr>v_enabled := (v \<noteq> ''disabled'')\<rparr>
      else if f = ''igmp_snooping'' then w\<lparr>v_igmp_set := True, v_igmp_snoop := (v = ''true'')\<rparr>
      else if f = ''igmp_querier_status'' then w\<lparr>v_igmp := (v_igmp w)\<lparr>ig_querier := (v = ''true'')\<rparr>\<rparr>
      else if f = ''igmp_querier'' then w\<lparr>v_igmp := (v_igmp w)\<lparr>ig_querier_addr := v\<rparr>\<rparr>
      else if f = ''igmp_fastleave'' then w\<lparr>v_igmp := (v_igmp w)\<lparr>ig_fast_leave := (v = ''true'')\<rparr>\<rparr>
      else if f = ''igmp_maxresponse'' then w\<lparr>v_igmp := (v_igmp w)\<lparr>ig_max_response := atoi_val v\<rparr>\<rparr>
      else if f = ''igmp_groupmembership'' then w\<lparr>v_igmp := (v_igmp w)\<lparr>ig_membership := atoi_val v\<rparr>\<rparr>
      else if f = ''igmp_mcrtrexpiretime'' then w\<lparr>v_igmp := (v_igmp w)\<lparr>ig_router_expiry := atoi_val v\<rparr>\<rparr>
      else if f = ''igmp_supression'' then w\<lparr>v_igmp := (v_igmp w)\<lparr>ig_suppression := (v = ''true'')\<rparr>\<rparr>
      else if f = ''forward_unknown_multicast''
        then w\<lparr>v_igmp := (v_igmp w)\<lparr>ig_flood_unknown := Some (v = ''true'')\<rparr>\<rparr>
      else w)"

definition user_field :: "string \<Rightarrow> string \<Rightarrow> user_cfg \<Rightarrow> user_cfg" where
  "user_field f v u =
     (if f = ''name'' then u\<lparr>u_name := v\<rparr>
      else if f = ''password'' then u\<lparr>u_hash := v\<rparr>
      else if f = ''status'' then u\<lparr>u_enabled := (v = ''enabled'')\<rparr> else u)"

definition ssh_field :: "string \<Rightarrow> string \<Rightarrow> ssh_key_cfg \<Rightarrow> ssh_key_cfg" where
  "ssh_field f v e =
     (if f = ''type'' then e\<lparr>k_type := v\<rparr>
      else if f = ''value'' then e\<lparr>k_value := v\<rparr>
      else if f = ''comment'' then e\<lparr>k_comment := v\<rparr>
      else if f = ''status'' then e\<lparr>k_enabled := (v = ''enabled'')\<rparr> else e)"

definition ntp_field :: "string \<Rightarrow> string \<Rightarrow> ntp_entry \<Rightarrow> ntp_entry" where
  "ntp_field f v e =
     (if f = ''server'' then e\<lparr>ntp_server := v\<rparr>
      else if f = ''status'' then e\<lparr>ntp_enabled := (v = ''enabled'')\<rparr> else e)"

definition snmp_field :: "string \<Rightarrow> string \<Rightarrow> snmp_cfg \<Rightarrow> snmp_cfg" where
  "snmp_field k v c =
     (if k = ''switch.snmp.status'' then c\<lparr>snmp_enabled := (v = ''enabled'')\<rparr>
      else if k = ''switch.snmp.version'' then c\<lparr>snmp_version := v\<rparr>
      else c\<lparr>snmp_community := v\<rparr>)"

definition nut_field :: "string \<Rightarrow> string \<Rightarrow> nut_server \<Rightarrow> nut_server" where
  "nut_field k v n =
     (if k = ''nutserver.status'' then n\<lparr>ns_enabled := (v = ''enabled'')\<rparr>
      else if k = ''nutserver.id'' then n\<lparr>ns_id := v\<rparr>
      else if k = ''nutserver.port'' then n\<lparr>ns_port := atoi_val v\<rparr>
      else if k = ''nutserver.credential'' then n\<lparr>ns_cred := (v = ''enabled'')\<rparr>
      else if k = ''nutserver.username'' then n\<lparr>ns_user := v\<rparr>
      else n\<lparr>ns_pass := v\<rparr>)"

definition misc_line :: "string \<Rightarrow> string \<Rightarrow> pstate \<Rightarrow> pstate" where
  "misc_line k v s =
     (if k = ''system.timezone'' then s\<lparr>c_timezone := trim_space v\<rparr>
      else if k = ''locale.timezone'' then s\<lparr>l_locale_tz := trim_space v\<rparr>
      else if k = ''resolv.host.1.name'' then s\<lparr>c_hostname := trim_space v\<rparr>
      else if k = ''syslog.remote.status'' then s\<lparr>l_syslog_on := (v = ''enabled'')\<rparr>
      else if k = ''syslog.remote.ip'' then s\<lparr>l_syslog_ip := v\<rparr>
      else if k = ''syslog.remote.port'' then s\<lparr>l_syslog_port := v\<rparr>
      else if k = ''switch.jumboframes'' then s\<lparr>c_jumbo := (v = ''enabled''), c_jumbo_set := True\<rparr>
      else if k = ''switch.dhcp_snoop.status'' then s\<lparr>c_dhcp_snoop := Some (v = ''enabled'')\<rparr>
      else if k \<in> {''switch.snmp.status'', ''switch.snmp.version'', ''switch.snmp.community.public.name''}
        then s\<lparr>c_snmp := Some (snmp_field k v (opt_or zero_snmp (c_snmp s)))\<rparr>
      else if k \<in> {''nutserver.status'', ''nutserver.id'', ''nutserver.port'', ''nutserver.credential'',
                   ''nutserver.username'', ''nutserver.password''}
        then s\<lparr>c_nut := Some (nut_field k v (opt_or zero_nut (c_nut s)))\<rparr>
      else if k = ''switch.mtu'' then s\<lparr>c_mtu := atoi_val v\<rparr>
      else if k = ''switch.multicast.flood_known_protocols''
        then s\<lparr>c_multicast := (c_multicast s)\<lparr>mc_flood_known := Some (v = ''true'')\<rparr>\<rparr>
      else if k = ''switch.multicast.forward_unk_mcast_router_ports''
        then s\<lparr>c_multicast := (c_multicast s)\<lparr>mc_unknown_to_routers := Some (v = ''true'')\<rparr>\<rparr>
      else if k = ''switch.stp.status''
        then s\<lparr>c_stp := (c_stp s)\<lparr>stp_set := True, stp_enabled := (v \<noteq> ''disabled'')\<rparr>\<rparr>
      else if k = ''switch.stp.version'' then s\<lparr>c_stp := (c_stp s)\<lparr>stp_set := True, stp_version := v\<rparr>\<rparr>
      else if k = ''switch.stp.priority''
        then s\<lparr>c_stp := (c_stp s)\<lparr>stp_set := True, stp_priority := atoi_val v\<rparr>\<rparr>
      else s)"

text \<open>The groups filled through \<open>fmt.Sscanf\<close>, reached once no pattern matched.\<close>

definition scanned_line :: "string \<Rightarrow> string \<Rightarrow> pstate \<Rightarrow> pstate" where
  "scanned_line k v s =
     (if prefix ''users.'' k \<and> k \<noteq> ''users.status'' then
        (case sscan_numbered ''users.'' k of None \<Rightarrow> s
         | Some (n, f) \<Rightarrow> s\<lparr>l_users := upsert (\<lambda>_. zero_user) (user_field f v) n (l_users s)\<rparr>)
      else if prefix ''sshd.auth.key.'' k then
        (case sscan_numbered ''sshd.auth.key.'' k of None \<Rightarrow> s
         | Some (n, f) \<Rightarrow> s\<lparr>l_ssh := upsert (\<lambda>_. zero_ssh_key) (ssh_field f v) n (l_ssh s)\<rparr>)
      else if prefix ''ntpclient.'' k then
        (case sscan_numbered ''ntpclient.'' k of None \<Rightarrow> s
         | Some (n, f) \<Rightarrow> s\<lparr>l_ntp := upsert (\<lambda>_. zero_ntp) (ntp_field f v) n (l_ntp s)\<rparr>)
      else misc_line k v s)"

text \<open>Which branch a key takes: the code's cascade of patterns, in its order.\<close>

datatype key_class =
    KMember int int
  | KAddress
  | KOutlet int string
  | KGuard int string
  | KMacAcl int string
  | KIpAcl int string
  | KPort int string
  | KVlan int string
  | KOther

definition key_class :: "string \<Rightarrow> key_class" where
  "key_class k =
     (case vlanPortRe k of Some (slot, port) \<Rightarrow> KMember (atoi_val slot) (atoi_val port)
      | None \<Rightarrow>
      if is_address_key k then KAddress
      else case outletRe k of Some (n, f) \<Rightarrow> KOutlet (atoi_val n) f
      | None \<Rightarrow>
      case guardRe k of Some (n, f) \<Rightarrow> KGuard (atoi_val n) f
      | None \<Rightarrow>
      case aclRe k of Some (MacKind, n, f) \<Rightarrow> KMacAcl (atoi_val n) f
      | Some (IpKind, n, f) \<Rightarrow> KIpAcl (atoi_val n) f
      | None \<Rightarrow>
      case portRe k of Some (n, f) \<Rightarrow> KPort (atoi_val n) f
      | None \<Rightarrow>
      case vlanRe k of Some (n, f) \<Rightarrow> KVlan (atoi_val n) f
      | None \<Rightarrow> KOther)"

definition store :: "string \<Rightarrow> string \<Rightarrow> pstate \<Rightarrow> pstate" where
  "store k v s = (case key_class k of
       KMember slot port \<Rightarrow> s\<lparr>l_members := l_members s @ [(slot, port, v)]\<rparr>
     | KAddress \<Rightarrow> address_line k v s
     | KOutlet n f \<Rightarrow> s\<lparr>c_outlets := upsert default_outlet (outlet_field f v) n (c_outlets s)\<rparr>
     | KGuard n f \<Rightarrow> s\<lparr>l_guards := upsert (\<lambda>_. zero_guard) (guard_field f v) n (l_guards s)\<rparr>
     | KMacAcl n f \<Rightarrow> s\<lparr>l_mac_acls := upsert (\<lambda>_. zero_mac_acl) (mac_acl_field f v) n (l_mac_acls s)\<rparr>
     | KIpAcl n f \<Rightarrow> s\<lparr>l_ip_acls := upsert (\<lambda>_. zero_ip_acl) (ip_acl_field f v) n (l_ip_acls s)\<rparr>
     | KPort n f \<Rightarrow> s\<lparr>c_ports := upsert default_port (port_field f v) n (c_ports s)\<rparr>
     | KVlan n f \<Rightarrow> s\<lparr>l_vlans := upsert (\<lambda>_. new_vlan) (vlan_field f v) n (l_vlans s)\<rparr>
     | KOther \<Rightarrow> scanned_line k v s)"

text \<open>One line: trailing carriage returns dropped, blank and comment lines skipped.\<close>

definition line_kv :: "string \<Rightarrow> (string \<times> string) option" where
  "line_kv line0 =
     (let line = trim_right (\<lambda>c. c = CR) line0
      in if line = [] \<or> prefix ''#'' line then None else str_cut (CHR ''='') line)"

definition parse_kv :: "string \<times> string \<Rightarrow> pstate \<Rightarrow> pstate" where
  "parse_kv kv s = store (fst kv) (snd kv) (s\<lparr>c_raw := AList.update (fst kv) (snd kv) (c_raw s)\<rparr>)"

definition parse_line :: "pstate \<Rightarrow> string \<Rightarrow> pstate" where
  "parse_line s line = (case line_kv line of None \<Rightarrow> s | Some kv \<Rightarrow> parse_kv kv s)"

section \<open>Resolution after the loop\<close>

definition in_key_order :: "'v alist \<Rightarrow> 'v list" where
  "in_key_order m = List.map_filter (map_of m) (sorted_keys m)"

definition finish_vlans :: "pstate \<Rightarrow> pstate" where
  "finish_vlans s =
     (let vs = in_key_order (l_vlans s);
          ig = filter (\<lambda>v. v_igmp_set v \<and> 0 < v_id v) vs
      in s\<lparr>c_vlans := vs,
           c_igmp_snooping := fold (\<lambda>v. AList.update (v_id v) (v_igmp_snoop v)) ig [],
           c_igmp := fold (\<lambda>v. AList.update (v_id v) (v_igmp v)) ig []\<rparr>)"

definition member_port :: "string \<Rightarrow> int \<Rightarrow> port_cfg \<Rightarrow> port_cfg" where
  "member_port mode vid p =
     (let p' = p\<lparr>p_vlan_explicit := True\<rparr>
      in if mode = ''untagged'' then p'\<lparr>p_native := vid\<rparr>
         else if mode = ''tagged'' then p'\<lparr>p_tagged := p_tagged p @ [vid]\<rparr> else p')"

definition apply_member :: "vlan_cfg alist \<Rightarrow> int \<times> int \<times> string \<Rightarrow> port_cfg alist \<Rightarrow> port_cfg alist" where
  "apply_member vlans mb ports = (case mb of (slot, port, mode) \<Rightarrow>
     (case map_of vlans slot of
        None \<Rightarrow> ports
      | Some vl \<Rightarrow> if v_id vl = 0 then ports
                   else upsert default_port (member_port mode (v_id vl)) port ports))"

definition finish_members :: "pstate \<Rightarrow> pstate" where
  "finish_members s = s\<lparr>c_ports := fold (apply_member (l_vlans s)) (l_members s) (c_ports s)\<rparr>"

definition sort_tagged :: "pstate \<Rightarrow> pstate" where
  "sort_tagged s = s\<lparr>c_ports := map (\<lambda>(i, p). (i, p\<lparr>p_tagged := sort (p_tagged p)\<rparr>)) (c_ports s)\<rparr>"

definition finish_ntp :: "pstate \<Rightarrow> pstate" where
  "finish_ntp s = s\<lparr>c_ntp_servers := map ntp_server
     (filter (\<lambda>e. ntp_enabled e \<and> ntp_server e \<noteq> []) (in_key_order (l_ntp s)))\<rparr>"

definition finish_users :: "pstate \<Rightarrow> pstate" where
  "finish_users s = s\<lparr>c_users :=
     filter (\<lambda>u. u_enabled u \<and> u_name u \<noteq> [] \<and> prefix ''$'' (u_hash u)) (in_key_order (l_users s))\<rparr>"

definition finish_ssh :: "pstate \<Rightarrow> pstate" where
  "finish_ssh s = s\<lparr>c_ssh_keys :=
     filter (\<lambda>e. k_enabled e \<and> k_type e \<noteq> [] \<and> k_value e \<noteq> []) (in_key_order (l_ssh s))\<rparr>"

definition finish_guards :: "pstate \<Rightarrow> pstate" where
  "finish_guards s = s\<lparr>c_dhcp_guards := map dhcp_guard.truncate
     (filter (\<lambda>g. g_enabled g \<and> g_server g \<noteq> [] \<and> 0 < g_vlan g) (in_key_order (l_guards s)))\<rparr>"

definition finish_acls :: "pstate \<Rightarrow> pstate" where
  "finish_acls s = s\<lparr>c_mac_acls := in_key_order (l_mac_acls s), c_ip_acls := in_key_order (l_ip_acls s)\<rparr>"

definition finish_syslog :: "pstate \<Rightarrow> pstate" where
  "finish_syslog s =
     (if l_syslog_on s \<and> l_syslog_ip s \<noteq> []
      then s\<lparr>c_syslog_hosts := [l_syslog_ip s
             @ (if l_syslog_port s \<noteq> [] \<and> l_syslog_port s \<noteq> ''514'' then '':'' @ l_syslog_port s else [])]\<rparr>
      else s)"

definition finish_timezone :: "pstate \<Rightarrow> pstate" where
  "finish_timezone s = (if c_timezone s = [] then s\<lparr>c_timezone := l_locale_tz s\<rparr> else s)"

text \<open>
  The default gateway: the code ranges over the map of gateways, in Go's unspecified order,
  here the parameter \<open>ord\<close> (any rearrangement of the map's entries).
\<close>

definition pick_gateway :: "((string \<times> string) list \<Rightarrow> (string \<times> string) list) \<Rightarrow> pstate \<Rightarrow> string \<Rightarrow> string"
where
  "pick_gateway ord s g0 =
     foldl (\<lambda>g (n, gw). if n \<in> set (l_default_route s) then gw else g) g0 (ord (l_route_gw s))"

definition finish_address :: "((string \<times> string) list \<Rightarrow> (string \<times> string) list) \<Rightarrow> pstate \<Rightarrow> pstate" where
  "finish_address ord s = (case c_address s of
     None \<Rightarrow> s
   | Some a \<Rightarrow> s\<lparr>c_address := Some (a\<lparr>a_gateway := pick_gateway ord s (a_gateway a), a_dns := sort (a_dns a)\<rparr>)\<rparr>)"

definition parse_lines :: "string \<Rightarrow> pstate" where
  "parse_lines text = foldl parse_line init_pstate (split_on LF text)"

definition resolve_groups :: "pstate \<Rightarrow> pstate" where
  "resolve_groups s = finish_timezone (finish_syslog (finish_acls (finish_guards
     (finish_ssh (finish_users (finish_ntp (sort_tagged (finish_members (finish_vlans s)))))))))"

definition resolve :: "((string \<times> string) list \<Rightarrow> (string \<times> string) list) \<Rightarrow> pstate \<Rightarrow> pstate" where
  "resolve ord s = finish_address ord (resolve_groups s)"

definition Parse :: "((string \<times> string) list \<Rightarrow> (string \<times> string) list) \<Rightarrow> string \<Rightarrow> config" where
  "Parse ord text = config.truncate (resolve ord (parse_lines text))"

section \<open>Reading a configuration\<close>

definition OutletIndexes :: "config \<Rightarrow> int list" where
  "OutletIndexes c = sorted_keys (c_outlets c)"

definition PortIndexes :: "config \<Rightarrow> int list" where
  "PortIndexes c = sorted_keys (c_ports c)"

definition VLANIDs :: "config \<Rightarrow> int list" where
  "VLANIDs c = sort (filter (\<lambda>i. 0 < i) (map v_id (c_vlans c)))"

definition Unsupported :: "(string \<times> string) list \<Rightarrow> config \<Rightarrow> (string \<times> string list) list" where
  "Unsupported features c =
     filter (\<lambda>(f, ks). ks \<noteq> [])
       (map (\<lambda>feat. (feat, sort (concat (map (\<lambda>(k, v).
            map (\<lambda>_. k @ ''='' @ v) (filter (\<lambda>(pre, f). f = feat \<and> contains k pre
               \<and> v \<noteq> [] \<and> v \<noteq> ''disabled'' \<and> v \<noteq> ''false'') features)) (c_raw c)))))
         (remdups (map snd features)))"

section \<open>ACL rules a capture has shown\<close>

definition AnyPort :: string where "AnyPort = ''1-65535''"
definition AnyIP :: string where "AnyIP = ''any''"

definition ipOrAny :: "string \<Rightarrow> bool" where
  "ipOrAny s = (s = AnyIP \<or> (case parse_cidr s of Some (ip, _) \<Rightarrow> to4 ip \<noteq> None | None \<Rightarrow> False))"

text \<open>Why a rule is not translated; the empty list of reasons is the code's \<^verbatim>\<open>""\<close>.\<close>

datatype uncaptured =
    Captured
  | UncLines "string list"
  | UncProtocol string
  | UncNoIP
  | UncBadIP
  | UncPortOnAll
  | UncPortRange
  | UncPortAndRange
  | UncVLAN int
  | UncSide mac_match

definition IPACL_Uncaptured :: "ip_acl \<Rightarrow> uncaptured" where
  "IPACL_Uncaptured a =
     (if ia_unmodelled a \<noteq> [] then UncLines (ia_unmodelled a)
      else if ia_type a \<noteq> ''ip'' \<and> ia_type a \<noteq> ''tcp'' \<and> ia_type a \<noteq> ''udp'' then UncProtocol (ia_type a)
      else if im_ip (ia_src a) = [] \<or> im_ip (ia_dst a) = [] then UncNoIP
      else if \<not> ipOrAny (im_ip (ia_src a)) \<or> \<not> ipOrAny (im_ip (ia_dst a)) then UncBadIP
      else if ia_type a = ''ip'' \<and> (im_port (ia_src a) \<noteq> 0 \<or> im_port (ia_dst a) \<noteq> 0
           \<or> im_range (ia_src a) \<noteq> [] \<or> im_range (ia_dst a) \<noteq> []) then UncPortOnAll
      else if (im_range (ia_src a) \<noteq> [] \<and> im_range (ia_src a) \<noteq> AnyPort)
           \<or> (im_range (ia_dst a) \<noteq> [] \<and> im_range (ia_dst a) \<noteq> AnyPort) then UncPortRange
      else if (im_port (ia_src a) \<noteq> 0 \<and> im_range (ia_src a) \<noteq> [])
           \<or> (im_port (ia_dst a) \<noteq> 0 \<and> im_range (ia_dst a) \<noteq> []) then UncPortAndRange
      else Captured)"

definition mac_side_ok :: "mac_match \<Rightarrow> bool" where
  "mac_side_ok m \<longleftrightarrow> (mm_mac m = ''any'' \<and> mm_mask m = ''00:00:00:00:00:00'')
     \<or> (parse_mac (mm_mac m) \<noteq> None \<and> parse_mac (mm_mask m) \<noteq> None)"

definition MACACL_Uncaptured :: "mac_acl \<Rightarrow> uncaptured" where
  "MACACL_Uncaptured a =
     (if ma_unmodelled a \<noteq> [] then UncLines (ma_unmodelled a)
      else if ma_vlan a < 1 \<or> 4094 < ma_vlan a then UncVLAN (ma_vlan a)
      else if \<not> mac_side_ok (ma_src a) then UncSide (ma_src a)
      else if \<not> mac_side_ok (ma_dst a) then UncSide (ma_dst a)
      else Captured)"

end
