(* ===== verification/UnifiCfg_Groups.thy ===== *)
theory UnifiCfg_Groups
  imports UnifiCfg
begin

text \<open>
  How the line loop of \<open>Parse\<close> fills its numbered groups (ports, outlets, VLAN slots, DHCP
  guards, ACL rules). Every group obeys one contract, the locale \<open>line_group\<close>: a line of
  the group changes one entry by one field function, every other line leaves the group alone.
  The closed form of a group after the whole text (\<open>group_entry\<close>) and the "last line wins"
  rule for a field (\<open>group_field\<close>) are proved once in the locale and interpreted on the six
  groups of the model.
\<close>

section \<open>The text as key/value lines\<close>

definition kvs :: "string \<Rightarrow> (string \<times> string) list" where
  "kvs text = List.map_filter line_kv (split_on LF text)"

lemma foldl_parse_line: "foldl parse_line s ls = fold parse_kv (List.map_filter line_kv ls) s"
  by (induction ls arbitrary: s) (simp_all add: parse_line_def map_filter_simps split: option.splits)

lemma parse_lines_kvs: "parse_lines text = fold parse_kv (kvs text) init_pstate"
  by (simp add: parse_lines_def kvs_def foldl_parse_line)

section \<open>What each branch leaves alone\<close>

lemma address_line_frame [frame_simps]:
  "c_raw (address_line k v s) = c_raw s" "c_ports (address_line k v s) = c_ports s"
  "c_outlets (address_line k v s) = c_outlets s" "l_vlans (address_line k v s) = l_vlans s"
  "l_members (address_line k v s) = l_members s" "l_guards (address_line k v s) = l_guards s"
  "l_mac_acls (address_line k v s) = l_mac_acls s" "l_ip_acls (address_line k v s) = l_ip_acls s"
  by (simp_all add: address_line_def Let_def)

lemma misc_line_frame [frame_simps]:
  "c_raw (misc_line k v s) = c_raw s" "c_ports (misc_line k v s) = c_ports s"
  "c_outlets (misc_line k v s) = c_outlets s" "l_vlans (misc_line k v s) = l_vlans s"
  "l_members (misc_line k v s) = l_members s" "l_guards (misc_line k v s) = l_guards s"
  "l_mac_acls (misc_line k v s) = l_mac_acls s" "l_ip_acls (misc_line k v s) = l_ip_acls s"
  "c_address (misc_line k v s) = c_address s" "l_route_gw (misc_line k v s) = l_route_gw s"
  by (simp_all add: misc_line_def)

lemma scanned_line_frame [frame_simps]:
  "c_raw (scanned_line k v s) = c_raw s" "c_ports (scanned_line k v s) = c_ports s"
  "c_outlets (scanned_line k v s) = c_outlets s" "l_vlans (scanned_line k v s) = l_vlans s"
  "l_members (scanned_line k v s) = l_members s" "l_guards (scanned_line k v s) = l_guards s"
  "l_mac_acls (scanned_line k v s) = l_mac_acls s" "l_ip_acls (scanned_line k v s) = l_ip_acls s"
  "c_address (scanned_line k v s) = c_address s" "l_route_gw (scanned_line k v s) = l_route_gw s"
  by (simp_all add: scanned_line_def misc_line_frame split: option.split prod.split)

lemmas finish_defs = finish_timezone_def finish_syslog_def finish_acls_def finish_guards_def
  finish_ssh_def finish_users_def finish_ntp_def sort_tagged_def finish_members_def finish_vlans_def

lemma resolve_groups_frame [frame_simps]:
  "c_raw (resolve_groups s) = c_raw s" "c_outlets (resolve_groups s) = c_outlets s"
  "l_route_gw (resolve_groups s) = l_route_gw s" "l_default_route (resolve_groups s) = l_default_route s"
  "c_address (resolve_groups s) = c_address s" "c_stp (resolve_groups s) = c_stp s"
  by (simp_all add: resolve_groups_def finish_defs Let_def)

lemma finish_address_frame [frame_simps]:
  "c_raw (finish_address ord s) = c_raw s" "c_outlets (finish_address ord s) = c_outlets s"
  "c_ports (finish_address ord s) = c_ports s" "c_vlans (finish_address ord s) = c_vlans s"
  "c_igmp_snooping (finish_address ord s) = c_igmp_snooping s" "c_igmp (finish_address ord s) = c_igmp s"
  "c_ip_acls (finish_address ord s) = c_ip_acls s" "c_mac_acls (finish_address ord s) = c_mac_acls s"
  by (simp_all add: finish_address_def split: option.split)

section \<open>A numbered group\<close>

definition group_lines :: "(string \<Rightarrow> (int \<times> string) option) \<Rightarrow> int \<Rightarrow> (string \<times> string) list
    \<Rightarrow> (string \<times> string) list" where
  "group_lines cls n ls = List.map_filter (\<lambda>(k, v). case cls k of
     Some (m, f) \<Rightarrow> if m = n then Some (f, v) else None | None \<Rightarrow> None) ls"

text \<open>The value of the last line of a group that sets a field.\<close>

definition last_of :: "string \<Rightarrow> (string \<times> string) list \<Rightarrow> string option" where
  "last_of f fvs = map_of (rev fvs) f"

lemma last_of_simps [simp]:
  "last_of f [] = None"
  "last_of f (fvs @ [(g, v)]) = (if g = f then Some v else last_of f fvs)"
  by (simp_all add: last_of_def)

lemma group_lines_snoc:
  "group_lines cls n (ls @ [(k, v)]) = group_lines cls n ls @
     (case cls k of Some (m, f) \<Rightarrow> if m = n then [(f, v)] else [] | None \<Rightarrow> [])"
  by (simp add: group_lines_def List.map_filter_def split: option.splits prod.splits)

locale line_group =
  fixes sel :: "pstate \<Rightarrow> 'v alist"
    and cls :: "string \<Rightarrow> (int \<times> string) option"
    and dflt :: "int \<Rightarrow> 'v"
    and fld :: "string \<Rightarrow> string \<Rightarrow> 'v \<Rightarrow> 'v"
  assumes sel_init: "sel init_pstate = []"
    and sel_step: "sel (parse_kv (k, v) s) = (case cls k of
          Some (n, f) \<Rightarrow> upsert dflt (fld f v) n (sel s) | None \<Rightarrow> sel s)"
begin

abbreviation filled :: "(string \<times> string) list \<Rightarrow> 'v alist" where
  "filled ls \<equiv> sel (fold parse_kv ls init_pstate)"

lemma filled_snoc:
  "filled (ls @ [(k, v)]) = (case cls k of
     Some (n, f) \<Rightarrow> upsert dflt (fld f v) n (filled ls) | None \<Rightarrow> filled ls)"
  by (simp add: sel_step)

lemma group_distinct: "distinct (mkeys (filled ls))"
proof (induction ls rule: rev_induct)
  case Nil
  then show ?case by (simp add: sel_init)
next
  case (snoc kv ls)
  then show ?case
    by (cases kv) (auto simp: sel_step upsert_def distinct_update split: option.splits)
qed

lemma group_entry:
  "map_of (filled ls) n = (if group_lines cls n ls = [] then None
     else Some (fold (\<lambda>(f, v). fld f v) (group_lines cls n ls) (dflt n)))"
proof (induction ls rule: rev_induct)
  case Nil
  then show ?case by (simp add: sel_init group_lines_def)
next
  case (snoc kv ls)
  then show ?case
    by (cases kv)
      (auto simp: sel_step group_lines_snoc upsert_def mget_def split: option.splits if_splits)
qed

text \<open>A field that one kind of line sets outright holds what the last such line says.\<close>

lemma fold_last:
  assumes "\<And>f v x. proj (fld f v x) = (if f = f0 then g v else proj x)"
  shows "proj (fold (\<lambda>(f, v). fld f v) fvs x) =
     (case last_of f0 fvs of Some v \<Rightarrow> g v | None \<Rightarrow> proj x)"
  by (induction fvs rule: rev_induct) (auto simp: assms split: option.splits)

lemma group_field:
  assumes "\<And>f v x. proj (fld f v x) = (if f = f0 then g v else proj x)"
    and "map_of (filled ls) n = Some e"
  shows "proj e = (case last_of f0 (group_lines cls n ls) of Some v \<Rightarrow> g v | None \<Rightarrow> proj (dflt n))"
  using assms(2) fold_last[of proj, OF assms(1)] by (auto simp: group_entry split: if_splits)

text \<open>A projection no line touches keeps its default.\<close>

lemma group_const:
  assumes "\<And>f v x. proj (fld f v x) = proj x" and "map_of (filled ls) n = Some e"
  shows "proj e = proj (dflt n)"
proof -
  have "proj (fold (\<lambda>(f, v). fld f v) fvs x) = proj x" for fvs x
    by (induction fvs rule: rev_induct) (auto simp: assms(1))
  with assms(2) show ?thesis by (auto simp: group_entry split: if_splits)
qed

end

section \<open>The six groups of the model\<close>

definition port_key :: "string \<Rightarrow> (int \<times> string) option" where
  "port_key k = (case key_class k of KPort n f \<Rightarrow> Some (n, f) | _ \<Rightarrow> None)"

definition outlet_key :: "string \<Rightarrow> (int \<times> string) option" where
  "outlet_key k = (case key_class k of KOutlet n f \<Rightarrow> Some (n, f) | _ \<Rightarrow> None)"

definition vlan_key :: "string \<Rightarrow> (int \<times> string) option" where
  "vlan_key k = (case key_class k of KVlan n f \<Rightarrow> Some (n, f) | _ \<Rightarrow> None)"

definition guard_key :: "string \<Rightarrow> (int \<times> string) option" where
  "guard_key k = (case key_class k of KGuard n f \<Rightarrow> Some (n, f) | _ \<Rightarrow> None)"

definition mac_acl_key :: "string \<Rightarrow> (int \<times> string) option" where
  "mac_acl_key k = (case key_class k of KMacAcl n f \<Rightarrow> Some (n, f) | _ \<Rightarrow> None)"

definition ip_acl_key :: "string \<Rightarrow> (int \<times> string) option" where
  "ip_acl_key k = (case key_class k of KIpAcl n f \<Rightarrow> Some (n, f) | _ \<Rightarrow> None)"

lemmas group_key_defs = port_key_def outlet_key_def vlan_key_def guard_key_def mac_acl_key_def
  ip_acl_key_def

interpretation ports: line_group c_ports port_key default_port port_field
  by unfold_locales
    (simp_all add: init_pstate_def parse_kv_def store_def group_key_defs frame_simps split: key_class.split)

interpretation outlets: line_group c_outlets outlet_key default_outlet outlet_field
  by unfold_locales
    (simp_all add: init_pstate_def parse_kv_def store_def group_key_defs frame_simps split: key_class.split)

interpretation vlans: line_group l_vlans vlan_key "\<lambda>_. new_vlan" vlan_field
  by unfold_locales
    (simp_all add: init_pstate_def parse_kv_def store_def group_key_defs frame_simps split: key_class.split)

interpretation guards: line_group l_guards guard_key "\<lambda>_. zero_guard" guard_field
  by unfold_locales
    (simp_all add: init_pstate_def parse_kv_def store_def group_key_defs frame_simps split: key_class.split)

interpretation mac_acls: line_group l_mac_acls mac_acl_key "\<lambda>_. zero_mac_acl" mac_acl_field
  by unfold_locales
    (simp_all add: init_pstate_def parse_kv_def store_def group_key_defs frame_simps split: key_class.split)

interpretation ip_acls: line_group l_ip_acls ip_acl_key "\<lambda>_. zero_ip_acl" ip_acl_field
  by unfold_locales
    (simp_all add: init_pstate_def parse_kv_def store_def group_key_defs frame_simps split: key_class.split)

end
