(* ===== verification/UnifiCfg_Props.thy ===== *)
theory UnifiCfg_Props
  imports UnifiCfg_Groups
begin

text \<open>
  What \<open>Parse\<close> guarantees: the meaning of each group in terms of the text's own lines, the
  invariant of every configuration it returns (\<open>config_wf\<close>), the resolution of the VLAN
  memberships, and when its result is independent of Go's map order.
\<close>

section \<open>Definitions\<close>

definition port_lines :: "int \<Rightarrow> string \<Rightarrow> (string \<times> string) list" where
  "port_lines n text = group_lines port_key n (kvs text)"

definition outlet_lines :: "int \<Rightarrow> string \<Rightarrow> (string \<times> string) list" where
  "outlet_lines n text = group_lines outlet_key n (kvs text)"

text \<open>The membership lines of a port that resolve to a VLAN: mode and VLAN id, in text order.\<close>

definition resolved_member :: "vlan_cfg alist \<Rightarrow> int \<Rightarrow> int \<times> int \<times> string \<Rightarrow> (string \<times> int) option" where
  "resolved_member vlans n mb = (case mb of (slot, port, mode) \<Rightarrow>
     if port \<noteq> n then None
     else case map_of vlans slot of None \<Rightarrow> None
       | Some vl \<Rightarrow> if v_id vl = 0 then None else Some (mode, v_id vl))"

definition port_members :: "int \<Rightarrow> string \<Rightarrow> (string \<times> int) list" where
  "port_members n text = (let s = parse_lines text in
     List.map_filter (resolved_member (l_vlans s) n) (l_members s))"

definition port_wf :: "int list \<Rightarrow> int \<Rightarrow> port_cfg \<Rightarrow> bool" where
  "port_wf ids i p \<longleftrightarrow> p_index p = i \<and> sorted (p_tagged p)
     \<and> list_all (\<lambda>v. v \<noteq> 0 \<and> v \<in> set ids) (p_tagged p)
     \<and> (p_native p = 0 \<or> p_native p \<in> set ids)
     \<and> (p_vlan_explicit p \<or> (p_native p = 0 \<and> p_tagged p = []))"

definition config_wf :: "config \<Rightarrow> bool" where
  "config_wf c \<longleftrightarrow> distinct (mkeys (c_ports c)) \<and> distinct (mkeys (c_outlets c))
     \<and> distinct (mkeys (c_raw c))
     \<and> list_all (\<lambda>(i, p). port_wf (map v_id (c_vlans c)) i p) (c_ports c)
     \<and> list_all (\<lambda>(i, o'). o_index o' = i) (c_outlets c)
     \<and> list_all (\<lambda>i. i \<in> set (map v_id (c_vlans c)) \<and> 0 < i) (mkeys (c_igmp_snooping c))
     \<and> mkeys (c_igmp c) = mkeys (c_igmp_snooping c)"

definition default_gateways :: "string \<Rightarrow> (string \<times> string) list" where
  "default_gateways text = (let s = parse_lines text in
     filter (\<lambda>(n, _). n \<in> set (l_default_route s)) (l_route_gw s))"

definition is_map_order :: "((string \<times> string) list \<Rightarrow> (string \<times> string) list) \<Rightarrow> bool" where
  "is_map_order ord \<longleftrightarrow> (\<forall>m. set (ord m) = set m \<and> distinct (ord m) = distinct m)"

definition to_crlf :: "string \<Rightarrow> string" where
  "to_crlf = replace_char LF [CR, LF]"

section \<open>The configuration after resolution\<close>

lemma resolve_vlans_ports:
  "c_vlans (resolve ord s) = in_key_order (l_vlans s)"
  "c_igmp_snooping (resolve ord s) = fold (\<lambda>v. AList.update (v_id v) (v_igmp_snoop v))
      (filter (\<lambda>v. v_igmp_set v \<and> 0 < v_id v) (in_key_order (l_vlans s))) []"
  "c_igmp (resolve ord s) = fold (\<lambda>v. AList.update (v_id v) (v_igmp v))
      (filter (\<lambda>v. v_igmp_set v \<and> 0 < v_id v) (in_key_order (l_vlans s))) []"
  "c_ports (resolve ord s) = map (\<lambda>(i, p). (i, p\<lparr>p_tagged := sort (p_tagged p)\<rparr>))
      (fold (apply_member (l_vlans s)) (l_members s) (c_ports s))"
  by (simp_all add: resolve_def frame_simps resolve_groups_def finish_defs Let_def)

lemma Parse_sel:
  "c_raw (Parse ord t) = c_raw (parse_lines t)" "c_outlets (Parse ord t) = c_outlets (parse_lines t)"
  "c_vlans (Parse ord t) = in_key_order (l_vlans (parse_lines t))"
  "c_ports (Parse ord t) = map (\<lambda>(i, p). (i, p\<lparr>p_tagged := sort (p_tagged p)\<rparr>))
     (fold (apply_member (l_vlans (parse_lines t))) (l_members (parse_lines t)) (c_ports (parse_lines t)))"
  by (simp_all add: Parse_def config.defs resolve_vlans_ports resolve_def frame_simps
      del: resolve_vlans_ports)
    (simp_all add: resolve_groups_def finish_defs Let_def)

lemma set_in_key_order: "set (in_key_order m) = {v. \<exists>k. map_of m k = Some v}"
proof -
  have "set (in_key_order m) = {v. \<exists>k \<in> set (mkeys m). map_of m k = Some v}"
    by (force simp: in_key_order_def List.map_filter_def)
  then show ?thesis by (auto simp del: set_map dest: mlookup_in_keys)
qed

text \<open>Memberships change a port's VLAN fields only, one port at a time.\<close>

lemma apply_member_entry:
  "map_of (apply_member vlans mb ports) n = (case resolved_member vlans n mb of
     None \<Rightarrow> map_of ports n
   | Some (mode, vid) \<Rightarrow> Some (member_port mode vid (mget (default_port n) ports n)))"
  by (auto simp: apply_member_def resolved_member_def upsert_def mget_def split: prod.split option.split)

lemma members_entry:
  "map_of (fold (apply_member vlans) mbs ports) n =
    (if List.map_filter (resolved_member vlans n) mbs = [] then map_of ports n
     else Some (fold (\<lambda>(mode, vid). member_port mode vid)
       (List.map_filter (resolved_member vlans n) mbs) (mget (default_port n) ports n)))"
proof (induction mbs rule: rev_induct)
  case Nil
  then show ?case by (simp add: map_filter_simps)
next
  case (snoc mb mbs)
  then show ?case
    by (auto simp: apply_member_entry List.map_filter_def mget_def split: option.splits prod.splits)
qed

lemma member_port_other [simp]:
  "p_enabled (member_port m v p) = p_enabled p" "p_index (member_port m v p) = p_index p"
  "p_vlan_explicit (member_port m v p)"
  by (simp_all add: member_port_def Let_def)

lemma fold_member_other:
  "p_enabled (fold (\<lambda>(m, v). member_port m v) ms p) = p_enabled p"
  "p_index (fold (\<lambda>(m, v). member_port m v) ms p) = p_index p"
  by (induction ms arbitrary: p) auto

lemma fold_member_vlans:
  "p_tagged (fold (\<lambda>(m, v). member_port m v) ms p) =
     p_tagged p @ map snd (filter (\<lambda>(m, v). m = ''tagged'') ms)"
  "p_native (fold (\<lambda>(m, v). member_port m v) ms p) =
     (case map_of (rev ms) ''untagged'' of Some v \<Rightarrow> v | None \<Rightarrow> p_native p)"
  "p_vlan_explicit (fold (\<lambda>(m, v). member_port m v) ms p) = (ms \<noteq> [] \<or> p_vlan_explicit p)"
  by (induction ms rule: rev_induct) (auto simp: member_port_def Let_def split: option.splits if_splits)

lemma port_field_vlans [simp]:
  "p_tagged (port_field f v p) = p_tagged p" "p_native (port_field f v p) = p_native p"
  "p_vlan_explicit (port_field f v p) = p_vlan_explicit p" "p_index (port_field f v p) = p_index p"
  by (simp_all add: port_field_def)

lemma port_field_enabled:
  "p_enabled (port_field f v p) = (if f = ''status'' then v \<noteq> ''disabled'' else p_enabled p)"
  by (simp add: port_field_def)

text \<open>The port entry of a parsed configuration, in terms of the text.\<close>

lemma Parse_port_entry:
  "map_of (c_ports (Parse ord t)) n =
    (if port_lines n t = [] \<and> port_members n t = [] then None
     else let p = fold (\<lambda>(m, v). member_port m v) (port_members n t)
                   (fold (\<lambda>(f, v). port_field f v) (port_lines n t) (default_port n))
          in Some (p\<lparr>p_tagged := sort (p_tagged p)\<rparr>))"
  unfolding Parse_sel map_of_map_vals members_entry
  by (auto simp: port_members_def port_lines_def Let_def parse_lines_kvs ports.group_entry mget_def)

lemma default_port_sel [simp]:
  "p_enabled (default_port n)" "p_index (default_port n) = n" "p_tagged (default_port n) = []"
  "p_native (default_port n) = 0" "\<not> p_vlan_explicit (default_port n)"
  by (simp_all add: default_port_def)

lemma fold_port_field_vlans [simp]:
  "p_tagged (fold (\<lambda>(f, v). port_field f v) ls p) = p_tagged p"
  "p_native (fold (\<lambda>(f, v). port_field f v) ls p) = p_native p"
  "p_vlan_explicit (fold (\<lambda>(f, v). port_field f v) ls p) = p_vlan_explicit p"
  "p_index (fold (\<lambda>(f, v). port_field f v) ls p) = p_index p"
  by (induction ls arbitrary: p) auto

lemma Parse_port_vlans:
  assumes "map_of (c_ports (Parse ord t)) n = Some p"
  shows "p_index p = n"
    and "p_vlan_explicit p \<longleftrightarrow> port_members n t \<noteq> []"
    and "p_tagged p = sort (map snd (filter (\<lambda>(m, v). m = ''tagged'') (port_members n t)))"
    and "p_native p = (case map_of (rev (port_members n t)) ''untagged'' of Some v \<Rightarrow> v | None \<Rightarrow> 0)"
  using assms
  by (auto simp: Parse_port_entry Let_def fold_member_vlans fold_member_other split: if_splits option.splits)

section \<open>Well-formed configurations\<close>

lemma distinct_apply_member:
  "distinct (mkeys ports) \<Longrightarrow> distinct (mkeys (apply_member vlans mb ports))"
  by (auto simp: apply_member_def upsert_def distinct_update split: prod.split option.split)

lemma distinct_fold_members:
  "distinct (mkeys ports) \<Longrightarrow> distinct (mkeys (fold (apply_member vlans) mbs ports))"
  by (induction mbs arbitrary: ports) (auto intro: distinct_apply_member)

lemma distinct_Parse_ports: "distinct (mkeys (c_ports (Parse ord t)))"
  using distinct_fold_members[OF ports.group_distinct]
  by (simp add: Parse_sel parse_lines_kvs comp_def case_prod_beta)

lemma port_members_ids:
  "(m, v) \<in> set (port_members n t) \<Longrightarrow> v \<noteq> 0 \<and> v \<in> set (map v_id (c_vlans (Parse ord t)))"
  by (force simp: port_members_def Let_def List.map_filter_def resolved_member_def Parse_sel
      set_in_key_order split: if_splits option.splits)

lemma Parse_port_wf:
  assumes "map_of (c_ports (Parse ord t)) n = Some p"
  shows "port_wf (map v_id (c_vlans (Parse ord t))) n p"
proof -
  note V = Parse_port_vlans[OF assms]
  have tagged: "list_all (\<lambda>v. v \<noteq> 0 \<and> v \<in> set (map v_id (c_vlans (Parse ord t)))) (p_tagged p)"
    using port_members_ids[of _ _ n t ord] by (auto simp: V(3) list_all_iff)
  have native: "p_native p = 0 \<or> p_native p \<in> set (map v_id (c_vlans (Parse ord t)))"
    using port_members_ids[of "''untagged''" _ n t ord]
    by (auto simp: V(4) dest!: map_of_SomeD split: option.split simp del: set_map)
  have plain: "p_vlan_explicit p \<or> p_native p = 0 \<and> p_tagged p = []"
    by (auto simp: V(2-4))
  from V(1) tagged native plain show ?thesis
    unfolding port_wf_def V(3) by simp
qed

lemma distinct_raw: "distinct (mkeys (c_raw (fold parse_kv ls init_pstate)))"
proof (induction ls rule: rev_induct)
  case Nil
  then show ?case by (simp add: init_pstate_def)
next
  case (snoc kv ls)
  then show ?case
    by (auto simp: parse_kv_def store_def frame_simps distinct_update split: key_class.split)
qed

lemma fold_update_keys:
  assumes "mkeys m = mkeys m'"
  shows "mkeys (fold (\<lambda>v. AList.update (key v) (f v)) vs m) = mkeys (fold (\<lambda>v. AList.update (key v) (g v)) vs m')"
  using assms by (induction vs arbitrary: m m') (auto simp: update_keys)

lemma set_fold_update:
  "set (mkeys (fold (\<lambda>v. AList.update (key v) (f v)) vs m)) = set (map key vs) \<union> set (mkeys m)"
  by (induction vs arbitrary: m) (auto simp del: set_map simp: image_set)

lemma outlet_field_index [simp]: "o_index (outlet_field f v x) = o_index x"
  by (simp add: outlet_field_def)

lemma outlet_index:
  "map_of (c_outlets (Parse ord t)) n = Some x \<Longrightarrow> o_index x = n"
  using outlets.group_const[of o_index "kvs t" n x]
  by (simp add: Parse_sel parse_lines_kvs default_outlet_def)

lemma map_of_entries:
  "distinct (mkeys m) \<Longrightarrow> (i, x) \<in> set m \<Longrightarrow> map_of m i = Some x"
  by (simp add: map_of_eq_Some_iff)

text \<open>
  C25. Every configuration \<open>Parse\<close> returns is well formed, whatever the text: its maps
  have one entry per key, every port entry carries its own index, its tagged VLANs are
  sorted, and each VLAN a port carries, tagged or native, is a non-zero id of the pushed
  VLAN list; IGMP settings exist exactly for the snooping VLANs, which are ids of that list.
\<close>

theorem parse_config_wf: "config_wf (Parse ord t)"
proof -
  have ports: "list_all (\<lambda>(i, p). port_wf (map v_id (c_vlans (Parse ord t))) i p) (c_ports (Parse ord t))"
    using map_of_entries[OF distinct_Parse_ports] Parse_port_wf by (fastforce simp: list_all_iff)
  have do: "distinct (mkeys (c_outlets (Parse ord t)))"
    using outlets.group_distinct by (simp add: Parse_sel parse_lines_kvs)
  then have outs: "list_all (\<lambda>(i, x). o_index x = i) (c_outlets (Parse ord t))"
    by (auto simp: list_all_iff intro: outlet_index[of ord t] map_of_entries)
  have ig: "mkeys (c_igmp (Parse ord t)) = mkeys (c_igmp_snooping (Parse ord t))"
    by (simp add: Parse_def config.defs resolve_vlans_ports fold_update_keys[of "[]" "[]"])
  have "set (mkeys (c_igmp_snooping (Parse ord t))) \<subseteq> {i. i \<in> set (map v_id (c_vlans (Parse ord t))) \<and> 0 < i}"
    unfolding Parse_def config.defs config.simps resolve_vlans_ports set_fold_update by auto
  with ports do outs ig distinct_Parse_ports show ?thesis
    by (auto simp: config_wf_def Parse_sel(1) parse_lines_kvs distinct_raw list_all_iff simp del: set_map)
qed

section \<open>Ports and outlets mean what the text says\<close>

text \<open>
  A port is enabled exactly when the last \<^verbatim>\<open>switch.port.N.status\<close> line of the push, if
  there is one, is not \<open>disabled\<close>: lines of other ports, other fields, VLAN memberships and
  repeated keys never switch a port off, and a port the push does not speak about is on.
\<close>

theorem parse_port_enabled:
  assumes "map_of (c_ports (Parse ord t)) n = Some p"
  shows "p_enabled p \<longleftrightarrow> last_of ''status'' (port_lines n t) \<noteq> Some ''disabled''"
proof -
  have "p_enabled (fold (\<lambda>(f, v). port_field f v) (port_lines n t) (default_port n))
      = (case last_of ''status'' (port_lines n t) of Some v \<Rightarrow> v \<noteq> ''disabled'' | None \<Rightarrow> True)"
    using ports.fold_last[of p_enabled "''status''" "\<lambda>v. v \<noteq> ''disabled''", OF port_field_enabled]
    by (simp split: option.split)
  with assms show ?thesis
    by (auto simp: Parse_port_entry Let_def fold_member_other split: if_splits option.splits)
qed

definition two_status_text :: string where
  "two_status_text = ''switch.port.3.status=disabled'' @ [LF] @ ''switch.port.3.name=up'' @ [LF]
     @ ''switch.port.4.status=disabled'' @ [LF] @ ''switch.port.3.status=enabled''"

lemma parse_port_enabled_witness:
  "map_of (c_ports (Parse id two_status_text)) 3 = Some ((default_port 3)\<lparr>p_name := ''up''\<rparr>)
   \<and> last_of ''status'' (port_lines 3 two_status_text) \<noteq> Some ''disabled''"
proof -
  have h: "map_of (c_ports (Parse id two_status_text)) 3 = Some ((default_port 3)\<lparr>p_name := ''up''\<rparr>)"
    by code_simp
  then show ?thesis using parse_port_enabled[OF h] by (simp add: default_port_def)
qed

text \<open>
  C26. The VLANs of a parsed port: it has explicit membership exactly when some membership
  line names it with a slot whose VLAN id is set, its tagged list is the sorted list of the
  ids those lines tag, and its native VLAN is the id of the last untagged one, or none (0).
\<close>

theorem parse_port_vlans:
  assumes "map_of (c_ports (Parse ord t)) n = Some p"
  shows "(p_vlan_explicit p \<longleftrightarrow> port_members n t \<noteq> [])
    \<and> p_tagged p = sort (map snd (filter (\<lambda>(m, v). m = ''tagged'') (port_members n t)))
    \<and> p_native p = (case map_of (rev (port_members n t)) ''untagged'' of Some v \<Rightarrow> v | None \<Rightarrow> 0)"
  using Parse_port_vlans[OF assms] by simp

definition vlan_text :: string where
  "vlan_text = ''switch.vlan.1.port.2.mode=tagged'' @ [LF] @ ''switch.vlan.2.port.2.mode=untagged'' @ [LF]
     @ ''switch.vlan.3.port.2.mode=tagged'' @ [LF] @ ''switch.vlan.1.id=30'' @ [LF]
     @ ''switch.vlan.2.id=7'' @ [LF] @ ''switch.vlan.3.id=20''"

lemma parse_port_vlans_witness:
  "\<exists>p. map_of (c_ports (Parse id vlan_text)) 2 = Some p \<and> p_tagged p = [20, 30] \<and> p_native p = 7"
proof -
  define p where "p = (default_port 2)\<lparr>p_vlan_explicit := True, p_native := 7, p_tagged := [20, 30]\<rparr>"
  have h: "map_of (c_ports (Parse id vlan_text)) 2 = Some p"
    unfolding p_def by code_simp
  have m: "port_members 2 vlan_text = [(''tagged'', 30), (''untagged'', 7), (''tagged'', 20)]"
    by code_simp
  from parse_port_vlans[OF h] have "p_tagged p = [20, 30] \<and> p_native p = 7"
    by (simp add: m)
  with h show ?thesis by blast
qed

lemma outlet_field_relay:
  "o_relay_on (outlet_field f v x) = (if f = ''relay_state'' then v \<noteq> ''disabled'' else o_relay_on x)"
  by (simp add: outlet_field_def)

text \<open>
  An outlet is asked off only by an explicit line: the intent for an outlet is "off"
  exactly when the last \<^verbatim>\<open>outlet.N.relay_state\<close> line of the push says \<open>disabled\<close>; a missing
  key, a name line or another outlet's line never switches a load off.
\<close>

theorem parse_outlet_off_only_when_said:
  assumes "map_of (c_outlets (Parse ord t)) n = Some x"
  shows "\<not> o_relay_on x \<longleftrightarrow> last_of ''relay_state'' (outlet_lines n t) = Some ''disabled''"
  using outlets.group_field[of o_relay_on "''relay_state''" "\<lambda>v. v \<noteq> ''disabled''" "kvs t" n x,
      OF outlet_field_relay] assms
  by (auto simp: Parse_sel parse_lines_kvs outlet_lines_def default_outlet_def split: option.splits)

lemma parse_outlet_off_only_when_said_witness:
  "map_of (c_outlets (Parse id ''outlet.5.name=nas'')) 5 = Some ((default_outlet 5)\<lparr>o_name := ''nas''\<rparr>)
   \<and> last_of ''relay_state'' (outlet_lines 5 ''outlet.5.name=nas'') \<noteq> Some ''disabled''"
proof -
  have h: "map_of (c_outlets (Parse id ''outlet.5.name=nas'')) 5 = Some ((default_outlet 5)\<lparr>o_name := ''nas''\<rparr>)"
    by code_simp
  then show ?thesis using parse_outlet_off_only_when_said[OF h] by (simp add: default_outlet_def)
qed

section \<open>Line endings and map order\<close>

lemma line_kv_CR: "line_kv (l @ [CR]) = line_kv l"
  by (simp add: line_kv_def trim_right_app)

lemma split_on_to_crlf:
  "\<exists>ls l. split_on LF t = ls @ [l] \<and> split_on LF (to_crlf t) = map (\<lambda>x. x @ [CR]) ls @ [l]"
proof (induction t)
  case Nil
  then show ?case by (simp add: to_crlf_def replace_char_def)
next
  case (Cons c t)
  then obtain ls l where sp: "split_on LF t = ls @ [l]"
    and sc: "split_on LF (to_crlf t) = map (\<lambda>x. x @ [CR]) ls @ [l]" by blast
  show ?case
  proof (cases "c = LF")
    case True
    with sp sc have "split_on LF (c # t) = ([] # ls) @ [l]"
      "split_on LF (to_crlf (c # t)) = map (\<lambda>x. x @ [CR]) ([] # ls) @ [l]"
      by (simp_all add: to_crlf_def replace_char_def)
    then show ?thesis by blast
  next
    case False
    then have tc: "to_crlf (c # t) = c # to_crlf t" by (simp add: to_crlf_def replace_char_def)
    show ?thesis
    proof (cases ls)
      case Nil
      with sp sc False show ?thesis by (intro exI[of _ "[]"] exI[of _ "c # l"]) (simp add: tc)
    next
      case (Cons x xs)
      with sp sc False show ?thesis
        by (intro exI[of _ "(c # x) # xs"] exI[of _ l]) (simp add: tc)
    qed
  qed
qed

lemma kvs_crlf: "kvs (to_crlf t) = kvs t"
  using split_on_to_crlf[of t]
  by (auto simp: kvs_def List.map_filter_def comp_def line_kv_CR filter_map)

text \<open>
  Line endings do not matter: a push whose lines end in CR LF parses to the same
  configuration as the same push with bare LF.
\<close>

theorem parse_crlf: "Parse ord (to_crlf t) = Parse ord t"
  by (simp add: Parse_def parse_lines_kvs kvs_crlf)

lemma gateway_fold:
  "foldl (\<lambda>g (n, gw). if P n then gw else g) g0 m =
     (if filter (\<lambda>x. P (fst x)) m = [] then g0 else snd (last (filter (\<lambda>x. P (fst x)) m)))"
  by (induction m rule: rev_induct) auto

lemma at_most_one:
  assumes "set xs = set ys" and "distinct xs" and "distinct ys" and "length ys \<le> 1"
  shows "xs = ys"
proof -
  have "length xs = length ys"
    using assms(1-3) by (metis distinct_card)
  with assms show ?thesis by (cases ys; cases xs) auto
qed

lemma pick_gateway_order:
  assumes "is_map_order ord" and "distinct (mkeys (l_route_gw s))"
    and "length (filter (\<lambda>(n, _). n \<in> set (l_default_route s)) (l_route_gw s)) \<le> 1"
  shows "pick_gateway ord s g0 = pick_gateway id s g0"
proof -
  let ?P = "\<lambda>n. n \<in> set (l_default_route s)" and ?m = "l_route_gw s"
  have d: "distinct ?m" using assms(2) by (simp add: distinct_map)
  have "filter (\<lambda>x. ?P (fst x)) (ord ?m) = filter (\<lambda>x. ?P (fst x)) ?m"
    using assms(1) d assms(3)
    by (intro at_most_one) (auto simp: is_map_order_def case_prod_unfold)
  then show ?thesis by (simp add: pick_gateway_def gateway_fold)
qed

lemma distinct_route_gw: "distinct (mkeys (l_route_gw (fold parse_kv ls init_pstate)))"
proof (induction ls rule: rev_induct)
  case Nil
  then show ?case by (simp add: init_pstate_def)
next
  case (snoc kv ls)
  then show ?case
    by (auto simp: parse_kv_def store_def address_line_def Let_def frame_simps distinct_update
        split: key_class.split)
qed

lemma resolve_order:
  assumes "pick_gateway ord s = pick_gateway ord' s"
  shows "resolve ord s = resolve ord' s"
proof -
  have "pick_gateway ord (resolve_groups s) = pick_gateway ord' (resolve_groups s)"
    using assms by (simp add: pick_gateway_def frame_simps fun_eq_iff)
  then show ?thesis by (simp add: resolve_def finish_address_def split: option.split)
qed

text \<open>
  C27. \<open>Parse\<close> is a function of the text when the push names at most one default route: the
  configuration does not depend on the order in which Go ranges over the map of gateways.
\<close>

theorem parse_map_order_independent:
  assumes "is_map_order ord" and "length (default_gateways t) \<le> 1"
  shows "Parse ord t = Parse id t"
proof -
  have pick: "pick_gateway ord (parse_lines t) = pick_gateway id (parse_lines t)"
    using pick_gateway_order[OF assms(1), of "parse_lines t"] assms(2) distinct_route_gw
    by (simp add: default_gateways_def Let_def parse_lines_kvs fun_eq_iff)
  show ?thesis unfolding Parse_def by (simp only: resolve_order[OF pick])
qed

definition one_route_text :: string where
  "one_route_text = ''netconf.1.ip=192.0.2.7'' @ [LF] @ ''route.1.gateway=192.0.2.1'' @ [LF]
     @ ''route.1.ip=0.0.0.0'' @ [LF] @ ''route.2.gateway=192.0.2.9''"

lemma parse_map_order_independent_witness:
  "is_map_order rev \<and> length (default_gateways one_route_text) \<le> 1
   \<and> Parse rev one_route_text = Parse id one_route_text
   \<and> map_option a_gateway (c_address (Parse rev one_route_text)) = Some ''192.0.2.1''"
proof -
  have h1: "is_map_order rev" by (simp add: is_map_order_def)
  have h2: "length (default_gateways one_route_text) \<le> 1" by code_simp
  have g: "map_option a_gateway (c_address (Parse id one_route_text)) = Some ''192.0.2.1''"
    by code_simp
  show ?thesis using h1 h2 g parse_map_order_independent[OF h1 h2] by simp
qed

definition two_routes_text :: string where
  "two_routes_text = ''route.1.gateway=192.0.2.1'' @ [LF] @ ''route.1.ip=0.0.0.0'' @ [LF]
     @ ''route.2.gateway=192.0.2.9'' @ [LF] @ ''route.2.ip=0.0.0.0''"

text \<open>
  With two default routes the gateway is whichever entry Go's map iteration visits last:
  the same push parses to two different gateways under two map orders.
\<close>

theorem parse_two_routes_depend_on_order:
  "map_option a_gateway (c_address (Parse id two_routes_text)) = Some ''192.0.2.9''
   \<and> map_option a_gateway (c_address (Parse rev two_routes_text)) = Some ''192.0.2.1''
   \<and> is_map_order id \<and> is_map_order rev"
proof -
  have "map_option a_gateway (c_address (Parse id two_routes_text)) = Some ''192.0.2.9''"
    by code_simp
  moreover have "map_option a_gateway (c_address (Parse rev two_routes_text)) = Some ''192.0.2.1''"
    by code_simp
  ultimately show ?thesis by (simp add: is_map_order_def)
qed

text \<open>
  A push with no \<^verbatim>\<open>netconf\<close> line at all still yields address settings: a route or a
  nameserver line alone makes \<open>Address\<close> non-nil, with neither an address nor DHCP.
\<close>

theorem parse_address_without_netconf:
  "c_address (Parse id ''resolv.nameserver.1.ip=192.0.2.53'')
     = Some (zero_address\<lparr>a_dns := [''192.0.2.53'']\<rparr>)"
  by code_simp

end
