(* ===== verification/DeviceModel.thy ===== *)
theory DeviceModel
  imports Complex_Main "HOL-Library.Word" GoLib
begin

text \<open>
  \<^verbatim>\<open>internal/devicemodel/model.go\<close>: the vendor-neutral model drivers fill and the loop reads.
  The structs are records with the fields the modelled code reads or writes; a Go float64 is a
  real number (no rounding), a counter is a 64-bit word, a time is a count of nanoseconds.
\<close>

section \<open>What the controller wants\<close>

datatype fec = FECUnknown | FECDisabled | FECRS | FECFC

record storm_spec =
  bcast_pct :: "real option"
  mcast_pct :: "real option"
  ucast_pct :: "real option"

record port_desired =
  pd_index :: int
  pd_enabled :: bool
  pd_description :: string
  pd_speed :: int
  pd_vlan_set :: bool
  pd_native :: int
  pd_tagged_all :: bool
  pd_tagged :: "int list"
  pd_fec :: "fec option"
  pd_storm :: "storm_spec option"
  pd_bpdu :: bool
  pd_stp_edge :: bool
  pd_edge_mode :: string
  pd_loop_protect :: bool
  pd_lag :: int
  pd_mirror :: int
  pd_mtu :: int

record igmp_vlan =
  iv_querier :: bool
  iv_querier_addr :: string
  iv_fast_leave :: bool
  iv_max_response :: int
  iv_membership :: int
  iv_router_expiry :: int
  iv_suppression :: bool
  iv_flood_unknown :: "bool option"

record dm_guard =
  dg_vlan :: int
  dg_server :: string

record ip_end =
  ie_cidr :: string
  ie_port :: int
  ie_min :: int
  ie_max :: int

record dm_ipacl =
  di_name :: string
  di_permit :: bool
  di_proto :: string
  di_src :: ip_end
  di_dst :: ip_end

record mac_end =
  me_mac :: string
  me_mask :: string

record dm_macacl =
  dmac_name :: string
  dmac_permit :: bool
  dmac_vlan :: int
  dmac_src :: mac_end
  dmac_dst :: mac_end

record device_desired =
  dd_stp_set :: bool
  dd_stp_enabled :: bool
  dd_stp_mode :: string
  dd_stp_priority :: int
  dd_igmp_snooping :: "bool alist"
  dd_igmp :: "igmp_vlan alist"
  dd_igmp_flood :: "bool option"
  dd_igmp_unknown :: "bool option"
  dd_ntp :: "string list"
  dd_syslog :: "string list"
  dd_manage_ntp :: bool
  dd_manage_syslog :: bool
  dd_dhcp_snoop :: "bool option"
  dd_guards :: "dm_guard list"
  dd_ipacl_set :: bool
  dd_ipacls :: "dm_ipacl list"
  dd_macacl_set :: bool
  dd_macacls :: "dm_macacl list"
  dd_snmp_set :: bool
  dd_snmp_community :: string
  dd_timezone :: string
  dd_hostname :: string

record ssh_key =
  sk_type :: string
  sk_value :: string
  sk_comment :: string

record outlet_desired =
  od_index :: int
  od_on :: bool
  od_name :: string

record address_desired =
  ad_dhcp :: bool
  ad_ip :: string
  ad_prefix :: int
  ad_gateway :: string
  ad_dns :: "string list"

section \<open>What the device has\<close>

record neighbor =
  nb_system :: string
  nb_chassis :: string
  nb_port :: string
  nb_bridge :: bool
  nb_router :: bool
  nb_child :: bool

record mac_entry =
  mt_mac :: string
  mt_vlan :: int
  mt_port :: int
  mt_move :: int

datatype media = MediaUnknown | MediaCopper1G | MediaCopper2G5 | MediaCopper10G | MediaSFP | MediaSFPPlus
  | MediaSFP28 | MediaQSFPPlus | MediaQSFP28

record port_vlan =
  pv_mode :: string
  pv_native :: int
  pv_all :: bool
  pv_allowed :: "int list"

record lacp =
  la_active :: bool
  la_partner :: string

record dm_port =
  po_index :: int
  po_ifname :: string
  po_interfaces :: "string list"
  po_description :: string
  po_media :: media
  po_lanes :: int
  po_enabled :: bool
  po_fault :: string
  po_up :: bool
  po_neighbor :: "neighbor option"
  po_admin_speed :: int
  po_lanes_diverge :: bool
  po_vlan :: port_vlan
  po_lag :: string
  po_lag_id :: int
  po_lacp :: "lacp option"
  po_mirror_from :: int
  po_fec_config :: fec
  po_bpdu_guard :: bool
  po_stp_edge :: bool
  po_storm :: "storm_spec option"
  po_macs :: "mac_entry list"

record oob_interface =
  oob_name :: string
  oob_up :: bool
  oob_ip :: string
  oob_admin_down :: bool

record battery =
  b_on_battery :: bool
  b_charging :: bool
  b_low_battery :: bool
  b_overload :: bool
  b_output_off :: bool
  b_bypass :: bool
  b_testing :: bool
  b_calibrating :: bool
  b_eco :: bool
  b_boost :: bool
  b_trim :: bool
  b_fault :: bool
  b_input_bad :: bool
  b_low_runtime :: bool
  b_test_result :: string
  b_charge_pct :: int
  b_runtime :: int
  b_voltage_v :: real
  b_temp_c :: real
  b_has_temp :: bool
  b_load_pct :: real
  b_real_power_w :: real
  b_apparent_va :: real
  b_real_rating_w :: real
  b_apparent_rating_va :: real
  b_output_v :: real
  b_output_a :: real
  b_output_hz :: real
  b_has_output :: bool
  b_input_v :: real
  b_has_input :: bool
  b_efficiency :: real
  b_has_efficiency :: bool
  b_transfer_high :: int
  b_transfer_low :: int
  b_shutdown_delay :: int
  b_transfer_cause :: string

record dm_outlet =
  ou_index :: int
  ou_name :: string
  ou_on :: bool
  ou_switchable :: bool

record if_address =
  ifa_iface :: string
  ifa_ip :: string
  ifa_prefix :: int

record system =
  sy_vendor :: string
  sy_model :: string
  sy_sku :: string
  sy_serial :: string
  sy_oob :: "oob_interface list"
  sy_addresses :: "if_address list"
  sy_arp :: "(string \<times> string) list"
  sy_gateway_mac :: string
  sy_gateway :: string
  sy_version :: string
  sy_battery :: "battery option"
  sy_stp_mode :: string
  sy_stp_priority :: int
  sy_igmp :: "bool alist"
  sy_ntp :: "string list"
  sy_syslog :: "string list"
  sy_snmp :: "string list"

record snapshot =
  sn_taken :: int
  sn_system :: system
  sn_ports :: "dm_port list"
  sn_mac_table :: "mac_entry list"
  sn_vlans :: "int list"
  sn_outlets :: "dm_outlet list"
  sn_uplink_hint :: int

text \<open>The uplink: the first live bridge neighbour that routes, else the first, else the hint.\<close>

definition is_uplink_candidate :: "dm_port \<Rightarrow> bool" where
  "is_uplink_candidate p = (case po_neighbor p of None \<Rightarrow> False
     | Some n \<Rightarrow> nb_bridge n \<and> \<not> nb_child n \<and> po_up p)"

definition port_routes :: "dm_port \<Rightarrow> bool" where
  "port_routes p = (case po_neighbor p of None \<Rightarrow> False | Some n \<Rightarrow> nb_router n)"

fun uplink_scan :: "int \<Rightarrow> dm_port list \<Rightarrow> int + int" where
  "uplink_scan best [] = Inr best"
| "uplink_scan best (p # ps) =
     (if \<not> is_uplink_candidate p then uplink_scan best ps
      else if port_routes p then Inl (po_index p)
      else uplink_scan (if best = 0 then po_index p else best) ps)"

definition UplinkPort :: "snapshot \<Rightarrow> int" where
  "UplinkPort s = (case uplink_scan 0 (sn_ports s) of
     Inl i \<Rightarrow> i | Inr best \<Rightarrow> if best = 0 then sn_uplink_hint s else best)"

type_synonym u64 = "64 word"

record counters =
  ct_rx_bytes :: u64
  ct_tx_bytes :: u64
  ct_rx_packets :: u64
  ct_tx_packets :: u64
  ct_rx_errors :: u64
  ct_tx_errors :: u64
  ct_rx_dropped :: u64
  ct_tx_dropped :: u64
  ct_rx_multicast :: u64
  ct_rx_broadcast :: u64
  ct_tx_multicast :: u64
  ct_tx_broadcast :: u64

definition Counters_Add :: "counters \<Rightarrow> counters \<Rightarrow> counters" where
  "Counters_Add c d = \<lparr>
     ct_rx_bytes = ct_rx_bytes c + ct_rx_bytes d, ct_tx_bytes = ct_tx_bytes c + ct_tx_bytes d,
     ct_rx_packets = ct_rx_packets c + ct_rx_packets d, ct_tx_packets = ct_tx_packets c + ct_tx_packets d,
     ct_rx_errors = ct_rx_errors c + ct_rx_errors d, ct_tx_errors = ct_tx_errors c + ct_tx_errors d,
     ct_rx_dropped = ct_rx_dropped c + ct_rx_dropped d, ct_tx_dropped = ct_tx_dropped c + ct_tx_dropped d,
     ct_rx_multicast = ct_rx_multicast c + ct_rx_multicast d,
     ct_rx_broadcast = ct_rx_broadcast c + ct_rx_broadcast d,
     ct_tx_multicast = ct_tx_multicast c + ct_tx_multicast d,
     ct_tx_broadcast = ct_tx_broadcast c + ct_tx_broadcast d\<rparr>"

section \<open>Facts\<close>

text \<open>The uplink is never a port reported for a declared child device, unless it is the hint.\<close>

lemma uplink_scan_Inl:
  "uplink_scan b ps = Inl i \<Longrightarrow> \<exists>p \<in> set ps. po_index p = i \<and> is_uplink_candidate p \<and> port_routes p"
  by (induction b ps rule: uplink_scan.induct) (auto split: if_splits)

lemma uplink_scan_Inr:
  "uplink_scan b ps = Inr i \<Longrightarrow> i = b \<or> (\<exists>p \<in> set ps. po_index p = i \<and> is_uplink_candidate p)"
  by (induction b ps rule: uplink_scan.induct) (auto split: if_splits)

lemma uplink_scan_router:
  "\<exists>p \<in> set ps. is_uplink_candidate p \<and> port_routes p \<Longrightarrow> \<exists>i. uplink_scan b ps = Inl i"
  by (induction ps arbitrary: b) auto

lemma UplinkPort_cases:
  "UplinkPort s = sn_uplink_hint s \<or>
   (\<exists>p \<in> set (sn_ports s). po_index p = UplinkPort s \<and> is_uplink_candidate p)"
  using uplink_scan_Inl[of 0 "sn_ports s"] uplink_scan_Inr[of 0 "sn_ports s"]
  by (auto simp: UplinkPort_def split: sum.splits)

end
