(* ===== verification/Session.thy ===== *)
theory Session
  imports DeviceModel
begin

text \<open>
  \<^verbatim>\<open>internal/device/session.go\<close> and \<^verbatim>\<open>internal/device/state.go\<close>: the adoption state machine of
  one emulated device, the configuration pushes it holds, and the state file. The reply of the
  controller is taken after \<open>json.Unmarshal\<close> (\<open>reply\<close>); the effect vocabulary is unifi-emu's,
  and the factory default key, a constant of that package, is the parameter \<open>dk\<close>.
\<close>

section \<open>Persistent state\<close>

record state =
  st_key :: string
  st_cfgversion :: string
  st_adopted :: bool
  st_gcm :: bool
  st_inform_url :: string
  st_provisioned :: "(string \<times> string) list"
  st_system_cfg :: string
  st_pending_ver :: string
  st_pending_cfg :: string
  st_firmware :: string
  st_firmware_base :: string

definition fresh_state :: state where
  "fresh_state = \<lparr>st_key = [], st_cfgversion = [], st_adopted = False, st_gcm = False,
     st_inform_url = [], st_provisioned = [], st_system_cfg = [], st_pending_ver = [],
     st_pending_cfg = [], st_firmware = [], st_firmware_base = []\<rparr>"

text \<open>\<open>State.equal\<close>: every field, and the two maps key by key (an absent key reads as no bytes).\<close>

definition state_equal :: "state \<Rightarrow> state \<Rightarrow> bool" where
  "state_equal st o' \<longleftrightarrow>
     st_key st = st_key o' \<and> st_cfgversion st = st_cfgversion o' \<and> st_adopted st = st_adopted o'
   \<and> st_gcm st = st_gcm o' \<and> st_inform_url st = st_inform_url o'
   \<and> length (st_provisioned st) = length (st_provisioned o')
   \<and> st_system_cfg st = st_system_cfg o' \<and> st_pending_ver st = st_pending_ver o'
   \<and> st_pending_cfg st = st_pending_cfg o'
   \<and> st_firmware st = st_firmware o' \<and> st_firmware_base st = st_firmware_base o'
   \<and> list_all (\<lambda>(k, v). v = mget [] (st_provisioned o') k) (st_provisioned st)"

section \<open>The session\<close>

record session =
  ss_version :: string
  ss_ip :: string
  ss_ports :: "(int \<times> bool) list"
  ss_st :: state
  ss_store :: bool
  ss_disk :: "state option"
  ss_snap :: "snapshot option"
  ss_boot :: int
  ss_locating :: bool
  ss_pinned :: bool
  ss_gateway_ip :: string

record inform_response =
  ir_type :: string
  ir_cmd :: string
  ir_key :: string
  ir_uri :: string
  ir_interval :: int
  ir_mgmt_cfg :: string
  ir_system_cfg :: string
  ir_cfgversion :: string
  ir_version :: string
  ir_port_idx :: int
  ir_outlets :: "int list"

text \<open>The body decoded as the response struct and, for setstate, as a map of raw values.\<close>

datatype reply =
    BadReply string
  | Reply inform_response "string + (string \<times> string) list"

datatype effect_kind =
    EffectAdoptingViaSetAdopt
  | EffectAdoptingViaMgmtCfg
  | EffectFactoryReset
  | EffectRebooted
  | EffectUpgraded
  | EffectInterval
  | EffectMgmtCfg
  | EffectUnknownCmd
  | EffectUnknownType
  | EffectDecodeError
  | EffectSystemCfg
  | EffectLocate
  | EffectPortCycle
  | EffectOutletCycle

record effect =
  e_kind :: effect_kind
  e_text :: string
  e_interval :: int

definition eff :: "effect_kind \<Rightarrow> string \<Rightarrow> effect" where
  "eff k t = \<lparr>e_kind = k, e_text = t, e_interval = 0\<rparr>"

definition NewSession :: "string \<Rightarrow> string \<Rightarrow> string \<Rightarrow> (int \<times> bool) list \<Rightarrow> string \<Rightarrow> state \<Rightarrow> bool
    \<Rightarrow> int \<Rightarrow> session" where
  "NewSession dk version ip ports informURL st0 store now =
     (let st1 = (if st_key st0 = [] then st0\<lparr>st_key := dk\<rparr> else st0);
          st2 = (if st_cfgversion st1 = [] then st1\<lparr>st_cfgversion := ''0''\<rparr> else st1);
          st3 = (if st_inform_url st2 = [] then st2\<lparr>st_inform_url := informURL\<rparr> else st2);
          keep = st_firmware st3 \<noteq> [] \<and> (st_firmware_base st3 = [] \<or> st_firmware_base st3 = version);
          v = (if keep then st_firmware st3 else version);
          st4 = (if st_firmware st3 \<noteq> [] \<and> \<not> keep
                 then st3\<lparr>st_firmware := [], st_firmware_base := []\<rparr> else st3)
      in \<lparr>ss_version = v, ss_ip = ip, ss_ports = ports, ss_st = st4, ss_store = store,
          ss_disk = (if store then Some st0 else None), ss_snap = None, ss_boot = now,
          ss_locating = False, ss_pinned = False, ss_gateway_ip = []\<rparr>)"

abbreviation Adopted :: "session \<Rightarrow> bool" where
  "Adopted s \<equiv> st_adopted (ss_st s)"

definition Pending :: "session \<Rightarrow> (string \<times> string) option" where
  "Pending s = (if st_pending_cfg (ss_st s) = [] then None
     else Some (st_pending_ver (ss_st s), st_pending_cfg (ss_st s)))"

definition Applied :: "session \<Rightarrow> (string \<times> string) option" where
  "Applied s = (if st_system_cfg (ss_st s) = [] then None
     else Some (st_cfgversion (ss_st s), st_system_cfg (ss_st s)))"

text \<open>
  Writing the state file, when there is one: \<open>save\<close> says whether the write fails (the error
  text); a failed write leaves the old file (\<open>Store.Save\<close> replaces it by a rename).
\<close>

definition persist :: "(state \<Rightarrow> string option) \<Rightarrow> session \<Rightarrow> session \<times> string option" where
  "persist save s =
     (if ss_store s then (case save (ss_st s) of
        None \<Rightarrow> (s\<lparr>ss_disk := Some (ss_st s)\<rparr>, None)
      | Some e \<Rightarrow> (s, Some e))
      else (s, None))"

definition MarkApplied :: "(state \<Rightarrow> string option) \<Rightarrow> string \<Rightarrow> session \<Rightarrow> session \<times> string option" where
  "MarkApplied save ver s =
     (let st = ss_st s
      in if st_pending_ver st \<noteq> ver then (s, None)
         else persist save (s\<lparr>ss_st := st\<lparr>st_cfgversion := ver, st_system_cfg := st_pending_cfg st,
                                          st_pending_ver := [], st_pending_cfg := []\<rparr>\<rparr>))"

definition SetUplinkPort :: "int \<Rightarrow> session \<Rightarrow> session" where
  "SetUplinkPort idx s = (if idx \<le> 0 then s
     else s\<lparr>ss_ports := map (\<lambda>(i, _). (i, i = idx)) (ss_ports s)\<rparr>)"

definition SetSnapshot :: "snapshot option \<Rightarrow> session \<Rightarrow> session" where
  "SetSnapshot snap s =
     (let s1 = s\<lparr>ss_snap := snap\<rparr>;
          v = (case snap of None \<Rightarrow> [] | Some sn \<Rightarrow> sy_version (sn_system sn));
          st = ss_st s
      in if v = [] \<or> ss_pinned s then s1
         else if st_firmware st \<noteq> [] \<and> (st_firmware_base st = [] \<or> st_firmware_base st = v) then s1
         else if st_firmware st \<noteq> []
           then s1\<lparr>ss_st := st\<lparr>st_firmware := [], st_firmware_base := []\<rparr>, ss_version := v\<rparr>
         else s1\<lparr>ss_version := v\<rparr>)"

definition PinVersion :: "session \<Rightarrow> session" where
  "PinVersion s = s\<lparr>ss_pinned := True\<rparr>"

definition deviceVersion :: "session \<Rightarrow> string" where
  "deviceVersion s = (case ss_snap s of None \<Rightarrow> [] | Some sn \<Rightarrow> sy_version (sn_system sn))"

section \<open>A controller reply\<close>

definition emulate_upgrade :: "int \<Rightarrow> string \<Rightarrow> session \<Rightarrow> session" where
  "emulate_upgrade now v s =
     (let s1 = (if v \<noteq> [] then s\<lparr>ss_version := v,
                    ss_st := (ss_st s)\<lparr>st_firmware := v, st_firmware_base := deviceVersion s\<rparr>\<rparr> else s)
      in s1\<lparr>ss_boot := now\<rparr>)"

definition applyCmd :: "string \<Rightarrow> int \<Rightarrow> inform_response \<Rightarrow> session \<Rightarrow> session \<times> effect list" where
  "applyCmd dk now r s =
     (let c = ir_cmd r; st = ss_st s
      in if c = ''set-adopt'' \<or> c = ''adopt'' then
           (s\<lparr>ss_st := st\<lparr>st_key := (if ir_key r \<noteq> [] then ir_key r else st_key st),
                          st_inform_url := (if ir_uri r \<noteq> [] then ir_uri r else st_inform_url st),
                          st_adopted := True\<rparr>\<rparr>,
            [eff EffectAdoptingViaSetAdopt (ir_uri r)])
         else if c = ''setdefault'' then
           (s\<lparr>ss_st := st\<lparr>st_adopted := False, st_key := dk, st_cfgversion := ''0'', st_gcm := False,
                          st_provisioned := []\<rparr>\<rparr>,
            [eff EffectFactoryReset []])
         else if c = ''reboot'' then (s\<lparr>ss_boot := now\<rparr>, [eff EffectRebooted []])
         else if c = ''locate'' \<or> c = ''set-locate'' then
           (s\<lparr>ss_locating := True\<rparr>, [eff EffectLocate ''on''])
         else if c = ''unlocate'' \<or> c = ''unset-locate'' then
           (s\<lparr>ss_locating := False\<rparr>, [eff EffectLocate ''off''])
         else if c = ''power-cycle'' \<or> c = ''port-cycle'' \<or> c = ''port_cycle'' then
           (s, [eff EffectPortCycle (itoa (ir_port_idx r))])
         else if c = ''relayctl'' then
           (s, [eff EffectOutletCycle (join '','' (map itoa (ir_outlets r)))])
         else if c = ''upgrade'' \<or> c = ''upgrade2'' then
           (emulate_upgrade now (ir_version r) s, [eff EffectUpgraded (ir_version r)])
         else (s, [eff EffectUnknownCmd c]))"

text \<open>\<open>strconv.ParseBool\<close>.\<close>

definition parse_bool :: "string \<Rightarrow> bool option" where
  "parse_bool v = (if v \<in> {''1'', ''t'', ''T'', ''TRUE'', ''true'', ''True''} then Some True
     else if v \<in> {''0'', ''f'', ''F'', ''FALSE'', ''false'', ''False''} then Some False else None)"

record mgmt_cfg =
  mg_cfgversion :: string
  mg_authkey :: string
  mg_gcm :: string

definition mgmt_line :: "mgmt_cfg \<Rightarrow> string \<Rightarrow> mgmt_cfg" where
  "mgmt_line m line = (case str_cut (CHR ''='') (trim_space line) of
     None \<Rightarrow> m
   | Some (k, v) \<Rightarrow>
       if k = ''cfgversion'' then m\<lparr>mg_cfgversion := v\<rparr>
       else if k = ''authkey'' then m\<lparr>mg_authkey := v\<rparr>
       else if k = ''use_aes_gcm'' then m\<lparr>mg_gcm := v\<rparr> else m)"

definition parse_mgmt :: "string \<Rightarrow> mgmt_cfg" where
  "parse_mgmt t = foldl mgmt_line \<lparr>mg_cfgversion = [], mg_authkey = [], mg_gcm = []\<rparr> (split_on LF t)"

definition applySetparam :: "string \<Rightarrow> inform_response \<Rightarrow> session \<Rightarrow> session \<times> effect list" where
  "applySetparam dk r s =
     (let m = parse_mgmt (ir_mgmt_cfg r); st = ss_st s;
          v = (if ir_cfgversion r = [] then mg_cfgversion m else ir_cfgversion r);
          push = ir_system_cfg r \<noteq> [];
          st1 = (if push then st\<lparr>st_pending_ver := v, st_pending_cfg := ir_system_cfg r\<rparr>
                 else if mg_cfgversion m \<noteq> [] then st\<lparr>st_cfgversion := mg_cfgversion m\<rparr> else st);
          adopt = mg_authkey m \<noteq> [] \<and> mg_authkey m \<noteq> dk \<and> st_key st1 = dk;
          st2 = (if adopt then st1\<lparr>st_key := mg_authkey m, st_adopted := True\<rparr> else st1);
          st3 = (if mg_gcm m \<noteq> [] then (case parse_bool (mg_gcm m) of
                    Some b \<Rightarrow> st2\<lparr>st_gcm := b\<rparr> | None \<Rightarrow> st2) else st2)
      in (s\<lparr>ss_st := st3\<rparr>,
          [eff EffectMgmtCfg (ir_mgmt_cfg r)]
          @ (if push then [eff EffectSystemCfg v] else [])
          @ (if adopt then [eff EffectAdoptingViaMgmtCfg []] else [])))"

definition applySetstate :: "string + (string \<times> string) list \<Rightarrow> string \<Rightarrow> session \<Rightarrow> session \<times> effect list" where
  "applySetstate raw cfgversion s = (case raw of
     Inl e \<Rightarrow> (s, [eff EffectDecodeError e])
   | Inr kv \<Rightarrow>
       (let st = ss_st s;
            st1 = (if cfgversion \<noteq> [] then st\<lparr>st_cfgversion := cfgversion\<rparr> else st);
            keep = filter (\<lambda>(k, _). \<not> prefix ''_'' k \<and> k \<noteq> ''cfgversion'') kv
        in (s\<lparr>ss_st := st1\<lparr>st_provisioned := fold (\<lambda>(k, v). AList.update k v) keep (st_provisioned st1)\<rparr>\<rparr>,
            [eff EffectUnknownCmd (''setstate keys: '' @ join '','' (map fst keep))])))"

definition dispatch :: "string \<Rightarrow> int \<Rightarrow> inform_response \<Rightarrow> string + (string \<times> string) list
    \<Rightarrow> session \<Rightarrow> session \<times> effect list" where
  "dispatch dk now r raw s =
     (if ir_type r = ''cmd'' then applyCmd dk now r s
      else if ir_type r = ''setparam'' then applySetparam dk r s
      else if ir_type r = ''setstate'' then applySetstate raw (ir_cfgversion r) s
      else if ir_type r = ''reboot'' then (s\<lparr>ss_boot := now\<rparr>, [eff EffectRebooted []])
      else if ir_type r = ''noop'' then
        (s, if 0 < ir_interval r
            then [\<lparr>e_kind = EffectInterval, e_text = [], e_interval = int64_of (ir_interval r * 1000000000)\<rparr>]
            else [])
      else if ir_type r = ''upgrade'' \<or> ir_type r = ''upgrade2'' then
        (emulate_upgrade now (ir_version r) s, [eff EffectUpgraded (ir_version r)])
      else (s, [eff EffectUnknownType (ir_type r)]))"

definition Apply :: "string \<Rightarrow> (state \<Rightarrow> string option) \<Rightarrow> int \<Rightarrow> reply \<Rightarrow> session \<Rightarrow> session \<times> effect list"
where
  "Apply dk save now body s = (case body of
     BadReply e \<Rightarrow> (s, [eff EffectDecodeError e])
   | Reply r raw \<Rightarrow>
       (case dispatch dk now r raw s of (s1, effs) \<Rightarrow>
          if state_equal (ss_st s1) (ss_st s) then (s1, effs)
          else (case persist save s1 of
             (s2, None) \<Rightarrow> (s2, effs)
           | (s2, Some e) \<Rightarrow> (s2, effs @ [eff EffectDecodeError (''persist state: '' @ e)]))))"

section \<open>Other operations\<close>

definition SetGatewayIP :: "string \<Rightarrow> session \<Rightarrow> session" where
  "SetGatewayIP ip s = s\<lparr>ss_gateway_ip := ip\<rparr>"

definition SetIP :: "string \<Rightarrow> session \<Rightarrow> session" where
  "SetIP ip s = s\<lparr>ss_ip := ip\<rparr>"

definition displayableVersion :: "string \<Rightarrow> string" where
  "displayableVersion v =
     (let parts = split_on (CHR ''.'') v
      in if length parts = 4 \<and> list_all (\<lambda>p. atoi_ok p \<and> p \<noteq> []) parts
         then join ''.'' (take 3 parts) else v)"

definition uptimeStr :: "int \<Rightarrow> string" where
  "uptimeStr secs =
     (let d = go_quot secs 86400; h = go_quot (go_rem secs 86400) 3600; mi = go_quot (go_rem secs 3600) 60;
          sec = go_rem secs 60;
          hms = itoa h @ ''h'' @ itoa mi @ ''m'' @ itoa sec @ ''s''
      in if 0 < d then itoa d @ ''d'' @ hms else hms)"

end
