(* ===== verification/Session_Props.thy ===== *)
theory Session_Props
  imports Session
begin

text \<open>
  The adoption rules of the session and the life of a configuration push. The loop relies on
  the session through the contract \<open>push_ledger\<close>: a push waits until it is marked as applied,
  marking needs its own version, and the applied configuration changes only by marking.
\<close>

section \<open>The contract of the push ledger\<close>

locale push_ledger =
  fixes pending :: "'s \<Rightarrow> (string \<times> string) option"
    and applied :: "'s \<Rightarrow> (string \<times> string) option"
    and mark :: "string \<Rightarrow> 's \<Rightarrow> 's"
  assumes pending_nonempty: "pending s = Some (v, t) \<Longrightarrow> t \<noteq> []"
    and mark_hit: "pending s = Some (v, t) \<Longrightarrow> pending (mark v s) = None \<and> applied (mark v s) = Some (v, t)"
    and mark_miss: "pending s = Some (v, t) \<Longrightarrow> w \<noteq> v \<Longrightarrow> mark w s = s"
begin

lemma mark_idem:
  assumes "pending s = Some (v, t)"
  shows "applied (mark v s) = Some (v, t)"
  using mark_hit[OF assms] by simp

text \<open>Marking a version never loses a push that superseded it.\<close>

lemma mark_keeps_newer:
  assumes "pending s = Some (v, t)" and "w \<noteq> v"
  shows "pending (mark w s) = Some (v, t) \<and> applied (mark w s) = applied s"
  using mark_miss[OF assms] assms(1) by simp

end

definition mark_ok :: "string \<Rightarrow> session \<Rightarrow> session" where
  "mark_ok v s = fst (MarkApplied (\<lambda>_. None) v s)"

lemma persist_st [simp]: "ss_st (fst (persist save s)) = ss_st s"
  by (simp add: persist_def split: option.split)

lemma persist_stD: "persist save s = (s', e) \<Longrightarrow> ss_st s' = ss_st s"
  using persist_st[of save s] by simp

lemma persist_frame [simp]:
  "ss_snap (fst (persist save s)) = ss_snap s" "ss_ip (fst (persist save s)) = ss_ip s"
  "ss_store (fst (persist save s)) = ss_store s"
  by (simp_all add: persist_def split: option.split)

lemma MarkApplied_st:
  "ss_st (fst (MarkApplied save v s)) =
    (if st_pending_ver (ss_st s) \<noteq> v then ss_st s
     else (ss_st s)\<lparr>st_cfgversion := v, st_system_cfg := st_pending_cfg (ss_st s),
            st_pending_ver := [], st_pending_cfg := []\<rparr>)"
  by (simp add: MarkApplied_def Let_def)

interpretation ledger: push_ledger Pending Applied mark_ok
proof
  show "Pending s = Some (v, t) \<Longrightarrow> t \<noteq> []" for s v t
    by (auto simp: Pending_def split: if_splits)
  show "Pending s = Some (v, t) \<Longrightarrow> Pending (mark_ok v s) = None \<and> Applied (mark_ok v s) = Some (v, t)" for s v t
    by (auto simp: Pending_def Applied_def mark_ok_def MarkApplied_st split: if_splits)
  show "Pending s = Some (v, t) \<Longrightarrow> w \<noteq> v \<Longrightarrow> mark_ok w s = s" for s v t w
    by (auto simp: Pending_def mark_ok_def MarkApplied_def Let_def split: if_splits)
qed

section \<open>Shape of the operations\<close>

lemma applyCmd_push_frame:
  assumes "applyCmd dk now r s = (s', es)"
  shows "st_system_cfg (ss_st s') = st_system_cfg (ss_st s)"
    and "st_pending_ver (ss_st s') = st_pending_ver (ss_st s)"
    and "st_pending_cfg (ss_st s') = st_pending_cfg (ss_st s)"
  using assms by (auto simp: applyCmd_def Let_def emulate_upgrade_def split: if_splits)

lemma applyCmd_key:
  assumes "applyCmd dk now r s = (s', es)" and "st_key (ss_st s') \<noteq> st_key (ss_st s)"
  shows "(ir_cmd r \<in> {''set-adopt'', ''adopt''} \<and> ir_key r \<noteq> [] \<and> st_key (ss_st s') = ir_key r)
    \<or> (ir_cmd r = ''setdefault'' \<and> st_key (ss_st s') = dk)"
  using assms by (auto simp: applyCmd_def Let_def emulate_upgrade_def split: if_splits)

lemma applySetparam_st:
  assumes "applySetparam dk r s = (s', es)"
  shows "st_key (ss_st s') = (let k = mg_authkey (parse_mgmt (ir_mgmt_cfg r))
           in if k \<noteq> [] \<and> k \<noteq> dk \<and> st_key (ss_st s) = dk then k else st_key (ss_st s))"
    and "st_system_cfg (ss_st s') = st_system_cfg (ss_st s)"
    and "ir_system_cfg r \<noteq> [] \<Longrightarrow> st_cfgversion (ss_st s') = st_cfgversion (ss_st s)"
    and "st_pending_cfg (ss_st s') = (if ir_system_cfg r \<noteq> [] then ir_system_cfg r else st_pending_cfg (ss_st s))"
  using assms by (auto simp: applySetparam_def Let_def split: option.splits if_splits)

lemma applySetstate_frame:
  assumes "applySetstate raw v s = (s', es)"
  shows "st_key (ss_st s') = st_key (ss_st s)" "st_system_cfg (ss_st s') = st_system_cfg (ss_st s)"
    "st_pending_cfg (ss_st s') = st_pending_cfg (ss_st s)" "st_adopted (ss_st s') = st_adopted (ss_st s)"
  using assms by (auto simp: applySetstate_def Let_def split: sum.splits if_splits)

lemma emulate_upgrade_frame [simp]:
  "st_key (ss_st (emulate_upgrade now v s)) = st_key (ss_st s)"
  "st_system_cfg (ss_st (emulate_upgrade now v s)) = st_system_cfg (ss_st s)"
  "st_pending_cfg (ss_st (emulate_upgrade now v s)) = st_pending_cfg (ss_st s)"
  "st_adopted (ss_st (emulate_upgrade now v s)) = st_adopted (ss_st s)"
  by (simp_all add: emulate_upgrade_def Let_def)

lemma Apply_dispatch:
  assumes "Apply dk save now (Reply r raw) s = (s', es)"
  obtains s1 es1 extra where "dispatch dk now r raw s = (s1, es1)" "ss_st s' = ss_st s1"
    "es = es1 @ extra" "list_all (\<lambda>e. e_kind e = EffectDecodeError) extra"
proof -
  obtain s1 es1 where d: "dispatch dk now r raw s = (s1, es1)" by fastforce
  have "ss_st s' = ss_st s1 \<and> (\<exists>extra. es = es1 @ extra \<and> list_all (\<lambda>e. e_kind e = EffectDecodeError) extra)"
    using assms d
    by (auto simp: Apply_def eff_def dest: persist_stD split: if_splits prod.splits option.splits)
  with d that show ?thesis by blast
qed

section \<open>Properties\<close>

text \<open>
  The key-rotation rule: whatever the controller replies, the device's key changes only
  by a set-adopt naming a key, by a setdefault (back to the factory key), or by a mgmt_cfg
  authkey while the device still holds the factory key.
\<close>

theorem key_rotation:
  assumes "Apply dk save now (Reply r raw) s = (s', es)"
    and "st_key (ss_st s') \<noteq> st_key (ss_st s)"
  shows "(ir_type r = ''cmd'' \<and> ir_cmd r \<in> {''set-adopt'', ''adopt''} \<and> st_key (ss_st s') = ir_key r)
    \<or> (ir_type r = ''cmd'' \<and> ir_cmd r = ''setdefault'' \<and> st_key (ss_st s') = dk)
    \<or> (ir_type r = ''setparam'' \<and> st_key (ss_st s) = dk
       \<and> st_key (ss_st s') = mg_authkey (parse_mgmt (ir_mgmt_cfg r)))"
proof -
  obtain s1 es1 where d: "dispatch dk now r raw s = (s1, es1)" and st: "ss_st s' = ss_st s1"
    using assms(1) by (rule Apply_dispatch)
  from assms(2) st have ne: "st_key (ss_st s1) \<noteq> st_key (ss_st s)" by simp
  from d ne show ?thesis unfolding st dispatch_def
    by (auto dest: applyCmd_key applySetparam_st(1) applySetstate_frame(1) simp: Let_def split: if_splits)
qed

definition demo_state :: state where
  "demo_state = fresh_state\<lparr>st_key := ''factory'', st_cfgversion := ''0''\<rparr>"

definition demo_session :: session where
  "demo_session = NewSession ''factory'' ''1.0'' ''192.0.2.7'' [(1, False), (2, True)] ''http://c'' demo_state True 0"

definition demo_reply :: inform_response where
  "demo_reply = \<lparr>ir_type = ''setparam'', ir_cmd = [], ir_key = [], ir_uri = [], ir_interval = 0,
     ir_mgmt_cfg = ''authkey=k1'', ir_system_cfg = ''switch.mtu=1500'', ir_cfgversion = ''v7'',
     ir_version = [], ir_port_idx = 0, ir_outlets = []\<rparr>"

lemma key_rotation_witness:
  "\<exists>s' es. Apply ''factory'' (\<lambda>_. None) 5 (Reply demo_reply (Inr [])) demo_session = (s', es)
     \<and> st_key (ss_st s') \<noteq> st_key (ss_st demo_session) \<and> st_key (ss_st s') = ''k1''"
proof -
  obtain s' es where a: "Apply ''factory'' (\<lambda>_. None) 5 (Reply demo_reply (Inr [])) demo_session = (s', es)"
    by fastforce
  have v: "st_key (ss_st (fst (Apply ''factory'' (\<lambda>_. None) 5 (Reply demo_reply (Inr [])) demo_session))) = ''k1''"
    "st_key (ss_st demo_session) = ''factory''" "mg_authkey (parse_mgmt (ir_mgmt_cfg demo_reply)) = ''k1''"
    by code_simp+
  then have ne: "st_key (ss_st s') \<noteq> st_key (ss_st demo_session)" by (simp add: a)
  with key_rotation[OF a ne] v a show ?thesis by auto
qed

text \<open>
  C28. A configuration push is not claimed before it is applied: after a reply that carries a
  system_cfg the device still reports the cfgversion and the applied configuration it had, and
  the push waits as pending under the reply's version (or, without one, mgmt_cfg's).
\<close>

theorem push_waits_unclaimed:
  assumes "Apply dk save now (Reply r raw) s = (s', es)"
    and "ir_type r = ''setparam''" and "ir_system_cfg r \<noteq> []"
  shows "st_cfgversion (ss_st s') = st_cfgversion (ss_st s) \<and> Applied s' = Applied s
    \<and> Pending s' = Some (if ir_cfgversion r = [] then mg_cfgversion (parse_mgmt (ir_mgmt_cfg r))
                          else ir_cfgversion r, ir_system_cfg r)"
proof -
  obtain s1 es1 where d: "dispatch dk now r raw s = (s1, es1)" and st: "ss_st s' = ss_st s1"
    using assms(1) by (rule Apply_dispatch)
  with assms(2,3) have "applySetparam dk r s = (s1, es1)" by (simp add: dispatch_def)
  with assms(3) show ?thesis
    by (auto simp: applySetparam_def Let_def Applied_def Pending_def st split: option.splits if_splits)
qed

lemma push_waits_unclaimed_witness:
  "\<exists>s' es. Apply ''factory'' (\<lambda>_. None) 5 (Reply demo_reply (Inr [])) demo_session = (s', es)
     \<and> st_cfgversion (ss_st s') = ''0'' \<and> Pending s' = Some (''v7'', ''switch.mtu=1500'')"
proof -
  obtain s' es where a: "Apply ''factory'' (\<lambda>_. None) 5 (Reply demo_reply (Inr [])) demo_session = (s', es)"
    by fastforce
  have "st_cfgversion (ss_st demo_session) = ''0''" by code_simp
  with push_waits_unclaimed[OF a] a show ?thesis by (auto simp: demo_reply_def)
qed

text \<open>
  Marking a push as applied: the version and text that were pending become the applied
  configuration and nothing stays pending; marking any other version changes nothing, so a
  newer push that arrived meanwhile stays pending.
\<close>

theorem mark_applied_moves_the_push:
  assumes "Pending s = Some (v, t)"
  shows "Applied (mark_ok v s) = Some (v, t) \<and> Pending (mark_ok v s) = None
    \<and> (\<forall>w. w \<noteq> v \<longrightarrow> Pending (mark_ok w s) = Some (v, t) \<and> Applied (mark_ok w s) = Applied s)"
  using ledger.mark_hit[OF assms] ledger.mark_keeps_newer[OF assms] by blast

definition pending_session :: session where
  "pending_session = demo_session\<lparr>ss_st := demo_state\<lparr>st_pending_ver := ''v7'', st_pending_cfg := ''a=b''\<rparr>\<rparr>"

lemma mark_applied_moves_the_push_witness:
  "Pending pending_session = Some (''v7'', ''a=b'') \<and> Applied (mark_ok ''v7'' pending_session) = Some (''v7'', ''a=b'')
   \<and> Pending (mark_ok ''v6'' pending_session) = Some (''v7'', ''a=b'')"
proof -
  have h: "Pending pending_session = Some (''v7'', ''a=b'')" by code_simp
  show ?thesis using h mark_applied_moves_the_push[OF h] by simp
qed

section \<open>The state file\<close>

definition state_wf :: "state \<Rightarrow> bool" where
  "state_wf st \<longleftrightarrow> distinct (mkeys (st_provisioned st)) \<and> list_all (\<lambda>(k, v). v \<noteq> []) (st_provisioned st)"

definition same_state :: "state \<Rightarrow> state \<Rightarrow> bool" where
  "same_state a b \<longleftrightarrow> a\<lparr>st_provisioned := []\<rparr> = b\<lparr>st_provisioned := []\<rparr>
     \<and> map_of (st_provisioned a) = map_of (st_provisioned b)"

lemma provisioned_covered:
  assumes "distinct (mkeys a)" and "distinct (mkeys b)" and "length a = length b"
    and "list_all (\<lambda>(k, v). v \<noteq> []) a" and "list_all (\<lambda>(k, v). v = mget [] b k) a"
  shows "map_of a = map_of b"
proof -
  have sub: "(k, v) \<in> set b" if "(k, v) \<in> set a" for k v
  proof -
    from that assms(4,5) have "mget [] b k = v" "v \<noteq> []" by (auto simp: list_all_iff)
    then have "map_of b k = Some v" by (auto simp: mget_def split: option.splits)
    then show ?thesis by (rule map_of_SomeD)
  qed
  have "card (set a) = length a" "card (set b) = length b"
    using assms(1,2) by (auto simp: distinct_map intro: distinct_card)
  with sub assms(3) have "set a = set b"
    by (metis List.finite_set card_subset_eq subrelI)
  with assms(1,2) show ?thesis by (metis map_of_eqI map_of_eq_Some_iff domIff not_Some_eq prod.inject ext option.exhaust)
qed

text \<open>
  The comparison that decides whether the state file is written (\<open>State.equal\<close>) is
  equality of states: on states whose raw setstate values are not empty it holds exactly when
  every field agrees and the two maps are the same map.
\<close>

theorem state_equal_is_equality:
  assumes "state_wf a" and "state_wf b"
  shows "state_equal a b \<longleftrightarrow> same_state a b"
proof
  assume e: "state_equal a b"
  with assms have "map_of (st_provisioned a) = map_of (st_provisioned b)"
    by (intro provisioned_covered) (auto simp: state_wf_def state_equal_def)
  with e show "same_state a b" by (auto simp: same_state_def state_equal_def)
next
  assume s: "same_state a b"
  then have m: "map_of (st_provisioned a) = map_of (st_provisioned b)" by (simp add: same_state_def)
  from assms have d: "distinct (mkeys (st_provisioned a))" "distinct (mkeys (st_provisioned b))"
    by (auto simp: state_wf_def)
  have "set (st_provisioned a) = set (st_provisioned b)"
    using m d by (metis map_of_eq_Some_iff subrelI subset_antisym)
  with d have l: "length (st_provisioned a) = length (st_provisioned b)"
    by (metis distinct_card distinct_map)
  have v: "list_all (\<lambda>(k, v). v = mget [] (st_provisioned b) k) (st_provisioned a)"
    using d(1) by (auto simp: list_all_iff mget_def m[symmetric] map_of_eq_Some_iff split: option.splits)
  from s l v show "state_equal a b"
    by (cases a; cases b) (simp add: same_state_def state_equal_def)
qed

lemma state_equal_is_equality_witness:
  "state_wf (demo_state\<lparr>st_provisioned := [(''a'', ''1''), (''b'', ''2'')]\<rparr>)
   \<and> state_wf (demo_state\<lparr>st_provisioned := [(''b'', ''2''), (''a'', ''1'')]\<rparr>)
   \<and> same_state (demo_state\<lparr>st_provisioned := [(''a'', ''1''), (''b'', ''2'')]\<rparr>)
        (demo_state\<lparr>st_provisioned := [(''b'', ''2''), (''a'', ''1'')]\<rparr>)"
proof -
  have h: "state_wf (demo_state\<lparr>st_provisioned := [(''a'', ''1''), (''b'', ''2'')]\<rparr>)"
    "state_wf (demo_state\<lparr>st_provisioned := [(''b'', ''2''), (''a'', ''1'')]\<rparr>)" by code_simp+
  have e: "state_equal (demo_state\<lparr>st_provisioned := [(''a'', ''1''), (''b'', ''2'')]\<rparr>)
        (demo_state\<lparr>st_provisioned := [(''b'', ''2''), (''a'', ''1'')]\<rparr>)" by code_simp
  from h e state_equal_is_equality[OF h] show ?thesis by blast
qed



end
