(* ===== verification/PowerEvent.thy ===== *)
theory PowerEvent
  imports DeviceModel
begin

text \<open>
  \<^verbatim>\<open>internal/powerevent/powerevent.go\<close>: the tracker that turns a power device's polls into one
  log line per transition. A time or duration is a count of nanoseconds. Each operation returns
  the events it logs; \<open>emit\<close> renders an event as the line that is written.
\<close>

section \<open>Data\<close>

datatype cond_kind = OnBatteryCond | LowBatteryCond | OverloadCond | OutputOffCond

record cond =
  cd_kind :: cond_kind
  cd_active :: bool
  cd_since :: int
  cd_ok_run :: int
  cd_ok_since :: int

record tracker =
  tk_device :: string
  tk_low_runtime :: int
  tk_load_alarm :: real
  tk_comm_lost_after :: int
  tk_recover_polls :: int
  tk_seeded :: bool
  tk_model :: string
  tk_last :: "battery option"
  tk_conds :: "cond list"
  tk_test :: string
  tk_failures :: int
  tk_first_failed :: int
  tk_comm_lost :: bool

datatype event =
    InitialState "cond_kind list" string
  | Alarm cond_kind "string option"
  | Recovery cond_kind int
  | SelfTest string
  | CommLost int int string
  | CommRestored int int

record pevent =
  pe_level :: string
  pe_event :: event
  pe_battery :: "battery option"

definition new_tracker :: "string \<Rightarrow> int \<Rightarrow> real \<Rightarrow> tracker" where
  "new_tracker device low alarm = \<lparr>tk_device = device, tk_low_runtime = low, tk_load_alarm = alarm,
     tk_comm_lost_after = 0, tk_recover_polls = 0, tk_seeded = False, tk_model = [], tk_last = None,
     tk_conds = [], tk_test = [], tk_failures = 0, tk_first_failed = 0, tk_comm_lost = False\<rparr>"

section \<open>The conditions\<close>

definition second :: int where "second = 1000000000"

definition DefaultLowRuntime :: int where "DefaultLowRuntime = 120 * second"
definition DefaultCommLostAfter :: int where "DefaultCommLostAfter = 3"
definition DefaultRecoverPolls :: int where "DefaultRecoverPolls = 2"

definition low_limit :: "tracker \<Rightarrow> int" where
  "low_limit t = (if tk_low_runtime t \<le> 0 then DefaultLowRuntime else tk_low_runtime t)"

definition low_clear :: "tracker \<Rightarrow> int" where
  "low_clear t = low_limit t + go_quot (low_limit t) 5"

definition alarmW :: "tracker \<Rightarrow> battery \<Rightarrow> real" where
  "alarmW t b = (if 0 < tk_load_alarm t then tk_load_alarm t else b_real_rating_w b)"

definition overW :: "tracker \<Rightarrow> battery \<Rightarrow> real \<Rightarrow> bool" where
  "overW t b fr = (b_has_output b \<and> 0 < alarmW t b \<and> alarmW t b * fr \<le> b_real_power_w b)"

fun raised :: "tracker \<Rightarrow> cond_kind \<Rightarrow> battery \<Rightarrow> bool" where
  "raised t OnBatteryCond b = b_on_battery b"
| "raised t LowBatteryCond b = (b_low_battery b \<or> b_low_runtime b \<or> b_runtime b < low_limit t)"
| "raised t OverloadCond b = (b_overload b \<or> overW t b 1)"
| "raised t OutputOffCond b = b_output_off b"

fun cleared :: "tracker \<Rightarrow> cond_kind \<Rightarrow> battery \<Rightarrow> bool" where
  "cleared t OnBatteryCond b = (\<not> b_on_battery b)"
| "cleared t LowBatteryCond b = (\<not> b_low_battery b \<and> \<not> b_low_runtime b \<and> low_clear t \<le> b_runtime b)"
| "cleared t OverloadCond b = (\<not> b_overload b \<and> \<not> overW t b (95 / 100))"
| "cleared t OutputOffCond b = (\<not> b_output_off b)"

text \<open>\<^verbatim>\<open>%.0f\<close>: to the nearest integer, a half to the even one.\<close>

definition round_even :: "real \<Rightarrow> int" where
  "round_even x = (let f = \<lfloor>x\<rfloor>; r = x - of_int f
     in if r < 1 / 2 then f else if 1 / 2 < r then f + 1 else if even f then f else f + 1)"

definition reason :: "tracker \<Rightarrow> cond_kind \<Rightarrow> battery \<Rightarrow> string option" where
  "reason t k b = (case k of
     LowBatteryCond \<Rightarrow> Some (if b_low_battery b then ''shutdown_imminent''
        else if b_low_runtime b then ''ups_low_runtime''
        else ''runtime_below_'' @ itoa (go_quot (low_limit t) second) @ ''s'')
   | OverloadCond \<Rightarrow> Some (if b_overload b then ''ups_overload''
        else ''load_at_or_above_'' @ itoa (round_even (alarmW t b)) @ ''w'')
   | _ \<Rightarrow> None)"

definition new_cond :: "cond_kind \<Rightarrow> cond" where
  "new_cond k = \<lparr>cd_kind = k, cd_active = False, cd_since = 0, cd_ok_run = 0, cd_ok_since = 0\<rparr>"

definition cond_order :: "cond_kind list" where
  "cond_order = [OnBatteryCond, LowBatteryCond, OverloadCond, OutputOffCond]"

definition tracker_init :: "tracker \<Rightarrow> tracker" where
  "tracker_init t = (if tk_conds t \<noteq> [] then t else t\<lparr>
     tk_comm_lost_after := (if tk_comm_lost_after t \<le> 0 then DefaultCommLostAfter else tk_comm_lost_after t),
     tk_recover_polls := (if tk_recover_polls t \<le> 0 then DefaultRecoverPolls else tk_recover_polls t),
     tk_conds := map new_cond cond_order\<rparr>)"

text \<open>\<open>math.Round\<close> of a duration in seconds: a half away from zero.\<close>

definition secs :: "int \<Rightarrow> int" where
  "secs d = sgn d * ((\<bar>d\<bar> + 500000000) div 1000000000)"

section \<open>Polls\<close>

definition cond_step :: "tracker \<Rightarrow> int \<Rightarrow> battery \<Rightarrow> cond \<Rightarrow> cond \<times> pevent list" where
  "cond_step t now b c =
     (if \<not> cd_active c \<and> raised t (cd_kind c) b then
        (c\<lparr>cd_active := True, cd_since := now, cd_ok_run := 0\<rparr>,
         [\<lparr>pe_level = ''error'', pe_event = Alarm (cd_kind c) (reason t (cd_kind c) b), pe_battery = Some b\<rparr>])
      else if cd_active c \<and> cleared t (cd_kind c) b then
        (let c1 = (if cd_ok_run c = 0 then c\<lparr>cd_ok_since := now\<rparr> else c);
             c2 = c1\<lparr>cd_ok_run := cd_ok_run c + 1\<rparr>
         in if tk_recover_polls t \<le> cd_ok_run c2
            then (c2\<lparr>cd_active := False, cd_ok_run := 0\<rparr>,
                  [\<lparr>pe_level = ''info'', pe_event = Recovery (cd_kind c) (secs (cd_ok_since c2 - cd_since c2)),
                    pe_battery = Some b\<rparr>])
            else (c2, []))
      else if cd_active c then (c\<lparr>cd_ok_run := 0\<rparr>, [])
      else (c, []))"

definition self_test_event :: "battery \<Rightarrow> pevent list" where
  "self_test_event b =
     (let ev = (\<lambda>l. [\<lparr>pe_level = l, pe_event = SelfTest (b_test_result b), pe_battery = Some b\<rparr>])
      in if b_test_result b = ''passed'' then ev ''info''
         else if b_test_result b = ''failed'' then ev ''error''
         else if b_test_result b = ''refused'' \<or> b_test_result b = ''aborted'' then ev ''warning''
         else [])"

definition seed :: "int \<Rightarrow> battery \<Rightarrow> tracker \<Rightarrow> tracker \<times> pevent list" where
  "seed now b t =
     (let active = filter (\<lambda>k. raised t k b) (map cd_kind (tk_conds t))
      in (t\<lparr>tk_seeded := True, tk_test := b_test_result b,
            tk_conds := map (\<lambda>c. if raised t (cd_kind c) b then c\<lparr>cd_active := True, cd_since := now\<rparr> else c)
                          (tk_conds t)\<rparr>,
          [\<lparr>pe_level = (if active = [] then ''info'' else ''warning''),
            pe_event = InitialState active (b_test_result b), pe_battery = Some b\<rparr>]))"

definition transitions :: "int \<Rightarrow> battery \<Rightarrow> tracker \<Rightarrow> tracker \<times> pevent list" where
  "transitions now b t =
     (let cs = map (cond_step t now b) (tk_conds t)
      in (t\<lparr>tk_conds := map fst cs, tk_test := b_test_result b\<rparr>,
          concat (map snd cs) @ (if b_test_result b \<noteq> tk_test t then self_test_event b else [])))"

definition Observe :: "int \<Rightarrow> snapshot \<Rightarrow> tracker \<Rightarrow> tracker \<times> pevent list" where
  "Observe now snap t0 = (case sy_battery (sn_system snap) of
     None \<Rightarrow> (t0, [])
   | Some b \<Rightarrow>
       (let t1 = (tracker_init t0)\<lparr>tk_model := (if sy_sku (sn_system snap) = [] then sy_model (sn_system snap)
                                        else sy_sku (sn_system snap))\<rparr>;
            restored = (if tk_comm_lost t1
              then [\<lparr>pe_level = ''info'',
                     pe_event = CommRestored (tk_failures t1) (secs (now - tk_first_failed t1)),
                     pe_battery = Some b\<rparr>] else []);
            t2 = t1\<lparr>tk_failures := 0, tk_comm_lost := False, tk_last := Some b\<rparr>;
            (t3, evs) = (if tk_seeded t2 then transitions now b t2 else seed now b t2)
        in (t3, restored @ evs)))"

definition Failed :: "int \<Rightarrow> string \<Rightarrow> tracker \<Rightarrow> tracker \<times> pevent list" where
  "Failed now err t0 =
     (let t1 = tracker_init t0;
          t2 = t1\<lparr>tk_failures := tk_failures t1 + 1\<rparr>;
          t3 = (if tk_failures t2 = 1 then t2\<lparr>tk_first_failed := now\<rparr> else t2)
      in if tk_comm_lost t3 \<or> tk_failures t3 < tk_comm_lost_after t3 then (t3, [])
         else (t3\<lparr>tk_comm_lost := True\<rparr>,
               [\<lparr>pe_level = ''error'',
                 pe_event = CommLost (tk_failures t3) (secs (now - tk_first_failed t3)) err,
                 pe_battery = tk_last t3\<rparr>]))"

section \<open>The line\<close>

definition field :: "string \<Rightarrow> string" where
  "field v = replace_char (CHR '' '') ''_'' (trim_space v)"

fun alarm_name :: "cond_kind \<Rightarrow> string" where
  "alarm_name OnBatteryCond = ''on_battery''"
| "alarm_name LowBatteryCond = ''low_battery''"
| "alarm_name OverloadCond = ''overload''"
| "alarm_name OutputOffCond = ''output_off''"

fun recovery_name :: "cond_kind \<Rightarrow> string" where
  "recovery_name OnBatteryCond = ''ac_restored''"
| "recovery_name LowBatteryCond = ''battery_ok''"
| "recovery_name OverloadCond = ''overload_cleared''"
| "recovery_name OutputOffCond = ''output_on''"

fun duration_key :: "cond_kind \<Rightarrow> string" where
  "duration_key OnBatteryCond = ''on_battery_s''"
| "duration_key LowBatteryCond = ''low_s''"
| "duration_key OverloadCond = ''overload_s''"
| "duration_key OutputOffCond = ''off_s''"

fun event_name :: "event \<Rightarrow> string" where
  "event_name (InitialState _ _) = ''initial_state''"
| "event_name (Alarm k _) = alarm_name k"
| "event_name (Recovery k _) = recovery_name k"
| "event_name (SelfTest _) = ''self_test''"
| "event_name (CommLost _ _ _) = ''comm_lost''"
| "event_name (CommRestored _ _) = ''comm_restored''"

text \<open>The event's own fields; \<open>q\<close> is Go's \<^verbatim>\<open>%q\<close> quoting of the error text.\<close>

fun event_extra :: "(string \<Rightarrow> string) \<Rightarrow> event \<Rightarrow> string" where
  "event_extra q (InitialState ks test) =
     ''active='' @ (if ks = [] then ''none'' else join '','' (map alarm_name ks))
       @ (if test = [] then [] else '' test='' @ test)"
| "event_extra q (Alarm k r) = (case r of None \<Rightarrow> [] | Some x \<Rightarrow> ''reason='' @ x)"
| "event_extra q (Recovery k s) = duration_key k @ ''='' @ itoa s"
| "event_extra q (SelfTest r) = ''result='' @ r"
| "event_extra q (CommLost n s e) = ''failures='' @ itoa n @ '' since_s='' @ itoa s @ '' error='' @ q e"
| "event_extra q (CommRestored n s) = ''failures='' @ itoa n @ '' lost_s='' @ itoa s"

definition readings :: "string \<Rightarrow> battery \<Rightarrow> string" where
  "readings ev b =
     '' power='' @ (if b_on_battery b then ''battery'' else ''mains'')
     @ '' output='' @ (if b_output_off b then ''off'' else ''on'')
     @ '' charge='' @ itoa (b_charge_pct b) @ '' runtime_s='' @ itoa (secs (b_runtime b))
     @ '' load_w='' @ itoa (round_even (b_real_power_w b))
     @ '' load_pct='' @ itoa (round_even (b_load_pct b))
     @ '' input_v='' @ itoa (round_even (if b_has_input b then b_input_v b else 0))
     @ (if b_transfer_cause b \<noteq> [] \<and> (ev = ''on_battery'' \<or> ev = ''ac_restored'' \<or> ev = ''initial_state'')
        then '' cause='' @ field (b_transfer_cause b) else [])"

definition emit :: "(string \<Rightarrow> string) \<Rightarrow> string \<Rightarrow> tracker \<Rightarrow> pevent \<Rightarrow> string" where
  "emit q name t e =
     (let ev = event_name (pe_event e); extra = event_extra q (pe_event e)
      in ''power-event level='' @ pe_level e @ '' device='' @ field (tk_device t)
         @ (if name = [] then [] else '' name='' @ field name)
         @ (if tk_model t = [] then [] else '' model='' @ field (tk_model t))
         @ '' event='' @ ev
         @ (case pe_battery e of None \<Rightarrow> [] | Some b \<Rightarrow> readings ev b)
         @ (if extra = [] then [] else '' '' @ extra))"

end
