(* ===== verification/PowerEvent_Props.thy ===== *)
theory PowerEvent_Props
  imports PowerEvent
begin

text \<open>
  What the power-event log promises over any sequence of polls: alarms and recoveries of a
  condition alternate from the baseline on, a recovery needs two clear polls in a row, and an
  outage of contact is one line.
\<close>

section \<open>Sequences of polls\<close>

datatype poll = Good int snapshot | Bad int string

fun poll_step :: "poll \<Rightarrow> tracker \<Rightarrow> tracker \<times> pevent list" where
  "poll_step (Good now snap) t = Observe now snap t"
| "poll_step (Bad now err) t = Failed now err t"

fun run_polls :: "poll list \<Rightarrow> tracker \<Rightarrow> tracker \<times> pevent list" where
  "run_polls [] t = (t, [])"
| "run_polls (p # ps) t =
     (let (t1, e1) = poll_step p t; (t2, e2) = run_polls ps t1 in (t2, e1 @ e2))"

fun poll_battery :: "poll \<Rightarrow> battery list" where
  "poll_battery (Good _ snap) = (case sy_battery (sn_system snap) of None \<Rightarrow> [] | Some b \<Rightarrow> [b])"
| "poll_battery (Bad _ _) = []"

definition batteries :: "poll list \<Rightarrow> battery list" where
  "batteries ps = concat (map poll_battery ps)"

text \<open>What the log says of a condition: its value at the baseline, then each change.\<close>

fun says :: "cond_kind \<Rightarrow> event \<Rightarrow> bool list" where
  "says k (InitialState ks _) = [k \<in> set ks]"
| "says k (Alarm k' _) = (if k' = k then [True] else [])"
| "says k (Recovery k' _) = (if k' = k then [False] else [])"
| "says k _ = []"

definition toggles :: "cond_kind \<Rightarrow> pevent list \<Rightarrow> bool list" where
  "toggles k es = concat (map (\<lambda>e. says k (pe_event e)) es)"

fun is_initial :: "event \<Rightarrow> bool" where
  "is_initial (InitialState _ _) = True"
| "is_initial _ = False"

definition initials :: "pevent list \<Rightarrow> nat" where
  "initials es = length (filter (\<lambda>e. is_initial (pe_event e)) es)"

section \<open>The tracker's invariant\<close>

definition tracker_wf :: "tracker \<Rightarrow> bool" where
  "tracker_wf t \<longleftrightarrow> (tk_conds t = [] \<and> \<not> tk_seeded t) \<or> map cd_kind (tk_conds t) = cond_order"

definition any_active :: "cond_kind \<Rightarrow> cond list \<Rightarrow> bool" where
  "any_active k cs \<longleftrightarrow> (\<exists>c \<in> set cs. cd_kind c = k \<and> cd_active c)"

definition active :: "cond_kind \<Rightarrow> tracker \<Rightarrow> bool" where
  "active k t \<longleftrightarrow> any_active k (tk_conds t)"

lemma any_active_simps [simp]:
  "any_active k [] = False" "any_active k (c # cs) = ((cd_kind c = k \<and> cd_active c) \<or> any_active k cs)"
  by (auto simp: any_active_def)

lemma any_active_map:
  "any_active k (map f cs) \<longleftrightarrow> (\<exists>c \<in> set cs. cd_kind (f c) = k \<and> cd_active (f c))"
  by (auto simp: any_active_def)

lemma toggles_simps [simp]:
  "toggles k [] = []" "toggles k (e # es) = says k (pe_event e) @ toggles k es"
  "toggles k (es @ fs) = toggles k es @ toggles k fs"
  by (simp_all add: toggles_def)

lemma initials_simps [simp]:
  "initials [] = 0" "initials (es @ fs) = initials es + initials fs"
  "initials (e # es) = (if is_initial (pe_event e) then Suc (initials es) else initials es)"
  by (simp_all add: initials_def)

lemma cond_step_kind [simp]: "cd_kind (fst (cond_step t now b c)) = cd_kind c"
  by (simp add: cond_step_def Let_def)

lemma cond_step_says:
  "toggles k (snd (cond_step t now b c)) =
     (if cd_kind c = k \<and> cd_active (fst (cond_step t now b c)) \<noteq> cd_active c
      then [cd_active (fst (cond_step t now b c))] else [])"
  "initials (snd (cond_step t now b c)) = 0"
  by (auto simp: cond_step_def Let_def)

lemma self_test_silent [simp]: "toggles k (self_test_event b) = []" "initials (self_test_event b) = 0"
  by (auto simp: self_test_event_def Let_def)

lemma tracker_init_frame [simp]:
  "tk_seeded (tracker_init t) = tk_seeded t" "tk_low_runtime (tracker_init t) = tk_low_runtime t"
  "tk_load_alarm (tracker_init t) = tk_load_alarm t" "tk_comm_lost (tracker_init t) = tk_comm_lost t"
  "tk_failures (tracker_init t) = tk_failures t" "tk_first_failed (tracker_init t) = tk_first_failed t"
  "tk_last (tracker_init t) = tk_last t" "tk_test (tracker_init t) = tk_test t"
  by (simp_all add: tracker_init_def)

lemma tracker_init_wf: "tracker_wf t \<Longrightarrow> map cd_kind (tk_conds (tracker_init t)) = cond_order"
  by (auto simp: tracker_wf_def tracker_init_def new_cond_def o_def)

lemma tracker_init_active [simp]: "active k (tracker_init t) = active k t"
  by (auto simp: active_def any_active_def tracker_init_def new_cond_def)

text \<open>In a list with one entry per kind, the changes of the list are the changes of the entry.\<close>

lemma concat_cond_steps:
  assumes "distinct (map cd_kind cs)"
  shows "toggles k (concat (map (\<lambda>c. snd (cond_step t now b c)) cs)) =
    (if any_active k cs \<noteq> any_active k (map (\<lambda>c. fst (cond_step t now b c)) cs)
     then [any_active k (map (\<lambda>c. fst (cond_step t now b c)) cs)] else [])"
  using assms
proof (induction cs)
  case (Cons c cs)
  show ?case
  proof (cases "cd_kind c = k")
    case True
    with Cons.prems have "\<forall>d \<in> set cs. cd_kind d \<noteq> k" by (auto simp: image_iff)
    then have "\<not> any_active k cs" "\<not> any_active k (map (\<lambda>c. fst (cond_step t now b c)) cs)"
      by (auto simp: any_active_def)
    with True Cons show ?thesis by (simp add: cond_step_says)
  qed (use Cons in \<open>simp add: cond_step_says\<close>)
qed simp

lemma concat_cond_steps_initials [simp]:
  "initials (concat (map (\<lambda>c. snd (cond_step t now b c)) cs)) = 0"
  by (induction cs) (simp_all add: cond_step_says)

lemma transitions_says:
  assumes "map cd_kind (tk_conds t) = cond_order" and "transitions now b t = (t', es)"
  shows "toggles k es = (if active k t \<noteq> active k t' then [active k t'] else [])"
    and "initials es = 0" and "map cd_kind (tk_conds t') = cond_order" and "tk_seeded t' = tk_seeded t"
proof -
  have d: "distinct (map cd_kind (tk_conds t))" by (simp add: assms(1) cond_order_def)
  from assms(2) have t': "t' = t\<lparr>tk_conds := map (\<lambda>c. fst (cond_step t now b c)) (tk_conds t),
        tk_test := b_test_result b\<rparr>"
    and es: "es = concat (map (\<lambda>c. snd (cond_step t now b c)) (tk_conds t))
        @ (if b_test_result b \<noteq> tk_test t then self_test_event b else [])"
    by (auto simp: transitions_def Let_def o_def)
  show "toggles k es = (if active k t \<noteq> active k t' then [active k t'] else [])"
    by (simp add: es t' active_def concat_cond_steps[OF d])
  show "initials es = 0" "map cd_kind (tk_conds t') = cond_order" "tk_seeded t' = tk_seeded t"
    using assms(1) by (simp_all add: es t' o_def)
qed

lemma seed_says:
  assumes "map cd_kind (tk_conds t) = cond_order" and "\<forall>k. \<not> active k t" and "seed now b t = (t', es)"
  shows "toggles k es = [active k t']" and "initials es = 1"
    and "map cd_kind (tk_conds t') = cond_order" and "tk_seeded t'"
proof -
  let ?cs = "map (\<lambda>c. if raised t (cd_kind c) b then c\<lparr>cd_active := True, cd_since := now\<rparr> else c) (tk_conds t)"
  from assms(3) have t': "t' = t\<lparr>tk_seeded := True, tk_test := b_test_result b, tk_conds := ?cs\<rparr>"
    and es: "map pe_event es = [InitialState (filter (\<lambda>k. raised t k b) (map cd_kind (tk_conds t))) (b_test_result b)]"
    by (auto simp: seed_def Let_def)
  have "any_active k ?cs \<longleftrightarrow> k \<in> set (filter (\<lambda>k. raised t k b) (map cd_kind (tk_conds t)))"
    using assms(2) unfolding any_active_map by (auto simp: any_active_def active_def)
  then show "toggles k es = [active k t']" using es by (auto simp: t' active_def)
  show "initials es = 1" using es by auto
  have "map cd_kind ?cs = map cd_kind (tk_conds t)" by auto
  then show "map cd_kind (tk_conds t') = cond_order" "tk_seeded t'"
    using assms(1) by (simp_all add: t')
qed

definition quiet :: "tracker \<Rightarrow> bool" where
  "quiet t \<longleftrightarrow> tk_seeded t \<or> (\<forall>k. \<not> active k t)"

text \<open>What one poll adds to the log, whatever it is.\<close>

definition poll_ok :: "cond_kind \<Rightarrow> tracker \<Rightarrow> tracker \<Rightarrow> pevent list \<Rightarrow> bool" where
  "poll_ok k t t' es \<longleftrightarrow> tracker_wf t' \<and> quiet t' \<and>
     (if tk_seeded t then tk_seeded t' \<and> initials es = 0
        \<and> toggles k es = (if active k t \<noteq> active k t' then [active k t'] else [])
      else if tk_seeded t' then initials es = 1 \<and> toggles k es = [active k t']
      else initials es = 0 \<and> toggles k es = [])"

lemma poll_okI_same:
  assumes "map cd_kind (tk_conds t') = cond_order" "quiet t" "tk_seeded t' = tk_seeded t" "\<forall>k. active k t' = active k t"
    "initials es = 0" "toggles k es = []"
  shows "poll_ok k t t' es"
  using assms by (auto simp: poll_ok_def quiet_def tracker_wf_def)

lemma Failed_ok:
  assumes "tracker_wf t" and "quiet t" and "Failed now err t = (t', es)"
  shows "poll_ok k t t' es"
proof (rule poll_okI_same)
  show "map cd_kind (tk_conds t') = cond_order"
    using assms(3) tracker_init_wf[OF assms(1)] by (auto simp: Failed_def Let_def split: if_splits)
  show "tk_seeded t' = tk_seeded t" "initials es = 0" "toggles k es = []"
    using assms(3) by (auto simp: Failed_def Let_def split: if_splits)
  have "tk_conds t' = tk_conds (tracker_init t)"
    using assms(3) by (auto simp: Failed_def Let_def split: if_splits)
  then show "\<forall>k. active k t' = active k t" using tracker_init_active by (simp add: active_def)
qed (rule assms(2))

lemma Observe_ok:
  assumes "tracker_wf t" and "quiet t" and "Observe now snap t = (t', es)"
  shows "poll_ok k t t' es"
proof (cases "sy_battery (sn_system snap)")
  case None
  with assms show ?thesis by (auto simp: Observe_def poll_ok_def)
next
  case (Some b)
  define t2 where "t2 = (tracker_init t)\<lparr>tk_model := (if sy_sku (sn_system snap) = [] then sy_model (sn_system snap)
      else sy_sku (sn_system snap)), tk_failures := 0, tk_comm_lost := False, tk_last := Some b\<rparr>"
  obtain t3 evs where s: "(if tk_seeded t2 then transitions now b t2 else seed now b t2) = (t3, evs)"
    by fastforce
  from assms(3) Some s obtain pre where t': "t' = t3" and es: "es = pre @ evs"
    and pre: "toggles k pre = []" "initials pre = 0"
    by (auto simp: Observe_def Let_def t2_def split: prod.splits if_splits)
  have c: "map cd_kind (tk_conds t2) = cond_order" "tk_seeded t2 = tk_seeded t"
    using tracker_init_wf[OF assms(1)] by (simp_all add: t2_def)
  have act: "active k t2 = active k t" for k
    using tracker_init_active[of k t] by (simp add: t2_def active_def)
  show ?thesis
  proof (cases "tk_seeded t")
    case True
    with s c have "transitions now b t2 = (t3, evs)" by simp
    from transitions_says[OF c(1) this] show ?thesis
      using True c pre by (simp add: poll_ok_def t' es act tracker_wf_def quiet_def)
  next
    case False
    with s c have sd: "seed now b t2 = (t3, evs)" by simp
    from False assms(2) act have "\<forall>k. \<not> active k t2" by (simp add: quiet_def)
    from seed_says[OF c(1) this sd] show ?thesis
      using False pre by (simp add: poll_ok_def t' es tracker_wf_def quiet_def)
  qed
qed

lemma poll_step_ok:
  "tracker_wf t \<Longrightarrow> quiet t \<Longrightarrow> poll_step p t = (t', es) \<Longrightarrow> poll_ok k t t' es"
  by (cases p) (auto intro: Failed_ok Observe_ok)

lemma new_tracker_wf [simp]: "tracker_wf (new_tracker d low al)" "quiet (new_tracker d low al)"
  "\<not> tk_seeded (new_tracker d low al)"
  by (simp_all add: new_tracker_def tracker_wf_def quiet_def active_def any_active_def)

lemma run_polls_seeded:
  assumes "tracker_wf t" "quiet t" "tk_seeded t" "run_polls ps t = (t', es)"
  shows "initials es = 0 \<and> successively (\<noteq>) (active k t # toggles k es)"
  using assms
proof (induction ps arbitrary: t t' es)
  case (Cons p ps)
  obtain t1 e1 where p: "poll_step p t = (t1, e1)" by fastforce
  obtain t2 e2 where r: "run_polls ps t1 = (t2, e2)" by fastforce
  from Cons.prems p r have es: "es = e1 @ e2" by simp
  from poll_step_ok[OF Cons.prems(1,2) p] Cons.prems(3) have o: "tracker_wf t1" "quiet t1" "tk_seeded t1"
    "initials e1 = 0" "toggles k e1 = (if active k t \<noteq> active k t1 then [active k t1] else [])"
    by (auto simp: poll_ok_def)
  from Cons.IH[OF o(1-3) r] o(4,5) show ?case by (auto simp: es)
qed simp

lemma run_polls_unseeded:
  assumes "tracker_wf t" "quiet t" "\<not> tk_seeded t" "run_polls ps t = (t', es)"
  shows "initials es \<le> 1 \<and> successively (\<noteq>) (toggles k es)"
  using assms
proof (induction ps arbitrary: t t' es)
  case (Cons p ps)
  obtain t1 e1 where p: "poll_step p t = (t1, e1)" by fastforce
  obtain t2 e2 where r: "run_polls ps t1 = (t2, e2)" by fastforce
  from Cons.prems p r have es: "es = e1 @ e2" by simp
  from poll_step_ok[OF Cons.prems(1,2) p, of k] Cons.prems(3) have o: "tracker_wf t1" "quiet t1"
    "if tk_seeded t1 then initials e1 = 1 \<and> toggles k e1 = [active k t1] else initials e1 = 0 \<and> toggles k e1 = []"
    by (auto simp: poll_ok_def)
  show ?case
  proof (cases "tk_seeded t1")
    case True
    from run_polls_seeded[OF o(1,2) True r, of k] o(3) True show ?thesis by (simp add: es)
  next
    case False
    from Cons.IH[OF o(1,2) False r] o(3) False show ?thesis by (simp add: es)
  qed
qed simp

text \<open>
  C30. Over any sequence of successful and failed polls of a power device, the log says each
  condition's state once at the baseline (at most one initial_state line) and from then on its
  alarm and its recovery strictly alternate: no alarm is repeated while it holds, and there is no
  recovery without an alarm.
\<close>

theorem alarms_alternate:
  "initials (snd (run_polls ps (new_tracker d low al))) \<le> 1
   \<and> successively (\<noteq>) (toggles k (snd (run_polls ps (new_tracker d low al))))"
  using run_polls_unseeded[of "new_tracker d low al" ps] by (metis new_tracker_wf prod.collapse)

section \<open>Recoveries\<close>

text \<open>Newest battery first: \<open>ok_run\<close> counts the polls in a row that showed the alarm gone.\<close>

definition runs_inv :: "tracker \<Rightarrow> battery list \<Rightarrow> tracker \<Rightarrow> bool" where
  "runs_inv t0 bs t \<longleftrightarrow> tk_low_runtime t = tk_low_runtime t0 \<and> tk_load_alarm t = tk_load_alarm t0
     \<and> (tk_conds t = [] \<and> tk_recover_polls t = 0 \<or> tk_recover_polls t = DefaultRecoverPolls)
     \<and> (\<forall>c \<in> set (tk_conds t). 0 \<le> cd_ok_run c \<and> cd_ok_run c \<le> int (length bs)
          \<and> list_all (cleared t0 (cd_kind c)) (take (nat (cd_ok_run c)) bs)
          \<and> (\<not> cd_active c \<or> \<not> tk_seeded t \<longrightarrow> cd_ok_run c = 0))"

lemma cleared_cong:
  "tk_low_runtime t = tk_low_runtime t' \<Longrightarrow> tk_load_alarm t = tk_load_alarm t' \<Longrightarrow> cleared t k = cleared t' k"
  by (cases k) (auto simp: low_clear_def low_limit_def overW_def alarmW_def fun_eq_iff)

lemma runs_inv_init:
  assumes "runs_inv t0 bs t"
  shows "runs_inv t0 bs (tracker_init t) \<and> tk_recover_polls (tracker_init t) = DefaultRecoverPolls"
  using assms by (auto simp: runs_inv_def tracker_init_def new_cond_def DefaultRecoverPolls_def)

lemma cond_step_runs:
  assumes "0 \<le> cd_ok_run c" "cd_ok_run c \<le> int (length bs)" "\<not> cd_active c \<longrightarrow> cd_ok_run c = 0"
    "list_all (cleared t (cd_kind c)) (take (nat (cd_ok_run c)) bs)" "cond_step t now b c = (c', es)"
  shows "0 \<le> cd_ok_run c' \<and> cd_ok_run c' \<le> int (length (b # bs)) \<and> (\<not> cd_active c' \<longrightarrow> cd_ok_run c' = 0)
    \<and> list_all (cleared t (cd_kind c)) (take (nat (cd_ok_run c')) (b # bs))"
  using assms by (auto simp: cond_step_def Let_def nat_add_distrib split: if_splits)

lemma transitions_runs:
  assumes "runs_inv t0 bs t" "tk_seeded t" "tk_recover_polls t = DefaultRecoverPolls"
  shows "runs_inv t0 (b # bs) (fst (transitions now b t))"
proof -
  have cl: "cleared t k = cleared t0 k" for k using assms(1) by (intro cleared_cong) (auto simp: runs_inv_def)
  have "0 \<le> cd_ok_run c' \<and> cd_ok_run c' \<le> int (length (b # bs)) \<and> (\<not> cd_active c' \<longrightarrow> cd_ok_run c' = 0)
      \<and> list_all (cleared t0 (cd_kind c')) (take (nat (cd_ok_run c')) (b # bs))"
    if "c' \<in> set (tk_conds (fst (transitions now b t)))" for c'
  proof -
    from that obtain c where c: "c \<in> set (tk_conds t)" "c' = fst (cond_step t now b c)"
      by (auto simp: transitions_def Let_def)
    then obtain es where s: "cond_step t now b c = (c', es)" by (metis prod.collapse)
    from c(1) assms(1,2) have "0 \<le> cd_ok_run c" "cd_ok_run c \<le> int (length bs)" "\<not> cd_active c \<longrightarrow> cd_ok_run c = 0"
      "list_all (cleared t (cd_kind c)) (take (nat (cd_ok_run c)) bs)"
      by (auto simp: runs_inv_def cl)
    from cond_step_runs[OF this s] c(2) show ?thesis by (simp add: cl)
  qed
  with assms show ?thesis
    by (auto simp: runs_inv_def transitions_def Let_def)
qed

lemma seed_runs:
  "runs_inv t0 bs t \<Longrightarrow> \<not> tk_seeded t \<Longrightarrow> tk_recover_polls t = DefaultRecoverPolls
   \<Longrightarrow> runs_inv t0 bs' (fst (seed now b t))"
  by (fastforce simp: runs_inv_def seed_def Let_def)

lemma transitions_recovery:
  assumes "runs_inv t0 bs t" "tk_recover_polls t = DefaultRecoverPolls"
    and "e \<in> set (snd (transitions now b t))" "pe_event e = Recovery k s"
  shows "\<exists>b1 rest. bs = b1 # rest \<and> cleared t0 k b1 \<and> cleared t0 k b"
proof -
  have cl: "cleared t k = cleared t0 k" for k using assms(1) by (intro cleared_cong) (auto simp: runs_inv_def)
  have "e \<notin> set (self_test_event b)" using assms(4) by (auto simp: self_test_event_def Let_def split: if_splits)
  with assms(3) obtain c where c: "c \<in> set (tk_conds t)" "e \<in> set (snd (cond_step t now b c))"
    by (auto simp: transitions_def Let_def split: if_splits)
  with assms(2,4) have k: "cd_kind c = k" "cleared t k b" "1 \<le> cd_ok_run c"
    by (auto simp: cond_step_def Let_def DefaultRecoverPolls_def split: if_splits)
  from assms(1) c(1) have "cd_ok_run c \<le> int (length bs)" "list_all (cleared t0 k) (take (nat (cd_ok_run c)) bs)"
    using k(1) by (auto simp: runs_inv_def)
  with k(3) obtain b1 rest where bs: "bs = b1 # rest" "cleared t0 k b1"
    by (cases bs) (auto simp: take_Cons' split: if_splits)
  with k(2) show ?thesis by (simp add: cl)
qed

lemma Observe_runs:
  assumes "runs_inv t0 bs t" "sy_battery (sn_system snap) = Some b" "Observe now snap t = (t', es)"
  shows "runs_inv t0 (b # bs) t' \<and> (\<forall>e \<in> set es. \<forall>k s. pe_event e = Recovery k s \<longrightarrow>
      (\<exists>b1 rest. bs = b1 # rest \<and> cleared t0 k b1 \<and> cleared t0 k b))"
proof -
  define t2 where "t2 = (tracker_init t)\<lparr>tk_model := (if sy_sku (sn_system snap) = [] then sy_model (sn_system snap)
      else sy_sku (sn_system snap)), tk_failures := 0, tk_comm_lost := False, tk_last := Some b\<rparr>"
  have t2: "runs_inv t0 bs t2" "tk_recover_polls t2 = DefaultRecoverPolls"
    using runs_inv_init[OF assms(1)] by (auto simp: t2_def runs_inv_def)
  obtain t3 evs where s: "(if tk_seeded t2 then transitions now b t2 else seed now b t2) = (t3, evs)" by fastforce
  from assms(2,3) s obtain pre where t': "t' = t3" and es: "es = pre @ evs"
    and pre: "\<forall>e \<in> set pre. \<forall>k s. pe_event e \<noteq> Recovery k s"
    by (auto simp: Observe_def Let_def t2_def split: prod.splits if_splits)
  show ?thesis
  proof (cases "tk_seeded t2")
    case True
    with s have tr: "transitions now b t2 = (t3, evs)" by simp
    from transitions_runs[OF t2(1) True t2(2), of b now] transitions_recovery[OF t2(1,2), of _ now b] pre
    show ?thesis by (auto simp: t' es tr)
  next
    case False
    with s have sd: "seed now b t2 = (t3, evs)" by simp
    then have "\<forall>e \<in> set evs. \<forall>k s. pe_event e \<noteq> Recovery k s" by (auto simp: seed_def Let_def)
    with seed_runs[OF t2(1) False t2(2), of "b # bs" now b] pre show ?thesis by (auto simp: t' es sd)
  qed
qed

lemma poll_step_runs:
  assumes "runs_inv t0 bs t" "poll_step p t = (t', es)"
  shows "runs_inv t0 (poll_battery p @ bs) t'"
proof (cases p)
  case (Good now snap)
  with assms Observe_runs[OF assms(1), of snap] show ?thesis
    by (cases "sy_battery (sn_system snap)") (auto simp: Observe_def)
next
  case (Bad now err)
  with assms(2) runs_inv_init[OF assms(1)] show ?thesis
    by (auto simp: runs_inv_def Failed_def Let_def split: if_splits)
qed

lemma run_polls_runs:
  "runs_inv t0 bs t \<Longrightarrow> runs_inv t0 (rev (batteries ps) @ bs) (fst (run_polls ps t))"
proof (induction ps arbitrary: t bs)
  case (Cons p ps)
  obtain t1 e1 where p: "poll_step p t = (t1, e1)" by fastforce
  have r: "rev (poll_battery p) = poll_battery p" by (cases p) (auto split: option.splits)
  from Cons.IH[OF poll_step_runs[OF Cons.prems p]] show ?case
    by (simp add: p batteries_def split_beta Let_def r)
qed (simp add: batteries_def)

lemma new_tracker_runs [simp]: "runs_inv (new_tracker d low al) [] (new_tracker d low al)"
  by (simp add: runs_inv_def new_tracker_def)

text \<open>
  A recovery line (AC restored, battery OK, overload cleared, output on) is written only
  when the two latest readings of the device both show the alarm gone, so a flapping input is
  one outage.
\<close>

theorem recovery_needs_two_clear_polls:
  assumes "poll_step p (fst (run_polls ps (new_tracker d low al))) = (t', es)"
    and "e \<in> set es" and "pe_event e = Recovery k s"
  shows "\<exists>b1 b2 rest. rev (batteries (ps @ [p])) = b2 # b1 # rest
    \<and> cleared (new_tracker d low al) k b1 \<and> cleared (new_tracker d low al) k b2"
proof -
  have i: "runs_inv (new_tracker d low al) (rev (batteries ps)) (fst (run_polls ps (new_tracker d low al)))"
    using run_polls_runs[OF new_tracker_runs] by simp
  show ?thesis
  proof (cases p)
    case (Good now snap)
    with assms obtain b where b: "sy_battery (sn_system snap) = Some b"
      by (cases "sy_battery (sn_system snap)") (auto simp: Observe_def)
    from Good assms(1) have o: "Observe now snap (fst (run_polls ps (new_tracker d low al))) = (t', es)" by simp
    from Observe_runs[OF i b o] assms(2,3) obtain b1 rest where
      "rev (batteries ps) = b1 # rest" "cleared (new_tracker d low al) k b1" "cleared (new_tracker d low al) k b"
      by blast
    with Good b show ?thesis by (simp add: batteries_def)
  next
    case (Bad now err)
    with assms show ?thesis by (auto simp: Failed_def Let_def split: if_splits)
  qed
qed

definition demo_battery :: battery where
  "demo_battery = \<lparr>b_on_battery = False, b_charging = False, b_low_battery = False, b_overload = False,
     b_output_off = False, b_bypass = False, b_testing = False, b_calibrating = False, b_eco = False, b_boost = False,
     b_trim = False, b_fault = False, b_input_bad = False, b_low_runtime = False, b_test_result = [], b_charge_pct = 97,
     b_runtime = 3600000000000, b_voltage_v = 0, b_temp_c = 0, b_has_temp = False, b_load_pct = 0,
     b_real_power_w = 0, b_apparent_va = 0, b_real_rating_w = 0, b_apparent_rating_va = 0, b_output_v = 0,
     b_output_a = 0, b_output_hz = 0, b_has_output = False, b_input_v = 0, b_has_input = False,
     b_efficiency = 0, b_has_efficiency = False, b_transfer_high = 0, b_transfer_low = 0,
     b_shutdown_delay = 0, b_transfer_cause = []\<rparr>"

definition demo_power :: "battery \<Rightarrow> snapshot" where
  "demo_power b = \<lparr>sn_taken = 0, sn_system = \<lparr>sy_vendor = [], sy_model = ''ups'', sy_sku = [], sy_serial = [], sy_oob = [], sy_addresses = [],
       sy_arp = [], sy_gateway_mac = [], sy_gateway = [], sy_version = [], sy_battery = Some b, sy_stp_mode = [],
       sy_stp_priority = 0, sy_igmp = [], sy_ntp = [], sy_syslog = [], sy_snmp = []\<rparr>,
     sn_ports = [], sn_mac_table = [], sn_vlans = [], sn_outlets = [], sn_uplink_hint = 0\<rparr>"

definition mains_poll :: poll where "mains_poll = Good 0 (demo_power demo_battery)"
definition outage_poll :: poll where "outage_poll = Good 0 (demo_power (demo_battery\<lparr>b_on_battery := True\<rparr>))"

lemmas demo_poll_eval = mains_poll_def outage_poll_def demo_power_def demo_battery_def Observe_def
  tracker_init_def new_tracker_def seed_def transitions_def cond_step_def self_test_event_def
  cond_order_def new_cond_def Let_def low_limit_def low_clear_def overW_def DefaultRecoverPolls_def
  DefaultCommLostAfter_def DefaultLowRuntime_def second_def go_quot_def secs_def reason_def

lemma demo_outage_over:
  "map pe_event (snd (poll_step mains_poll (fst (run_polls [mains_poll, outage_poll, mains_poll] (new_tracker ''ups'' 0 0)))))
     = [Recovery OnBatteryCond 0]"
  by (simp add: demo_poll_eval)

lemma recovery_needs_two_clear_polls_witness:
  "\<exists>b1 b2 rest. rev (batteries [mains_poll, outage_poll, mains_poll, mains_poll]) = b2 # b1 # rest
    \<and> cleared (new_tracker ''ups'' 0 0) OnBatteryCond b1 \<and> cleared (new_tracker ''ups'' 0 0) OnBatteryCond b2"
proof -
  let ?t = "fst (run_polls [mains_poll, outage_poll, mains_poll] (new_tracker ''ups'' 0 0))"
  obtain t' es where r: "poll_step mains_poll ?t = (t', es)" by fastforce
  from demo_outage_over have "map pe_event es = [Recovery OnBatteryCond 0]" by (simp only: r snd_conv)
  then obtain e where "e \<in> set es" "pe_event e = Recovery OnBatteryCond 0" by auto
  from recovery_needs_two_clear_polls[OF r this] show ?thesis by simp
qed

section \<open>Losing contact\<close>

definition bad_polls :: "(int \<times> string) list \<Rightarrow> poll list" where
  "bad_polls fs = map (\<lambda>(now, e). Bad now e) fs"

lemma bad_polls_after_loss:
  assumes "tk_comm_lost t"
  shows "snd (run_polls (bad_polls fs) t) = []"
  using assms
  by (induction fs arbitrary: t) (auto simp: bad_polls_def Failed_def Let_def split_beta)

lemma tracker_init_id: "tk_conds t \<noteq> [] \<Longrightarrow> tracker_init t = t"
  by (simp add: tracker_init_def)

lemma tracker_init_conds [simp]: "tk_conds (tracker_init t) \<noteq> []"
  by (simp add: tracker_init_def cond_order_def)

text \<open>
  Losing contact is one line: of failed polls in a row, starting with contact held, the
  third (and no other) logs comm_lost, with the time since the first, the error of the third and
  the last good readings; shorter runs log nothing.
\<close>

theorem comm_lost_once:
  assumes "tk_failures t = 0" and "\<not> tk_comm_lost t"
    and "tk_comm_lost_after (tracker_init t) = DefaultCommLostAfter"
  shows "snd (run_polls (bad_polls fs) t) = (case fs of
     (n1, _) # _ # (n3, e3) # _ \<Rightarrow> [\<lparr>pe_level = ''error'', pe_event = CommLost 3 (secs (n3 - n1)) e3, pe_battery = tk_last t\<rparr>]
   | _ \<Rightarrow> [])"
proof -
  define u where "u = tracker_init t"
  have u: "tk_conds u \<noteq> []" "tk_failures u = 0" "\<not> tk_comm_lost u" "tk_comm_lost_after u = 3" "tk_last u = tk_last t"
    using assms by (simp_all add: u_def DefaultCommLostAfter_def)
  have one: "Failed n e t = (u\<lparr>tk_failures := 1, tk_first_failed := n\<rparr>, [])" for n e
    using u by (simp add: Failed_def Let_def u_def[symmetric])
  have two: "Failed n e (u\<lparr>tk_failures := 1, tk_first_failed := n1\<rparr>)
      = (u\<lparr>tk_failures := 2, tk_first_failed := n1\<rparr>, [])" for n n1 e
    using u by (simp add: Failed_def Let_def tracker_init_id)
  have three: "Failed n e (u\<lparr>tk_failures := 2, tk_first_failed := n1\<rparr>)
      = (u\<lparr>tk_failures := 3, tk_first_failed := n1, tk_comm_lost := True\<rparr>,
         [\<lparr>pe_level = ''error'', pe_event = CommLost 3 (secs (n - n1)) e, pe_battery = tk_last t\<rparr>])" for n n1 e
    using u by (simp add: Failed_def Let_def tracker_init_id)
  have rest: "snd (run_polls (map (\<lambda>(now, e). Bad now e) fs) (u\<lparr>tk_failures := 3, tk_first_failed := n, tk_comm_lost := True\<rparr>)) = []"
    for fs n using bad_polls_after_loss by (simp add: bad_polls_def)
  show ?thesis
    by (auto simp: bad_polls_def one two three rest split_beta Let_def split: list.split)
qed

lemma comm_lost_once_witness:
  "tk_failures (new_tracker ''ups'' 0 0) = 0 \<and> \<not> tk_comm_lost (new_tracker ''ups'' 0 0)
   \<and> map pe_event (snd (run_polls (bad_polls [(0, ''a''), (1, ''b''), (5000000000, ''c''), (6, ''d'')]) (new_tracker ''ups'' 0 0)))
     = [CommLost 3 5 ''c'']"
proof -
  have h: "tk_failures (new_tracker ''ups'' 0 0) = 0" "\<not> tk_comm_lost (new_tracker ''ups'' 0 0)"
    "tk_comm_lost_after (tracker_init (new_tracker ''ups'' 0 0)) = DefaultCommLostAfter"
    by (simp_all add: new_tracker_def tracker_init_def)
  show ?thesis using h by (simp add: comm_lost_once[OF h] secs_def)
qed

end
