(* ===== verification/Recorder.thy ===== *)
theory Recorder
  imports Session
begin

text \<open>
  \<^verbatim>\<open>internal/informloop/recorder.go\<close>: the reply log, its size cap and its rotation. The log
  directory is a map from generation to file content, generation 0 being the live file and
  generation i the file with suffix \<open>.i\<close>. What the file system answers to the calls of one
  write is the argument \<open>io\<close>; the JSON text of a line is the argument \<open>js\<close>.
\<close>

section \<open>Data\<close>

record effect_record =
  er_kind :: string
  er_text :: string
  er_interval :: int

record inform_record =
  re_at :: int
  re_status :: int
  re_body_len :: int
  re_sent_adopted :: bool
  re_sent_gcm :: bool
  re_error :: string
  re_raw_body :: string
  re_raw_hex :: string
  re_payload :: string
  re_effects :: "effect_record list"
  re_state_after :: string

definition new_record :: "int \<Rightarrow> bool \<Rightarrow> bool \<Rightarrow> inform_record" where
  "new_record now adopted gcm = \<lparr>re_at = now, re_status = 0, re_body_len = 0, re_sent_adopted = adopted,
     re_sent_gcm = gcm, re_error = [], re_raw_body = [], re_raw_hex = [], re_payload = [],
     re_effects = [], re_state_after = []\<rparr>"

datatype log_entry = Rec inform_record | Collapsed int int

record recorder =
  rc_files :: "nat \<Rightarrow> string option"
  rc_max :: int
  rc_keep :: nat
  rc_open :: bool
  rc_size :: int
  rc_quiet404 :: int

text \<open>
  The answers of the file system: an error of opening the live file, of removing the oldest
  generation, of renaming generation i to i + 1, and of a write (how many bytes reached the file).
\<close>

record io_answers =
  io_open :: "string option"
  io_remove :: "string option"
  io_rename :: "nat \<Rightarrow> string option"
  io_write :: "(nat \<times> string) option"

definition io_ok :: io_answers where
  "io_ok = \<lparr>io_open = None, io_remove = None, io_rename = (\<lambda>_. None), io_write = None\<rparr>"

definition DefaultRecordMaxSize :: int where "DefaultRecordMaxSize = 8 * 2 ^ 20"
definition DefaultRecordKeep :: nat where "DefaultRecordKeep = 3"

definition file_text :: "nat \<Rightarrow> recorder \<Rightarrow> string" where
  "file_text i r = (case rc_files r i of None \<Rightarrow> [] | Some s \<Rightarrow> s)"

section \<open>Operations\<close>

definition rec_open :: "io_answers \<Rightarrow> recorder \<Rightarrow> recorder \<times> string option" where
  "rec_open io r = (case io_open io of
     Some e \<Rightarrow> (r, Some e)
   | None \<Rightarrow> (r\<lparr>rc_files := (rc_files r)(0 := Some (file_text 0 r)), rc_open := True,
                rc_size := int (length (file_text 0 r))\<rparr>, None))"

definition newRecorder :: "io_answers \<Rightarrow> (nat \<Rightarrow> string option) \<Rightarrow> int \<Rightarrow> int \<Rightarrow> string + recorder" where
  "newRecorder io files maxSize keep =
     (let r = \<lparr>rc_files = files, rc_max = (if maxSize = 0 then DefaultRecordMaxSize else maxSize),
               rc_keep = (if keep \<le> 0 then DefaultRecordKeep else nat keep),
               rc_open = False, rc_size = 0, rc_quiet404 = 0\<rparr>
      in case rec_open io r of (r', None) \<Rightarrow> Inr r' | (_, Some e) \<Rightarrow> Inl e)"

text \<open>\<open>os.Rename\<close> of generation i to i + 1; a missing file is not counted as an error.\<close>

definition rename_gen :: "io_answers \<Rightarrow> nat \<Rightarrow> (nat \<Rightarrow> string option) \<times> string list
    \<Rightarrow> (nat \<Rightarrow> string option) \<times> string list" where
  "rename_gen io i fe = (case fe of (fs, errs) \<Rightarrow>
     (case fs i of
        None \<Rightarrow> (fs, errs)
      | Some s \<Rightarrow> (case io_rename io i of
           Some e \<Rightarrow> (fs, errs @ [e])
         | None \<Rightarrow> (fs(Suc i := Some s, i := None), errs))))"

definition remove_oldest :: "io_answers \<Rightarrow> nat \<Rightarrow> (nat \<Rightarrow> string option) \<Rightarrow> (nat \<Rightarrow> string option) \<times> string list" where
  "remove_oldest io keep fs = (case fs keep of
     None \<Rightarrow> (fs, [])
   | Some _ \<Rightarrow> (case io_remove io of Some e \<Rightarrow> (fs, [e]) | None \<Rightarrow> (fs(keep := None), [])))"

definition rotate_files :: "io_answers \<Rightarrow> nat \<Rightarrow> (nat \<Rightarrow> string option) \<Rightarrow> (nat \<Rightarrow> string option) \<times> string list" where
  "rotate_files io keep fs =
     rename_gen io 0 (fold (rename_gen io) (rev [1..<keep]) (remove_oldest io keep fs))"

definition rec_rotate :: "io_answers \<Rightarrow> recorder \<Rightarrow> recorder \<times> string list" where
  "rec_rotate io r =
     (case rotate_files io (rc_keep r) (rc_files r) of (fs, errs) \<Rightarrow>
        (case rec_open io (r\<lparr>rc_files := fs, rc_open := False\<rparr>) of
           (r', None) \<Rightarrow> (r', errs) | (r', Some e) \<Rightarrow> (r', errs @ [e])))"

definition rec_append :: "io_answers \<Rightarrow> string \<Rightarrow> recorder \<Rightarrow> recorder \<times> string option" where
  "rec_append io line r =
     (let n = (case io_write io of None \<Rightarrow> length line | Some (k, _) \<Rightarrow> min k (length line))
      in (r\<lparr>rc_files := (rc_files r)(0 := Some (file_text 0 r @ take n line)), rc_size := rc_size r + int n\<rparr>,
          map_option snd (io_write io)))"

definition needs_rotation :: "string \<Rightarrow> recorder \<Rightarrow> bool" where
  "needs_rotation line r \<longleftrightarrow> 0 < rc_max r \<and> 0 < rc_size r \<and> rc_max r < rc_size r + int (length line)"

definition rec_encode :: "io_answers \<Rightarrow> string \<Rightarrow> recorder \<Rightarrow> recorder \<times> string option" where
  "rec_encode io line r0 =
     (case (if rc_open r0 then (r0, None) else rec_open io r0) of
        (r1, Some e) \<Rightarrow> (r1, Some e)
      | (r1, None) \<Rightarrow>
          if needs_rotation line r1
          then (case rec_rotate io r1 of
                  (r2, []) \<Rightarrow> rec_append io line r2
                | (r2, errs) \<Rightarrow> (r2, Some (''rotate: '' @ join [LF] errs)))
          else rec_append io line r1)"

definition rec_write :: "io_answers \<Rightarrow> (log_entry \<Rightarrow> string) \<Rightarrow> inform_record \<Rightarrow> recorder \<Rightarrow> recorder \<times> string option" where
  "rec_write io js rec r =
     (if re_status rec = 404 \<and> re_error rec = [] then
        (let r1 = r\<lparr>rc_quiet404 := rc_quiet404 r + 1\<rparr>
         in if 1 < rc_quiet404 r1 then (r1, None) else rec_encode io (js (Rec rec)) r1)
      else (case (if 1 < rc_quiet404 r
                  then rec_encode io (js (Collapsed (re_at rec) (rc_quiet404 r - 1))) r else (r, None)) of
          (r1, Some e) \<Rightarrow> (r1, Some e)
        | (r1, None) \<Rightarrow> rec_encode io (js (Rec rec)) (r1\<lparr>rc_quiet404 := 0\<rparr>)))"

definition rec_Close :: "io_answers \<Rightarrow> (log_entry \<Rightarrow> string) \<Rightarrow> int \<Rightarrow> recorder \<Rightarrow> recorder" where
  "rec_Close io js now r =
     (let r1 = (if 1 < rc_quiet404 r then fst (rec_encode io (js (Collapsed now (rc_quiet404 r - 1))) r) else r)
      in r1\<lparr>rc_open := False\<rparr>)"

end
