(* ===== verification/Recorder_Props.thy ===== *)
theory Recorder_Props
  imports Recorder
begin

text \<open>
  The reply log keeps every reply: on a file system that does not fail, the generations of the
  log read from the oldest to the live file are the end of the stream of lines ever written, a
  rotation falls between two lines, the live file respects the cap, and collapsed 404s add up.
\<close>

section \<open>Rotation\<close>

definition stream :: "recorder \<Rightarrow> string" where
  "stream r = concat (map (\<lambda>i. file_text i r) (rev [0..<Suc (rc_keep r)]))"

definition rec_wf :: "recorder \<Rightarrow> bool" where
  "rec_wf r \<longleftrightarrow> rc_open r \<and> rc_size r = int (length (file_text 0 r)) \<and> rc_files r 0 \<noteq> None \<and> 1 \<le> rc_keep r"

lemma rename_gen_ok:
  "fs (Suc i) = None \<Longrightarrow> rename_gen io_ok i (fs, errs) = (fs(Suc i := fs i, i := None), errs)"
  by (auto simp: rename_gen_def io_ok_def fun_eq_iff split: option.splits)

lemma shift_gens:
  assumes "m \<le> n" and "fs n = None"
  shows "fold (rename_gen io_ok) (rev [m..<n]) (fs, errs) =
    ((\<lambda>j. if j = m then None else if m < j \<and> j \<le> n then fs (j - 1) else fs j), errs)"
  using assms
proof (induction n arbitrary: fs)
  case (Suc n)
  show ?case
  proof (cases "m = Suc n")
    case False
    with Suc.prems have "m \<le> n" by simp
    have f: "(fs(Suc n := fs n, n := None)) n = None" by simp
    have e: "fold (rename_gen io_ok) (rev [m..<Suc n]) (fs, errs)
        = fold (rename_gen io_ok) (rev [m..<n]) (fs(Suc n := fs n, n := None), errs)"
      using \<open>m \<le> n\<close> Suc.prems(2) by (simp add: rename_gen_ok)
    show ?thesis unfolding e Suc.IH[OF \<open>m \<le> n\<close>, of "fs(Suc n := fs n, n := None)", OF f]
      using \<open>m \<le> n\<close> by (auto simp: fun_eq_iff)
  qed (use Suc.prems in \<open>auto simp: fun_eq_iff\<close>)
qed (auto simp: fun_eq_iff)

lemma rotate_files_ok:
  assumes "1 \<le> keep"
  shows "rotate_files io_ok keep fs =
    ((\<lambda>j. if j = 0 then None else if j \<le> keep then fs (j - 1) else fs j), [])"
proof -
  have r: "remove_oldest io_ok keep fs = (fs(keep := None), [])"
    by (auto simp: remove_oldest_def io_ok_def fun_eq_iff split: option.splits)
  have "rev [0..<keep] = rev [1..<keep] @ [0]"
    using assms by (metis One_nat_def less_eq_Suc_le rev.simps(2) upt_conv_Cons)
  then have "rotate_files io_ok keep fs = fold (rename_gen io_ok) (rev [0..<keep]) (fs(keep := None), [])"
    by (simp add: rotate_files_def r)
  also have "\<dots> = ((\<lambda>j. if j = 0 then None else if j \<le> keep then fs (j - 1) else fs j), [])"
    by (subst shift_gens) (use assms in \<open>auto simp: fun_eq_iff\<close>)
  finally show ?thesis .
qed

definition shifted :: "recorder \<Rightarrow> recorder" where
  "shifted r = r\<lparr>rc_files := (\<lambda>j. if j = 0 then Some [] else if j \<le> rc_keep r then rc_files r (j - 1) else rc_files r j),
     rc_open := True, rc_size := 0\<rparr>"

lemma rec_rotate_ok:
  assumes "1 \<le> rc_keep r"
  shows "rec_rotate io_ok r = (shifted r, [])"
proof -
  have o: "io_open io_ok = None" by (simp add: io_ok_def)
  show ?thesis
    by (simp add: rec_rotate_def rotate_files_ok[OF assms] rec_open_def o file_text_def shifted_def fun_upd_def if_distrib
        cong: if_cong)
qed

lemma map_rev_upt_shift: "map f (rev [0..<Suc n]) = map (\<lambda>i. f (Suc i)) (rev [0..<n]) @ [f 0]"
  by (induction n) auto

lemma stream_shifted:
  assumes "rec_wf r"
  shows "stream r = file_text (rc_keep r) r @ stream (shifted r)"
proof -
  have s: "file_text (Suc i) (shifted r) = file_text i r" if "i < rc_keep r" for i
    using that by (simp add: file_text_def shifted_def)
  have "stream (shifted r) = concat (map (\<lambda>i. file_text i (shifted r)) (rev [0..<Suc (rc_keep r)]))"
    by (simp add: stream_def shifted_def)
  also have "\<dots> = concat (map (\<lambda>i. file_text i r) (rev [0..<rc_keep r]))"
    unfolding map_rev_upt_shift using s by (auto simp: file_text_def shifted_def intro!: arg_cong[of _ _ concat])
  finally show ?thesis by (simp add: stream_def)
qed

lemma rec_append_ok:
  "rec_append io_ok line r = (r\<lparr>rc_files := (rc_files r)(0 := Some (file_text 0 r @ line)),
     rc_size := rc_size r + int (length line)\<rparr>, None)"
  by (simp add: rec_append_def io_ok_def)

lemma stream_append:
  assumes "rec_append io_ok line r = (r', e)"
  shows "stream r' = stream r @ line"
proof -
  from assms have r': "file_text 0 r' = file_text 0 r @ line" "rc_keep r' = rc_keep r"
    "\<And>i. file_text (Suc i) r' = file_text (Suc i) r"
    by (auto simp: rec_append_ok file_text_def)
  show ?thesis unfolding stream_def map_rev_upt_shift r' by simp
qed

text \<open>One line on a file system that does not fail.\<close>

definition step_ok :: "string \<Rightarrow> recorder \<Rightarrow> recorder \<Rightarrow> bool" where
  "step_ok line r r' \<longleftrightarrow> rec_wf r' \<and> rc_max r' = rc_max r \<and> rc_keep r' = rc_keep r \<and> rc_quiet404 r' = rc_quiet404 r
     \<and> (\<exists>dropped. stream r @ line = dropped @ stream r' \<and> (\<not> needs_rotation line r \<longrightarrow> dropped = [])
        \<and> (needs_rotation line r \<longrightarrow> dropped = file_text (rc_keep r) r \<and> file_text 1 r' = file_text 0 r))
     \<and> (0 < rc_max r \<longrightarrow> int (length (file_text 0 r')) \<le> rc_max r \<or> file_text 0 r' = line)"

lemma rec_encode_ok:
  assumes "rec_wf r"
  obtains r' where "rec_encode io_ok line r = (r', None)" "step_ok line r r'"
proof (cases "needs_rotation line r")
  case False
  obtain r' where a: "rec_append io_ok line r = (r', None)" by (simp add: rec_append_ok)
  have e: "rec_encode io_ok line r = (r', None)" using assms False a by (simp add: rec_encode_def rec_wf_def)
  have "step_ok line r r'"
    using assms a False stream_append[OF a]
    by (auto simp: step_ok_def rec_wf_def rec_append_ok file_text_def needs_rotation_def)
  with e that show thesis by blast
next
  case True
  obtain r' where a: "rec_append io_ok line (shifted r) = (r', None)" by (simp add: rec_append_ok)
  have k: "1 \<le> rc_keep r" using assms by (simp add: rec_wf_def)
  have e: "rec_encode io_ok line r = (r', None)"
    using assms True a by (simp add: rec_encode_def rec_wf_def rec_rotate_ok)
  have f: "file_text 0 r' = line" "file_text 1 r' = file_text 0 r"
    using a k by (auto simp: rec_append_ok file_text_def shifted_def)
  have "step_ok line r r'"
    using a True stream_append[OF a] stream_shifted[OF assms] f k
    by (auto simp: step_ok_def rec_wf_def rec_append_ok shifted_def file_text_def)
  with e that show thesis by blast
qed

lemma step_ok_wf [simp]: "step_ok line r r' \<Longrightarrow> rec_wf r'"
  by (simp add: step_ok_def)

lemma rec_wf_quiet [simp]: "rec_wf (r\<lparr>rc_quiet404 := q\<rparr>) = rec_wf r"
  by (simp add: rec_wf_def file_text_def)

lemma stream_quiet [simp]: "stream (r\<lparr>rc_quiet404 := q\<rparr>) = stream r" "stream (r\<lparr>rc_open := b\<rparr>) = stream r"
  by (simp_all add: stream_def file_text_def)

section \<open>The lines of a run\<close>

fun write_all :: "(log_entry \<Rightarrow> string) \<Rightarrow> inform_record list \<Rightarrow> recorder \<Rightarrow> recorder" where
  "write_all js [] r = r"
| "write_all js (x # xs) r = write_all js xs (fst (rec_write io_ok js x r))"

definition is404 :: "inform_record \<Rightarrow> bool" where
  "is404 x \<longleftrightarrow> re_status x = 404 \<and> re_error x = []"

text \<open>The specification: the entries a run of replies and the final close write, \<open>q\<close> quiet 404s in.\<close>

definition flush_entry :: "int \<Rightarrow> int \<Rightarrow> log_entry list" where
  "flush_entry now q = (if 1 < q then [Collapsed now (q - 1)] else [])"

fun entries :: "int \<Rightarrow> int \<Rightarrow> inform_record list \<Rightarrow> log_entry list" where
  "entries now q [] = flush_entry now q"
| "entries now q (x # xs) =
     (if is404 x then (if 0 < q then [] else [Rec x]) @ entries now (q + 1) xs
      else flush_entry (re_at x) q @ Rec x # entries now 0 xs)"

fun weight :: "log_entry \<Rightarrow> int" where
  "weight (Rec x) = (if is404 x then 1 else 0)"
| "weight (Collapsed _ n) = n"

fun replies :: "log_entry list \<Rightarrow> inform_record list" where
  "replies [] = []"
| "replies (Rec x # es) = (if is404 x then replies es else x # replies es)"
| "replies (Collapsed _ _ # es) = replies es"

lemma replies_app [simp]: "replies (xs @ ys) = replies xs @ replies ys"
  by (induction xs rule: replies.induct) auto

lemma entries_weight:
  "0 \<le> q \<Longrightarrow> (\<Sum>e \<leftarrow> entries now q xs. weight e) = int (length (filter is404 xs)) + (if 0 < q then q - 1 else 0)"
  by (induction now q xs rule: entries.induct) (auto simp: flush_entry_def)

lemma entries_replies: "replies (entries now q xs) = filter (\<lambda>x. \<not> is404 x) xs"
  by (induction now q xs rule: entries.induct) (auto simp: flush_entry_def)

text \<open>What the log holds is the end of the stream; without a cap it is all of it.\<close>

definition holds_end :: "recorder \<Rightarrow> string \<Rightarrow> recorder \<Rightarrow> bool" where
  "holds_end r new r' \<longleftrightarrow> rec_wf r' \<and> rc_max r' = rc_max r \<and> rc_keep r' = rc_keep r
     \<and> suffix (stream r') (stream r @ new) \<and> (rc_max r < 0 \<longrightarrow> stream r' = stream r @ new)"

lemma holds_end_refl: "rec_wf r \<Longrightarrow> holds_end r [] r"
  by (simp add: holds_end_def)

lemma holds_end_trans: "holds_end r a r' \<Longrightarrow> holds_end r' b r'' \<Longrightarrow> holds_end r (a @ b) r''"
  by (auto simp: holds_end_def suffix_def) (metis append_assoc)

lemma holds_end_quiet [simp]: "holds_end r a (r'\<lparr>rc_quiet404 := q\<rparr>) = holds_end r a r'"
  "holds_end (r\<lparr>rc_quiet404 := q\<rparr>) a r' = holds_end r a r'"
  by (simp_all add: holds_end_def)

lemma rec_encode_holds:
  assumes "rec_wf r"
  obtains r' where "rec_encode io_ok line r = (r', None)" "holds_end r line r'" "rc_quiet404 r' = rc_quiet404 r"
proof -
  obtain r' where e: "rec_encode io_ok line r = (r', None)" and s: "step_ok line r r'"
    using rec_encode_ok[OF assms] by blast
  from s have "holds_end r line r'" "rc_quiet404 r' = rc_quiet404 r"
    by (auto simp: step_ok_def holds_end_def suffix_def needs_rotation_def)
  with e that show thesis by blast
qed

lemma encode_flush:
  assumes "rec_wf r"
  obtains r1 where "(if 1 < rc_quiet404 r then rec_encode io_ok (js (Collapsed now (rc_quiet404 r - 1))) r else (r, None))
      = (r1, None)" "holds_end r (concat (map js (flush_entry now (rc_quiet404 r)))) r1"
proof (cases "1 < rc_quiet404 r")
  case True
  obtain r1 where "rec_encode io_ok (js (Collapsed now (rc_quiet404 r - 1))) r = (r1, None)"
    "holds_end r (js (Collapsed now (rc_quiet404 r - 1))) r1"
    by (rule rec_encode_holds[OF assms])
  with True that show thesis by (simp add: flush_entry_def)
qed (use that holds_end_refl[OF assms] in \<open>simp add: flush_entry_def\<close>)

lemma rec_write_holds:
  assumes "rec_wf r" and "0 \<le> rc_quiet404 r"
  obtains r' where "rec_write io_ok js x r = (r', None)"
    "holds_end r (concat (map js (if is404 x then (if 0 < rc_quiet404 r then [] else [Rec x])
        else flush_entry (re_at x) (rc_quiet404 r) @ [Rec x]))) r'"
    "rc_quiet404 r' = (if is404 x then rc_quiet404 r + 1 else 0)"
proof (cases "is404 x")
  case True
  obtain r1 where e: "rec_encode io_ok (js (Rec x)) (r\<lparr>rc_quiet404 := rc_quiet404 r + 1\<rparr>) = (r1, None)"
    "holds_end r (js (Rec x)) r1" "rc_quiet404 r1 = rc_quiet404 r + 1"
    using rec_encode_holds[of "r\<lparr>rc_quiet404 := rc_quiet404 r + 1\<rparr>" "js (Rec x)"] assms by auto
  show thesis
    by (rule that[of "if 0 < rc_quiet404 r then r\<lparr>rc_quiet404 := rc_quiet404 r + 1\<rparr> else r1"])
      (use True e assms holds_end_refl[OF assms(1)] in \<open>auto simp: rec_write_def is404_def Let_def\<close>)
next
  case False
  obtain r1 where f: "(if 1 < rc_quiet404 r then rec_encode io_ok (js (Collapsed (re_at x) (rc_quiet404 r - 1))) r
      else (r, None)) = (r1, None)" and h: "holds_end r (concat (map js (flush_entry (re_at x) (rc_quiet404 r)))) r1"
    using encode_flush[OF assms(1)] by blast
  from h have "rec_wf (r1\<lparr>rc_quiet404 := 0\<rparr>)" by (simp add: holds_end_def)
  then obtain r2 where e: "rec_encode io_ok (js (Rec x)) (r1\<lparr>rc_quiet404 := 0\<rparr>) = (r2, None)"
    "holds_end (r1\<lparr>rc_quiet404 := 0\<rparr>) (js (Rec x)) r2" "rc_quiet404 r2 = rc_quiet404 (r1\<lparr>rc_quiet404 := 0\<rparr>)"
    by (rule rec_encode_holds)
  from False e(1) f have "rec_write io_ok js x r = (r2, None)" by (auto simp: rec_write_def is404_def)
  with that False e holds_end_trans[OF h, of "js (Rec x)" r2] show thesis by simp
qed

lemma write_all_holds:
  assumes "rec_wf r" and "0 \<le> rc_quiet404 r"
  shows "holds_end r (concat (map js (entries now (rc_quiet404 r) xs)))
     ((rec_Close io_ok js now (write_all js xs r))\<lparr>rc_open := True\<rparr>)"
  using assms
proof (induction xs arbitrary: r)
  case Nil
  obtain r1 where f: "(if 1 < rc_quiet404 r then rec_encode io_ok (js (Collapsed now (rc_quiet404 r - 1))) r
      else (r, None)) = (r1, None)" and h: "holds_end r (concat (map js (flush_entry now (rc_quiet404 r)))) r1"
    using encode_flush[OF Nil(1)] by blast
  from f have "rec_Close io_ok js now r = r1\<lparr>rc_open := False\<rparr>"
    by (auto simp: rec_Close_def Let_def split: if_splits)
  moreover from h have "r1\<lparr>rc_open := True\<rparr> = r1" by (cases r1) (simp add: holds_end_def rec_wf_def)
  ultimately show ?case using h by (cases r1) simp
next
  case (Cons x xs)
  obtain r' where w: "rec_write io_ok js x r = (r', None)"
    and h: "holds_end r (concat (map js (if is404 x then (if 0 < rc_quiet404 r then [] else [Rec x])
        else flush_entry (re_at x) (rc_quiet404 r) @ [Rec x]))) r'"
    and q: "rc_quiet404 r' = (if is404 x then rc_quiet404 r + 1 else 0)"
    using rec_write_holds[OF Cons.prems] by blast
  from h have "rec_wf r'" by (simp add: holds_end_def)
  moreover from q Cons.prems(2) have "0 \<le> rc_quiet404 r'" by auto
  ultimately have "holds_end r' (concat (map js (entries now (rc_quiet404 r') xs)))
     ((rec_Close io_ok js now (write_all js xs r'))\<lparr>rc_open := True\<rparr>)" by (rule Cons.IH)
  from holds_end_trans[OF h this] show ?case by (cases "is404 x") (auto simp: w q)
qed

text \<open>
  C31. The reply log is complete. On a file system that does not fail, after any sequence of
  replies and the final close, what the generations of the log hold, oldest first, is the end of
  the old log followed by the run's entries (all of it when there is no size cap), the entries
  carry every reply that is not a plain 404 once and in order, and the 404 lines and the
  collapsed counts add up to the number of 404s received.
\<close>

theorem reply_log_complete:
  assumes "rec_wf r" and "rc_quiet404 r = 0"
  shows "\<exists>es. suffix (stream (rec_Close io_ok js now (write_all js xs r))) (stream r @ concat (map js es))
    \<and> (rc_max r < 0 \<longrightarrow> stream (rec_Close io_ok js now (write_all js xs r)) = stream r @ concat (map js es))
    \<and> replies es = filter (\<lambda>x. \<not> is404 x) xs
    \<and> (\<Sum>e \<leftarrow> es. weight e) = int (length (filter is404 xs))"
proof -
  have "holds_end r (concat (map js (entries now 0 xs))) ((rec_Close io_ok js now (write_all js xs r))\<lparr>rc_open := True\<rparr>)"
    using write_all_holds[OF assms(1), of js now xs] assms(2) by simp
  then show ?thesis
    by (intro exI[of _ "entries now 0 xs"]) (auto simp: holds_end_def entries_replies entries_weight)
qed

definition demo_recorder :: "int \<Rightarrow> recorder" where
  "demo_recorder cap = \<lparr>rc_files = (\<lambda>i. if i = 0 then Some ''old'' else None), rc_max = cap, rc_keep = 3,
     rc_open = True, rc_size = 3, rc_quiet404 = 0\<rparr>"

lemma reply_log_complete_witness:
  "rec_wf (demo_recorder (-1)) \<and> rc_quiet404 (demo_recorder (-1)) = 0
   \<and> (\<exists>es. (\<Sum>e \<leftarrow> es. weight e) = int (length (filter is404
        [(new_record 0 True True)\<lparr>re_status := 404\<rparr>, (new_record 1 True True)\<lparr>re_status := 404\<rparr>])))"
proof -
  have h: "rec_wf (demo_recorder (-1))" "rc_quiet404 (demo_recorder (-1)) = 0"
    by (simp_all add: rec_wf_def demo_recorder_def file_text_def)
  show ?thesis using h reply_log_complete[OF h] by blast
qed

text \<open>
  C32. The size cap: with a cap, after any line on a file system that does not fail the live
  file is within the cap or is that one line, and a rotation moves the whole live file to
  generation 1 and drops only the oldest generation.
\<close>

theorem live_file_within_cap:
  assumes "rec_wf r" and "0 < rc_max r"
  shows "\<exists>r'. rec_encode io_ok line r = (r', None) \<and> rec_wf r'
    \<and> (int (length (file_text 0 r')) \<le> rc_max r \<or> file_text 0 r' = line)
    \<and> (if needs_rotation line r then file_text 1 r' = file_text 0 r \<and> stream r @ line = file_text (rc_keep r) r @ stream r'
       else stream r' = stream r @ line)"
  using rec_encode_ok[OF assms(1), of line] assms(2) by (metis append_Nil step_ok_def)

lemma live_file_within_cap_witness:
  "rec_wf (demo_recorder 4) \<and> (\<exists>r'. rec_encode io_ok ''new'' (demo_recorder 4) = (r', None) \<and> file_text 1 r' = ''old'')"
proof -
  have h: "rec_wf (demo_recorder 4)" "0 < rc_max (demo_recorder 4)" "needs_rotation ''new'' (demo_recorder 4)"
    "file_text 0 (demo_recorder 4) = ''old''"
    by (simp_all add: rec_wf_def demo_recorder_def file_text_def needs_rotation_def)
  from live_file_within_cap[OF h(1,2), of "''new''"] h show ?thesis by auto
qed

lemma rename_gens_keep_live:
  "0 \<notin> set is \<Longrightarrow> fst (fold (rename_gen io) is fe) 0 = fst fe 0"
proof (induction "is" arbitrary: fe)
  case (Cons i js)
  then have "fst (rename_gen io i fe) 0 = fst fe 0"
    by (auto simp: rename_gen_def split: prod.splits option.splits)
  with Cons show ?case by simp
qed simp

text \<open>
  While the rename of the live file fails, a full log records nothing: the line that needs
  the rotation is not written, the call returns an error, the live file keeps its content, and
  the same line would need a rotation again.
\<close>

theorem failed_rename_loses_the_line:
  assumes "rec_wf r" and "needs_rotation line r" and "io_rename io 0 = Some e" and "io_open io = None"
  shows "\<exists>r' err. rec_encode io line r = (r', Some err) \<and> file_text 0 r' = file_text 0 r \<and> needs_rotation line r'"
proof -
  obtain fs0 errs0 where fe: "fold (rename_gen io) (rev [1..<rc_keep r])
      (remove_oldest io (rc_keep r) (rc_files r)) = (fs0, errs0)" by fastforce
  have "fst (remove_oldest io (rc_keep r) (rc_files r)) 0 = rc_files r 0"
    using assms(1) by (auto simp: remove_oldest_def rec_wf_def split: option.splits)
  then have "fs0 0 = rc_files r 0"
    using rename_gens_keep_live[of "rev [1..<rc_keep r]" io "remove_oldest io (rc_keep r) (rc_files r)"] fe by simp
  moreover obtain s where s: "rc_files r 0 = Some s" using assms(1) by (auto simp: rec_wf_def)
  ultimately obtain fs errs where f: "rotate_files io (rc_keep r) (rc_files r) = (fs, errs @ [e])" "fs 0 = Some s"
    using assms(3) fe by (simp add: rotate_files_def) (simp add: rename_gen_def)
  obtain r' where r': "rec_rotate io r = (r', errs @ [e])" "rc_files r' 0 = Some s" "rc_size r' = int (length s)" "rc_max r' = rc_max r"
    using f assms(4) by (auto simp: rec_rotate_def rec_open_def file_text_def)
  have sz: "rc_size r = int (length s)" "rc_open r" using assms(1) s by (auto simp: rec_wf_def file_text_def)
  have "rec_encode io line r = (r', Some (''rotate: '' @ join [LF] (errs @ [e])))"
    using assms(2) sz r'(1) by (auto simp: rec_encode_def split: list.splits)
  with r' s sz assms(2) show ?thesis by (auto simp: file_text_def needs_rotation_def)
qed

lemma failed_rename_loses_the_line_witness:
  "rec_wf (demo_recorder 4) \<and> needs_rotation ''new'' (demo_recorder 4)
   \<and> (\<exists>r' err. rec_encode (io_ok\<lparr>io_rename := (\<lambda>_. Some ''denied'')\<rparr>) ''new'' (demo_recorder 4) = (r', Some err)
      \<and> file_text 0 r' = ''old'')"
proof -
  have h: "rec_wf (demo_recorder 4)" "needs_rotation ''new'' (demo_recorder 4)" "file_text 0 (demo_recorder 4) = ''old''"
    "io_rename (io_ok\<lparr>io_rename := (\<lambda>_. Some ''denied'')\<rparr>) 0 = Some ''denied''"
    "io_open (io_ok\<lparr>io_rename := (\<lambda>_. Some ''denied'')\<rparr>) = None"
    by (simp_all add: rec_wf_def demo_recorder_def file_text_def needs_rotation_def io_ok_def)
  from failed_rename_loses_the_line[OF h(1,2,4,5)] h show ?thesis by auto
qed

end
