(* ===== verification/Intent.thy ===== *)
theory Intent
  imports UnifiCfg DeviceModel
begin

text \<open>
  The translation half of the loop: a parsed configuration to the neutral intent a driver is
  given (\<^verbatim>\<open>internal/informloop/acl.go\<close>, and \<^verbatim>\<open>desiredPorts\<close>, \<^verbatim>\<open>desiredOutlets\<close>, \<^verbatim>\<open>desiredDevice\<close>,
  \<^verbatim>\<open>addressIntent\<close> and their helpers in \<^verbatim>\<open>loop.go\<close>). Pure functions of the configuration and the
  loop's settings; the log lines they cause are returned, and written by the loop (Loop).
\<close>

section \<open>DHCP guards and ACL rules\<close>

definition desiredGuards :: "config \<Rightarrow> dm_guard list" where
  "desiredGuards c = (case c_dhcp_snoop c of
     Some True \<Rightarrow> map (\<lambda>g. \<lparr>dg_vlan = g_vlan g, dg_server = g_server g\<rparr>) (c_dhcp_guards c)
   | _ \<Rightarrow> [])"

definition ipEnd :: "ip_match \<Rightarrow> ip_end" where
  "ipEnd m =
     (let cidr = (if im_ip m = AnyIP then []
                  else (case parse_cidr (im_ip m) of Some (_, net, n) \<Rightarrow> cidr_string net n | None \<Rightarrow> im_ip m));
          range = (if im_range m = AnyPort then None else str_cut (CHR ''-'') (im_range m))
      in (case range of
            Some (lo, hi) \<Rightarrow> \<lparr>ie_cidr = cidr, ie_port = im_port m, ie_min = atoi_val lo, ie_max = atoi_val hi\<rparr>
          | None \<Rightarrow> \<lparr>ie_cidr = cidr, ie_port = im_port m, ie_min = 0, ie_max = 0\<rparr>))"

definition macEnd :: "mac_match \<Rightarrow> mac_end" where
  "macEnd m = (if mm_mac m = ''any'' then \<lparr>me_mac = [], me_mask = []\<rparr>
     else \<lparr>me_mac = to_lower (mm_mac m), me_mask = to_lower (mm_mask m)\<rparr>)"

text \<open>A rule that is not translated and why; one reason per rule, in the order of the rules.\<close>

datatype held_rule = HeldIP string uncaptured | HeldMAC string uncaptured

definition ip_rule :: "ip_acl \<Rightarrow> dm_ipacl" where
  "ip_rule a = \<lparr>di_name = ia_name a, di_permit = ia_permit a,
     di_proto = (if ia_type a \<noteq> ''ip'' then ia_type a else []),
     di_src = ipEnd (ia_src a), di_dst = ipEnd (ia_dst a)\<rparr>"

definition mac_rule :: "mac_acl \<Rightarrow> dm_macacl" where
  "mac_rule a = \<lparr>dmac_name = ma_name a, dmac_permit = ma_permit a, dmac_vlan = ma_vlan a,
     dmac_src = macEnd (ma_src a), dmac_dst = macEnd (ma_dst a)\<rparr>"

fun ip_rules :: "ip_acl list \<Rightarrow> bool \<times> dm_ipacl list \<times> held_rule list" where
  "ip_rules [] = (True, [], [])"
| "ip_rules (a # as) = (case ip_rules as of (set', rules, held) \<Rightarrow>
     if IPACL_Uncaptured a \<noteq> Captured then (False, rules, HeldIP (ia_name a) (IPACL_Uncaptured a) # held)
     else (set', ip_rule a # rules, held))"

fun mac_rules :: "mac_acl list \<Rightarrow> bool \<times> dm_macacl list \<times> held_rule list" where
  "mac_rules [] = (True, [], [])"
| "mac_rules (a # as) = (case mac_rules as of (set', rules, held) \<Rightarrow>
     if MACACL_Uncaptured a \<noteq> Captured then (False, rules, HeldMAC (ma_name a) (MACACL_Uncaptured a) # held)
     else (set', mac_rule a # rules, held))"

definition desiredACLs :: "config \<Rightarrow> device_desired \<Rightarrow> device_desired \<times> held_rule list" where
  "desiredACLs c d = (case ip_rules (c_ip_acls c) of (is, ir, ih) \<Rightarrow>
     (case mac_rules (c_mac_acls c) of (ms, mr, mh) \<Rightarrow>
       (d\<lparr>dd_ipacl_set := is, dd_ipacls := (if is then ir else []),
          dd_macacl_set := ms, dd_macacls := (if ms then mr else [])\<rparr>, ih @ mh)))"

section \<open>Ports\<close>

definition isDefaultName :: "string list alist \<Rightarrow> int \<Rightarrow> string \<Rightarrow> bool" where
  "isDefaultName names idx name \<longleftrightarrow> name = [] \<or> name \<in> set (mget [] names idx)"

definition fec_intent :: "string \<Rightarrow> fec option" where
  "fec_intent s = (if s = ''cl-91'' \<or> s = ''rs-fec'' then Some FECRS
     else if s = ''cl-74'' \<or> s = ''fc-fec'' then Some FECFC
     else if s = ''disabled'' \<or> s = ''none'' \<or> s = ''off'' then Some FECDisabled else None)"

definition pct :: "int \<Rightarrow> real option" where
  "pct v = (if 0 \<le> v then Some (of_int v) else None)"

definition storm_rate_mode :: "port_cfg \<Rightarrow> bool" where
  "storm_rate_mode p \<longleftrightarrow> sc_enabled (p_storm p) \<and> sc_type (p_storm p) = ''rate''"

definition storm_intent :: "port_cfg \<Rightarrow> storm_spec option" where
  "storm_intent p =
     (if storm_rate_mode p then None
      else if sc_enabled (p_storm p)
      then Some \<lparr>bcast_pct = pct (sc_bcast (p_storm p)), mcast_pct = pct (sc_mcast (p_storm p)),
                 ucast_pct = pct (sc_ucast (p_storm p))\<rparr>
      else None)"

definition mtu_intent :: "config \<Rightarrow> int" where
  "mtu_intent c = (if \<not> c_jumbo_set c then 0
     else if c_jumbo c then (if c_mtu c \<le> 0 then 9216 else c_mtu c) else 1500)"

definition port_intent :: "string list alist \<Rightarrow> config \<Rightarrow> int \<Rightarrow> port_cfg \<Rightarrow> port_desired" where
  "port_intent names c idx p = \<lparr>
     pd_index = idx, pd_enabled = p_enabled p,
     pd_description = (if isDefaultName names idx (p_name p) then [] else p_name p),
     pd_speed = (if \<not> p_autoneg p \<and> 0 < p_speed p then p_speed p else 0),
     pd_vlan_set = True,
     pd_native = (if p_vlan_explicit p then p_native p else 1),
     pd_tagged_all = (\<not> p_vlan_explicit p),
     pd_tagged = (if p_vlan_explicit p then p_tagged p else []),
     pd_fec = fec_intent (p_fec p), pd_storm = storm_intent p,
     pd_bpdu = p_bpdu p, pd_stp_edge = (\<not> p_stp_mode p), pd_edge_mode = p_edge p,
     pd_loop_protect = p_keepalive p,
     pd_lag = (if p_opmode p = ''aggregate'' then p_lag p else 0),
     pd_mirror = (if p_opmode p = ''mirror'' then p_mirror p else 0),
     pd_mtu = mtu_intent c\<rparr>"

text \<open>A nil set of indexes means all of them; a key mapped to false is not in the set.\<close>

definition under_control :: "int list option \<Rightarrow> int \<Rightarrow> bool" where
  "under_control ctl i = (case ctl of None \<Rightarrow> True | Some is \<Rightarrow> i \<in> set is)"

definition controlled_ports :: "int list option \<Rightarrow> config \<Rightarrow> (int \<times> port_cfg) list" where
  "controlled_ports ctl c =
     map (\<lambda>i. (i, mget (default_port i) (c_ports c) i)) (filter (under_control ctl) (PortIndexes c))"

definition ports_intent :: "int list option \<Rightarrow> string list alist \<Rightarrow> config \<Rightarrow> port_desired list" where
  "ports_intent ctl names c = map (\<lambda>(i, p). port_intent names c i p) (controlled_ports ctl c)"

text \<open>The storm settings in Rate mode, which are logged and not applied.\<close>

definition storm_key :: "int \<Rightarrow> port_cfg \<Rightarrow> string" where
  "storm_key i p = itoa i @ '':'' @ itoa (sc_bcast (p_storm p)) @ ''/'' @ itoa (sc_mcast (p_storm p))
     @ ''/'' @ itoa (sc_ucast (p_storm p))"

definition storm_notes :: "int list option \<Rightarrow> config \<Rightarrow> (int \<times> string) list" where
  "storm_notes ctl c =
     map (\<lambda>(i, p). (i, storm_key i p)) (filter (\<lambda>(i, p). storm_rate_mode p) (controlled_ports ctl c))"

definition withoutMTU :: "port_desired list \<Rightarrow> port_desired list" where
  "withoutMTU = map (\<lambda>d. d\<lparr>pd_mtu := 0\<rparr>)"

section \<open>Outlets\<close>

definition OutletIndexBase :: "string \<Rightarrow> int" where
  "OutletIndexBase model = (if model = ''USPPDUP'' then 5 else 1)"

definition own_outlet :: "string \<Rightarrow> int \<Rightarrow> int" where
  "own_outlet model idx = idx - OutletIndexBase model + 1"

definition outlet_allowed :: "string \<Rightarrow> int list option \<Rightarrow> int \<Rightarrow> bool" where
  "outlet_allowed model ctl idx \<longleftrightarrow> 1 \<le> own_outlet model idx \<and> under_control ctl (own_outlet model idx)"

definition outlets_intent :: "string \<Rightarrow> int list option \<Rightarrow> config \<Rightarrow> outlet_desired list" where
  "outlets_intent model ctl c =
     map (\<lambda>idx. let o' = mget (default_outlet idx) (c_outlets c) idx
                in \<lparr>od_index = own_outlet model idx, od_on = o_relay_on o', od_name = o_name o'\<rparr>)
       (filter (outlet_allowed model ctl) (OutletIndexes c))"

section \<open>Device-wide settings\<close>

record control_flags =
  cf_igmp :: bool
  cf_ntp :: bool
  cf_syslog :: bool
  cf_hostname :: bool
  cf_reboot :: bool
  cf_snmp :: bool
  cf_ssh_keys :: bool

definition igmp_vlan_of :: "igmp_cfg \<Rightarrow> igmp_vlan" where
  "igmp_vlan_of g = \<lparr>iv_querier = ig_querier g, iv_querier_addr = ig_querier_addr g,
     iv_fast_leave = ig_fast_leave g, iv_max_response = ig_max_response g,
     iv_membership = ig_membership g, iv_router_expiry = ig_router_expiry g,
     iv_suppression = ig_suppression g, iv_flood_unknown = ig_flood_unknown g\<rparr>"

definition igmp_snooping_all :: "config \<Rightarrow> bool alist" where
  "igmp_snooping_all c =
     fold (\<lambda>i m. if i \<in> set (mkeys m) then m else AList.update i False m) (VLANIDs c) (c_igmp_snooping c)"

definition device_base :: "control_flags \<Rightarrow> config \<Rightarrow> device_desired" where
  "device_base f c = \<lparr>
     dd_stp_set = stp_set (c_stp c), dd_stp_enabled = stp_enabled (c_stp c),
     dd_stp_mode = stp_version (c_stp c), dd_stp_priority = stp_priority (c_stp c),
     dd_igmp_snooping = [], dd_igmp = [], dd_igmp_flood = None, dd_igmp_unknown = None,
     dd_ntp = c_ntp_servers c, dd_syslog = c_syslog_hosts c,
     dd_manage_ntp = cf_ntp f, dd_manage_syslog = cf_syslog f,
     dd_dhcp_snoop = c_dhcp_snoop c, dd_guards = desiredGuards c,
     dd_ipacl_set = False, dd_ipacls = [], dd_macacl_set = False, dd_macacls = [],
     dd_snmp_set = False, dd_snmp_community = [], dd_timezone = c_timezone c, dd_hostname = []\<rparr>"

definition snmp_intent :: "config \<Rightarrow> string" where
  "snmp_intent c = (case c_snmp c of
     Some s \<Rightarrow> if snmp_enabled s \<and> prefix ''1'' (snmp_version s) then snmp_community s else []
   | None \<Rightarrow> [])"

definition device_intent :: "control_flags \<Rightarrow> config \<Rightarrow> device_desired \<times> held_rule list" where
  "device_intent f c = (case desiredACLs c (device_base f c) of (d, held) \<Rightarrow>
     (let d1 = (if cf_hostname f then d\<lparr>dd_hostname := c_hostname c\<rparr> else d);
          d2 = (if cf_snmp f then d1\<lparr>dd_snmp_set := True, dd_snmp_community := snmp_intent c\<rparr> else d1);
          d3 = (if cf_igmp f \<and> c_igmp_snooping c \<noteq> [] then
                  (let on = igmp_snooping_all c
                   in d2\<lparr>dd_igmp_snooping := on,
                         dd_igmp := map (\<lambda>(i, g). (i, igmp_vlan_of g))
                           (filter (\<lambda>(i, g). mget False on i) (c_igmp c)),
                         dd_igmp_flood := mc_flood_known (c_multicast c),
                         dd_igmp_unknown := mc_unknown_to_routers (c_multicast c)\<rparr>)
                else d2)
      in (d3, held)))"

definition ssh_keys_intent :: "config \<Rightarrow> ssh_key list" where
  "ssh_keys_intent c =
     map (\<lambda>k. \<lparr>sk_type = k_type k, sk_value = k_value k, sk_comment = k_comment k\<rparr>) (c_ssh_keys c)"

section \<open>The device's own address\<close>

fun popcount :: "nat \<Rightarrow> int" where
  "popcount v = (if v = 0 then 0 else int (v mod 2) + popcount (v div 2))"

declare popcount.simps [simp del]

fun prefix_len_parts :: "string list \<Rightarrow> int \<Rightarrow> int" where
  "prefix_len_parts [] n = n"
| "prefix_len_parts (p # ps) n = (case atoi p of None \<Rightarrow> 0
     | Some v \<Rightarrow> prefix_len_parts ps (n + popcount (nat v)))"

definition prefixLenOf :: "string \<Rightarrow> int" where
  "prefixLenOf m = prefix_len_parts (split_on (CHR ''.'') m) 0"

datatype address_verdict =
    NoIntent
  | StaticIncomplete
  | ApplyAddr address_desired

definition addressIntent :: "config option \<Rightarrow> config \<Rightarrow> address_verdict" where
  "addressIntent prev c = (case c_address c of
     None \<Rightarrow> NoIntent
   | Some a \<Rightarrow>
       if a_dhcp a then
         (case prev of None \<Rightarrow> NoIntent
          | Some p \<Rightarrow> (case c_address p of None \<Rightarrow> NoIntent
             | Some pa \<Rightarrow> if a_dhcp pa then NoIntent
                 else ApplyAddr \<lparr>ad_dhcp = True, ad_ip = [], ad_prefix = 0, ad_gateway = [], ad_dns = []\<rparr>))
       else if a_ip a = [] \<or> a_netmask a = [] then StaticIncomplete
       else ApplyAddr \<lparr>ad_dhcp = False, ad_ip = a_ip a, ad_prefix = prefixLenOf (a_netmask a),
              ad_gateway = a_gateway a, ad_dns = a_dns a\<rparr>)"

section \<open>Facts about the translation\<close>

lemma ip_rules_spec:
  "ip_rules as = (list_all (\<lambda>a. IPACL_Uncaptured a = Captured) as,
     map ip_rule (filter (\<lambda>a. IPACL_Uncaptured a = Captured) as),
     map (\<lambda>a. HeldIP (ia_name a) (IPACL_Uncaptured a)) (filter (\<lambda>a. IPACL_Uncaptured a \<noteq> Captured) as))"
  by (induction as) auto

lemma mac_rules_spec:
  "mac_rules as = (list_all (\<lambda>a. MACACL_Uncaptured a = Captured) as,
     map mac_rule (filter (\<lambda>a. MACACL_Uncaptured a = Captured) as),
     map (\<lambda>a. HeldMAC (ma_name a) (MACACL_Uncaptured a)) (filter (\<lambda>a. MACACL_Uncaptured a \<noteq> Captured) as))"
  by (induction as) auto

lemma device_intent_acls:
  "dd_ipacl_set (fst (device_intent f c)) = fst (ip_rules (c_ip_acls c))"
  "dd_ipacls (fst (device_intent f c)) = (if fst (ip_rules (c_ip_acls c)) then fst (snd (ip_rules (c_ip_acls c))) else [])"
  "dd_macacl_set (fst (device_intent f c)) = fst (mac_rules (c_mac_acls c))"
  "dd_macacls (fst (device_intent f c)) = (if fst (mac_rules (c_mac_acls c)) then fst (snd (mac_rules (c_mac_acls c))) else [])"
  "snd (device_intent f c) = snd (snd (ip_rules (c_ip_acls c))) @ snd (snd (mac_rules (c_mac_acls c)))"
  by (simp_all add: device_intent_def desiredACLs_def Let_def split_beta)

lemma ports_intent_controlled:
  "d \<in> set (ports_intent ctl names c) \<Longrightarrow> under_control ctl (pd_index d)"
  by (auto simp: ports_intent_def controlled_ports_def port_intent_def)

lemma ports_intent_indexes:
  "map pd_index (ports_intent ctl names c) = filter (under_control ctl) (PortIndexes c)"
  by (simp add: ports_intent_def controlled_ports_def port_intent_def o_def)

lemma outlets_intent_allowed:
  "d \<in> set (outlets_intent model ctl c) \<Longrightarrow> 1 \<le> od_index d \<and> under_control ctl (od_index d)"
  by (auto simp: outlets_intent_def outlet_allowed_def Let_def)

lemma withoutMTU_index [simp]: "map pd_index (withoutMTU ds) = map pd_index ds"
  by (simp add: withoutMTU_def o_def)

end
