(* ===== verification/LoopState.thy ===== *)
theory LoopState
  imports Session Intent PowerEvent Recorder
begin

text \<open>
  The state of one device's inform loop (\<^verbatim>\<open>Loop\<close> and \<^verbatim>\<open>Config\<close> of \<^verbatim>\<open>internal/informloop/loop.go\<close>)
  and the driver interfaces it calls (\<^verbatim>\<open>internal/devicemodel/model.go\<close>). Everything outside the
  loop (the device, its driver, the NUT server) is one value of type \<open>'d\<close>; a driver method is a
  function on it, an optional interface a method that may be absent. The loop keeps what it
  called and what it logged.
\<close>

section \<open>Driver interfaces\<close>

type_synonym ('d, 'r) dmethod = "'d \<Rightarrow> (string + 'r) \<times> 'd"
type_synonym 'd act = "'d \<Rightarrow> string option \<times> 'd"

text \<open>The optional interfaces of a driver value, found by type assertion.\<close>

record 'd face =
  fc_PlanPorts :: "(port_desired list \<Rightarrow> 'd \<Rightarrow> int list) option"
  fc_PlanOutlets :: "(outlet_desired list \<Rightarrow> 'd \<Rightarrow> int list) option"
  fc_EnsureVLANs :: "(int list \<Rightarrow> ('d, int) dmethod) option"
  fc_ApplyDevice :: "(device_desired \<Rightarrow> ('d, int) dmethod) option"
  fc_InstallSSHKeys :: "(ssh_key list \<Rightarrow> ('d, int) dmethod) option"
  fc_CyclePort :: "(int \<Rightarrow> 'd act) option"
  fc_CycleOutlet :: "(int \<Rightarrow> 'd act) option"
  fc_Reboot :: "'d act option"
  fc_SetLocate :: "(bool \<Rightarrow> 'd act) option"
  fc_DHCPSnooping :: "('d \<Rightarrow> bool) option"
  fc_CurrentAddress :: "('d \<Rightarrow> string) option"
  fc_PowerEvents :: "(int \<times> real) option"
  fc_ApplyTimeout :: "int option"

record 'd controller =
  ct_face :: "'d face"
  ct_ApplyPorts :: "port_desired list \<Rightarrow> ('d, int) dmethod"

record 'd outlet_controller =
  oc_face :: "'d face"
  oc_ApplyOutlets :: "outlet_desired list \<Rightarrow> ('d, int) dmethod"

record 'd collector =
  co_face :: "'d face"
  co_Collect :: "('d, snapshot) dmethod"

record 'd address_controller =
  ac_face :: "'d face"
  ac_ApplyAddress :: "address_desired \<Rightarrow> ('d, bool) dmethod"

section \<open>Configuration\<close>

record child =
  ch_port :: int
  ch_mac :: string
  ch_name :: string
  ch_report :: string

record 'd loop_config =
  lc_model :: string
  lc_mac :: string
  lc_default_key :: string
  lc_ord :: "(string \<times> string) list \<Rightarrow> (string \<times> string) list"
  lc_quote :: "string \<Rightarrow> string"
  lc_interval :: int
  lc_collect_timeout :: int
  lc_apply_timeout :: int
  lc_collector :: "'d collector option"
  lc_controller :: "'d controller option"
  lc_outlets :: "'d outlet_controller option"
  lc_address :: "'d address_controller option"
  lc_syslog :: "(string list \<Rightarrow> ('d, bool) dmethod) option"
  lc_nut :: "(nut_server option \<Rightarrow> 'd act) option"
  lc_control_ports :: "int list option"
  lc_control_outlets :: "int list option"
  lc_flags :: control_flags
  lc_jumbo_always_on :: bool
  lc_stale_after :: int
  lc_allow_initial :: bool
  lc_names :: "string list alist"
  lc_on_held :: bool
  lc_on_connected :: bool
  lc_on_layout :: bool
  lc_on_system_cfg :: bool
  lc_gateway_ip :: string
  lc_device_name :: string
  lc_children :: "child list"

section \<open>What the loop logs and calls\<close>

datatype inform_line =
    LEncode string | LBuild string | LPost string | LRead string | LDecode string
  | LStatus int string | L404 | LHTTP int | LHTTPAfter int int int
  | LAdoptSet string | LAdoptMgmt | LFactoryReset | LReboot bool | LUpgrade string | LInterval int
  | LMgmt string | LUnknownCmd string | LUnknownType string | LUndecodable string
  | LSystemCfg string | LLocate string bool | LPortCycle string | LRelayctl string | LConnected
  | LRecord string

datatype apply_line =
    LLocateErr string string | LRebootErr string | LRebootIssued | LCycleNone
  | LCycled int "string option" | LOutletsNone | LOutletMissing int | LOutletUncontrolled int
  | LOutletCycled int int "string option" | LReconcileErr string string | LReconciled string int nat
  | LApplyErr string int string | LApplied string int nat | LFollowed string | LPersist string
  | LHoldPorts string "int list" | LHoldOutlets string "int list" | LFresh int string | LStorm int
  | LUnsupported string string "string list" | LJumbo | LLLDPMed int

datatype device_line =
    LACLHeld "held_rule list" | LACLClear | LSSHErr string | LSSHInstalled int nat | LNUTErr string
  | LDeviceErr string | LDeviceApplied int | LAddrReason | LAddrErr string | LAddrDHCP
  | LAddrStatic address_desired | LSetIP string string string | LSyslogErr string | LSyslogOff
  | LSyslogOn "string list" | LVLANErr string | LVLANs int

datatype child_note =
    ChildOK
  | ChildNoPort child
  | ChildHasNeighbor child string string

datatype oob_msg =
    OOBReached string string
  | OOBAddress string string
  | OOBLinkLocal string string
  | OOBConnected string

datatype collect_line =
    LCollectErr int string | LCollectRecovered int | LUplink int int | LOOB oob_msg
  | LFaults string | LFaultsCleared | LLayout "string list" | LStale int | LChild child_note
  | LChildDeclared child | LPower string

datatype log_line = LI inform_line | LA apply_line | LD device_line | LC collect_line

datatype call =
    CApplyPorts "port_desired list"
  | CApplyOutlets "outlet_desired list"
  | CCyclePort int
  | CCycleOutlet int
  | CReboot
  | CSetLocate bool
  | CEnsureVLANs "int list"
  | CApplyDevice device_desired
  | CInstallSSHKeys "ssh_key list"
  | CApplyAddress address_desired
  | CApplySyslog "string list"
  | CApplyNUT "nut_server option"
  | CCollect
  | CInform
  | COnHeld
  | COnConnected
  | COnLayoutChange
  | COnSystemCfg

section \<open>The loop\<close>

datatype lstate = StatePending | StateAdopting | StateConnected

definition state_string :: "lstate \<Rightarrow> string" where
  "state_string s = (case s of StatePending \<Rightarrow> ''PENDING'' | StateAdopting \<Rightarrow> ''ADOPTING''
     | StateConnected \<Rightarrow> ''CONNECTED'')"

record 'd loop =
  lp_dev :: 'd
  lp_session :: session
  lp_calls :: "(call \<times> bool) list"
  lp_log :: "log_line list"
  lp_collect_failures :: int
  lp_stale_silenced :: bool
  lp_apply_failures :: int
  lp_reconciled_once :: bool
  lp_layout_sig :: string
  lp_pending_cycles :: "int list"
  lp_pending_outlet_cycles :: "int list"
  lp_pending_reboot :: bool
  lp_pending_locate :: string
  lp_driver_addr :: string
  lp_warned_version :: string
  lp_storm_noted :: "string list"
  lp_acl_held :: "held_rule list"
  lp_oob_warned :: "oob_msg list"
  lp_uplink_port :: int
  lp_ever_applied :: bool
  lp_held_version :: string
  lp_held_outlet_version :: string
  lp_ever_outlet_applied :: bool
  lp_fresh_ports :: "string alist"
  lp_fresh_warned :: "int list"
  lp_layout_by_port :: "string alist"
  lp_fault_sig :: string
  lp_child_noted :: "child_note alist"
  lp_power :: "tracker option"
  lp_state :: lstate
  lp_interval :: int
  lp_last_status :: int
  lp_status_run :: int
  lp_last_mgmt :: string
  lp_recorder :: "recorder option"
  lp_device_host :: string

text \<open>What one cycle meets: the clock, the state file, the reply log's file system, the HTTP exchange.\<close>

datatype http_result =
    EncodeFailed string
  | RequestFailed string
  | PostFailed string
  | ReadFailed string
  | Answer int string "string + string \<times> bool \<times> reply"

record env =
  ev_now :: int
  ev_reply_now :: int
  ev_save :: "state \<Rightarrow> string option"
  ev_io :: io_answers
  ev_js :: "log_entry \<Rightarrow> string"
  ev_http :: http_result
  ev_hex :: "string \<Rightarrow> string"
  ev_cancelled :: bool

definition say :: "log_line \<Rightarrow> 'd loop \<Rightarrow> 'd loop" where
  "say x l = l\<lparr>lp_log := lp_log l @ [x]\<rparr>"

definition say_all :: "log_line list \<Rightarrow> 'd loop \<Rightarrow> 'd loop" where
  "say_all xs l = l\<lparr>lp_log := lp_log l @ xs\<rparr>"

definition note_call :: "call \<Rightarrow> 'd loop \<Rightarrow> 'd loop" where
  "note_call c l = l\<lparr>lp_calls := lp_calls l @ [(c, True)]\<rparr>"

text \<open>
  Calling a driver method: the device moves on, the answer comes back, and the call is kept with
  whether it succeeded (returned no error).
\<close>

definition invoke :: "call \<Rightarrow> ('d, 'r) dmethod \<Rightarrow> 'd loop \<Rightarrow> (string + 'r) \<times> 'd loop" where
  "invoke c f l = (case f (lp_dev l) of (r, d) \<Rightarrow>
     (r, l\<lparr>lp_dev := d, lp_calls := lp_calls l @ [(c, \<not> isl r)]\<rparr>))"

definition invoke_act :: "call \<Rightarrow> 'd act \<Rightarrow> 'd loop \<Rightarrow> string option \<times> 'd loop" where
  "invoke_act c f l = (case f (lp_dev l) of (r, d) \<Rightarrow>
     (r, l\<lparr>lp_dev := d, lp_calls := lp_calls l @ [(c, r = None)]\<rparr>))"

text \<open>\<open>deviceAs\<close>: a capability of the controller, else of the outlet controller, else of the collector.\<close>

definition deviceAs :: "'d loop_config \<Rightarrow> ('d face \<Rightarrow> 'x option) \<Rightarrow> 'x option" where
  "deviceAs cfg sel =
     (case Option.bind (lc_controller cfg) (\<lambda>c. sel (ct_face c)) of Some v \<Rightarrow> Some v
      | None \<Rightarrow> (case Option.bind (lc_outlets cfg) (\<lambda>c. sel (oc_face c)) of Some v \<Rightarrow> Some v
         | None \<Rightarrow> Option.bind (lc_collector cfg) (\<lambda>c. sel (co_face c))))"

end
