(* ===== verification/Loop.thy ===== *)
theory Loop
  imports LoopState
begin

text \<open>
  The handlers of \<^verbatim>\<open>internal/informloop/loop.go\<close> and \<^verbatim>\<open>children.go\<close>, one definition each, in the
  order a cycle runs them: collecting from the device, applying a pending push or reconciling
  the last applied one, running queued commands, and one inform with its reply. A call's time
  budget is not modelled: a call cut short is a call that returns an error.
\<close>

section \<open>Device-wide settings\<close>

definition parse :: "'d loop_config \<Rightarrow> string \<Rightarrow> UnifiCfg.config" where
  "parse cfg text = Parse (lc_ord cfg) text"

definition noteHeldACLs :: "held_rule list \<Rightarrow> 'd loop \<Rightarrow> 'd loop" where
  "noteHeldACLs held l =
     (if held = lp_acl_held l then l
      else say (LD (if held = [] then LACLClear else LACLHeld held)) (l\<lparr>lp_acl_held := held\<rparr>))"

definition desiredDevice :: "'d loop_config \<Rightarrow> string \<Rightarrow> 'd loop \<Rightarrow> device_desired \<times> 'd loop" where
  "desiredDevice cfg text l = (case device_intent (lc_flags cfg) (parse cfg text) of
     (d, held) \<Rightarrow> (d, noteHeldACLs held l))"

definition applyDeviceSettings :: "'d loop_config \<Rightarrow> string \<Rightarrow> 'd loop \<Rightarrow> 'd loop" where
  "applyDeviceSettings cfg text l = (case deviceAs cfg fc_ApplyDevice of
     None \<Rightarrow> l
   | Some m \<Rightarrow> (case desiredDevice cfg text l of (d, l1) \<Rightarrow>
       (case invoke (CApplyDevice d) (m d) l1 of
          (Inl e, l2) \<Rightarrow> say (LD (LDeviceErr e)) l2
        | (Inr n, l2) \<Rightarrow> if 0 < n then say (LD (LDeviceApplied n)) l2 else l2)))"

definition installSSHKeys :: "'d loop_config \<Rightarrow> string \<Rightarrow> 'd loop \<Rightarrow> 'd loop" where
  "installSSHKeys cfg text l =
     (if \<not> cf_ssh_keys (lc_flags cfg) then l
      else (case deviceAs cfg fc_InstallSSHKeys of
          None \<Rightarrow> l
        | Some m \<Rightarrow> (let keys = ssh_keys_intent (parse cfg text)
            in case invoke (CInstallSSHKeys keys) (m keys) l of
                 (Inl e, l1) \<Rightarrow> say (LD (LSSHErr e)) l1
               | (Inr n, l1) \<Rightarrow> if 0 < n then say (LD (LSSHInstalled n (length keys))) l1 else l1)))"

definition applyNUT :: "'d loop_config \<Rightarrow> string \<Rightarrow> 'd loop \<Rightarrow> 'd loop" where
  "applyNUT cfg text l = (case lc_nut cfg of
     None \<Rightarrow> l
   | Some m \<Rightarrow> (let spec = c_nut (parse cfg text)
       in case invoke_act (CApplyNUT spec) (m spec) l of
            (Some e, l1) \<Rightarrow> say (LD (LNUTErr e)) l1
          | (None, l1) \<Rightarrow> l1))"

definition setDeviceIP :: "string \<Rightarrow> string \<Rightarrow> 'd loop \<Rightarrow> 'd loop" where
  "setDeviceIP ip why l =
     (if parse_ip ip = None \<or> ip = ss_ip (lp_session l) then l
      else say (LD (LSetIP ip (ss_ip (lp_session l)) why))
             (l\<lparr>lp_session := SetIP ip (lp_session l), lp_device_host := ip\<rparr>))"

text \<open>\<open>prev\<close> is the text of the push followed before, \<open>[]\<close> when there is none.\<close>

definition address_verdict_of :: "'d loop_config \<Rightarrow> string \<Rightarrow> string \<Rightarrow> address_verdict" where
  "address_verdict_of cfg prev text =
     addressIntent (if prev = [] then None else Some (parse cfg prev)) (parse cfg text)"

definition applyAddress :: "'d loop_config \<Rightarrow> string \<Rightarrow> string \<Rightarrow> 'd loop \<Rightarrow> 'd loop" where
  "applyAddress cfg prev text l = (case lc_address cfg of
     None \<Rightarrow> l
   | Some ac \<Rightarrow> (case address_verdict_of cfg prev text of
       NoIntent \<Rightarrow> l
     | StaticIncomplete \<Rightarrow> say (LD LAddrReason) l
     | ApplyAddr d \<Rightarrow>
         (case invoke (CApplyAddress d) (ac_ApplyAddress ac d) l of
            (Inl e, l1) \<Rightarrow> say (LD (LAddrErr e)) l1
          | (Inr changed, l1) \<Rightarrow>
              if \<not> changed then l1
              else if ad_dhcp d then say (LD LAddrDHCP) l1
              else setDeviceIP (ad_ip d) ''the controller's IP Settings were applied''
                     (say (LD (LAddrStatic d)) l1))))"

definition applySyslog :: "'d loop_config \<Rightarrow> string \<Rightarrow> 'd loop \<Rightarrow> 'd loop" where
  "applySyslog cfg text l = (case lc_syslog cfg of
     None \<Rightarrow> l
   | Some m \<Rightarrow> (let hosts = c_syslog_hosts (parse cfg text)
       in case invoke (CApplySyslog hosts) (m hosts) l of
            (Inl e, l1) \<Rightarrow> say (LD (LSyslogErr e)) l1
          | (Inr changed, l1) \<Rightarrow>
              if \<not> changed then l1
              else say (LD (if hosts = [] then LSyslogOff else LSyslogOn hosts)) l1))"

definition ensureVLANs :: "'d loop_config \<Rightarrow> string \<Rightarrow> 'd loop \<Rightarrow> 'd loop" where
  "ensureVLANs cfg text l = (case Option.bind (lc_controller cfg) (\<lambda>c. fc_EnsureVLANs (ct_face c)) of
     None \<Rightarrow> l
   | Some m \<Rightarrow> (let ids = VLANIDs (parse cfg text)
       in case invoke (CEnsureVLANs ids) (m ids) l of
            (Inl e, l1) \<Rightarrow> say (LD (LVLANErr e)) l1
          | (Inr n, l1) \<Rightarrow> if 0 < n then say (LD (LVLANs n)) l1 else l1))"

text \<open>The device-level settings of a device without port control, in their order.\<close>

definition power_settings :: "'d loop_config \<Rightarrow> string \<Rightarrow> string \<Rightarrow> 'd loop \<Rightarrow> 'd loop" where
  "power_settings cfg prev text l =
     installSSHKeys cfg text (applyDeviceSettings cfg text (applySyslog cfg text (applyNUT cfg text
       (applyAddress cfg prev text l))))"

text \<open>The settings written before the ports of a switch, in their order.\<close>

definition switch_settings :: "'d loop_config \<Rightarrow> string \<Rightarrow> string \<Rightarrow> 'd loop \<Rightarrow> 'd loop" where
  "switch_settings cfg prev text l =
     applyAddress cfg prev text (installSSHKeys cfg text (applyNUT cfg text
       (applyDeviceSettings cfg text (ensureVLANs cfg text l))))"

section \<open>Intent for ports and outlets\<close>

definition note_storm :: "(int \<times> string) list \<Rightarrow> 'd loop \<Rightarrow> 'd loop" where
  "note_storm notes l = fold (\<lambda>(i, k) l'. if k \<in> set (lp_storm_noted l') then l'
     else say (LA (LStorm i)) (l'\<lparr>lp_storm_noted := k # lp_storm_noted l'\<rparr>)) notes l"

definition desiredPorts :: "'d loop_config \<Rightarrow> string \<Rightarrow> 'd loop \<Rightarrow> port_desired list \<times> 'd loop" where
  "desiredPorts cfg text l =
     (ports_intent (lc_control_ports cfg) (lc_names cfg) (parse cfg text),
      note_storm (storm_notes (lc_control_ports cfg) (parse cfg text)) l)"

definition desiredOutlets :: "'d loop_config \<Rightarrow> string \<Rightarrow> outlet_desired list" where
  "desiredOutlets cfg text = outlets_intent (lc_model cfg) (lc_control_outlets cfg) (parse cfg text)"

definition unsupportedFeatures :: "(string \<times> string) list" where
  "unsupportedFeatures = [
     (''.isolation'', ''port isolation''),
     (''.dot1x'', ''802.1X''),
     (''.egress_rate'', ''egress rate limit''),
     (''.port_security'', ''port security (MAC restriction)''),
     (''.poe'', ''PoE''),
     (''.voice_vlan'', ''voice VLAN''),
     (''.lldpmed.opmode='', []),
     (''switch.dot1x'', ''802.1X''),
     (''switch.dhcp_snoop'', ''DHCP snooping (rogue DHCP server detection)'')]"

definition warnUnsupported :: "'d loop_config \<Rightarrow> string \<Rightarrow> string \<Rightarrow> 'd loop \<Rightarrow> 'd loop" where
  "warnUnsupported cfg ver text l =
     (let c = parse cfg text;
          snoops = (case deviceAs cfg fc_DHCPSnooping of Some m \<Rightarrow> m (lp_dev l) | None \<Rightarrow> False);
          feats = filter (\<lambda>(k, v). v \<noteq> [] \<and> \<not> (snoops \<and> k = ''switch.dhcp_snoop'')) unsupportedFeatures;
          l1 = say_all (map (\<lambda>(f, ks). LA (LUnsupported f ver ks)) (Unsupported feats c)) l;
          l2 = (if \<not> c_jumbo c \<and> lc_jumbo_always_on cfg then say (LA LJumbo) l1 else l1)
      in case find (\<lambda>i. p_lldpmed (mget (default_port i) (c_ports c) i) = Some False) (PortIndexes c) of
           Some i \<Rightarrow> say (LA (LLLDPMed i)) l2
         | None \<Rightarrow> l2)"

section \<open>Holding a first push\<close>

definition planner :: "'d loop_config \<Rightarrow> (port_desired list \<Rightarrow> 'd \<Rightarrow> int list) option" where
  "planner cfg = Option.bind (lc_controller cfg) (\<lambda>c. fc_PlanPorts (ct_face c))"

definition outlet_planner :: "'d loop_config \<Rightarrow> (outlet_desired list \<Rightarrow> 'd \<Rightarrow> int list) option" where
  "outlet_planner cfg = Option.bind (lc_outlets cfg) (\<lambda>c. fc_PlanOutlets (oc_face c))"

definition on_held :: "'d loop_config \<Rightarrow> 'd loop \<Rightarrow> 'd loop" where
  "on_held cfg l = (if lc_on_held cfg then note_call COnHeld l else l)"

definition holdInitialPush :: "'d loop_config \<Rightarrow> string \<Rightarrow> port_desired list \<Rightarrow> 'd loop \<Rightarrow> bool \<times> 'd loop" where
  "holdInitialPush cfg ver desired l =
     (if lp_ever_applied l \<or> lc_allow_initial cfg then (False, l)
      else (case planner cfg of
          None \<Rightarrow> (False, l)
        | Some plan \<Rightarrow> (let changed = plan (withoutMTU desired) (lp_dev l)
            in if changed = [] then (False, l)
               else (True, on_held cfg
                 (if lp_held_version l \<noteq> ver
                  then say (LA (LHoldPorts ver changed)) (l\<lparr>lp_held_version := ver\<rparr>) else l)))))"

definition holdInitialOutletPush :: "'d loop_config \<Rightarrow> string \<Rightarrow> outlet_desired list \<Rightarrow> 'd loop \<Rightarrow> bool \<times> 'd loop" where
  "holdInitialOutletPush cfg ver desired l =
     (if lp_ever_outlet_applied l \<or> lc_allow_initial cfg then (False, l)
      else (case outlet_planner cfg of
          None \<Rightarrow> (False, l)
        | Some plan \<Rightarrow> (let changed = plan desired (lp_dev l)
            in if changed = [] then (False, l)
               else (True, on_held cfg
                 (if lp_held_outlet_version l \<noteq> ver
                  then say (LA (LHoldOutlets ver changed)) (l\<lparr>lp_held_outlet_version := ver\<rparr>) else l)))))"

fun withhold :: "int list \<Rightarrow> port_desired list \<Rightarrow> 'd loop \<Rightarrow> port_desired list \<times> 'd loop" where
  "withhold change [] l = ([], l)"
| "withhold change (d # ds) l =
     (case mlookup (lp_fresh_ports l) (pd_index d) of
        None \<Rightarrow> (case withhold change ds l of (out, l') \<Rightarrow> (d # out, l'))
      | Some name \<Rightarrow>
          if pd_index d \<notin> set change then
            (case withhold change ds (l\<lparr>lp_fresh_ports := AList.delete (pd_index d) (lp_fresh_ports l),
                lp_fresh_warned := removeAll (pd_index d) (lp_fresh_warned l)\<rparr>) of
               (out, l') \<Rightarrow> (d # out, l'))
          else if pd_index d \<notin> set (lp_fresh_warned l) then
            withhold change ds (say (LA (LFresh (pd_index d) name))
              (l\<lparr>lp_fresh_warned := pd_index d # lp_fresh_warned l\<rparr>))
          else withhold change ds l)"

definition withholdFreshPorts :: "'d loop_config \<Rightarrow> port_desired list \<Rightarrow> 'd loop \<Rightarrow> port_desired list \<times> 'd loop" where
  "withholdFreshPorts cfg desired l =
     (if lp_fresh_ports l = [] \<or> lc_allow_initial cfg then (desired, l)
      else (case planner cfg of
          None \<Rightarrow> (desired, l)
        | Some plan \<Rightarrow> withhold (plan (withoutMTU desired) (lp_dev l)) desired l))"

section \<open>Reconciling and applying\<close>

definition mark_applied :: "env \<Rightarrow> string \<Rightarrow> 'd loop \<Rightarrow> 'd loop" where
  "mark_applied ev ver l = (case MarkApplied (ev_save ev) ver (lp_session l) of
     (s, None) \<Rightarrow> l\<lparr>lp_session := s\<rparr>
   | (s, Some e) \<Rightarrow> say (LA (LPersist e)) (l\<lparr>lp_session := s\<rparr>))"

definition apply_failed :: "string \<Rightarrow> string \<Rightarrow> 'd loop \<Rightarrow> 'd loop" where
  "apply_failed ver e l =
     (let l1 = l\<lparr>lp_apply_failures := lp_apply_failures l + 1\<rparr>
      in if lp_apply_failures l1 = 1 \<or> go_rem (lp_apply_failures l1) 10 = 0
         then say (LA (LApplyErr ver (lp_apply_failures l1) e)) l1 else l1)"

definition reconcile_outlets :: "'d loop_config \<Rightarrow> 'd outlet_controller \<Rightarrow> string \<Rightarrow> string \<Rightarrow> 'd loop \<Rightarrow> 'd loop" where
  "reconcile_outlets cfg oc ver text l =
     (let outlets = desiredOutlets cfg text
      in case holdInitialOutletPush cfg ver outlets l of
           (True, l1) \<Rightarrow> l1
         | (False, l1) \<Rightarrow>
             (case invoke (CApplyOutlets outlets) (oc_ApplyOutlets oc outlets) l1 of
                (Inl e, l2) \<Rightarrow> say (LA (LReconcileErr ver e)) l2
              | (Inr changed, l2) \<Rightarrow>
                  (let l3 = l2\<lparr>lp_ever_outlet_applied := True\<rparr>;
                       l4 = (if 0 < changed \<or> \<not> lp_reconciled_once l3
                             then say (LA (LReconciled ver changed (length outlets))) l3 else l3)
                   in l4\<lparr>lp_reconciled_once := True\<rparr>)))"

definition reconcile_ports :: "'d loop_config \<Rightarrow> 'd controller \<Rightarrow> string \<Rightarrow> string \<Rightarrow> 'd loop \<Rightarrow> 'd loop" where
  "reconcile_ports cfg c ver text l =
     (case desiredPorts cfg text l of (desired0, l1) \<Rightarrow>
      (case withholdFreshPorts cfg desired0 l1 of (desired, l2) \<Rightarrow>
        (case invoke (CApplyPorts desired) (ct_ApplyPorts c desired) l2 of
           (Inl e, l3) \<Rightarrow> say (LA (LReconcileErr ver e)) l3
         | (Inr changed, l3) \<Rightarrow>
             (let l4 = (if 0 < changed \<or> \<not> lp_reconciled_once l3
                        then say (LA (LReconciled ver changed (length desired))) l3 else l3)
              in l4\<lparr>lp_reconciled_once := True\<rparr>))))"

definition on_system_cfg :: "'d loop_config \<Rightarrow> 'd loop \<Rightarrow> 'd loop" where
  "on_system_cfg cfg l = (if lc_on_system_cfg cfg then note_call COnSystemCfg l else l)"

definition reconcile :: "'d loop_config \<Rightarrow> 'd loop \<Rightarrow> 'd loop" where
  "reconcile cfg l = (case Applied (lp_session l) of
     None \<Rightarrow> l
   | Some (ver, text) \<Rightarrow>
       (case (lc_controller cfg, lc_outlets cfg) of
          (None, None) \<Rightarrow> power_settings cfg [] text l
        | (c, oc) \<Rightarrow>
            (let l1 = (if \<not> lp_reconciled_once l then on_system_cfg cfg l else l)
             in case c of
                  Some ctl \<Rightarrow> reconcile_ports cfg ctl ver text (switch_settings cfg [] text l1)
                | None \<Rightarrow> (case oc of
                     Some out \<Rightarrow> reconcile_outlets cfg out ver text (power_settings cfg [] text l1)
                   | None \<Rightarrow> l1))))"

definition apply_outlets :: "'d loop_config \<Rightarrow> env \<Rightarrow> 'd outlet_controller \<Rightarrow> string \<Rightarrow> string \<Rightarrow> 'd loop \<Rightarrow> 'd loop" where
  "apply_outlets cfg ev oc ver text l =
     (let outlets = desiredOutlets cfg text
      in case holdInitialOutletPush cfg ver outlets l of
           (True, l1) \<Rightarrow> l1
         | (False, l1) \<Rightarrow>
             (case invoke (CApplyOutlets outlets) (oc_ApplyOutlets oc outlets) l1 of
                (Inl e, l2) \<Rightarrow> apply_failed ver e l2
              | (Inr changed, l2) \<Rightarrow>
                  mark_applied ev ver (say (LA (LApplied ver changed (length outlets)))
                    (l2\<lparr>lp_apply_failures := 0, lp_ever_applied := True, lp_ever_outlet_applied := True\<rparr>))))"

definition apply_ports :: "'d loop_config \<Rightarrow> env \<Rightarrow> 'd controller \<Rightarrow> string \<Rightarrow> string \<Rightarrow> string \<Rightarrow> 'd loop \<Rightarrow> 'd loop" where
  "apply_ports cfg ev c ver prev text l =
     (case desiredPorts cfg text l of (desired0, l1) \<Rightarrow>
      (case holdInitialPush cfg ver desired0 l1 of
         (True, l2) \<Rightarrow> l2
       | (False, l2) \<Rightarrow>
          (case withholdFreshPorts cfg desired0 l2 of (desired, l3) \<Rightarrow>
            (case invoke (CApplyPorts desired) (ct_ApplyPorts c desired) (switch_settings cfg prev text l3) of
               (Inl e, l4) \<Rightarrow> apply_failed ver e l4
             | (Inr changed, l4) \<Rightarrow>
                 mark_applied ev ver (say (LA (LApplied ver changed (length desired)))
                   (l4\<lparr>lp_apply_failures := 0, lp_ever_applied := True\<rparr>))))))"

definition applyPending :: "'d loop_config \<Rightarrow> env \<Rightarrow> 'd loop \<Rightarrow> bool \<times> 'd loop" where
  "applyPending cfg ev l = (case Pending (lp_session l) of
     None \<Rightarrow> (False, l)
   | Some (ver, text) \<Rightarrow>
       (let prev = (case Applied (lp_session l) of Some (_, t) \<Rightarrow> t | None \<Rightarrow> [])
        in (True,
          case (lc_controller cfg, lc_outlets cfg) of
            (None, None) \<Rightarrow> mark_applied ev ver (say (LA (LFollowed ver)) (power_settings cfg prev text l))
          | (c, oc) \<Rightarrow>
              (let l1 = (if lp_warned_version l \<noteq> ver
                         then on_system_cfg cfg (warnUnsupported cfg ver text (l\<lparr>lp_warned_version := ver\<rparr>))
                         else l)
               in case c of
                    Some ctl \<Rightarrow> apply_ports cfg ev ctl ver prev text l1
                  | None \<Rightarrow> (case oc of
                       Some out \<Rightarrow> apply_outlets cfg ev out ver text (power_settings cfg prev text l1)
                     | None \<Rightarrow> l1)))))"

end
