(* ===== verification/LoopCycle.thy ===== *)
theory LoopCycle
  imports Loop
begin

text \<open>
  The rest of \<^verbatim>\<open>internal/informloop/loop.go\<close>: queued commands, collecting from the device and
  what is noted on the way, one inform with its reply (\<^verbatim>\<open>informOnce\<close>), and the loop's start.
\<close>

section \<open>Queued commands\<close>

definition cycle_outlet :: "'d loop_config \<Rightarrow> (int \<Rightarrow> 'd act) \<Rightarrow> int \<Rightarrow> 'd loop \<Rightarrow> 'd loop" where
  "cycle_outlet cfg m idx l =
     (let own = own_outlet (lc_model cfg) idx
      in if own < 1 then say (LA (LOutletMissing idx)) l
         else if \<not> under_control (lc_control_outlets cfg) own then say (LA (LOutletUncontrolled idx)) l
         else (case invoke_act (CCycleOutlet own) (m own) l of (e, l1) \<Rightarrow> say (LA (LOutletCycled idx own e)) l1))"

definition cycleOutlets :: "'d loop_config \<Rightarrow> int list \<Rightarrow> 'd loop \<Rightarrow> 'd loop" where
  "cycleOutlets cfg queue l =
     (if queue = [] then l
      else (case Option.bind (lc_outlets cfg) (\<lambda>c. fc_CycleOutlet (oc_face c)) of
          None \<Rightarrow> say (LA LOutletsNone) l
        | Some m \<Rightarrow> fold (cycle_outlet cfg m) queue l))"

definition cycle_port :: "(int \<Rightarrow> 'd act) \<Rightarrow> int \<Rightarrow> 'd loop \<Rightarrow> 'd loop" where
  "cycle_port m idx l = (case invoke_act (CCyclePort idx) (m idx) l of (e, l1) \<Rightarrow> say (LA (LCycled idx e)) l1)"

definition run_locate :: "'d loop_config \<Rightarrow> string \<Rightarrow> 'd loop \<Rightarrow> 'd loop" where
  "run_locate cfg locate l =
     (if locate = [] then l
      else (case deviceAs cfg fc_SetLocate of
          None \<Rightarrow> l
        | Some m \<Rightarrow> (case invoke_act (CSetLocate (locate = ''on'')) (m (locate = ''on'')) l of
             (Some e, l1) \<Rightarrow> say (LA (LLocateErr locate e)) l1
           | (None, l1) \<Rightarrow> l1)))"

definition run_reboot :: "'d loop_config \<Rightarrow> bool \<Rightarrow> 'd loop \<Rightarrow> 'd loop" where
  "run_reboot cfg reboot l =
     (if \<not> reboot then l
      else (case deviceAs cfg fc_Reboot of
          None \<Rightarrow> l
        | Some m \<Rightarrow> (case invoke_act CReboot m l of
             (Some e, l1) \<Rightarrow> say (LA (LRebootErr e)) l1
           | (None, l1) \<Rightarrow> say (LA LRebootIssued) l1)))"

definition cyclePorts :: "'d loop_config \<Rightarrow> 'd loop \<Rightarrow> 'd loop" where
  "cyclePorts cfg l =
     (let queue = lp_pending_cycles l; outlets = lp_pending_outlet_cycles l;
          reboot = lp_pending_reboot l; locate = lp_pending_locate l;
          l0 = l\<lparr>lp_pending_cycles := [], lp_pending_outlet_cycles := [], lp_pending_reboot := False,
                 lp_pending_locate := []\<rparr>;
          l1 = run_reboot cfg reboot (cycleOutlets cfg outlets (run_locate cfg locate l0))
      in if queue = [] then l1
         else (case Option.bind (lc_controller cfg) (\<lambda>c. fc_CyclePort (ct_face c)) of
             None \<Rightarrow> say (LA LCycleNone) l1
           | Some m \<Rightarrow> fold (cycle_port m) queue l1))"

section \<open>Children\<close>

definition noteChild :: "int \<Rightarrow> child_note \<Rightarrow> 'd loop \<Rightarrow> 'd loop" where
  "noteChild port msg l =
     (if mget ChildOK (lp_child_noted l) port = msg then l
      else (let l1 = l\<lparr>lp_child_noted := AList.update port msg (lp_child_noted l)\<rparr>
            in if msg = ChildOK then l1 else say (LC (LChild msg)) l1))"

fun update_first :: "('a \<Rightarrow> bool) \<Rightarrow> ('a \<Rightarrow> 'a) \<Rightarrow> 'a list \<Rightarrow> 'a list" where
  "update_first P f [] = []"
| "update_first P f (x # xs) = (if P x then f x # xs else x # update_first P f xs)"

definition child_mac_entry :: "int \<Rightarrow> child \<Rightarrow> dm_port \<Rightarrow> mac_entry" where
  "child_mac_entry seen c p = \<lparr>mt_mac = ch_mac c, mt_vlan = (if pv_native (po_vlan p) = 0 then 1 else pv_native (po_vlan p)),
     mt_port = ch_port c, mt_move = seen\<rparr>"

definition add_mac :: "mac_entry \<Rightarrow> mac_entry list \<Rightarrow> mac_entry list" where
  "add_mac e ms = (if list_ex (\<lambda>m. mt_mac m = mt_mac e) ms then ms else ms @ [e])"

definition child_neighbor :: "child \<Rightarrow> neighbor" where
  "child_neighbor c = \<lparr>nb_system = ch_name c, nb_chassis = ch_mac c, nb_port = ''eth0'', nb_bridge = True,
     nb_router = False, nb_child = True\<rparr>"

definition child_port :: "int \<Rightarrow> child \<Rightarrow> dm_port \<Rightarrow> dm_port" where
  "child_port seen c p =
     (let p1 = (if ch_report c \<noteq> ''lldp'' then p\<lparr>po_macs := add_mac (child_mac_entry seen c p) (po_macs p)\<rparr> else p)
      in if ch_report c \<noteq> ''mac'' \<and> po_neighbor p1 = None then p1\<lparr>po_neighbor := Some (child_neighbor c)\<rparr> else p1)"

definition add_child :: "int \<Rightarrow> child \<Rightarrow> snapshot \<times> 'd loop \<Rightarrow> snapshot \<times> 'd loop" where
  "add_child seen c sl = (case sl of (s, l) \<Rightarrow>
     (case find (\<lambda>p. po_index p = ch_port c) (sn_ports s) of
        None \<Rightarrow> (s, noteChild (ch_port c) (ChildNoPort c) l)
      | Some p \<Rightarrow>
          (s\<lparr>sn_ports := update_first (\<lambda>p. po_index p = ch_port c) (child_port seen c) (sn_ports s),
             sn_mac_table := (if ch_report c \<noteq> ''lldp'' then add_mac (child_mac_entry seen c p) (sn_mac_table s)
                              else sn_mac_table s)\<rparr>,
           if ch_report c = ''mac'' then l
           else (case po_neighbor p of
              None \<Rightarrow> noteChild (ch_port c) ChildOK l
            | Some n \<Rightarrow> if nb_child n then l
                else noteChild (ch_port c) (ChildHasNeighbor c (nb_system n) (nb_chassis n)) l))))"

definition withChildren :: "'d loop_config \<Rightarrow> int \<Rightarrow> snapshot \<Rightarrow> 'd loop \<Rightarrow> snapshot \<times> 'd loop" where
  "withChildren cfg now snap l =
     fold (add_child (if sn_taken snap = 0 then now else sn_taken snap)) (lc_children cfg) (snap, l)"

section \<open>Collecting\<close>

definition controllerName :: "'d loop_config \<Rightarrow> 'd loop \<Rightarrow> string" where
  "controllerName cfg l = (case Applied (lp_session l) of
     None \<Rightarrow> [] | Some (_, text) \<Rightarrow> c_hostname (parse cfg text))"

definition power_events :: "'d loop_config \<Rightarrow> int \<Rightarrow> string + snapshot \<Rightarrow> 'd loop \<Rightarrow> 'd loop" where
  "power_events cfg now res l = (case lp_power l of
     None \<Rightarrow> l
   | Some t \<Rightarrow> (case (case res of Inl e \<Rightarrow> Failed now e t | Inr snap \<Rightarrow> Observe now snap t) of
       (t', evs) \<Rightarrow> say_all (map (\<lambda>e. LC (LPower (emit (lc_quote cfg) (controllerName cfg l) t' e))) evs)
                     (l\<lparr>lp_power := Some t'\<rparr>)))"

definition oob_messages :: "string \<Rightarrow> oob_interface list \<Rightarrow> oob_msg list" where
  "oob_messages host is = concat (map (\<lambda>o'.
     let routable = oob_ip o' \<noteq> [] \<and> \<not> is_link_local4 (oob_ip o')
     in if oob_ip o' \<noteq> [] \<and> oob_ip o' = host then [OOBReached (oob_name o') (oob_ip o')]
        else if routable \<and> (oob_up o' \<or> \<not> oob_admin_down o') then [OOBAddress (oob_name o') (oob_ip o')]
        else if oob_up o' \<and> oob_ip o' \<noteq> [] then [OOBLinkLocal (oob_name o') (oob_ip o')]
        else if oob_up o' then [OOBConnected (oob_name o')]
        else []) is)"

definition warnOOB :: "snapshot \<Rightarrow> 'd loop \<Rightarrow> 'd loop" where
  "warnOOB snap l =
     (let msgs = oob_messages (lp_device_host l) (sy_oob (sn_system snap))
      in if msgs = lp_oob_warned l then l
         else say_all (map (\<lambda>m. LC (LOOB m)) msgs) (l\<lparr>lp_oob_warned := msgs\<rparr>))"

definition fault_string :: "snapshot \<Rightarrow> string" where
  "fault_string snap = join '' '' (map (\<lambda>p. itoa (po_index p) @ ''('' @ po_fault p @ '')'')
     (filter (\<lambda>p. po_fault p \<noteq> []) (sn_ports snap)))"

definition note_faults :: "snapshot \<Rightarrow> 'd loop \<Rightarrow> 'd loop" where
  "note_faults snap l =
     (let fs = fault_string snap
      in if fs = lp_fault_sig l then l
         else say (LC (if fs = [] then LFaultsCleared else LFaults fs)) (l\<lparr>lp_fault_sig := fs\<rparr>))"

definition layoutSignature :: "snapshot \<Rightarrow> string" where
  "layoutSignature snap = concat (map (\<lambda>p. itoa (po_index p) @ '':'' @ po_ifname p @ '':'' @ itoa (po_lanes p)
     @ '':'' @ join '','' (po_interfaces p) @ '';'') (sn_ports snap))"

definition layout_by_port :: "snapshot \<Rightarrow> string alist" where
  "layout_by_port snap = fold (\<lambda>p m. if po_ifname p = [] then m
     else AList.update (po_index p) (po_ifname p @ ''/'' @ join '','' (po_interfaces p)) m) (sn_ports snap) []"

definition fresh_entries :: "string alist \<Rightarrow> string alist \<Rightarrow> string alist" where
  "fresh_entries old new = filter (\<lambda>(i, name). name \<noteq> [] \<and> mget [] old i \<noteq> name) new"

definition note_layout :: "'d loop_config \<Rightarrow> snapshot \<Rightarrow> 'd loop \<Rightarrow> 'd loop" where
  "note_layout cfg snap l =
     (let sig = layoutSignature snap; byPort = layout_by_port snap
      in if sig = lp_layout_sig l then l
         else if lp_layout_sig l = [] then l\<lparr>lp_layout_sig := sig, lp_layout_by_port := byPort\<rparr>
         else (let fresh = fresh_entries (lp_layout_by_port l) byPort;
                   l1 = say (LC (LLayout (sort (map (\<lambda>(i, n). itoa i @ ''('' @ n @ '')'') fresh))))
                     (l\<lparr>lp_layout_sig := sig,
                        lp_fresh_ports := fold (\<lambda>(i, n). AList.update i n) fresh (lp_fresh_ports l)\<rparr>);
                   l2 = (if lc_on_layout cfg then note_call COnLayoutChange l1 else l1)
               in l2\<lparr>lp_layout_by_port := byPort\<rparr>))"

definition follow_address :: "'d loop_config \<Rightarrow> 'd loop \<Rightarrow> 'd loop" where
  "follow_address cfg l = (case Option.bind (lc_collector cfg) (\<lambda>c. fc_CurrentAddress (co_face c)) of
     None \<Rightarrow> l
   | Some m \<Rightarrow> (let a = m (lp_dev l)
       in if a = lp_driver_addr l then l
          else setDeviceIP a ''the driver now reaches the device there'' (l\<lparr>lp_driver_addr := a\<rparr>)))"

definition follow_uplink :: "snapshot \<Rightarrow> 'd loop \<Rightarrow> 'd loop" where
  "follow_uplink snap l =
     (let up = UplinkPort snap
      in if 0 < up \<and> up \<noteq> lp_uplink_port l then
           (let l1 = (if lp_uplink_port l \<noteq> 0 then say (LC (LUplink up (lp_uplink_port l))) l else l)
            in l1\<lparr>lp_uplink_port := up, lp_session := SetUplinkPort up (lp_session l1)\<rparr>)
         else l)"

definition with_gateway_mac :: "string \<Rightarrow> snapshot \<Rightarrow> snapshot" where
  "with_gateway_mac gw snap =
     (if sy_gateway_mac (sn_system snap) = [] \<and> gw \<noteq> []
      then snap\<lparr>sn_system := (sn_system snap)\<lparr>sy_gateway_mac := mget [] (sy_arp (sn_system snap)) gw\<rparr>\<rparr>
      else snap)"

definition collected :: "'d loop_config \<Rightarrow> env \<Rightarrow> snapshot \<Rightarrow> 'd loop \<Rightarrow> 'd loop" where
  "collected cfg ev snap0 l0 =
     (let l1 = (if 0 < lp_collect_failures l0
                then say (LC (LCollectRecovered (lp_collect_failures l0)))
                       (l0\<lparr>lp_collect_failures := 0, lp_stale_silenced := False\<rparr>) else l0)
      in case withChildren cfg (ev_now ev) (with_gateway_mac (lc_gateway_ip cfg) snap0) l1 of (snap, l2) \<Rightarrow>
        (let l3 = l2\<lparr>lp_session := SetSnapshot (Some snap) (SetGatewayIP (lc_gateway_ip cfg) (lp_session l2))\<rparr>
         in note_layout cfg snap (note_faults snap (warnOOB snap
              (follow_uplink snap (follow_address cfg l3))))))"

definition collect_failed :: "string \<Rightarrow> 'd loop \<Rightarrow> 'd loop" where
  "collect_failed e l =
     (let l1 = l\<lparr>lp_collect_failures := lp_collect_failures l + 1\<rparr>
      in if lp_collect_failures l1 = 1 \<or> go_rem (lp_collect_failures l1) 10 = 0
         then say (LC (LCollectErr (lp_collect_failures l1) e)) l1 else l1)"

definition collect :: "'d loop_config \<Rightarrow> env \<Rightarrow> 'd loop \<Rightarrow> 'd loop" where
  "collect cfg ev l = (case lc_collector cfg of
     None \<Rightarrow> l
   | Some c \<Rightarrow> (case invoke CCollect (co_Collect c) l of (res, l1) \<Rightarrow>
       (let l2 = power_events cfg (ev_now ev) res l1
        in case res of Inl e \<Rightarrow> collect_failed e l2 | Inr snap \<Rightarrow> collected cfg ev snap l2)))"

definition stale_limit :: "'d loop_config \<Rightarrow> int" where
  "stale_limit cfg = (if lc_stale_after cfg = 0 then 5 else lc_stale_after cfg)"

definition stale :: "'d loop_config \<Rightarrow> 'd loop \<Rightarrow> bool \<times> 'd loop" where
  "stale cfg l =
     (if stale_limit cfg < 0 \<or> lp_collect_failures l < stale_limit cfg then (False, l)
      else (True, if lp_stale_silenced l then l
                  else say (LC (LStale (lp_collect_failures l))) (l\<lparr>lp_stale_silenced := True\<rparr>)))"

section \<open>Replies\<close>

definition noteStatus :: "int \<Rightarrow> 'd loop \<Rightarrow> 'd loop" where
  "noteStatus status l =
     (if status = lp_last_status l then l\<lparr>lp_status_run := lp_status_run l + 1\<rparr>
      else say (LI (if status = 404 then L404
                    else if lp_last_status l = 0 then LHTTP status
                    else LHTTPAfter status (lp_status_run l) (lp_last_status l)))
             (l\<lparr>lp_last_status := status, lp_status_run := 1\<rparr>))"

fun effectName :: "effect_kind \<Rightarrow> string" where
  "effectName EffectAdoptingViaSetAdopt = ''adopting-via-set-adopt''"
| "effectName EffectAdoptingViaMgmtCfg = ''adopting-via-mgmt-cfg''"
| "effectName EffectFactoryReset = ''factory-reset''"
| "effectName EffectRebooted = ''rebooted''"
| "effectName EffectUpgraded = ''upgraded''"
| "effectName EffectInterval = ''interval''"
| "effectName EffectMgmtCfg = ''mgmt-cfg''"
| "effectName EffectUnknownCmd = ''unknown-cmd''"
| "effectName EffectUnknownType = ''unknown-type''"
| "effectName EffectDecodeError = ''decode-error''"
| "effectName EffectSystemCfg = ''system-cfg''"
| "effectName EffectLocate = ''effect-101''"
| "effectName EffectPortCycle = ''effect-102''"
| "effectName EffectOutletCycle = ''effect-103''"

definition is_hex_digit :: "char \<Rightarrow> bool" where
  "is_hex_digit c \<longleftrightarrow> is_digit c \<or> (97 \<le> char_code c \<and> char_code c \<le> 102) \<or> (65 \<le> char_code c \<and> char_code c \<le> 70)"

definition auth_key_at :: "string \<Rightarrow> bool" where
  "auth_key_at s \<longleftrightarrow> prefix ''authkey='' s \<and> 40 \<le> length s \<and> list_all is_hex_digit (take 32 (drop 8 s))"

function maskAuthKey :: "string \<Rightarrow> string" where
  "maskAuthKey [] = []"
| "maskAuthKey (x # xs) =
     (if auth_key_at (x # xs) then ''authkey=<key>'' @ maskAuthKey (drop 39 xs) else x # maskAuthKey xs)"
  by pat_completeness auto
termination by (relation "measure length") auto

definition outlet_queue :: "string \<Rightarrow> int list" where
  "outlet_queue text = List.map_filter (\<lambda>s. atoi (trim_space s)) (split_on (CHR '','') text)"

definition handle_effect :: "'d loop_config \<Rightarrow> effect \<Rightarrow> 'd loop \<Rightarrow> 'd loop" where
  "handle_effect cfg e l = (case e_kind e of
     EffectAdoptingViaSetAdopt \<Rightarrow> say (LI (LAdoptSet (e_text e))) (l\<lparr>lp_state := StateAdopting\<rparr>)
   | EffectAdoptingViaMgmtCfg \<Rightarrow> say (LI LAdoptMgmt) (l\<lparr>lp_state := StateAdopting\<rparr>)
   | EffectFactoryReset \<Rightarrow> say (LI LFactoryReset) (l\<lparr>lp_state := StatePending\<rparr>)
   | EffectRebooted \<Rightarrow>
       (if deviceAs cfg fc_Reboot \<noteq> None \<and> cf_reboot (lc_flags cfg)
        then say (LI (LReboot True)) (l\<lparr>lp_pending_reboot := True\<rparr>)
        else say (LI (LReboot False)) l)
   | EffectUpgraded \<Rightarrow> say (LI (LUpgrade (e_text e))) l
   | EffectInterval \<Rightarrow>
       (if 0 < e_interval e \<and> e_interval e \<noteq> lp_interval l
        then say (LI (LInterval (e_interval e))) (l\<lparr>lp_interval := e_interval e\<rparr>) else l)
   | EffectMgmtCfg \<Rightarrow>
       (if e_text e \<noteq> lp_last_mgmt l
        then say (LI (LMgmt (maskAuthKey (e_text e)))) (l\<lparr>lp_last_mgmt := e_text e\<rparr>) else l)
   | EffectUnknownCmd \<Rightarrow> say (LI (LUnknownCmd (e_text e))) l
   | EffectUnknownType \<Rightarrow> say (LI (LUnknownType (e_text e))) l
   | EffectDecodeError \<Rightarrow> say (LI (LUndecodable (e_text e))) l
   | EffectSystemCfg \<Rightarrow> say (LI (LSystemCfg (e_text e))) l
   | EffectLocate \<Rightarrow>
       (if deviceAs cfg fc_SetLocate \<noteq> None
        then say (LI (LLocate (e_text e) True)) (l\<lparr>lp_pending_locate := e_text e\<rparr>)
        else say (LI (LLocate (e_text e) False)) l)
   | EffectPortCycle \<Rightarrow>
       say (LI (LPortCycle (e_text e)))
         (case atoi (e_text e) of Some i \<Rightarrow> l\<lparr>lp_pending_cycles := lp_pending_cycles l @ [i]\<rparr> | None \<Rightarrow> l)
   | EffectOutletCycle \<Rightarrow>
       say (LI (LRelayctl (e_text e)))
         (l\<lparr>lp_pending_outlet_cycles := lp_pending_outlet_cycles l @ outlet_queue (e_text e)\<rparr>))"

definition effect_record_of :: "effect \<Rightarrow> effect_record" where
  "effect_record_of e = \<lparr>er_kind = effectName (e_kind e), er_text = e_text e, er_interval = e_interval e\<rparr>"

definition record_reply :: "env \<Rightarrow> inform_record \<Rightarrow> 'd loop \<Rightarrow> 'd loop" where
  "record_reply ev r l = (case lp_recorder l of
     None \<Rightarrow> l
   | Some rc \<Rightarrow> (case rec_write (ev_io ev) (ev_js ev) r rc of
       (rc', None) \<Rightarrow> l\<lparr>lp_recorder := Some rc'\<rparr>
     | (rc', Some e) \<Rightarrow> say (LI (LRecord e)) (l\<lparr>lp_recorder := Some rc'\<rparr>)))"

text \<open>The handshake completes when the reply answers an inform that was sent adopting.\<close>

definition complete_handshake :: "bool \<Rightarrow> 'd loop \<Rightarrow> bool \<times> 'd loop" where
  "complete_handshake wasAdopting l =
     (if wasAdopting \<and> Adopted (lp_session l) \<and> lp_state l = StateAdopting
      then (True, say (LI LConnected) (l\<lparr>lp_state := StateConnected\<rparr>)) else (False, l))"

definition handle_reply :: "'d loop_config \<Rightarrow> env \<Rightarrow> inform_record \<Rightarrow> reply \<Rightarrow> 'd loop \<Rightarrow> 'd loop" where
  "handle_reply cfg ev rec body l =
     (case Apply (lc_default_key cfg) (ev_save ev) (ev_reply_now ev) body (lp_session l) of (s, effs) \<Rightarrow>
       (let l1 = fold (handle_effect cfg) effs (l\<lparr>lp_session := s\<rparr>)
        in case complete_handshake (lp_state l = StateAdopting) l1 of (connectedNow, l2) \<Rightarrow>
          (let l3 = record_reply ev (rec\<lparr>re_effects := map effect_record_of effs,
                                         re_state_after := state_string (lp_state l2)\<rparr>) l2;
               l4 = (if connectedNow \<and> lc_on_connected cfg then note_call COnConnected l3 else l3);
               l5 = cyclePorts cfg l4
           in case applyPending cfg ev l5 of
                (True, l6) \<Rightarrow> l6
              | (False, l6) \<Rightarrow> reconcile cfg l6)))"

definition unanswered :: "'d loop_config \<Rightarrow> env \<Rightarrow> 'd loop \<Rightarrow> 'd loop" where
  "unanswered cfg ev l = (if ev_cancelled ev then l else reconcile cfg l)"

definition inform_exchange :: "'d loop_config \<Rightarrow> env \<Rightarrow> 'd loop \<Rightarrow> 'd loop" where
  "inform_exchange cfg ev l =
     (let rec0 = new_record (ev_now ev) (Adopted (lp_session l)) (st_gcm (ss_st (lp_session l)))
      in case ev_http ev of
           EncodeFailed e \<Rightarrow> unanswered cfg ev (say (LI (LEncode e)) l)
         | RequestFailed e \<Rightarrow> unanswered cfg ev (say (LI (LBuild e)) l)
         | PostFailed e \<Rightarrow> unanswered cfg ev (if ev_cancelled ev then note_call CInform l
             else record_reply ev (rec0\<lparr>re_error := e\<rparr>) (say (LI (LPost e)) (note_call CInform l)))
         | ReadFailed e \<Rightarrow> unanswered cfg ev (say (LI (LRead e)) (note_call CInform l))
         | Answer status raw decoded \<Rightarrow>
             (let l1 = noteStatus status (note_call CInform l);
                  rec1 = rec0\<lparr>re_status := status, re_body_len := int (length raw)\<rparr>
              in if status = 404 then unanswered cfg ev (record_reply ev rec1 l1)
                 else if status \<noteq> 200 then
                   unanswered cfg ev (record_reply ev (rec1\<lparr>re_raw_body := raw\<rparr>) (say (LI (LStatus status raw)) l1))
                 else if raw = [] then unanswered cfg ev (record_reply ev rec1 l1)
                 else (case decoded of
                     Inl e \<Rightarrow> unanswered cfg ev
                       (record_reply ev (rec1\<lparr>re_error := ''decode: '' @ e, re_raw_hex := ev_hex ev raw\<rparr>)
                         (say (LI (LDecode e)) l1))
                   | Inr (payload, valid, body) \<Rightarrow>
                       handle_reply cfg ev (if valid then rec1\<lparr>re_payload := payload\<rparr>
                                            else rec1\<lparr>re_raw_body := payload\<rparr>) body l1)))"

definition informOnce :: "'d loop_config \<Rightarrow> env \<Rightarrow> 'd loop \<Rightarrow> 'd loop" where
  "informOnce cfg ev l0 = (case stale cfg (collect cfg ev l0) of
     (True, l) \<Rightarrow> l
   | (False, l) \<Rightarrow> inform_exchange cfg ev l)"

section \<open>The loop's start\<close>

definition first_budget :: "int option list \<Rightarrow> int \<Rightarrow> int" where
  "first_budget bs d = (case find (\<lambda>b. case b of Some t \<Rightarrow> 0 < t | None \<Rightarrow> False) bs of
     Some (Some t) \<Rightarrow> t | _ \<Rightarrow> d)"

definition normal_config :: "'d loop_config \<Rightarrow> 'd loop_config" where
  "normal_config cfg =
     (let ct = (if lc_collect_timeout cfg \<le> 0 then 20000000000 else lc_collect_timeout cfg)
      in cfg\<lparr>lc_interval := (if lc_interval cfg \<le> 0 then 10000000000 else lc_interval cfg),
             lc_collect_timeout := ct,
             lc_apply_timeout := (if lc_apply_timeout cfg \<le> 0
               then first_budget [Option.bind (lc_collector cfg) (\<lambda>c. fc_ApplyTimeout (co_face c)),
                      Option.bind (lc_controller cfg) (\<lambda>c. fc_ApplyTimeout (ct_face c)),
                      Option.bind (lc_outlets cfg) (\<lambda>c. fc_ApplyTimeout (oc_face c)),
                      Option.bind (lc_address cfg) (\<lambda>c. fc_ApplyTimeout (ac_face c))] ct
               else lc_apply_timeout cfg)\<rparr>)"

definition blank_loop :: "'d \<Rightarrow> session \<Rightarrow> string \<Rightarrow> int \<Rightarrow> recorder option \<Rightarrow> 'd loop" where
  "blank_loop dev sess host interval rc = \<lparr>
     lp_dev = dev, lp_session = sess, lp_calls = [], lp_log = [], lp_collect_failures = 0,
     lp_stale_silenced = False, lp_apply_failures = 0, lp_reconciled_once = False, lp_layout_sig = [],
     lp_pending_cycles = [], lp_pending_outlet_cycles = [], lp_pending_reboot = False,
     lp_pending_locate = [], lp_driver_addr = [], lp_warned_version = [], lp_storm_noted = [],
     lp_acl_held = [], lp_oob_warned = [], lp_uplink_port = 0, lp_ever_applied = False,
     lp_held_version = [], lp_held_outlet_version = [], lp_ever_outlet_applied = False,
     lp_fresh_ports = [], lp_fresh_warned = [], lp_layout_by_port = [], lp_fault_sig = [],
     lp_child_noted = [], lp_power = None, lp_state = StatePending, lp_interval = interval,
     lp_last_status = 0, lp_status_run = 0, lp_last_mgmt = [], lp_recorder = rc, lp_device_host = host\<rparr>"

definition NewLoop :: "'d loop_config \<Rightarrow> int \<Rightarrow> string \<Rightarrow> recorder option \<Rightarrow> session \<Rightarrow> 'd \<Rightarrow> 'd loop" where
  "NewLoop cfg0 now host rc sess dev =
     (let cfg = normal_config cfg0;
          l0 = blank_loop dev sess host (lc_interval cfg) rc;
          l1 = (if Adopted sess then l0\<lparr>lp_state := StateConnected\<rparr> else l0);
          l2 = say_all (map (\<lambda>c. LC (LChildDeclared c)) (lc_children cfg)) l1;
          l3 = (case (lc_children cfg, ss_snap sess) of
                  (_ # _, Some snap) \<Rightarrow> (case withChildren cfg now snap l2 of
                     (snap', l) \<Rightarrow> l\<lparr>lp_session := SetSnapshot (Some snap') (lp_session l)\<rparr>)
                | (_ # _, None) \<Rightarrow> l2\<lparr>lp_session := SetSnapshot None (lp_session l2)\<rparr>
                | _ \<Rightarrow> l2);
          l4 = (case Option.bind (lc_collector cfg) (\<lambda>c. fc_CurrentAddress (co_face c)) of
                  Some m \<Rightarrow> l3\<lparr>lp_driver_addr := m (lp_dev l3)\<rparr> | None \<Rightarrow> l3);
          l5 = (if Applied sess \<noteq> None then l4\<lparr>lp_ever_applied := True\<rparr> else l4)
      in case Option.bind (lc_collector cfg) (\<lambda>c. fc_PowerEvents (co_face c)) of
           Some (low, alarm) \<Rightarrow>
             l5\<lparr>lp_power := Some (new_tracker (if lc_device_name cfg = [] then lc_mac cfg else lc_device_name cfg) low alarm)\<rparr>
         | None \<Rightarrow> l5)"

text \<open>\<open>Run\<close>: one reconcile, then cycles until the context is done.\<close>

fun run_cycles :: "'d loop_config \<Rightarrow> env list \<Rightarrow> 'd loop \<Rightarrow> 'd loop" where
  "run_cycles cfg [] l = l"
| "run_cycles cfg (ev # evs) l = run_cycles cfg evs (informOnce cfg ev l)"

definition RunLoop :: "'d loop_config \<Rightarrow> env list \<Rightarrow> 'd loop \<Rightarrow> 'd loop" where
  "RunLoop cfg evs l = run_cycles cfg evs (reconcile cfg l)"

end
