(* ===== verification/Loop_Frame.thy ===== *)
theory Loop_Frame
  imports LoopCycle Session_Props
begin

text \<open>
  What the loop's handlers leave alone. \<open>steps S l l'\<close> says that going from \<open>l\<close> to \<open>l'\<close> only
  calls of the set \<open>S\<close> were made, in order after the earlier ones, and the part of the state that
  decides what happens next (\<open>core\<close>) is as before.
\<close>

section \<open>Steps\<close>

definition core :: "'d loop \<Rightarrow> state \<times> lstate \<times> int \<times> bool \<times> bool \<times> string alist \<times> int list \<times> int list \<times> int" where
  "core l = (ss_st (lp_session l), lp_state l, lp_interval l, lp_ever_applied l, lp_ever_outlet_applied l,
     lp_fresh_ports l, lp_pending_cycles l, lp_pending_outlet_cycles l, lp_collect_failures l)"

definition called :: "call set \<Rightarrow> 'd loop \<Rightarrow> 'd loop \<Rightarrow> bool" where
  "called S l l' \<longleftrightarrow> (\<exists>cs. lp_calls l' = lp_calls l @ cs \<and> fst ` set cs \<subseteq> S)"

definition steps :: "call set \<Rightarrow> 'd loop \<Rightarrow> 'd loop \<Rightarrow> bool" where
  "steps S l l' \<longleftrightarrow> core l' = core l \<and> called S l l'"

lemma called_refl [simp, intro]: "called S l l"
  by (simp add: called_def)

lemma called_trans: "called S l l' \<Longrightarrow> called S l' l'' \<Longrightarrow> called S l l''"
  unfolding called_def by (metis append.assoc image_Un le_sup_iff set_append)

lemma called_mono: "called S l l' \<Longrightarrow> S \<subseteq> T \<Longrightarrow> called T l l'"
  by (auto simp: called_def)

lemma called_same: "lp_calls l' = lp_calls l \<Longrightarrow> called S l l'"
  by (simp add: called_def)

lemma steps_refl [simp, intro]: "steps S l l"
  by (simp add: steps_def)

lemma steps_trans: "steps S l l' \<Longrightarrow> steps S l' l'' \<Longrightarrow> steps S l l''"
  by (auto simp: steps_def intro: called_trans)

lemma steps_mono: "steps S l l' \<Longrightarrow> S \<subseteq> T \<Longrightarrow> steps T l l'"
  by (auto simp: steps_def intro: called_mono)

lemma steps_same: "core l' = core l \<Longrightarrow> lp_calls l' = lp_calls l \<Longrightarrow> steps S l l'"
  by (simp add: steps_def called_same)

lemma steps_core: "steps S l l' \<Longrightarrow> core l' = core l"
  by (simp add: steps_def)

lemma steps_fields:
  assumes "steps S l l'"
  shows "ss_st (lp_session l') = ss_st (lp_session l)" "lp_state l' = lp_state l" "lp_interval l' = lp_interval l"
    "lp_ever_applied l' = lp_ever_applied l" "lp_ever_outlet_applied l' = lp_ever_outlet_applied l"
    "lp_fresh_ports l' = lp_fresh_ports l" "lp_collect_failures l' = lp_collect_failures l"
  using steps_core[OF assms] by (simp_all add: core_def)

section \<open>Logging and calling\<close>

lemma core_say [simp]: "core (say x l) = core l" "core (say_all xs l) = core l" "core (note_call c l) = core l"
  by (simp_all add: core_def say_def say_all_def note_call_def)

lemma say_frame [simp]:
  "lp_calls (say x l) = lp_calls l" "lp_dev (say x l) = lp_dev l" "lp_session (say x l) = lp_session l"
  "lp_calls (say_all xs l) = lp_calls l" "lp_dev (say_all xs l) = lp_dev l" "lp_session (say_all xs l) = lp_session l"
  "lp_calls (note_call c l) = lp_calls l @ [(c, True)]" "lp_dev (note_call c l) = lp_dev l"
  "lp_session (note_call c l) = lp_session l"
  by (simp_all add: say_def say_all_def note_call_def)

lemma say_more [simp]:
  "lp_reconciled_once (say x l) = lp_reconciled_once l" "lp_apply_failures (say x l) = lp_apply_failures l"
  "lp_state (say x l) = lp_state l" "lp_interval (say x l) = lp_interval l" "lp_recorder (say x l) = lp_recorder l"
  "lp_ever_applied (say x l) = lp_ever_applied l" "lp_ever_outlet_applied (say x l) = lp_ever_outlet_applied l"
  "lp_fresh_ports (say x l) = lp_fresh_ports l" "lp_collect_failures (say x l) = lp_collect_failures l"
  "lp_pending_cycles (say x l) = lp_pending_cycles l" "lp_pending_outlet_cycles (say x l) = lp_pending_outlet_cycles l"
  by (simp_all add: say_def)

lemma steps_say [simp]: "steps S l (say x l') = steps S l l'" "steps S l (say_all xs l') = steps S l l'"
  by (simp_all add: steps_def called_def)

lemma steps_invoke: "invoke c f l = (r, l') \<Longrightarrow> c \<in> S \<Longrightarrow> steps S l l'"
  by (auto simp: invoke_def steps_def called_def core_def split: prod.splits)

lemma steps_invoke_act: "invoke_act c f l = (r, l') \<Longrightarrow> c \<in> S \<Longrightarrow> steps S l l'"
  by (auto simp: invoke_act_def steps_def called_def core_def split: prod.splits)

lemma invoke_calls: "invoke c f l = (r, l') \<Longrightarrow> lp_calls l' = lp_calls l @ [(c, \<not> isl r)]"
  by (auto simp: invoke_def split: prod.splits)

section \<open>Settings\<close>

text \<open>The calls of the device-wide settings; an address is applied only as the verdict says.\<close>

definition setting_calls :: "'d loop_config \<Rightarrow> string \<Rightarrow> string \<Rightarrow> call set" where
  "setting_calls cfg prev text = {c. case c of
     CApplyDevice d \<Rightarrow> d = fst (device_intent (lc_flags cfg) (parse cfg text))
   | CInstallSSHKeys ks \<Rightarrow> cf_ssh_keys (lc_flags cfg) \<and> ks = ssh_keys_intent (parse cfg text)
   | CApplyNUT n \<Rightarrow> n = c_nut (parse cfg text)
   | CApplySyslog h \<Rightarrow> h = c_syslog_hosts (parse cfg text)
   | CEnsureVLANs v \<Rightarrow> v = VLANIDs (parse cfg text)
   | CApplyAddress d \<Rightarrow> address_verdict_of cfg prev text = ApplyAddr d
   | _ \<Rightarrow> False}"

lemma core_noteHeldACLs [simp]: "core (noteHeldACLs h l) = core l" "lp_calls (noteHeldACLs h l) = lp_calls l"
  by (simp_all add: noteHeldACLs_def core_def)

lemma steps_applyDeviceSettings: "steps (setting_calls cfg prev text) l (applyDeviceSettings cfg text l)"
proof (cases "deviceAs cfg fc_ApplyDevice")
  case (Some m)
  obtain d held where d: "device_intent (lc_flags cfg) (parse cfg text) = (d, held)" by fastforce
  obtain r l2 where i: "invoke (CApplyDevice d) (m d) (noteHeldACLs held l) = (r, l2)" by fastforce
  have "steps (setting_calls cfg prev text) (noteHeldACLs held l) l2"
    by (rule steps_invoke[OF i]) (simp add: setting_calls_def d)
  moreover have "steps (setting_calls cfg prev text) l (noteHeldACLs held l)" by (rule steps_same) simp_all
  ultimately have "steps (setting_calls cfg prev text) l l2" by (blast intro: steps_trans)
  with Some show ?thesis by (simp add: applyDeviceSettings_def desiredDevice_def d i split: sum.split)
qed (simp add: applyDeviceSettings_def)

lemma steps_installSSHKeys: "steps (setting_calls cfg prev text) l (installSSHKeys cfg text l)"
proof (cases "deviceAs cfg fc_InstallSSHKeys")
  case (Some m)
  let ?k = "ssh_keys_intent (parse cfg text)"
  obtain r l2 where i: "invoke (CInstallSSHKeys ?k) (m ?k) l = (r, l2)" by fastforce
  show ?thesis
  proof (cases "cf_ssh_keys (lc_flags cfg)")
    case True
    then have "steps (setting_calls cfg prev text) l l2"
      by (intro steps_invoke[OF i]) (simp add: setting_calls_def)
    with Some True show ?thesis by (simp add: installSSHKeys_def Let_def i split: sum.split)
  qed (simp add: installSSHKeys_def)
qed (simp add: installSSHKeys_def)

lemma steps_applyNUT: "steps (setting_calls cfg prev text) l (applyNUT cfg text l)"
proof (cases "lc_nut cfg")
  case (Some m)
  obtain r l2 where i: "invoke_act (CApplyNUT (c_nut (parse cfg text))) (m (c_nut (parse cfg text))) l = (r, l2)"
    by fastforce
  have "steps (setting_calls cfg prev text) l l2"
    by (rule steps_invoke_act[OF i]) (simp add: setting_calls_def)
  with Some show ?thesis by (simp add: applyNUT_def Let_def i split: option.split)
qed (simp add: applyNUT_def)

lemma core_setDeviceIP [simp]: "core (setDeviceIP ip why l) = core l" "lp_calls (setDeviceIP ip why l) = lp_calls l"
  "lp_dev (setDeviceIP ip why l) = lp_dev l"
  by (simp_all add: setDeviceIP_def core_def SetIP_def)

lemma steps_setDeviceIP [simp]: "steps S l (setDeviceIP ip why l') = steps S l l'"
  by (simp add: steps_def called_def)

lemma steps_applyAddress: "steps (setting_calls cfg prev text) l (applyAddress cfg prev text l)"
proof (cases "lc_address cfg")
  case (Some ac)
  show ?thesis
  proof (cases "address_verdict_of cfg prev text")
    case (ApplyAddr d)
    obtain r l2 where i: "invoke (CApplyAddress d) (ac_ApplyAddress ac d) l = (r, l2)" by fastforce
    have "steps (setting_calls cfg prev text) l l2"
      by (rule steps_invoke[OF i]) (simp add: setting_calls_def ApplyAddr)
    with Some ApplyAddr show ?thesis by (simp add: applyAddress_def i split: sum.split)
  qed (simp_all add: applyAddress_def Some)
qed (simp add: applyAddress_def)

lemma steps_applySyslog: "steps (setting_calls cfg prev text) l (applySyslog cfg text l)"
proof (cases "lc_syslog cfg")
  case (Some m)
  let ?h = "c_syslog_hosts (parse cfg text)"
  obtain r l2 where i: "invoke (CApplySyslog ?h) (m ?h) l = (r, l2)" by fastforce
  have "steps (setting_calls cfg prev text) l l2"
    by (rule steps_invoke[OF i]) (simp add: setting_calls_def)
  with Some show ?thesis by (simp add: applySyslog_def Let_def i split: sum.split)
qed (simp add: applySyslog_def)

lemma steps_ensureVLANs: "steps (setting_calls cfg prev text) l (ensureVLANs cfg text l)"
proof (cases "Option.bind (lc_controller cfg) (\<lambda>c. fc_EnsureVLANs (ct_face c))")
  case (Some m)
  let ?v = "VLANIDs (parse cfg text)"
  obtain r l2 where i: "invoke (CEnsureVLANs ?v) (m ?v) l = (r, l2)" by fastforce
  have "steps (setting_calls cfg prev text) l l2"
    by (rule steps_invoke[OF i]) (simp add: setting_calls_def)
  with Some show ?thesis by (simp add: ensureVLANs_def Let_def i split: sum.split)
qed (simp add: ensureVLANs_def)

lemmas setting_steps = steps_applyDeviceSettings steps_installSSHKeys steps_applyNUT steps_applyAddress
  steps_applySyslog steps_ensureVLANs

lemma steps_power_settings: "steps (setting_calls cfg prev text) l (power_settings cfg prev text l)"
  unfolding power_settings_def by (meson setting_steps steps_trans)

lemma steps_switch_settings: "steps (setting_calls cfg prev text) l (switch_settings cfg prev text l)"
  unfolding switch_settings_def by (meson setting_steps steps_trans)

section \<open>Intent and holds\<close>

lemma core_notes [simp]:
  "core (l\<lparr>lp_storm_noted := a\<rparr>) = core l" "core (l\<lparr>lp_warned_version := b\<rparr>) = core l"
  "core (l\<lparr>lp_reconciled_once := c\<rparr>) = core l" "core (l\<lparr>lp_apply_failures := d\<rparr>) = core l"
  by (simp_all add: core_def)

definition same_driver :: "'d loop \<Rightarrow> 'd loop \<Rightarrow> bool" where
  "same_driver l l' \<longleftrightarrow> core l' = core l \<and> lp_calls l' = lp_calls l \<and> lp_dev l' = lp_dev l
     \<and> lp_session l' = lp_session l \<and> lp_reconciled_once l' = lp_reconciled_once l"

lemma same_driver_note_storm: "same_driver l (note_storm ns l)"
proof (induction ns arbitrary: l)
  case (Cons n ns)
  obtain i k where n: "n = (i, k)" by fastforce
  let ?l = "if k \<in> set (lp_storm_noted l) then l else say (LA (LStorm i)) (l\<lparr>lp_storm_noted := k # lp_storm_noted l\<rparr>)"
  have "note_storm (n # ns) l = note_storm ns ?l" by (simp add: note_storm_def n)
  moreover have "same_driver l ?l" by (simp add: same_driver_def)
  ultimately show ?case using Cons[of ?l] by (simp only: same_driver_def)
qed (simp add: note_storm_def same_driver_def)

lemma note_storm_frame [simp]: "core (note_storm ns l) = core l" "lp_calls (note_storm ns l) = lp_calls l"
  "lp_dev (note_storm ns l) = lp_dev l" "lp_session (note_storm ns l) = lp_session l"
  "lp_reconciled_once (note_storm ns l) = lp_reconciled_once l"
  using same_driver_note_storm[of l ns] by (simp_all add: same_driver_def)

lemma on_held_frame [simp]: "core (on_held cfg l) = core l" "lp_dev (on_held cfg l) = lp_dev l"
  "lp_session (on_held cfg l) = lp_session l"
  "lp_calls (on_held cfg l) = lp_calls l @ (if lc_on_held cfg then [(COnHeld, True)] else [])"
  by (simp_all add: on_held_def)

lemma on_system_cfg_frame [simp]: "core (on_system_cfg cfg l) = core l" "lp_dev (on_system_cfg cfg l) = lp_dev l"
  "lp_session (on_system_cfg cfg l) = lp_session l"
  "lp_calls (on_system_cfg cfg l) = lp_calls l @ (if lc_on_system_cfg cfg then [(COnSystemCfg, True)] else [])"
  by (simp_all add: on_system_cfg_def)

lemma warnUnsupported_frame [simp]: "core (warnUnsupported cfg v t l) = core l"
  "lp_calls (warnUnsupported cfg v t l) = lp_calls l" "lp_dev (warnUnsupported cfg v t l) = lp_dev l"
  "lp_session (warnUnsupported cfg v t l) = lp_session l"
  by (simp_all add: warnUnsupported_def Let_def split: option.split)

lemma steps_on_held: "steps {COnHeld} l (on_held cfg l)"
  by (auto simp: steps_def called_def)

lemma steps_on_system_cfg: "steps {COnSystemCfg} l (on_system_cfg cfg l)"
  by (auto simp add: steps_def called_def)

lemma holdInitialPush_cases:
  assumes "holdInitialPush cfg ver ds l = (held, l')"
  shows "held \<longleftrightarrow> \<not> lp_ever_applied l \<and> \<not> lc_allow_initial cfg \<and>
      (\<exists>plan. planner cfg = Some plan \<and> plan (withoutMTU ds) (lp_dev l) \<noteq> [])"
    and "steps {COnHeld} l l'" and "lp_dev l' = lp_dev l" and "lp_session l' = lp_session l"
    and "\<not> held \<Longrightarrow> l' = l"
proof -
  have upd: "steps S l (l\<lparr>lp_held_version := v\<rparr>)" for S v by (rule steps_same) (simp_all add: core_def)
  show "held \<longleftrightarrow> \<not> lp_ever_applied l \<and> \<not> lc_allow_initial cfg \<and>
      (\<exists>plan. planner cfg = Some plan \<and> plan (withoutMTU ds) (lp_dev l) \<noteq> [])"
    using assms by (auto simp: holdInitialPush_def Let_def split: if_splits option.splits)
  show "steps {COnHeld} l l'"
    using assms upd
    by (auto simp: holdInitialPush_def Let_def intro: steps_trans[OF _ steps_on_held] split: if_splits option.splits)
  show "lp_dev l' = lp_dev l" "lp_session l' = lp_session l" "\<not> held \<Longrightarrow> l' = l"
    using assms by (auto simp: holdInitialPush_def Let_def split: if_splits option.splits)
qed

lemma holdInitialOutletPush_cases:
  assumes "holdInitialOutletPush cfg ver ds l = (held, l')"
  shows "held \<longleftrightarrow> \<not> lp_ever_outlet_applied l \<and> \<not> lc_allow_initial cfg \<and>
      (\<exists>plan. outlet_planner cfg = Some plan \<and> plan ds (lp_dev l) \<noteq> [])"
    and "steps {COnHeld} l l'" and "lp_dev l' = lp_dev l" and "lp_session l' = lp_session l"
    and "\<not> held \<Longrightarrow> l' = l"
proof -
  have upd: "steps S l (l\<lparr>lp_held_outlet_version := v\<rparr>)" for S v by (rule steps_same) (simp_all add: core_def)
  show "held \<longleftrightarrow> \<not> lp_ever_outlet_applied l \<and> \<not> lc_allow_initial cfg \<and>
      (\<exists>plan. outlet_planner cfg = Some plan \<and> plan ds (lp_dev l) \<noteq> [])"
    using assms by (auto simp: holdInitialOutletPush_def Let_def split: if_splits option.splits)
  show "steps {COnHeld} l l'"
    using assms upd
    by (auto simp: holdInitialOutletPush_def Let_def intro: steps_trans[OF _ steps_on_held] split: if_splits option.splits)
  show "lp_dev l' = lp_dev l" "lp_session l' = lp_session l" "\<not> held \<Longrightarrow> l' = l"
    using assms by (auto simp: holdInitialOutletPush_def Let_def split: if_splits option.splits)
qed

text \<open>Withholding drops exactly the fresh ports the plan would change.\<close>

lemma withhold_out:
  "fst (withhold change ds l) =
     filter (\<lambda>d. mlookup (lp_fresh_ports l) (pd_index d) = None \<or> pd_index d \<notin> set change) ds"
proof (induction change ds l rule: withhold.induct)
  case (2 change d ds l)
  show ?case
  proof (cases "mlookup (lp_fresh_ports l) (pd_index d)")
    case None
    with 2 show ?thesis by (simp add: split_beta)
  next
    case (Some name)
    show ?thesis
    proof (cases "pd_index d \<in> set change")
      case True
      with Some 2 show ?thesis by simp
    next
      case False
      let ?l = "l\<lparr>lp_fresh_ports := AList.delete (pd_index d) (lp_fresh_ports l),
          lp_fresh_warned := removeAll (pd_index d) (lp_fresh_warned l)\<rparr>"
      have "filter (\<lambda>e. mlookup (lp_fresh_ports ?l) (pd_index e) = None \<or> pd_index e \<notin> set change) ds
          = filter (\<lambda>e. mlookup (lp_fresh_ports l) (pd_index e) = None \<or> pd_index e \<notin> set change) ds"
        using False by (intro filter_cong) (auto simp: delete_conv')
      with 2(2)[OF Some False] Some False show ?thesis by (simp add: split_beta)
    qed
  qed
qed simp

text \<open>A loop up to the bookkeeping of fresh ports and the log.\<close>

definition fresh_frame :: "'d loop \<Rightarrow> 'd loop \<Rightarrow> bool" where
  "fresh_frame l l' \<longleftrightarrow> core (l'\<lparr>lp_fresh_ports := lp_fresh_ports l\<rparr>) = core l
     \<and> lp_calls l' = lp_calls l \<and> lp_dev l' = lp_dev l \<and> lp_session l' = lp_session l
     \<and> lp_reconciled_once l' = lp_reconciled_once l"

lemma fresh_frame_refl [simp]: "fresh_frame l l"
  by (simp add: fresh_frame_def)

lemma fresh_frame_trans: "fresh_frame l l' \<Longrightarrow> fresh_frame l' l'' \<Longrightarrow> fresh_frame l l''"
  by (auto simp: fresh_frame_def core_def)

lemma fresh_frame_upd: "fresh_frame l (l\<lparr>lp_fresh_ports := a, lp_fresh_warned := b\<rparr>)"
  "fresh_frame l (say x (l\<lparr>lp_fresh_warned := b\<rparr>))" "fresh_frame l (l\<lparr>lp_fresh_ports := a\<rparr>)"
  by (simp_all add: fresh_frame_def core_def say_def)

lemma withhold_frame: "fresh_frame l (snd (withhold change ds l))"
proof (induction change ds l rule: withhold.induct)
  case (2 change d ds l)
  then show ?case
    by (auto simp: split_beta intro: fresh_frame_trans[OF fresh_frame_upd(1)] fresh_frame_trans[OF fresh_frame_upd(2)]
        fresh_frame_trans[OF fresh_frame_upd(3)]
        split: option.splits)
qed simp

lemma withholdFreshPorts_out:
  assumes "withholdFreshPorts cfg ds l = (out, l')"
  shows "fresh_frame l l'" and "set out \<subseteq> set ds"
    and "\<not> lc_allow_initial cfg \<Longrightarrow> planner cfg = Some plan \<Longrightarrow>
      out = filter (\<lambda>d. mlookup (lp_fresh_ports l) (pd_index d) = None
                       \<or> pd_index d \<notin> set (plan (withoutMTU ds) (lp_dev l))) ds"
proof -
  show "fresh_frame l l'"
    using assms withhold_frame[of l _ ds]
    by (auto simp: withholdFreshPorts_def split: if_splits option.splits) (metis snd_conv)
  have w: "withhold ch ds l = (out, l') \<Longrightarrow>
      out = filter (\<lambda>d. mlookup (lp_fresh_ports l) (pd_index d) = None \<or> pd_index d \<notin> set ch) ds" for ch
    using withhold_out[of ch ds l] by simp
  show "set out \<subseteq> set ds"
    using assms by (auto simp: withholdFreshPorts_def dest!: w split: if_splits option.splits)
  show "\<not> lc_allow_initial cfg \<Longrightarrow> planner cfg = Some plan \<Longrightarrow>
      out = filter (\<lambda>d. mlookup (lp_fresh_ports l) (pd_index d) = None
                       \<or> pd_index d \<notin> set (plan (withoutMTU ds) (lp_dev l))) ds"
    using assms by (auto simp: withholdFreshPorts_def dest!: w split: if_splits option.splits)
qed

end
