(* ===== verification/Loop_Demo.thy ===== *)
theory Loop_Demo
  imports Loop_Frame
begin

text \<open>
  A small device the properties of the loop are evaluated on: two ports, whose state is the
  list of (port, enabled); a controller with a planner that reports the ports it would change.
\<close>

type_synonym demo_dev = "(int \<times> bool) list"

definition no_face :: "'d face" where
  "no_face = \<lparr>fc_PlanPorts = None, fc_PlanOutlets = None, fc_EnsureVLANs = None, fc_ApplyDevice = None,
     fc_InstallSSHKeys = None, fc_CyclePort = None, fc_CycleOutlet = None, fc_Reboot = None,
     fc_SetLocate = None, fc_DHCPSnooping = None, fc_CurrentAddress = None, fc_PowerEvents = None,
     fc_ApplyTimeout = None\<rparr>"

definition demo_plan :: "port_desired list \<Rightarrow> demo_dev \<Rightarrow> int list" where
  "demo_plan ds dev = map pd_index (filter (\<lambda>d. map_of dev (pd_index d) \<noteq> Some (pd_enabled d)) ds)"

definition demo_apply :: "port_desired list \<Rightarrow> (demo_dev, int) dmethod" where
  "demo_apply ds dev = (Inr (int (length (demo_plan ds dev))),
     fold (\<lambda>d. AList.update (pd_index d) (pd_enabled d)) ds dev)"

definition demo_face :: "demo_dev face" where
  "demo_face = no_face\<lparr>fc_PlanPorts := Some demo_plan,
     fc_CyclePort := Some (\<lambda>i dev. (None, AList.update i False dev))\<rparr>"

definition demo_controller :: "demo_dev controller" where
  "demo_controller = \<lparr>ct_face = demo_face, ct_ApplyPorts = demo_apply\<rparr>"

definition no_flags :: control_flags where
  "no_flags = \<lparr>cf_igmp = False, cf_ntp = False, cf_syslog = False, cf_hostname = False, cf_reboot = False,
     cf_snmp = False, cf_ssh_keys = False\<rparr>"

definition base_config :: "'d loop_config" where
  "base_config = \<lparr>lc_model = ''USL'', lc_mac = ''m'', lc_default_key = ''factory'', lc_ord = (\<lambda>x. x), lc_quote = (\<lambda>x. x),
     lc_interval = 0, lc_collect_timeout = 0, lc_apply_timeout = 0, lc_collector = None, lc_controller = None,
     lc_outlets = None, lc_address = None, lc_syslog = None, lc_nut = None, lc_control_ports = None,
     lc_control_outlets = None, lc_flags = no_flags, lc_jumbo_always_on = False, lc_stale_after = 0,
     lc_allow_initial = False, lc_names = [], lc_on_held = False, lc_on_connected = False, lc_on_layout = False,
     lc_on_system_cfg = False, lc_gateway_ip = [], lc_device_name = [], lc_children = []\<rparr>"

definition demo_config :: "demo_dev loop_config" where
  "demo_config = base_config\<lparr>lc_controller := Some demo_controller\<rparr>"

text \<open>A push that shuts port 1.\<close>

definition demo_push :: string where
  "demo_push = ''switch.port.1.status=disabled''"

definition demo_pending :: session where
  "demo_pending = demo_session\<lparr>ss_st := demo_state\<lparr>st_adopted := True, st_pending_ver := ''v7'',
     st_pending_cfg := demo_push\<rparr>\<rparr>"

definition demo_loop :: "demo_dev loop" where
  "demo_loop = NewLoop demo_config 0 [] None demo_pending [(1, True), (2, True)]"

definition demo_env :: env where
  "demo_env = \<lparr>ev_now = 0, ev_reply_now = 0, ev_save = (\<lambda>_. None), ev_io = io_ok, ev_js = (\<lambda>_. []),
     ev_http = PostFailed ''refused'', ev_hex = (\<lambda>x. x), ev_cancelled = False\<rparr>"

lemma demo_loop_facts:
  "Pending (lp_session demo_loop) = Some (''v7'', demo_push)" "lp_dev demo_loop = [(1, True), (2, True)]"
  "\<not> lp_ever_applied demo_loop"
  by code_simp+

lemma demo_config_facts [simp]:
  "lc_controller demo_config = Some demo_controller" "planner demo_config = Some demo_plan"
  "\<not> lc_allow_initial demo_config" "lc_control_ports demo_config = None" "lc_names demo_config = []"
  "lc_ord demo_config = (\<lambda>x. x)"
  by (simp_all add: demo_config_def base_config_def planner_def demo_controller_def demo_face_def)

lemma demo_push_plan:
  "demo_plan (withoutMTU (ports_intent None [] (Parse (\<lambda>x. x) demo_push))) [(1, True), (2, True)] = [1]"
  by code_simp

end
