(* ===== verification/Intent_Props.thy ===== *)
theory Intent_Props
  imports Loop Loop_Demo
begin

text \<open>
  Properties of the translation of a push into intents (\<^verbatim>\<open>desiredACLs\<close> and \<^verbatim>\<open>ipEnd\<close> of
  \<^verbatim>\<open>internal/informloop/acl.go\<close>): which access rules are handed to the driver, and in what form.
\<close>

lemma filter_all_iff: "list_all P as \<Longrightarrow> filter P as = as"
  by (simp add: list_all_iff)

section \<open>Properties\<close>

text \<open>
  C24. Access rules are translated all or none, kind by kind: the driver is given every IP rule of
  the push in the push's order, or (when the shape of even one is unknown) none and the order to
  leave the device's IP rules alone; the same for MAC rules, independently.
\<close>

theorem acl_rules_all_or_none:
  "(let d = fst (desiredDevice cfg text l); ips = c_ip_acls (parse cfg text); macs = c_mac_acls (parse cfg text)
    in (if list_all (\<lambda>a. IPACL_Uncaptured a = Captured) ips
        then dd_ipacl_set d \<and> dd_ipacls d = map ip_rule ips else \<not> dd_ipacl_set d \<and> dd_ipacls d = [])
     \<and> (if list_all (\<lambda>a. MACACL_Uncaptured a = Captured) macs
        then dd_macacl_set d \<and> dd_macacls d = map mac_rule macs else \<not> dd_macacl_set d \<and> dd_macacls d = []))"
  by (simp add: desiredDevice_def split_beta Let_def device_intent_acls ip_rules_spec mac_rules_spec filter_all_iff)

text \<open>
  Each IPv4 side of a translated rule is a network in canonical form: it parses back to the
  address whose host bits are cleared under the pushed prefix length, and translating it again
  changes nothing, so a driver comparing rules sees no difference from one cycle to the next.
\<close>

theorem acl_side_is_a_network:
  assumes "im_ip m = a @ ''/'' @ p" and "parse_addr a = Some (V4Text q)" and "CHR ''/'' \<notin> set a"
    and "all_digits p" and "digits_val p \<le> 32"
  shows "parse_cidr (ie_cidr (ipEnd m)) =
      Some (v4_mapped (mask_bytes (nat (digits_val p)) q), mask_bytes (nat (digits_val p)) q, nat (digits_val p))
    \<and> ie_cidr (ipEnd (m\<lparr>im_ip := ie_cidr (ipEnd m)\<rparr>)) = ie_cidr (ipEnd m)"
proof -
  let ?n = "nat (digits_val p)"
  let ?q = "mask_bytes ?n q"
  have q: "length q = 4" "\<forall>b \<in> set q. b \<le> 255" using assms(2)
    by (auto simp: parse_addr_def dest: parse_v4_bytes split: option.splits if_splits)
  have n: "?n \<le> 32" using assms(5) by simp
  have cut: "str_cut (CHR ''/'') (im_ip m) = Some (a, p)" using assms(1,3) by simp
  have t: "to4 ?q = Some ?q" using q(1) by (simp add: to4_def)
  have any: "x @ ''/'' @ y \<noteq> AnyIP" for x y :: string
  proof
    assume "x @ ''/'' @ y = AnyIP"
    then have "CHR ''/'' \<in> set AnyIP" by (metis append_Cons in_set_conv_decomp)
    then show False by (simp add: AnyIP_def)
  qed
  have e: "ie_cidr (ipEnd m) = dotted ?q @ ''/'' @ nat_digits ?n"
    using parse_cidr_v4[OF cut assms(2,4,5)] any[of a p] t q(1) assms(1)
    by (simp add: ipEnd_def Let_def cidr_string_def split: option.split)
  have c: "parse_cidr (ie_cidr (ipEnd m)) = Some (v4_mapped ?q, ?q, ?n)"
    unfolding e using parse_cidr_dotted[of ?q, OF _ mask_bytes_le[OF q(2)] n] q(1) by simp
  have "ie_cidr (ipEnd (m\<lparr>im_ip := ie_cidr (ipEnd m)\<rparr>)) = cidr_string ?q ?n"
    using c any[of "dotted ?q" "nat_digits ?n"] e by (simp add: ipEnd_def Let_def split: option.split)
  also have "\<dots> = ie_cidr (ipEnd m)" using t q(1) by (simp add: e cidr_string_def)
  finally show ?thesis using c by blast
qed

definition lan_side :: ip_match where
  "lan_side = \<lparr>im_ip = ''10.0.8.1/22'', im_port = 0, im_range = AnyPort\<rparr>"

lemma acl_side_is_a_network_witness:
  "ie_cidr (ipEnd lan_side) = ''10.0.8.0/22'' \<and> parse_cidr ''10.0.8.0/22'' = Some (v4_mapped [10, 0, 8, 0], [10, 0, 8, 0], 22)"
proof -
  have h: "im_ip lan_side = ''10.0.8.1'' @ ''/'' @ ''22''" by (simp add: lan_side_def)
  have p: "parse_addr ''10.0.8.1'' = Some (V4Text [10, 0, 8, 1])" "CHR ''/'' \<notin> set ''10.0.8.1''"
    "all_digits ''22''" "digits_val ''22'' \<le> 32" by code_simp+
  have v: "ie_cidr (ipEnd lan_side) = ''10.0.8.0/22''" "mask_bytes (nat (digits_val ''22'')) [10, 0, 8, 1] = [10, 0, 8, 0]"
    "nat (digits_val ''22'') = 22" by code_simp+
  from acl_side_is_a_network[OF h p] v show ?thesis by simp
qed

end
