(* ===== verification/Loop_Apply.thy ===== *)
theory Loop_Apply
  imports Loop_Demo
begin

text \<open>
  Applying a configuration push and reconciling the applied one: what is written, when the push
  is claimed, and what a hold keeps back.
\<close>

section \<open>Outcomes\<close>

text \<open>The push is followed: it is the applied configuration and nothing waits.\<close>

definition claimed :: "string \<Rightarrow> string \<Rightarrow> 'd loop \<Rightarrow> bool" where
  "claimed ver text l \<longleftrightarrow> Applied (lp_session l) = Some (ver, text) \<and> Pending (lp_session l) = None
     \<and> st_cfgversion (ss_st (lp_session l)) = ver"

lemma Pending_st: "ss_st s' = ss_st s \<Longrightarrow> Pending s' = Pending s"
  by (simp add: Pending_def)

lemma Applied_st: "ss_st s' = ss_st s \<Longrightarrow> Applied s' = Applied s"
  by (simp add: Applied_def)

lemma mark_applied_frame [simp]: "lp_calls (mark_applied ev v l) = lp_calls l" "lp_dev (mark_applied ev v l) = lp_dev l"
  "lp_ever_applied (mark_applied ev v l) = lp_ever_applied l"
  "lp_ever_outlet_applied (mark_applied ev v l) = lp_ever_outlet_applied l"
  "lp_state (mark_applied ev v l) = lp_state l" "lp_interval (mark_applied ev v l) = lp_interval l"
  by (simp_all add: mark_applied_def split: prod.split option.split)

lemma mark_applied_st: "ss_st (lp_session (mark_applied ev v l)) = ss_st (fst (MarkApplied (ev_save ev) v (lp_session l)))"
  by (auto simp: mark_applied_def split: prod.split option.split)

lemma mark_applied_claims:
  assumes "Pending (lp_session l) = Some (ver, text)"
  shows "claimed ver text (mark_applied ev ver l)"
  using assms by (auto simp: claimed_def Pending_def Applied_def mark_applied_st MarkApplied_st split: if_splits)

lemma apply_failed_frame [simp]: "core (apply_failed v e l) = core l" "lp_calls (apply_failed v e l) = lp_calls l"
  "lp_session (apply_failed v e l) = lp_session l" "lp_dev (apply_failed v e l) = lp_dev l"
  "lp_ever_applied (apply_failed v e l) = lp_ever_applied l"
  "lp_ever_outlet_applied (apply_failed v e l) = lp_ever_outlet_applied l"
  by (simp_all add: apply_failed_def Let_def)

text \<open>Either the push is held, or the settings are written and then the write of the push decides.\<close>

definition outcome :: "call set \<Rightarrow> call \<Rightarrow> string \<Rightarrow> string \<Rightarrow> 'd loop \<Rightarrow> 'd loop \<Rightarrow> bool" where
  "outcome S w ver text l l' \<longleftrightarrow> (\<exists>cs ok. lp_calls l' = lp_calls l @ cs @ [(w, ok)] \<and> fst ` set cs \<subseteq> S
     \<and> (if ok then claimed ver text l' else ss_st (lp_session l') = ss_st (lp_session l)))"

lemma outcomeI_write:
  assumes s: "steps S l0 l1" and l0: "lp_calls l0 = lp_calls l" "ss_st (lp_session l0) = ss_st (lp_session l)"
    and p: "Pending (lp_session l) = Some (ver, text)"
    and i: "invoke w f l1 = (r, l2)"
    and l': "l' = (case r of Inl e \<Rightarrow> apply_failed ver e l2 | Inr n \<Rightarrow> mark_applied ev ver (ok n l2))"
    and ok: "\<And>n. lp_session (ok n l2) = lp_session l2" "\<And>n. lp_calls (ok n l2) = lp_calls l2"
  shows "outcome S w ver text l l'"
proof -
  from s l0 obtain cs where cs: "lp_calls l1 = lp_calls l @ cs" "fst ` set cs \<subseteq> S"
    by (auto simp: steps_def called_def)
  have st: "ss_st (lp_session l2) = ss_st (lp_session l)"
    using steps_fields(1)[OF s] l0 i by (auto simp: invoke_def split: prod.splits)
  have c2: "lp_calls l2 = lp_calls l @ cs @ [(w, \<not> isl r)]" using invoke_calls[OF i] cs by simp
  have "Pending (lp_session (ok n l2)) = Some (ver, text)" for n
    using p Pending_st[OF st] by (simp add: ok)
  from mark_applied_claims[OF this] have "claimed ver text (mark_applied ev ver (ok n l2))" for n .
  with c2 cs st show ?thesis
    by (cases r) (auto simp: outcome_def l' ok)
qed

lemma apply_ports_outcome:
  assumes p: "Pending (lp_session l) = Some (ver, text)"
    and l': "apply_ports cfg ev c ver prev text l = l'"
  shows "(called {COnHeld} l l' \<and> lp_dev l' = lp_dev l \<and> lp_session l' = lp_session l)
    \<or> (\<exists>ds. set ds \<subseteq> set (ports_intent (lc_control_ports cfg) (lc_names cfg) (parse cfg text))
        \<and> outcome (setting_calls cfg prev text) (CApplyPorts ds) ver text l l')"
proof -
  let ?ds = "ports_intent (lc_control_ports cfg) (lc_names cfg) (parse cfg text)"
  let ?l1 = "note_storm (storm_notes (lc_control_ports cfg) (parse cfg text)) l"
  obtain held l2 where h: "holdInitialPush cfg ver ?ds ?l1 = (held, l2)" by fastforce
  show ?thesis
  proof (cases held)
    case True
    with l' h have "l' = l2" by (simp add: apply_ports_def desiredPorts_def)
    with holdInitialPush_cases[OF h] show ?thesis by (simp add: steps_def called_def)
  next
    case False
    then have l2: "l2 = ?l1" using holdInitialPush_cases(5)[OF h] by simp
    obtain ds l3 where w: "withholdFreshPorts cfg ?ds ?l1 = (ds, l3)" by fastforce
    obtain r l4 where i: "invoke (CApplyPorts ds) (ct_ApplyPorts c ds) (switch_settings cfg prev text l3) = (r, l4)"
      by fastforce
    have f: "lp_calls l3 = lp_calls l" "lp_session l3 = lp_session l"
      using withholdFreshPorts_out(1)[OF w] by (simp_all add: fresh_frame_def)
    have "outcome (setting_calls cfg prev text) (CApplyPorts ds) ver text l l'"
      using l' h False l2 w i f p
      by (intro outcomeI_write[OF steps_switch_settings _ _ p i, where ok = "\<lambda>n l4. say (LA (LApplied ver n (length ds)))
             (l4\<lparr>lp_apply_failures := 0, lp_ever_applied := True\<rparr>)" and ev = ev])
        (auto simp: apply_ports_def desiredPorts_def split: sum.split)
    with withholdFreshPorts_out(2)[OF w] show ?thesis by blast
  qed
qed

lemma apply_outlets_outcome:
  assumes p: "Pending (lp_session l) = Some (ver, text)"
    and l': "apply_outlets cfg ev oc ver text l = l'"
  shows "(called {COnHeld} l l' \<and> lp_dev l' = lp_dev l \<and> lp_session l' = lp_session l)
    \<or> outcome {} (CApplyOutlets (desiredOutlets cfg text)) ver text l l'"
proof -
  let ?ds = "desiredOutlets cfg text"
  obtain held l1 where h: "holdInitialOutletPush cfg ver ?ds l = (held, l1)" by fastforce
  show ?thesis
  proof (cases held)
    case True
    with l' h have "l' = l1" by (simp add: apply_outlets_def Let_def)
    with holdInitialOutletPush_cases[OF h] show ?thesis by (simp add: steps_def)
  next
    case False
    then have l1: "l1 = l" using holdInitialOutletPush_cases(5)[OF h] by simp
    obtain r l2 where i: "invoke (CApplyOutlets ?ds) (oc_ApplyOutlets oc ?ds) l = (r, l2)" by fastforce
    have "outcome {} (CApplyOutlets ?ds) ver text l l'"
      using l' h False l1 i
      by (intro outcomeI_write[OF steps_refl _ _ p i, where ok = "\<lambda>n l2. say (LA (LApplied ver n (length ?ds)))
             (l2\<lparr>lp_apply_failures := 0, lp_ever_applied := True, lp_ever_outlet_applied := True\<rparr>)" and ev = ev])
        (auto simp: apply_outlets_def Let_def split: sum.split)
    then show ?thesis by blast
  qed
qed

section \<open>A pending push\<close>

definition prev_text :: "'d loop \<Rightarrow> string" where
  "prev_text l = (case Applied (lp_session l) of Some (_, t) \<Rightarrow> t | None \<Rightarrow> [])"

definition warned :: "'d loop_config \<Rightarrow> string \<Rightarrow> string \<Rightarrow> 'd loop \<Rightarrow> 'd loop" where
  "warned cfg ver text l = (if lp_warned_version l \<noteq> ver
     then on_system_cfg cfg (warnUnsupported cfg ver text (l\<lparr>lp_warned_version := ver\<rparr>)) else l)"

lemma warned_frame [simp]: "core (warned cfg v t l) = core l" "lp_dev (warned cfg v t l) = lp_dev l"
  "lp_session (warned cfg v t l) = lp_session l"
  by (simp_all add: warned_def)

lemma steps_warned: "steps {COnSystemCfg} l (warned cfg v t l)"
  by (auto simp: steps_def called_def warned_def)

lemma applyPending_None: "Pending (lp_session l) = None \<Longrightarrow> applyPending cfg ev l = (False, l)"
  by (simp add: applyPending_def)

lemma applyPending_ports:
  assumes "Pending (lp_session l) = Some (ver, text)" and "lc_controller cfg = Some c"
  shows "applyPending cfg ev l = (True, apply_ports cfg ev c ver (prev_text l) text (warned cfg ver text l))"
  using assms by (simp add: applyPending_def prev_text_def warned_def Let_def split: option.split)

lemma applyPending_outlets:
  assumes "Pending (lp_session l) = Some (ver, text)" and "lc_controller cfg = None" and "lc_outlets cfg = Some oc"
  shows "applyPending cfg ev l = (True, apply_outlets cfg ev oc ver text
           (power_settings cfg (prev_text l) text (warned cfg ver text l)))"
  using assms by (simp add: applyPending_def prev_text_def warned_def Let_def)

lemma applyPending_none:
  assumes "Pending (lp_session l) = Some (ver, text)" and "lc_controller cfg = None" and "lc_outlets cfg = None"
  shows "applyPending cfg ev l = (True, mark_applied ev ver (say (LA (LFollowed ver)) (power_settings cfg (prev_text l) text l)))"
  using assms by (simp add: applyPending_def prev_text_def Let_def)

lemma outcome_after_steps:
  assumes "steps S l l1" and "outcome S w ver text l1 l'"
  shows "outcome S w ver text l l'"
proof -
  from assms(1) obtain cs where cs: "lp_calls l1 = lp_calls l @ cs" "fst ` set cs \<subseteq> S"
    by (auto simp: steps_def called_def)
  with assms(2) steps_fields(1)[OF assms(1)] show ?thesis
    unfolding outcome_def by (metis (no_types, lifting) append.assoc image_Un le_sup_iff set_append)
qed

lemma outcome_mono: "outcome S w ver text l l' \<Longrightarrow> S \<subseteq> T \<Longrightarrow> outcome T w ver text l l'"
  unfolding outcome_def by blast

lemma called_after_steps:
  "steps S l l1 \<Longrightarrow> called T l1 l' \<Longrightarrow> called (S \<union> T) l l'"
  by (meson called_mono called_trans steps_def sup_ge1 sup_ge2)

text \<open>The calls that are neither a write of ports or outlets nor a queued command.\<close>

definition push_calls :: "'d loop_config \<Rightarrow> string \<Rightarrow> string \<Rightarrow> call set" where
  "push_calls cfg prev text = insert COnSystemCfg (setting_calls cfg prev text)"

text \<open>
  C3. A push is claimed only after the device took it. Applying a pending push on a device whose
  ports or outlets the bridge writes ends in one of two ways: it is held, making no write of
  ports or outlets, and the state file is unchanged; or the device-wide settings are written and
  then, last, the push's ports (or outlets), and exactly when that last write succeeds the push
  becomes the applied configuration and the reported cfgversion. After a failed write the push
  is still pending under the old cfgversion.
\<close>

theorem push_claimed_only_when_written:
  assumes "Pending (lp_session l) = Some (ver, text)"
    and "lc_controller cfg \<noteq> None \<or> lc_outlets cfg \<noteq> None"
    and "applyPending cfg ev l = (handled, l')"
  shows "handled \<and>
    ((ss_st (lp_session l') = ss_st (lp_session l) \<and> called (insert COnHeld (push_calls cfg (prev_text l) text)) l l')
     \<or> (\<exists>w. outcome (push_calls cfg (prev_text l) text) w ver text l l'
          \<and> ((\<exists>ds. w = CApplyPorts ds) \<or> w = CApplyOutlets (desiredOutlets cfg text))))"
proof (cases "lc_controller cfg")
  case (Some c)
  let ?l1 = "warned cfg ver text l" and ?S = "push_calls cfg (prev_text l) text"
  from applyPending_ports[OF assms(1) Some] assms(3)
  have l': "apply_ports cfg ev c ver (prev_text l) text ?l1 = l'" and h: handled by auto
  have w: "steps ?S l ?l1" by (rule steps_mono[OF steps_warned]) (simp add: push_calls_def)
  have p: "Pending (lp_session ?l1) = Some (ver, text)" using assms(1) by simp
  from apply_ports_outcome[OF p l'] show ?thesis
  proof (elim disjE conjE exE)
    assume "called {COnHeld} ?l1 l'" "lp_session l' = lp_session ?l1"
    with called_after_steps[OF w, of "{COnHeld}" l'] h show ?thesis by simp
  next
    fix ds assume "outcome (setting_calls cfg (prev_text l) text) (CApplyPorts ds) ver text ?l1 l'"
    from outcome_after_steps[OF w outcome_mono[OF this]] h show ?thesis by (auto simp: push_calls_def)
  qed
next
  case None
  then obtain oc where oc: "lc_outlets cfg = Some oc" using assms(2) by auto
  let ?l1 = "power_settings cfg (prev_text l) text (warned cfg ver text l)" and ?S = "push_calls cfg (prev_text l) text"
  from applyPending_outlets[OF assms(1) None oc] assms(3)
  have l': "apply_outlets cfg ev oc ver text ?l1 = l'" and h: handled by auto
  have w: "steps ?S l ?l1"
    by (rule steps_trans[OF steps_mono[OF steps_warned] steps_mono[OF steps_power_settings]]) (auto simp: push_calls_def)
  have p: "Pending (lp_session ?l1) = Some (ver, text)" using assms(1) Pending_st[OF steps_fields(1)[OF w]] by simp
  from apply_outlets_outcome[OF p l'] show ?thesis
  proof (elim disjE conjE)
    assume "called {COnHeld} ?l1 l'" "lp_session l' = lp_session ?l1"
    with called_after_steps[OF w, of "{COnHeld}" l'] steps_fields(1)[OF w] h show ?thesis by simp
  next
    assume "outcome {} (CApplyOutlets (desiredOutlets cfg text)) ver text ?l1 l'"
    from outcome_after_steps[OF w outcome_mono[OF this]] h show ?thesis by auto
  qed
qed

lemma push_claimed_only_when_written_witness:
  "Pending (lp_session demo_loop) = Some (''v7'', demo_push)
   \<and> (\<exists>handled l'. applyPending demo_config demo_env demo_loop = (handled, l') \<and> handled)"
proof -
  obtain h l' where a: "applyPending demo_config demo_env demo_loop = (h, l')" by fastforce
  have c: "lc_controller demo_config \<noteq> None \<or> lc_outlets demo_config \<noteq> None" by simp
  from push_claimed_only_when_written[OF demo_loop_facts(1) c a] demo_loop_facts(1) a show ?thesis by blast
qed

section \<open>The first push\<close>

definition pushed_ports :: "'d loop_config \<Rightarrow> string \<Rightarrow> port_desired list" where
  "pushed_ports cfg text = ports_intent (lc_control_ports cfg) (lc_names cfg) (parse cfg text)"

text \<open>
  C1. The first push after adoption cannot strip a switch. While no push was ever applied to the
  device (and the operator has not allowed initial changes), a pending push that the driver's
  plan says would change ports is held: no port, VLAN, device-wide setting, address or key is
  written, nothing but the notification callbacks is called, the device and the session are as
  before, so the push stays pending under the old cfgversion.
\<close>

theorem first_push_is_held:
  assumes "lc_controller cfg = Some c" and "planner cfg = Some plan" and "\<not> lc_allow_initial cfg"
    and "\<not> lp_ever_applied l" and "Pending (lp_session l) = Some (ver, text)"
    and "plan (withoutMTU (pushed_ports cfg text)) (lp_dev l) \<noteq> []"
  shows "\<exists>l'. applyPending cfg ev l = (True, l') \<and> called {COnHeld, COnSystemCfg} l l'
    \<and> lp_dev l' = lp_dev l \<and> lp_session l' = lp_session l \<and> \<not> lp_ever_applied l'"
proof -
  let ?l0 = "warned cfg ver text l"
  let ?l1 = "note_storm (storm_notes (lc_control_ports cfg) (parse cfg text)) ?l0"
  obtain held l2 where h: "holdInitialPush cfg ver (pushed_ports cfg text) ?l1 = (held, l2)" by fastforce
  have e: "lp_ever_applied ?l1 = lp_ever_applied l"
    using note_storm_frame(1)[of _ ?l0] warned_frame(1)[of cfg ver "text" l] by (simp add: core_def)
  from holdInitialPush_cases(1)[OF h] assms e have held by simp
  with h have "apply_ports cfg ev c ver (prev_text l) text ?l0 = l2"
    by (simp add: apply_ports_def desiredPorts_def pushed_ports_def)
  then have a: "applyPending cfg ev l = (True, l2)" by (simp add: applyPending_ports[OF assms(5,1)])
  have s: "steps {COnHeld} ?l1 l2" by (rule holdInitialPush_cases(2)[OF h])
  have s0: "steps ({COnSystemCfg} \<union> {COnHeld}) l ?l1"
    by (rule steps_trans[OF steps_mono[OF steps_warned] steps_same]) auto
  have "steps ({COnSystemCfg} \<union> {COnHeld}) l l2" by (rule steps_trans[OF s0 steps_mono[OF s]]) simp
  with a holdInitialPush_cases(3,4)[OF h] assms(4) steps_fields(4) show ?thesis
    by (auto simp: steps_def insert_commute Un_commute core_def)
qed

lemma first_push_is_held_witness:
  "demo_plan (withoutMTU (pushed_ports demo_config demo_push)) (lp_dev demo_loop) = [1]
   \<and> (\<exists>l'. applyPending demo_config demo_env demo_loop = (True, l') \<and> lp_dev l' = [(1, True), (2, True)])"
proof -
  have p: "demo_plan (withoutMTU (pushed_ports demo_config demo_push)) (lp_dev demo_loop) = [1]"
    using demo_push_plan by (simp add: pushed_ports_def parse_def demo_loop_facts)
  then have "demo_plan (withoutMTU (pushed_ports demo_config demo_push)) (lp_dev demo_loop) \<noteq> []" by simp
  from first_push_is_held[OF demo_config_facts(1-3) demo_loop_facts(3,1) this] p show ?thesis
    by (metis demo_loop_facts(2))
qed



end
