(* ===== verification/Loop_Runs.thy ===== *)
theory Loop_Runs
  imports Loop_Apply
begin

text \<open>
  Invariants of whole runs of the loop: every write stays inside what the operator put under
  control, the adoption state follows the session, the inform interval stays positive.
\<close>

section \<open>What a handler leaves of the loop's life\<close>

definition life :: "'d loop \<Rightarrow> lstate \<times> int \<times> bool" where
  "life l = (lp_state l, lp_interval l, Adopted (lp_session l))"

definition moves :: "call set \<Rightarrow> 'd loop \<Rightarrow> 'd loop \<Rightarrow> bool" where
  "moves S l l' \<longleftrightarrow> life l' = life l \<and> called S l l'"

lemma moves_refl [simp, intro]: "moves S l l"
  by (simp add: moves_def)

lemma moves_trans: "moves S l l' \<Longrightarrow> moves S l' l'' \<Longrightarrow> moves S l l''"
  by (auto simp: moves_def intro: called_trans)

lemma moves_mono: "moves S l l' \<Longrightarrow> S \<subseteq> T \<Longrightarrow> moves T l l'"
  by (auto simp: moves_def intro: called_mono)

lemma moves_same: "life l' = life l \<Longrightarrow> lp_calls l' = lp_calls l \<Longrightarrow> moves S l l'"
  by (simp add: moves_def called_same)

lemma core_life: "core l' = core l \<Longrightarrow> life l' = life l"
  by (simp add: core_def life_def)

lemma steps_moves: "steps S l l' \<Longrightarrow> moves S l l'"
  by (auto simp: steps_def moves_def intro: core_life)

lemma life_say [simp]: "life (say x l) = life l" "life (say_all xs l) = life l" "life (note_call c l) = life l"
  by (rule core_life, simp)+

lemma moves_say [simp]: "moves S l (say x l') = moves S l l'" "moves S l (say_all xs l') = moves S l l'"
  by (simp_all add: moves_def called_def)

lemma moves_note_call: "c \<in> S \<Longrightarrow> moves S l (note_call c l)"
  by (auto simp: moves_def called_def)

lemma fresh_frame_moves: "fresh_frame l l' \<Longrightarrow> moves S l l'"
  by (auto simp: fresh_frame_def moves_def called_def core_def life_def)

lemma moves_invoke: "invoke c f l = (r, l') \<Longrightarrow> c \<in> S \<Longrightarrow> moves S l l'"
  by (rule steps_moves, rule steps_invoke)

lemma moves_invoke_act: "invoke_act c f l = (r, l') \<Longrightarrow> c \<in> S \<Longrightarrow> moves S l l'"
  by (rule steps_moves, rule steps_invoke_act)

lemma life_mark_applied [simp]: "life (mark_applied ev v l) = life l"
  by (simp add: life_def mark_applied_st MarkApplied_st)

lemma moves_mark_applied [simp]: "moves S l (mark_applied ev v l') = moves S l l'"
  by (simp add: moves_def called_def)

lemma life_apply_failed [simp]: "life (apply_failed v e l) = life l"
  by (rule core_life) simp

lemma moves_apply_failed [simp]: "moves S l (apply_failed v e l') = moves S l l'"
  by (simp add: moves_def called_def)

lemma life_upd [simp]:
  "life (l\<lparr>lp_reconciled_once := a\<rparr>) = life l" "life (l\<lparr>lp_apply_failures := b\<rparr>) = life l"
  "life (l\<lparr>lp_ever_applied := c\<rparr>) = life l" "life (l\<lparr>lp_ever_outlet_applied := d\<rparr>) = life l"
  by (simp_all add: life_def)

lemma moves_upd [simp]:
  "moves S l (l'\<lparr>lp_reconciled_once := a\<rparr>) = moves S l l'" "moves S l (l'\<lparr>lp_apply_failures := b\<rparr>) = moves S l l'"
  "moves S l (l'\<lparr>lp_ever_applied := c\<rparr>) = moves S l l'" "moves S l (l'\<lparr>lp_ever_outlet_applied := d\<rparr>) = moves S l l'"
  by (simp_all add: moves_def called_def)

section \<open>Calls inside the operator's control\<close>

definition allowed :: "'d loop_config \<Rightarrow> call set" where
  "allowed cfg = {c. case c of
     CApplyPorts ds \<Rightarrow> list_all (\<lambda>d. under_control (lc_control_ports cfg) (pd_index d)) ds
   | CApplyOutlets ds \<Rightarrow> list_all (\<lambda>d. 1 \<le> od_index d \<and> under_control (lc_control_outlets cfg) (od_index d)) ds
   | CCycleOutlet i \<Rightarrow> 1 \<le> i \<and> under_control (lc_control_outlets cfg) i
   | _ \<Rightarrow> True}"

lemma setting_calls_allowed: "setting_calls cfg prev text \<subseteq> allowed cfg"
  by (auto simp: setting_calls_def allowed_def split: call.splits)

lemma power_settings_moves: "moves (allowed cfg) l (power_settings cfg prev text l)"
  by (rule moves_mono[OF steps_moves[OF steps_power_settings] setting_calls_allowed])

lemma switch_settings_moves: "moves (allowed cfg) l (switch_settings cfg prev text l)"
  by (rule moves_mono[OF steps_moves[OF steps_switch_settings] setting_calls_allowed])

lemma CApplyOutlets_allowed: "CApplyOutlets (desiredOutlets cfg text) \<in> allowed cfg"
  by (auto simp: allowed_def desiredOutlets_def list_all_iff dest: outlets_intent_allowed)

lemma withheld_allowed:
  assumes "withholdFreshPorts cfg (ports_intent (lc_control_ports cfg) (lc_names cfg) c) l = (ds, l')"
  shows "CApplyPorts ds \<in> allowed cfg"
  using withholdFreshPorts_out(2)[OF assms] ports_intent_controlled[of _ "lc_control_ports cfg" "lc_names cfg" c]
  by (auto simp: allowed_def list_all_iff)

lemma hold_outlets_moves: "holdInitialOutletPush cfg v ds l = (h, l') \<Longrightarrow> moves (allowed cfg) l l'"
  by (rule moves_mono[OF steps_moves[OF holdInitialOutletPush_cases(2)]]) (auto simp: allowed_def)

lemma hold_ports_moves: "holdInitialPush cfg v ds l = (h, l') \<Longrightarrow> moves (allowed cfg) l l'"
  by (rule moves_mono[OF steps_moves[OF holdInitialPush_cases(2)]]) (auto simp: allowed_def)

lemma reconcile_outlets_moves: "moves (allowed cfg) l (reconcile_outlets cfg oc ver text l)"
proof -
  let ?ds = "desiredOutlets cfg text"
  obtain h l1 where h: "holdInitialOutletPush cfg ver ?ds l = (h, l1)" by fastforce
  obtain r l2 where i: "invoke (CApplyOutlets ?ds) (oc_ApplyOutlets oc ?ds) l1 = (r, l2)" by fastforce
  have "moves (allowed cfg) l l2"
    by (rule moves_trans[OF hold_outlets_moves[OF h] moves_invoke[OF i CApplyOutlets_allowed]])
  with h i hold_outlets_moves[OF h] show ?thesis
    by (simp add: reconcile_outlets_def Let_def split: bool.split sum.split)
qed

lemma apply_outlets_moves: "moves (allowed cfg) l (apply_outlets cfg ev oc ver text l)"
proof -
  let ?ds = "desiredOutlets cfg text"
  obtain h l1 where h: "holdInitialOutletPush cfg ver ?ds l = (h, l1)" by fastforce
  obtain r l2 where i: "invoke (CApplyOutlets ?ds) (oc_ApplyOutlets oc ?ds) l1 = (r, l2)" by fastforce
  have "moves (allowed cfg) l l2"
    by (rule moves_trans[OF hold_outlets_moves[OF h] moves_invoke[OF i CApplyOutlets_allowed]])
  with h i hold_outlets_moves[OF h] show ?thesis
    by (simp add: apply_outlets_def Let_def split: bool.split sum.split)
qed

lemma storm_moves: "moves S l (note_storm ns l)"
  by (rule moves_same[OF core_life]) simp_all

lemma reconcile_ports_moves: "moves (allowed cfg) l (reconcile_ports cfg c ver text l)"
proof -
  let ?ds = "ports_intent (lc_control_ports cfg) (lc_names cfg) (parse cfg text)"
  let ?l1 = "note_storm (storm_notes (lc_control_ports cfg) (parse cfg text)) l"
  obtain ds l2 where w: "withholdFreshPorts cfg ?ds ?l1 = (ds, l2)" by fastforce
  obtain r l3 where i: "invoke (CApplyPorts ds) (ct_ApplyPorts c ds) l2 = (r, l3)" by fastforce
  have "moves (allowed cfg) l l3"
    by (rule moves_trans[OF storm_moves moves_trans[OF fresh_frame_moves[OF withholdFreshPorts_out(1)[OF w]]
          moves_invoke[OF i withheld_allowed[OF w]]]])
  with w i show ?thesis by (simp add: reconcile_ports_def desiredPorts_def Let_def split: sum.split)
qed

lemma apply_ports_moves: "moves (allowed cfg) l (apply_ports cfg ev c ver prev text l)"
proof -
  let ?ds = "ports_intent (lc_control_ports cfg) (lc_names cfg) (parse cfg text)"
  let ?l1 = "note_storm (storm_notes (lc_control_ports cfg) (parse cfg text)) l"
  obtain h l2 where h: "holdInitialPush cfg ver ?ds ?l1 = (h, l2)" by fastforce
  obtain ds l3 where w: "withholdFreshPorts cfg ?ds l2 = (ds, l3)" by fastforce
  obtain r l4 where i: "invoke (CApplyPorts ds) (ct_ApplyPorts c ds) (switch_settings cfg prev text l3) = (r, l4)"
    by fastforce
  have m2: "moves (allowed cfg) l l2" by (rule moves_trans[OF storm_moves hold_ports_moves[OF h]])
  have m4: "moves (allowed cfg) l2 l4"
    by (rule moves_trans[OF fresh_frame_moves[OF withholdFreshPorts_out(1)[OF w]]
        moves_trans[OF switch_settings_moves moves_invoke[OF i withheld_allowed[OF w]]]])
  from m2 moves_trans[OF m2 m4] h w i show ?thesis
    by (simp add: apply_ports_def desiredPorts_def split: bool.split sum.split)
qed

lemma on_system_cfg_moves: "moves (allowed cfg) l (on_system_cfg cfg l)"
  by (rule moves_mono[OF steps_moves[OF steps_on_system_cfg]]) (auto simp: allowed_def)

lemma reconcile_moves: "moves (allowed cfg) l (reconcile cfg l)"
proof (cases "Applied (lp_session l)")
  case (Some vt)
  obtain ver t where vt: "vt = (ver, t)" by fastforce
  let ?l1 = "if \<not> lp_reconciled_once l then on_system_cfg cfg l else l"
  have m1: "moves (allowed cfg) l ?l1" using on_system_cfg_moves by auto
  show ?thesis
  proof (cases "lc_controller cfg")
    case (Some c)
    then have "reconcile cfg l = reconcile_ports cfg c ver t (switch_settings cfg [] t ?l1)"
      using \<open>Applied (lp_session l) = Some vt\<close> by (simp add: reconcile_def vt Let_def split: option.split)
    then show ?thesis using m1 by (metis moves_trans switch_settings_moves reconcile_ports_moves)
  next
    case None
    show ?thesis
    proof (cases "lc_outlets cfg")
      case (Some oc)
      then have "reconcile cfg l = reconcile_outlets cfg oc ver t (power_settings cfg [] t ?l1)"
        using None \<open>Applied (lp_session l) = Some vt\<close> by (simp add: reconcile_def vt Let_def)
      then show ?thesis using m1 by (metis moves_trans power_settings_moves reconcile_outlets_moves)
    qed (use None Some power_settings_moves in \<open>simp add: reconcile_def vt\<close>)
  qed
qed (simp add: reconcile_def)

lemma warned_moves: "moves (allowed cfg) l (warned cfg ver text l)"
  by (rule moves_mono[OF steps_moves[OF steps_warned]]) (auto simp: allowed_def)

lemma applyPending_moves:
  assumes "applyPending cfg ev l = (b, l')"
  shows "moves (allowed cfg) l l'"
proof (cases "Pending (lp_session l)")
  case None
  with assms show ?thesis by (simp add: applyPending_None)
next
  case (Some vt)
  then obtain ver t where p: "Pending (lp_session l) = Some (ver, t)" by fastforce
  show ?thesis
  proof (cases "lc_controller cfg")
    case (Some c)
    from applyPending_ports[OF p Some] assms moves_trans[OF warned_moves apply_ports_moves] show ?thesis by (metis prod.inject)
  next
    case None
    show ?thesis
    proof (cases "lc_outlets cfg")
      case (Some oc)
      from applyPending_outlets[OF p None Some] assms
        moves_trans[OF warned_moves moves_trans[OF power_settings_moves apply_outlets_moves]] show ?thesis by (metis prod.inject)
    next
      case no: None
      from applyPending_none[OF p None no] assms power_settings_moves show ?thesis by auto
    qed
  qed
qed

section \<open>Queued commands and collecting\<close>

lemma moves_fold: "(\<And>x l. moves S l (f x l)) \<Longrightarrow> moves S l (fold f xs l)"
  by (induction xs arbitrary: l) (auto intro: moves_trans)

lemma cycle_outlet_moves: "moves (allowed cfg) l (cycle_outlet cfg m idx l)"
proof -
  obtain e l1 where i: "invoke_act (CCycleOutlet (own_outlet (lc_model cfg) idx)) (m (own_outlet (lc_model cfg) idx)) l = (e, l1)"
    by fastforce
  have "1 \<le> own_outlet (lc_model cfg) idx \<Longrightarrow> under_control (lc_control_outlets cfg) (own_outlet (lc_model cfg) idx)
      \<Longrightarrow> moves (allowed cfg) l l1"
    by (rule moves_invoke_act[OF i]) (simp add: allowed_def)
  then show ?thesis by (auto simp: cycle_outlet_def Let_def i)
qed

lemma cycleOutlets_moves: "moves (allowed cfg) l (cycleOutlets cfg q l)"
  by (auto simp: cycleOutlets_def intro: moves_fold cycle_outlet_moves split: option.split)

lemma cycle_port_moves: "moves (allowed cfg) l (cycle_port m i l)"
proof -
  obtain e l1 where i: "invoke_act (CCyclePort i) (m i) l = (e, l1)" by fastforce
  then show ?thesis using moves_invoke_act[OF i, of "allowed cfg"] by (simp add: cycle_port_def allowed_def)
qed

lemma run_locate_moves: "moves (allowed cfg) l (run_locate cfg loc l)"
proof (cases "deviceAs cfg fc_SetLocate")
  case (Some m)
  obtain e l1 where i: "invoke_act (CSetLocate (loc = ''on'')) (m (loc = ''on'')) l = (e, l1)" by fastforce
  have "moves (allowed cfg) l l1" by (rule moves_invoke_act[OF i]) (simp add: allowed_def)
  then show ?thesis by (auto simp: run_locate_def Some i split: option.split)
qed (simp add: run_locate_def)

lemma run_reboot_moves: "moves (allowed cfg) l (run_reboot cfg b l)"
proof (cases "deviceAs cfg fc_Reboot")
  case (Some m)
  obtain e l1 where i: "invoke_act CReboot m l = (e, l1)" by fastforce
  have "moves (allowed cfg) l l1" by (rule moves_invoke_act[OF i]) (simp add: allowed_def)
  then show ?thesis by (auto simp: run_reboot_def Some i split: option.split)
qed (simp add: run_reboot_def)

lemma cyclePorts_moves: "moves (allowed cfg) l (cyclePorts cfg l)"
proof -
  let ?l0 = "l\<lparr>lp_pending_cycles := [], lp_pending_outlet_cycles := [], lp_pending_reboot := False, lp_pending_locate := []\<rparr>"
  let ?l1 = "run_reboot cfg (lp_pending_reboot l) (cycleOutlets cfg (lp_pending_outlet_cycles l)
      (run_locate cfg (lp_pending_locate l) ?l0))"
  have "moves (allowed cfg) l ?l0" by (rule moves_same) (simp_all add: life_def)
  then have m1: "moves (allowed cfg) l ?l1"
    by (rule moves_trans[OF _ moves_trans[OF run_locate_moves moves_trans[OF cycleOutlets_moves run_reboot_moves]]])
  have mf: "moves (allowed cfg) l (fold (cycle_port m) q ?l1)" for m q
    by (rule moves_trans[OF m1 moves_fold[OF cycle_port_moves]])
  show ?thesis unfolding cyclePorts_def Let_def using m1 mf by (auto split: option.split)
qed

lemma noteChild_moves: "moves S l (noteChild p m l)"
  by (auto simp: noteChild_def Let_def life_def intro: moves_same)

lemma add_child_moves: "moves S (snd sl) (snd (add_child t c sl))"
  by (auto simp: add_child_def noteChild_moves split: prod.split option.split)

lemma withChildren_moves:
  fixes l :: "'d loop"
  assumes "withChildren cfg now snap l = (snap', l')"
  shows "moves S l l'"
proof -
  have "moves S (snd sl) (snd (fold (add_child t) cs sl))" for t cs and sl :: "snapshot \<times> 'd loop"
  proof (induction cs arbitrary: sl)
    case (Cons c cs)
    from moves_trans[OF add_child_moves Cons.IH] show ?case by simp
  qed simp
  from this[of "(snap, l)"] assms show ?thesis by (metis withChildren_def snd_conv)
qed

lemma adopted_session_ops [simp]:
  "Adopted (SetSnapshot sn s) = Adopted s" "Adopted (SetGatewayIP g s) = Adopted s"
  "Adopted (SetUplinkPort u s) = Adopted s" "Adopted (SetIP a s) = Adopted s"
  by (simp_all add: SetSnapshot_def SetGatewayIP_def SetUplinkPort_def SetIP_def Let_def)

lemma power_events_moves: "moves S l (power_events cfg now res l)"
  by (auto simp: power_events_def life_def intro: moves_same split: option.split prod.split)

lemma warnOOB_moves: "moves S l (warnOOB snap l)"
  by (auto simp: warnOOB_def Let_def life_def intro: moves_same)

lemma note_faults_moves: "moves S l (note_faults snap l)"
  by (auto simp: note_faults_def Let_def life_def intro: moves_same)

lemma note_layout_moves: "moves (allowed cfg) l (note_layout cfg snap l)"
proof -
  have u: "moves S l (l'\<lparr>lp_layout_by_port := b\<rparr>) = moves S l l'" for S and l l' :: "'d loop" and b
    by (simp add: moves_def called_def life_def)
  have v: "moves S l (l\<lparr>lp_layout_sig := a, lp_fresh_ports := b\<rparr>)" "moves S l (l\<lparr>lp_layout_sig := a\<rparr>)"
    for S and l :: "'d loop" and a b by (rule moves_same; simp add: life_def)+
  have w: "moves (allowed cfg) l (note_call COnLayoutChange (say x (l\<lparr>lp_layout_sig := a, lp_fresh_ports := b\<rparr>)))" for x a b
  proof -
    have c: "COnLayoutChange \<in> allowed cfg" by (simp add: allowed_def)
    have "moves (allowed cfg) l (say x (l\<lparr>lp_layout_sig := a, lp_fresh_ports := b\<rparr>))" by (simp add: v)
    then show ?thesis by (rule moves_trans) (rule moves_note_call[OF c])
  qed
  show ?thesis unfolding note_layout_def Let_def by (simp add: u v w)
qed

lemma follow_address_moves: "moves S l (follow_address cfg l)"
  by (auto simp: follow_address_def Let_def setDeviceIP_def life_def intro: moves_same split: option.split)

lemma follow_uplink_moves: "moves S l (follow_uplink snap l)"
  by (auto simp: follow_uplink_def Let_def life_def intro: moves_same)

lemma collected_moves: "moves (allowed cfg) l (collected cfg ev snap l)"
proof -
  let ?l1 = "if 0 < lp_collect_failures l then say (LC (LCollectRecovered (lp_collect_failures l)))
       (l\<lparr>lp_collect_failures := 0, lp_stale_silenced := False\<rparr>) else l"
  obtain sn l2 where w: "withChildren cfg (ev_now ev) (with_gateway_mac (lc_gateway_ip cfg) snap) ?l1 = (sn, l2)"
    by fastforce
  let ?l3 = "l2\<lparr>lp_session := SetSnapshot (Some sn) (SetGatewayIP (lc_gateway_ip cfg) (lp_session l2))\<rparr>"
  have "moves (allowed cfg) l ?l1" by (auto simp: life_def intro: moves_same)
  moreover have "moves (allowed cfg) l2 ?l3" by (rule moves_same) (simp_all add: life_def)
  ultimately have m: "moves (allowed cfg) l ?l3" by (rule moves_trans[OF moves_trans[OF _ withChildren_moves[OF w]]])
  have "moves (allowed cfg) l (note_layout cfg sn (note_faults sn (warnOOB sn (follow_uplink sn (follow_address cfg ?l3)))))"
    by (rule moves_trans[OF m moves_trans[OF follow_address_moves moves_trans[OF follow_uplink_moves
          moves_trans[OF warnOOB_moves moves_trans[OF note_faults_moves note_layout_moves]]]]])
  then show ?thesis unfolding collected_def Let_def w by simp
qed

lemma collect_failed_moves: "moves S l (collect_failed e l)"
  by (auto simp: collect_failed_def Let_def life_def intro: moves_same)

lemma collect_moves: "moves (allowed cfg) l (collect cfg ev l)"
proof (cases "lc_collector cfg")
  case (Some c)
  obtain r l1 where i: "invoke CCollect (co_Collect c) l = (r, l1)" by fastforce
  have "moves (allowed cfg) l l1" by (rule moves_invoke[OF i]) (simp add: allowed_def)
  then have "moves (allowed cfg) l (power_events cfg (ev_now ev) r l1)" by (rule moves_trans[OF _ power_events_moves])
  then show ?thesis unfolding collect_def Some option.case i prod.case Let_def
    by (auto split: sum.split intro: moves_trans[OF _ collect_failed_moves] moves_trans[OF _ collected_moves])
qed (simp add: collect_def)

lemma stale_moves: "stale cfg l = (b, l') \<Longrightarrow> moves S l l'"
  by (auto simp: stale_def life_def intro: moves_same split: if_splits)

section \<open>A reply\<close>

lemma record_reply_moves: "moves S l (record_reply ev r l)"
  by (auto simp: record_reply_def life_def intro: moves_same split: option.split prod.split)

lemma noteStatus_moves: "moves S l (noteStatus st l)"
  by (auto simp: noteStatus_def life_def intro: moves_same)

lemma unanswered_moves: "moves (allowed cfg) l (unanswered cfg ev l)"
  by (auto simp: unanswered_def intro: reconcile_moves)

lemma handle_effect_calls [simp]: "lp_calls (handle_effect cfg e l) = lp_calls l"
  "lp_session (handle_effect cfg e l) = lp_session l"
  by (auto simp: handle_effect_def split: effect_kind.split option.split)

lemma fold_effects_calls [simp]: "lp_calls (fold (handle_effect cfg) es l) = lp_calls l"
  "lp_session (fold (handle_effect cfg) es l) = lp_session l"
  by (induction es arbitrary: l) auto

text \<open>What a decoded reply does to the life of the loop, and the rest of the cycle after it.\<close>

definition after_effects :: "'d loop_config \<Rightarrow> env \<Rightarrow> reply \<Rightarrow> 'd loop \<Rightarrow> 'd loop" where
  "after_effects cfg ev body l =
     (case Apply (lc_default_key cfg) (ev_save ev) (ev_reply_now ev) body (lp_session l) of (s, effs) \<Rightarrow>
        snd (complete_handshake (lp_state l = StateAdopting) (fold (handle_effect cfg) effs (l\<lparr>lp_session := s\<rparr>))))"

lemma after_effects_calls: "lp_calls (after_effects cfg ev body l) = lp_calls l"
  by (auto simp: after_effects_def complete_handshake_def split: prod.split)

lemma handle_reply_moves: "moves (allowed cfg) (after_effects cfg ev body l) (handle_reply cfg ev rec body l)"
proof -
  obtain s effs where a: "Apply (lc_default_key cfg) (ev_save ev) (ev_reply_now ev) body (lp_session l) = (s, effs)"
    by fastforce
  let ?l1 = "fold (handle_effect cfg) effs (l\<lparr>lp_session := s\<rparr>)"
  obtain cn l2 where c: "complete_handshake (lp_state l = StateAdopting) ?l1 = (cn, l2)" by fastforce
  define l3 where "l3 = record_reply ev (rec\<lparr>re_effects := map effect_record_of effs,
      re_state_after := state_string (lp_state l2)\<rparr>) l2"
  define l4 where "l4 = (if cn \<and> lc_on_connected cfg then note_call COnConnected l3 else l3)"
  obtain b l6 where p: "applyPending cfg ev (cyclePorts cfg l4) = (b, l6)" by fastforce
  have oc: "COnConnected \<in> allowed cfg" by (simp add: allowed_def)
  have m3: "moves (allowed cfg) l2 l3" unfolding l3_def by (rule record_reply_moves)
  have m4: "moves (allowed cfg) l3 l4" unfolding l4_def by (auto intro: moves_note_call[OF oc])
  have m6: "moves (allowed cfg) l2 l6"
    by (rule moves_trans[OF m3 moves_trans[OF m4 moves_trans[OF cyclePorts_moves applyPending_moves[OF p]]]])
  have "handle_reply cfg ev rec body l = (if b then l6 else reconcile cfg l6)"
    unfolding handle_reply_def a prod.case Let_def c l3_def[symmetric] l4_def[symmetric] p by simp
  moreover have "after_effects cfg ev body l = l2" by (simp add: after_effects_def a c)
  ultimately show ?thesis using m6 moves_trans[OF m6 reconcile_moves] by simp
qed

definition answered :: "env \<Rightarrow> reply \<Rightarrow> bool" where
  "answered ev body \<longleftrightarrow> (\<exists>raw payload valid. ev_http ev = Answer 200 raw (Inr (payload, valid, body)) \<and> raw \<noteq> [])"

text \<open>A cycle either meets no decoded reply and only moves, or answers one in the middle.\<close>

lemma inform_exchange_moves:
  shows "moves (allowed cfg) l (inform_exchange cfg ev l) \<or>
    (\<exists>l1 body. answered ev body \<and> moves (allowed cfg) l l1 \<and> moves (allowed cfg) (after_effects cfg ev body l1) (inform_exchange cfg ev l))"
proof (cases "ev_http ev")
  case (Answer status raw decoded)
  let ?l1 = "noteStatus status (note_call CInform l)"
  have ci: "CInform \<in> allowed cfg" by (simp add: allowed_def)
  have m1: "moves (allowed cfg) l ?l1" by (rule moves_trans[OF moves_note_call[OF ci] noteStatus_moves])
  have un: "moves (allowed cfg) l (unanswered cfg ev (record_reply ev r (say x ?l1)))"
    "moves (allowed cfg) l (unanswered cfg ev (record_reply ev r ?l1))" for r x
    using m1 by (auto intro!: moves_trans[OF _ unanswered_moves] moves_trans[OF _ record_reply_moves])
  show ?thesis
  proof (cases "status = 200 \<and> raw \<noteq> []")
    case False
    then show ?thesis unfolding inform_exchange_def Answer Let_def using un by auto
  next
    case True
    show ?thesis
    proof (cases decoded)
      case (Inl e)
      with True show ?thesis unfolding inform_exchange_def Answer Let_def using un by auto
    next
      case (Inr pvb)
      obtain payload valid body where pvb: "pvb = (payload, valid, body)" by (cases pvb)
      have "\<exists>rec. inform_exchange cfg ev l = handle_reply cfg ev rec body ?l1"
        using True Inr by (auto simp: inform_exchange_def Answer Let_def pvb)
      moreover have "answered ev body" using True Inr Answer pvb by (auto simp: answered_def)
      ultimately show ?thesis using m1 handle_reply_moves by metis
    qed
  qed
next
  case (PostFailed e)
  have ci: "CInform \<in> allowed cfg" by (simp add: allowed_def)
  from moves_note_call[OF ci, of l] PostFailed show ?thesis
    by (auto simp: inform_exchange_def Let_def
        intro!: moves_trans[OF _ unanswered_moves] moves_trans[OF _ record_reply_moves])
next
  case (ReadFailed e)
  have ci: "CInform \<in> allowed cfg" by (simp add: allowed_def)
  from moves_note_call[OF ci, of l] ReadFailed show ?thesis
    by (auto simp: inform_exchange_def Let_def intro!: moves_trans[OF _ unanswered_moves])
qed (auto simp: inform_exchange_def Let_def intro!: moves_trans[OF _ unanswered_moves])

lemma informOnce_moves:
  "moves (allowed cfg) l (informOnce cfg ev l) \<or>
    (\<exists>l1 body. answered ev body \<and> moves (allowed cfg) l l1 \<and> moves (allowed cfg) (after_effects cfg ev body l1) (informOnce cfg ev l))"
proof -
  obtain b l1 where s: "stale cfg (collect cfg ev l) = (b, l1)" by fastforce
  have m: "moves (allowed cfg) l l1" by (rule moves_trans[OF collect_moves stale_moves[OF s]])
  show ?thesis
  proof (cases b)
    case True
    with s m show ?thesis by (simp add: informOnce_def)
  next
    case False
    then have "informOnce cfg ev l = inform_exchange cfg ev l1" using s by (simp add: informOnce_def)
    then show ?thesis using inform_exchange_moves[of cfg l1 ev] m by (metis moves_trans)
  qed
qed

lemma informOnce_called: "called (allowed cfg) l (informOnce cfg ev l)"
  using informOnce_moves[of cfg l ev] after_effects_calls[of cfg ev]
  by (metis called_same called_trans moves_def)

section \<open>Runs\<close>

definition calls_within :: "call set \<Rightarrow> 'd loop \<Rightarrow> bool" where
  "calls_within S l \<longleftrightarrow> fst ` set (lp_calls l) \<subseteq> S"

lemma calls_within_called: "calls_within S l \<Longrightarrow> called S l l' \<Longrightarrow> calls_within S l'"
  unfolding calls_within_def called_def by (metis image_Un le_sup_iff set_append)

lemma run_cycles_inv:
  assumes "\<And>ev l. I l \<Longrightarrow> I (informOnce cfg ev l)" and "I l"
  shows "I (run_cycles cfg evs l)"
  using assms(2) by (induction evs arbitrary: l) (auto intro: assms(1))

lemma normal_config_sel [simp]:
  "lc_control_ports (normal_config cfg) = lc_control_ports cfg" "lc_control_outlets (normal_config cfg) = lc_control_outlets cfg"
  "lc_interval (normal_config cfg) = (if lc_interval cfg \<le> 0 then 10000000000 else lc_interval cfg)"
  by (simp_all add: normal_config_def Let_def)

lemma blank_loop_sel [simp]:
  "lp_calls (blank_loop dev sess host i rc) = []" "lp_session (blank_loop dev sess host i rc) = sess"
  "life (blank_loop dev sess host i rc) = (StatePending, i, Adopted sess)"
  "life ((blank_loop dev sess host i rc)\<lparr>lp_state := s\<rparr>) = (s, i, Adopted sess)"
  by (simp_all add: blank_loop_def life_def)

lemma life_start [simp]:
  "Adopted s = Adopted (lp_session l) \<Longrightarrow> life (l\<lparr>lp_session := s\<rparr>) = life l"
  "life (l\<lparr>lp_driver_addr := a\<rparr>) = life l" "life (l\<lparr>lp_power := c\<rparr>) = life l"
  by (simp_all add: life_def)

lemma withChildren_life [simp]:
  "life (snd (withChildren cfg now snap l)) = life l" "lp_calls (snd (withChildren cfg now snap l)) = lp_calls l"
  using withChildren_moves[of cfg now snap l "fst (withChildren cfg now snap l)" "snd (withChildren cfg now snap l)" "{}"]
  by (auto simp: moves_def called_def)

lemma NewLoop_life:
  "lp_calls (NewLoop cfg now host rc sess dev) = []"
  "life (NewLoop cfg now host rc sess dev) = (if Adopted sess then StateConnected else StatePending,
     if lc_interval cfg \<le> 0 then 10000000000 else lc_interval cfg, Adopted sess)"
  by (simp_all add: NewLoop_def Let_def split_beta split: option.split list.split prod.split)

text \<open>
  C21. The operator's restriction holds on every path: in any run of the loop, from its start,
  whatever the controller replies and the driver answers, every port of every ApplyPorts call is
  under port control, every outlet of every ApplyOutlets call and every power-cycled outlet is an
  outlet of the device (1 or above) under outlet control.
\<close>

theorem writes_stay_under_control:
  "calls_within (allowed cfg) (RunLoop (normal_config cfg) evs (NewLoop cfg now host rc sess dev))"
proof -
  let ?cfg = "normal_config cfg"
  have a: "allowed ?cfg = allowed cfg" unfolding allowed_def normal_config_sel ..
  have "calls_within (allowed ?cfg) (NewLoop cfg now host rc sess dev)"
    by (simp add: calls_within_def NewLoop_life)
  then have "calls_within (allowed ?cfg) (reconcile ?cfg (NewLoop cfg now host rc sess dev))"
    using reconcile_moves[of ?cfg] by (auto simp: moves_def elim: calls_within_called)
  then have "calls_within (allowed ?cfg) (RunLoop ?cfg evs (NewLoop cfg now host rc sess dev))" unfolding RunLoop_def
    by (rule run_cycles_inv[rotated]) (rule calls_within_called[OF _ informOnce_called])
  then show ?thesis by (simp add: a)
qed

text \<open>
  A queued port-cycle command is not restricted: a port-cycle reaches the driver for any
  index, also one outside the ports under control (ControlPorts).
\<close>

theorem port_cycle_ignores_control:
  assumes "lc_controller cfg = Some c" and "fc_CyclePort (ct_face c) = Some m" and "lp_pending_cycles l = [i]"
  shows "\<exists>ok. last (lp_calls (cyclePorts cfg l)) = (CCyclePort i, ok)"
proof -
  have "\<exists>l1. cyclePorts cfg l = cycle_port m i l1"
    using assms by (simp add: cyclePorts_def Let_def) blast
  then obtain l1 where l1: "cyclePorts cfg l = cycle_port m i l1" by blast
  show ?thesis by (auto simp: l1 cycle_port_def invoke_act_def split: prod.split)
qed

lemma port_cycle_ignores_control_witness:
  "\<not> under_control (lc_control_ports (demo_config\<lparr>lc_control_ports := Some [1]\<rparr>)) 2
   \<and> (\<exists>ok. last (lp_calls (cyclePorts (demo_config\<lparr>lc_control_ports := Some [1]\<rparr>)
        (demo_loop\<lparr>lp_pending_cycles := [2]\<rparr>))) = (CCyclePort 2, ok))"
proof -
  have h: "lc_controller (demo_config\<lparr>lc_control_ports := Some [1]\<rparr>) = Some demo_controller"
    "fc_CyclePort (ct_face demo_controller) = Some (\<lambda>i dev. (None, AList.update i False dev))"
    "lp_pending_cycles (demo_loop\<lparr>lp_pending_cycles := [2]\<rparr>) = [2]"
    by (simp_all add: demo_controller_def demo_face_def)
  from port_cycle_ignores_control[OF h] show ?thesis by (simp add: under_control_def)
qed

section \<open>Adoption\<close>

fun eff_state :: "effect_kind \<Rightarrow> lstate \<Rightarrow> lstate" where
  "eff_state EffectAdoptingViaSetAdopt _ = StateAdopting"
| "eff_state EffectAdoptingViaMgmtCfg _ = StateAdopting"
| "eff_state EffectFactoryReset _ = StatePending"
| "eff_state _ s = s"

definition effs_state :: "effect list \<Rightarrow> lstate \<Rightarrow> lstate" where
  "effs_state es s = fold (\<lambda>e. eff_state (e_kind e)) es s"

lemma effs_state_simps [simp]: "effs_state [] s = s" "effs_state (e # es) s = effs_state es (eff_state (e_kind e) s)"
  "effs_state (es @ fs) s = effs_state fs (effs_state es s)"
  by (simp_all add: effs_state_def)

lemma handle_effect_state: "lp_state (handle_effect cfg e l) = eff_state (e_kind e) (lp_state l)"
  by (cases "e_kind e") (auto simp: handle_effect_def split: option.split)

lemma handle_effect_interval: "0 < lp_interval l \<Longrightarrow> 0 < lp_interval (handle_effect cfg e l)"
  by (cases "e_kind e") (auto simp: handle_effect_def split: option.split)

lemma fold_effects_life:
  "lp_state (fold (handle_effect cfg) es l) = effs_state es (lp_state l)"
  "0 < lp_interval l \<Longrightarrow> 0 < lp_interval (fold (handle_effect cfg) es l)"
  by (induction es arbitrary: l) (simp_all add: handle_effect_state handle_effect_interval)

lemma effs_state_decode_errors:
  "list_all (\<lambda>e. e_kind e = EffectDecodeError) es \<Longrightarrow> effs_state es s = s"
  by (induction es) auto

lemma eff_kind [simp]: "e_kind (eff k t) = k"
  by (simp add: eff_def)

text \<open>The effects of a reply say exactly what became of the adoption.\<close>

definition adoption_of :: "session \<Rightarrow> session \<Rightarrow> lstate \<Rightarrow> lstate \<Rightarrow> bool" where
  "adoption_of s s' st st' \<longleftrightarrow> (st' = st \<and> Adopted s' = Adopted s) \<or> (st' = StateAdopting \<and> Adopted s')
     \<or> (st' = StatePending \<and> \<not> Adopted s')"

lemma applyCmd_adoption: "applyCmd dk now r s = (s', es) \<Longrightarrow> adoption_of s s' st (effs_state es st)"
  by (auto simp: applyCmd_def Let_def adoption_of_def split: if_splits)

lemma applySetparam_adoption: "applySetparam dk r s = (s', es) \<Longrightarrow> adoption_of s s' st (effs_state es st)"
  by (auto simp: applySetparam_def Let_def adoption_of_def split: if_splits option.splits)

lemma applySetstate_adoption: "applySetstate raw v s = (s', es) \<Longrightarrow> adoption_of s s' st (effs_state es st)"
  by (auto simp: applySetstate_def Let_def adoption_of_def split: if_splits sum.splits)

lemma dispatch_adoption: "dispatch dk now r raw s = (s', es) \<Longrightarrow> adoption_of s s' st (effs_state es st)"
  by (auto simp: dispatch_def applyCmd_adoption applySetparam_adoption applySetstate_adoption split: if_splits)
    (auto simp: adoption_of_def)

lemma Apply_adoption:
  assumes "Apply dk save now body s = (s', es)"
  shows "adoption_of s s' st (effs_state es st)"
proof (cases body)
  case (BadReply e)
  with assms show ?thesis by (auto simp: Apply_def adoption_of_def)
next
  case (Reply r raw)
  obtain s1 es1 extra where d: "dispatch dk now r raw s = (s1, es1)" and st: "ss_st s' = ss_st s1"
    and es: "es = es1 @ extra" "list_all (\<lambda>e. e_kind e = EffectDecodeError) extra"
    using assms[unfolded Reply] by (rule Apply_dispatch)
  from dispatch_adoption[OF d, of st] show ?thesis
    by (simp add: adoption_of_def st es effs_state_decode_errors)
qed

definition adopt_inv :: "'d loop \<Rightarrow> bool" where
  "adopt_inv l \<longleftrightarrow> (lp_state l = StatePending \<longleftrightarrow> \<not> Adopted (lp_session l)) \<and> 0 < lp_interval l"

lemma adopt_inv_life: "life l' = life l \<Longrightarrow> adopt_inv l' = adopt_inv l"
  by (simp add: adopt_inv_def life_def)

lemma after_effects_life:
  assumes "after_effects cfg ev body l = l'"
  shows "adopt_inv l \<Longrightarrow> adopt_inv l'"
    and "lp_state l' = StateConnected \<Longrightarrow> lp_state l = StateConnected \<or> lp_state l = StateAdopting"
proof -
  obtain s effs where a: "Apply (lc_default_key cfg) (ev_save ev) (ev_reply_now ev) body (lp_session l) = (s, effs)"
    by fastforce
  let ?l1 = "fold (handle_effect cfg) effs (l\<lparr>lp_session := s\<rparr>)"
  have l': "l' = snd (complete_handshake (lp_state l = StateAdopting) ?l1)" using assms by (simp add: after_effects_def a)
  have st: "lp_state ?l1 = effs_state effs (lp_state l)" "lp_session ?l1 = s" by (simp_all add: fold_effects_life)
  have iv: "0 < lp_interval l \<Longrightarrow> 0 < lp_interval ?l1" by (rule fold_effects_life) simp
  note ad = Apply_adoption[OF a, of "lp_state l"]
  show "adopt_inv l \<Longrightarrow> adopt_inv l'"
    using st iv ad by (auto simp: adopt_inv_def l' complete_handshake_def adoption_of_def)
  show "lp_state l' = StateConnected \<Longrightarrow> lp_state l = StateConnected \<or> lp_state l = StateAdopting"
    using st ad by (auto simp: l' complete_handshake_def adoption_of_def split: if_splits)
qed

lemma informOnce_adopt_inv: "adopt_inv l \<Longrightarrow> adopt_inv (informOnce cfg ev l)"
  using informOnce_moves[of cfg l ev] after_effects_life(1)[OF refl]
  by (metis adopt_inv_life moves_def)

text \<open>
  In any run of the loop, from its start, the adoption state shown is the session's: PENDING
  exactly while the device is not adopted. The inform interval stays positive whatever interval
  the controller sends (also one that overflows), so the loop never spins.
\<close>

theorem adoption_state_follows_session:
  "adopt_inv (RunLoop (normal_config cfg) evs (NewLoop cfg now host rc sess dev))"
proof -
  have "adopt_inv (NewLoop cfg now host rc sess dev)"
    using NewLoop_life(2)[of cfg now host rc sess dev] by (auto simp: adopt_inv_def life_def)
  then have "adopt_inv (reconcile (normal_config cfg) (NewLoop cfg now host rc sess dev))"
    by (metis moves_def adopt_inv_life reconcile_moves)
  then show ?thesis unfolding RunLoop_def
    by (rule run_cycles_inv[rotated]) (rule informOnce_adopt_inv)
qed

text \<open>
  CONNECTED is only reached through the handshake: a cycle that ends CONNECTED without having
  started so started ADOPTING, and the controller answered its inform with a decodable reply.
\<close>

theorem connected_only_after_handshake:
  assumes "lp_state (informOnce cfg ev l) = StateConnected" and "lp_state l \<noteq> StateConnected"
  shows "lp_state l = StateAdopting \<and> (\<exists>body. answered ev body)"
proof -
  have "life (informOnce cfg ev l) \<noteq> life l" using assms by (auto simp: life_def)
  with informOnce_moves[of cfg l ev] obtain l1 body where
    b: "answered ev body" "life l1 = life l" "life (informOnce cfg ev l) = life (after_effects cfg ev body l1)"
    by (auto simp: moves_def)
  from b(3) assms(1) have "lp_state (after_effects cfg ev body l1) = StateConnected" by (simp add: life_def)
  from after_effects_life(2)[OF refl this] b(1,2) assms(2) show ?thesis by (auto simp: life_def)
qed

definition noop_reply :: inform_response where
  "noop_reply = demo_reply\<lparr>ir_type := ''noop'', ir_interval := 10\<rparr>"

definition noop_env :: env where
  "noop_env = demo_env\<lparr>ev_http := Answer 200 ''x'' (Inr (''{}'', True, Reply noop_reply (Inr [])))\<rparr>"

definition adopting_loop :: "unit loop" where
  "adopting_loop = (NewLoop base_config 0 [] None
     (demo_session\<lparr>ss_st := demo_state\<lparr>st_adopted := True\<rparr>\<rparr>) ())\<lparr>lp_state := StateAdopting\<rparr>"

lemma connected_only_after_handshake_witness:
  "lp_state (informOnce base_config noop_env adopting_loop) = StateConnected
   \<and> lp_state adopting_loop = StateAdopting \<and> (\<exists>body. answered noop_env body)"
proof -
  have h: "lp_state (informOnce base_config noop_env adopting_loop) = StateConnected"
    "lp_state adopting_loop \<noteq> StateConnected" by code_simp+
  from connected_only_after_handshake[OF h] h show ?thesis by blast
qed

end
