(* ===== verification/Loop_Live.thy ===== *)
theory Loop_Live
  imports Loop_Runs
begin

text \<open>
  What a cycle does for the device: reconciling when the controller does not answer, silence when
  the device does not answer, ports that are new to the controller, and the device's address.
\<close>

section \<open>Collecting keeps the pushes\<close>

definition pushes :: "'d loop \<Rightarrow> (string \<times> string) option \<times> (string \<times> string) option" where
  "pushes l = (Pending (lp_session l), Applied (lp_session l))"

lemma pushes_say [simp]: "pushes (say x l) = pushes l" "pushes (say_all xs l) = pushes l" "pushes (note_call c l) = pushes l"
  by (simp_all add: pushes_def)

lemma pushes_session_ops [simp]:
  "Pending (SetSnapshot sn s) = Pending s" "Applied (SetSnapshot sn s) = Applied s"
  "Pending (SetGatewayIP g s) = Pending s" "Applied (SetGatewayIP g s) = Applied s"
  "Pending (SetUplinkPort u s) = Pending s" "Applied (SetUplinkPort u s) = Applied s"
  "Pending (SetIP a s) = Pending s" "Applied (SetIP a s) = Applied s"
  by (simp_all add: Pending_def Applied_def SetSnapshot_def SetGatewayIP_def SetUplinkPort_def SetIP_def Let_def)

lemma pushes_invoke: "invoke c f l = (r, l') \<Longrightarrow> pushes l' = pushes l"
  by (auto simp: invoke_def pushes_def split: prod.splits)

lemma pushes_record_reply [simp]: "pushes (record_reply ev r l) = pushes l"
  by (auto simp: record_reply_def pushes_def split: option.split prod.split)

lemma pushes_noteStatus [simp]: "pushes (noteStatus st l) = pushes l"
  by (auto simp: noteStatus_def pushes_def)

lemma withChildren_session: "lp_session (snd (withChildren cfg now snap l)) = lp_session l"
proof -
  have n: "lp_session (noteChild p m l) = lp_session l" for p m and l :: "'d loop"
    by (simp add: noteChild_def Let_def)
  have a: "lp_session (snd (add_child t c sl)) = lp_session (snd sl)" for t c and sl :: "snapshot \<times> 'd loop"
    by (simp add: add_child_def n split: prod.split option.split)
  have "lp_session (snd (fold (add_child t) cs sl)) = lp_session (snd sl)" for t cs and sl :: "snapshot \<times> 'd loop"
    by (induction cs arbitrary: sl) (simp_all add: a)
  from this[of _ _ "(snap, l)"] show ?thesis by (simp add: withChildren_def)
qed

lemma pushes_notes [simp]:
  "pushes (warnOOB snap l) = pushes l" "pushes (note_faults snap l) = pushes l" "pushes (note_layout cfg snap l) = pushes l"
  "pushes (follow_uplink snap l) = pushes l" "pushes (follow_address cfg l) = pushes l"
  "pushes (power_events cfg now res l) = pushes l" "pushes (collect_failed e l) = pushes l"
  by (simp_all add: pushes_def warnOOB_def note_faults_def note_layout_def follow_uplink_def follow_address_def
      power_events_def collect_failed_def setDeviceIP_def Let_def split: option.split prod.split)

lemma pushes_collected [simp]: "pushes (collected cfg ev snap l) = pushes l"
proof -
  let ?l1 = "if 0 < lp_collect_failures l then say (LC (LCollectRecovered (lp_collect_failures l)))
       (l\<lparr>lp_collect_failures := 0, lp_stale_silenced := False\<rparr>) else l"
  obtain sn l2 where w: "withChildren cfg (ev_now ev) (with_gateway_mac (lc_gateway_ip cfg) snap) ?l1 = (sn, l2)"
    by fastforce
  have "lp_session l2 = lp_session ?l1" using withChildren_session[of cfg "ev_now ev" _ ?l1] w by (metis snd_conv)
  also have "\<dots> = lp_session l" by simp
  finally have "lp_session l2 = lp_session l" .
  then show ?thesis unfolding collected_def Let_def w by simp (simp add: pushes_def)
qed

lemma pushes_collect [simp]: "pushes (collect cfg ev l) = pushes l"
proof (cases "lc_collector cfg")
  case (Some c)
  obtain r l1 where i: "invoke CCollect (co_Collect c) l = (r, l1)" by fastforce
  from pushes_invoke[OF i] show ?thesis by (simp add: collect_def Some i Let_def split: sum.split)
qed (simp add: collect_def)

lemma pushes_stale: "stale cfg l = (b, l') \<Longrightarrow> pushes l' = pushes l"
  by (auto simp: stale_def pushes_def split: if_splits)

section \<open>Reconciling\<close>

lemma reconcile_ports_last:
  assumes "planner cfg = Some plan" and "\<not> lc_allow_initial cfg"
  shows "\<exists>ok. last (lp_calls (reconcile_ports cfg c ver text l)) =
    (CApplyPorts (filter (\<lambda>d. mlookup (lp_fresh_ports l) (pd_index d) = None
        \<or> pd_index d \<notin> set (plan (withoutMTU (pushed_ports cfg text)) (lp_dev l))) (pushed_ports cfg text)), ok)"
proof -
  let ?l1 = "note_storm (storm_notes (lc_control_ports cfg) (parse cfg text)) l"
  obtain ds l2 where w: "withholdFreshPorts cfg (pushed_ports cfg text) ?l1 = (ds, l2)" by fastforce
  obtain r l3 where i: "invoke (CApplyPorts ds) (ct_ApplyPorts c ds) l2 = (r, l3)" by fastforce
  have "lp_fresh_ports ?l1 = lp_fresh_ports l" using note_storm_frame(1)[of _ l] by (simp add: core_def)
  with withholdFreshPorts_out(3)[OF w assms(2,1)]
  have ds: "ds = filter (\<lambda>d. mlookup (lp_fresh_ports l) (pd_index d) = None
        \<or> pd_index d \<notin> set (plan (withoutMTU (pushed_ports cfg text)) (lp_dev l))) (pushed_ports cfg text)" by simp
  have "lp_calls (reconcile_ports cfg c ver text l) = lp_calls l3"
    using w i by (simp add: reconcile_ports_def desiredPorts_def pushed_ports_def[symmetric] Let_def split: sum.split)
  with invoke_calls[OF i] show ?thesis by (simp add: ds)
qed

lemma reconcile_ports_last_any: "\<exists>ds ok. last (lp_calls (reconcile_ports cfg c ver text l)) = (CApplyPorts ds, ok)
    \<and> set ds \<subseteq> set (pushed_ports cfg text)"
proof -
  let ?l1 = "note_storm (storm_notes (lc_control_ports cfg) (parse cfg text)) l"
  obtain ds l2 where w: "withholdFreshPorts cfg (pushed_ports cfg text) ?l1 = (ds, l2)" by fastforce
  obtain r l3 where i: "invoke (CApplyPorts ds) (ct_ApplyPorts c ds) l2 = (r, l3)" by fastforce
  have "lp_calls (reconcile_ports cfg c ver text l) = lp_calls l3"
    using w i by (simp add: reconcile_ports_def desiredPorts_def pushed_ports_def[symmetric] Let_def split: sum.split)
  with invoke_calls[OF i] withholdFreshPorts_out(2)[OF w] show ?thesis by simp
qed

lemma reconcile_controller:
  assumes "Applied (lp_session l) = Some (ver, text)" and "lc_controller cfg = Some c"
  shows "\<exists>l1. steps (push_calls cfg [] text) l l1 \<and> reconcile cfg l = reconcile_ports cfg c ver text l1"
proof -
  let ?l0 = "if \<not> lp_reconciled_once l then on_system_cfg cfg l else l"
  have "reconcile cfg l = reconcile_ports cfg c ver text (switch_settings cfg [] text ?l0)"
    using assms by (simp add: reconcile_def Let_def split: option.split)
  moreover have "steps (push_calls cfg [] text) l ?l0"
    by (auto simp: push_calls_def intro: steps_mono[OF steps_on_system_cfg])
  moreover have "steps (push_calls cfg [] text) ?l0 (switch_settings cfg [] text ?l0)"
    by (rule steps_mono[OF steps_switch_settings]) (auto simp: push_calls_def)
  ultimately show ?thesis by (metis steps_trans)
qed


definition followed_loop :: "demo_dev loop" where
  "followed_loop = NewLoop demo_config 0 [] None (demo_session\<lparr>ss_st := demo_state\<lparr>st_adopted := True,
     st_cfgversion := ''v7'', st_system_cfg := demo_push\<rparr>\<rparr>) [(1, True), (2, True)]"

lemma followed_loop_facts:
  "Applied (lp_session followed_loop) = Some (''v7'', demo_push)" "lp_fresh_ports followed_loop = []"
  "lp_collect_failures followed_loop = 0" "lp_dev followed_loop = [(1, True), (2, True)]"
  by code_simp+




section \<open>A device that does not answer\<close>

text \<open>
  A device that stopped answering is not reported: once the collect failures in a row reach
  the limit, a failing cycle sends no inform and writes nothing at all; its only call is the
  collect. Nothing of the session changes.
\<close>

theorem stale_device_is_silent:
  assumes "lc_collector cfg = Some c" and "co_Collect c (lp_dev l) = (Inl e, dev')"
    and "0 \<le> stale_limit cfg" and "stale_limit cfg \<le> lp_collect_failures l + 1"
  shows "lp_calls (informOnce cfg ev l) = lp_calls l @ [(CCollect, False)]
    \<and> lp_session (informOnce cfg ev l) = lp_session l
    \<and> lp_collect_failures (informOnce cfg ev l) = lp_collect_failures l + 1"
proof -
  let ?l1 = "l\<lparr>lp_dev := dev', lp_calls := lp_calls l @ [(CCollect, False)]\<rparr>"
  define l2 where "l2 = collect_failed e (power_events cfg (ev_now ev) (Inl e) ?l1)"
  have c: "collect cfg ev l = l2" using assms(1,2) by (simp add: collect_def invoke_def l2_def)
  have pe: "lp_calls (power_events cfg n r x) = lp_calls x" "lp_session (power_events cfg n r x) = lp_session x"
    "lp_collect_failures (power_events cfg n r x) = lp_collect_failures x" for n r and x :: "'a loop"
    by (simp_all add: power_events_def say_all_def split: option.split prod.split)
  have l2: "lp_calls l2 = lp_calls l @ [(CCollect, False)]" "lp_session l2 = lp_session l"
    "lp_collect_failures l2 = lp_collect_failures l + 1"
    by (simp_all add: l2_def collect_failed_def Let_def pe)
  have "stale cfg l2 = (True, if lp_stale_silenced l2 then l2
      else say (LC (LStale (lp_collect_failures l2))) (l2\<lparr>lp_stale_silenced := True\<rparr>))"
    using assms(3,4) l2(3) by (simp add: stale_def)
  then show ?thesis using l2 by (simp add: informOnce_def c)
qed

definition deaf_config :: "unit loop_config" where
  "deaf_config = base_config\<lparr>lc_collector := Some \<lparr>co_face = no_face, co_Collect = (\<lambda>_. (Inl ''timeout'', ()))\<rparr>\<rparr>"

lemma stale_device_is_silent_witness:
  "stale_limit deaf_config = 5
   \<and> lp_calls (informOnce deaf_config noop_env (adopting_loop\<lparr>lp_collect_failures := 4\<rparr>)) =
       lp_calls (adopting_loop\<lparr>lp_collect_failures := 4\<rparr>) @ [(CCollect, False)]"
proof -
  let ?c = "\<lparr>co_face = no_face, co_Collect = (\<lambda>_. (Inl ''timeout'', ()))\<rparr> :: unit collector"
  have s: "stale_limit deaf_config = 5" by (simp add: stale_limit_def deaf_config_def base_config_def)
  have h: "lc_collector deaf_config = Some ?c" by (simp add: deaf_config_def)
  have g: "co_Collect ?c (lp_dev (adopting_loop\<lparr>lp_collect_failures := 4\<rparr>)) = (Inl ''timeout'', ())" by simp
  have "0 \<le> stale_limit deaf_config" "stale_limit deaf_config \<le> lp_collect_failures (adopting_loop\<lparr>lp_collect_failures := 4\<rparr>) + 1"
    by (simp_all add: s)
  from stale_device_is_silent[OF h g this, of noop_env] s show ?thesis by blast
qed

section \<open>The device's address\<close>

text \<open>
  "Using DHCP" is the controller's default, so it alone never moves a device: an address is
  written only as the push says, and DHCP only when the push says DHCP and the push followed
  before carried a static address; a static address only with an address and a mask.
\<close>

theorem dhcp_only_on_change:
  assumes "lp_calls (applyAddress cfg prev text l) \<noteq> lp_calls l"
  shows "\<exists>d ok a. lp_calls (applyAddress cfg prev text l) = lp_calls l @ [(CApplyAddress d, ok)]
    \<and> c_address (parse cfg text) = Some a \<and> ad_dhcp d = a_dhcp a
    \<and> (if a_dhcp a then prev \<noteq> [] \<and> (\<exists>pa. c_address (parse cfg prev) = Some pa \<and> \<not> a_dhcp pa)
       else ad_ip d = a_ip a \<and> a_ip a \<noteq> [] \<and> a_netmask a \<noteq> [] \<and> ad_prefix d = prefixLenOf (a_netmask a))"
proof -
  from assms obtain ac d where ac: "lc_address cfg = Some ac" and v: "address_verdict_of cfg prev text = ApplyAddr d"
    by (auto simp: applyAddress_def split: option.splits address_verdict.splits)
  obtain r l1 where i: "invoke (CApplyAddress d) (ac_ApplyAddress ac d) l = (r, l1)" by fastforce
  have "lp_calls (applyAddress cfg prev text l) = lp_calls l1"
    by (simp add: applyAddress_def ac v i split: sum.split)
  then have "lp_calls (applyAddress cfg prev text l) = lp_calls l @ [(CApplyAddress d, \<not> isl r)]"
    using invoke_calls[OF i] by simp
  moreover obtain a where "c_address (parse cfg text) = Some a \<and> ad_dhcp d = a_dhcp a
    \<and> (if a_dhcp a then prev \<noteq> [] \<and> (\<exists>pa. c_address (parse cfg prev) = Some pa \<and> \<not> a_dhcp pa)
       else ad_ip d = a_ip a \<and> a_ip a \<noteq> [] \<and> a_netmask a \<noteq> [] \<and> ad_prefix d = prefixLenOf (a_netmask a))"
    using v by (auto simp: address_verdict_of_def addressIntent_def split: option.splits if_splits)
  ultimately show ?thesis by (intro exI[of _ d] exI[of _ "\<not> isl r"] exI[of _ a]) (rule conjI)
qed

definition static_text :: string where
  "static_text = ''netconf.1.ip=192.0.2.7'' @ [LF] @ ''netconf.1.netmask=255.255.255.0''"

definition addr_config :: "unit loop_config" where
  "addr_config = base_config\<lparr>lc_address := Some \<lparr>ac_face = no_face, ac_ApplyAddress = (\<lambda>d s. (Inr True, s))\<rparr>\<rparr>"

lemma dhcp_only_on_change_witness:
  "\<exists>d ok. lp_calls (applyAddress addr_config [] static_text adopting_loop) = [(CApplyAddress d, ok)]
     \<and> ad_ip d = ''192.0.2.7'' \<and> ad_prefix d = 24"
proof -
  have p: "lc_ord addr_config = (\<lambda>x. x)" by (simp add: addr_config_def base_config_def)
  have a: "c_address (Parse (\<lambda>x. x) static_text) = Some \<lparr>a_dhcp = False, a_ip = ''192.0.2.7'',
      a_netmask = ''255.255.255.0'', a_gateway = [], a_dns = []\<rparr>" by code_simp
  have m: "prefixLenOf ''255.255.255.0'' = 24" by code_simp
  have e: "lp_calls adopting_loop = []" by code_simp
  have n: "lp_calls (applyAddress addr_config [] static_text adopting_loop) \<noteq> lp_calls adopting_loop" by code_simp
  from dhcp_only_on_change[OF n] show ?thesis by (auto simp: e parse_def p a m)
qed

end
