(* ===== verification/OutletContract.thy ===== *)
theory OutletContract
  imports Loop_Frame
begin

text \<open>
  What the loop's hold of the first outlet push relies on: a driver whose plan is empty switches
  nothing when it applies (\<^verbatim>\<open>OutletPlanner\<close> in \<^verbatim>\<open>internal/devicemodel/model.go\<close>). The drivers
  interpret the contract; the loop's side of it is proved here once.
\<close>

locale outlet_driver =
  fixes apply_outlets_of :: "outlet_desired list \<Rightarrow> ('d, int) dmethod"
    and plan_of :: "outlet_desired list \<Rightarrow> 'd \<Rightarrow> int list"
    and relays :: "'d \<Rightarrow> 'w"
  assumes plan_empty: "plan_of ds d = [] \<Longrightarrow> relays (snd (apply_outlets_of ds d)) = relays d"
begin

text \<open>A loop that drives this driver.\<close>

definition drives :: "'d loop_config \<Rightarrow> 'd outlet_controller \<Rightarrow> bool" where
  "drives cfg oc \<longleftrightarrow> lc_outlets cfg = Some oc \<and> oc_ApplyOutlets oc = apply_outlets_of
     \<and> fc_PlanOutlets (oc_face oc) = Some plan_of \<and> \<not> lc_allow_initial cfg"

lemma held_or_empty:
  assumes "drives cfg oc" and "\<not> lp_ever_outlet_applied l" and "holdInitialOutletPush cfg ver ds l = (held, l1)"
  shows "relays (lp_dev l1) = relays (lp_dev l)"
    and "\<not> held \<Longrightarrow> relays (snd (oc_ApplyOutlets oc ds (lp_dev l1))) = relays (lp_dev l)"
proof -
  note h = holdInitialOutletPush_cases[OF assms(3)]
  show "relays (lp_dev l1) = relays (lp_dev l)" using h(3) by simp
  assume "\<not> held"
  with h(1) assms(1,2) have "plan_of ds (lp_dev l) = []" by (simp add: drives_def outlet_planner_def)
  from plan_empty[OF this] h(3) assms(1) show "relays (snd (oc_ApplyOutlets oc ds (lp_dev l1))) = relays (lp_dev l)"
    by (simp add: drives_def)
qed

lemma invoke_relays: "invoke c f l = (r, l') \<Longrightarrow> lp_dev l' = snd (f (lp_dev l))"
  by (auto simp: invoke_def split: prod.splits)

lemma first_apply_switches_nothing:
  assumes "drives cfg oc" and "\<not> lp_ever_outlet_applied l"
  shows "relays (lp_dev (apply_outlets cfg ev oc ver text l)) = relays (lp_dev l)"
proof -
  let ?ds = "desiredOutlets cfg text"
  obtain held l1 where h: "holdInitialOutletPush cfg ver ?ds l = (held, l1)" by fastforce
  obtain r l2 where i: "invoke (CApplyOutlets ?ds) (oc_ApplyOutlets oc ?ds) l1 = (r, l2)" by fastforce
  have m: "lp_dev (mark_applied ev ver x) = lp_dev x" for x :: "'d loop"
    by (simp add: mark_applied_def split: prod.split option.split)
  have "lp_dev (apply_outlets cfg ev oc ver text l) = (if held then lp_dev l1 else lp_dev l2)"
    by (simp add: apply_outlets_def Let_def h i m apply_failed_def split: sum.split)
  with held_or_empty[OF assms h] invoke_relays[OF i] show ?thesis by simp
qed

lemma first_reconcile_switches_nothing:
  assumes "drives cfg oc" and "\<not> lp_ever_outlet_applied l"
  shows "relays (lp_dev (reconcile_outlets cfg oc ver text l)) = relays (lp_dev l)"
proof -
  let ?ds = "desiredOutlets cfg text"
  obtain held l1 where h: "holdInitialOutletPush cfg ver ?ds l = (held, l1)" by fastforce
  obtain r l2 where i: "invoke (CApplyOutlets ?ds) (oc_ApplyOutlets oc ?ds) l1 = (r, l2)" by fastforce
  have "lp_dev (reconcile_outlets cfg oc ver text l) = (if held then lp_dev l1 else lp_dev l2)"
    by (simp add: reconcile_outlets_def Let_def h i split: sum.split)
  with held_or_empty[OF assms h] invoke_relays[OF i] show ?thesis by simp
qed

end

end
