(* ===== verification/ApcUps.thy ===== *)
theory ApcUps
  imports OutletContract Loop_Demo "HOL-Library.Word"
begin

unbundle bit_operations_syntax

text \<open>
  \<^verbatim>\<open>internal/drivers/apc-ups/apply.go\<close>: switching the outlet groups of an APC Smart-UPS by its
  Modbus command register. The transport is the parameter \<open>wire\<close>; the register writes that were
  sent are kept. Process-wide log lines are not kept, the keys of once-only warnings are.
\<close>

section \<open>The command word\<close>

definition regOutletCommand :: nat where "regOutletCommand = 1538"
definition cmdOutputOn :: "32 word" where "cmdOutputOn = push_bit 1 1"
definition cmdOutputOff :: "32 word" where "cmdOutputOff = push_bit 2 1"
definition cmdOutputReboot :: "32 word" where "cmdOutputReboot = push_bit 4 1"

text \<open>The shift count is a Go uint: \<open>8 + uint(g)\<close> wraps at 64 bits.\<close>

definition groupTarget :: "int \<Rightarrow> 32 word" where
  "groupTarget g = push_bit (nat ((8 + g) mod 2 ^ 64)) 1"

definition commandWords :: "32 word \<Rightarrow> 32 word \<Rightarrow> 16 word list" where
  "commandWords cmd target = (let v = cmd OR target in [ucast (drop_bit 16 v), ucast v])"

section \<open>The driver\<close>

type_synonym 'm wire = "nat \<Rightarrow> 16 word list \<Rightarrow> 'm \<Rightarrow> string option \<times> 'm"

record 'm ups =
  up_link :: 'm
  up_last :: "snapshot option"
  up_warned :: "string list"
  up_writes :: "(nat \<times> 16 word list) list"

definition WriteRegisters :: "'m wire \<Rightarrow> nat \<Rightarrow> 16 word list \<Rightarrow> 'm ups \<Rightarrow> string option \<times> 'm ups" where
  "WriteRegisters wire reg ws u = (case wire reg ws (up_link u) of (e, m) \<Rightarrow>
     (e, u\<lparr>up_link := m, up_writes := up_writes u @ [(reg, ws)]\<rparr>))"

definition by_index :: "dm_outlet list \<Rightarrow> dm_outlet alist" where
  "by_index os = fold (\<lambda>o'. AList.update (ou_index o') o') os []"

definition outletsByIndex :: "'m ups \<Rightarrow> dm_outlet alist option" where
  "outletsByIndex u = map_option (\<lambda>s. by_index (sn_outlets s)) (up_last u)"

definition ups_warnOnce :: "string \<Rightarrow> 'm ups \<Rightarrow> 'm ups" where
  "ups_warnOnce key u = (if key \<in> set (up_warned u) then u else u\<lparr>up_warned := key # up_warned u\<rparr>)"

definition ups_apply_one :: "'m wire \<Rightarrow> dm_outlet alist \<Rightarrow> outlet_desired \<Rightarrow> 'm ups \<times> int \<times> string list
    \<Rightarrow> 'm ups \<times> int \<times> string list" where
  "ups_apply_one wire cur d ac = (case ac of (u, changed, errs) \<Rightarrow>
     (case map_of cur (od_index d) of
        None \<Rightarrow> (ups_warnOnce (''outlet '' @ itoa (od_index d)) u, changed, errs)
      | Some have \<Rightarrow>
          if od_on d = ou_on have then (u, changed, errs)
          else if \<not> ou_switchable have then (ups_warnOnce ''main-group'' u, changed, errs)
          else (case WriteRegisters wire regOutletCommand
                  (commandWords (if od_on d then cmdOutputOn else cmdOutputOff) (groupTarget (od_index d - 1))) u of
             (Some e, u') \<Rightarrow> (u', changed, errs @ [e])
           | (None, u') \<Rightarrow> (u', changed + 1, errs))))"

definition ups_ApplyOutlets :: "'m wire \<Rightarrow> outlet_desired list \<Rightarrow> ('m ups, int) dmethod" where
  "ups_ApplyOutlets wire desired u = (case outletsByIndex u of
     None \<Rightarrow> (Inl ''apc-ups: no snapshot yet'', u)
   | Some cur \<Rightarrow> (case fold (ups_apply_one wire cur) desired (u, 0, []) of (u', changed, errs) \<Rightarrow>
       (if errs \<noteq> [] then Inl (''apc-ups: '' @ join ''; '' errs) else Inr changed, u')))"

definition to_switch :: "dm_outlet alist \<Rightarrow> outlet_desired \<Rightarrow> bool" where
  "to_switch cur d = (case map_of cur (od_index d) of
     None \<Rightarrow> False | Some have \<Rightarrow> ou_switchable have \<and> od_on d \<noteq> ou_on have)"

definition ups_PlanOutlets :: "outlet_desired list \<Rightarrow> 'm ups \<Rightarrow> int list" where
  "ups_PlanOutlets desired u = (case outletsByIndex u of
     None \<Rightarrow> [] | Some cur \<Rightarrow> map od_index (filter (to_switch cur) desired))"

definition ups_CycleOutlet :: "'m wire \<Rightarrow> int \<Rightarrow> 'm ups act" where
  "ups_CycleOutlet wire idx u = (case outletsByIndex u of
     None \<Rightarrow> (Some ''apc-ups: no snapshot yet'', u)
   | Some cur \<Rightarrow> (case map_of cur idx of
       None \<Rightarrow> (Some (''apc-ups: outlet '' @ itoa idx @ '': the unit has no such outlet group''), u)
     | Some have \<Rightarrow> if \<not> ou_switchable have then (Some (''apc-ups: outlet '' @ itoa idx @ '' is the unswitched main group; ''
           @ ''a power cycle would drop the whole output; refused''), u)
         else WriteRegisters wire regOutletCommand (commandWords cmdOutputReboot (groupTarget (idx - 1))) u))"

section \<open>What is written\<close>

definition switch_command :: "outlet_desired \<Rightarrow> nat \<times> 16 word list" where
  "switch_command d = (regOutletCommand,
     commandWords (if od_on d then cmdOutputOn else cmdOutputOff) (groupTarget (od_index d - 1)))"

lemma ups_apply_one_writes:
  "up_writes (fst (ups_apply_one wire cur d (u, n, es))) = up_writes u @ (if to_switch cur d then [switch_command d] else [])"
  by (auto simp: ups_apply_one_def to_switch_def ups_warnOnce_def WriteRegisters_def switch_command_def
      split: option.splits prod.splits)

lemma ups_fold_writes:
  "up_writes (fst (fold (ups_apply_one wire cur) ds ac)) = up_writes (fst ac) @ map switch_command (filter (to_switch cur) ds)"
proof (induction ds arbitrary: ac)
  case (Cons d ds)
  obtain u n es where ac: "ac = (u, n, es)" by (cases ac)
  show ?case by (simp add: Cons ac ups_apply_one_writes)
qed simp

lemma ups_writes:
  "up_writes (snd (ups_ApplyOutlets wire ds u)) = up_writes u @ (case outletsByIndex u of None \<Rightarrow> []
     | Some cur \<Rightarrow> map switch_command (filter (to_switch cur) ds))"
  by (simp add: ups_ApplyOutlets_def ups_fold_writes split_beta split: option.split)

interpretation ups: outlet_driver "ups_ApplyOutlets wire" ups_PlanOutlets up_writes for wire
  by unfold_locales (auto simp: ups_writes ups_PlanOutlets_def split: option.splits)

text \<open>
  The UPS driver writes a strict diff and its plan is exact: applying outlets sends one
  command per outlet the plan names, in the plan's order, to the command register, each with the
  on or off bit the push asks for and that outlet's group bit, whatever the transport answers;
  nothing else is written.
\<close>

theorem ups_writes_are_the_plan:
  "\<exists>todo. ups_PlanOutlets ds u = map od_index todo \<and> set todo \<subseteq> set ds
    \<and> up_writes (snd (ups_ApplyOutlets wire ds u)) = up_writes u @ map switch_command todo"
  by (cases "outletsByIndex u") (auto simp: ups_writes ups_PlanOutlets_def intro: exI[of _ "[]"])

lemma by_index_entry: "map_of (by_index os) i = Some x \<Longrightarrow> x \<in> set os \<and> ou_index x = i"
proof (induction os rule: rev_induct)
  case (snoc y ys)
  then show ?case by (auto simp: by_index_def split: if_splits)
qed (simp add: by_index_def)

lemma group_bits:
  "i \<in> {2, 3, 4} \<Longrightarrow> \<not> bit (commandWords cmdOutputOn (groupTarget (i - 1)) ! 1) 8"
  "i \<in> {2, 3, 4} \<Longrightarrow> \<not> bit (commandWords cmdOutputOff (groupTarget (i - 1)) ! 1) 8"
  "i \<in> {2, 3, 4} \<Longrightarrow> \<not> bit (commandWords cmdOutputReboot (groupTarget (i - 1)) ! 1) 8"
  by (auto simp: commandWords_def Let_def cmdOutputOn_def cmdOutputOff_def cmdOutputReboot_def groupTarget_def
      bit_or_iff bit_push_bit_iff bit_ucast_iff bit_1_iff)

text \<open>
  The main outlet group is never a target: with the groups the unit reports (the switchable
  ones are groups 1 to 3, outlets 2 to 4), no command of an apply or a power cycle has the main
  group's bit (bit 8) set, and cycling the main group writes nothing.
\<close>

theorem ups_main_group_untouched:
  assumes "up_last u = Some snap" and "\<forall>x \<in> set (sn_outlets snap). ou_switchable x \<longrightarrow> ou_index x \<in> {2, 3, 4}"
  shows "(\<exists>ws. up_writes (snd (ups_ApplyOutlets wire ds u)) = up_writes u @ ws
      \<and> list_all (\<lambda>(r, w). \<not> bit (w ! 1) 8) ws)
    \<and> (\<exists>ws. up_writes (snd (ups_CycleOutlet wire i u)) = up_writes u @ ws
      \<and> list_all (\<lambda>(r, w). \<not> bit (w ! 1) 8) ws)"
proof (rule conjI)
  have cur: "outletsByIndex u = Some (by_index (sn_outlets snap))" using assms(1) by (simp add: outletsByIndex_def)
  have sw: "map_of (by_index (sn_outlets snap)) j = Some x \<Longrightarrow> ou_switchable x \<Longrightarrow> j \<in> {2, 3, 4}" for j x
    using assms(2) by_index_entry by blast
  have "list_all (\<lambda>(r, w). \<not> bit (w ! 1) 8) (map switch_command (filter (to_switch (by_index (sn_outlets snap))) ds))"
    using sw group_bits by (auto simp: list_all_iff switch_command_def to_switch_def split: option.splits)
  with cur show "\<exists>ws. up_writes (snd (ups_ApplyOutlets wire ds u)) = up_writes u @ ws
      \<and> list_all (\<lambda>(r, w). \<not> bit (w ! 1) 8) ws" by (auto simp: ups_writes)
  show "\<exists>ws. up_writes (snd (ups_CycleOutlet wire i u)) = up_writes u @ ws \<and> list_all (\<lambda>(r, w). \<not> bit (w ! 1) 8) ws"
    using sw[of i] group_bits(3)[of i]
    by (auto simp: ups_CycleOutlet_def cur WriteRegisters_def split: option.split prod.split)
qed

definition demo_ups :: "unit ups" where
  "demo_ups = \<lparr>up_link = (), up_last = Some \<lparr>sn_taken = 0, sn_system = \<lparr>sy_vendor = [], sy_model = [], sy_sku = [], sy_serial = [], sy_oob = [], sy_addresses = [],
       sy_arp = [], sy_gateway_mac = [], sy_gateway = [], sy_version = [], sy_battery = None, sy_stp_mode = [],
       sy_stp_priority = 0, sy_igmp = [], sy_ntp = [], sy_syslog = [], sy_snmp = []\<rparr>,
       sn_ports = [], sn_mac_table = [], sn_vlans = [], sn_outlets =
         [\<lparr>ou_index = 1, ou_name = [], ou_on = True, ou_switchable = False\<rparr>,
          \<lparr>ou_index = 2, ou_name = [], ou_on = True, ou_switchable = True\<rparr>], sn_uplink_hint = 0\<rparr>,
     up_warned = [], up_writes = []\<rparr>"

definition fine_wire :: "unit wire" where
  "fine_wire = (\<lambda>_ _ m. (None, m))"

definition all_off :: "outlet_desired list" where
  "all_off = [\<lparr>od_index = 1, od_on = False, od_name = []\<rparr>, \<lparr>od_index = 2, od_on = False, od_name = []\<rparr>]"

lemma ups_main_group_untouched_witness:
  "length (up_writes (snd (ups_ApplyOutlets fine_wire all_off demo_ups))) = 1
   \<and> list_all (\<lambda>(r, w). \<not> bit (w ! 1) 8) (up_writes (snd (ups_ApplyOutlets fine_wire all_off demo_ups)))"
proof -
  obtain snap where s: "up_last demo_ups = Some snap" "\<forall>x \<in> set (sn_outlets snap). ou_switchable x \<longrightarrow> ou_index x \<in> {2, 3, 4}"
    by (auto simp: demo_ups_def)
  have n: "length (up_writes (snd (ups_ApplyOutlets fine_wire all_off demo_ups))) = 1" by code_simp
  have e: "up_writes demo_ups = []" by (simp add: demo_ups_def)
  from ups_main_group_untouched[OF s, of fine_wire all_off] n e show ?thesis by auto
qed

section \<open>The hold on this driver\<close>

text \<open>
  C4. The first outlet push of a run never switches a UPS outlet: while the loop has not applied
  outlets in this run (and initial changes are not allowed), neither applying a pending push nor
  reconciling sends a command to the unit; the push is held, or its plan is empty.
\<close>

theorem ups_first_outlet_push_switches_nothing:
  assumes "lc_outlets cfg = Some oc" and "oc_ApplyOutlets oc = ups_ApplyOutlets wire"
    and "fc_PlanOutlets (oc_face oc) = Some ups_PlanOutlets" and "\<not> lc_allow_initial cfg"
    and "\<not> lp_ever_outlet_applied l"
  shows "up_writes (lp_dev (apply_outlets cfg ev oc ver text l)) = up_writes (lp_dev l)
    \<and> up_writes (lp_dev (reconcile_outlets cfg oc ver text l)) = up_writes (lp_dev l)"
proof -
  have "ups.drives wire cfg oc" using assms(1-4) by (simp add: ups.drives_def)
  from ups.first_apply_switches_nothing[OF this assms(5)] ups.first_reconcile_switches_nothing[OF this assms(5)]
  show ?thesis by blast
qed

definition ups_outlets :: "unit ups outlet_controller" where
  "ups_outlets = \<lparr>oc_face = no_face\<lparr>fc_PlanOutlets := Some ups_PlanOutlets\<rparr>, oc_ApplyOutlets = ups_ApplyOutlets fine_wire\<rparr>"

definition ups_config :: "unit ups loop_config" where
  "ups_config = base_config\<lparr>lc_outlets := Some ups_outlets\<rparr>"

definition ups_loop :: "unit ups loop" where
  "ups_loop = NewLoop ups_config 0 [] None demo_pending demo_ups"

lemma ups_first_outlet_push_switches_nothing_witness:
  "up_writes (lp_dev (apply_outlets ups_config demo_env ups_outlets ''v7'' ''outlet.2.relay_state=disabled'' ups_loop)) = []
   \<and> up_writes (snd (ups_ApplyOutlets fine_wire (desiredOutlets ups_config ''outlet.2.relay_state=disabled'') demo_ups)) \<noteq> []"
proof -
  have h: "lc_outlets ups_config = Some ups_outlets" "oc_ApplyOutlets ups_outlets = ups_ApplyOutlets fine_wire"
    "fc_PlanOutlets (oc_face ups_outlets) = Some ups_PlanOutlets" "\<not> lc_allow_initial ups_config"
    by (simp_all add: ups_config_def base_config_def ups_outlets_def)
  have e: "\<not> lp_ever_outlet_applied ups_loop" "up_writes (lp_dev ups_loop) = []" by code_simp+
  have w: "up_writes (snd (ups_ApplyOutlets fine_wire (desiredOutlets ups_config ''outlet.2.relay_state=disabled'') demo_ups)) \<noteq> []"
    by code_simp
  from ups_first_outlet_push_switches_nothing[OF h e(1)] e(2) w show ?thesis by simp
qed

end
