(* ===== verification/ApcBackups.thy ===== *)
theory ApcBackups
  imports OutletContract Loop_Demo
begin

text \<open>
  \<^verbatim>\<open>internal/drivers/apc-backups/apply.go\<close>: an APC Back-UPS behind a management card, switched by
  posting the card's outlet form and addressed by uploading a partial config.ini. The two
  transports are parameters; what was posted and uploaded is kept.
\<close>

section \<open>Data\<close>

record card_row =
  row_n :: int
  row_kind :: string

definition codeOn :: string where "codeOn = ''01000000''"
definition codeOff :: string where "codeOff = ''03000000''"
definition codeReboot :: string where "codeReboot = ''05000000''"

type_synonym actions = "(int \<times> string) list"

record 'm backups =
  bk_link :: 'm
  bk_last :: "dm_outlet list option"
  bk_addrs :: "(string \<times> int) list"
  bk_rows :: "card_row list"
  bk_dhcp :: bool
  bk_card_gw :: string
  bk_mac :: string
  bk_gateway :: string
  bk_warned :: "string list"
  bk_posts :: "actions list"
  bk_uploads :: "string list"

type_synonym 'm post = "actions \<Rightarrow> 'm \<Rightarrow> string option \<times> 'm"
type_synonym 'm upload = "string \<Rightarrow> 'm \<Rightarrow> string option \<times> 'm"

definition Control :: "'m post \<Rightarrow> actions \<Rightarrow> 'm backups \<Rightarrow> string option \<times> 'm backups" where
  "Control pf a b = (case pf a (bk_link b) of (e, m) \<Rightarrow> (e, b\<lparr>bk_link := m, bk_posts := bk_posts b @ [a]\<rparr>))"

definition PutConfig :: "'m upload \<Rightarrow> string \<Rightarrow> 'm backups \<Rightarrow> string option \<times> 'm backups" where
  "PutConfig up text b = (case up text (bk_link b) of (e, m) \<Rightarrow> (e, b\<lparr>bk_link := m, bk_uploads := bk_uploads b @ [text]\<rparr>))"

definition bk_warnOnce :: "string \<Rightarrow> 'm backups \<Rightarrow> 'm backups" where
  "bk_warnOnce key b = (if key \<in> set (bk_warned b) then b else b\<lparr>bk_warned := key # bk_warned b\<rparr>)"

section \<open>Outlets\<close>

text \<open>Whether the row at a position is a switched outlet group.\<close>

definition switched_row :: "card_row list \<Rightarrow> nat \<Rightarrow> bool" where
  "switched_row rows i \<longleftrightarrow> i < length rows \<and> row_kind (rows ! i) = ''SOG''"

definition bk_PlanOutlets :: "outlet_desired list \<Rightarrow> 'm backups \<Rightarrow> int list" where
  "bk_PlanOutlets desired b = (case bk_last b of
     None \<Rightarrow> []
   | Some os \<Rightarrow> concat (map (\<lambda>d. concat (map (\<lambda>(i, o').
       if ou_index o' = od_index d \<and> switched_row (bk_rows b) i \<and> ou_on o' \<noteq> od_on d then [od_index d] else [])
       (enumerate 0 os))) desired))"

text \<open>The inner loop of \<open>plan\<close> over the outlets of the last poll, for one desired outlet.\<close>

fun plan_scan :: "card_row list \<Rightarrow> outlet_desired \<Rightarrow> (nat \<times> dm_outlet) list \<Rightarrow> bool
    \<Rightarrow> actions \<times> int \<times> 'm backups \<Rightarrow> bool \<times> actions \<times> int \<times> 'm backups" where
  "plan_scan rows d [] found ac = (found, ac)"
| "plan_scan rows d ((i, o') # os) found ac = (case ac of (actions, changed, b) \<Rightarrow>
     if ou_index o' \<noteq> od_index d then plan_scan rows d os found ac
     else if length rows \<le> i then (True, ac)
     else if row_kind (rows ! i) \<noteq> ''SOG'' then
       (True, actions, changed, if ou_on o' \<noteq> od_on d then bk_warnOnce (''mog-'' @ itoa (od_index d)) b else b)
     else if ou_on o' = od_on d then (True, ac)
     else plan_scan rows d os True
            (AList.update (row_n (rows ! i)) (if od_on d then codeOn else codeOff) actions, changed + 1, b))"

definition plan_one :: "dm_outlet list \<Rightarrow> outlet_desired \<Rightarrow> actions \<times> int \<times> 'm backups \<Rightarrow> actions \<times> int \<times> 'm backups" where
  "plan_one os d ac = (case plan_scan (bk_rows (snd (snd ac))) d (enumerate 0 os) False ac of
     (found, actions, changed, b) \<Rightarrow>
       (actions, changed, if found then b else bk_warnOnce (''unknown-'' @ itoa (od_index d)) b))"

definition plan_actions :: "outlet_desired list \<Rightarrow> 'm backups \<Rightarrow> string + (actions \<times> int \<times> 'm backups)" where
  "plan_actions desired b = (case bk_last b of
     None \<Rightarrow> Inl ''apc-backups: no snapshot yet''
   | Some os \<Rightarrow> Inr (fold (plan_one os) desired ([], 0, b)))"

text \<open>After the post, the last poll's switchable outlets take the state asked for.\<close>

definition set_outlets :: "outlet_desired list \<Rightarrow> dm_outlet list \<Rightarrow> dm_outlet list" where
  "set_outlets desired os = map (\<lambda>o'. fold (\<lambda>d x. if od_index d = ou_index x \<and> ou_switchable x
     then x\<lparr>ou_on := od_on d\<rparr> else x) desired o') os"

definition bk_ApplyOutlets :: "'m post \<Rightarrow> outlet_desired list \<Rightarrow> ('m backups, int) dmethod" where
  "bk_ApplyOutlets pf desired b = (case plan_actions desired b of
     Inl e \<Rightarrow> (Inl e, b)
   | Inr (actions, changed, b1) \<Rightarrow>
       if actions = [] then (Inr 0, b1)
       else (case Control pf actions b1 of
           (Some e, b2) \<Rightarrow> (Inl (''apc-backups: '' @ e), b2)
         | (None, b2) \<Rightarrow> (Inr changed, b2\<lparr>bk_last := map_option (set_outlets desired) (bk_last b2)\<rparr>)))"

fun cycle_scan :: "'m post \<Rightarrow> int \<Rightarrow> (nat \<times> dm_outlet) list \<Rightarrow> 'm backups act" where
  "cycle_scan pf idx [] b = (Some (''apc-backups: outlet '' @ itoa idx @ '' is not one the UPS reports''), b)"
| "cycle_scan pf idx ((i, o') # os) b =
     (if ou_index o' \<noteq> idx then cycle_scan pf idx os b
      else if \<not> switched_row (bk_rows b) i then (Some (''apc-backups: outlet '' @ itoa idx @ '' is a main outlet group; it cannot be power-cycled''), b)
      else (case Control pf [(row_n (bk_rows b ! i), codeReboot)] b of
          (Some e, b') \<Rightarrow> (Some (''apc-backups: '' @ e), b') | (None, b') \<Rightarrow> (None, b')))"

definition bk_CycleOutlet :: "'m post \<Rightarrow> int \<Rightarrow> 'm backups act" where
  "bk_CycleOutlet pf idx b = (case bk_last b of
     None \<Rightarrow> (Some ''apc-backups: no snapshot yet'', b)
   | Some os \<Rightarrow> cycle_scan pf idx (enumerate 0 os) b)"

section \<open>The card's address\<close>

definition maskFromPrefix :: "int \<Rightarrow> string" where
  "maskFromPrefix n = (if n < 0 \<or> 32 < n then [] else dotted (mask_bytes (nat n) [255, 255, 255, 255]))"

definition crlf :: string where "crlf = [CR, LF]"

definition tcpipConfig :: "string \<Rightarrow> string \<Rightarrow> string \<Rightarrow> string \<Rightarrow> string \<Rightarrow> string" where
  "tcpipConfig mac mode ip m gw =
     ''[NetworkTCP/IP]'' @ crlf
     @ ''Override='' @ to_upper (replace_char (CHR '':'') '' '' mac) @ crlf
     @ ''BootMode='' @ mode @ crlf
     @ (if ip \<noteq> [] then ''SystemIP='' @ ip @ crlf else [])
     @ (if m \<noteq> [] then ''SubnetMask='' @ m @ crlf else [])
     @ (if gw \<noteq> [] then ''DefaultGateway='' @ gw @ crlf else [])"

definition gateway_for :: "address_desired \<Rightarrow> 'm backups \<Rightarrow> string" where
  "gateway_for d b = (if ad_gateway d \<noteq> [] then ad_gateway d
     else if bk_gateway b \<noteq> [] then bk_gateway b else bk_card_gw b)"

definition bk_ApplyAddress :: "'m upload \<Rightarrow> address_desired \<Rightarrow> ('m backups, bool) dmethod" where
  "bk_ApplyAddress up d b =
     (if bk_last b = None then (Inl ''apc-backups: no snapshot yet'', b)
      else if bk_mac b = [] then (Inl (''apc-backups: options.mac (the card's MAC) is required to address the card: ''
        @ ''the config.ini section is ignored without it''), b)
      else if ad_dhcp d then
        (if bk_dhcp b then (Inr False, b)
         else (case PutConfig up (tcpipConfig (bk_mac b) ''DHCP Only'' [] [] []) b of
             (Some e, b') \<Rightarrow> (Inl (''apc-backups: '' @ e), b')
           | (None, b') \<Rightarrow> (Inr True, b'\<lparr>bk_dhcp := True\<rparr>)))
      else if ad_ip d = [] \<or> ad_prefix d \<le> 0 then (Inl ''apc-backups: static address without an IP and prefix length'', b)
      else (let gw = gateway_for d b;
                b1 = (if gw = [] then bk_warnOnce ''no-gateway'' b else b)
            in if \<not> bk_dhcp b1 \<and> bk_addrs b1 = [(ad_ip d, ad_prefix d)] \<and> bk_card_gw b1 = gw then (Inr False, b1)
               else (case PutConfig up (tcpipConfig (bk_mac b1) ''Manual'' (ad_ip d) (maskFromPrefix (ad_prefix d)) gw) b1 of
                   (Some e, b') \<Rightarrow> (Inl (''apc-backups: '' @ e), b')
                 | (None, b') \<Rightarrow> (Inr True, b'\<lparr>bk_dhcp := False, bk_card_gw := gw\<rparr>))))"

section \<open>What is posted\<close>

lemma bk_warnOnce_frame [simp]: "bk_rows (bk_warnOnce k b) = bk_rows b" "bk_posts (bk_warnOnce k b) = bk_posts b"
  "bk_last (bk_warnOnce k b) = bk_last b"
  by (simp_all add: bk_warnOnce_def)

text \<open>The outlets, with their position, that a desired outlet would switch.\<close>

definition differs :: "card_row list \<Rightarrow> outlet_desired \<Rightarrow> nat \<times> dm_outlet \<Rightarrow> bool" where
  "differs rows d io \<longleftrightarrow> ou_index (snd io) = od_index d \<and> switched_row rows (fst io) \<and> ou_on (snd io) \<noteq> od_on d"

lemma plan_scan_quiet:
  assumes "\<forall>io \<in> set ios. \<not> differs rows d io" and "plan_scan rows d ios found (a, n, b) = (f', a', n', b')"
  shows "a' = a \<and> bk_posts b' = bk_posts b \<and> bk_rows b' = bk_rows b \<and> bk_last b' = bk_last b"
  using assms
proof (induction rows d ios found "(a, n, b)" arbitrary: a n b rule: plan_scan.induct)
  case (2 rows d i o' os found)
  show ?case
  proof (cases "ou_index o' = od_index d")
    case True
    with 2(3,4) show ?thesis by (auto simp: differs_def switched_row_def split: if_splits)
  next
    case False
    with 2 show ?thesis by auto
  qed
qed auto

lemma plan_one_quiet:
  assumes "\<forall>io \<in> set (enumerate 0 os). \<not> differs (bk_rows b) d io" and "plan_one os d (a, n, b) = (a', n', b')"
  shows "a' = a \<and> bk_posts b' = bk_posts b \<and> bk_rows b' = bk_rows b \<and> bk_last b' = bk_last b"
proof -
  obtain f a1 n1 b1 where s: "plan_scan (bk_rows b) d (enumerate 0 os) False (a, n, b) = (f, a1, n1, b1)"
    by (metis prod_cases4)
  from plan_scan_quiet[OF assms(1) s] assms(2) show ?thesis by (auto simp: plan_one_def s split: if_splits)
qed

lemma plan_quiet:
  assumes "\<forall>d \<in> set ds. \<forall>io \<in> set (enumerate 0 os). \<not> differs (bk_rows b) d io"
    and "fold (plan_one os) ds (a, n, b) = (a', n', b')"
  shows "a' = a \<and> bk_posts b' = bk_posts b"
  using assms
proof (induction ds arbitrary: a n b)
  case (Cons d ds)
  obtain a1 n1 b1 where p: "plan_one os d (a, n, b) = (a1, n1, b1)" by (metis prod_cases3)
  have q: "a1 = a \<and> bk_posts b1 = bk_posts b \<and> bk_rows b1 = bk_rows b \<and> bk_last b1 = bk_last b"
    by (rule plan_one_quiet[OF _ p]) (use Cons.prems(1) in auto)
  with Cons.IH[of b1 a1 n1] Cons.prems p show ?case by auto
qed simp

lemma bk_plan_empty:
  assumes "bk_PlanOutlets ds b = []" and "bk_last b = Some os"
  shows "\<forall>d \<in> set ds. \<forall>io \<in> set (enumerate 0 os). \<not> differs (bk_rows b) d io"
  using assms by (fastforce simp: bk_PlanOutlets_def differs_def split: if_splits)

interpretation backups: outlet_driver "bk_ApplyOutlets pf" bk_PlanOutlets bk_posts for pf
proof
  fix ds and b :: "'a backups"
  assume p: "bk_PlanOutlets ds b = []"
  show "bk_posts (snd (bk_ApplyOutlets pf ds b)) = bk_posts b"
  proof (cases "bk_last b")
    case (Some os)
    obtain a n b1 where f: "fold (plan_one os) ds ([], 0, b) = (a, n, b1)" by (metis prod_cases3)
    from plan_quiet[OF bk_plan_empty[OF p Some] f] have "a = []" "bk_posts b1 = bk_posts b" by simp_all
    then show ?thesis by (simp add: bk_ApplyOutlets_def plan_actions_def Some f)
  qed (simp add: bk_ApplyOutlets_def plan_actions_def)
qed

section \<open>Properties\<close>

text \<open>
  The first outlet push of a run never switches a Back-UPS outlet: until the loop has applied
  outlets in this run, neither applying a pending push nor reconciling posts the card's form.
\<close>

theorem backups_first_outlet_push_switches_nothing:
  assumes "lc_outlets cfg = Some oc" and "oc_ApplyOutlets oc = bk_ApplyOutlets pf"
    and "fc_PlanOutlets (oc_face oc) = Some bk_PlanOutlets" and "\<not> lc_allow_initial cfg"
    and "\<not> lp_ever_outlet_applied l"
  shows "bk_posts (lp_dev (apply_outlets cfg ev oc ver text l)) = bk_posts (lp_dev l)
    \<and> bk_posts (lp_dev (reconcile_outlets cfg oc ver text l)) = bk_posts (lp_dev l)"
proof -
  have "backups.drives pf cfg oc" using assms(1-4) by (simp add: backups.drives_def)
  from backups.first_apply_switches_nothing[OF this assms(5)] backups.first_reconcile_switches_nothing[OF this assms(5)]
  show ?thesis by blast
qed

definition demo_backups :: "unit backups" where
  "demo_backups = \<lparr>bk_link = (), bk_last = Some
       [\<lparr>ou_index = 1, ou_name = [], ou_on = True, ou_switchable = False\<rparr>,
        \<lparr>ou_index = 2, ou_name = [], ou_on = True, ou_switchable = True\<rparr>],
     bk_addrs = [], bk_rows = [\<lparr>row_n = 1, row_kind = ''MOG''\<rparr>, \<lparr>row_n = 4, row_kind = ''SOG''\<rparr>],
     bk_dhcp = True, bk_card_gw = [], bk_mac = ''00:c0:b7:00:00:01'', bk_gateway = [], bk_warned = [],
     bk_posts = [], bk_uploads = []\<rparr>"

definition fine_post :: "unit post" where "fine_post = (\<lambda>_ m. (None, m))"

definition bk_outlets :: "unit backups outlet_controller" where
  "bk_outlets = \<lparr>oc_face = no_face\<lparr>fc_PlanOutlets := Some bk_PlanOutlets\<rparr>, oc_ApplyOutlets = bk_ApplyOutlets fine_post\<rparr>"

definition bk_config :: "unit backups loop_config" where
  "bk_config = base_config\<lparr>lc_outlets := Some bk_outlets\<rparr>"

definition bk_loop :: "unit backups loop" where
  "bk_loop = NewLoop bk_config 0 [] None demo_pending demo_backups"

lemma backups_first_outlet_push_switches_nothing_witness:
  "bk_posts (lp_dev (reconcile_outlets bk_config bk_outlets ''v7'' ''outlet.2.relay_state=disabled'' bk_loop)) = []
   \<and> bk_posts (snd (bk_ApplyOutlets fine_post (desiredOutlets bk_config ''outlet.2.relay_state=disabled'') demo_backups))
      = [[(4, codeOff)]]"
proof -
  have h: "lc_outlets bk_config = Some bk_outlets" "oc_ApplyOutlets bk_outlets = bk_ApplyOutlets fine_post"
    "fc_PlanOutlets (oc_face bk_outlets) = Some bk_PlanOutlets" "\<not> lc_allow_initial bk_config"
    by (simp_all add: bk_config_def base_config_def bk_outlets_def)
  have e: "\<not> lp_ever_outlet_applied bk_loop" "bk_posts (lp_dev bk_loop) = []" by code_simp+
  have w: "bk_posts (snd (bk_ApplyOutlets fine_post (desiredOutlets bk_config ''outlet.2.relay_state=disabled'') demo_backups))
      = [[(4, codeOff)]]" by code_simp
  from backups_first_outlet_push_switches_nothing[OF h e(1)] e(2) w show ?thesis by simp
qed

lemma atoi_nat_digits: "int n \<le> max_int64 \<Longrightarrow> atoi (nat_digits n) = Some (int n)"
  using atoi_itoa[of "int n"] by (simp add: itoa_def min_int64_def)

lemma dot_not_digit: "CHR ''.'' \<notin> set (nat_digits n)"
  by (rule nat_digits_no_char) (simp add: is_digit_def char_code_def)

lemma prefixLenOf_dotted:
  assumes "\<forall>x \<in> {a, b, c, d}. x \<le> 255"
  shows "prefixLenOf (dotted [a, b, c, d]) = popcount a + popcount b + popcount c + popcount d"
proof -
  have s: "split_on (CHR ''.'') (dotted [a, b, c, d]) = [nat_digits a, nat_digits b, nat_digits c, nat_digits d]"
    using split_on_app_sep[of "CHR ''.''"] split_on_no_sep[OF dot_not_digit] by (simp add: dotted_def)
  have v: "x \<le> 255 \<Longrightarrow> atoi (nat_digits x) = Some (int x)" for x by (rule atoi_nat_digits) (simp add: max_int64_def)
  show ?thesis using assms by (simp add: prefixLenOf_def s v)
qed

lemma mask_byte_255: "mask_byte k 255 \<le> 255" "popcount (mask_byte k 255) = int (min 8 k)"
proof -
  have m: "mask_byte k 255 = mask_byte (min 8 k) 255" by (simp add: mask_byte_def)
  have "min 8 k \<in> {0, 1, 2, 3, 4, 5, 6, 7, 8}" by auto
  then show "popcount (mask_byte k 255) = int (min 8 k)"
    unfolding m by (elim insertE) (simp_all add: mask_byte_def popcount.simps)
  show "mask_byte k 255 \<le> 255" by (simp add: mask_byte_def)
qed

text \<open>
  A mask survives the way to the card: the prefix length the loop computes from a dotted
  mask and the mask the driver writes for a prefix length are inverse for every length 0 to 32.
\<close>

theorem mask_round_trip:
  assumes "0 \<le> n" and "n \<le> 32"
  shows "prefixLenOf (maskFromPrefix n) = n"
proof -
  have "maskFromPrefix n = dotted [mask_byte (nat n) 255, mask_byte (nat n - 8) 255, mask_byte (nat n - 8 - 8) 255,
      mask_byte (nat n - 8 - 8 - 8) 255]" using assms by (simp add: maskFromPrefix_def)
  then have "prefixLenOf (maskFromPrefix n) = int (min 8 (nat n)) + int (min 8 (nat n - 8))
      + int (min 8 (nat n - 8 - 8)) + int (min 8 (nat n - 8 - 8 - 8))"
    by (simp only: prefixLenOf_dotted ball_simps mask_byte_255 simp_thms)
  also have "\<dots> = n" using assms by (simp add: min_def) arith
  finally show ?thesis .
qed

lemma mask_round_trip_witness: "maskFromPrefix 20 = ''255.255.240.0'' \<and> prefixLenOf ''255.255.240.0'' = 20"
proof -
  have m: "maskFromPrefix 20 = ''255.255.240.0''" by code_simp
  with mask_round_trip[of 20] show ?thesis by simp
qed

lemma plan_scan_actions:
  assumes "plan_scan rows d ios found (a, n, b) = (f', a', n', b')"
  shows "bk_posts b' = bk_posts b \<and> bk_rows b' = bk_rows b \<and> bk_last b' = bk_last b \<and> (a \<noteq> [] \<longrightarrow> a' \<noteq> [])
    \<and> (distinct (map (\<lambda>io. ou_index (snd io)) ios) \<and> (\<exists>io \<in> set ios. differs rows d io) \<longrightarrow> a' \<noteq> [])"
  using assms
proof (induction rows d ios found "(a, n, b)" arbitrary: a n b rule: plan_scan.induct)
  case (2 rows d i o' os found)
  have up: "AList.update k v m \<noteq> []" for k :: int and v :: string and m by (cases m) auto
  show ?case
  proof (cases "ou_index o' = od_index d")
    case True
    then have nd: "distinct (map (\<lambda>io. ou_index (snd io)) ((i, o') # os)) \<Longrightarrow> \<not> (\<exists>io \<in> set os. differs rows d io)"
      by (force simp: differs_def)
    show ?thesis
    proof (cases "differs rows d (i, o')")
      case dif: True
      then have "plan_scan rows d os True (AList.update (row_n (rows ! i)) (if od_on d then codeOn else codeOff) a, n + 1, b)
          = (f', a', n', b')" using 2(3) by (auto simp: differs_def switched_row_def)
      from 2(2)[OF refl refl _ _ _ _ this] dif up show ?thesis
        by (auto simp: differs_def switched_row_def)
    next
      case False
      then have "a' = a \<and> bk_posts b' = bk_posts b \<and> bk_rows b' = bk_rows b \<and> bk_last b' = bk_last b"
        using 2(3) True by (auto simp: differs_def switched_row_def split: if_splits)
      with nd False show ?thesis by auto
    qed
  next
    case False
    with 2 show ?thesis by (auto simp: differs_def)
  qed
qed auto

lemma plan_one_actions:
  assumes "plan_one os d (a, n, b) = (a', n', b')" and "distinct (map ou_index os)"
  shows "bk_posts b' = bk_posts b \<and> bk_rows b' = bk_rows b \<and> bk_last b' = bk_last b \<and> (a \<noteq> [] \<longrightarrow> a' \<noteq> [])
    \<and> ((\<exists>io \<in> set (enumerate 0 os). differs (bk_rows b) d io) \<longrightarrow> a' \<noteq> [])"
proof -
  obtain f a1 n1 b1 where s: "plan_scan (bk_rows b) d (enumerate 0 os) False (a, n, b) = (f, a1, n1, b1)"
    by (metis prod_cases4)
  have "map (\<lambda>io. ou_index (snd io)) (enumerate 0 os) = map ou_index (map snd (enumerate 0 os))"
    by (simp only: map_map o_def)
  then have "distinct (map (\<lambda>io. ou_index (snd io)) (enumerate 0 os))" using assms(2) by (simp only: map_snd_enumerate)
  with plan_scan_actions[OF s] assms(1) show ?thesis by (auto simp: plan_one_def s split: if_splits)
qed

lemma plan_fold_actions:
  assumes "fold (plan_one os) ds (a, n, b) = (a', n', b')" and "distinct (map ou_index os)"
  shows "bk_posts b' = bk_posts b \<and> bk_rows b' = bk_rows b \<and> bk_last b' = bk_last b \<and> (a \<noteq> [] \<longrightarrow> a' \<noteq> [])
    \<and> ((\<exists>d \<in> set ds. \<exists>io \<in> set (enumerate 0 os). differs (bk_rows b) d io) \<longrightarrow> a' \<noteq> [])"
  using assms(1)
proof (induction ds arbitrary: a n b)
  case (Cons d ds)
  obtain a1 n1 b1 where p: "plan_one os d (a, n, b) = (a1, n1, b1)" by (metis prod_cases3)
  from Cons.prems p have f: "fold (plan_one os) ds (a1, n1, b1) = (a', n', b')" by simp
  from plan_one_actions[OF p assms(2)] Cons.IH[OF f] show ?case by auto
qed simp

lemma set_outlets_on:
  assumes "d \<in> set ds" and "distinct (map od_index ds)" and "od_index d = ou_index x" and "ou_switchable x"
  shows "ou_on (fold (\<lambda>d x. if od_index d = ou_index x \<and> ou_switchable x then x\<lparr>ou_on := od_on d\<rparr> else x) ds x) = od_on d"
  using assms
proof (induction ds arbitrary: x)
  case (Cons e ds)
  have other: "fold (\<lambda>d x. if od_index d = ou_index x \<and> ou_switchable x then x\<lparr>ou_on := od_on d\<rparr> else x) ds y = y"
    if "\<forall>d \<in> set ds. od_index d \<noteq> ou_index y" for ds y using that by (induction ds) auto
  show ?case
  proof (cases "e = d")
    case True
    with Cons.prems have "\<forall>d' \<in> set ds. od_index d' \<noteq> ou_index (x\<lparr>ou_on := od_on d\<rparr>)" by force
    from other[OF this] True Cons.prems show ?thesis by simp
  next
    case False
    with Cons.prems have "od_index e \<noteq> ou_index x" by force
    with Cons False show ?thesis by auto
  qed
qed simp

lemma set_outlets_frame:
  "ou_index (fold (\<lambda>d x. if od_index d = ou_index x \<and> ou_switchable x then x\<lparr>ou_on := od_on d\<rparr> else x) ds x) = ou_index x"
  "ou_switchable (fold (\<lambda>d x. if od_index d = ou_index x \<and> ou_switchable x then x\<lparr>ou_on := od_on d\<rparr> else x) ds x) = ou_switchable x"
  by (induction ds arbitrary: x) auto

text \<open>The last poll as the collector stores it: one row per outlet, switchable exactly when switched.\<close>

definition bk_wf :: "'m backups \<Rightarrow> bool" where
  "bk_wf b \<longleftrightarrow> (case bk_last b of None \<Rightarrow> True | Some os \<Rightarrow> distinct (map ou_index os)
     \<and> list_all (\<lambda>(i, x). ou_switchable x \<longleftrightarrow> switched_row (bk_rows b) i) (enumerate 0 os))"

lemma no_differs_plan: "\<forall>os. bk_last b = Some os \<longrightarrow> (\<forall>d \<in> set ds. \<forall>io \<in> set (enumerate 0 os). \<not> differs (bk_rows b) d io)
    \<Longrightarrow> bk_PlanOutlets ds b = []"
  by (fastforce simp: bk_PlanOutlets_def differs_def split: option.splits)

text \<open>
  Applying converges: after an ApplyOutlets of the Back-UPS driver that returned no error,
  its own plan for the same outlets is empty, so re-applying the same push posts nothing.
\<close>

theorem backups_apply_converges:
  assumes "bk_wf b" and "distinct (map od_index ds)" and "bk_ApplyOutlets pf ds b = (Inr n, b')"
  shows "bk_PlanOutlets ds b' = []"
proof (cases "bk_last b")
  case (Some os)
  then have wf: "distinct (map ou_index os)"
    and sw: "\<And>i x. (i, x) \<in> set (enumerate 0 os) \<Longrightarrow> ou_switchable x = switched_row (bk_rows b) i"
    using assms(1) by (auto simp: bk_wf_def list_all_iff)
  obtain a k b1 where f: "fold (plan_one os) ds ([], 0, b) = (a, k, b1)" by (metis prod_cases3)
  note pf = plan_fold_actions[OF f wf]
  show ?thesis
  proof (cases "a = []")
    case True
    with assms(3) f Some have "b' = b1" by (simp add: bk_ApplyOutlets_def plan_actions_def)
    with pf True Some show ?thesis by (intro no_differs_plan) auto
  next
    case False
    then obtain b2 where c: "Control pf a b1 = (None, b2)"
      and b': "b' = b2\<lparr>bk_last := map_option (set_outlets ds) (bk_last b2)\<rparr>"
      using assms(3) f Some by (auto simp: bk_ApplyOutlets_def plan_actions_def split: prod.splits option.splits)
    from c pf have b2: "bk_rows b2 = bk_rows b" "bk_last b2 = Some os"
      using Some by (auto simp: Control_def split: prod.splits)
    show ?thesis
    proof (intro no_differs_plan allI impI ballI)
      fix os' d io assume os': "bk_last b' = Some os'" and d: "d \<in> set ds" and io: "io \<in> set (enumerate 0 os')"
      from io os' b' b2 obtain i x where x: "(i, x) \<in> set (enumerate 0 os)" and io': "io = (i, fold (\<lambda>d x.
          if od_index d = ou_index x \<and> ou_switchable x then x\<lparr>ou_on := od_on d\<rparr> else x) ds x)"
        by (auto simp: set_outlets_def in_set_enumerate_eq)
      note on = set_outlets_on[OF d assms(2), of x]
      show "\<not> differs (bk_rows b') d io"
        using on sw[OF x] b' b2 by (auto simp: differs_def io' set_outlets_frame)
    qed
  qed
qed (use assms(3) in \<open>simp add: bk_ApplyOutlets_def plan_actions_def\<close>)

lemma backups_apply_converges_witness:
  "\<exists>n b'. bk_ApplyOutlets fine_post [\<lparr>od_index = 2, od_on = False, od_name = []\<rparr>] demo_backups = (Inr n, b')
     \<and> bk_posts b' \<noteq> [] \<and> bk_PlanOutlets [\<lparr>od_index = 2, od_on = False, od_name = []\<rparr>] b' = []"
proof -
  let ?ds = "[\<lparr>od_index = 2, od_on = False, od_name = []\<rparr>]"
  have w: "bk_wf demo_backups" "distinct (map od_index ?ds)" by code_simp+
  have r: "fst (bk_ApplyOutlets fine_post ?ds demo_backups) = Inr 1"
    "bk_posts (snd (bk_ApplyOutlets fine_post ?ds demo_backups)) \<noteq> []" by code_simp+
  obtain b' where b': "bk_ApplyOutlets fine_post ?ds demo_backups = (Inr 1, b')" using r(1) by (metis prod.collapse)
  from backups_apply_converges[OF w b'] b' r(2) show ?thesis by auto
qed

end
