(* ===== verification/ApcPdu.thy ===== *)
theory ApcPdu
  imports ApcBackups "HOL-Library.Word"
begin

unbundle bit_operations_syntax

text \<open>
  \<^verbatim>\<open>internal/drivers/apc-pdu/apply.go\<close>: an APC rack PDU. Relays are switched by an SNMP SET per
  outlet, names and the card's address by uploading a partial config.ini. The two transports are
  parameters; what was set and uploaded is kept.
\<close>

section \<open>Data\<close>

definition oidOutletCtlCmd :: string where "oidOutletCtlCmd = ''1.3.6.1.4.1.318.1.1.12.3.3.1.1.4''"
definition outletCmdOn :: int where "outletCmdOn = 1"
definition outletCmdOff :: int where "outletCmdOff = 2"
definition outletCmdReboot :: int where "outletCmdReboot = 3"
definition outletNameMax :: nat where "outletNameMax = 23"

text \<open>The fields of the last snapshot the apply reads are \<open>pu_last\<close> (its outlets), \<open>pu_addrs\<close>,
  \<open>pu_gateway\<close> and \<open>pu_mac\<close>.\<close>

record 'm pdu =
  pu_link :: 'm
  pu_last :: "dm_outlet list option"
  pu_addrs :: "(string \<times> int) list"
  pu_gateway :: string
  pu_mac :: string
  pu_dhcp :: bool
  pu_warned :: "string list"
  pu_sets :: "(string \<times> int) list"
  pu_uploads :: "string list"

type_synonym 'm snmp_set = "string \<Rightarrow> int \<Rightarrow> 'm \<Rightarrow> string option \<times> 'm"

definition SetInt :: "'m snmp_set \<Rightarrow> string \<Rightarrow> int \<Rightarrow> 'm pdu \<Rightarrow> string option \<times> 'm pdu" where
  "SetInt st oid v p = (case st oid v (pu_link p) of (e, m) \<Rightarrow> (e, p\<lparr>pu_link := m, pu_sets := pu_sets p @ [(oid, v)]\<rparr>))"

definition pdu_PutConfig :: "'m upload \<Rightarrow> string \<Rightarrow> 'm pdu \<Rightarrow> string option \<times> 'm pdu" where
  "pdu_PutConfig up text p = (case up text (pu_link p) of (e, m) \<Rightarrow>
     (e, p\<lparr>pu_link := m, pu_uploads := pu_uploads p @ [text]\<rparr>))"

definition pdu_warnOnce :: "string \<Rightarrow> 'm pdu \<Rightarrow> 'm pdu" where
  "pdu_warnOnce key p = (if key \<in> set (pu_warned p) then p else p\<lparr>pu_warned := key # pu_warned p\<rparr>)"

section \<open>Outlets\<close>

definition truncateName :: "string \<Rightarrow> string" where
  "truncateName s = (let s' = replace_char LF [] (replace_char CR [] s)
     in if outletNameMax < length s' then take outletNameMax s' else s')"

definition outletNameConfig :: "(int \<times> string) list \<Rightarrow> string" where
  "outletNameConfig names = ''[RackPDUOutlet]'' @ crlf
     @ concat (map (\<lambda>i. ''Name'' @ itoa i @ ''='' @ truncateName (the (map_of names i)) @ crlf) (sort (map fst names)))"

definition outlet_oid :: "int \<Rightarrow> string" where
  "outlet_oid i = oidOutletCtlCmd @ ''.'' @ itoa i"

text \<open>The accumulator of the loop over the desired outlets: the driver, the count of changes, the
  names to upload and the errors.\<close>

type_synonym 'm pdu_acc = "'m pdu \<times> int \<times> (int \<times> string) list \<times> string list"

definition note_name :: "outlet_desired \<Rightarrow> dm_outlet \<Rightarrow> (int \<times> string) list \<Rightarrow> (int \<times> string) list" where
  "note_name d have names = (if od_name d \<noteq> [] \<and> od_name d \<noteq> ou_name have
     then AList.update (od_index d) (od_name d) names else names)"

definition pdu_apply_one :: "'m snmp_set \<Rightarrow> dm_outlet alist \<Rightarrow> outlet_desired \<Rightarrow> 'm pdu_acc \<Rightarrow> 'm pdu_acc" where
  "pdu_apply_one st cur d ac = (case ac of (p, changed, names, errs) \<Rightarrow>
     (case map_of cur (od_index d) of
        None \<Rightarrow> (pdu_warnOnce (''outlet '' @ itoa (od_index d)) p, changed, names, errs)
      | Some have \<Rightarrow>
          if ou_switchable have \<and> od_on d \<noteq> ou_on have then
            (case SetInt st (outlet_oid (od_index d)) (if od_on d then outletCmdOn else outletCmdOff) p of
               (Some e, p') \<Rightarrow> (p', changed, names, errs @ [e])
             | (None, p') \<Rightarrow> (p', changed + 1, note_name d have names, errs))
          else (p, changed, note_name d have names, errs)))"

definition pdu_cur :: "dm_outlet list \<Rightarrow> dm_outlet alist" where
  "pdu_cur os = fold (\<lambda>o'. AList.update (ou_index o') o') os []"

definition pdu_ApplyOutlets :: "'m snmp_set \<Rightarrow> 'm upload \<Rightarrow> outlet_desired list \<Rightarrow> ('m pdu, int) dmethod" where
  "pdu_ApplyOutlets st up desired p = (case pu_last p of
     None \<Rightarrow> (Inl ''apc-pdu: no snapshot yet'', p)
   | Some os \<Rightarrow> (case fold (pdu_apply_one st (pdu_cur os)) desired (p, 0, [], []) of
       (p1, changed, names, errs) \<Rightarrow>
         (case (if names = [] then (p1, changed, errs)
                else (case pdu_PutConfig up (outletNameConfig names) p1 of
                    (Some e, p2) \<Rightarrow> (p2, changed, errs @ [e])
                  | (None, p2) \<Rightarrow> (p2, changed + int (length names), errs))) of
            (p2, changed', errs') \<Rightarrow>
              (if errs' \<noteq> [] then Inl (''apc-pdu: '' @ join ''; '' errs') else Inr changed', p2))))"

definition pdu_CycleOutlet :: "'m snmp_set \<Rightarrow> int \<Rightarrow> 'm pdu act" where
  "pdu_CycleOutlet st idx p = SetInt st (outlet_oid idx) outletCmdReboot p"

section \<open>The card's address\<close>

definition overrideMAC :: "string \<Rightarrow> string" where
  "overrideMAC mac = to_upper (replace_char (CHR '':'') '' '' mac)"

definition pdu_tcpipConfig :: "string \<Rightarrow> string \<Rightarrow> string \<Rightarrow> string \<Rightarrow> string \<Rightarrow> string" where
  "pdu_tcpipConfig mac mode ip m gw =
     ''[NetworkTCP/IP]'' @ crlf
     @ ''Override='' @ overrideMAC mac @ crlf
     @ ''BootMode='' @ mode @ crlf
     @ (if ip \<noteq> [] then ''SystemIP='' @ ip @ crlf else [])
     @ (if m \<noteq> [] then ''SubnetMask='' @ m @ crlf else [])
     @ (if gw \<noteq> [] then ''DefaultGateway='' @ gw @ crlf else [])"

definition pdu_maskFromPrefix :: "int \<Rightarrow> string" where
  "pdu_maskFromPrefix n = (if n < 0 \<or> 32 < n then []
     else (let v = (if n = 0 then 0 else push_bit (nat (32 - n)) (0xFFFFFFFF :: 32 word))
           in nat_digits (unat (drop_bit 24 v)) @ ''.'' @ nat_digits (unat (drop_bit 16 v AND 255)) @ ''.''
              @ nat_digits (unat (drop_bit 8 v AND 255)) @ ''.'' @ nat_digits (unat (v AND 255))))"

definition pdu_ApplyAddress :: "'m upload \<Rightarrow> address_desired \<Rightarrow> ('m pdu, bool) dmethod" where
  "pdu_ApplyAddress up d p =
     (if pu_last p = None then (Inl ''apc-pdu: no snapshot yet'', p)
      else if ad_dhcp d then
        (if pu_dhcp p then (Inr False, p)
         else (case pdu_PutConfig up (pdu_tcpipConfig (pu_mac p) ''DHCP Only'' [] [] []) p of
             (Some e, p') \<Rightarrow> (Inl e, p')
           | (None, p') \<Rightarrow> (Inr True, p'\<lparr>pu_dhcp := True\<rparr>)))
      else if ad_ip d = [] \<or> ad_prefix d \<le> 0 then (Inl ''apc-pdu: static address without an IP and prefix length'', p)
      else if \<not> pu_dhcp p \<and> pu_addrs p = [(ad_ip d, ad_prefix d)] \<and> (ad_gateway d = [] \<or> ad_gateway d = pu_gateway p)
        then (Inr False, p)
      else (case pdu_PutConfig up (pdu_tcpipConfig (pu_mac p) ''Manual'' (ad_ip d) (pdu_maskFromPrefix (ad_prefix d)) (ad_gateway d)) p of
          (Some e, p') \<Rightarrow> (Inl e, p')
        | (None, p') \<Rightarrow> (Inr True, p'\<lparr>pu_dhcp := False\<rparr>)))"

section \<open>What is written\<close>

text \<open>The outlets an apply switches: known, switchable, and in the other state.\<close>

definition pdu_switches :: "dm_outlet list \<Rightarrow> outlet_desired \<Rightarrow> bool" where
  "pdu_switches os d = (case map_of (pdu_cur os) (od_index d) of
     None \<Rightarrow> False | Some have \<Rightarrow> ou_switchable have \<and> od_on d \<noteq> ou_on have)"

definition switch_set :: "outlet_desired \<Rightarrow> string \<times> int" where
  "switch_set d = (outlet_oid (od_index d), if od_on d then 1 else 2)"

lemma pdu_apply_one_sets:
  assumes "pdu_apply_one st (pdu_cur os) d (p, n, ns, es) = (p', n', ns', es')"
  shows "pu_sets p' = pu_sets p @ (if pdu_switches os d then [switch_set d] else []) \<and> pu_uploads p' = pu_uploads p"
  using assms
  by (auto simp: pdu_apply_one_def pdu_switches_def pdu_warnOnce_def SetInt_def switch_set_def outletCmdOn_def
      outletCmdOff_def split: option.splits prod.splits if_splits)

lemma pdu_fold_sets:
  assumes "fold (pdu_apply_one st (pdu_cur os)) ds (p, n, ns, es) = (p', n', ns', es')"
  shows "pu_sets p' = pu_sets p @ map switch_set (filter (pdu_switches os) ds) \<and> pu_uploads p' = pu_uploads p"
  using assms
proof (induction ds arbitrary: p n ns es)
  case (Cons d ds)
  obtain p1 n1 ns1 es1 where o: "pdu_apply_one st (pdu_cur os) d (p, n, ns, es) = (p1, n1, ns1, es1)" by (metis prod_cases4)
  with Cons.prems have "fold (pdu_apply_one st (pdu_cur os)) ds (p1, n1, ns1, es1) = (p', n', ns', es')" by simp
  from Cons.IH[OF this] pdu_apply_one_sets[OF o] show ?case by auto
qed simp

lemma pdu_PutConfig_out: "pdu_PutConfig up t p = (e, p') \<Longrightarrow> pu_sets p' = pu_sets p \<and> pu_uploads p' = pu_uploads p @ [t]"
  by (auto simp: pdu_PutConfig_def split: prod.splits)

lemma pdu_apply_out:
  assumes "pu_last p = Some os" and "fold (pdu_apply_one st (pdu_cur os)) ds (p, 0, [], []) = (p1, n, names, es)"
  shows "pu_sets (snd (pdu_ApplyOutlets st up ds p)) = pu_sets p @ map switch_set (filter (pdu_switches os) ds)"
    and "pu_uploads (snd (pdu_ApplyOutlets st up ds p)) = pu_uploads p @ (if names = [] then [] else [outletNameConfig names])"
proof -
  note f = pdu_fold_sets[OF assms(2)]
  obtain e p2 where c: "pdu_PutConfig up (outletNameConfig names) p1 = (e, p2)" by fastforce
  have "snd (pdu_ApplyOutlets st up ds p) = (if names = [] then p1 else p2)"
    by (simp add: pdu_ApplyOutlets_def assms c split: option.split)
  with f pdu_PutConfig_out[OF c]
  show "pu_sets (snd (pdu_ApplyOutlets st up ds p)) = pu_sets p @ map switch_set (filter (pdu_switches os) ds)"
    and "pu_uploads (snd (pdu_ApplyOutlets st up ds p)) = pu_uploads p @ (if names = [] then [] else [outletNameConfig names])"
    by auto
qed

lemma pdu_sets_diff:
  "pu_sets (snd (pdu_ApplyOutlets st up ds p)) = pu_sets p
     @ (case pu_last p of None \<Rightarrow> [] | Some os \<Rightarrow> map switch_set (filter (pdu_switches os) ds))"
proof (cases "pu_last p")
  case (Some os)
  obtain p1 n names es where f: "fold (pdu_apply_one st (pdu_cur os)) ds (p, 0, [], []) = (p1, n, names, es)"
    by (metis prod_cases4)
  show ?thesis using Some pdu_apply_out(1)[OF Some f, of up] by simp
qed (simp add: pdu_ApplyOutlets_def)

section \<open>Properties\<close>

text \<open>
  Applying outlets on a rack PDU writes a strict diff: one SNMP SET per outlet that exists, is
  switchable and is in the other state, in the order of the push, on or off as pushed, whatever the
  card answers; and the renames are batched into at most one upload.
\<close>

theorem pdu_apply_is_a_diff:
  "pu_sets (snd (pdu_ApplyOutlets st up ds p)) = pu_sets p
      @ (case pu_last p of None \<Rightarrow> [] | Some os \<Rightarrow> map switch_set (filter (pdu_switches os) ds))
    \<and> (\<exists>u. pu_uploads (snd (pdu_ApplyOutlets st up ds p)) = pu_uploads p @ u \<and> length u \<le> 1)"
proof (cases "pu_last p")
  case (Some os)
  obtain p1 n names es where f: "fold (pdu_apply_one st (pdu_cur os)) ds (p, 0, [], []) = (p1, n, names, es)"
    by (metis prod_cases4)
  show ?thesis using pdu_apply_out(2)[OF Some f, of up] by (simp add: pdu_sets_diff)
qed (simp add: pdu_ApplyOutlets_def)

lemma replace_char_removes: "c \<notin> set (replace_char c [] s)" "set (replace_char c [] s) \<subseteq> set s"
  by (auto simp: replace_char_def split: if_splits)

lemma truncateName_safe: "LF \<notin> set (truncateName s)" "CR \<notin> set (truncateName s)" "length (truncateName s) \<le> outletNameMax"
  using replace_char_removes[of LF "replace_char CR [] s"] replace_char_removes(1)[of CR s]
  by (auto simp: truncateName_def Let_def dest: in_set_takeD)

lemma count_lines_concat:
  "(\<And>x. x \<in> set xs \<Longrightarrow> count_list (f x) LF = 1) \<Longrightarrow> count_list (concat (map f xs)) LF = length xs"
  by (induction xs) auto

text \<open>
  A controller-given name cannot inject configuration: the upload that renames outlets has
  exactly one line per renamed outlet after its section header, whatever characters the names
  hold.
\<close>

theorem pdu_names_one_line_each:
  "count_list (outletNameConfig names) LF = Suc (length names)"
proof -
  have "count_list (''Name'' @ itoa i @ ''='' @ truncateName s @ crlf) LF = 1" for i s
    using itoa_one_line[of i] truncateName_safe(1)[of s] by (simp add: crlf_def count_notin)
  then show ?thesis by (simp add: outletNameConfig_def count_lines_concat) (simp add: crlf_def)
qed

text \<open>
  A name longer than the card's limit is uploaded on every apply: even when the card already
  holds exactly the truncated name the driver wrote, the apply compares it with the untruncated
  one and uploads it again.
\<close>

theorem pdu_long_name_never_settles:
  assumes "pu_last p = Some [x]" and "ou_index x = i" and "ou_on x = on" and "ou_name x = truncateName name"
    and "outletNameMax < length name"
  shows "pu_uploads (snd (pdu_ApplyOutlets st up [\<lparr>od_index = i, od_on = on, od_name = name\<rparr>] p))
    = pu_uploads p @ [outletNameConfig [(i, name)]]"
proof -
  have n: "name \<noteq> ou_name x" "name \<noteq> []" using assms(4,5) truncateName_safe(3)[of name] by auto
  have "fold (pdu_apply_one st (pdu_cur [x])) [\<lparr>od_index = i, od_on = on, od_name = name\<rparr>] (p, 0, [], [])
      = (p, 0, [(i, name)], [])" using assms(2,3) n by (simp add: pdu_apply_one_def pdu_cur_def note_name_def)
  from pdu_apply_out(2)[OF assms(1) this, of up] show ?thesis by simp
qed

definition demo_pdu :: "unit pdu" where
  "demo_pdu = \<lparr>pu_link = (), pu_last = Some [\<lparr>ou_index = 1, ou_name = ''abcdefghijklmnopqrstuvw'', ou_on = True, ou_switchable = True\<rparr>],
     pu_addrs = [], pu_gateway = [], pu_mac = ''00:c0:b7:d2:a5:a1'', pu_dhcp = True, pu_warned = [],
     pu_sets = [], pu_uploads = []\<rparr>"

definition fine_set :: "unit snmp_set" where "fine_set = (\<lambda>_ _ m. (None, m))"
definition fine_upload :: "unit upload" where "fine_upload = (\<lambda>_ m. (None, m))"

lemma pdu_long_name_never_settles_witness:
  "pu_uploads (snd (pdu_ApplyOutlets fine_set fine_upload
      [\<lparr>od_index = 1, od_on = True, od_name = ''abcdefghijklmnopqrstuvwxyz''\<rparr>] demo_pdu))
    = [''[RackPDUOutlet]'' @ crlf @ ''Name1=abcdefghijklmnopqrstuvw'' @ crlf]"
proof -
  let ?x = "\<lparr>ou_index = 1, ou_name = ''abcdefghijklmnopqrstuvw'', ou_on = True, ou_switchable = True\<rparr>"
  let ?n = "''abcdefghijklmnopqrstuvwxyz''"
  have l: "pu_last demo_pdu = Some [?x]" "pu_uploads demo_pdu = []" by (simp_all add: demo_pdu_def)
  have t: "ou_name ?x = truncateName ?n" "outletNameMax < length ?n"
    "outletNameConfig [(1, ?n)] = ''[RackPDUOutlet]'' @ crlf @ ''Name1=abcdefghijklmnopqrstuvw'' @ crlf" by code_simp+
  from pdu_long_name_never_settles[OF l(1) _ _ t(1,2), of 1 True fine_set fine_upload] t(3) l(2) show ?thesis by simp
qed

text \<open>
  The hold of the first outlet push does not reach a rack PDU: the driver offers no plan, so
  the first push of a run switches every outlet whose state differs, initial changes allowed or
  not.
\<close>

theorem pdu_first_push_not_held:
  assumes "lc_outlets cfg = Some oc" and "oc_ApplyOutlets oc = pdu_ApplyOutlets st up"
    and "fc_PlanOutlets (oc_face oc) = None" and "pu_last (lp_dev l) = Some os"
  shows "pu_sets (lp_dev (apply_outlets cfg ev oc ver text l)) = pu_sets (lp_dev l)
    @ map switch_set (filter (pdu_switches os) (desiredOutlets cfg text))"
proof -
  let ?ds = "desiredOutlets cfg text"
  have h: "holdInitialOutletPush cfg ver ?ds l = (False, l)"
    using assms(1,3) by (simp add: holdInitialOutletPush_def outlet_planner_def)
  obtain r l2 where i: "invoke (CApplyOutlets ?ds) (oc_ApplyOutlets oc ?ds) l = (r, l2)" by fastforce
  have m: "lp_dev (mark_applied ev ver y) = lp_dev y" for y :: "'a pdu loop"
    by (simp add: mark_applied_def split: prod.split option.split)
  have "lp_dev (apply_outlets cfg ev oc ver text l) = lp_dev l2"
    by (simp add: apply_outlets_def Let_def h i m apply_failed_def split: sum.split)
  also have "\<dots> = snd (pdu_ApplyOutlets st up ?ds (lp_dev l))"
    using i assms(2) by (auto simp: invoke_def split: prod.splits)
  finally show ?thesis using assms(4) by (simp add: pdu_sets_diff)
qed

definition pdu_outlets :: "unit pdu outlet_controller" where
  "pdu_outlets = \<lparr>oc_face = no_face, oc_ApplyOutlets = pdu_ApplyOutlets fine_set fine_upload\<rparr>"

definition pdu_config :: "unit pdu loop_config" where
  "pdu_config = base_config\<lparr>lc_outlets := Some pdu_outlets\<rparr>"

definition pdu_loop :: "unit pdu loop" where
  "pdu_loop = NewLoop pdu_config 0 [] None demo_pending demo_pdu"

lemma pdu_first_push_not_held_witness:
  "\<not> lc_allow_initial pdu_config \<and> \<not> lp_ever_outlet_applied pdu_loop \<and>
   pu_sets (lp_dev (apply_outlets pdu_config demo_env pdu_outlets ''v7'' ''outlet.1.relay_state=disabled'' pdu_loop))
     = [(''1.3.6.1.4.1.318.1.1.12.3.3.1.1.4.1'', 2)]"
proof -
  have h: "lc_outlets pdu_config = Some pdu_outlets" "oc_ApplyOutlets pdu_outlets = pdu_ApplyOutlets fine_set fine_upload"
    "fc_PlanOutlets (oc_face pdu_outlets) = None" "\<not> lc_allow_initial pdu_config"
    by (simp_all add: pdu_config_def base_config_def pdu_outlets_def no_face_def)
  let ?os = "[\<lparr>ou_index = 1, ou_name = ''abcdefghijklmnopqrstuvw'', ou_on = True, ou_switchable = True\<rparr>]"
  have e: "\<not> lp_ever_outlet_applied pdu_loop" "pu_sets (lp_dev pdu_loop) = []" by code_simp+
  have o: "pu_last (lp_dev pdu_loop) = Some ?os" by code_simp
  have w: "map switch_set (filter (pdu_switches ?os) (desiredOutlets pdu_config ''outlet.1.relay_state=disabled''))
     = [(''1.3.6.1.4.1.318.1.1.12.3.3.1.1.4.1'', 2)]" by code_simp
  from pdu_first_push_not_held[OF h(1-3) o] h(4) e w show ?thesis by simp
qed

lemma unat_byte:
  fixes w :: "32 word"
  shows "unat (w AND 255) = unat w mod 256" "unat (drop_bit k w) = unat w div 2 ^ k"
proof -
  have m: "(255 :: 32 word) = mask 8" by (simp add: mask_eq_exp_minus_1)
  show "unat (w AND 255) = unat w mod 256"
    unfolding m take_bit_eq_mask[symmetric] unsigned_take_bit_eq by (simp add: take_bit_eq_mod)
  show "unat (drop_bit k w) = unat w div 2 ^ k" by (metis unat_drop_bit_eq drop_bit_eq_div)
qed

lemma unat_shifted: "k < 32 \<Longrightarrow> unat (push_bit k (0xFFFFFFFF :: 32 word)) = 0xFFFFFFFF * 2 ^ k mod 2 ^ 32"
  by (simp only: unsigned_push_bit_eq) (simp add: take_bit_eq_mod push_bit_eq_mult)

lemma shifted_mask_bytes:
  assumes "0 < k" and "k \<le> 32" and "v = 0xFFFFFFFF * 2 ^ (32 - k) mod (2 ^ 32 :: nat)"
  shows "[v div 2 ^ 24, v div 2 ^ 16 mod 256, v div 2 ^ 8 mod 256, v mod 256] = mask_bytes k [255, 255, 255, 255]"
proof -
  have "k \<in> set (map Suc [0..<32])" using assms(1,2) by (cases k) auto
  then show ?thesis unfolding assms(3) by (simp add: upt_rec) (elim disjE; simp add: mask_byte_def)
qed

lemma pdu_mask_agrees: "pdu_maskFromPrefix n = maskFromPrefix n"
proof -
  consider "n < 0 \<or> 32 < n" | "n = 0" | "0 < n" "n \<le> 32" by linarith
  then show ?thesis
  proof cases
    case 3
    let ?v = "push_bit (nat (32 - n)) (0xFFFFFFFF :: 32 word)"
    have "nat (32 - n) = 32 - nat n" using 3 by simp
    then have "unat ?v = 0xFFFFFFFF * 2 ^ (32 - nat n) mod 2 ^ 32" using unat_shifted[of "32 - nat n"] 3 by simp
    from shifted_mask_bytes[OF _ _ this] 3
    have b: "mask_bytes (nat n) [255, 255, 255, 255]
        = [unat (drop_bit 24 ?v), unat (drop_bit 16 ?v AND 255), unat (drop_bit 8 ?v AND 255), unat (?v AND 255)]"
      unfolding unat_byte by simp
    from 3 show ?thesis unfolding pdu_maskFromPrefix_def maskFromPrefix_def dotted_def b Let_def by simp
  qed (simp_all add: pdu_maskFromPrefix_def maskFromPrefix_def dotted_def mask_byte_def)
qed

text \<open>
  The rack PDU and the Back-UPS driver write the same section for the same address: the mask
  computed by shifting a 32-bit word is the one of the library's CIDR mask at every prefix length,
  out-of-range ones included, and the sections agree byte for byte.
\<close>

theorem pdu_address_section_agrees:
  "pdu_tcpipConfig mac mode ip (pdu_maskFromPrefix n) gw = tcpipConfig mac mode ip (maskFromPrefix n) gw"
  by (simp add: pdu_tcpipConfig_def tcpipConfig_def overrideMAC_def pdu_mask_agrees)

end
