(* ===== verification/Eos.thy ===== *)
theory Eos
  imports LoopState "HOL-Library.List_Lexorder" "HOL-Library.Char_ord"
begin

text \<open>
  \<^verbatim>\<open>internal/drivers/arista-eos\<close>: writing to an Arista switch (\<^verbatim>\<open>apply.go\<close>, the apply side of
  \<^verbatim>\<open>features.go\<close>, \<^verbatim>\<open>address.go\<close> and the VLAN lists of \<^verbatim>\<open>vlan.go\<close>). The transports are the parameter
  \<open>net\<close>: configuring and running commands on a transport dialled to a host. Every batch sent is
  kept with the host it went to. Go's map iteration order and the shortest decimal of a float are
  the parameters \<open>ord\<close> and \<open>fmt\<close>. Descriptions are valid UTF-8, so a rune test is a byte test.
\<close>

section \<open>State\<close>

record 'm eos_net =
  en_configure :: "string \<Rightarrow> string list \<Rightarrow> 'm \<Rightarrow> string option \<times> 'm"
  en_run :: "string \<Rightarrow> string list \<Rightarrow> 'm \<Rightarrow> string option \<times> 'm"
  en_redial :: bool

record 'm eos =
  eo_link :: 'm
  eo_host :: string
  eo_last :: "snapshot option"
  eo_name_servers :: "string list"
  eo_port_channels :: "(string \<times> port_vlan) list"
  eo_managed_snmp :: string
  eo_ssh_user :: string
  eo_keys :: "string list"
  eo_sent :: "(string \<times> string list) list"

definition Configure :: "'m eos_net \<Rightarrow> string \<Rightarrow> string list \<Rightarrow> 'm eos \<Rightarrow> string option \<times> 'm eos" where
  "Configure net host cmds e = (case en_configure net host cmds (eo_link e) of (r, m) \<Rightarrow>
     (r, e\<lparr>eo_link := m, eo_sent := eo_sent e @ [(host, cmds)]\<rparr>))"

section \<open>VLAN lists\<close>

definition vlan_part :: "string \<Rightarrow> int list" where
  "vlan_part part =
     (case str_cut (CHR ''-'') (trim_space part) of
        None \<Rightarrow> (case atoi (trim_space part) of None \<Rightarrow> [] | Some a \<Rightarrow> [a])
      | Some (lo, hi) \<Rightarrow> (case (atoi lo, atoi hi) of (Some a, Some b) \<Rightarrow> [a..b] | _ \<Rightarrow> []))"

definition parseVLANList :: "string \<Rightarrow> int list \<times> bool" where
  "parseVLANList s =
     (let u = to_upper (trim_space s)
      in if u = ''ALL'' then ([], True)
         else if u = ''NONE'' \<or> u = [] then ([], False)
         else (sort (concat (map vlan_part (split_on (CHR '','') s))), False))"

fun take_run :: "int \<Rightarrow> int list \<Rightarrow> int \<times> int list" where
  "take_run x [] = (x, [])"
| "take_run x (y # ys) = (if y = x + 1 then take_run y ys else (x, y # ys))"

lemma take_run_length [termination_simp]: "(e, rest) = take_run x ys \<Longrightarrow> length rest < Suc (length ys)"
  by (induction x ys rule: take_run.induct) (auto split: if_splits)

fun vlan_parts :: "int list \<Rightarrow> string list" where
  "vlan_parts [] = []"
| "vlan_parts (x # xs) = (case take_run x xs of (e, rest) \<Rightarrow>
     (if x < e then itoa x @ ''-'' @ itoa e else itoa x) # vlan_parts rest)"

definition formatVLANList :: "int list \<Rightarrow> string" where
  "formatVLANList ids = join '','' (vlan_parts (sort ids))"

definition uniqueSorted :: "int list \<Rightarrow> int list" where
  "uniqueSorted ids = remdups_adj (sort ids)"

section \<open>The commands for one port\<close>

definition isCopperMedia :: "media \<Rightarrow> bool" where
  "isCopperMedia m \<longleftrightarrow> m = MediaCopper1G \<or> m = MediaCopper2G5 \<or> m = MediaCopper10G"

definition speedKeyword :: "int \<Rightarrow> string" where
  "speedKeyword mbps =
     (if mbps = 100 then ''100full'' else if mbps = 1000 then ''1000full'' else if mbps = 2500 then ''2.5gfull''
      else if mbps = 5000 then ''5gfull'' else if mbps = 10000 then ''10gfull'' else if mbps = 25000 then ''25gfull''
      else if mbps = 40000 then ''40gfull'' else if mbps = 50000 then ''50gfull'' else if mbps = 100000 then ''100gfull''
      else [])"

definition speedCommands :: "dm_port \<Rightarrow> port_desired \<Rightarrow> string list" where
  "speedCommands p d =
     (if 0 < pd_speed d then
        (if po_admin_speed p = pd_speed d \<and> \<not> po_lanes_diverge p then []
         else if speedKeyword (pd_speed d) = [] then []
         else [''speed forced '' @ speedKeyword (pd_speed d)])
      else if isCopperMedia (po_media p) \<and> po_admin_speed p \<noteq> 0 then [''speed auto'']
      else [])"

definition desiredVLAN :: "port_desired \<Rightarrow> port_vlan" where
  "desiredVLAN d =
     (if \<not> pd_tagged_all d \<and> pd_tagged d = []
      then \<lparr>pv_mode = ''access'', pv_native = pd_native d, pv_all = False, pv_allowed = []\<rparr>
      else \<lparr>pv_mode = ''trunk'', pv_native = pd_native d, pv_all = pd_tagged_all d,
         pv_allowed = (if pd_tagged_all d then []
           else uniqueSorted (pd_tagged d @ (if 0 < pd_native d then [pd_native d] else [])))\<rparr>)"

definition vlan_matches :: "dm_port \<Rightarrow> port_vlan \<Rightarrow> bool" where
  "vlan_matches p want \<longleftrightarrow> (let have = po_vlan p in
     \<not> po_lanes_diverge p \<and> pv_mode have = pv_mode want \<and> pv_native have = pv_native want
     \<and> pv_all have = pv_all want \<and> (pv_all want \<or> pv_allowed have = pv_allowed want))"

definition vlanCommands :: "dm_port \<Rightarrow> port_desired \<Rightarrow> string list" where
  "vlanCommands p d =
     (if \<not> pd_vlan_set d \<or> pd_native d = 0 then []
      else (let want = desiredVLAN d in
        if vlan_matches p want then []
        else if pv_mode want = ''access''
          then [''switchport mode access'', ''switchport access vlan '' @ itoa (pv_native want)]
        else [''switchport mode trunk'',
              if pv_native want = 1 then ''no switchport trunk native vlan''
              else ''switchport trunk native vlan '' @ itoa (pv_native want),
              if pv_all want then ''switchport trunk allowed vlan all''
              else ''switchport trunk allowed vlan '' @ formatVLANList (pv_allowed want)]))"

definition lagCommands :: "dm_port \<Rightarrow> port_desired \<Rightarrow> string list" where
  "lagCommands p d =
     (if 0 < pd_lag d \<and> po_lag_id p \<noteq> pd_lag d then [''channel-group '' @ itoa (pd_lag d) @ '' mode active'']
      else if pd_lag d = 0 \<and> 0 < po_lag_id p then [''no channel-group'']
      else [])"

definition fecCommands :: "dm_port \<Rightarrow> port_desired \<Rightarrow> string list" where
  "fecCommands p d = (case pd_fec d of
     None \<Rightarrow> []
   | Some f \<Rightarrow> if f = po_fec_config p then []
       else (case f of
           FECRS \<Rightarrow> [''error-correction encoding reed-solomon'']
         | FECFC \<Rightarrow> [''error-correction encoding fire-code'']
         | FECDisabled \<Rightarrow> if po_fec_config p = FECUnknown then [] else [''no error-correction encoding'']
         | FECUnknown \<Rightarrow> []))"

definition no_storm :: storm_spec where
  "no_storm = \<lparr>bcast_pct = None, mcast_pct = None, ucast_pct = None\<rparr>"

definition storm_line :: "(real \<Rightarrow> string) \<Rightarrow> string \<Rightarrow> real option \<Rightarrow> real option \<Rightarrow> string list" where
  "storm_line fmt kw have want =
     (if have = want then []
      else (case want of
          None \<Rightarrow> [''no storm-control '' @ kw]
        | Some x \<Rightarrow> [''storm-control '' @ kw @ '' level '' @ fmt x]))"

definition stormCommands :: "(real \<Rightarrow> string) \<Rightarrow> dm_port \<Rightarrow> port_desired \<Rightarrow> string list" where
  "stormCommands fmt p d =
     (let have = (case po_storm p of None \<Rightarrow> no_storm | Some s \<Rightarrow> s);
          want = (case pd_storm d of None \<Rightarrow> no_storm | Some s \<Rightarrow> s)
      in storm_line fmt ''broadcast'' (bcast_pct have) (bcast_pct want)
         @ storm_line fmt ''multicast'' (mcast_pct have) (mcast_pct want)
         @ storm_line fmt ''unknown-unicast'' (ucast_pct have) (ucast_pct want))"

definition bpduGuardCommands :: "dm_port \<Rightarrow> port_desired \<Rightarrow> string list" where
  "bpduGuardCommands p d =
     (if pd_bpdu d \<and> \<not> po_bpdu_guard p then [''spanning-tree bpduguard enable'']
      else if \<not> pd_bpdu d \<and> po_bpdu_guard p then [''no spanning-tree bpduguard'']
      else [])"

definition stpEdgeCommands :: "dm_port \<Rightarrow> port_desired \<Rightarrow> string list" where
  "stpEdgeCommands p d =
     (if pd_stp_edge d \<and> \<not> po_stp_edge p then [''spanning-tree portfast'', ''spanning-tree bpdufilter enable'']
      else if \<not> pd_stp_edge d \<and> po_stp_edge p then [''no spanning-tree portfast'', ''no spanning-tree bpdufilter'']
      else [])"

definition sanitizeDescription :: "string \<Rightarrow> string" where
  "sanitizeDescription s = take 240 (trim_space (filter (\<lambda>c. 32 \<le> char_code c \<and> c \<noteq> CHR 0x7F) s))"

definition adminCommands :: "dm_port \<Rightarrow> port_desired \<Rightarrow> string list" where
  "adminCommands p d =
     (if pd_enabled d \<noteq> po_enabled p then [if pd_enabled d then ''no shutdown'' else ''shutdown''] else [])
     @ (if pd_description d \<noteq> po_description p
        then [if pd_description d = [] then ''no description'' else ''description '' @ sanitizeDescription (pd_description d)]
        else [])"

definition laneNames :: "dm_port \<Rightarrow> string list" where
  "laneNames p = (if po_interfaces p \<noteq> [] then po_interfaces p else [po_ifname p])"

section \<open>Planning\<close>

definition port_map :: "dm_port list \<Rightarrow> dm_port alist" where
  "port_map ports = fold (\<lambda>p. AList.update (po_index p) p) ports []"

definition mirror_one :: "dm_port alist \<Rightarrow> port_desired \<Rightarrow> string list" where
  "mirror_one live d = (case map_of live (pd_index d) of
     None \<Rightarrow> []
   | Some p \<Rightarrow>
       if 0 < pd_mirror d \<and> po_mirror_from p \<noteq> pd_mirror d then
         (case map_of live (pd_mirror d) of
            None \<Rightarrow> []
          | Some src \<Rightarrow>
              (let n = itoa (pd_index d)
               in (if 0 < po_mirror_from p then [''no monitor session '' @ n] else [])
                  @ map (\<lambda>lane. ''monitor session '' @ n @ '' source '' @ lane @ '' both'') (laneNames src)
                  @ [''monitor session '' @ n @ '' destination '' @ hd (laneNames p)]))
       else if pd_mirror d = 0 \<and> 0 < po_mirror_from p then [''no monitor session '' @ itoa (pd_index d)]
       else [])"

definition mirrorCommands :: "dm_port list \<Rightarrow> port_desired list \<Rightarrow> string list" where
  "mirrorCommands ports desired = concat (map (mirror_one (port_map ports)) desired)"

definition mirror_touched :: "dm_port alist \<Rightarrow> port_desired \<Rightarrow> bool" where
  "mirror_touched live d = (case map_of live (pd_index d) of
     None \<Rightarrow> False | Some p \<Rightarrow> po_mirror_from p \<noteq> pd_mirror d)"

definition port_commands :: "(real \<Rightarrow> string) \<Rightarrow> dm_port \<Rightarrow> port_desired \<Rightarrow> string list" where
  "port_commands fmt p d = adminCommands p d @ (if 0 < pd_lag d then [] else vlanCommands p d)
     @ lagCommands p d @ fecCommands p d @ stormCommands fmt p d @ bpduGuardCommands p d @ stpEdgeCommands p d"

text \<open>The lanes of a cage: a join speed goes to the first lane only, a lane speed to every lane.\<close>

definition lane_commands :: "port_desired \<Rightarrow> string list \<Rightarrow> string list \<Rightarrow> nat \<times> string \<Rightarrow> string list" where
  "lane_commands d speed portc lane = (case lane of (i, ifname) \<Rightarrow>
     (let cmds = (if i = 0 \<or> 0 < pd_speed d \<and> pd_speed d < 40000 then speed @ portc else portc)
      in if cmds = [] then [] else (''interface '' @ ifname) # cmds))"

record eos_acc =
  ea_cmds :: "string list"
  ea_touched :: "int list"
  ea_changed :: int
  ea_lag_vlan :: "port_desired alist"
  ea_lag_ports :: "int list alist"

definition touch :: "int \<Rightarrow> eos_acc \<Rightarrow> eos_acc" where
  "touch i a = a\<lparr>ea_touched := List.insert i (ea_touched a)\<rparr>"

definition note_lag :: "port_desired \<Rightarrow> eos_acc \<Rightarrow> eos_acc" where
  "note_lag d a = (if 0 < pd_lag d
     then a\<lparr>ea_lag_vlan := (if pd_lag d \<in> set (mkeys (ea_lag_vlan a)) then ea_lag_vlan a else AList.update (pd_lag d) d (ea_lag_vlan a)),
        ea_lag_ports := AList.update (pd_lag d) (mget [] (ea_lag_ports a) (pd_lag d) @ [pd_index d]) (ea_lag_ports a)\<rparr>
     else a)"

definition plan_port :: "(real \<Rightarrow> string) \<Rightarrow> dm_port alist \<Rightarrow> port_desired \<Rightarrow> eos_acc \<Rightarrow> eos_acc" where
  "plan_port fmt live d a = (case map_of live (pd_index d) of
     None \<Rightarrow> a
   | Some p \<Rightarrow>
       (let a1 = note_lag d a; portc = port_commands fmt p d; speed = speedCommands p d
        in if portc = [] \<and> speed = [] then a1
           else touch (pd_index d) (a1\<lparr>ea_changed := ea_changed a1 + 1,
             ea_cmds := ea_cmds a1 @ concat (map (lane_commands d speed portc) (enumerate 0 (laneNames p)))\<rparr>)))"

definition empty_port :: "string \<Rightarrow> port_vlan \<Rightarrow> dm_port" where
  "empty_port name v = \<lparr>po_index = 0, po_ifname = name, po_interfaces = [], po_description = [], po_media = MediaUnknown,
     po_lanes = 0, po_enabled = False, po_fault = [], po_up = False, po_neighbor = None, po_admin_speed = 0,
     po_lanes_diverge = False, po_vlan = v, po_lag = [], po_lag_id = 0, po_lacp = None, po_mirror_from = 0,
     po_fec_config = FECUnknown, po_bpdu_guard = False, po_stp_edge = False, po_storm = None, po_macs = []\<rparr>"

definition no_vlan :: port_vlan where
  "no_vlan = \<lparr>pv_mode = [], pv_native = 0, pv_all = False, pv_allowed = []\<rparr>"

definition lag_name :: "int \<Rightarrow> string" where
  "lag_name lag = ''Port-Channel'' @ itoa lag"

definition plan_lag :: "(string \<times> port_vlan) list \<Rightarrow> int \<times> port_desired \<Rightarrow> eos_acc \<Rightarrow> eos_acc" where
  "plan_lag pcs ld a = (case ld of (lag, d) \<Rightarrow>
     (let pc = empty_port (lag_name lag) (mget no_vlan pcs (lag_name lag)); v = vlanCommands pc d
      in if v = [] then a
         else fold touch (mget [] (ea_lag_ports a) lag)
           (a\<lparr>ea_cmds := ea_cmds a @ [''interface '' @ po_ifname pc] @ v, ea_changed := ea_changed a + 1\<rparr>)))"

text \<open>The order a range over the map of aggregates takes, as a rank of its keys.\<close>

type_synonym lag_order = "int \<Rightarrow> nat"

definition mirror_acc :: "dm_port list \<Rightarrow> port_desired list \<Rightarrow> eos_acc" where
  "mirror_acc ports desired =
     (let mirror = mirrorCommands ports desired;
          a = \<lparr>ea_cmds = mirror, ea_touched = [], ea_changed = (if mirror = [] then 0 else 1), ea_lag_vlan = [], ea_lag_ports = []\<rparr>
      in if mirror = [] then a
         else fold (\<lambda>d. touch (pd_index d)) (filter (mirror_touched (port_map ports)) desired) a)"

definition ports_acc :: "(real \<Rightarrow> string) \<Rightarrow> dm_port list \<Rightarrow> port_desired list \<Rightarrow> eos_acc" where
  "ports_acc fmt ports desired = fold (plan_port fmt (port_map ports)) desired (mirror_acc ports desired)"

definition plan_acc :: "lag_order \<Rightarrow> (real \<Rightarrow> string) \<Rightarrow> (string \<times> port_vlan) list \<Rightarrow> dm_port list \<Rightarrow> port_desired list \<Rightarrow> eos_acc" where
  "plan_acc ord fmt pcs ports desired =
     (let a = ports_acc fmt ports desired
      in fold (plan_lag pcs) (sort_key (\<lambda>ld. ord (fst ld)) (ea_lag_vlan a)) a)"

definition eos_plan :: "lag_order \<Rightarrow> (real \<Rightarrow> string) \<Rightarrow> (string \<times> port_vlan) list \<Rightarrow> dm_port list \<Rightarrow> port_desired list
    \<Rightarrow> string list \<times> int list \<times> int" where
  "eos_plan ord fmt pcs ports desired =
     (let a = plan_acc ord fmt pcs ports desired in (ea_cmds a, sort (ea_touched a), ea_changed a))"

section \<open>Applying ports\<close>

definition eos_PlanPorts :: "lag_order \<Rightarrow> (real \<Rightarrow> string) \<Rightarrow> port_desired list \<Rightarrow> 'm eos \<Rightarrow> int list" where
  "eos_PlanPorts ord fmt desired e = (case eo_last e of
     None \<Rightarrow> []
   | Some snap \<Rightarrow> fst (snd (eos_plan ord fmt (eo_port_channels e) (sn_ports snap) desired)))"

text \<open>The snapshot after a write: the ports just written carry what was asked for.\<close>

definition write_port :: "port_desired \<Rightarrow> dm_port \<Rightarrow> dm_port" where
  "write_port d p = (if po_index p \<noteq> pd_index d then p
     else (let p1 = p\<lparr>po_enabled := pd_enabled d, po_description := pd_description d\<rparr>;
               p2 = (if 0 < pd_speed d \<or> isCopperMedia (po_media p1) then p1\<lparr>po_admin_speed := pd_speed d\<rparr> else p1);
               p3 = (if pd_vlan_set d then p2\<lparr>po_vlan := desiredVLAN d, po_lanes_diverge := False\<rparr> else p2);
               p4 = (case pd_fec d of None \<Rightarrow> p3 | Some f \<Rightarrow> p3\<lparr>po_fec_config := f\<rparr>);
               p5 = p4\<lparr>po_storm := pd_storm d, po_bpdu_guard := pd_bpdu d, po_stp_edge := pd_stp_edge d\<rparr>;
               p6 = (if po_lag_id p5 \<noteq> pd_lag d then p5\<lparr>po_lacp := None\<rparr> else p5)
           in p6\<lparr>po_lag_id := pd_lag d, po_lag := (if 0 < pd_lag d then lag_name (pd_lag d) else []),
                po_mirror_from := pd_mirror d\<rparr>))"

definition write_ports :: "port_desired list \<Rightarrow> snapshot \<Rightarrow> snapshot" where
  "write_ports desired snap = snap\<lparr>sn_ports := map (fold write_port desired) (sn_ports snap)\<rparr>"

definition batch :: "string list \<Rightarrow> string list" where
  "batch body = [''enable'', ''configure''] @ body @ [''end'', ''write memory'']"

definition eos_ApplyPorts :: "lag_order \<Rightarrow> (real \<Rightarrow> string) \<Rightarrow> 'm eos_net \<Rightarrow> port_desired list \<Rightarrow> ('m eos, int) dmethod" where
  "eos_ApplyPorts ord fmt net desired e = (case eo_last e of
     None \<Rightarrow> (Inl ''eos apply: no snapshot yet'', e)
   | Some snap \<Rightarrow> (case eos_plan ord fmt (eo_port_channels e) (sn_ports snap) desired of (body, _, changed) \<Rightarrow>
       if changed = 0 then (Inr 0, e)
       else (case Configure net (eo_host e) (batch body) e of
           (Some err, e1) \<Rightarrow> (Inl (''eos apply ('' @ itoa changed @ '' ports): '' @ err), e1)
         | (None, e1) \<Rightarrow> (Inr changed, e1\<lparr>eo_last := Some (write_ports desired snap)\<rparr>))))"

section \<open>Switch-wide settings\<close>

definition eos_EnsureVLANs :: "'m eos_net \<Rightarrow> int list \<Rightarrow> ('m eos, int) dmethod" where
  "eos_EnsureVLANs net ids e = (case eo_last e of
     None \<Rightarrow> (Inl ''eos ensure vlans: no snapshot yet'', e)
   | Some snap \<Rightarrow>
       (let missing = filter (\<lambda>i. 0 < i \<and> i < 4095 \<and> i \<notin> set (sn_vlans snap)) ids
        in if missing = [] then (Inr 0, e)
           else (case Configure net (eo_host e) (batch [''vlan '' @ formatVLANList missing]) e of
               (Some err, e1) \<Rightarrow> (Inl (''eos create vlans ['' @ join '' '' (map itoa missing) @ '']: '' @ err), e1)
             | (None, e1) \<Rightarrow> (Inr (int (length missing)),
                 e1\<lparr>eo_last := Some (snap\<lparr>sn_vlans := uniqueSorted (sn_vlans snap @ missing)\<rparr>)\<rparr>))))"

definition norm_host :: "string \<Rightarrow> string \<Rightarrow> string" where
  "norm_host pre v = (if pre = ''logging host '' then
     (case str_cut (CHR '':'') v of Some (h, port) \<Rightarrow> h @ '' '' @ port | None \<Rightarrow> v) else v)"

definition listDiff :: "string \<Rightarrow> string list \<Rightarrow> string list \<Rightarrow> string list" where
  "listDiff pre have want =
     (let n = norm_host pre
      in map (\<lambda>v. pre @ n v) (filter (\<lambda>v. n v \<notin> n ` set have) want)
         @ map (\<lambda>v. ''no '' @ pre @ trim_suffix '' ro'' (n v)) (filter (\<lambda>v. n v \<notin> n ` set want) have))"

definition stp_mode_of :: "device_desired \<Rightarrow> string" where
  "stp_mode_of d = (if \<not> dd_stp_enabled d then ''none''
     else if dd_stp_mode d = ''mstp'' then ''mstp''
     else if dd_stp_mode d = ''stp'' \<or> dd_stp_mode d = ''rstp'' \<or> dd_stp_mode d = [] then ''rstp''
     else dd_stp_mode d)"

definition stp_commands :: "device_desired \<Rightarrow> system \<Rightarrow> string list" where
  "stp_commands d y = (if \<not> dd_stp_set d then []
     else (if stp_mode_of d \<noteq> sy_stp_mode y then [''spanning-tree mode '' @ stp_mode_of d] else [])
       @ (if dd_stp_enabled d \<and> 0 < dd_stp_priority d \<and> dd_stp_priority d \<noteq> sy_stp_priority y
          then [''spanning-tree priority '' @ itoa (dd_stp_priority d)] else []))"

definition igmp_commands :: "device_desired \<Rightarrow> system \<Rightarrow> string list" where
  "igmp_commands d y = concat (map (\<lambda>i. (let want = mget False (dd_igmp_snooping d) i in
     if map_of (sy_igmp y) i = Some want then []
     else [(if want then [] else ''no '') @ ''ip igmp snooping vlan '' @ itoa i]))
     (sort (mkeys (dd_igmp_snooping d))))"

definition snmp_commands :: "device_desired \<Rightarrow> system \<Rightarrow> string list" where
  "snmp_commands d y = (if \<not> dd_snmp_set d then []
     else map (\<lambda>c. ''no snmp-server community '' @ c) (filter (\<lambda>c. c \<noteq> dd_snmp_community d) (sy_snmp y))
       @ (if dd_snmp_community d \<noteq> [] \<and> dd_snmp_community d \<notin> set (sy_snmp y)
          then [''snmp-server community '' @ dd_snmp_community d @ '' ro''] else []))"

definition device_commands :: "device_desired \<Rightarrow> system \<Rightarrow> string list" where
  "device_commands d y = stp_commands d y @ igmp_commands d y @ snmp_commands d y
     @ (if dd_manage_ntp d then listDiff ''ntp server '' (sy_ntp y) (dd_ntp d) else [])
     @ (if dd_manage_syslog d then listDiff ''logging host '' (sy_syslog y) (dd_syslog d) else [])"

definition write_system :: "device_desired \<Rightarrow> system \<Rightarrow> system" where
  "write_system d y =
     (let y1 = (if \<not> dd_stp_set d then y
                else if dd_stp_enabled d then
                  (let y' = y\<lparr>sy_stp_mode := ''rstp''\<rparr>
                   in if 0 < dd_stp_priority d then y'\<lparr>sy_stp_priority := dd_stp_priority d\<rparr> else y')
                else y\<lparr>sy_stp_mode := ''none''\<rparr>);
          y2 = y1\<lparr>sy_igmp := fold (\<lambda>(k, v). AList.update k v) (dd_igmp_snooping d) (sy_igmp y1)\<rparr>;
          y3 = (if dd_snmp_set d then y2\<lparr>sy_snmp := (if dd_snmp_community d \<noteq> [] then [dd_snmp_community d] else [])\<rparr> else y2);
          y4 = (if dd_manage_ntp d then y3\<lparr>sy_ntp := dd_ntp d\<rparr> else y3)
      in if dd_manage_syslog d then y4\<lparr>sy_syslog := dd_syslog d\<rparr> else y4)"

definition eos_ApplyDevice :: "'m eos_net \<Rightarrow> device_desired \<Rightarrow> ('m eos, int) dmethod" where
  "eos_ApplyDevice net d e = (case eo_last e of
     None \<Rightarrow> (Inl ''eos apply switch: no snapshot yet'', e)
   | Some snap \<Rightarrow>
       (let cmds = device_commands d (sn_system snap)
        in if cmds = [] then (Inr 0, e)
           else (case Configure net (eo_host e) (batch cmds) e of
               (Some err, e1) \<Rightarrow> (Inl (''eos apply switch settings: '' @ err), e1)
             | (None, e1) \<Rightarrow> (Inr (int (length cmds)),
                 (if dd_snmp_set d then e1\<lparr>eo_managed_snmp := dd_snmp_community d\<rparr> else e1)
                   \<lparr>eo_last := Some (snap\<lparr>sn_system := write_system d (sn_system snap)\<rparr>)\<rparr>))))"

definition str_fields :: "string \<Rightarrow> string list" where
  "str_fields s = filter (\<lambda>w. w \<noteq> []) (split_on (CHR '' '') (map (\<lambda>c. if is_space c then CHR '' '' else c) s))"

definition key_line :: "ssh_key \<Rightarrow> string" where
  "key_line k = trim_space (sk_type k @ '' '' @ sk_value k @ '' '' @ replace_char (CHR '' '') ''_'' (sk_comment k))"

definition key_value :: "string \<Rightarrow> string option" where
  "key_value h = (case str_fields h of a # b # _ \<Rightarrow> Some (a @ '' '' @ b) | _ \<Rightarrow> None)"

definition keyValuesEqual :: "string list \<Rightarrow> string list \<Rightarrow> bool" where
  "keyValuesEqual have want \<longleftrightarrow>
     list_all (\<lambda>w. key_value w \<noteq> None \<and> key_value w \<in> set (map key_value have)) want"

definition eos_InstallSSHKeys :: "'m eos_net \<Rightarrow> ssh_key list \<Rightarrow> ('m eos, int) dmethod" where
  "eos_InstallSSHKeys net keys e =
     (if eo_ssh_user e = [] then (Inl ''eos ssh keys: no target user configured'', e)
      else if eo_last e = None then (Inl ''eos ssh keys: no snapshot yet'', e)
      else (let want = take 2 (map key_line keys); user = eo_ssh_user e
        in if want = [] \<or> keyValuesEqual (eo_keys e) want then (Inr 0, e)
           else (case Configure net (eo_host e) (batch (
                   (case want of [] \<Rightarrow> [] | k # ks \<Rightarrow> (''username '' @ user @ '' ssh-key '' @ k)
                      # map (\<lambda>k2. ''username '' @ user @ '' ssh-key secondary '' @ k2) ks))) e of
               (Some err, e1) \<Rightarrow> (Inl (''eos ssh keys: '' @ err), e1)
             | (None, e1) \<Rightarrow> (Inr (int (length want)), e1\<lparr>eo_keys := want\<rparr>))))"

definition eos_Reboot :: "'m eos_net \<Rightarrow> 'm eos act" where
  "eos_Reboot net e = Configure net (eo_host e) [''enable'', ''write memory'', ''reload now''] e"

definition cycle_lanes :: "int \<Rightarrow> dm_port list \<Rightarrow> string list" where
  "cycle_lanes idx ports = fold (\<lambda>p lanes. if po_index p = idx then laneNames p else lanes) ports []"

text \<open>\<open>waited\<close>: the three seconds passed before the context was cancelled (otherwise its error).\<close>

definition eos_CyclePort :: "'m eos_net \<Rightarrow> string option \<Rightarrow> int \<Rightarrow> 'm eos act" where
  "eos_CyclePort net waited idx e = (case eo_last e of
     None \<Rightarrow> (Some ''eos port-cycle: no snapshot yet'', e)
   | Some snap \<Rightarrow>
       (let lanes = cycle_lanes idx (sn_ports snap);
            steps = (\<lambda>c. [''enable'', ''configure''] @ concat (map (\<lambda>l. [''interface '' @ l, c]) lanes) @ [''end''])
        in if lanes = [] then (Some (''eos port-cycle: no port '' @ itoa idx), e)
           else (case Configure net (eo_host e) (steps ''shutdown'') e of
               (Some err, e1) \<Rightarrow> (Some (''eos port-cycle down: '' @ err), e1)
             | (None, e1) \<Rightarrow> (case waited of
                   Some cancelled \<Rightarrow> (Some cancelled, e1)
                 | None \<Rightarrow> (case Configure net (eo_host e1) (steps ''no shutdown'') e1 of
                       (Some err, e2) \<Rightarrow> (Some (''eos port-cycle up: '' @ err), e2)
                     | (None, e2) \<Rightarrow> (None, e2))))))"

section \<open>The switch's own address\<close>

definition addressSession :: string where "addressSession = ''dui-address''"
definition commitTimer :: string where "commitTimer = ''00:02:00''"

definition managementInterface :: "snapshot \<Rightarrow> string \<Rightarrow> if_address option" where
  "managementInterface snap host = find (\<lambda>a. ifa_ip a = host) (sy_addresses (sn_system snap))"

definition same_dns :: "address_desired \<Rightarrow> string list \<Rightarrow> bool" where
  "same_dns d dns \<longleftrightarrow> ad_dns d = [] \<or> join '','' (sort (ad_dns d)) = join '','' dns"

definition address_commands :: "address_desired \<Rightarrow> string \<Rightarrow> string \<Rightarrow> string list \<Rightarrow> string list" where
  "address_commands d iface gw dns =
     [''enable'', ''configure session '' @ addressSession, ''interface '' @ iface,
      ''ip address '' @ ad_ip d @ ''/'' @ itoa (ad_prefix d), ''exit'']
     @ (if ad_gateway d \<noteq> [] \<and> ad_gateway d \<noteq> gw then
          (if gw \<noteq> [] then [''no ip route 0.0.0.0/0 '' @ gw] else []) @ [''ip route 0.0.0.0/0 '' @ ad_gateway d]
        else [])
     @ (if same_dns d dns then []
        else map (\<lambda>s. ''no ip name-server vrf default '' @ s) dns
          @ map (\<lambda>s. ''ip name-server vrf default '' @ s) (sort (ad_dns d)))
     @ [''commit timer '' @ commitTimer]"

definition confirm_batch :: "string list" where
  "confirm_batch = [''enable'', ''configure session '' @ addressSession @ '' commit'', ''write memory'']"

definition run_at :: "'m eos_net \<Rightarrow> string \<Rightarrow> string list \<Rightarrow> 'm eos \<Rightarrow> string option \<times> 'm eos" where
  "run_at net host cmds e = (case en_run net host cmds (eo_link e) of (r, m) \<Rightarrow> (r, e\<lparr>eo_link := m\<rparr>))"

text \<open>What reaching the switch after the change answers: the host to confirm through, or the error.\<close>

definition reach_new :: "'m eos_net \<Rightarrow> string \<Rightarrow> string \<Rightarrow> 'm eos \<Rightarrow> (string + string) \<times> 'm eos" where
  "reach_new net ip cur e =
     (if ip = cur then (Inr (eo_host e), e)
      else if \<not> en_redial net then
        (Inl (''arista-eos: address changed to '' @ ip @ '' in session '' @ addressSession
          @ '', but this transport cannot be re-dialled to confirm it; the switch will revert in '' @ commitTimer), e)
      else (case run_at net ip [''enable'', ''show version''] e of
          (Some err, e1) \<Rightarrow> (Inl (''arista-eos: the switch does not answer at '' @ ip @ '' ('' @ err
             @ ''); leaving session '' @ addressSession @ '' to revert in '' @ commitTimer), e1)
        | (None, e1) \<Rightarrow> (Inr ip, e1)))"

definition moved_system :: "address_desired \<Rightarrow> string \<Rightarrow> system \<Rightarrow> system" where
  "moved_system d iface y =
     (if ad_gateway d \<noteq> [] then y\<lparr>sy_gateway := ad_gateway d\<rparr> else y)
       \<lparr>sy_addresses := map (\<lambda>a. if ifa_iface a = iface then a\<lparr>ifa_ip := ad_ip d, ifa_prefix := ad_prefix d\<rparr> else a) (sy_addresses y)\<rparr>"

definition eos_ApplyAddress :: "'m eos_net \<Rightarrow> address_desired \<Rightarrow> ('m eos, bool) dmethod" where
  "eos_ApplyAddress net d e =
     (if ad_dhcp d then (Inl (''arista-eos: the controller wants this switch on DHCP; a DHCP address cannot be confirmed ''
        @ ''before the session's timer reverts it, so the switch keeps its static address -- set it to static in the controller, or move it by hand''), e)
      else if ad_ip d = [] \<or> ad_prefix d \<le> 0 then (Inl ''arista-eos: static address without an IP and prefix length'', e)
      else (case eo_last e of
        None \<Rightarrow> (Inl ''arista-eos: no snapshot yet'', e)
      | Some snap \<Rightarrow> (case managementInterface snap (eo_host e) of
          None \<Rightarrow> (Inl (''arista-eos: no interface carries the bridge's own target '' @ eo_host e @ ''; not changing an address blind''), e)
        | Some cur \<Rightarrow>
            (let gw = sy_gateway (sn_system snap); dns = eo_name_servers e; iface = ifa_iface cur in
             if iface = [] then (Inl (''arista-eos: no interface carries the bridge's own target '' @ eo_host e @ ''; not changing an address blind''), e)
             else if ifa_ip cur = ad_ip d \<and> ifa_prefix cur = ad_prefix d \<and> (ad_gateway d = [] \<or> ad_gateway d = gw) \<and> same_dns d dns
               then (Inr False, e)
             else (case Configure net (eo_host e) (address_commands d iface gw dns) e of
                 (Some err, e1) \<Rightarrow> (Inl (''arista-eos: address change: '' @ err), e1)
               | (None, e1) \<Rightarrow> (case reach_new net (ad_ip d) (ifa_ip cur) e1 of
                   (Inl err, e2) \<Rightarrow> (Inl err, e2)
                 | (Inr via, e2) \<Rightarrow> (case Configure net via confirm_batch e2 of
                     (Some err, e3) \<Rightarrow> (Inl (''arista-eos: confirm session '' @ addressSession @ '': '' @ err), e3)
                   | (None, e3) \<Rightarrow> (Inr True, e3\<lparr>eo_host := via,
                       eo_name_servers := (if same_dns d dns then eo_name_servers e3 else sort (ad_dns d)),
                       eo_last := Some (snap\<lparr>sn_system := moved_system d iface (sn_system snap)\<rparr>)\<rparr>))))))))"

end
