(* ===== verification/PortContract.thy ===== *)
theory PortContract
  imports Loop_Frame
begin

text \<open>
  What the loop's hold of the first port push relies on (\<^verbatim>\<open>Planner\<close> in
  \<^verbatim>\<open>internal/devicemodel/model.go\<close>): the plan depends only on part of the driver, which writing
  device-wide settings leaves alone; it ignores the MTU; and an empty plan means applying writes
  nothing. A driver interprets the contract; the loop's side is proved here once.
\<close>

locale port_driver =
  fixes apply_of :: "port_desired list \<Rightarrow> ('d, int) dmethod"
    and plan_of :: "port_desired list \<Rightarrow> 'd \<Rightarrow> int list"
    and view :: "'d \<Rightarrow> 'v"
    and writes :: "'d \<Rightarrow> 'w"
  assumes plan_view: "view d = view d' \<Longrightarrow> plan_of ds d = plan_of ds d'"
    and plan_mtu: "plan_of (withoutMTU ds) d = plan_of ds d"
    and plan_empty: "plan_of ds d = [] \<Longrightarrow> writes (snd (apply_of ds d)) = writes d"
begin

text \<open>A loop that drives this driver, whose settings leave the plan's part of the driver alone.\<close>

definition drives :: "'d loop_config \<Rightarrow> 'd controller \<Rightarrow> bool" where
  "drives cfg c \<longleftrightarrow> lc_controller cfg = Some c \<and> ct_ApplyPorts c = apply_of \<and> fc_PlanPorts (ct_face c) = Some plan_of
     \<and> \<not> lc_allow_initial cfg
     \<and> (\<forall>m x d. fc_EnsureVLANs (ct_face c) = Some m \<longrightarrow> view (snd (m x d)) = view d)
     \<and> (\<forall>m x d. deviceAs cfg fc_ApplyDevice = Some m \<longrightarrow> view (snd (m x d)) = view d)
     \<and> (\<forall>m x d. deviceAs cfg fc_InstallSSHKeys = Some m \<longrightarrow> view (snd (m x d)) = view d)
     \<and> (\<forall>m x d. lc_nut cfg = Some m \<longrightarrow> view (snd (m x d)) = view d)
     \<and> (\<forall>m x d. lc_address cfg = Some m \<longrightarrow> view (snd (ac_ApplyAddress m x d)) = view d)"

lemma invoke_dev: "invoke c f l = (r, l') \<Longrightarrow> lp_dev l' = snd (f (lp_dev l))"
  "invoke_act c g l = (r', l') \<Longrightarrow> lp_dev l' = snd (g (lp_dev l))"
  by (auto simp: invoke_def invoke_act_def split: prod.splits)

lemma settings_view:
  assumes "drives cfg c"
  shows "view (lp_dev (switch_settings cfg prev text l)) = view (lp_dev l)"
proof -
  note k = assms[unfolded drives_def]
  have v: "view (lp_dev (ensureVLANs cfg text l)) = view (lp_dev l)" for l
    using k by (auto simp: ensureVLANs_def Let_def dest!: invoke_dev split: option.split prod.split sum.split)
  have d: "view (lp_dev (applyDeviceSettings cfg text l)) = view (lp_dev l)" for l
    using k by (auto simp: applyDeviceSettings_def desiredDevice_def noteHeldACLs_def dest!: invoke_dev
        split: option.split prod.split sum.split)
  have n: "view (lp_dev (applyNUT cfg text l)) = view (lp_dev l)" for l
    using k by (auto simp: applyNUT_def Let_def dest!: invoke_dev split: option.split prod.split)
  have s: "view (lp_dev (installSSHKeys cfg text l)) = view (lp_dev l)" for l
    using k by (auto simp: installSSHKeys_def Let_def dest!: invoke_dev split: option.split prod.split sum.split)
  have a: "view (lp_dev (applyAddress cfg prev text l)) = view (lp_dev l)" for l
    using k by (auto simp: applyAddress_def dest!: invoke_dev split: option.split address_verdict.split prod.split sum.split)
  show ?thesis by (simp add: switch_settings_def v d n s a)
qed

lemma first_apply_writes_no_port:
  assumes "drives cfg c" and "\<not> lp_ever_applied l" and "desiredPorts cfg text l = (ds, l1)"
    and "withholdFreshPorts cfg ds l1 = (out, l2)"
  shows "if plan_of ds (lp_dev l) = []
    then writes (lp_dev (apply_ports cfg ev c ver prev text l)) = writes (lp_dev (switch_settings cfg prev text l2))
    else lp_dev (apply_ports cfg ev c ver prev text l) = lp_dev l"
proof -
  have l1: "lp_dev l1 = lp_dev l" "lp_ever_applied l1 = lp_ever_applied l"
    using assms(3) note_storm_frame[of "storm_notes (lc_control_ports cfg) (parse cfg text)" l]
    by (auto simp: desiredPorts_def core_def)
  obtain held l1' where h: "holdInitialPush cfg ver ds l1 = (held, l1')" by fastforce
  have p: "planner cfg = Some plan_of" using assms(1) by (simp add: drives_def planner_def)
  have held: "held \<longleftrightarrow> plan_of ds (lp_dev l) \<noteq> []"
    using holdInitialPush_cases(1)[OF h] assms(1,2) l1 p plan_mtu by (simp add: drives_def)
  show ?thesis
  proof (cases held)
    case True
    then show ?thesis using held holdInitialPush_cases(3)[OF h] l1(1) assms(3) by (simp add: apply_ports_def h)
  next
    case False
    then have l1': "l1' = l1" and e: "plan_of ds (lp_dev l) = []" using holdInitialPush_cases(5)[OF h] held by auto
    have out: "out = ds" using withholdFreshPorts_out(3)[OF assms(4) _ p] assms(1) e l1(1) plan_mtu by (simp add: drives_def)
    have "lp_dev l2 = lp_dev l1" using withholdFreshPorts_out(1)[OF assms(4)] by (simp add: fresh_frame_def)
    then have pl: "plan_of ds (lp_dev (switch_settings cfg prev text l2)) = []"
      using plan_view[OF settings_view[OF assms(1)], of ds prev "text" l2] e l1(1) by simp
    obtain r l3 where i: "invoke (CApplyPorts ds) (apply_of ds) (switch_settings cfg prev text l2) = (r, l3)" by fastforce
    have m: "lp_dev (mark_applied ev ver y) = lp_dev y" for y :: "'d loop"
      by (simp add: mark_applied_def split: prod.split option.split)
    have "lp_dev (apply_ports cfg ev c ver prev text l) = lp_dev l3"
      using False assms(1,3,4) l1' out i by (simp add: apply_ports_def h drives_def m apply_failed_def Let_def split: sum.split)
    with invoke_dev(1)[OF i] plan_empty[OF pl] e show ?thesis by simp
  qed
qed

end

end
