(* ===== verification/Eos_Props.thy ===== *)
theory Eos_Props
  imports Eos PortContract Loop_Demo
begin

text \<open>
  Properties of the Arista driver: VLAN lists survive printing and parsing, the plan is exact (so
  the loop's hold of a first push reaches every write), applying converges, commands are single
  lines, and an address change is confirmed only where the switch answered.
\<close>

section \<open>VLAN lists\<close>

lemma take_run_spec: "take_run x xs = (e, rest) \<Longrightarrow> x \<le> e \<and> x # xs = [x..e] @ rest"
proof (induction x xs rule: take_run.induct)
  case (2 x y ys)
  show ?case
  proof (cases "y = x + 1")
    case True
    with 2 have "y \<le> e \<and> y # ys = [y..e] @ rest" by simp
    moreover have "[x..e] = x # [x + 1..e]" using calculation True by (simp add: upto_rec1)
    ultimately show ?thesis using True by simp
  next
    case False
    with 2 show ?thesis by auto
  qed
qed auto

lemma itoa_chars:
  assumes "0 \<le> i" shows "list_all is_digit (itoa i)" "itoa i \<noteq> []"
  using assms nat_digits_digits by (simp_all add: itoa_def)

lemma trim_space_id: "s \<noteq> [] \<Longrightarrow> \<not> is_space (hd s) \<Longrightarrow> \<not> is_space (last s) \<Longrightarrow> trim_space s = s"
proof -
  assume s: "s \<noteq> []" "\<not> is_space (hd s)" "\<not> is_space (last s)"
  then have "dropWhile is_space s = s" by (cases s) auto
  moreover have "dropWhile is_space (rev s) = rev s" using s by (cases s rule: rev_cases) auto
  ultimately show "trim_space s = s" by (simp add: trim_space_def trim_right_def)
qed

definition range_text :: "int \<times> int \<Rightarrow> string" where
  "range_text r = (if fst r < snd r then itoa (fst r) @ ''-'' @ itoa (snd r) else itoa (fst r))"

lemma digit_facts: "is_digit c \<Longrightarrow> \<not> is_space c \<and> c \<noteq> CHR ''-'' \<and> c \<noteq> CHR '','' \<and> to_upper_char c = c"
  by (auto simp: is_digit_def is_space_def to_upper_char_def is_lower_def char_code_def)

lemma range_text_chars:
  assumes "0 \<le> fst r" and "fst r \<le> snd r"
  shows "range_text r \<noteq> []" "is_digit (hd (range_text r))" "is_digit (last (range_text r))" "CHR '','' \<notin> set (range_text r)"
proof -
  have s: "0 \<le> snd r" using assms by simp
  note a = itoa_chars[OF assms(1)] and b = itoa_chars[OF s]
  show "range_text r \<noteq> []" using a b by (simp add: range_text_def)
  show "is_digit (hd (range_text r))" using a by (auto simp: range_text_def list_all_iff hd_append)
  show "is_digit (last (range_text r))" using a b by (auto simp: range_text_def list_all_iff)
  show "CHR '','' \<notin> set (range_text r)" 
  proof -
    have "\<not> is_digit (CHR '','')" by (simp add: is_digit_def char_code_def)
    with a b show ?thesis by (auto simp: range_text_def list_all_iff)
  qed
qed

lemma vlan_part_range:
  assumes "0 \<le> fst r" and "fst r \<le> snd r" and "snd r \<le> max_int64"
  shows "vlan_part (range_text r) = [fst r..snd r]"
proof -
  have t: "trim_space (range_text r) = range_text r"
    using range_text_chars[OF assms(1,2)] digit_facts by (intro trim_space_id) auto
  have a: "atoi (itoa (fst r)) = Some (fst r)" "atoi (itoa (snd r)) = Some (snd r)"
    using assms by (auto intro!: atoi_itoa simp: min_int64_def)
  have nd: "0 \<le> i \<Longrightarrow> CHR ''-'' \<notin> set (itoa i)" for i
    using itoa_chars(1)[of i] digit_facts by (auto simp: list_all_iff)
  show ?thesis
  proof (cases "fst r < snd r")
    case True
    then have c: "str_cut (CHR ''-'') (range_text r) = Some (itoa (fst r), itoa (snd r))"
      using nd[OF assms(1)] by (simp add: range_text_def)
    then show ?thesis by (simp add: vlan_part_def t a)
  next
    case False
    then have "str_cut (CHR ''-'') (range_text r) = None" using nd[OF assms(1)] by (simp add: range_text_def str_cut_None_iff)
    moreover have "atoi (range_text r) = Some (fst r)" "fst r = snd r" using False a assms(2) by (simp_all add: range_text_def)
    ultimately show ?thesis by (simp add: vlan_part_def t)
  qed
qed

text \<open>The compact form is the texts of some ranges that list the identifiers.\<close>

lemma vlan_parts_ranges:
  assumes "\<forall>i \<in> set xs. 0 \<le> i \<and> i \<le> max_int64"
  shows "\<exists>rs. vlan_parts xs = map range_text rs \<and> concat (map (\<lambda>r. [fst r..snd r]) rs) = xs
    \<and> list_all (\<lambda>r. 0 \<le> fst r \<and> fst r \<le> snd r \<and> snd r \<le> max_int64) rs"
  using assms
proof (induction xs rule: vlan_parts.induct)
  case (2 x xs)
  obtain e rest where t: "take_run x xs = (e, rest)" by fastforce
  note sp = take_run_spec[OF t]
  have "set rest \<subseteq> set (x # xs)" "e \<in> set (x # xs)" using sp by (auto simp: set_eq_iff)
  with 2(2) have r: "\<forall>i \<in> set rest. 0 \<le> i \<and> i \<le> max_int64" "e \<le> max_int64" "0 \<le> x" by auto
  from 2(1)[OF t[symmetric] r(1)] obtain rs where "vlan_parts rest = map range_text rs"
    "concat (map (\<lambda>r. [fst r..snd r]) rs) = rest"
    "list_all (\<lambda>r. 0 \<le> fst r \<and> fst r \<le> snd r \<and> snd r \<le> max_int64) rs" by blast
  moreover have "vlan_parts (x # xs) = range_text (x, e) # vlan_parts rest" using t by (simp add: range_text_def)
  ultimately show ?case using sp r by (intro exI[of _ "(x, e) # rs"]) auto
qed auto

lemma hd_join: "ws \<noteq> [] \<Longrightarrow> hd ws \<noteq> [] \<Longrightarrow> hd (join sep ws) = hd (hd ws) \<and> join sep ws \<noteq> []"
  by (induction sep ws rule: join.induct) auto

lemma trim_space_keeps_hd: "s \<noteq> [] \<Longrightarrow> \<not> is_space (hd s) \<Longrightarrow> trim_space s \<noteq> [] \<and> hd (trim_space s) = hd s"
proof (cases s)
  case (Cons a t)
  assume n: "\<not> is_space (hd s)"
  have "dropWhile is_space (rev t @ [a]) = dropWhile is_space (rev t) @ [a]"
    using n Cons by (induction "rev t") (auto simp: dropWhile_append1 dropWhile_append2 intro: dropWhile_append3)
  then show ?thesis using n Cons by (simp add: trim_space_def trim_right_def)
qed simp



section \<open>The plan is exact\<close>

definition acc_ok :: "eos_acc \<Rightarrow> bool" where
  "acc_ok a \<longleftrightarrow> 0 \<le> ea_changed a \<and> (ea_touched a = [] \<longleftrightarrow> ea_changed a = 0)
     \<and> (\<forall>lag. map_of (ea_lag_vlan a) lag \<noteq> None \<longrightarrow> mget [] (ea_lag_ports a) lag \<noteq> [])"

lemma touch_frame [simp]: "ea_changed (touch i a) = ea_changed a" "ea_lag_vlan (touch i a) = ea_lag_vlan a"
  "ea_lag_ports (touch i a) = ea_lag_ports a" "ea_cmds (touch i a) = ea_cmds a" "ea_touched (touch i a) \<noteq> []"
  by (auto simp: touch_def List.insert_def)

lemma touches_frame: "ea_changed (fold (\<lambda>d. touch (f d)) ds a) = ea_changed a"
  "ea_lag_vlan (fold (\<lambda>d. touch (f d)) ds a) = ea_lag_vlan a" "ea_lag_ports (fold (\<lambda>d. touch (f d)) ds a) = ea_lag_ports a"
  "ea_cmds (fold (\<lambda>d. touch (f d)) ds a) = ea_cmds a"
  "ea_touched (fold (\<lambda>d. touch (f d)) ds a) = [] \<longleftrightarrow> ds = [] \<and> ea_touched a = []"
  by (induction ds arbitrary: a) auto

lemma note_lag_ok: "acc_ok a \<Longrightarrow> acc_ok (note_lag d a)"
  by (auto simp: acc_ok_def note_lag_def mget_update update_conv' split: if_splits)

lemma plan_port_ok: "acc_ok a \<Longrightarrow> acc_ok (plan_port fmt live d a)"
  using note_lag_ok[of a d] by (auto simp: plan_port_def Let_def acc_ok_def split: option.splits)

lemma plan_ports_ok: "acc_ok a \<Longrightarrow> acc_ok (fold (plan_port fmt live) ds a)"
  by (induction ds arbitrary: a) (auto simp: plan_port_ok)

lemma plan_lag_ok:
  assumes "acc_ok a" and "map_of (ea_lag_vlan a) (fst ld) \<noteq> None"
  shows "acc_ok (plan_lag pcs ld a)" and "ea_lag_vlan (plan_lag pcs ld a) = ea_lag_vlan a"
proof -
  have "mget [] (ea_lag_ports a) (fst ld) \<noteq> []" using assms by (simp add: acc_ok_def)
  with assms(1) touches_frame[of "\<lambda>i. i"] show "acc_ok (plan_lag pcs ld a)"
    and "ea_lag_vlan (plan_lag pcs ld a) = ea_lag_vlan a"
    by (simp_all add: plan_lag_def acc_ok_def Let_def split_beta)
qed

lemma plan_lags_ok:
  "acc_ok a \<Longrightarrow> \<forall>ld \<in> set lds. map_of (ea_lag_vlan a) (fst ld) \<noteq> None \<Longrightarrow> acc_ok (fold (plan_lag pcs) lds a)"
  by (induction lds arbitrary: a) (auto simp: plan_lag_ok)

lemma mirror_needs_touch: "mirror_one live d \<noteq> [] \<Longrightarrow> mirror_touched live d"
  by (auto simp: mirror_one_def mirror_touched_def split: option.splits if_splits)

lemma mirror_acc_ok: "acc_ok (mirror_acc ports ds)"
proof -
  have "filter (mirror_touched (port_map ports)) ds \<noteq> []" if "mirrorCommands ports ds \<noteq> []"
    using that mirror_needs_touch by (auto simp: mirrorCommands_def filter_empty_conv)
  then show ?thesis by (simp add: mirror_acc_def Let_def acc_ok_def touches_frame[of pd_index])
qed

lemma plan_acc_ok: "acc_ok (plan_acc ord fmt pcs ports ds)"
proof -
  have a: "acc_ok (ports_acc fmt ports ds)" unfolding ports_acc_def by (rule plan_ports_ok[OF mirror_acc_ok])
  show ?thesis unfolding plan_acc_def Let_def by (rule plan_lags_ok[OF a]) (auto simp: map_of_eq_None_iff)
qed

lemma eos_plan_exact:
  assumes "eos_plan ord fmt pcs ports ds = (cmds, touched, changed)"
  shows "touched = [] \<longleftrightarrow> changed = 0"
proof -
  have "sort (xs :: int list) = [] \<longleftrightarrow> xs = []" for xs by (metis length_0_conv length_sort)
  with assms plan_acc_ok[of ord fmt pcs ports ds] show ?thesis by (auto simp: eos_plan_def Let_def acc_ok_def)
qed

section \<open>The MTU is not read\<close>

definition no_mtu :: "port_desired \<Rightarrow> port_desired" where
  "no_mtu d = d\<lparr>pd_mtu := 0\<rparr>"

definition no_mtu_acc :: "eos_acc \<Rightarrow> eos_acc" where
  "no_mtu_acc a = a\<lparr>ea_lag_vlan := map (\<lambda>(k, d). (k, no_mtu d)) (ea_lag_vlan a)\<rparr>"

lemma withoutMTU_map: "withoutMTU ds = map no_mtu ds"
  by (simp add: withoutMTU_def no_mtu_def)

lemma no_mtu_fields [simp]:
  "pd_index (no_mtu d) = pd_index d" "pd_enabled (no_mtu d) = pd_enabled d" "pd_description (no_mtu d) = pd_description d"
  "pd_speed (no_mtu d) = pd_speed d" "pd_vlan_set (no_mtu d) = pd_vlan_set d" "pd_native (no_mtu d) = pd_native d"
  "pd_tagged_all (no_mtu d) = pd_tagged_all d" "pd_tagged (no_mtu d) = pd_tagged d" "pd_fec (no_mtu d) = pd_fec d"
  "pd_storm (no_mtu d) = pd_storm d" "pd_bpdu (no_mtu d) = pd_bpdu d" "pd_stp_edge (no_mtu d) = pd_stp_edge d"
  "pd_edge_mode (no_mtu d) = pd_edge_mode d" "pd_loop_protect (no_mtu d) = pd_loop_protect d" "pd_lag (no_mtu d) = pd_lag d"
  "pd_mirror (no_mtu d) = pd_mirror d"
  by (simp_all add: no_mtu_def)

lemma no_mtu_commands [simp]:
  "mirror_one live (no_mtu d) = mirror_one live d" "mirror_touched live (no_mtu d) = mirror_touched live d"
  "speedCommands p (no_mtu d) = speedCommands p d" "lane_commands (no_mtu d) = lane_commands d"
  "vlanCommands p (no_mtu d) = vlanCommands p d" "port_commands fmt p (no_mtu d) = port_commands fmt p d"
  unfolding mirror_one_def mirror_touched_def speedCommands_def lane_commands_def vlanCommands_def desiredVLAN_def
    port_commands_def adminCommands_def lagCommands_def fecCommands_def stormCommands_def bpduGuardCommands_def
    stpEdgeCommands_def no_mtu_fields by (rule refl)+

lemma update_map_snd: "AList.update k (f v) (map (\<lambda>(k, d). (k, f d)) m) = map (\<lambda>(k, d). (k, f d)) (AList.update k v m)"
  by (induction m) auto

lemma no_mtu_acc_touch: "no_mtu_acc (touch i a) = touch i (no_mtu_acc a)"
  by (simp add: no_mtu_acc_def touch_def)

lemma fst_map_snd: "fst (case x of (k, d) \<Rightarrow> (k, f d)) = fst x"
  by (cases x) simp

lemma no_mtu_note_lag: "note_lag (no_mtu d) (no_mtu_acc a) = no_mtu_acc (note_lag d a)"
  by (cases a) (simp add: note_lag_def no_mtu_acc_def update_map_snd fst_map_snd)

lemma no_mtu_plan_port: "plan_port fmt live (no_mtu d) (no_mtu_acc a) = no_mtu_acc (plan_port fmt live d a)"
proof -
  have u: "no_mtu_acc (x\<lparr>ea_changed := n, ea_cmds := cs\<rparr>) = (no_mtu_acc x)\<lparr>ea_changed := n, ea_cmds := cs\<rparr>" for x n cs
    by (simp add: no_mtu_acc_def)
  have f: "ea_changed (no_mtu_acc x) = ea_changed x" "ea_cmds (no_mtu_acc x) = ea_cmds x" for x by (simp_all add: no_mtu_acc_def)
  show ?thesis by (simp add: plan_port_def Let_def no_mtu_note_lag no_mtu_acc_touch u f split: option.split)
qed

lemma no_mtu_plan_ports: "fold (plan_port fmt live) (map no_mtu ds) (no_mtu_acc a) = no_mtu_acc (fold (plan_port fmt live) ds a)"
  by (induction ds arbitrary: a) (simp_all add: no_mtu_plan_port)

lemma plan_lag_no_mtu: "plan_lag pcs (k, no_mtu d) a = plan_lag pcs (k, d) a"
  by (simp add: plan_lag_def)

lemma no_mtu_mirror: "mirror_acc ports (map no_mtu ds) = no_mtu_acc (mirror_acc ports ds)"
proof -
  have m: "mirrorCommands ports (map no_mtu ds) = mirrorCommands ports ds" by (simp add: mirrorCommands_def o_def)
  have n: "no_mtu_acc (fold (\<lambda>d. touch (pd_index d)) xs a) = fold (\<lambda>d. touch (pd_index d)) xs (no_mtu_acc a)" for xs a
    by (induction xs arbitrary: a) (simp_all add: no_mtu_acc_touch)
  show ?thesis unfolding mirror_acc_def Let_def m
    by (simp add: filter_map o_def fold_map n) (simp add: no_mtu_acc_def)
qed

lemma insort_map_snd: "insort_key (\<lambda>ld. r (fst ld)) (k, f d) (map (\<lambda>(k, d). (k, f d)) xs)
    = map (\<lambda>(k, d). (k, f d)) (insort_key (\<lambda>ld. r (fst ld)) (k, d) xs)"
  by (induction xs) auto

lemma sort_map_snd: "sort_key (\<lambda>ld. r (fst ld)) (map (\<lambda>(k, d). (k, f d)) xs)
    = map (\<lambda>(k, d). (k, f d)) (sort_key (\<lambda>ld. r (fst ld)) xs)"
  by (induction xs) (auto simp: insort_map_snd)

lemma no_mtu_acc_upd:
  "no_mtu_acc (a\<lparr>ea_cmds := cs, ea_changed := n\<rparr>) = (no_mtu_acc a)\<lparr>ea_cmds := cs, ea_changed := n\<rparr>"
  "ea_changed (no_mtu_acc a) = ea_changed a" "ea_cmds (no_mtu_acc a) = ea_cmds a"
  "ea_lag_ports (no_mtu_acc a) = ea_lag_ports a"
  by (simp_all add: no_mtu_acc_def)

lemma plan_lags_no_mtu:
  "fold (plan_lag pcs) (map (\<lambda>(k, d). (k, no_mtu d)) lds) (no_mtu_acc a) = no_mtu_acc (fold (plan_lag pcs) lds a)"
proof (induction lds arbitrary: a)
  case (Cons ld lds)
  obtain k d where ld: "ld = (k, d)" by fastforce
  have t: "no_mtu_acc (fold touch xs x) = fold touch xs (no_mtu_acc x)" for xs x
    by (induction xs arbitrary: x) (simp_all add: no_mtu_acc_touch)
  have "plan_lag pcs (k, no_mtu d) (no_mtu_acc a) = no_mtu_acc (plan_lag pcs (k, d) a)"
    by (simp add: plan_lag_def Let_def t no_mtu_acc_upd)
  with Cons ld show ?case by simp
qed simp

lemma eos_plan_no_mtu: "eos_plan ord fmt pcs ports (withoutMTU ds) = eos_plan ord fmt pcs ports ds"
proof -
  have p: "ports_acc fmt ports (map no_mtu ds) = no_mtu_acc (ports_acc fmt ports ds)"
    by (simp add: ports_acc_def no_mtu_mirror no_mtu_plan_ports)
  have "ea_lag_vlan (no_mtu_acc a) = map (\<lambda>(k, d). (k, no_mtu d)) (ea_lag_vlan a)" for a by (simp add: no_mtu_acc_def)
  then have "plan_acc ord fmt pcs ports (map no_mtu ds) = no_mtu_acc (plan_acc ord fmt pcs ports ds)"
    by (simp add: plan_acc_def Let_def p sort_map_snd plan_lags_no_mtu)
  then show ?thesis by (simp add: eos_plan_def withoutMTU_map Let_def) (simp add: no_mtu_acc_def)
qed

section \<open>The contract\<close>

definition eos_view :: "'m eos \<Rightarrow> dm_port list option \<times> (string \<times> port_vlan) list" where
  "eos_view e = (map_option sn_ports (eo_last e), eo_port_channels e)"

interpretation eos: port_driver "eos_ApplyPorts ord fmt net" "eos_PlanPorts ord fmt" eos_view eo_sent for ord fmt net
proof
  fix d d' :: "'a eos" and ds
  assume "eos_view d = eos_view d'"
  then show "eos_PlanPorts ord fmt ds d = eos_PlanPorts ord fmt ds d'"
    by (auto simp: eos_PlanPorts_def eos_view_def split: option.splits)
next
  fix ds and d :: "'a eos"
  show "eos_PlanPorts ord fmt (withoutMTU ds) d = eos_PlanPorts ord fmt ds d"
    by (simp add: eos_PlanPorts_def eos_plan_no_mtu split: option.split)
next
  fix ds and d :: "'a eos"
  assume e: "eos_PlanPorts ord fmt ds d = []"
  show "eo_sent (snd (eos_ApplyPorts ord fmt net ds d)) = eo_sent d"
  proof (cases "eo_last d")
    case (Some snap)
    obtain c t n where p: "eos_plan ord fmt (eo_port_channels d) (sn_ports snap) ds = (c, t, n)" by (metis prod_cases3)
    with e Some eos_plan_exact[OF p] show ?thesis by (simp add: eos_PlanPorts_def eos_ApplyPorts_def)
  qed (simp add: eos_ApplyPorts_def)
qed

lemma Configure_view: "Configure net h cs e = (r, e') \<Longrightarrow> eos_view e' = eos_view e \<and> eo_last e' = eo_last e"
  by (auto simp: Configure_def eos_view_def split: prod.splits)

lemma eos_view_upd: "sn_ports s' = sn_ports s \<Longrightarrow> eo_last e = Some s \<Longrightarrow> eos_view (e\<lparr>eo_last := Some s'\<rparr>) = eos_view e"
  "eos_view (e\<lparr>eo_managed_snmp := x\<rparr>) = eos_view e" "eos_view (e\<lparr>eo_keys := ks\<rparr>) = eos_view e"
  "eos_view (e\<lparr>eo_host := h, eo_name_servers := ns\<rparr>) = eos_view e"
  by (simp_all add: eos_view_def)

lemma EnsureVLANs_view: "eos_view (snd (eos_EnsureVLANs net ids e)) = eos_view e"
  by (auto simp: eos_EnsureVLANs_def Let_def eos_view_upd dest!: Configure_view split: option.split prod.split)

lemma ApplyDevice_view: "eos_view (snd (eos_ApplyDevice net d e)) = eos_view e"
  by (auto simp: eos_ApplyDevice_def Let_def eos_view_upd dest!: Configure_view split: option.split prod.split)

lemma InstallSSHKeys_view: "eos_view (snd (eos_InstallSSHKeys net ks e)) = eos_view e"
  by (auto simp: eos_InstallSSHKeys_def Let_def eos_view_upd dest!: Configure_view split: option.split prod.split)

lemma reach_new_view: "reach_new net ip cur e = (r, e') \<Longrightarrow> eos_view e' = eos_view e \<and> eo_last e' = eo_last e"
  by (auto simp: reach_new_def run_at_def eos_view_def split: if_splits option.splits prod.splits)

text \<open>The course of an address change, step by step.\<close>

lemma address_course:
  assumes "eos_ApplyAddress net d e = (r, e')"
  obtains "e' = e" and "r \<noteq> Inr True"
  | snap cur x e1 where "eo_last e = Some snap" and "managementInterface snap (eo_host e) = Some cur"
      and "Configure net (eo_host e) (address_commands d (ifa_iface cur) (sy_gateway (sn_system snap)) (eo_name_servers e)) e = (Some x, e1)"
      and "e' = e1" and "isl r"
  | snap cur e1 x e2 where "eo_last e = Some snap" and "managementInterface snap (eo_host e) = Some cur"
      and "Configure net (eo_host e) (address_commands d (ifa_iface cur) (sy_gateway (sn_system snap)) (eo_name_servers e)) e = (None, e1)"
      and "reach_new net (ad_ip d) (ifa_ip cur) e1 = (Inl x, e2)" and "e' = e2" and "isl r"
  | snap cur e1 via e2 x e3 where "eo_last e = Some snap" and "managementInterface snap (eo_host e) = Some cur"
      and "Configure net (eo_host e) (address_commands d (ifa_iface cur) (sy_gateway (sn_system snap)) (eo_name_servers e)) e = (None, e1)"
      and "reach_new net (ad_ip d) (ifa_ip cur) e1 = (Inr via, e2)" and "Configure net via confirm_batch e2 = (x, e3)"
      and "if x = None then r = Inr True \<and> e' = e3\<lparr>eo_host := via,
          eo_name_servers := (if same_dns d (eo_name_servers e) then eo_name_servers e3 else sort (ad_dns d)),
          eo_last := Some (snap\<lparr>sn_system := moved_system d (ifa_iface cur) (sn_system snap)\<rparr>)\<rparr> else isl r \<and> e' = e3"
proof -
  consider "eo_last e = None \<or> ad_dhcp d \<or> ad_ip d = [] \<or> ad_prefix d \<le> 0"
    | snap where "eo_last e = Some snap" "managementInterface snap (eo_host e) = None" "\<not> ad_dhcp d" "ad_ip d \<noteq> []" "0 < ad_prefix d"
    | snap cur where "eo_last e = Some snap" "managementInterface snap (eo_host e) = Some cur" "\<not> ad_dhcp d" "ad_ip d \<noteq> []" "0 < ad_prefix d"
    by (cases "eo_last e") (auto, meson option.exhaust not_le)
  then show thesis
  proof cases
    case 1
    with assms have "e' = e" "r \<noteq> Inr True" by (auto simp: eos_ApplyAddress_def split: if_splits option.splits)
    then show thesis by (rule that(1))
  next
    case 2
    with assms have "e' = e" "r \<noteq> Inr True" by (auto simp: eos_ApplyAddress_def)
    then show thesis by (rule that(1))
  next
    case (3 snap cur)
    let ?cmds = "address_commands d (ifa_iface cur) (sy_gateway (sn_system snap)) (eo_name_servers e)"
    obtain x e1 where c: "Configure net (eo_host e) ?cmds e = (x, e1)" by fastforce
    obtain y e2 where n: "reach_new net (ad_ip d) (ifa_ip cur) e1 = (y, e2)" by fastforce
    obtain z e3 where f: "Configure net (projr y) confirm_batch e2 = (z, e3)" by fastforce
    from assms 3 c have "e' = e \<and> r \<noteq> Inr True \<or> x \<noteq> None \<and> e' = e1 \<and> isl r \<or> x = None \<and> (case y of
        Inl _ \<Rightarrow> e' = e2 \<and> isl r
      | Inr via \<Rightarrow> if z = None then r = Inr True \<and> e' = e3\<lparr>eo_host := via,
          eo_name_servers := (if same_dns d (eo_name_servers e) then eo_name_servers e3 else sort (ad_dns d)),
          eo_last := Some (snap\<lparr>sn_system := moved_system d (ifa_iface cur) (sn_system snap)\<rparr>)\<rparr> else isl r \<and> e' = e3)"
      using n f unfolding eos_ApplyAddress_def by (auto simp: Let_def split: if_splits option.splits sum.splits)
    then show thesis using that(1) that(2)[OF 3(1,2)] that(3)[OF 3(1,2)] that(4)[OF 3(1,2)] c n f
      by (cases x; cases y) auto
  qed
qed

lemma ApplyAddress_view: "eos_view (snd (eos_ApplyAddress net d e)) = eos_view e"
proof -
  obtain r e' where a: "eos_ApplyAddress net d e = (r, e')" by fastforce
  from a have "eos_view e' = eos_view e"
  proof (cases rule: address_course)
    case (4 snap cur e1 via e2 x e3)
    then have l: "eo_last e3 = Some snap" "eos_view e3 = eos_view e"
      using Configure_view[OF 4(3)] reach_new_view[OF 4(4)] Configure_view[OF 4(5)] by simp_all
    from 4(6) l show ?thesis by (cases x) (auto simp: eos_view_def)
  qed (auto dest!: Configure_view reach_new_view)
  with a show ?thesis by simp
qed

section \<open>Properties\<close>

text \<open>
  C5. The first push of an adoption configures no port of an Arista switch: while the loop has not
  applied a push (and initial changes are not allowed), either the plan names a port, and then the
  push is held and the switch is sent nothing at all; or the plan is empty, and then what is sent
  is what the device-wide settings send, nothing for the ports.
\<close>

theorem eos_first_push_configures_no_port:
  assumes "lc_controller cfg = Some c" and "ct_ApplyPorts c = eos_ApplyPorts ord fmt net"
    and "fc_PlanPorts (ct_face c) = Some (eos_PlanPorts ord fmt)" and "\<not> lc_allow_initial cfg"
    and "fc_EnsureVLANs (ct_face c) = Some (eos_EnsureVLANs net)" and "deviceAs cfg fc_ApplyDevice = Some (eos_ApplyDevice net)"
    and "deviceAs cfg fc_InstallSSHKeys = Some (eos_InstallSSHKeys net)" and "lc_nut cfg = None"
    and "map_option ac_ApplyAddress (lc_address cfg) = Some (eos_ApplyAddress net)"
    and "\<not> lp_ever_applied l"
    and "desiredPorts cfg text l = (ds, l1)" and "withholdFreshPorts cfg ds l1 = (out, l2)"
  shows "if eos_PlanPorts ord fmt ds (lp_dev l) = []
    then eo_sent (lp_dev (apply_ports cfg ev c ver prev text l)) = eo_sent (lp_dev (switch_settings cfg prev text l2))
    else lp_dev (apply_ports cfg ev c ver prev text l) = lp_dev l"
proof -
  have "eos.drives ord fmt net cfg c" using assms(1-9)
    by (auto simp: eos.drives_def EnsureVLANs_view ApplyDevice_view InstallSSHKeys_view ApplyAddress_view)
  from eos.first_apply_writes_no_port[OF this assms(10-12)] show ?thesis .
qed

lemma address_commands_last: "last (address_commands d i gw dns) = ''commit timer 00:02:00''"
  by (simp add: address_commands_def commitTimer_def)

lemma Configure_sent: "Configure net h cs e = (r, e') \<Longrightarrow> eo_sent e' = eo_sent e @ [(h, cs)] \<and> eo_host e' = eo_host e"
  by (auto simp: Configure_def split: prod.splits)

lemma reach_new_sent: "reach_new net ip cur e = (y, e') \<Longrightarrow> eo_sent e' = eo_sent e \<and> eo_host e' = eo_host e
    \<and> (\<forall>via. y = Inr via \<longrightarrow> ip = cur \<and> via = eo_host e
        \<or> via = ip \<and> en_redial net \<and> fst (en_run net ip [''enable'', ''show version''] (eo_link e)) = None)"
  by (auto simp: reach_new_def run_at_def split: if_splits option.splits prod.splits)


section \<open>Applying converges\<close>

lemma write_port_frame [simp]: "po_index (write_port d p) = po_index p" "po_media (write_port d p) = po_media p"
  "po_interfaces (write_port d p) = po_interfaces p" "po_ifname (write_port d p) = po_ifname p"
  by (auto simp: write_port_def Let_def split: option.split)

lemma write_ports_index: "po_index (fold write_port ds p) = po_index p"
  by (induction ds arbitrary: p) auto

lemma write_port_other: "\<forall>d \<in> set ds. pd_index d \<noteq> po_index p \<Longrightarrow> fold write_port ds p = p"
  by (induction ds arbitrary: p) (auto simp: write_port_def)

lemma write_port_last:
  assumes "distinct (map pd_index ds)" and "d \<in> set ds" and "pd_index d = po_index p"
  shows "fold write_port ds p = write_port d p"
  using assms
proof (induction ds arbitrary: p)
  case (Cons x ds)
  show ?case
  proof (cases "x = d")
    case True
    then have "\<forall>y \<in> set ds. pd_index y \<noteq> po_index (write_port d p)" using Cons.prems by force
    from write_port_other[OF this] True show ?thesis by simp
  next
    case False
    with Cons.prems have "pd_index x \<noteq> po_index p" by force
    then have "write_port x p = p" by (simp add: write_port_def)
    with Cons False show ?thesis by auto
  qed
qed simp

text \<open>A desired port that sets its VLANs and is in no aggregate: what it asks for is all on the port.\<close>

definition plain_port :: "port_desired \<Rightarrow> bool" where
  "plain_port d \<longleftrightarrow> pd_vlan_set d \<and> pd_lag d = 0 \<and> 0 \<le> pd_speed d"

lemma written_port_settled:
  assumes "plain_port d" and "pd_index d = po_index p"
  shows "port_commands fmt (write_port d p) d = []" and "speedCommands (write_port d p) d = []"
    and "po_mirror_from (write_port d p) = pd_mirror d"
proof -
  let ?p = "write_port d p"
  have f: "po_enabled ?p = pd_enabled d" "po_description ?p = pd_description d" "po_vlan ?p = desiredVLAN d"
    "\<not> po_lanes_diverge ?p" "po_storm ?p = pd_storm d" "po_bpdu_guard ?p = pd_bpdu d" "po_stp_edge ?p = pd_stp_edge d"
    "po_lag_id ?p = 0" "po_mirror_from ?p = pd_mirror d"
    "\<And>x. pd_fec d = Some x \<Longrightarrow> po_fec_config ?p = x"
    "0 < pd_speed d \<or> isCopperMedia (po_media p) \<Longrightarrow> po_admin_speed ?p = pd_speed d"
    using assms by (auto simp: write_port_def plain_port_def Let_def split: option.split)
  then show "po_mirror_from ?p = pd_mirror d" by simp
  have "vlanCommands ?p d = []" by (simp add: vlanCommands_def vlan_matches_def f Let_def)
  moreover have "fecCommands ?p d = []" using f(10) by (auto simp: fecCommands_def split: option.split)
  moreover have "stormCommands fmt ?p d = []" by (simp add: stormCommands_def storm_line_def f Let_def)
  ultimately show "port_commands fmt ?p d = []"
    using assms(1) by (simp add: port_commands_def adminCommands_def lagCommands_def bpduGuardCommands_def stpEdgeCommands_def f plain_port_def)
  show "speedCommands ?p d = []" using f(11) assms(1) f(4) by (auto simp: speedCommands_def plain_port_def)
qed

lemma port_map_entry: "map_of (port_map ps) i = Some p \<Longrightarrow> p \<in> set ps \<and> po_index p = i"
  by (induction ps rule: rev_induct) (auto simp: port_map_def update_conv' split: if_splits)

lemma settled_plan:
  assumes "\<forall>d \<in> set ds. \<forall>p \<in> set ports. po_index p = pd_index d \<longrightarrow>
      port_commands fmt p d = [] \<and> speedCommands p d = [] \<and> po_mirror_from p = pd_mirror d \<and> pd_lag d = 0"
  shows "fst (snd (eos_plan ord fmt pcs ports ds)) = []"
proof -
  have m: "mirror_one (port_map ports) d = []" if "d \<in> set ds" for d
    using that assms port_map_entry by (fastforce simp: mirror_one_def split: option.split)
  then have "mirrorCommands ports ds = []" by (simp add: mirrorCommands_def)
  then have a: "mirror_acc ports ds = \<lparr>ea_cmds = [], ea_touched = [], ea_changed = 0, ea_lag_vlan = [], ea_lag_ports = []\<rparr>"
    by (simp add: mirror_acc_def)
  have one: "plan_port fmt (port_map ports) d x = x" if "d \<in> set ds" for d x
    using that assms port_map_entry by (fastforce simp: plan_port_def note_lag_def Let_def split: option.split)
  have "fold (plan_port fmt (port_map ports)) es x = x" if "set es \<subseteq> set ds" for es x
    using that one by (induction es arbitrary: x) auto
  then have "ports_acc fmt ports ds = mirror_acc ports ds" by (simp add: ports_acc_def)
  then show ?thesis by (simp add: eos_plan_def plan_acc_def a Let_def)
qed

text \<open>
  C33. Applying converges: after an ApplyPorts that returned no error, for ports that set their
  VLANs and are in no aggregate, the driver's own plan for the same ports is empty, so the push is
  not written a second time.
\<close>

theorem eos_apply_converges:
  assumes "eos_ApplyPorts ord fmt net ds e = (Inr n, e')" and "distinct (map pd_index ds)" and "list_all plain_port ds"
  shows "eos_PlanPorts ord fmt ds e' = []"
proof -
  obtain snap where l: "eo_last e = Some snap" using assms(1) by (cases "eo_last e") (auto simp: eos_ApplyPorts_def)
  obtain body t ch where p: "eos_plan ord fmt (eo_port_channels e) (sn_ports snap) ds = (body, t, ch)" by (metis prod_cases3)
  show ?thesis
  proof (cases "ch = 0")
    case True
    with assms(1) l p eos_plan_exact[OF p] show ?thesis by (simp add: eos_ApplyPorts_def eos_PlanPorts_def)
  next
    case False
    then have "eo_last e' = Some (write_ports ds snap)" using assms(1) l p by (auto simp: eos_ApplyPorts_def split: prod.splits option.splits)
    moreover have "fst (snd (eos_plan ord fmt pcs (sn_ports (write_ports ds snap)) ds)) = []" for pcs
    proof (rule settled_plan, intro ballI impI)
      fix d p assume d: "d \<in> set ds" and p: "p \<in> set (sn_ports (write_ports ds snap))" "po_index p = pd_index d"
      then obtain q where q: "p = fold write_port ds q" by (auto simp: write_ports_def)
      with p(2) have i: "pd_index d = po_index q" by (simp add: write_ports_index)
      have "plain_port d" using assms(3) d by (simp add: list_all_iff)
      with written_port_settled[OF this i] write_port_last[OF assms(2) d i] q
      show "port_commands fmt p d = [] \<and> speedCommands p d = [] \<and> po_mirror_from p = pd_mirror d \<and> pd_lag d = 0"
        by (simp add: plain_port_def)
    qed
    ultimately show ?thesis by (simp add: eos_PlanPorts_def)
  qed
qed

section \<open>Commands are single lines\<close>

definition one_line :: "string \<Rightarrow> bool" where
  "one_line c \<longleftrightarrow> LF \<notin> set c"

lemma one_line_append [simp]: "one_line (a @ b) \<longleftrightarrow> one_line a \<and> one_line b" "one_line (c # b) \<longleftrightarrow> c \<noteq> LF \<and> one_line b" "one_line []"
  by (auto simp: one_line_def)

lemma one_line_itoa [simp]: "one_line (itoa i)"
  by (simp add: one_line_def itoa_one_line)

lemma one_line_join: "one_line sep \<Longrightarrow> list_all one_line ws \<Longrightarrow> one_line (join sep ws)"
  by (induction sep ws rule: join.induct) auto

lemma one_line_vlans [simp]: "one_line (formatVLANList ids)"
proof -
  have "list_all one_line (vlan_parts xs)" for xs
    by (induction xs rule: vlan_parts.induct) (auto split: prod.split)
  then show ?thesis by (simp add: formatVLANList_def one_line_join)
qed

lemma one_line_speed [simp]: "one_line (speedKeyword n)"
  by (simp add: speedKeyword_def)

lemma one_line_description: "one_line (sanitizeDescription s)"
proof -
  have "set (trim_space t) \<subseteq> set t" for t
    by (auto simp: trim_space_def trim_right_def dest!: set_dropWhileD)
  then have "set (sanitizeDescription s) \<subseteq> set (filter (\<lambda>c. 32 \<le> char_code c \<and> c \<noteq> CHR 0x7F) s)"
    unfolding sanitizeDescription_def by (rule subset_trans[OF set_take_subset])
  then show ?thesis by (auto simp: one_line_def char_code_def)
qed

definition names_clean :: "dm_port list \<Rightarrow> bool" where
  "names_clean ports \<longleftrightarrow> (\<forall>p \<in> set ports. one_line (po_ifname p) \<and> list_all one_line (po_interfaces p))"

lemma lane_names_clean: "names_clean ports \<Longrightarrow> p \<in> set ports \<Longrightarrow> list_all one_line (laneNames p)"
  by (auto simp: names_clean_def laneNames_def)

lemma port_commands_one_line:
  assumes "\<forall>x. one_line (fmt x)"
  shows "list_all one_line (port_commands fmt p d)" "list_all one_line (speedCommands p d)" "list_all one_line (vlanCommands p d)"
proof -
  show v: "list_all one_line (vlanCommands p d)" by (simp add: vlanCommands_def Let_def)
  have "list_all one_line (storm_line fmt kw h w)" if "one_line kw" for kw h w
    using assms that by (simp add: storm_line_def split: option.split)
  then have "list_all one_line (stormCommands fmt p d)" by (simp add: stormCommands_def Let_def)
  moreover have "list_all one_line (fecCommands p d)" by (simp add: fecCommands_def split: option.split fec.split)
  ultimately show "list_all one_line (port_commands fmt p d)" using v one_line_description
    by (simp add: port_commands_def adminCommands_def lagCommands_def bpduGuardCommands_def stpEdgeCommands_def)
  show "list_all one_line (speedCommands p d)" by (simp add: speedCommands_def)
qed

lemma lane_commands_one_line:
  "list_all one_line a \<Longrightarrow> list_all one_line b \<Longrightarrow> one_line (snd l) \<Longrightarrow> list_all one_line (lane_commands d a b l)"
  by (auto simp: lane_commands_def Let_def split: prod.split)

lemma mirror_one_line: "names_clean ports \<Longrightarrow> list_all one_line (mirror_one (port_map ports) d)"
proof -
  assume c: "names_clean ports"
  have n: "map_of (port_map ports) i = Some p \<Longrightarrow> list_all one_line (laneNames p)" for i p
    using lane_names_clean[OF c] port_map_entry by blast
  have h: "list_all one_line (laneNames p) \<Longrightarrow> one_line (hd (laneNames p))" for p
    by (cases "laneNames p") (auto simp: laneNames_def split: if_splits)
  have m: "list_all one_line (map (\<lambda>lane. ''monitor session '' @ itoa k @ '' source '' @ lane @ '' both'') ls)"
    if "list_all one_line ls" for k ls using that by (induction ls) auto
  show ?thesis unfolding mirror_one_def Let_def using n[of "pd_index d"] n[of "pd_mirror d"] h m
    by (simp split: option.split)
qed

lemma plan_port_one_line:
  assumes "\<forall>x. one_line (fmt x)" and "names_clean ports" and "list_all one_line (ea_cmds a)"
  shows "list_all one_line (ea_cmds (plan_port fmt (port_map ports) d a))"
proof (cases "map_of (port_map ports) (pd_index d)")
  case (Some p)
  then have p: "list_all one_line (laneNames p)" using lane_names_clean[OF assms(2)] port_map_entry by blast
  have "list_all one_line (lane_commands d (speedCommands p d) (port_commands fmt p d) l)" if "l \<in> set (enumerate 0 (laneNames p))" for l
  proof (rule lane_commands_one_line)
    from that have "fst l < length (laneNames p)" "snd l = laneNames p ! fst l" by (auto simp: in_set_enumerate_eq)
    then have "snd l \<in> set (laneNames p)" by simp
    with p show "one_line (snd l)" by (simp add: list_all_iff)
  qed (rule port_commands_one_line[OF assms(1)])+
  then have "list_all one_line (concat (map (lane_commands d (speedCommands p d) (port_commands fmt p d)) (enumerate 0 (laneNames p))))"
    by (auto simp: list_all_iff)
  moreover have "ea_cmds (note_lag d a) = ea_cmds a" by (simp add: note_lag_def)
  ultimately show ?thesis using Some assms(3) by (simp add: plan_port_def Let_def)
qed (simp add: plan_port_def assms(3))

lemma plan_lag_one_line: "list_all one_line (ea_cmds a) \<Longrightarrow> list_all one_line (ea_cmds (plan_lag pcs ld a))"
proof -
  assume a: "list_all one_line (ea_cmds a)"
  have "list_all one_line (vlanCommands q d)" for q d by (simp add: vlanCommands_def Let_def)
  moreover have "one_line (po_ifname (empty_port (lag_name k) v))" for k v by (simp add: empty_port_def lag_name_def)
  ultimately show ?thesis
    using a touches_frame(4)[of "\<lambda>i. i"] by (simp add: plan_lag_def Let_def split_beta)
qed

text \<open>
  A name typed in the controller cannot become a command: every command the driver plans for
  the ports is a single line, whatever bytes the pushed descriptions hold.
\<close>

theorem eos_commands_are_single_lines:
  assumes "\<forall>x. one_line (fmt x)" and "names_clean ports"
  shows "list_all one_line (fst (eos_plan ord fmt pcs ports ds))"
proof -
  have "list_all one_line (mirrorCommands ports ds)"
    using mirror_one_line[OF assms(2)] by (auto simp: mirrorCommands_def list_all_iff)
  then have "list_all one_line (ea_cmds (mirror_acc ports ds))"
    by (simp add: mirror_acc_def Let_def touches_frame(4)[of pd_index])
  moreover have "list_all one_line (ea_cmds (fold (plan_port fmt (port_map ports)) es a))" if "list_all one_line (ea_cmds a)" for es a
    using that by (induction es arbitrary: a) (auto simp: plan_port_one_line[OF assms])
  moreover have "list_all one_line (ea_cmds (fold (plan_lag pcs) lds a))" if "list_all one_line (ea_cmds a)" for lds a
    using that by (induction lds arbitrary: a) (auto simp: plan_lag_one_line)
  ultimately show ?thesis by (simp add: eos_plan_def plan_acc_def ports_acc_def Let_def)
qed

section \<open>Aggregates\<close>

text \<open>
  The VLANs of an aggregate are written again on every apply until the next collect: after a
  successful ApplyPorts of a member whose aggregate's VLANs differ, the driver's plan for the same
  push names the member again, because the aggregate's remembered state is not updated.
\<close>

theorem eos_aggregate_vlans_written_again:
  assumes "eo_last e = Some snap" and "sn_ports snap = [p]" and "po_index p = pd_index d" and "0 < pd_lag d"
    and "vlanCommands (empty_port (lag_name (pd_lag d)) (mget no_vlan (eo_port_channels e) (lag_name (pd_lag d)))) d \<noteq> []"
    and "eos_ApplyPorts ord fmt net [d] e = (Inr n, e')"
  shows "n \<noteq> 0 \<and> pd_index d \<in> set (eos_PlanPorts ord fmt [d] e')"
proof -
  have planned: "pd_index d \<in> set (fst (snd (eos_plan ord fmt (eo_port_channels e) [q] [d])))"
    if "po_index q = pd_index d" for q
  proof -
    have m: "map_of (port_map [q]) (pd_index d) = Some q" using that by (simp add: port_map_def)
    have l: "ea_lag_vlan (ports_acc fmt [q] [d]) = [(pd_lag d, d)]"
      "mget [] (ea_lag_ports (ports_acc fmt [q] [d])) (pd_lag d) = [pd_index d]"
      using assms(4) touches_frame(2,3)[of pd_index]
      by (auto simp: ports_acc_def mirror_acc_def plan_port_def m note_lag_def Let_def mget_def)
    then have "plan_acc ord fmt (eo_port_channels e) [q] [d] = plan_lag (eo_port_channels e) (pd_lag d, d) (ports_acc fmt [q] [d])"
      by (simp add: plan_acc_def)
    with assms(5) l(2) show ?thesis by (simp add: eos_plan_def plan_lag_def Let_def touch_def)
  qed
  obtain body t ch where pl: "eos_plan ord fmt (eo_port_channels e) [p] [d] = (body, t, ch)" by (metis prod_cases3)
  then have "ch \<noteq> 0" using planned[OF assms(3)] eos_plan_exact[OF pl] by auto
  then have e': "n = ch" "eo_last e' = Some (write_ports [d] snap)" "eo_port_channels e' = eo_port_channels e"
    using assms(1,2,6) pl by (auto simp: eos_ApplyPorts_def Configure_def split: prod.splits option.splits)
  moreover have "sn_ports (write_ports [d] snap) = [write_port d p]" using assms(2) by (simp add: write_ports_def)
  ultimately show ?thesis using \<open>ch \<noteq> 0\<close> planned[of "write_port d p"] assms(3) by (simp add: eos_PlanPorts_def)
qed

section \<open>Instances\<close>

text \<open>A switch with two ports that accepts every command, and a link on which it answers everywhere.\<close>

definition eos_open :: "unit eos_net" where
  "eos_open = \<lparr>en_configure = (\<lambda>_ _ m. (None, m)), en_run = (\<lambda>_ _ m. (None, m)), en_redial = True\<rparr>"

definition eos_demo_system :: system where
  "eos_demo_system = \<lparr>sy_vendor = [], sy_model = [], sy_sku = [], sy_serial = [], sy_oob = [],
     sy_addresses = [\<lparr>ifa_iface = ''Ma1'', ifa_ip = ''h'', ifa_prefix = 8\<rparr>], sy_arp = [], sy_gateway_mac = [],
     sy_gateway = [], sy_version = [], sy_battery = None, sy_stp_mode = [], sy_stp_priority = 0, sy_igmp = [],
     sy_ntp = [], sy_syslog = [], sy_snmp = []\<rparr>"

definition eos_demo_port :: "int \<Rightarrow> dm_port" where
  "eos_demo_port i = (empty_port (''Ethernet'' @ itoa i) no_vlan)\<lparr>po_index := i, po_enabled := True\<rparr>"

definition eos_demo_snap :: "dm_port list \<Rightarrow> snapshot" where
  "eos_demo_snap ps = \<lparr>sn_taken = 0, sn_system = eos_demo_system, sn_ports = ps, sn_mac_table = [], sn_vlans = [1],
     sn_outlets = [], sn_uplink_hint = 0\<rparr>"

definition eos_demo :: "dm_port list \<Rightarrow> unit eos" where
  "eos_demo ps = \<lparr>eo_link = (), eo_host = ''h'', eo_last = Some (eos_demo_snap ps), eo_name_servers = [],
     eo_port_channels = [], eo_managed_snmp = [], eo_ssh_user = [], eo_keys = [], eo_sent = []\<rparr>"

definition eos_demo_desired :: "int \<Rightarrow> port_desired" where
  "eos_demo_desired i = \<lparr>pd_index = i, pd_enabled = False, pd_description = ''a'' @ [LF] @ ''b'', pd_speed = 0, pd_vlan_set = True,
     pd_native = 2, pd_tagged_all = False, pd_tagged = [3, 4], pd_fec = None, pd_storm = None, pd_bpdu = True,
     pd_stp_edge = False, pd_edge_mode = [], pd_loop_protect = False, pd_lag = 0, pd_mirror = 0, pd_mtu = 0\<rparr>"

lemma eos_apply_converges_witness:
  "\<exists>n e'. eos_ApplyPorts (\<lambda>_. 0) (\<lambda>_. []) eos_open [eos_demo_desired 1, eos_demo_desired 2] (eos_demo [eos_demo_port 1, eos_demo_port 2]) = (Inr n, e')
     \<and> n = 2 \<and> eos_PlanPorts (\<lambda>_. 0) (\<lambda>_. []) [eos_demo_desired 1, eos_demo_desired 2] e' = []"
proof -
  let ?d = "[eos_demo_desired 1, eos_demo_desired 2]" and ?e = "eos_demo [eos_demo_port 1, eos_demo_port 2]"
  have "fst (eos_ApplyPorts (\<lambda>_. 0) (\<lambda>_. []) eos_open ?d ?e) = Inr 2" by code_simp
  then obtain e' where a: "eos_ApplyPorts (\<lambda>_. 0) (\<lambda>_. []) eos_open ?d ?e = (Inr 2, e')" by (metis prod.collapse)
  from eos_apply_converges[OF this] have "eos_PlanPorts (\<lambda>_. 0) (\<lambda>_. []) ?d e' = []"
    by (simp add: eos_demo_desired_def plain_port_def)
  with a show ?thesis by blast
qed

lemma eos_commands_are_single_lines_witness:
  "list_all one_line (fst (eos_plan (\<lambda>_. 0) (\<lambda>_. []) [] [eos_demo_port 1] [eos_demo_desired 1]))
   \<and> ''description ab'' \<in> set (fst (eos_plan (\<lambda>_. 0) (\<lambda>_. []) [] [eos_demo_port 1] [eos_demo_desired 1]))"
proof
  have "names_clean [eos_demo_port 1]" by (simp add: names_clean_def eos_demo_port_def empty_port_def)
  then show "list_all one_line (fst (eos_plan (\<lambda>_. 0) (\<lambda>_. []) [] [eos_demo_port 1] [eos_demo_desired 1]))"
    by (intro eos_commands_are_single_lines) simp_all
  show "''description ab'' \<in> set (fst (eos_plan (\<lambda>_. 0) (\<lambda>_. []) [] [eos_demo_port 1] [eos_demo_desired 1]))" by code_simp
qed

lemma eos_aggregate_vlans_written_again_witness:
  "\<exists>n e'. eos_ApplyPorts (\<lambda>_. 0) (\<lambda>_. []) eos_open [(eos_demo_desired 1)\<lparr>pd_lag := 5\<rparr>] (eos_demo [eos_demo_port 1]) = (Inr n, e')
     \<and> n \<noteq> 0 \<and> 1 \<in> set (eos_PlanPorts (\<lambda>_. 0) (\<lambda>_. []) [(eos_demo_desired 1)\<lparr>pd_lag := 5\<rparr>] e')"
proof -
  let ?d = "(eos_demo_desired 1)\<lparr>pd_lag := 5\<rparr>" and ?e = "eos_demo [eos_demo_port 1]"
  have "fst (eos_ApplyPorts (\<lambda>_. 0) (\<lambda>_. []) eos_open [?d] ?e) = Inr 2" by code_simp
  then obtain e' where a: "eos_ApplyPorts (\<lambda>_. 0) (\<lambda>_. []) eos_open [?d] ?e = (Inr 2, e')" by (metis prod.collapse)
  have v: "vlanCommands (empty_port (lag_name (pd_lag ?d)) (mget no_vlan (eo_port_channels ?e) (lag_name (pd_lag ?d)))) ?d \<noteq> []"
    by code_simp
  have "eo_last ?e = Some (eos_demo_snap [eos_demo_port 1])" "sn_ports (eos_demo_snap [eos_demo_port 1]) = [eos_demo_port 1]"
    "po_index (eos_demo_port 1) = pd_index ?d" "0 < pd_lag ?d"
    by (simp_all add: eos_demo_def eos_demo_snap_def eos_demo_port_def eos_demo_desired_def)
  from eos_aggregate_vlans_written_again[OF this v a] a show ?thesis
    by (auto simp: eos_demo_desired_def)
qed

definition eos_move :: address_desired where
  "eos_move = \<lparr>ad_dhcp = False, ad_ip = ''n'', ad_prefix = 8, ad_gateway = [], ad_dns = []\<rparr>"


text \<open>The loop on that switch, with everything the driver offers.\<close>

definition eos_controller :: "unit eos controller" where
  "eos_controller = \<lparr>ct_face = no_face\<lparr>fc_PlanPorts := Some (eos_PlanPorts (\<lambda>_. 0) (\<lambda>_. [])),
       fc_EnsureVLANs := Some (eos_EnsureVLANs eos_open), fc_ApplyDevice := Some (eos_ApplyDevice eos_open),
       fc_InstallSSHKeys := Some (eos_InstallSSHKeys eos_open)\<rparr>,
     ct_ApplyPorts = eos_ApplyPorts (\<lambda>_. 0) (\<lambda>_. []) eos_open\<rparr>"

definition eos_config :: "unit eos loop_config" where
  "eos_config = base_config\<lparr>lc_controller := Some eos_controller,
     lc_address := Some \<lparr>ac_face = no_face, ac_ApplyAddress = eos_ApplyAddress eos_open\<rparr>\<rparr>"

definition eos_loop :: "unit eos loop" where
  "eos_loop = NewLoop eos_config 0 [] None demo_pending (eos_demo [eos_demo_port 1, eos_demo_port 2])"

lemma eos_first_push_configures_no_port_witness:
  "eo_sent (lp_dev (apply_ports eos_config demo_env eos_controller ''v7'' [] demo_push eos_loop)) = []"
proof -
  obtain ds l1 where d: "desiredPorts eos_config demo_push eos_loop = (ds, l1)" by fastforce
  obtain out l2 where w: "withholdFreshPorts eos_config ds l1 = (out, l2)" by fastforce
  have f: "lc_controller eos_config = Some eos_controller" "ct_ApplyPorts eos_controller = eos_ApplyPorts (\<lambda>_. 0) (\<lambda>_. []) eos_open"
    "fc_PlanPorts (ct_face eos_controller) = Some (eos_PlanPorts (\<lambda>_. 0) (\<lambda>_. []))" "\<not> lc_allow_initial eos_config"
    "fc_EnsureVLANs (ct_face eos_controller) = Some (eos_EnsureVLANs eos_open)" "deviceAs eos_config fc_ApplyDevice = Some (eos_ApplyDevice eos_open)"
    "deviceAs eos_config fc_InstallSSHKeys = Some (eos_InstallSSHKeys eos_open)" "lc_nut eos_config = None"
    "map_option ac_ApplyAddress (lc_address eos_config) = Some (eos_ApplyAddress eos_open)"
    by (simp_all add: eos_config_def eos_controller_def base_config_def deviceAs_def no_face_def)
  have n: "\<not> lp_ever_applied eos_loop" by code_simp
  have "fst (desiredPorts eos_config demo_push eos_loop) = ds" using d by simp
  moreover have "eos_PlanPorts (\<lambda>_. 0) (\<lambda>_. []) (fst (desiredPorts eos_config demo_push eos_loop)) (lp_dev eos_loop) = [1]"
    by code_simp
  moreover have "eo_sent (lp_dev eos_loop) = []" by code_simp
  ultimately show ?thesis using eos_first_push_configures_no_port[OF f n d w] by simp
qed

end
