(* ===== verification/Nutd.thy ===== *)
theory Nutd
  imports PowerEvent UnifiCfg "HOL-Library.List_Lexorder" "HOL-Library.Char_ord"
begin

text \<open>
  \<^verbatim>\<open>internal/nutd/server.go\<close>: the NUT server the bridge runs for a UPS. One connection is a
  \<open>nut_conn\<close>; a command line is one step of it (each line touches the shared client table in at
  most one critical section). Binding the port is a parameter of \<open>ApplyNUT\<close>, the snapshot source
  is a parameter of a command.
\<close>

section \<open>State\<close>

datatype nut_log = NutStopped string int | NutServing string int bool

record nutd =
  nd_spec :: nut_server
  nd_ln :: "int option"
  nd_clients :: "(string \<times> int) list"
  nd_log :: "nut_log list"

record nut_conn =
  nc_ip :: string
  nc_spec :: nut_server
  nc_user :: string
  nc_pass :: string
  nc_logged_in :: bool

definition New_nutd :: nutd where
  "New_nutd = \<lparr>nd_spec = zero_nut, nd_ln = None, nd_clients = [], nd_log = []\<rparr>"

section \<open>Following the controller\<close>

definition nut_want :: "nut_server option \<Rightarrow> nut_server" where
  "nut_want spec = (case spec of
     None \<Rightarrow> zero_nut
   | Some n \<Rightarrow> if \<not> ns_enabled n then zero_nut
       else (let n1 = (if ns_port n \<le> 0 then n\<lparr>ns_port := 3493\<rparr> else n);
                 n2 = (if ns_id n1 = [] then n1\<lparr>ns_id := ''ups''\<rparr> else n1)
             in if \<not> ns_cred n2 then n2\<lparr>ns_user := [], ns_pass := []\<rparr> else n2))"

definition nut_stop :: "nutd \<Rightarrow> nutd" where
  "nut_stop s = (case nd_ln s of
     None \<Rightarrow> s
   | Some _ \<Rightarrow> s\<lparr>nd_ln := None, nd_log := nd_log s @ [NutStopped (ns_id (nd_spec s)) (ns_port (nd_spec s))],
        nd_spec := zero_nut\<rparr>)"

definition ApplyNUT :: "(int \<Rightarrow> string option) \<Rightarrow> nut_server option \<Rightarrow> nutd \<Rightarrow> string option \<times> nutd" where
  "ApplyNUT bind spec s =
     (let want = nut_want spec
      in if want = nd_spec s then (None, s)
         else (let s1 = nut_stop s
               in if \<not> ns_enabled want then (None, s1)
                  else (case bind (ns_port want) of
                      Some e \<Rightarrow> (Some (''listen on port '' @ itoa (ns_port want) @ '': '' @ e), s1)
                    | None \<Rightarrow> (None, s1\<lparr>nd_ln := Some (ns_port want), nd_spec := want,
                        nd_log := nd_log s1 @ [NutServing (ns_id want) (ns_port want) (ns_cred want)]\<rparr>))))"

definition nutd_Clients :: "nutd \<Rightarrow> string list" where
  "nutd_Clients s = sort (map fst (nd_clients s))"

section \<open>Words on the wire\<close>

definition nut_quote :: "string \<Rightarrow> string" where
  "nut_quote s = [DQ] @ replace_char DQ [BSL, DQ] (replace_char BSL [BSL, BSL] s) @ [DQ]"

text \<open>The loop of \<open>fields\<close>: inside quotes, a word begun, the word so far, the words before it.\<close>

fun fields_loop :: "string \<Rightarrow> bool \<Rightarrow> bool \<Rightarrow> string \<Rightarrow> string list \<Rightarrow> string list" where
  "fields_loop [] q have cur out = (if have then out @ [cur] else out)"
| "fields_loop (c # cs) q have cur out =
     (if c = BSL \<and> q \<and> cs \<noteq> [] then fields_loop (tl cs) q True (cur @ [hd cs]) out
      else if c = DQ then fields_loop cs (\<not> q) True cur out
      else if c = CHR '' '' \<and> \<not> q then
        (if have then fields_loop cs q False [] (out @ [cur]) else fields_loop cs q have cur out)
      else fields_loop cs q True (cur @ [c]) out)"

definition nut_fields :: "string \<Rightarrow> string list" where
  "nut_fields line = fields_loop line False False [] []"

section \<open>The variables\<close>

text \<open>\<open>strconv.FormatFloat(f, 'f', prec, 64)\<close>: the exact value rounded to the nearest, ties to even.\<close>

definition format_fixed :: "nat \<Rightarrow> real \<Rightarrow> string" where
  "format_fixed prec x =
     (let n = nat (round_even (\<bar>x\<bar> * 10 ^ prec)); whole = nat_digits (n div 10 ^ prec);
          part = nat_digits (n mod 10 ^ prec)
      in (if x < 0 then ''-'' else []) @ whole
         @ (if prec = 0 then [] else ''.'' @ replicate (prec - length part) (CHR ''0'') @ part))"

definition status_words :: "battery \<Rightarrow> string list" where
  "status_words b =
     ([if b_on_battery b then ''OB'' else ''OL'']
      @ (if b_low_battery b then [''LB''] else [])
      @ (if b_charging b then [''CHRG''] else [])
      @ (if b_bypass b then [''BYPASS''] else [])
      @ (if b_output_off b then [''OFF''] else [])
      @ (if b_overload b then [''OVER''] else [])
      @ (if b_trim b then [''TRIM''] else [])
      @ (if b_boost b then [''BOOST''] else [])
      @ (if b_calibrating b then [''CAL''] else [])
      @ (if b_testing b then [''TEST''] else [])
      @ (if b_fault b then [''ALARM''] else []))"

definition nut_Status :: "battery \<Rightarrow> string" where
  "nut_Status b = join '' '' (status_words b)"

definition outlet_vars :: "nat \<Rightarrow> dm_outlet \<Rightarrow> (string \<times> string) list" where
  "outlet_vars i x =
     (let prefix = ''outlet.group.'' @ nat_digits (i + 1) @ ''.''
      in [(prefix @ ''id'', itoa (ou_index x)), (prefix @ ''status'', if ou_on x then ''on'' else ''off'')]
         @ (if ou_name x \<noteq> [] then [(prefix @ ''name'', ou_name x)] else [])
         @ [(prefix @ ''switchable'', if ou_switchable x then ''yes'' else ''no'')])"

definition device_vars :: "system \<Rightarrow> (string \<times> string) list" where
  "device_vars y =
     [(''device.mfr'', sy_vendor y), (''device.model'', sy_model y), (''device.serial'', sy_serial y),
      (''device.type'', ''ups''), (''driver.name'', ''disunified''), (''driver.version'', ''nutd''),
      (''ups.mfr'', sy_vendor y), (''ups.model'', sy_model y), (''ups.serial'', sy_serial y),
      (''ups.firmware'', sy_version y)]"

definition battery_vars :: "battery \<Rightarrow> (string \<times> string) list" where
  "battery_vars b =
     [(''ups.status'', nut_Status b)]
     @ (if b_transfer_cause b \<noteq> [] then [(''ups.status.cause'', b_transfer_cause b)] else [])
     @ [(''ups.load'', format_fixed 1 (b_load_pct b)), (''ups.realpower'', format_fixed 0 (b_real_power_w b))]
     @ (if 0 < b_real_rating_w b then [(''ups.realpower.nominal'', format_fixed 0 (b_real_rating_w b))] else [])
     @ [(''ups.power'', format_fixed 0 (b_apparent_va b))]
     @ (if 0 < b_apparent_rating_va b then [(''ups.power.nominal'', format_fixed 0 (b_apparent_rating_va b))] else [])
     @ (if b_has_efficiency b then [(''ups.efficiency'', format_fixed 1 (b_efficiency b))] else [])
     @ (if 0 < b_shutdown_delay b then [(''ups.delay.shutdown'', itoa (go_quot (b_shutdown_delay b) second))] else [])
     @ [(''battery.charge'', itoa (b_charge_pct b)), (''battery.runtime'', itoa (go_quot (b_runtime b) second)),
        (''battery.voltage'', format_fixed 1 (b_voltage_v b))]
     @ (if b_has_temp b then [(''battery.temperature'', format_fixed 1 (b_temp_c b))] else [])
     @ (if b_has_input b then [(''input.voltage'', format_fixed 1 (b_input_v b))] else [])
     @ (if 0 < b_transfer_high b then [(''input.transfer.high'', itoa (b_transfer_high b))] else [])
     @ (if 0 < b_transfer_low b then [(''input.transfer.low'', itoa (b_transfer_low b))] else [])
     @ (if b_has_output b then [(''output.voltage'', format_fixed 1 (b_output_v b)),
          (''output.current'', format_fixed 2 (b_output_a b)), (''output.frequency'', format_fixed 1 (b_output_hz b))] else [])"

definition nut_vars :: "snapshot option \<Rightarrow> (string \<times> string) list" where
  "nut_vars src = (case Option.bind src (\<lambda>s. map_option (Pair s) (sy_battery (sn_system s))) of
     None \<Rightarrow> [(''ups.status'', ''WAIT''), (''driver.name'', ''disunified'')]
   | Some (s, b) \<Rightarrow> device_vars (sn_system s) @ battery_vars b
       @ concat (map (\<lambda>(i, x). outlet_vars i x) (enumerate 0 (sn_outlets s))))"

definition nut_desc :: "snapshot option \<Rightarrow> string" where
  "nut_desc src = (case src of None \<Rightarrow> ''UPS''
     | Some s \<Rightarrow> trim_space (sy_vendor (sn_system s) @ '' '' @ sy_model (sn_system s)))"

section \<open>Commands\<close>

definition nl :: string where "nl = [LF]"

definition lines_of :: "string list \<Rightarrow> string" where
  "lines_of ls = concat (map (\<lambda>l. l @ nl) ls)"

definition nut_list :: "snapshot option \<Rightarrow> (string \<times> int) list \<Rightarrow> nut_server \<Rightarrow> string list \<Rightarrow> string" where
  "nut_list src clients spec args = (case args of
     [] \<Rightarrow> ''ERR INVALID-ARGUMENT'' @ nl
   | w # rest \<Rightarrow>
       (let what = to_upper w; ID = ns_id spec
        in if what = ''UPS'' then
             lines_of [''BEGIN LIST UPS'', ''UPS '' @ ID @ '' '' @ nut_quote (nut_desc src), ''END LIST UPS'']
           else (case rest of
               [] \<Rightarrow> ''ERR INVALID-ARGUMENT'' @ nl
             | u # _ \<Rightarrow>
                 if u \<noteq> ID then ''ERR UNKNOWN-UPS'' @ nl
                 else if what = ''VAR'' then
                   lines_of ([''BEGIN LIST VAR '' @ ID]
                     @ map (\<lambda>(k, v). ''VAR '' @ ID @ '' '' @ k @ '' '' @ nut_quote v) (nut_vars src)
                     @ [''END LIST VAR '' @ ID])
                 else if what \<in> {''RW'', ''CMD'', ''ENUM'', ''RANGE''} then
                   lines_of [''BEGIN LIST '' @ what @ '' '' @ ID, ''END LIST '' @ what @ '' '' @ ID]
                 else if what = ''CLIENT'' then
                   lines_of ([''BEGIN LIST CLIENT '' @ ID]
                     @ map (\<lambda>ip. ''CLIENT '' @ ID @ '' '' @ ip) (sort (map fst clients))
                     @ [''END LIST CLIENT '' @ ID])
                 else ''ERR INVALID-ARGUMENT'' @ nl)))"

definition num_logins :: "(string \<times> int) list \<Rightarrow> int" where
  "num_logins clients = sum_list (map snd clients)"

definition var_reply :: "string \<Rightarrow> string \<Rightarrow> string \<times> string \<Rightarrow> string" where
  "var_reply what ID kv = (case kv of (k, v) \<Rightarrow>
     if what = ''VAR'' then ''VAR '' @ ID @ '' '' @ k @ '' '' @ nut_quote v @ nl
     else if what = ''TYPE'' then ''TYPE '' @ ID @ '' '' @ k @ '' STRING:'' @ nat_digits (length v + 1) @ nl
     else ''DESC '' @ ID @ '' '' @ k @ '' '' @ nut_quote k @ nl)"

definition nut_get :: "snapshot option \<Rightarrow> (string \<times> int) list \<Rightarrow> nut_server \<Rightarrow> string list \<Rightarrow> string" where
  "nut_get src clients spec args = (case args of
     w # u # rest \<Rightarrow>
       (let what = to_upper w; ID = ns_id spec
        in if u \<noteq> ID then ''ERR UNKNOWN-UPS'' @ nl
           else if what = ''NUMLOGINS'' then ''NUMLOGINS '' @ ID @ '' '' @ itoa (num_logins clients) @ nl
           else if what = ''UPSDESC'' then ''UPSDESC '' @ ID @ '' '' @ nut_quote (nut_desc src) @ nl
           else if what \<in> {''VAR'', ''TYPE'', ''DESC''} then
             (case rest of
                [k] \<Rightarrow> (case find (\<lambda>kv. fst kv = k) (nut_vars src) of
                    Some kv \<Rightarrow> var_reply what ID kv
                  | None \<Rightarrow> ''ERR VAR-NOT-SUPPORTED'' @ nl)
              | _ \<Rightarrow> ''ERR INVALID-ARGUMENT'' @ nl)
           else ''ERR INVALID-ARGUMENT'' @ nl)
   | _ \<Rightarrow> ''ERR INVALID-ARGUMENT'' @ nl)"

text \<open>What a line is answered with: nothing (a blank line), a reply, or a reply and the end.\<close>

datatype nut_answer = Silent | Answer string | Goodbye string

definition bump :: "string \<Rightarrow> (string \<times> int) list \<Rightarrow> (string \<times> int) list" where
  "bump ip clients = AList.update ip (mget 0 clients ip + 1) clients"

definition login :: "string list \<Rightarrow> nut_conn \<Rightarrow> (string \<times> int) list \<Rightarrow> string \<times> nut_conn \<times> (string \<times> int) list" where
  "login args c clients = (let spec = nc_spec c in
     if length args \<noteq> 2 then (''ERR INVALID-ARGUMENT'' @ nl, c, clients)
     else if args ! 1 \<noteq> ns_id spec then (''ERR UNKNOWN-UPS'' @ nl, c, clients)
     else if ns_cred spec \<and> (nc_user c \<noteq> ns_user spec \<or> nc_pass c \<noteq> ns_pass spec)
       then (''ERR ACCESS-DENIED'' @ nl, c, clients)
     else if nc_logged_in c then (''OK'' @ nl, c, clients)
     else (''OK'' @ nl, c\<lparr>nc_logged_in := True\<rparr>, bump (nc_ip c) clients))"

definition primary :: "string \<Rightarrow> string list \<Rightarrow> nut_conn \<Rightarrow> string" where
  "primary cmd args c =
     (if length args \<noteq> 2 \<or> args ! 1 \<noteq> ns_id (nc_spec c) then ''ERR UNKNOWN-UPS'' @ nl
      else if \<not> nc_logged_in c then ''ERR USERNAME-REQUIRED'' @ nl
      else ''OK '' @ cmd @ ''-GRANTED'' @ nl)"

definition nut_command :: "snapshot option \<Rightarrow> string \<Rightarrow> string list \<Rightarrow> nut_conn \<Rightarrow> (string \<times> int) list
    \<Rightarrow> string \<times> nut_conn \<times> (string \<times> int) list" where
  "nut_command src cmd args c clients =
     (if cmd = ''USERNAME'' then
        (if length args = 2 then (''OK'' @ nl, c\<lparr>nc_user := args ! 1\<rparr>, clients) else (''ERR INVALID-ARGUMENT'' @ nl, c, clients))
      else if cmd = ''PASSWORD'' then
        (if length args = 2 then (''OK'' @ nl, c\<lparr>nc_pass := args ! 1\<rparr>, clients) else (''ERR INVALID-ARGUMENT'' @ nl, c, clients))
      else if cmd = ''LOGIN'' then login args c clients
      else if cmd = ''PRIMARY'' \<or> cmd = ''MASTER'' then (primary cmd args c, c, clients)
      else if cmd = ''VER'' then (''disunified NUT server (upsd protocol 1.3, read-only)'' @ nl, c, clients)
      else if cmd = ''NETVER'' \<or> cmd = ''PROTVER'' then (''1.3'' @ nl, c, clients)
      else if cmd = ''HELP'' then
        (''Commands: HELP VER NETVER LIST GET USERNAME PASSWORD LOGIN LOGOUT PRIMARY MASTER'' @ nl, c, clients)
      else if cmd = ''STARTTLS'' then (''ERR FEATURE-NOT-SUPPORTED'' @ nl, c, clients)
      else if cmd = ''FSD'' \<or> cmd = ''SET'' \<or> cmd = ''INSTCMD'' then (''ERR ACCESS-DENIED'' @ nl, c, clients)
      else if cmd = ''LIST'' then (nut_list src clients (nc_spec c) (tl args), c, clients)
      else if cmd = ''GET'' then (nut_get src clients (nc_spec c) (tl args), c, clients)
      else (''ERR UNKNOWN-COMMAND'' @ nl, c, clients))"

definition session_line :: "snapshot option \<Rightarrow> string \<Rightarrow> nut_conn \<Rightarrow> (string \<times> int) list
    \<Rightarrow> nut_answer \<times> nut_conn \<times> (string \<times> int) list" where
  "session_line src line c clients =
     (let args = nut_fields (trim_right (\<lambda>x. x = CR \<or> x = LF) line)
      in case args of
           [] \<Rightarrow> (Silent, c, clients)
         | w # _ \<Rightarrow>
             if to_upper w = ''LOGOUT'' then (Goodbye (''OK Goodbye'' @ nl), c, clients)
             else (case nut_command src (to_upper w) args c clients of (r, c', cl') \<Rightarrow> (Answer r, c', cl')))"

text \<open>The end of a connection (LOGOUT, a peer gone, an idle peer, a failed write).\<close>

definition unbump :: "string \<Rightarrow> (string \<times> int) list \<Rightarrow> (string \<times> int) list" where
  "unbump ip clients = (let n = mget 0 clients ip - 1
     in if n \<le> 0 then AList.delete ip clients else AList.update ip n clients)"

definition session_end :: "nut_conn \<Rightarrow> (string \<times> int) list \<Rightarrow> (string \<times> int) list" where
  "session_end c clients = (if nc_logged_in c then unbump (nc_ip c) clients else clients)"

definition session_start :: "string \<Rightarrow> nut_server \<Rightarrow> nut_conn" where
  "session_start ip spec = \<lparr>nc_ip = ip, nc_spec = spec, nc_user = [], nc_pass = [], nc_logged_in = False\<rparr>"

section \<open>The server and its connections\<close>

record nut_world =
  nw_server :: nutd
  nw_conns :: "(nat \<times> nut_conn) list"

datatype nut_event =
    Push "nut_server option" "string option"
  | Accepted nat string
  | Line nat string "snapshot option"
  | Gone nat

definition set_clients :: "(string \<times> int) list \<Rightarrow> nut_world \<Rightarrow> nut_world" where
  "set_clients cl w = w\<lparr>nw_server := (nw_server w)\<lparr>nd_clients := cl\<rparr>\<rparr>"

definition end_conn :: "nat \<Rightarrow> nut_conn \<Rightarrow> nut_world \<Rightarrow> nut_world" where
  "end_conn k c w = set_clients (session_end c (nd_clients (nw_server w))) (w\<lparr>nw_conns := AList.delete k (nw_conns w)\<rparr>)"

text \<open>
  One event of the running server, and what it sends: the controller's push (with what binding the
  port answers), a connection taken by the open listener, a line on a connection, a connection gone.
\<close>

inductive nut_step :: "nut_world \<Rightarrow> nut_event \<Rightarrow> string option \<Rightarrow> nut_world \<Rightarrow> bool" where
  push: "ApplyNUT (\<lambda>_. bound) spec (nw_server w) = (e, s') \<Longrightarrow>
    nut_step w (Push spec bound) None (w\<lparr>nw_server := s'\<rparr>)"
| accepted: "nd_ln (nw_server w) = Some p \<Longrightarrow> k \<notin> fst ` set (nw_conns w) \<Longrightarrow>
    nut_step w (Accepted k ip) None
      (w\<lparr>nw_conns := (k, session_start ip (nd_spec (nw_server w))) # nw_conns w\<rparr>)"
| line: "map_of (nw_conns w) k = Some c \<Longrightarrow>
    session_line src text c (nd_clients (nw_server w)) = (a, c', cl') \<Longrightarrow> a = Silent \<and> r = None \<or> a = Answer t \<and> r = Some t \<Longrightarrow>
    nut_step w (Line k text src) r (set_clients cl' (w\<lparr>nw_conns := AList.update k c' (nw_conns w)\<rparr>))"
| logout: "map_of (nw_conns w) k = Some c \<Longrightarrow>
    session_line src text c (nd_clients (nw_server w)) = (Goodbye t, c', cl') \<Longrightarrow>
    nut_step w (Line k text src) (Some t) (end_conn k c' w)"
| gone: "map_of (nw_conns w) k = Some c \<Longrightarrow> nut_step w (Gone k) None (end_conn k c w)"

inductive nut_reachable :: "nut_world \<Rightarrow> bool" where
  start: "nut_reachable \<lparr>nw_server = New_nutd, nw_conns = []\<rparr>"
| step: "nut_reachable w \<Longrightarrow> nut_step w e r w' \<Longrightarrow> nut_reachable w'"

inductive_cases nut_stepE: "nut_step w e r w'"

end
