(* ===== verification/Nutd_Props.thy ===== *)
theory Nutd_Props
  imports Nutd
begin

text \<open>
  Properties of the NUT server: quoting and splitting are inverse, the client table counts the
  logged-in connections over any interleaving, a login needs the pushed credentials, the listener
  follows the push, and the status words say what the battery says.
\<close>

section \<open>Quoting\<close>

definition esc :: "char \<Rightarrow> string" where
  "esc c = (if c = BSL then [BSL, BSL] else if c = DQ then [BSL, DQ] else [c])"

lemma nut_quote_esc: "nut_quote s = DQ # concat (map esc s) @ [DQ]"
  by (induction s) (auto simp: nut_quote_def replace_char_def esc_def)

lemma fields_quoted:
  "fields_loop (concat (map esc s) @ DQ # rest) True True cur out = fields_loop rest False True (cur @ s) out"
  by (induction s arbitrary: cur) (auto simp: esc_def)

lemma fields_word:
  assumes "CHR '' '' \<notin> set w" and "DQ \<notin> set w" and "w \<noteq> []"
  shows "fields_loop (w @ rest) False have cur out = fields_loop rest False True (cur @ w) out"
proof -
  have "fields_loop (w @ rest) False True cur out = fields_loop rest False True (cur @ w) out" for cur
    using assms(1,2) by (induction w arbitrary: cur) auto
  with assms show ?thesis by (cases w) auto
qed

lemma fields_args:
  "fields_loop (concat (map (\<lambda>x. CHR '' '' # nut_quote x) xs)) False True cur out = out @ cur # xs"
proof (induction xs arbitrary: cur out)
  case (Cons x xs)
  have "fields_loop (concat (map (\<lambda>x. CHR '' '' # nut_quote x) (x # xs))) False True cur out
      = fields_loop (concat (map esc x) @ DQ # concat (map (\<lambda>x. CHR '' '' # nut_quote x) xs)) True True [] (out @ [cur])"
    by (simp add: nut_quote_esc)
  with Cons show ?case by (simp only: fields_quoted) simp
qed simp

lemma join_args: "join '' '' (w # map nut_quote xs) = w @ concat (map (\<lambda>x. CHR '' '' # nut_quote x) xs)"
  by (induction xs arbitrary: w) auto

section \<open>The client table\<close>

definition logged_at :: "string \<Rightarrow> nat \<times> nut_conn \<Rightarrow> bool" where
  "logged_at ip kc \<longleftrightarrow> nc_logged_in (snd kc) \<and> nc_ip (snd kc) = ip"

definition logins :: "string \<Rightarrow> nut_world \<Rightarrow> nat" where
  "logins ip w = length (filter (logged_at ip) (nw_conns w))"

definition table_ok :: "nut_world \<Rightarrow> bool" where
  "table_ok w \<longleftrightarrow> distinct (map fst (nw_conns w)) \<and> distinct (map fst (nd_clients (nw_server w)))
     \<and> (\<forall>ip. map_of (nd_clients (nw_server w)) ip = (if logins ip w = 0 then None else Some (int (logins ip w))))"

lemma count_update:
  "distinct (map fst xs) \<Longrightarrow> map_of xs k = Some c \<Longrightarrow>
   length (filter P (AList.update k c' xs)) + (if P (k, c) then 1 else 0) = length (filter P xs) + (if P (k, c') then 1 else 0)"
  by (induction xs) (auto split: if_splits)

lemma filter_fst_noop:
  "k \<notin> fst ` set xs \<Longrightarrow> filter (\<lambda>x. (case x of (k', _) \<Rightarrow> k \<noteq> k') \<and> P x) xs = filter P xs"
  by (rule filter_cong) force+

lemma count_delete:
  "distinct (map fst xs) \<Longrightarrow> map_of xs k = Some c \<Longrightarrow>
   length (filter P (AList.delete k xs)) + (if P (k, c) then 1 else 0) = length (filter P xs)"
  by (induction xs) (auto simp: AList.delete_eq filter_fst_noop split: if_splits)

lemma logins_update:
  assumes "distinct (map fst (nw_conns w))" and "map_of (nw_conns w) k = Some c"
  shows "logins ip (set_clients cl (w\<lparr>nw_conns := AList.update k c' (nw_conns w)\<rparr>)) + (if logged_at ip (k, c) then 1 else 0)
    = logins ip w + (if logged_at ip (k, c') then 1 else 0)"
  using count_update[OF assms, of "logged_at ip" c'] by (simp add: logins_def set_clients_def)

lemma logins_delete:
  assumes "distinct (map fst (nw_conns w))" and "map_of (nw_conns w) k = Some c"
  shows "logins ip (end_conn k c w) + (if logged_at ip (k, c) then 1 else 0) = logins ip w"
  using count_delete[OF assms, of "logged_at ip"] by (simp add: logins_def end_conn_def set_clients_def)

text \<open>What a line does to its connection and to the table: nothing, or the login of the connection.\<close>

definition credentials_ok :: "nut_conn \<Rightarrow> bool" where
  "credentials_ok c \<longleftrightarrow> \<not> ns_cred (nc_spec c) \<or> nc_user c = ns_user (nc_spec c) \<and> nc_pass c = ns_pass (nc_spec c)"

lemma nut_command_effect:
  assumes "nut_command src cmd args c cl = (r, c', cl')"
  shows "nc_ip c' = nc_ip c \<and> nc_spec c' = nc_spec c
    \<and> (nc_logged_in c' = nc_logged_in c \<and> cl' = cl
       \<or> cmd = ''LOGIN'' \<and> length args = 2 \<and> args ! 1 = ns_id (nc_spec c) \<and> credentials_ok c
         \<and> \<not> nc_logged_in c \<and> nc_logged_in c' \<and> cl' = bump (nc_ip c) cl)"
  using assms by (auto simp: nut_command_def login_def credentials_ok_def Let_def split: if_splits)

lemma session_line_effect:
  assumes "session_line src text c cl = (a, c', cl')"
  shows "nc_ip c' = nc_ip c \<and> nc_spec c' = nc_spec c
    \<and> (nc_logged_in c' = nc_logged_in c \<and> cl' = cl
       \<or> \<not> nc_logged_in c \<and> nc_logged_in c' \<and> cl' = bump (nc_ip c) cl \<and> credentials_ok c
         \<and> (\<exists>w. nut_fields (trim_right (\<lambda>x. x = CR \<or> x = LF) text) = [w, ns_id (nc_spec c)] \<and> to_upper w = ''LOGIN''))"
proof -
  let ?args = "nut_fields (trim_right (\<lambda>x. x = CR \<or> x = LF) text)"
  show ?thesis
  proof (cases ?args)
    case (Cons w ws)
    obtain r d e where n: "nut_command src (to_upper w) ?args c cl = (r, d, e)" by (metis prod_cases3)
    have two: "length ?args = 2 \<Longrightarrow> ?args ! 1 = x \<Longrightarrow> ?args = [w, x]" for x using Cons by (cases ws) auto
    from assms n have "to_upper w = ''LOGOUT'' \<and> c' = c \<and> cl' = cl \<or> c' = d \<and> cl' = e"
      unfolding session_line_def Let_def Cons by (auto split: if_splits)
    with nut_command_effect[OF n] two show ?thesis by auto
  qed (use assms in \<open>auto simp: session_line_def\<close>)
qed

lemma line_step:
  assumes "nut_step w (Line k tx src) r w'" and "map_of (nw_conns w) k = Some c"
  shows "\<exists>a d cl. session_line src tx c (nd_clients (nw_server w)) = (a, d, cl)
    \<and> (w' = set_clients cl (w\<lparr>nw_conns := AList.update k d (nw_conns w)\<rparr>) \<or> w' = end_conn k d w)"
  using assms(1)
proof (cases rule: nut_step.cases)
  case line
  with assms(2) show ?thesis by (metis option.inject)
next
  case logout
  with assms(2) show ?thesis by (metis option.inject)
qed

lemma bump_map: "map_of (bump ip cl) x = (if x = ip then Some (mget 0 cl ip + 1) else map_of cl x)"
  by (simp add: bump_def update_conv')

lemma unbump_map: "distinct (map fst cl) \<Longrightarrow> map_of (unbump ip cl) x
    = (if x = ip then (if mget 0 cl ip - 1 \<le> 0 then None else Some (mget 0 cl ip - 1)) else map_of cl x)"
  by (simp add: unbump_def Let_def update_conv' delete_conv')

lemma table_ok_mget: "table_ok w \<Longrightarrow> mget 0 (nd_clients (nw_server w)) ip = int (logins ip w)"
  by (simp add: table_ok_def mget_def)

lemma table_ok_lookup: "table_ok w \<Longrightarrow> map_of (nd_clients (nw_server w)) ip
    = (if logins ip w = 0 then None else Some (int (logins ip w)))"
  by (simp add: table_ok_def)

lemma table_ok_end:
  assumes "table_ok w" and "map_of (nw_conns w) k = Some c"
  shows "table_ok (end_conn k c w)"
proof -
  have d: "distinct (map fst (nw_conns w))" "distinct (map fst (nd_clients (nw_server w)))" using assms(1) by (simp_all add: table_ok_def)
  note l = logins_delete[OF d(1) assms(2)]
  have "map_of (nd_clients (nw_server (end_conn k c w))) ip
      = (if logins ip (end_conn k c w) = 0 then None else Some (int (logins ip (end_conn k c w))))" for ip
    using l[of ip] table_ok_mget[OF assms(1), of ip]
    by (auto simp: end_conn_def set_clients_def session_end_def logged_at_def unbump_map[OF d(2)]
        table_ok_lookup[OF assms(1)] split: if_splits)
  moreover have "distinct (map fst (nd_clients (nw_server (end_conn k c w))))" "distinct (map fst (nw_conns (end_conn k c w)))"
    using d by (auto simp: end_conn_def set_clients_def session_end_def unbump_def Let_def distinct_update distinct_delete)
  ultimately show ?thesis by (simp add: table_ok_def)
qed

lemma table_ok_line:
  assumes "table_ok w" and "map_of (nw_conns w) k = Some c"
    and "session_line src text c (nd_clients (nw_server w)) = (a, c', cl')"
  shows "table_ok (set_clients cl' (w\<lparr>nw_conns := AList.update k c' (nw_conns w)\<rparr>))" (is "table_ok ?w")
proof -
  have d: "distinct (map fst (nw_conns w))" "distinct (map fst (nd_clients (nw_server w)))" using assms(1) by (simp_all add: table_ok_def)
  note e = session_line_effect[OF assms(3)]
  note l = logins_update[OF d(1) assms(2), of _ cl' c']
  have "map_of (nd_clients (nw_server ?w)) ip = (if logins ip ?w = 0 then None else Some (int (logins ip ?w)))" for ip
    using e l[of ip] table_ok_mget[OF assms(1), of ip]
    by (auto simp: set_clients_def logged_at_def table_ok_lookup[OF assms(1)] bump_map split: if_splits)
  moreover have "distinct (map fst (nd_clients (nw_server ?w)))" "distinct (map fst (nw_conns ?w))"
    using e d by (auto simp: set_clients_def bump_def distinct_update)
  ultimately show ?thesis by (simp add: table_ok_def)
qed

lemma ApplyNUT_clients: "ApplyNUT b spec s = (e, s') \<Longrightarrow> nd_clients s' = nd_clients s"
  by (auto simp: ApplyNUT_def nut_stop_def Let_def split: if_splits option.splits)

lemma reachable_table: "nut_reachable w \<Longrightarrow> table_ok w"
proof (induction rule: nut_reachable.induct)
  case start
  show ?case by (simp add: table_ok_def New_nutd_def logins_def)
next
  case (step w e r w')
  from step.hyps(2) step.IH show ?case
  proof (cases rule: nut_step.cases)
    case push
    with step.IH ApplyNUT_clients show ?thesis by (force simp: table_ok_def logins_def)
  next
    case accepted
    with step.IH show ?thesis by (auto simp: table_ok_def logins_def logged_at_def session_start_def)
  next
    case line
    with step.IH table_ok_line show ?thesis by blast
  next
    case (logout k c src tx t c' cl')
    then have "c' = c" by (auto simp: session_line_def Let_def split: list.splits if_splits prod.splits)
    with logout step.IH table_ok_end show ?thesis by blast
  next
    case gone
    with step.IH table_ok_end show ?thesis by blast
  qed
qed

lemma sum_list_int: "sum_list (map (\<lambda>x. int (f x)) xs) = int (sum_list (map f xs))"
  by (induction xs) auto

lemma logged_sum:
  assumes "distinct ips" and "\<forall>kc \<in> set conns. nc_logged_in (snd kc) \<longrightarrow> nc_ip (snd kc) \<in> set ips"
  shows "sum_list (map (\<lambda>ip. length (filter (logged_at ip) conns)) ips) = length (filter (\<lambda>kc. nc_logged_in (snd kc)) conns)"
  using assms
proof (induction conns)
  case (Cons kc conns)
  have add: "sum_list (map (\<lambda>ip. length (filter (logged_at ip) (kc # conns))) ips)
      = length (filter (\<lambda>ip. logged_at ip kc) ips) + sum_list (map (\<lambda>ip. length (filter (logged_at ip) conns)) ips)"
    by (induction ips) auto
  have "{ip. nc_ip (snd kc) = ip} \<inter> set ips = {nc_ip (snd kc)}" if "nc_logged_in (snd kc)"
    using that Cons.prems(2) by auto
  then have "length (filter (\<lambda>ip. logged_at ip kc) ips) = (if nc_logged_in (snd kc) then 1 else 0)"
    using distinct_length_filter[OF Cons.prems(1)] by (cases "nc_logged_in (snd kc)") (auto simp: logged_at_def)
  with add Cons show ?case by auto
qed (induction ips, auto)

section \<open>The listener\<close>

definition server_ok :: "nutd \<Rightarrow> bool" where
  "server_ok s \<longleftrightarrow> nd_ln s = (if ns_enabled (nd_spec s) then Some (ns_port (nd_spec s)) else None)
    \<and> (\<not> ns_enabled (nd_spec s) \<longrightarrow> nd_spec s = zero_nut)"

lemma zero_not_enabled: "\<not> ns_enabled zero_nut"
  by (simp add: zero_nut_def)

lemma want_enabled: "\<not> ns_enabled (nut_want x) \<Longrightarrow> nut_want x = zero_nut"
  by (auto simp: nut_want_def Let_def split: option.splits if_splits)

lemma ApplyNUT_ok: "ApplyNUT b x s = (e, t) \<Longrightarrow> server_ok s \<Longrightarrow> server_ok t"
  using zero_not_enabled want_enabled[of x]
  by (auto simp: server_ok_def ApplyNUT_def nut_stop_def Let_def split: if_splits option.splits)

lemma reachable_server: "nut_reachable w \<Longrightarrow> server_ok (nw_server w)"
proof (induction rule: nut_reachable.induct)
  case start
  show ?case using zero_not_enabled by (simp add: server_ok_def New_nutd_def)
next
  case (step w e r w')
  from step.hyps(2) show ?case
  proof (cases rule: nut_step.cases)
    case push
    with ApplyNUT_ok step.IH show ?thesis by fastforce
  qed (use step.IH in \<open>simp_all add: server_ok_def set_clients_def end_conn_def\<close>)
qed

lemma set_if_one: "set (if b then [y] else []) = (if b then {y} else {})"
  by simp

section \<open>A client that logs in\<close>

definition demo_nut :: nut_server where
  "demo_nut = \<lparr>ns_enabled = True, ns_id = ''ups'', ns_port = 34, ns_cred = True, ns_user = ''u'', ns_pass = ''p''\<rparr>"

definition serving :: nutd where
  "serving = \<lparr>nd_spec = demo_nut, nd_ln = Some 34, nd_clients = [], nd_log = [NutServing ''ups'' 34 True]\<rparr>"

definition demo_conn :: nut_conn where
  "demo_conn = session_start ''10.0.0.5'' demo_nut"

definition nut_w :: "nut_conn \<Rightarrow> nut_world" where
  "nut_w c = \<lparr>nw_server = serving, nw_conns = [(0, c)]\<rparr>"

definition named_conn :: nut_conn where
  "named_conn = demo_conn\<lparr>nc_user := ''u'', nc_pass := ''p''\<rparr>"

definition nut_in :: nut_world where
  "nut_in = set_clients [(''10.0.0.5'', 1)] (nut_w (named_conn\<lparr>nc_logged_in := True\<rparr>))"

lemma demo_lines:
  "session_line None ''username u'' demo_conn [] = (Answer (''OK'' @ nl), demo_conn\<lparr>nc_user := ''u''\<rparr>, [])"
  "session_line None ''PASSWORD p'' (demo_conn\<lparr>nc_user := ''u''\<rparr>) [] = (Answer (''OK'' @ nl), named_conn, [])"
  "session_line None ''LOGIN ups'' named_conn []
     = (Answer (''OK'' @ nl), named_conn\<lparr>nc_logged_in := True\<rparr>, [(''10.0.0.5'', 1)])"
  by code_simp+

lemma demo_line_step:
  assumes "session_line None t c [] = (Answer x, c', cl)"
  shows "nut_step (nut_w c) (Line 0 t None) (Some x) (set_clients cl (nut_w c'))"
proof -
  have "map_of (nw_conns (nut_w c)) 0 = Some c" "nd_clients (nw_server (nut_w c)) = []"
    by (simp_all add: nut_w_def serving_def)
  with nut_step.line[of "nut_w c" 0 c None t "Answer x" c' cl "Some x" x] assms show ?thesis
    by (simp add: nut_w_def)
qed

lemma nut_named_reachable: "nut_reachable (nut_w named_conn)"
proof -
  have a: "ApplyNUT (\<lambda>_. None) (Some demo_nut) New_nutd = (None, serving)" by code_simp
  have 1: "nut_step \<lparr>nw_server = New_nutd, nw_conns = []\<rparr> (Push (Some demo_nut) None) None \<lparr>nw_server = serving, nw_conns = []\<rparr>"
    using nut_step.push[of None "Some demo_nut" "\<lparr>nw_server = New_nutd, nw_conns = []\<rparr>"] a by simp
  have 2: "nut_step \<lparr>nw_server = serving, nw_conns = []\<rparr> (Accepted 0 ''10.0.0.5'') None (nut_w demo_conn)"
    using nut_step.accepted[of "\<lparr>nw_server = serving, nw_conns = []\<rparr>" 34 0 "''10.0.0.5''"]
    by (simp add: serving_def nut_w_def demo_conn_def)
  have n: "set_clients [] (nut_w c) = nut_w c" for c by (simp add: set_clients_def nut_w_def serving_def)
  note 3 = demo_line_step[OF demo_lines(1), unfolded n] and 4 = demo_line_step[OF demo_lines(2), unfolded n]
  show ?thesis
    by (rule nut_reachable.step[OF nut_reachable.step[OF nut_reachable.step[OF nut_reachable.step[OF nut_reachable.start 1] 2] 3] 4])
qed

lemma nut_login_step: "nut_step (nut_w named_conn) (Line 0 ''LOGIN ups'' None) (Some (''OK'' @ nl)) nut_in"
  unfolding nut_in_def by (rule demo_line_step[OF demo_lines(3)])

section \<open>Properties\<close>

text \<open>
  Quoting survives the way: whatever the arguments hold (spaces, quotes, backslashes), a
  command whose arguments are quoted the way the server itself quotes values is split back into
  exactly that command and those arguments.
\<close>

theorem nut_fields_quote:
  assumes "w \<noteq> []" and "CHR '' '' \<notin> set w" and "DQ \<notin> set w"
  shows "nut_fields (join '' '' (w # map nut_quote xs)) = w # xs"
  by (simp add: join_args nut_fields_def fields_word[OF assms(2,3,1)] fields_args)

lemma nut_fields_quote_witness:
  "nut_fields (''PASSWORD '' @ nut_quote (''a b'' @ [DQ, BSL])) = [''PASSWORD'', ''a b'' @ [DQ, BSL]]"
proof -
  have w: "''PASSWORD'' \<noteq> []" "CHR '' '' \<notin> set ''PASSWORD''" "DQ \<notin> set ''PASSWORD''" by simp_all
  show ?thesis using nut_fields_quote[OF w, of "[''a b'' @ [DQ, BSL]]"] by simp
qed

text \<open>
  C35. Over any interleaving of pushes, connections, commands and disconnects, the client table is
  the count of the logged-in connections: per address, in total (NUMLOGINS), and the reported
  client addresses are exactly those with a logged-in connection, each once, sorted.
\<close>

theorem nut_clients_are_the_logged_in:
  assumes "nut_reachable w"
  shows "mget 0 (nd_clients (nw_server w)) ip = int (logins ip w)
    \<and> set (nutd_Clients (nw_server w)) = {nc_ip c |k c. (k, c) \<in> set (nw_conns w) \<and> nc_logged_in c}
    \<and> sorted (nutd_Clients (nw_server w)) \<and> distinct (nutd_Clients (nw_server w))
    \<and> num_logins (nd_clients (nw_server w)) = int (length (filter (\<lambda>kc. nc_logged_in (snd kc)) (nw_conns w)))"
proof -
  let ?cl = "nd_clients (nw_server w)"
  note t = reachable_table[OF assms]
  then have d: "distinct (map fst ?cl)" by (simp add: table_ok_def)
  have dom: "ip \<in> set (map fst ?cl) \<longleftrightarrow> logins ip w \<noteq> 0" for ip
    using table_ok_lookup[OF t, of ip] map_of_eq_None_iff[of ?cl ip] by (auto split: if_splits)
  have logged: "logins ip w \<noteq> 0 \<longleftrightarrow> (\<exists>k c. (k, c) \<in> set (nw_conns w) \<and> nc_logged_in c \<and> nc_ip c = ip)" for ip
    by (force simp: logins_def logged_at_def filter_empty_conv)
  have "snd kv = int (logins (fst kv) w)" if "kv \<in> set ?cl" for kv
    using table_ok_mget[OF t, of "fst kv"] map_of_is_SomeI[OF d, of "fst kv" "snd kv"] that by (simp add: mget_def)
  then have "map snd ?cl = map (\<lambda>ip. int (logins ip w)) (map fst ?cl)" by simp
  then have "num_logins ?cl = int (sum_list (map (\<lambda>ip. length (filter (logged_at ip) (nw_conns w))) (map fst ?cl)))"
    by (simp only: num_logins_def logins_def sum_list_int)
  moreover have "\<forall>kc \<in> set (nw_conns w). nc_logged_in (snd kc) \<longrightarrow> nc_ip (snd kc) \<in> set (map fst ?cl)"
    using dom logged by fastforce
  ultimately have "num_logins ?cl = int (length (filter (\<lambda>kc. nc_logged_in (snd kc)) (nw_conns w)))"
    using logged_sum[OF d] by simp
  moreover have "set (nutd_Clients (nw_server w)) = {nc_ip c |k c. (k, c) \<in> set (nw_conns w) \<and> nc_logged_in c}"
    unfolding nutd_Clients_def set_sort set_eq_iff dom logged by (auto 4 3)
  ultimately show ?thesis using table_ok_mget[OF t] d by (simp add: nutd_Clients_def)
qed

lemma nut_clients_are_the_logged_in_witness:
  "nutd_Clients (nw_server nut_in) = [''10.0.0.5''] \<and> num_logins (nd_clients (nw_server nut_in)) = 1
   \<and> mget 0 (nd_clients (nw_server nut_in)) ''10.0.0.5'' = int (logins ''10.0.0.5'' nut_in)"
proof -
  have r: "nut_reachable nut_in" using nut_named_reachable nut_login_step by (rule nut_reachable.step)
  have v: "nutd_Clients (nw_server nut_in) = [''10.0.0.5'']" "num_logins (nd_clients (nw_server nut_in)) = 1"
    by (simp_all add: nut_in_def set_clients_def nut_w_def nutd_Clients_def num_logins_def)
  from nut_clients_are_the_logged_in[OF r, of "''10.0.0.5''"] v show ?thesis by simp
qed

text \<open>
  A login needs the pushed credentials: a command line changes the client table, or makes its
  connection logged in, only when it is LOGIN with the served name and, where the push requires
  credentials, the user and password given on that connection are the pushed ones; it never
  changes what the server serves.
\<close>

theorem nut_login_needs_credentials:
  assumes "nut_step w (Line k tx src) r w'" and "map_of (nw_conns w) k = Some c"
    and "nd_clients (nw_server w') \<noteq> nd_clients (nw_server w)" and "map_of (nw_conns w') k = Some c'"
  shows "\<not> nc_logged_in c \<and> nc_logged_in c'
    \<and> (\<exists>x. nut_fields (trim_right (\<lambda>x. x = CR \<or> x = LF) tx) = [x, ns_id (nc_spec c)] \<and> to_upper x = ''LOGIN'')
    \<and> (ns_cred (nc_spec c) \<longrightarrow> nc_user c = ns_user (nc_spec c) \<and> nc_pass c = ns_pass (nc_spec c))
    \<and> nd_spec (nw_server w') = nd_spec (nw_server w) \<and> nd_ln (nw_server w') = nd_ln (nw_server w)"
proof -
  from line_step[OF assms(1,2)] obtain a d cl where sl: "session_line src tx c (nd_clients (nw_server w)) = (a, d, cl)"
    and w': "w' = set_clients cl (w\<lparr>nw_conns := AList.update k d (nw_conns w)\<rparr>) \<or> w' = end_conn k d w" by blast
  have "map_of (nw_conns (end_conn k d w)) k = None" by (simp add: end_conn_def set_clients_def delete_conv')
  with w' assms(4) have w1: "w' = set_clients cl (w\<lparr>nw_conns := AList.update k d (nw_conns w)\<rparr>)" by auto
  then have "cl \<noteq> nd_clients (nw_server w)" "c' = d" using assms(3,4) by (simp_all add: set_clients_def update_conv')
  with session_line_effect[OF sl] show ?thesis by (auto simp: credentials_ok_def w1 set_clients_def)
qed

lemma nut_login_needs_credentials_witness:
  "nc_user named_conn = ns_user (nc_spec named_conn) \<and> nc_pass named_conn = ns_pass (nc_spec named_conn)
   \<and> ns_cred (nc_spec named_conn) \<and> nd_clients (nw_server nut_in) = [(''10.0.0.5'', 1)]"
proof -
  have c: "map_of (nw_conns (nut_w named_conn)) 0 = Some named_conn"
    "map_of (nw_conns nut_in) 0 = Some (named_conn\<lparr>nc_logged_in := True\<rparr>)"
    "nd_clients (nw_server nut_in) = [(''10.0.0.5'', 1)]" "nd_clients (nw_server (nut_w named_conn)) = []"
    by (simp_all add: nut_w_def nut_in_def set_clients_def serving_def)
  have k: "ns_cred (nc_spec named_conn)"
    by (simp add: named_conn_def demo_conn_def session_start_def demo_nut_def)
  from nut_login_needs_credentials[OF nut_login_step c(1) _ c(2)] c(3,4) k show ?thesis by simp
qed

text \<open>
  The listener follows the push: applying a push either succeeds, and then the server serves
  exactly what was pushed (with the defaults filled in) on that port, or nothing when it is
  disabled, and applying the same push again does nothing; or the port cannot be bound, and then
  nothing is served and the next push that can bind it is served.
\<close>

theorem nut_follows_the_push:
  assumes "nut_reachable w" and "ApplyNUT b spec (nw_server w) = (e, s')"
  shows "if e = None
    then nd_spec s' = nut_want spec \<and> ApplyNUT b' spec s' = (None, s')
      \<and> nd_ln s' = (if ns_enabled (nut_want spec) then Some (ns_port (nut_want spec)) else None)
    else nd_ln s' = None \<and> nd_spec s' = zero_nut
      \<and> (b' (ns_port (nut_want spec)) = None \<longrightarrow> nd_ln (snd (ApplyNUT b' spec s')) = Some (ns_port (nut_want spec)))"
proof -
  from reachable_server[OF assms(1)] assms(2) zero_not_enabled want_enabled[of spec] show ?thesis
    by (auto simp: server_ok_def ApplyNUT_def nut_stop_def Let_def split: if_splits option.splits)
qed

lemma nut_follows_the_push_witness:
  "nd_spec (snd (ApplyNUT (\<lambda>_. None) (Some demo_nut) New_nutd)) = nut_want (Some demo_nut)
   \<and> nd_ln (snd (ApplyNUT (\<lambda>_. Some ''in use'') (Some demo_nut) New_nutd)) = None"
proof -
  let ?w = "\<lparr>nw_server = New_nutd, nw_conns = []\<rparr>"
  obtain e s where a: "ApplyNUT (\<lambda>_. None) (Some demo_nut) New_nutd = (e, s)" by fastforce
  obtain f t where b: "ApplyNUT (\<lambda>_. Some ''in use'') (Some demo_nut) New_nutd = (f, t)" by fastforce
  have "fst (ApplyNUT (\<lambda>_. None) (Some demo_nut) New_nutd) = None" by code_simp
  moreover have "fst (ApplyNUT (\<lambda>_. Some ''in use'') (Some demo_nut) New_nutd) \<noteq> None" by code_simp
  ultimately have v: "e = None" "f \<noteq> None" using a b by simp_all
  have "nd_spec s = nut_want (Some demo_nut)" using nut_follows_the_push[of ?w, OF nut_reachable.start] a v(1) by fastforce
  moreover have "nd_ln t = None" using nut_follows_the_push[of ?w, OF nut_reachable.start] b v(2) by fastforce
  ultimately show ?thesis using a b by simp
qed

text \<open>
  The status line tells a client what the battery says: it holds OB exactly on battery and OL
  exactly on line, LB exactly when the battery is low, and each other word exactly with its flag.
\<close>

theorem nut_status_words:
  "(let ws = set (split_on (CHR '' '') (nut_Status b)) in
     (''OB'' \<in> ws \<longleftrightarrow> b_on_battery b) \<and> (''OL'' \<in> ws \<longleftrightarrow> \<not> b_on_battery b) \<and> (''LB'' \<in> ws \<longleftrightarrow> b_low_battery b)
     \<and> (''OFF'' \<in> ws \<longleftrightarrow> b_output_off b) \<and> (''OVER'' \<in> ws \<longleftrightarrow> b_overload b) \<and> (''CHRG'' \<in> ws \<longleftrightarrow> b_charging b)
     \<and> (''BYPASS'' \<in> ws \<longleftrightarrow> b_bypass b) \<and> (''ALARM'' \<in> ws \<longleftrightarrow> b_fault b) \<and> ''FSD'' \<notin> ws)"
proof -
  have "split_on (CHR '' '') (nut_Status b) = status_words b"
    unfolding nut_Status_def status_words_def
    by (rule split_on_join) (simp_all only: set_append set_if_one ball_Un list.set ball_simps if_split append_is_Nil_conv, simp_all)
  then show ?thesis by (simp add: status_words_def Let_def)
qed

end
