(* ===== verification/Sonic_Rules.thy ===== *)
theory Sonic_Rules
  imports DeviceModel NetAddr "HOL-Library.Product_Lexorder" "HOL-Library.List_Lexorder" "HOL-Library.Char_ord"
begin

unbundle bit_operations_syntax

text \<open>
  \<^verbatim>\<open>internal/drivers/sonic/acl.go\<close>, the rules: the controller's IP and MAC access rules and the DHCP
  guards as rows of the driver's own ACL tables, and the checks that a rule set does not cut the
  switch off from the bridge. A row is the list of its fields; the messages are the constructors of
  \<open>acl_why\<close> and \<open>acl_note\<close>.
\<close>

type_synonym fields = "(string \<times> string) list"
type_synonym rules = "(string \<times> fields) list"

section \<open>Constants\<close>

definition guardTable :: string where "guardTable = ''DUI_DHCP_GUARD''"
definition ipACLTable :: string where "ipACLTable = ''DUI_IP_ACL''"
definition macACLTable :: string where "macACLTable = ''DUI_MAC_ACL''"
definition aclStage :: string where "aclStage = ''ingress''"
definition ipACLRules :: nat where "ipACLRules = 128"
definition ipACLTop :: int where "ipACLTop = 9999"
definition macACLRules :: nat where "macACLRules = 128"
definition macACLTop :: int where "macACLTop = 9999"
definition guardForward :: int where "guardForward = 9000"
definition guardDrop :: int where "guardDrop = 8000"
definition mgmtPort :: int where "mgmtPort = 22"

definition tableType :: "string \<Rightarrow> string" where
  "tableType name = (if name = macACLTable then ''L2'' else ''L3'')"

datatype acl_why =
    ManyRules nat nat
  | BadProtocol nat string string
  | BadPrefix nat string string
  | PortOnAnyProtocol nat string
  | PortAndRange nat string
  | BadPort nat string int
  | BadPortRange nat string int int
  | NativeClash nat string int int
  | BadVLAN nat string int
  | BadMAC nat string string
  | BadMask nat string string
  | BlocksSSH nat string "nat list"
  | BlocksFrames nat string "nat list option" "nat list" int

datatype acl_note =
    BadServer string int
  | GuardOnNative int
  | IPRulesHeld acl_why
  | MACRulesHeld acl_why
  | NoL2Table nat

section \<open>Rows of a table\<close>

text \<open>The package's \<open>atoi\<close>: white space trimmed, the error dropped.\<close>

definition sonic_atoi :: "string \<Rightarrow> int" where
  "sonic_atoi s = atoi_val (trim_space s)"

definition ShellQuote :: "string \<Rightarrow> string" where
  "ShellQuote s = [CHR 0x27] @ replace_char (CHR 0x27) [CHR 0x27, BSL, CHR 0x27, CHR 0x27] s @ [CHR 0x27]"

definition priority_of :: "fields \<Rightarrow> int" where
  "priority_of f = sonic_atoi (mget [] f ''PRIORITY'')"

definition byPriority :: "rules \<Rightarrow> string list" where
  "byPriority rs = sort_key (\<lambda>n. (- priority_of (mget [] rs n), n)) (map fst rs)"

definition ruleKey :: "string \<Rightarrow> string \<Rightarrow> string" where
  "ruleKey table rule = ''ACL_RULE|'' @ table @ ''|'' @ rule"

definition hsetRule :: "string \<Rightarrow> string \<Rightarrow> fields \<Rightarrow> string" where
  "hsetRule table rule f = ''sonic-db-cli CONFIG_DB hset '' @ ShellQuote (ruleKey table rule)
     @ concat (map (\<lambda>k. '' '' @ k @ '' '' @ ShellQuote (mget [] f k)) (sort (map fst f)))"

definition delRule :: "string \<Rightarrow> string \<Rightarrow> string" where
  "delRule table rule = ''sonic-db-cli CONFIG_DB del '' @ ShellQuote (ruleKey table rule)"

section \<open>IP rules\<close>

definition has_ports :: "ip_end \<Rightarrow> bool" where
  "has_ports e \<longleftrightarrow> ie_port e \<noteq> 0 \<or> ie_min e \<noteq> 0 \<or> ie_max e \<noteq> 0"

definition not_v4_prefix :: "string \<Rightarrow> bool" where
  "not_v4_prefix s = (case parse_cidr s of None \<Rightarrow> True | Some (ip, _) \<Rightarrow> to4 ip = None)"

definition side_fields :: "nat \<Rightarrow> dm_ipacl \<Rightarrow> string \<Rightarrow> ip_end \<Rightarrow> acl_why + fields" where
  "side_fields n a side e =
     (if ie_cidr e \<noteq> [] \<and> not_v4_prefix (ie_cidr e) then Inl (BadPrefix n (di_name a) (ie_cidr e))
      else (let ip = (if ie_cidr e \<noteq> [] then [(side @ ''_IP'', ie_cidr e)] else [])
        in if has_ports e \<and> di_proto a = [] then Inl (PortOnAnyProtocol n (di_name a))
           else if ie_port e \<noteq> 0 \<and> (ie_min e \<noteq> 0 \<or> ie_max e \<noteq> 0) then Inl (PortAndRange n (di_name a))
           else if ie_port e \<noteq> 0 then
             (if ie_port e < 1 \<or> 65535 < ie_port e then Inl (BadPort n (di_name a) (ie_port e))
              else Inr (ip @ [(''L4_'' @ side @ ''_PORT'', itoa (ie_port e))]))
           else if has_ports e then
             (if ie_min e < 1 \<or> 65535 < ie_max e \<or> ie_max e < ie_min e then Inl (BadPortRange n (di_name a) (ie_min e) (ie_max e))
              else Inr (ip @ [(''L4_'' @ side @ ''_PORT_RANGE'', itoa (ie_min e) @ ''-'' @ itoa (ie_max e))]))
           else Inr ip))"

definition proto_fields :: "nat \<Rightarrow> dm_ipacl \<Rightarrow> acl_why + fields" where
  "proto_fields n a =
     (if di_proto a = [] then Inr [(''IP_TYPE'', ''IPV4ANY'')]
      else if di_proto a = ''tcp'' then Inr [(''IP_PROTOCOL'', ''6'')]
      else if di_proto a = ''udp'' then Inr [(''IP_PROTOCOL'', ''17'')]
      else Inl (BadProtocol n (di_name a) (di_proto a)))"

definition action_fields :: "int \<Rightarrow> bool \<Rightarrow> fields" where
  "action_fields prio permit = [(''PRIORITY'', itoa prio), (''PACKET_ACTION'', if permit then ''FORWARD'' else ''DROP'')]"

definition ip_row :: "nat \<Rightarrow> dm_ipacl \<Rightarrow> acl_why + fields" where
  "ip_row n a = (case proto_fields n a of Inl w \<Rightarrow> Inl w | Inr p \<Rightarrow>
     (case side_fields n a ''SRC'' (di_src a) of Inl w \<Rightarrow> Inl w | Inr s \<Rightarrow>
     (case side_fields n a ''DST'' (di_dst a) of Inl w \<Rightarrow> Inl w | Inr d \<Rightarrow>
       Inr (action_fields (ipACLTop - int n) (di_permit a) @ p @ s @ d))))"

definition rule_name :: "nat \<Rightarrow> string" where
  "rule_name n = ''RULE_'' @ itoa (int n)"

fun rows_from :: "(nat \<Rightarrow> 'a \<Rightarrow> acl_why + fields) \<Rightarrow> nat \<Rightarrow> 'a list \<Rightarrow> acl_why + rules" where
  "rows_from row n [] = Inr []"
| "rows_from row n (a # as) = (case row n a of Inl w \<Rightarrow> Inl w | Inr r \<Rightarrow>
     (case rows_from row (n + 1) as of Inl w \<Rightarrow> Inl w | Inr rs \<Rightarrow> Inr ((rule_name n, r) # rs)))"

definition ipRules :: "dm_ipacl list \<Rightarrow> acl_why + rules" where
  "ipRules acls = (if ipACLRules < length acls then Inl (ManyRules (length acls) ipACLRules)
     else rows_from ip_row 1 acls)"

section \<open>MAC rules\<close>

definition hex_digit :: "nat \<Rightarrow> char" where
  "hex_digit d = char_of (if d < 10 then 48 + d else 87 + d)"

definition mac_string :: "nat list \<Rightarrow> string" where
  "mac_string m = join '':'' (map (\<lambda>b. [hex_digit (b div 16), hex_digit (b mod 16)]) m)"

definition macAndMask :: "nat \<Rightarrow> string \<Rightarrow> mac_end \<Rightarrow> acl_why + nat list \<times> nat list" where
  "macAndMask n name e = (case parse_mac (me_mac e) of
     None \<Rightarrow> Inl (BadMAC n name (me_mac e))
   | Some mac \<Rightarrow> if length mac \<noteq> 6 then Inl (BadMAC n name (me_mac e))
       else if me_mask e = [] then Inr (mac, replicate 6 255)
       else (case parse_mac (me_mask e) of
           None \<Rightarrow> Inl (BadMask n name (me_mask e))
         | Some m \<Rightarrow> if length m \<noteq> 6 then Inl (BadMask n name (me_mask e)) else Inr (mac, m)))"

definition mac_side :: "nat \<Rightarrow> string \<Rightarrow> string \<Rightarrow> mac_end \<Rightarrow> acl_why + fields" where
  "mac_side n name side e =
     (if me_mac e = [] then Inr []
      else (case macAndMask n name e of Inl w \<Rightarrow> Inl w
        | Inr (mac, m) \<Rightarrow> Inr [(side @ ''_MAC'', mac_string mac @ ''/'' @ mac_string m)]))"

definition sonic_vlan :: "int \<Rightarrow> int \<Rightarrow> int" where
  "sonic_vlan native v = (if v = 1 then native else v)"

definition mac_row :: "int \<Rightarrow> nat \<Rightarrow> dm_macacl \<Rightarrow> acl_why + fields" where
  "mac_row native n a = (let v = dmac_vlan a in
     if v \<noteq> 1 \<and> v = native then Inl (NativeClash n (dmac_name a) v native)
     else if v < 1 \<or> 4094 < v then Inl (BadVLAN n (dmac_name a) v)
     else (case mac_side n (dmac_name a) ''SRC'' (dmac_src a) of Inl w \<Rightarrow> Inl w | Inr s \<Rightarrow>
       (case mac_side n (dmac_name a) ''DST'' (dmac_dst a) of Inl w \<Rightarrow> Inl w | Inr d \<Rightarrow>
         Inr (action_fields (macACLTop - int n) (dmac_permit a) @ [(''VLAN_ID'', itoa (sonic_vlan native v))] @ s @ d))))"

definition macRules :: "int \<Rightarrow> dm_macacl list \<Rightarrow> acl_why + rules" where
  "macRules native acls = (if macACLRules < length acls then Inl (ManyRules (length acls) macACLRules)
     else rows_from (mac_row native) 1 acls)"

section \<open>DHCP guards\<close>

text \<open>The trusted servers by VLAN, in the order of their first mention.\<close>

definition note_server :: "dm_guard \<Rightarrow> string list alist \<times> acl_note list \<Rightarrow> string list alist \<times> acl_note list" where
  "note_server g ac = (case ac of (servers, notes) \<Rightarrow>
     (case Option.bind (parse_ip (trim_space (dg_server g))) to4 of
        None \<Rightarrow> (servers, notes @ [BadServer (dg_server g) (dg_vlan g)])
      | Some q \<Rightarrow>
          (let old = mget [] servers (dg_vlan g)
           in (AList.update (dg_vlan g) (if dotted q \<in> set old then old else old @ [dotted q]) servers, notes))))"

definition guard_servers :: "dm_guard list \<Rightarrow> string list alist \<times> acl_note list" where
  "guard_servers gs = fold note_server gs ([], [])"

definition dhcp_row :: "int \<Rightarrow> int \<Rightarrow> bool \<Rightarrow> fields" where
  "dhcp_row sv prio permit = action_fields prio permit
     @ [(''VLAN_ID'', itoa sv), (''IP_PROTOCOL'', ''17''), (''L4_SRC_PORT'', ''67''), (''L4_DST_PORT'', ''68'')]"

definition vlan_guard :: "int \<Rightarrow> int \<Rightarrow> string list \<Rightarrow> rules" where
  "vlan_guard v sv servers =
     map (\<lambda>(k, s). (''V'' @ itoa v @ ''_S'' @ itoa (int k + 1), dhcp_row sv guardForward True @ [(''SRC_IP'', s @ ''/32'')]))
       (enumerate 0 servers)
     @ [(''V'' @ itoa v @ ''_DROP'', dhcp_row sv guardDrop False)]"

definition guard_one :: "int \<Rightarrow> int list \<Rightarrow> int \<times> string list \<Rightarrow> rules \<times> acl_note list" where
  "guard_one native vlans vs = (case vs of (v, servers) \<Rightarrow>
     if v \<noteq> 1 \<and> v = native then ([], [GuardOnNative v])
     else if sonic_vlan native v \<notin> set vlans then ([], [])
     else (vlan_guard v (sonic_vlan native v) servers, []))"

definition guardRules :: "int \<Rightarrow> int list \<Rightarrow> dm_guard list \<Rightarrow> rules \<times> acl_note list" where
  "guardRules native vlans gs = (case guard_servers gs of (servers, notes) \<Rightarrow>
     (concat (map (\<lambda>vs. fst (guard_one native vlans vs)) servers),
      notes @ concat (map (\<lambda>vs. snd (guard_one native vlans vs)) servers)))"

section \<open>Would a rule set cut the switch off\<close>

text \<open>\<open>IPNet.Contains\<close> for an IPv4 address.\<close>

definition net_contains :: "nat list \<Rightarrow> nat \<Rightarrow> nat list \<Rightarrow> bool" where
  "net_contains net n ip = (case to4 net of None \<Rightarrow> False
     | Some q \<Rightarrow> mask_bytes (if length net = 16 then n - 96 else n) ip = q)"

definition cidr_covers :: "string \<Rightarrow> nat list \<Rightarrow> bool" where
  "cidr_covers s ip \<longleftrightarrow> s = [] \<or> (case parse_cidr s of None \<Rightarrow> False | Some (_, net, n) \<Rightarrow> net_contains net n ip)"

definition port_covers :: "ip_end \<Rightarrow> int \<Rightarrow> bool" where
  "port_covers e port \<longleftrightarrow> (if ie_port e \<noteq> 0 then ie_port e = port
     else if ie_min e \<noteq> 0 \<or> ie_max e \<noteq> 0 then ie_min e \<le> port \<and> port \<le> ie_max e else True)"

definition covers :: "ip_end \<Rightarrow> int \<Rightarrow> nat list \<Rightarrow> bool" where
  "covers e port ip \<longleftrightarrow> cidr_covers (ie_cidr e) ip \<and> port_covers e port"

definition ssh_concerns :: "nat list option \<Rightarrow> nat list \<Rightarrow> dm_ipacl \<Rightarrow> bool" where
  "ssh_concerns bridge ip a \<longleftrightarrow> (di_proto a = [] \<or> di_proto a = ''tcp'')
     \<and> ie_port (di_src a) = 0 \<and> covers (di_dst a) mgmtPort ip
     \<and> (case bridge of None \<Rightarrow> True | Some b \<Rightarrow> cidr_covers (ie_cidr (di_src a)) b)"

fun ssh_scan :: "nat list option \<Rightarrow> nat list \<Rightarrow> nat \<Rightarrow> dm_ipacl list \<Rightarrow> acl_why option" where
  "ssh_scan bridge ip n [] = None"
| "ssh_scan bridge ip n (a # as) =
     (if \<not> ssh_concerns bridge ip a then ssh_scan bridge ip (n + 1) as
      else if di_permit a then
        (if bridge \<noteq> None \<or> ie_cidr (di_src a) = [] then None else ssh_scan bridge ip (n + 1) as)
      else Some (BlocksSSH n (di_name a) ip))"

fun first_some :: "('a \<Rightarrow> 'b option) \<Rightarrow> 'a list \<Rightarrow> 'b option" where
  "first_some f [] = None"
| "first_some f (x # xs) = (case f x of None \<Rightarrow> first_some f xs | Some y \<Rightarrow> Some y)"

definition cutsManagement :: "dm_ipacl list \<Rightarrow> string \<Rightarrow> string list \<Rightarrow> acl_why option" where
  "cutsManagement acls from dial =
     (let bridge = Option.bind (parse_ip from) to4
      in first_some (\<lambda>addr. case Option.bind (parse_ip addr) to4 of
           None \<Rightarrow> None | Some ip \<Rightarrow> ssh_scan bridge ip 1 acls) dial)"

definition macCovers :: "mac_end \<Rightarrow> nat list \<Rightarrow> bool" where
  "macCovers e mac \<longleftrightarrow> me_mac e = [] \<or> (case macAndMask 0 [] e of Inl _ \<Rightarrow> False
     | Inr (m, k) \<Rightarrow> map2 (AND) m k = map2 (AND) mac k)"

record l2_path =
  lp_vlan :: int
  lp_peers :: "nat list list"
  lp_dsts :: "nat list list"

definition frame_concerns :: "int \<Rightarrow> int \<Rightarrow> nat list option \<Rightarrow> nat list \<Rightarrow> dm_macacl \<Rightarrow> bool" where
  "frame_concerns native vlan src dst a \<longleftrightarrow>
     \<not> (0 < vlan \<and> sonic_vlan native (dmac_vlan a) \<noteq> vlan) \<and> macCovers (dmac_dst a) dst
     \<and> (case src of None \<Rightarrow> True | Some s \<Rightarrow> macCovers (dmac_src a) s)"

fun frame_scan :: "int \<Rightarrow> int \<Rightarrow> nat list option \<Rightarrow> nat list \<Rightarrow> nat \<Rightarrow> dm_macacl list \<Rightarrow> acl_why option" where
  "frame_scan native vlan src dst n [] = None"
| "frame_scan native vlan src dst n (a # as) =
     (if \<not> frame_concerns native vlan src dst a then frame_scan native vlan src dst (n + 1) as
      else if dmac_permit a then
        (if src \<noteq> None \<or> me_mac (dmac_src a) = [] then None else frame_scan native vlan src dst (n + 1) as)
      else Some (BlocksFrames n (dmac_name a) src dst (dmac_vlan a)))"

definition cutsManagementMAC :: "dm_macacl list \<Rightarrow> int \<Rightarrow> l2_path \<Rightarrow> acl_why option" where
  "cutsManagementMAC acls native p =
     (if lp_vlan p = 0 then None
      else (let peers = (if lp_peers p = [] then [None] else map Some (lp_peers p));
                dsts = (if lp_dsts p = [] then [replicate 6 255] else lp_dsts p)
        in first_some (\<lambda>src. first_some (\<lambda>dst. frame_scan native (lp_vlan p) src dst 1 acls) dsts) peers))"

end
