(* ===== verification/Sonic_Rules_Props.thy ===== *)
theory Sonic_Rules_Props
  imports Sonic_Rules
begin

unbundle bit_operations_syntax

text \<open>
  What the rules mean: a table of rows decides a packet by its highest-priority matching row, and
  forwards a packet no row matches. The rows the driver writes for the controller's rules decide
  every packet as the rules do in their order; and what the checks of the management path promise.
\<close>

section \<open>Packets, rules and rows\<close>

record packet =
  pk_vlan :: int
  pk_smac :: "nat list"
  pk_dmac :: "nat list"
  pk_proto :: int
  pk_src :: "nat list"
  pk_dst :: "nat list"
  pk_sport :: int
  pk_dport :: int

definition proto_matches :: "string \<Rightarrow> int \<Rightarrow> bool" where
  "proto_matches s n \<longleftrightarrow> s = [] \<or> s = ''tcp'' \<and> n = 6 \<or> s = ''udp'' \<and> n = 17"

definition ipacl_matches :: "packet \<Rightarrow> dm_ipacl \<Rightarrow> bool" where
  "ipacl_matches pk a \<longleftrightarrow> proto_matches (di_proto a) (pk_proto pk)
     \<and> covers (di_src a) (pk_sport pk) (pk_src pk) \<and> covers (di_dst a) (pk_dport pk) (pk_dst pk)"

definition macacl_matches :: "int \<Rightarrow> packet \<Rightarrow> dm_macacl \<Rightarrow> bool" where
  "macacl_matches native pk a \<longleftrightarrow> sonic_vlan native (dmac_vlan a) = pk_vlan pk
     \<and> macCovers (dmac_src a) (pk_smac pk) \<and> macCovers (dmac_dst a) (pk_dmac pk)"

text \<open>The controller's lists: the first rule that matches decides, and the default is to allow.\<close>

definition first_match :: "('a \<Rightarrow> bool) \<Rightarrow> ('a \<Rightarrow> bool) \<Rightarrow> 'a list \<Rightarrow> bool" where
  "first_match m permit as = (case find m as of None \<Rightarrow> True | Some a \<Rightarrow> permit a)"

definition ip_allows :: "dm_ipacl list \<Rightarrow> packet \<Rightarrow> bool" where
  "ip_allows acls pk = first_match (ipacl_matches pk) di_permit acls"

definition mac_allows :: "int \<Rightarrow> dm_macacl list \<Rightarrow> packet \<Rightarrow> bool" where
  "mac_allows native acls pk = first_match (macacl_matches native pk) dmac_permit acls"

text \<open>One field of a row.\<close>

definition range_matches :: "string \<Rightarrow> int \<Rightarrow> bool" where
  "range_matches v port = (case str_cut (CHR ''-'') v of None \<Rightarrow> False
     | Some (lo, hi) \<Rightarrow> (case (atoi lo, atoi hi) of (Some a, Some b) \<Rightarrow> a \<le> port \<and> port \<le> b | _ \<Rightarrow> False))"

definition masked_matches :: "string \<Rightarrow> nat list \<Rightarrow> bool" where
  "masked_matches v mac = (case str_cut (CHR ''/'') v of None \<Rightarrow> False
     | Some (m, k) \<Rightarrow> (case (parse_mac m, parse_mac k) of
         (Some mb, Some kb) \<Rightarrow> map2 (AND) mb kb = map2 (AND) mac kb | _ \<Rightarrow> False))"

definition field_matches :: "packet \<Rightarrow> string \<times> string \<Rightarrow> bool" where
  "field_matches pk kv = (case kv of (k, v) \<Rightarrow>
     if k = ''PRIORITY'' \<or> k = ''PACKET_ACTION'' then True
     else if k = ''IP_TYPE'' then v = ''IPV4ANY''
     else if k = ''IP_PROTOCOL'' then v = itoa (pk_proto pk)
     else if k = ''VLAN_ID'' then v = itoa (pk_vlan pk)
     else if k = ''SRC_IP'' then cidr_covers v (pk_src pk)
     else if k = ''DST_IP'' then cidr_covers v (pk_dst pk)
     else if k = ''L4_SRC_PORT'' then v = itoa (pk_sport pk)
     else if k = ''L4_DST_PORT'' then v = itoa (pk_dport pk)
     else if k = ''L4_SRC_PORT_RANGE'' then range_matches v (pk_sport pk)
     else if k = ''L4_DST_PORT_RANGE'' then range_matches v (pk_dport pk)
     else if k = ''SRC_MAC'' then masked_matches v (pk_smac pk)
     else if k = ''DST_MAC'' then masked_matches v (pk_dmac pk)
     else False)"

lemma field_matches_simps [simp]:
  "field_matches pk (''PRIORITY'', v)" "field_matches pk (''PACKET_ACTION'', v)"
  "field_matches pk (''IP_TYPE'', v) \<longleftrightarrow> v = ''IPV4ANY''"
  "field_matches pk (''IP_PROTOCOL'', v) \<longleftrightarrow> v = itoa (pk_proto pk)"
  "field_matches pk (''VLAN_ID'', v) \<longleftrightarrow> v = itoa (pk_vlan pk)"
  "field_matches pk (''SRC_IP'', v) \<longleftrightarrow> cidr_covers v (pk_src pk)"
  "field_matches pk (''DST_IP'', v) \<longleftrightarrow> cidr_covers v (pk_dst pk)"
  "field_matches pk (''L4_SRC_PORT'', v) \<longleftrightarrow> v = itoa (pk_sport pk)"
  "field_matches pk (''L4_DST_PORT'', v) \<longleftrightarrow> v = itoa (pk_dport pk)"
  "field_matches pk (''L4_SRC_PORT_RANGE'', v) \<longleftrightarrow> range_matches v (pk_sport pk)"
  "field_matches pk (''L4_DST_PORT_RANGE'', v) \<longleftrightarrow> range_matches v (pk_dport pk)"
  "field_matches pk (''SRC_MAC'', v) \<longleftrightarrow> masked_matches v (pk_smac pk)"
  "field_matches pk (''DST_MAC'', v) \<longleftrightarrow> masked_matches v (pk_dmac pk)"
  by (simp_all add: field_matches_def)

definition row_matches :: "packet \<Rightarrow> fields \<Rightarrow> bool" where
  "row_matches pk f = list_all (field_matches pk) f"

definition row_permits :: "fields \<Rightarrow> bool" where
  "row_permits f \<longleftrightarrow> map_of f ''PACKET_ACTION'' = Some ''FORWARD''"

definition table_allows :: "rules \<Rightarrow> packet \<Rightarrow> bool" where
  "table_allows rs pk = first_match (\<lambda>n. row_matches pk (mget [] rs n)) (\<lambda>n. row_permits (mget [] rs n)) (byPriority rs)"

section \<open>Numbers in rows\<close>

lemma sonic_atoi_itoa: "0 \<le> i \<Longrightarrow> i \<le> max_int64 \<Longrightarrow> sonic_atoi (itoa i) = i"
  by (simp add: sonic_atoi_def itoa_def trim_digits nat_digits_digits atoi_val_nat_digits)

lemma range_matches_itoa:
  assumes "1 \<le> a" and "b \<le> 65535" and "a \<le> b"
  shows "range_matches (itoa a @ CHR ''-'' # itoa b) p \<longleftrightarrow> a \<le> p \<and> p \<le> b"
proof -
  have "CHR ''-'' \<notin> set (itoa a)" using assms nat_digits_no_char[of "CHR ''-''"]
    by (simp add: itoa_def is_digit_def char_code_def)
  then have "str_cut (CHR ''-'') (itoa a @ CHR ''-'' # itoa b) = Some (itoa a, itoa b)" for b
    by (induction "itoa a" arbitrary: a) auto
  moreover have "atoi (itoa a) = Some a" "atoi (itoa b) = Some b"
    using assms by (simp_all add: atoi_itoa min_int64_def max_int64_def)
  ultimately show ?thesis by (simp add: range_matches_def)
qed

section \<open>Rows in the order of their priority\<close>

lemma rule_name_inj [simp]: "rule_name m = rule_name n \<longleftrightarrow> m = n"
  by (simp add: rule_name_def)

lemma rows_from_names: "rows_from row n as = Inr rs \<Longrightarrow> map fst rs = map rule_name [n..<n + length as]"
proof (induction as arbitrary: n rs)
  case (Cons a as)
  then obtain r rs' where r: "row n a = Inr r" "rows_from row (n + 1) as = Inr rs'" "rs = (rule_name n, r) # rs'"
    by (auto split: sum.splits)
  with Cons.IH[OF r(2)] show ?case by (simp add: upt_conv_Cons del: upt_Suc)
qed simp

lemma rows_from_nth: "rows_from row n as = Inr rs \<Longrightarrow> i < length as \<Longrightarrow> row (n + i) (as ! i) = Inr (snd (rs ! i))"
proof (induction as arbitrary: n rs i)
  case (Cons a as)
  then obtain r rs' where r: "row n a = Inr r" "rows_from row (n + 1) as = Inr rs'" "rs = (rule_name n, r) # rs'"
    by (auto split: sum.splits)
  with Cons.IH[OF r(2)] Cons.prems(2) show ?case by (cases i) auto
qed simp

text \<open>The rows of a rule list, seen as a table: row \<open>n\<close> is found by its name, and lower numbers go first.\<close>

lemma rows_lookup:
  assumes "rows_from row 1 as = Inr rs" and "i < length as"
  shows "mget [] rs (rule_name (Suc i)) = snd (rs ! i)"
proof -
  have n: "map fst rs = map rule_name [1..<1 + length as]" using rows_from_names[OF assms(1)] .
  then have "length rs = length as" by (metis length_map length_upt add_diff_cancel_left')
  moreover have "fst (rs ! i) = rule_name (Suc i)" using n assms(2) \<open>length rs = length as\<close>
    by (metis (no_types, lifting) One_nat_def add.commute length_map length_upt nth_map nth_upt plus_1_eq_Suc add_less_cancel_left less_diff_conv add_diff_cancel_left')
  moreover have "distinct (map fst rs)" unfolding n by (simp add: distinct_map inj_on_def)
  ultimately have "map_of rs (rule_name (Suc i)) = Some (snd (rs ! i))" using assms(2)
    by (metis map_of_is_SomeI nth_mem prod.collapse)
  then show ?thesis by (simp add: mget_def)
qed

lemma rows_by_priority:
  assumes "rows_from row 1 as = Inr rs" and "\<And>n a f. row n a = Inr f \<Longrightarrow> n \<le> 128 \<Longrightarrow> priority_of f = 9999 - int n"
    and "length as \<le> 128"
  shows "byPriority rs = map rule_name [1..<1 + length as]"
proof -
  let ?key = "\<lambda>n. (- priority_of (mget [] rs n), n)"
  have k: "priority_of (mget [] rs (rule_name n)) = 9999 - int n" if "n \<in> set [1..<1 + length as]" for n
  proof -
    from that have "1 \<le> n" "n < 1 + length as" by (simp_all only: set_upt atLeastLessThan_iff)
    then obtain i where i: "n = Suc i" "i < length as" by (cases n) auto
    then have "row n (as ! i) = Inr (snd (rs ! i))" using rows_from_nth[OF assms(1)] by (metis plus_1_eq_Suc)
    from assms(2)[OF this] i assms(3) rows_lookup[OF assms(1)] show ?thesis by simp
  qed
  then have e: "map ?key (map rule_name [1..<1 + length as]) = map (\<lambda>n. (int n - 9999, rule_name n)) [1..<1 + length as]"
    by (simp del: upt_Suc)
  have s: "sorted (map (\<lambda>n. (int n - 9999, rule_name n)) [a..<b])" for a b
    by (induction b) (auto simp: sorted_wrt_append less_eq_prod_def)
  have "sorted (map ?key (map rule_name [1..<1 + length as]))" unfolding e by (rule s)
  then show ?thesis unfolding byPriority_def rows_from_names[OF assms(1)] by (rule sort_key_id_if_sorted)
qed

lemma first_match_cong:
  assumes "length xs = length ys" and "\<And>i. i < length xs \<Longrightarrow> m (xs ! i) = m' (ys ! i) \<and> p (xs ! i) = p' (ys ! i)"
  shows "first_match m p xs = first_match m' p' ys"
  using assms
proof (induction xs ys rule: list_induct2)
  case (Cons x xs y ys)
  have "first_match m p xs = first_match m' p' ys" using Cons.prems by (intro Cons.IH) force
  moreover have "m x = m' y" "p x = p' y" using Cons.prems[of 0] by auto
  ultimately show ?case by (simp add: first_match_def)
qed (simp add: first_match_def)

text \<open>If every row matches and permits as its rule does, the table decides as the list.\<close>

lemma table_is_list:
  assumes "rows_from row 1 as = Inr rs" and "length as \<le> 128"
    and "\<And>n a f. row n a = Inr f \<Longrightarrow> n \<le> 128 \<Longrightarrow> priority_of f = 9999 - int n"
    and "\<And>n a f. row n a = Inr f \<Longrightarrow> row_matches pk f = m a \<and> row_permits f = p a"
  shows "table_allows rs pk = first_match m p as"
proof -
  have b: "byPriority rs = map rule_name [1..<1 + length as]" by (rule rows_by_priority[OF assms(1,3,2)])
  show ?thesis unfolding table_allows_def b
  proof (rule first_match_cong)
    fix i assume "i < length (map rule_name [1..<1 + length as])"
    then have i: "i < length as" by (simp del: upt_Suc)
    then have "map rule_name [1..<1 + length as] ! i = rule_name (Suc i)" by (simp del: upt_Suc)
    moreover have "row (1 + i) (as ! i) = Inr (snd (rs ! i))" by (rule rows_from_nth[OF assms(1) i])
    ultimately show "row_matches pk (mget [] rs (map rule_name [1..<1 + length as] ! i)) = m (as ! i)
        \<and> row_permits (mget [] rs (map rule_name [1..<1 + length as] ! i)) = p (as ! i)"
      using assms(4) rows_lookup[OF assms(1) i] by simp
  qed (simp del: upt_Suc)
qed

section \<open>The rows of the IP rules\<close>

lemma priority_action: "0 \<le> i \<Longrightarrow> i \<le> max_int64 \<Longrightarrow> priority_of (action_fields i p @ f) = i"
  by (simp add: priority_of_def action_fields_def mget_def sonic_atoi_itoa)

lemma row_permits_action [simp]: "row_permits (action_fields i p @ f) = p"
  by (simp add: row_permits_def action_fields_def)

lemma row_matches_append [simp]: "row_matches pk (f @ g) \<longleftrightarrow> row_matches pk f \<and> row_matches pk g" "row_matches pk []"
  by (simp_all add: row_matches_def)

lemma row_matches_action [simp]: "row_matches pk (action_fields i p)"
  by (simp add: row_matches_def action_fields_def)

lemma proto_row: "proto_fields n a = Inr f \<Longrightarrow> row_matches pk f = proto_matches (di_proto a) (pk_proto pk)"
proof -
  have "itoa 6 = ''6''" "itoa 17 = ''17''" by code_simp+
  then have "''6'' = itoa i \<longleftrightarrow> i = 6" "''17'' = itoa i \<longleftrightarrow> i = 17" for i by (metis itoa_inj)+
  then show "proto_fields n a = Inr f \<Longrightarrow> ?thesis"
    by (auto simp: proto_fields_def row_matches_def proto_matches_def split: if_splits)
qed

lemma side_row:
  "side_fields n a ''SRC'' e = Inr f \<Longrightarrow> row_matches pk f = covers e (pk_sport pk) (pk_src pk)"
  "side_fields n a ''DST'' e = Inr f \<Longrightarrow> row_matches pk f = covers e (pk_dport pk) (pk_dst pk)"
proof -
  have c: "cidr_covers (ie_cidr e) ip" if "ie_cidr e = []" for ip using that by (simp add: cidr_covers_def)
  show "side_fields n a ''SRC'' e = Inr f \<Longrightarrow> row_matches pk f = covers e (pk_sport pk) (pk_src pk)"
    using c by (auto simp: side_fields_def row_matches_def covers_def port_covers_def has_ports_def Let_def range_matches_itoa
        split: if_splits)
  show "side_fields n a ''DST'' e = Inr f \<Longrightarrow> row_matches pk f = covers e (pk_dport pk) (pk_dst pk)"
    using c by (auto simp: side_fields_def row_matches_def covers_def port_covers_def has_ports_def Let_def range_matches_itoa
        split: if_splits)
qed

lemma ip_row_means:
  assumes "ip_row n a = Inr f"
  shows "row_matches pk f = ipacl_matches pk a" "row_permits f = di_permit a" "n \<le> 128 \<Longrightarrow> priority_of f = 9999 - int n"
proof -
  obtain p s d where r: "proto_fields n a = Inr p" "side_fields n a ''SRC'' (di_src a) = Inr s"
    "side_fields n a ''DST'' (di_dst a) = Inr d" and f: "f = action_fields (ipACLTop - int n) (di_permit a) @ p @ s @ d"
    using assms by (auto simp: ip_row_def split: sum.splits)
  show "row_matches pk f = ipacl_matches pk a" using proto_row[OF r(1)] side_row(1)[OF r(2)] side_row(2)[OF r(3)]
    by (simp add: f ipacl_matches_def)
  show "row_permits f = di_permit a" by (simp add: f)
  show "n \<le> 128 \<Longrightarrow> priority_of f = 9999 - int n" unfolding f ipACLTop_def
    by (rule priority_action) (simp_all add: max_int64_def)
qed

lemma ip_table:
  assumes "ipRules acls = Inr rs"
  shows "byPriority rs = map rule_name [1..<1 + length acls]" "table_allows rs pk = ip_allows acls pk"
proof -
  have r: "rows_from ip_row 1 acls = Inr rs" "length acls \<le> 128"
    using assms by (auto simp: ipRules_def ipACLRules_def split: if_splits)
  show "byPriority rs = map rule_name [1..<1 + length acls]" using ip_row_means(3) by (rule rows_by_priority[OF r(1) _ r(2)])
  show "table_allows rs pk = ip_allows acls pk" unfolding ip_allows_def
    by (rule table_is_list[OF r]) (simp_all add: ip_row_means)
qed

text \<open>
  C38. The IP rules of a push, once written, decide every packet as the controller's list does: the
  rows are ordered as the rules, and for each packet the table forwards it exactly when the first
  rule that matches it allows it (or none matches).
\<close>

theorem sonic_ip_rules_mean_the_push:
  assumes "ipRules acls = Inr rs"
  shows "byPriority rs = map rule_name [1..<1 + length acls] \<and> table_allows rs pk = ip_allows acls pk"
  using ip_table[OF assms] by simp

section \<open>The bridge's own connection\<close>

text \<open>The packets of the bridge's SSH session to the switch.\<close>

definition ssh_packet :: "nat list \<Rightarrow> nat list \<Rightarrow> packet \<Rightarrow> bool" where
  "ssh_packet b ip pk \<longleftrightarrow> pk_proto pk = 6 \<and> pk_src pk = b \<and> pk_dst pk = ip \<and> pk_dport pk = mgmtPort"

lemma ssh_matches:
  assumes "ssh_packet b ip pk" and "ie_port (di_src a) \<noteq> pk_sport pk \<or> ie_port (di_src a) = 0"
  shows "ipacl_matches pk a \<longleftrightarrow> ssh_concerns (Some b) ip a \<and> port_covers (di_src a) (pk_sport pk)"
proof -
  have "proto_matches (di_proto a) (pk_proto pk) \<longleftrightarrow> di_proto a = [] \<or> di_proto a = ''tcp''"
    using assms(1) by (simp add: ssh_packet_def proto_matches_def)
  moreover have "port_covers (di_src a) (pk_sport pk) \<Longrightarrow> ie_port (di_src a) = 0"
    using assms(2) by (auto simp: port_covers_def split: if_splits)
  moreover have "pk_src pk = b" "pk_dst pk = ip" "pk_dport pk = mgmtPort" using assms(1) by (simp_all add: ssh_packet_def)
  ultimately show ?thesis by (simp add: ssh_concerns_def ipacl_matches_def covers_def) blast
qed

lemma ssh_scan_sound:
  assumes "ssh_scan (Some b) ip n acls = None" and "ssh_packet b ip pk"
    and "\<forall>a \<in> set acls. ie_port (di_src a) \<noteq> pk_sport pk \<or> ie_port (di_src a) = 0"
    and "\<forall>a \<in> set acls. di_permit a \<longrightarrow> ie_min (di_src a) = 0 \<and> ie_max (di_src a) = 0"
  shows "ip_allows acls pk"
  using assms
proof (induction acls arbitrary: n)
  case (Cons a as)
  have m: "ipacl_matches pk a \<longleftrightarrow> ssh_concerns (Some b) ip a \<and> port_covers (di_src a) (pk_sport pk)"
    using Cons.prems(2,3) by (intro ssh_matches) simp_all
  show ?case
  proof (cases "ssh_concerns (Some b) ip a")
    case True
    with Cons.prems(1) have p: "di_permit a" by (simp split: if_splits)
    with True Cons.prems(4) have "port_covers (di_src a) (pk_sport pk)" by (simp add: port_covers_def ssh_concerns_def)
    with m True p show ?thesis by (simp add: ip_allows_def first_match_def)
  next
    case False
    then have "ip_allows as pk" using Cons.prems by (intro Cons.IH[of "n + 1"]) simp_all
    with m False show ?thesis by (simp add: ip_allows_def first_match_def)
  qed
qed (simp add: ip_allows_def first_match_def)

lemma first_some_None: "first_some f xs = None \<longleftrightarrow> (\<forall>x \<in> set xs. f x = None)"
  by (induction xs) (auto split: option.split)


section \<open>Hardware addresses parse back\<close>

lemma hex_digit_code: "d < 16 \<Longrightarrow> char_code (hex_digit d) = (if d < 10 then 48 + d else 87 + d)"
  by (simp add: hex_digit_def)

lemma hex_digit_facts:
  assumes "d < 16"
  shows "is_hex (hex_digit d)" "hex_val (hex_digit d) = d" "hex_digit d \<noteq> CHR '':''" "hex_digit d \<noteq> CHR ''/''"
proof -
  show "is_hex (hex_digit d)" "hex_val (hex_digit d) = d"
    using assms by (auto simp: is_hex_def hex_val_def is_digit_def hex_digit_code)
  have "char_code (hex_digit d) \<noteq> 58" "char_code (hex_digit d) \<noteq> 47" using assms by (auto simp: hex_digit_code)
  moreover have "char_code (CHR '':'') = 58" "char_code (CHR ''/'') = 47" by (simp_all add: char_code_def)
  ultimately show "hex_digit d \<noteq> CHR '':''" "hex_digit d \<noteq> CHR ''/''" by metis+
qed

lemma hex2_at_byte:
  assumes "drop k s = hex_digit (x div 16) # hex_digit (x mod 16) # r" and "x < 256"
  shows "hex2_at s k = Some x"
proof -
  have "x div 16 < 16" "x mod 16 < 16" using assms(2) by auto
  from this[THEN hex_digit_facts(1)] this[THEN hex_digit_facts(2)] show ?thesis by (simp add: hex2_at_def assms(1))
qed

lemma parse_mac_string:
  assumes "length m = 6" and "\<forall>b \<in> set m. b < 256"
  shows "parse_mac (mac_string m) = Some m"
proof -
  obtain a b c d e f where m: "m = [a, b, c, d, e, f]" using assms(1) by (auto simp: length_Suc_conv numeral_eq_Suc)
  define s where "s = mac_string m"
  have s: "s = [hex_digit (a div 16), hex_digit (a mod 16), CHR '':'', hex_digit (b div 16), hex_digit (b mod 16), CHR '':'',
      hex_digit (c div 16), hex_digit (c mod 16), CHR '':'', hex_digit (d div 16), hex_digit (d mod 16), CHR '':'',
      hex_digit (e div 16), hex_digit (e mod 16), CHR '':'', hex_digit (f div 16), hex_digit (f mod 16)]"
    by (simp add: s_def m mac_string_def)
  have l: "a < 256" "b < 256" "c < 256" "d < 256" "e < 256" "f < 256" using assms(2) by (simp_all add: m)
  have h: "hex2_at s 0 = Some a" "hex2_at s 3 = Some b" "hex2_at s 6 = Some c"
    "hex2_at s 9 = Some d" "hex2_at s 12 = Some e" "hex2_at s 15 = Some f"
    by (rule hex2_at_byte[OF _ l(1)] hex2_at_byte[OF _ l(2)] hex2_at_byte[OF _ l(3)] hex2_at_byte[OF _ l(4)]
        hex2_at_byte[OF _ l(5)] hex2_at_byte[OF _ l(6)], simp add: s)+
  have u: "[0..<6] = [0, 1, 2, 3, 4, 5 :: nat]" by (simp add: upt_rec)
  have "length s = 17" "s ! 2 = CHR '':''" "list_all (\<lambda>i. sep_ok s (3 * i + 2) (CHR '':'')) [0..<6]"
    unfolding u sep_ok_def by (simp_all add: s)
  with h show ?thesis unfolding s_def[symmetric] parse_mac_def Let_def by (simp add: u m)
qed

lemma all_some_set: "all_some xs = Some ys \<Longrightarrow> y \<in> set ys \<Longrightarrow> Some y \<in> set xs"
  by (induction xs arbitrary: ys rule: all_some.induct) auto

lemma parse_mac_bytes:
  assumes "parse_mac s = Some m" and "b \<in> set m"
  shows "b < 256"
proof -
  have h: "hex2_at t x = Some b \<Longrightarrow> b < 256" for t x
  proof -
    have "is_hex c \<Longrightarrow> hex_val c \<le> 15" for c by (auto simp: is_hex_def hex_val_def is_digit_def)
    from this[of "hd (drop x t)"] this[of "drop x t ! 1"] show "hex2_at t x = Some b \<Longrightarrow> b < 256"
      by (auto simp: hex2_at_def split: list.splits if_splits)
  qed
  from assms(1) consider n where "all_some (map (\<lambda>i. hex2_at s (3 * i)) [0..<n]) = Some m"
    | n where "all_some (concat (map (\<lambda>i. [hex2_at s (5 * i), hex2_at s (5 * i + 2)]) [0..<n div 2])) = Some m"
    by (auto simp: parse_mac_def Let_def split: if_splits)
  then show ?thesis
  proof cases
    case 1
    from all_some_set[OF 1 assms(2)] h show ?thesis by (auto simp del: upt_Suc)
  next
    case 2
    from all_some_set[OF 2 assms(2)] h show ?thesis by (auto simp del: upt_Suc)
  qed
qed

section \<open>The rows of the MAC rules\<close>

lemma mac_string_no_slash: "\<forall>b \<in> set m. b < 256 \<Longrightarrow> CHR ''/'' \<notin> set (mac_string m)"
proof -
  assume m: "\<forall>b \<in> set m. b < 256"
  have "CHR ''/'' \<notin> set (join '':'' ws)" if "\<forall>w \<in> set ws. CHR ''/'' \<notin> set w" for ws
    using that by (induction "'':''" ws rule: join.induct) auto
  moreover have "CHR ''/'' \<notin> set [hex_digit (b div 16), hex_digit (b mod 16)]" if "b \<in> set m" for b
  proof -
    have "b div 16 < 16" "b mod 16 < 16" using m that by auto
    from this[THEN hex_digit_facts(4)] show ?thesis by auto
  qed
  ultimately show ?thesis unfolding mac_string_def by (metis (no_types, lifting) imageE list.set_map)
qed

lemma macAndMask_bytes:
  assumes "macAndMask n name e = Inr (m, k)"
  shows "length m = 6" "length k = 6" "\<forall>b \<in> set m. b < 256" "\<forall>b \<in> set k. b < 256"
  using assms parse_mac_bytes by (auto simp: macAndMask_def split: option.splits if_splits)

lemma macAndMask_name: "(case macAndMask n name e of Inl _ \<Rightarrow> None | Inr r \<Rightarrow> Some r) = (case macAndMask n' name' e of Inl _ \<Rightarrow> None | Inr r \<Rightarrow> Some r)"
  by (simp add: macAndMask_def split: option.split)

lemma mac_side_row:
  assumes "mac_side n name side e = Inr f" and "side = ''SRC'' \<and> mac = pk_smac pk \<or> side = ''DST'' \<and> mac = pk_dmac pk"
  shows "row_matches pk f = macCovers e mac"
proof (cases "me_mac e = []")
  case True
  with assms(1) show ?thesis by (simp add: mac_side_def macCovers_def)
next
  case False
  with assms(1) obtain m k where mk: "macAndMask n name e = Inr (m, k)" and f: "f = [(side @ ''_MAC'', mac_string m @ ''/'' @ mac_string k)]"
    by (auto simp: mac_side_def split: sum.splits)
  note b = macAndMask_bytes[OF mk]
  have "str_cut (CHR ''/'') (mac_string m @ ''/'' @ mac_string k) = Some (mac_string m, mac_string k)"
    using mac_string_no_slash[OF b(3)] by simp
  then have "masked_matches (mac_string m @ ''/'' @ mac_string k) mac \<longleftrightarrow> map2 (AND) m k = map2 (AND) mac k"
    using b by (simp add: masked_matches_def parse_mac_string)
  moreover have "macAndMask 0 [] e = Inr (m, k)" using macAndMask_name[of n name e 0 "[]"] mk by (auto split: sum.splits)
  ultimately show ?thesis using assms(2) False f by (auto simp: row_matches_def macCovers_def)
qed

lemma mac_row_means:
  assumes "mac_row native n a = Inr f"
  shows "row_matches pk f = macacl_matches native pk a" "row_permits f = dmac_permit a" "n \<le> 128 \<Longrightarrow> priority_of f = 9999 - int n"
proof -
  obtain s d where r: "mac_side n (dmac_name a) ''SRC'' (dmac_src a) = Inr s" "mac_side n (dmac_name a) ''DST'' (dmac_dst a) = Inr d"
    and f: "f = action_fields (macACLTop - int n) (dmac_permit a) @ [(''VLAN_ID'', itoa (sonic_vlan native (dmac_vlan a)))] @ s @ d"
    using assms by (auto simp: mac_row_def Let_def split: sum.splits if_splits)
  have "row_matches pk [(''VLAN_ID'', itoa (sonic_vlan native (dmac_vlan a)))] \<longleftrightarrow> sonic_vlan native (dmac_vlan a) = pk_vlan pk"
    by (simp add: row_matches_def)
  then show "row_matches pk f = macacl_matches native pk a"
    unfolding f row_matches_append macacl_matches_def using mac_side_row[OF r(1)] mac_side_row[OF r(2)] by simp
  show "row_permits f = dmac_permit a" by (simp add: f)
  show "n \<le> 128 \<Longrightarrow> priority_of f = 9999 - int n" unfolding f macACLTop_def
    by (rule priority_action) (simp_all add: max_int64_def)
qed

lemma mac_table:
  assumes "macRules native acls = Inr rs"
  shows "table_allows rs pk = mac_allows native acls pk"
proof -
  have r: "rows_from (mac_row native) 1 acls = Inr rs" "length acls \<le> 128"
    using assms by (auto simp: macRules_def macACLRules_def split: if_splits)
  show ?thesis unfolding mac_allows_def by (rule table_is_list[OF r]) (simp_all add: mac_row_means)
qed

lemma frame_scan_exact:
  assumes "0 < vlan" and "pk_vlan pk = vlan" and "pk_smac pk = src" and "pk_dmac pk = dst"
  shows "frame_scan native vlan (Some src) dst n acls = None \<longleftrightarrow> mac_allows native acls pk"
proof (induction acls arbitrary: n)
  case (Cons a as)
  have "frame_concerns native vlan (Some src) dst a = macacl_matches native pk a"
    using assms by (auto simp: frame_concerns_def macacl_matches_def)
  with Cons show ?case by (simp add: mac_allows_def first_match_def)
qed (simp add: mac_allows_def first_match_def)

text \<open>
  The check of MAC rules is exact: with the management VLAN and the stations behind it known,
  it passes a rule set exactly when the table it becomes forwards every frame from those stations
  to the switch's addresses on that VLAN. So a set that would cut the switch off is never written,
  and one that would not is never held back.
\<close>

theorem sonic_mac_rules_keep_management:
  assumes "macRules native acls = Inr rs" and "0 < lp_vlan p" and "lp_peers p \<noteq> []" and "lp_dsts p \<noteq> []"
  shows "cutsManagementMAC acls native p = None \<longleftrightarrow>
    (\<forall>pk. pk_vlan pk = lp_vlan p \<and> pk_smac pk \<in> set (lp_peers p) \<and> pk_dmac pk \<in> set (lp_dsts p) \<longrightarrow> table_allows rs pk)"
proof -
  have "cutsManagementMAC acls native p = None \<longleftrightarrow>
      (\<forall>src \<in> set (lp_peers p). \<forall>dst \<in> set (lp_dsts p). frame_scan native (lp_vlan p) (Some src) dst 1 acls = None)"
    using assms(2-4) by (simp add: cutsManagementMAC_def first_some_None)
  also have "\<dots> \<longleftrightarrow> (\<forall>pk. pk_vlan pk = lp_vlan p \<and> pk_smac pk \<in> set (lp_peers p) \<and> pk_dmac pk \<in> set (lp_dsts p) \<longrightarrow> mac_allows native acls pk)"
    (is "?l = ?r")
  proof
    show "?l \<Longrightarrow> ?r" using frame_scan_exact[OF assms(2)] by blast
    show "?r \<Longrightarrow> ?l"
    proof (intro ballI)
      fix src dst assume r: ?r and s: "src \<in> set (lp_peers p)" "dst \<in> set (lp_dsts p)"
      let ?pk = "\<lparr>pk_vlan = lp_vlan p, pk_smac = src, pk_dmac = dst, pk_proto = 0, pk_src = [], pk_dst = [], pk_sport = 0, pk_dport = 0\<rparr>"
      have "mac_allows native acls ?pk" using r s by simp
      then show "frame_scan native (lp_vlan p) (Some src) dst 1 acls = None" using frame_scan_exact[OF assms(2), of ?pk src dst] by simp
    qed
  qed
  finally show ?thesis using mac_table[OF assms(1)] by simp
qed

section \<open>DHCP guards\<close>

text \<open>A table of forwarding rows above dropping rows forwards what a forwarding row matches or nothing matches.\<close>

lemma two_level_table:
  assumes "distinct (map fst rs)" and "\<forall>r \<in> set rs. priority_of (snd r) = (if row_permits (snd r) then guardForward else guardDrop)"
  shows "table_allows rs pk \<longleftrightarrow> (\<exists>r \<in> set rs. row_permits (snd r) \<and> row_matches pk (snd r))
    \<or> \<not> (\<exists>r \<in> set rs. row_matches pk (snd r))"
proof -
  let ?ns = "byPriority rs" and ?row = "mget [] rs" and ?key = "\<lambda>n. (- priority_of (mget [] rs n), n)"
  have row: "?row (fst r) = snd r" if "r \<in> set rs" for r
    using map_of_is_SomeI[OF assms(1), of "fst r" "snd r"] that by (simp add: mget_def)
  have ns: "set ?ns = fst ` set rs" "sorted (map ?key ?ns)" by (simp_all add: byPriority_def)
  show ?thesis
  proof (cases "find (\<lambda>n. row_matches pk (?row n)) ?ns")
    case None
    then have "\<not> (\<exists>r \<in> set rs. row_matches pk (snd r))" using ns(1) row by (auto simp: find_None_iff)
    with None show ?thesis by (simp add: table_allows_def first_match_def)
  next
    case (Some x)
    then obtain i where i: "i < length ?ns" "row_matches pk (?row (?ns ! i))" "x = ?ns ! i"
      and first: "\<forall>j < i. \<not> row_matches pk (?row (?ns ! j))" by (auto simp: find_Some_iff)
    have "x \<in> set ?ns" using i(1,3) by simp
    then obtain rx where rx: "rx \<in> set rs" "fst rx = x" using ns(1) by (metis imageE)
    have "row_permits (snd rx)" if r: "r \<in> set rs" "row_permits (snd r)" "row_matches pk (snd r)" for r
    proof -
      obtain j where j: "j < length ?ns" "?ns ! j = fst r" using r(1) ns(1) by (metis imageI in_set_conv_nth)
      have "i \<le> j" using first j row[OF r(1)] r(3) by (metis not_le)
      then have "?key (?ns ! i) \<le> ?key (?ns ! j)" using sorted_nth_mono[OF ns(2), of i j] j(1) by simp
      then have "priority_of (snd r) \<le> priority_of (snd rx)" using i(3) j(2) row[OF r(1)] row[OF rx(1)] rx(2) by (auto simp: less_eq_prod_def)
      then show ?thesis using assms(2) r(1,2) rx(1) by (auto simp: guardForward_def guardDrop_def split: if_splits)
    qed
    moreover have "table_allows rs pk = row_permits (snd rx)" using Some row[OF rx(1)] rx(2) by (simp add: table_allows_def first_match_def)
    moreover have "row_matches pk (snd rx)" using i(2,3) row[OF rx(1)] rx(2) by simp
    ultimately show ?thesis using rx(1) by blast
  qed
qed

lemma mask_all [simp]: "length q \<le> 4 \<Longrightarrow> mask_bytes 32 q = q"
proof -
  have "mask_bytes n q = q" if "8 * length q \<le> n" for n using that
    by (induction n q rule: mask_bytes.induct) (auto simp: mask_byte_def min_def)
  then show "length q \<le> 4 \<Longrightarrow> ?thesis" by simp
qed

lemma cidr_covers_host:
  assumes "length q = 4" and "\<forall>b \<in> set q. b \<le> 255" and "length ip = 4"
  shows "cidr_covers (dotted q @ ''/32'') ip \<longleftrightarrow> ip = q"
proof -
  have "''/32'' = ''/'' @ nat_digits 32" by code_simp
  then have "parse_cidr (dotted q @ ''/32'') = Some (v4_mapped q, q, 32)" using parse_cidr_dotted[OF assms(1,2), of 32] assms(1) by simp
  then show ?thesis using assms(1,3) by (simp add: cidr_covers_def net_contains_def to4_def)
qed

lemma hex_num_less: "list_all is_hex s \<Longrightarrow> hex_num s < 16 ^ length s"
proof (induction s rule: rev_induct)
  case (snoc c s)
  have "is_hex c \<Longrightarrow> hex_val c \<le> 15" by (auto simp: is_hex_def hex_val_def is_digit_def)
  with snoc show ?case by (auto simp: hex_num_def)
qed (simp add: hex_num_def)

lemma v6_loop_bytes:
  "v6_loop n acc e s = Some (acc', e', s') \<Longrightarrow> \<forall>b \<in> set acc. b \<le> 255 \<Longrightarrow> \<forall>b \<in> set acc'. b \<le> 255"
proof (induction n acc e s rule: v6_loop.induct)
  case (2 n acc e s)
  let ?hs = "takeWhile is_hex s" let ?acc = "acc @ [hex_num ?hs div 256, hex_num ?hs mod 256]"
  have h: "\<not> (?hs = [] \<or> 4 < length ?hs)" using 2(3) by (auto simp: Let_def split: if_splits)
  have "list_all is_hex ?hs" by (metis list_all_iff set_takeWhileD)
  from hex_num_less[OF this] have "hex_num ?hs < 16 ^ length ?hs" .
  also have "\<dots> \<le> 16 ^ 4" using h by (intro power_increasing) auto
  finally have a: "\<forall>b \<in> set ?acc. b \<le> 255" using 2(4) by auto
  note ih = 2(1)[OF refl refl refl h] 2(2)[OF refl refl refl h]
  show ?case using 2(3,4) h a ih parse_v4_bytes by (auto simp: Let_def split: if_splits list.splits)
qed simp

lemma parse_v6_bytes: "parse_v6 s = Some b \<Longrightarrow> \<forall>x \<in> set b. x \<le> 255"
proof -
  have f: "\<forall>x \<in> set b. x \<le> 255" if "Option.bind (v6_loop n [] e t) v6_finish = Some b" for n e t
  proof -
    from that obtain acc e' u where v: "v6_loop n [] e t = Some (acc, e', u)" "v6_finish (acc, e', u) = Some b"
      by (cases "v6_loop n [] e t") auto
    have "\<forall>x \<in> set acc. x \<le> 255" using v6_loop_bytes[OF v(1)] by simp
    with v(2) show ?thesis by (auto simp: v6_finish_def split: if_splits dest!: in_set_takeD in_set_dropD)
  qed
  assume "parse_v6 s = Some b"
  then show ?thesis by (auto simp: parse_v6_def split: if_splits option.splits list.splits dest!: f)
qed

lemma parse_ip_bytes:
  assumes "Option.bind (parse_ip s) to4 = Some q"
  shows "length q = 4" "\<forall>b \<in> set q. b \<le> 255"
proof -
  from assms obtain b where b: "parse_ip s = Some b" "to4 b = Some q" by (cases "parse_ip s") auto
  then have "\<forall>x \<in> set b. x \<le> 255" using parse_v4_bytes parse_v6_bytes
    by (auto simp: parse_ip_def parse_addr_def v4_mapped_def split: option.splits if_splits)
  with b(2) show "length q = 4" "\<forall>b \<in> set q. b \<le> 255" by (auto simp: to4_def split: if_splits dest: in_set_dropD)
qed

abbreviation server_of :: "dm_guard \<Rightarrow> nat list option" where
  "server_of g \<equiv> Option.bind (parse_ip (trim_space (dg_server g))) to4"

lemma guard_servers_are:
  "set (mget [] (fst (guard_servers gs)) v) = {dotted q |g q. g \<in> set gs \<and> dg_vlan g = v \<and> server_of g = Some q}"
  "distinct (map fst (fst (guard_servers gs)))"
  "v \<in> fst ` set (fst (guard_servers gs)) \<longleftrightarrow> (\<exists>g \<in> set gs. dg_vlan g = v \<and> server_of g \<noteq> None)"
proof (induction gs rule: rev_induct)
  case Nil
  { case 1 show ?case by (simp add: guard_servers_def mget_def) }
  { case 2 show ?case by (simp add: guard_servers_def) }
  { case 3 show ?case by (simp add: guard_servers_def) }
next
  case (snoc g gs)
  obtain ss ns where ac: "guard_servers gs = (ss, ns)" by fastforce
  then have st: "guard_servers (gs @ [g]) = note_server g (ss, ns)" by (simp add: guard_servers_def)
  have up: "set (mget [] (fst (guard_servers (gs @ [g]))) v)
      = set (mget [] ss v) \<union> {dotted q |q. dg_vlan g = v \<and> server_of g = Some q}"
    by (cases "server_of g") (auto simp: st note_server_def Let_def mget_update)
  { case 1 show ?case using snoc(1) ac unfolding up by auto }
  { case 2 show ?case using snoc(2) ac by (cases "server_of g") (auto simp: st note_server_def Let_def simp del: map_append) }
  have "fst ` set (AList.update k x m) = insert k (fst ` set m)" for k :: int and x :: "string list" and m
    using set_mkeys_update[of k x m] by (metis list.set_map)
  then have keys: "fst ` set (fst (guard_servers (gs @ [g]))) = fst ` set ss \<union> {u. dg_vlan g = u \<and> server_of g \<noteq> None}"
    by (cases "server_of g") (auto simp: st note_server_def Let_def simp del: not_None_eq)
  { case 3 show ?case using snoc(3) ac unfolding keys by auto }
qed

lemma vlan_guard_rows:
  assumes "r \<in> set (vlan_guard v sv ss)"
  shows "priority_of (snd r) = (if row_permits (snd r) then guardForward else guardDrop)"
proof -
  have "priority_of (dhcp_row sv guardForward True @ g) = guardForward" "priority_of (dhcp_row sv guardDrop False) = guardDrop" for g
    unfolding dhcp_row_def append_assoc guardForward_def guardDrop_def by (rule priority_action, simp_all add: max_int64_def)+
  moreover have "row_permits (dhcp_row sv guardForward True @ g)" "\<not> row_permits (dhcp_row sv guardDrop False)" for g
    by (simp_all add: dhcp_row_def)
  ultimately show ?thesis using assms by (auto simp: vlan_guard_def)
qed

definition dhcp_reply :: "packet \<Rightarrow> bool" where
  "dhcp_reply pk \<longleftrightarrow> pk_proto pk = 17 \<and> pk_sport pk = 67 \<and> pk_dport pk = 68"

lemma dhcp_row_matches: "row_matches pk (dhcp_row sv p b) \<longleftrightarrow> dhcp_reply pk \<and> pk_vlan pk = sv"
proof -
  have "itoa 17 = ''17''" "itoa 67 = ''67''" "itoa 68 = ''68''" by code_simp+
  then have "''17'' = itoa i \<longleftrightarrow> i = 17" "''67'' = itoa i \<longleftrightarrow> i = 67" "''68'' = itoa i \<longleftrightarrow> i = 68" for i by (metis itoa_inj)+
  then have "row_matches pk [(''VLAN_ID'', itoa sv), (''IP_PROTOCOL'', ''17''), (''L4_SRC_PORT'', ''67''), (''L4_DST_PORT'', ''68'')]
      \<longleftrightarrow> dhcp_reply pk \<and> pk_vlan pk = sv" by (auto simp: row_matches_def dhcp_reply_def)
  then show ?thesis unfolding dhcp_row_def row_matches_append by simp
qed

lemma vlan_guard_matches:
  "(\<exists>r \<in> set (vlan_guard v sv ss). row_matches pk (snd r)) \<longleftrightarrow> dhcp_reply pk \<and> pk_vlan pk = sv"
  "(\<exists>r \<in> set (vlan_guard v sv ss). row_permits (snd r) \<and> row_matches pk (snd r))
    \<longleftrightarrow> dhcp_reply pk \<and> pk_vlan pk = sv \<and> (\<exists>s \<in> set ss. cidr_covers (s @ ''/32'') (pk_src pk))"
proof -
  have p: "row_permits (dhcp_row sv guardForward True @ g)" "\<not> row_permits (dhcp_row sv guardDrop False)" for g
    by (simp_all add: dhcp_row_def)
  have c: "row_matches pk [(''SRC_IP'', x)] \<longleftrightarrow> cidr_covers x (pk_src pk)" for x by (simp add: row_matches_def)
  have e: "snd ` set (enumerate 0 ss) = set ss" by (metis list.set_map map_snd_enumerate)
  show "(\<exists>r \<in> set (vlan_guard v sv ss). row_matches pk (snd r)) \<longleftrightarrow> dhcp_reply pk \<and> pk_vlan pk = sv"
    by (auto simp: vlan_guard_def dhcp_row_matches)
  show "(\<exists>r \<in> set (vlan_guard v sv ss). row_permits (snd r) \<and> row_matches pk (snd r))
    \<longleftrightarrow> dhcp_reply pk \<and> pk_vlan pk = sv \<and> (\<exists>s \<in> set ss. cidr_covers (s @ ''/32'') (pk_src pk))"
    unfolding e[symmetric] by (auto simp: vlan_guard_def dhcp_row_matches p c split_beta)
qed

text \<open>The rows have distinct names: VLAN and server can be read off them.\<close>

lemma guard_name_inj:
  assumes "''V'' @ itoa v @ CHR ''_'' # x = ''V'' @ itoa w @ CHR ''_'' # y"
  shows "v = w" "x = y"
proof -
  have n: "CHR ''_'' \<notin> set (itoa i)" for i
    using nat_digits_no_char[of "CHR ''_''"] by (auto simp: itoa_def is_digit_def char_code_def)
  have "str_cut (CHR ''_'') (itoa i @ CHR ''_'' # z) = Some (itoa i, z)" for i z using n[of i] by simp
  with assms have "Some (itoa v, x) = Some (itoa w, y)" by (metis append_Cons append_Nil list.inject)
  then show "v = w" "x = y" by simp_all
qed

lemma vlan_guard_distinct: "distinct (map fst (vlan_guard v sv ss))"
proof -
  have "map fst (vlan_guard v sv ss) = map (\<lambda>k. ''V'' @ itoa v @ CHR ''_'' # ''S'' @ itoa (int k + 1)) [0..<length ss] @ [''V'' @ itoa v @ CHR ''_'' # ''DROP'']"
    by (simp add: vlan_guard_def) (rule nth_equalityI, simp_all add: nth_enumerate_eq split_beta)
  moreover have "distinct \<dots>" by (auto simp: distinct_map inj_on_def)
  ultimately show ?thesis by simp
qed

lemma guard_one_names:
  "r \<in> set (fst (guard_one native vlans (v, ss))) \<Longrightarrow> \<exists>x. fst r = ''V'' @ itoa v @ CHR ''_'' # x"
  by (auto simp: guard_one_def vlan_guard_def split: if_splits)

lemma guard_rules_distinct:
  "distinct (map fst servers) \<Longrightarrow> distinct (map fst (concat (map (\<lambda>vs. fst (guard_one native vlans vs)) servers)))"
proof (induction servers)
  case (Cons vs servers)
  obtain v ss where vs: "vs = (v, ss)" by (cases vs)
  have "distinct (map fst (fst (guard_one native vlans vs)))" by (simp add: vs guard_one_def vlan_guard_distinct)
  moreover have "fst r \<noteq> fst r'" if r: "r \<in> set (fst (guard_one native vlans vs))" and s: "r' \<in> set (fst (guard_one native vlans ws))" "ws \<in> set servers" for r r' ws
  proof
    assume e: "fst r = fst r'"
    obtain w ts where w: "ws = (w, ts)" by (cases ws)
    from guard_one_names[OF r[unfolded vs]] guard_one_names[OF s(1)[unfolded w]] e have "v = w" by (metis guard_name_inj(1))
    with Cons.prems s(2) show False by (force simp: vs w)
  qed
  ultimately show ?case using Cons by (auto simp: image_iff)
qed simp

text \<open>A guard of the controller for a VLAN of the switch, with its trusted server's address.\<close>

definition guards :: "int \<Rightarrow> int list \<Rightarrow> dm_guard \<Rightarrow> nat list \<Rightarrow> int \<Rightarrow> bool" where
  "guards native vlans g q vlan \<longleftrightarrow> server_of g = Some q \<and> (dg_vlan g = 1 \<or> dg_vlan g \<noteq> native)
     \<and> sonic_vlan native (dg_vlan g) = vlan \<and> vlan \<in> set vlans"

lemma guard_rows_exist:
  "(\<exists>r \<in> set (fst (guardRules native vlans gs)). P r) \<longleftrightarrow>
   (\<exists>vs \<in> set (fst (guard_servers gs)). (fst vs = 1 \<or> fst vs \<noteq> native) \<and> sonic_vlan native (fst vs) \<in> set vlans
      \<and> (\<exists>r \<in> set (vlan_guard (fst vs) (sonic_vlan native (fst vs)) (snd vs)). P r))"
proof -
  have g: "fst (guard_one native vlans vs) = (if (fst vs = 1 \<or> fst vs \<noteq> native) \<and> sonic_vlan native (fst vs) \<in> set vlans
      then vlan_guard (fst vs) (sonic_vlan native (fst vs)) (snd vs) else [])" for vs
    by (simp add: guard_one_def split_beta)
  have "set (fst (guardRules native vlans gs)) = (\<Union>vs \<in> set (fst (guard_servers gs)). set (fst (guard_one native vlans vs)))"
    by (simp add: guardRules_def split_beta)
  then have "(\<exists>r \<in> set (fst (guardRules native vlans gs)). P r)
      \<longleftrightarrow> (\<exists>vs \<in> set (fst (guard_servers gs)). \<exists>r \<in> set (fst (guard_one native vlans vs)). P r)" by blast
  moreover have "(\<exists>r \<in> set (if c then G else []). P r) \<longleftrightarrow> c \<and> (\<exists>r \<in> set G. P r)" for c G by (cases c) auto
  ultimately show ?thesis unfolding g by (simp only: conj_assoc)
qed

text \<open>
  C37. DHCP guarding lets exactly the trusted servers answer: with the guard's rows in place, an
  IPv4 packet is dropped exactly when it is a DHCP reply on a VLAN the controller guards (and the
  switch carries) and its source is none of that VLAN's trusted servers. All else is forwarded.
\<close>

theorem sonic_guard_blocks_rogue_dhcp:
  assumes "length (pk_src pk) = 4"
  shows "table_allows (fst (guardRules native vlans gs)) pk \<longleftrightarrow>
    \<not> (dhcp_reply pk \<and> (\<exists>g \<in> set gs. \<exists>q. guards native vlans g q (pk_vlan pk))
        \<and> \<not> (\<exists>g \<in> set gs. guards native vlans g (pk_src pk) (pk_vlan pk)))"
proof -
  let ?rs = "fst (guardRules native vlans gs)" and ?ss = "fst (guard_servers gs)"
  have d: "distinct (map fst ?rs)" using guard_rules_distinct[OF guard_servers_are(2)] by (simp add: guardRules_def split_beta)
  have p: "\<forall>r \<in> set ?rs. priority_of (snd r) = (if row_permits (snd r) then guardForward else guardDrop)"
    using guard_rows_exist[of native vlans gs "\<lambda>r. priority_of (snd r) \<noteq> (if row_permits (snd r) then guardForward else guardDrop)"]
      vlan_guard_rows by blast
  have v: "snd vs = mget [] ?ss (fst vs)" if "vs \<in> set ?ss" for vs
    using map_of_is_SomeI[OF guard_servers_are(2), of "fst vs" "snd vs"] that by (simp add: mget_def)
  have host: "cidr_covers (dotted q @ ''/32'') (pk_src pk) \<longleftrightarrow> pk_src pk = q" if "server_of g = Some q" for g q
    using cidr_covers_host parse_ip_bytes[OF that] assms by simp
  have any: "(\<exists>r \<in> set ?rs. row_matches pk (snd r)) \<longleftrightarrow> dhcp_reply pk \<and> (\<exists>g \<in> set gs. \<exists>q. guards native vlans g q (pk_vlan pk))"
  proof -
    have q: "(\<exists>vs \<in> set ?ss. Q (fst vs)) \<longleftrightarrow> (\<exists>g \<in> set gs. (\<exists>q. server_of g = Some q) \<and> Q (dg_vlan g))" for Q
      using guard_servers_are(3)[of _ gs] unfolding not_None_eq by (metis (no_types, lifting) imageE imageI)
    show ?thesis unfolding guard_rows_exist vlan_guard_matches(1) guards_def
      using q[of "\<lambda>v. (v = 1 \<or> v \<noteq> native) \<and> sonic_vlan native v \<in> set vlans \<and> dhcp_reply pk \<and> pk_vlan pk = sonic_vlan native v"] by metis
  qed
  have ok: "(\<exists>r \<in> set ?rs. row_permits (snd r) \<and> row_matches pk (snd r)) \<longleftrightarrow> dhcp_reply pk \<and> (\<exists>g \<in> set gs. guards native vlans g (pk_src pk) (pk_vlan pk))"
  proof -
    have q: "(\<exists>vs \<in> set ?ss. Q (fst vs) \<and> (\<exists>s \<in> set (snd vs). cidr_covers (s @ ''/32'') (pk_src pk)))
        \<longleftrightarrow> (\<exists>g \<in> set gs. server_of g = Some (pk_src pk) \<and> Q (dg_vlan g))" (is "?l = ?r") for Q
    proof
      assume ?l
      then obtain vs s where s: "vs \<in> set ?ss" "Q (fst vs)" "s \<in> set (mget [] ?ss (fst vs))" "cidr_covers (s @ ''/32'') (pk_src pk)" using v by auto
      then obtain g q where "g \<in> set gs" "dg_vlan g = fst vs" "server_of g = Some q" "s = dotted q" by (auto simp: guard_servers_are(1))
      with s host show ?r by auto
    next
      assume ?r
      then obtain g where g: "g \<in> set gs" "server_of g = Some (pk_src pk)" "Q (dg_vlan g)" by blast
      then obtain vs where vs: "vs \<in> set ?ss" "fst vs = dg_vlan g" using guard_servers_are(3)[of "dg_vlan g" gs] by auto
      have "dotted (pk_src pk) \<in> set (snd vs)" using g vs v by (auto simp: guard_servers_are(1))
      moreover have "Q (fst vs)" "cidr_covers (dotted (pk_src pk) @ ''/32'') (pk_src pk)" using g vs host[OF g(2)] by simp_all
      ultimately show ?l using vs(1) by blast
    qed
    show ?thesis unfolding guard_rows_exist vlan_guard_matches(2) guards_def
      using q[of "\<lambda>v. (v = 1 \<or> v \<noteq> native) \<and> sonic_vlan native v \<in> set vlans \<and> dhcp_reply pk \<and> pk_vlan pk = sonic_vlan native v"] by metis
  qed
  show ?thesis using two_level_table[OF d p] any ok by blast
qed

section \<open>What the checks miss\<close>

definition any_end :: ip_end where
  "any_end = \<lparr>ie_cidr = [], ie_port = 0, ie_min = 0, ie_max = 0\<rparr>"

definition ip_rule_demo :: "bool \<Rightarrow> ip_end \<Rightarrow> dm_ipacl" where
  "ip_rule_demo permit src = \<lparr>di_name = ''r'', di_permit = permit, di_proto = ''tcp'', di_src = src, di_dst = any_end\<rparr>"

definition ssh_demo :: "int \<Rightarrow> packet" where
  "ssh_demo port = \<lparr>pk_vlan = 1, pk_smac = [], pk_dmac = [], pk_proto = 6, pk_src = [10, 0, 0, 2], pk_dst = [10, 0, 0, 1],
     pk_sport = port, pk_dport = 22\<rparr>"

lemma ip_rule_demo_rows: "ie_port e = 0 \<Longrightarrow> ie_cidr e = [] \<Longrightarrow> (has_ports e \<longrightarrow> 1 \<le> ie_min e \<and> ie_min e \<le> ie_max e \<and> ie_max e \<le> 65535)
    \<Longrightarrow> \<exists>f. ip_row n (ip_rule_demo p e) = Inr f"
  by (auto simp: ip_row_def proto_fields_def side_fields_def ip_rule_demo_def any_end_def has_ports_def Let_def)

text \<open>
  An Allow for a range of source ports hides a later Block from the check: a rule set can pass
  it, be written, and drop the bridge's own SSH from a port outside the range, though no rule names
  a single source port.
\<close>

theorem sonic_ranged_allow_hides_a_block:
  "\<exists>acls rs. cutsManagement acls ''10.0.0.2'' [''10.0.0.1''] = None \<and> ipRules acls = Inr rs
     \<and> list_all (\<lambda>a. ie_port (di_src a) = 0) acls
     \<and> ssh_packet [10, 0, 0, 2] [10, 0, 0, 1] (ssh_demo 50) \<and> \<not> table_allows rs (ssh_demo 50)"
proof -
  let ?low = "\<lparr>ie_cidr = [], ie_port = 0, ie_min = 1, ie_max = 9\<rparr>"
  let ?acls = "[ip_rule_demo True ?low, ip_rule_demo False any_end]"
  obtain f g where "ip_row 1 (ip_rule_demo True ?low) = Inr f" "ip_row (1 + 1) (ip_rule_demo False any_end) = Inr g"
    using ip_rule_demo_rows[of ?low 1 True] ip_rule_demo_rows[of any_end "1 + 1" False] by (auto simp: any_end_def has_ports_def)
  then obtain rs where rs: "ipRules ?acls = Inr rs" by (auto simp: ipRules_def ipACLRules_def)
  have "cutsManagement ?acls ''10.0.0.2'' [''10.0.0.1''] = None" by code_simp
  moreover have "\<not> ip_allows ?acls (ssh_demo 50)" by code_simp
  moreover have "list_all (\<lambda>a. ie_port (di_src a) = 0) ?acls" "ssh_packet [10, 0, 0, 2] [10, 0, 0, 1] (ssh_demo 50)" by code_simp+
  ultimately show ?thesis using rs ip_table(2)[OF rs, of "ssh_demo 50"] by blast
qed

definition mac_any :: mac_end where "mac_any = \<lparr>me_mac = [], me_mask = []\<rparr>"

definition mac_rule_demo :: "bool \<Rightarrow> int \<Rightarrow> dm_macacl" where
  "mac_rule_demo permit v = \<lparr>dmac_name = ''r'', dmac_permit = permit, dmac_vlan = v, dmac_src = mac_any, dmac_dst = mac_any\<rparr>"

definition frame :: "int \<Rightarrow> nat list \<Rightarrow> nat list \<Rightarrow> packet" where
  "frame v src dst = \<lparr>pk_vlan = v, pk_smac = src, pk_dmac = dst, pk_proto = 0, pk_src = [], pk_dst = [], pk_sport = 0, pk_dport = 0\<rparr>"

text \<open>
  With the management VLAN unknown, an Allow on one VLAN hides a Block on another from the
  check of MAC rules: the set passes, though it drops every frame of the second VLAN.
\<close>

theorem sonic_unknown_vlan_hides_a_block:
  "\<exists>acls rs. cutsManagementMAC acls 99 \<lparr>lp_vlan = -1, lp_peers = peers, lp_dsts = dsts\<rparr> = None \<and> macRules 99 acls = Inr rs
     \<and> \<not> table_allows rs (frame 6 src dst)"
proof -
  let ?acls = "[mac_rule_demo True 5, mac_rule_demo False 6]"
  have c: "macCovers mac_any m" for m by (simp add: macCovers_def mac_any_def)
  have "\<exists>rs. macRules 99 ?acls = Inr rs"
    by (simp add: macRules_def macACLRules_def mac_row_def mac_side_def mac_rule_demo_def mac_any_def Let_def)
  then obtain rs where rs: "macRules 99 ?acls = Inr rs" ..
  have "frame_scan 99 (-1) src dst 1 ?acls = None" for src dst
    by (auto simp: frame_concerns_def mac_rule_demo_def c split: option.split) (simp_all add: mac_any_def)
  then have "cutsManagementMAC ?acls 99 \<lparr>lp_vlan = -1, lp_peers = peers, lp_dsts = dsts\<rparr> = None"
    by (simp add: cutsManagementMAC_def first_some_None)
  moreover have "\<not> mac_allows 99 ?acls (frame 6 src dst)"
    by (simp add: frame_def mac_allows_def first_match_def macacl_matches_def mac_rule_demo_def sonic_vlan_def c)
  ultimately show ?thesis using rs mac_table[OF rs] by blast
qed

section \<open>Instances\<close>

lemma demo_rules: "\<exists>rs. ipRules [ip_rule_demo True any_end] = Inr rs" "\<exists>rs. macRules 99 [mac_rule_demo False 6] = Inr rs"
proof -
  obtain f where "ip_row 1 (ip_rule_demo True any_end) = Inr f"
    using ip_rule_demo_rows[of any_end 1 True] by (auto simp: any_end_def has_ports_def)
  then show "\<exists>rs. ipRules [ip_rule_demo True any_end] = Inr rs" by (simp add: ipRules_def ipACLRules_def)
  show "\<exists>rs. macRules 99 [mac_rule_demo False 6] = Inr rs"
    by (simp add: macRules_def macACLRules_def mac_row_def mac_side_def mac_rule_demo_def mac_any_def Let_def)
qed

lemma sonic_ip_rules_mean_the_push_witness:
  "\<exists>rs. ipRules [ip_rule_demo True any_end] = Inr rs \<and> byPriority rs = [rule_name 1] \<and> table_allows rs (ssh_demo 50)"
proof -
  obtain rs where rs: "ipRules [ip_rule_demo True any_end] = Inr rs" using demo_rules(1) ..
  have "ip_allows [ip_rule_demo True any_end] (ssh_demo 50)" by code_simp
  with sonic_ip_rules_mean_the_push[OF rs, of "ssh_demo 50"] rs show ?thesis by (simp add: upt_rec)
qed


lemma sonic_mac_rules_keep_management_witness:
  "cutsManagementMAC [mac_rule_demo False 6] 99 \<lparr>lp_vlan = 6, lp_peers = [[1, 2, 3, 4, 5, 6]], lp_dsts = [replicate 6 255]\<rparr> \<noteq> None
   \<and> (\<exists>rs. macRules 99 [mac_rule_demo False 6] = Inr rs \<and> \<not> table_allows rs (frame 6 [1, 2, 3, 4, 5, 6] (replicate 6 255)))"
proof -
  let ?p = "\<lparr>lp_vlan = 6, lp_peers = [[1, 2, 3, 4, 5, 6]], lp_dsts = [replicate 6 255]\<rparr>"
  obtain rs where rs: "macRules 99 [mac_rule_demo False 6] = Inr rs" using demo_rules(2) ..
  have "cutsManagementMAC [mac_rule_demo False 6] 99 ?p \<noteq> None" by code_simp
  then obtain pk where "pk_vlan pk = 6" "\<not> table_allows rs pk" using sonic_mac_rules_keep_management[OF rs, of ?p] by auto
  moreover have "\<not> mac_allows 99 [mac_rule_demo False 6] (frame 6 [1, 2, 3, 4, 5, 6] (replicate 6 255))" by code_simp
  ultimately show ?thesis using rs mac_table[OF rs] \<open>cutsManagementMAC _ _ _ \<noteq> None\<close> by blast
qed

definition dhcp_demo :: "nat list \<Rightarrow> packet" where
  "dhcp_demo src = \<lparr>pk_vlan = 6, pk_smac = [], pk_dmac = [], pk_proto = 17, pk_src = src, pk_dst = [], pk_sport = 67, pk_dport = 68\<rparr>"

lemma sonic_guard_blocks_rogue_dhcp_witness:
  "table_allows (fst (guardRules 99 [6] [\<lparr>dg_vlan = 6, dg_server = ''10.0.0.1''\<rparr>])) (dhcp_demo [10, 0, 0, 1])
   \<and> \<not> table_allows (fst (guardRules 99 [6] [\<lparr>dg_vlan = 6, dg_server = ''10.0.0.1''\<rparr>])) (dhcp_demo [10, 0, 0, 9])"
proof -
  have s: "server_of \<lparr>dg_vlan = 6, dg_server = ''10.0.0.1''\<rparr> = Some [10, 0, 0, 1]" by code_simp
  then have "guards 99 [6] \<lparr>dg_vlan = 6, dg_server = ''10.0.0.1''\<rparr> q 6 \<longleftrightarrow> q = [10, 0, 0, 1]" for q
    by (auto simp: guards_def sonic_vlan_def)
  then show ?thesis
    using sonic_guard_blocks_rogue_dhcp[of "dhcp_demo [10, 0, 0, 1]" 99 "[6]" "[\<lparr>dg_vlan = 6, dg_server = ''10.0.0.1''\<rparr>]"]
      sonic_guard_blocks_rogue_dhcp[of "dhcp_demo [10, 0, 0, 9]" 99 "[6]" "[\<lparr>dg_vlan = 6, dg_server = ''10.0.0.1''\<rparr>]"]
    by (simp add: dhcp_demo_def dhcp_reply_def)
qed

end
