(* ===== verification/Sonic_State.thy ===== *)
theory Sonic_State
  imports Sonic_Rules
begin

text \<open>
  \<^verbatim>\<open>internal/drivers/sonic/state.go\<close>: the switch's CONFIG_DB as the SONiC driver diffs against it. A
  Go map is an association list, a set of names a list, \<open>clone\<close> is the value itself. The fields
  only logging reads (chrony's sources, CRM and orchagent's verdicts) are left out. In disunified-l2d's
  config a nil map of ports is \<open>None\<close>. Also the small readers of
  \<^verbatim>\<open>parse.go\<close> and \<^verbatim>\<open>model.go\<close> the control side uses.
\<close>

section \<open>The state\<close>

record acl_table =
  at_typ :: string
  at_stage :: string
  at_ports :: "string list"

record platform_port =
  pp_index :: string
  pp_lanes :: string
  pp_modes :: "(string \<times> string list) list"

record l2_port =
  l2p_enabled :: bool
  l2p_edge :: string
  l2p_bpdu_guard :: bool

record l2_conf =
  l2c_stp :: bool
  l2c_version :: string
  l2c_priority :: int
  l2c_ports :: "(string \<times> l2_port) list option"
  l2c_guard :: bool
  l2c_threshold :: int
  l2c_interval :: int
  l2c_hold :: int
  l2c_guard_ports :: "string list"
  l2c_deadman :: string

record l2_inst =
  l2i_files :: fields
  l2i_mstpd :: string
  l2i_service :: string
  l2i_deadman :: string
  l2i_build :: string
  l2i_docker :: bool
  l2i_stp_state :: string
  l2i_conf :: "l2_conf option"
  l2i_present :: bool

record sw_state =
  s_port :: "(string \<times> fields) list"
  s_vlans :: "int list"
  s_vlan_mtu :: "string alist"
  s_net_mtu :: "(string \<times> int) list"
  s_members :: "(string \<times> bool alist) list"
  s_lags :: "(string \<times> string list) list"
  s_lag_mtu :: "(string \<times> string) list"
  s_lag_lacp :: "(string \<times> string \<times> string) list"
  s_mirrors :: "(string \<times> fields) list"
  s_storm :: "(string \<times> (string \<times> int) list) list"
  s_stp :: "(string \<times> fields) list"
  s_stp_global :: "fields option"
  s_ntp :: "string list"
  s_ntp_global :: "fields option"
  s_chrony_online :: int
  s_chrony_offline :: int
  s_chrony_known :: bool
  s_carrier :: "string list"
  s_syslog :: fields
  s_snmp :: "string list"
  s_snmp_yml :: "string list"
  s_snmp_yml_ok :: bool
  s_dns :: "string list"
  s_routes :: "(string \<times> fields) list"
  s_keys :: "string list"
  s_ifaddrs :: "string list"
  s_meta :: fields
  s_stp_feature :: bool
  s_platform_json :: bool
  s_platform :: "(string \<times> platform_port) list"
  s_brkout :: fields
  s_fecs :: "(string \<times> string list) list"
  s_switch_cap :: fields
  s_mgmt_port_missing :: bool
  s_mgmt_no_gateway :: "string list"
  s_l2 :: l2_inst
  s_acl_known :: bool
  s_acl_tables :: "(string \<times> acl_table) list"
  s_acl_rules :: "(string \<times> fields) list"
  s_l2mc_known :: bool
  s_l2mc_feature :: string
  s_l2mc :: "(string \<times> fields) list"

section \<open>Reading values\<close>

definition isTrue :: "string \<Rightarrow> bool" where
  "isTrue s \<longleftrightarrow> to_lower (trim_space s) \<in> {''true'', ''up'', ''on'', ''enabled'', ''yes''}"

definition laneCount :: "string \<Rightarrow> int" where
  "laneCount s = int (length (filter (\<lambda>f. trim_space f \<noteq> []) (split_on (CHR '','') s)))"

definition fecOf :: "string \<Rightarrow> fec" where
  "fecOf s = (let t = to_lower (trim_space s) in
     if t = ''rs'' then FECRS else if t = ''fc'' then FECFC else if t = ''none'' then FECDisabled else FECUnknown)"

text \<open>The digits at the end of a name.\<close>

definition name_digits :: "string \<Rightarrow> string" where
  "name_digits s = rev (takeWhile is_digit (rev s))"

definition ifNum :: "string \<Rightarrow> int" where
  "ifNum name = (case atoi (name_digits name) of Some n \<Rightarrow> n | None \<Rightarrow> 2 ^ 30)"

definition splitIfname :: "string \<Rightarrow> string \<times> int" where
  "splitIfname s = (take (length s - length (name_digits s)) s, atoi_val (name_digits s))"

definition sortIfnames :: "string list \<Rightarrow> string list" where
  "sortIfnames names = sort_key (\<lambda>n. (fst (splitIfname n), snd (splitIfname n), n)) (remdups names)"

definition equalSets :: "string list \<Rightarrow> string list \<Rightarrow> bool" where
  "equalSets a b \<longleftrightarrow> set a = set b"

text \<open>\<open>reflect.DeepEqual\<close> of two maps.\<close>

definition same_fields :: "('k \<times> 'v) list \<Rightarrow> ('k \<times> 'v) list \<Rightarrow> bool" where
  "same_fields f g \<longleftrightarrow> set (map fst f) = set (map fst g) \<and> list_all (\<lambda>k. map_of f k = map_of g k) (map fst f)"

lemma same_fields_iff: "same_fields f g \<longleftrightarrow> map_of f = map_of g"
  for f g :: "('k \<times> 'v) list"
proof
  assume s: "same_fields f g"
  show "map_of f = map_of g"
  proof
    fix k
    show "map_of f k = map_of g k"
    proof (cases "k \<in> set (map fst f)")
      case True with s show ?thesis unfolding same_fields_def list_all_iff by blast
    next
      case False
      with s have "k \<notin> set (map fst g)" unfolding same_fields_def by blast
      with False show ?thesis by (metis map_of_eq_None_iff list.set_map)
    qed
  qed
next
  assume m: "map_of f = map_of g"
  have "set (map fst h) = dom (map_of h)" for h :: "('k \<times> 'v) list" by (simp add: dom_map_of_conv_image_fst)
  with m show "same_fields f g" by (simp add: same_fields_def list_all_iff)
qed

section \<open>Reading and changing the state\<close>

definition sw_field :: "sw_state \<Rightarrow> string \<Rightarrow> string \<Rightarrow> string" where
  "sw_field s iface key = mget [] (mget [] (s_port s) iface) key"

definition setField :: "string \<Rightarrow> string \<Rightarrow> string \<Rightarrow> sw_state \<Rightarrow> sw_state" where
  "setField iface key v s = s\<lparr>s_port := AList.update iface
     (let f = mget [] (s_port s) iface in if v = [] then AList.delete key f else AList.update key v f) (s_port s)\<rparr>"

definition setMember :: "string \<Rightarrow> int \<Rightarrow> bool \<Rightarrow> sw_state \<Rightarrow> sw_state" where
  "setMember iface i tagged s = s\<lparr>s_members := AList.update iface (AList.update i tagged (mget [] (s_members s) iface)) (s_members s)\<rparr>"

definition delMember :: "string \<Rightarrow> int \<Rightarrow> sw_state \<Rightarrow> sw_state" where
  "delMember iface i s = (case map_of (s_members s) iface of None \<Rightarrow> s
     | Some m \<Rightarrow> s\<lparr>s_members := AList.update iface (AList.delete i m) (s_members s)\<rparr>)"

definition memberIDs :: "sw_state \<Rightarrow> string \<Rightarrow> int list" where
  "memberIDs s iface = sort (map fst (mget [] (s_members s) iface))"

text \<open>A range over the aggregates finds an interface in one of them; SONiC keeps it in at most one.\<close>

definition lagOf :: "sw_state \<Rightarrow> string \<Rightarrow> string" where
  "lagOf s iface = (case find (\<lambda>l. iface \<in> set (snd l)) (s_lags s) of None \<Rightarrow> [] | Some l \<Rightarrow> fst l)"

definition mirrorTo :: "sw_state \<Rightarrow> string \<Rightarrow> string" where
  "mirrorTo s iface = (case find (\<lambda>n. mget [] (mget [] (s_mirrors s) n) ''dst_port'' = iface) (sort (map fst (s_mirrors s))) of
     None \<Rightarrow> [] | Some n \<Rightarrow> n)"

definition portMirrorUnsupported :: "sw_state \<Rightarrow> bool" where
  "portMirrorUnsupported s \<longleftrightarrow> list_ex (\<lambda>k. case map_of (s_switch_cap s) k of None \<Rightarrow> False | Some v \<Rightarrow> v \<noteq> ''true'')
     [''PORT_INGRESS_MIRROR_CAPABLE'', ''PORT_EGRESS_MIRROR_CAPABLE'']"

definition setSTP :: "string \<Rightarrow> string \<Rightarrow> string \<Rightarrow> sw_state \<Rightarrow> sw_state" where
  "setSTP iface key v s = s\<lparr>s_stp := AList.update iface (AList.update key v (mget [] (s_stp s) iface)) (s_stp s)\<rparr>"

definition defaultRoute :: "sw_state \<Rightarrow> string" where
  "defaultRoute s = mget [] (mget [] (s_routes s) ''default|0.0.0.0/0'') ''nexthop''"

end
