(* ===== verification/Sonic_Acl.thy ===== *)
theory Sonic_Acl
  imports Sonic_State
begin

text \<open>
  \<^verbatim>\<open>internal/drivers/sonic/acl.go\<close>, the tables: what a push asks of the driver's ACL tables (\<open>aclSet\<close>)
  and how they are brought there (\<open>applyACL\<close>). A planned write, a command with its effect on the
  copy of CONFIG_DB, is a value of \<open>acl_op\<close>; \<open>acl_cmd\<close> prints it and \<open>acl_eff\<close> is its effect.
\<close>

section \<open>What a push asks for\<close>

record acl_env =
  ae_native :: int
  ae_ssh_from :: string
  ae_probe :: string
  ae_ssh_to :: string
  ae_dial :: "string list"
  ae_mac_acl :: bool
  ae_l2 :: l2_path

type_synonym acl_want = "(string \<times> rules) list"

definition ip_want :: "acl_env \<Rightarrow> dm_ipacl list \<Rightarrow> acl_why + rules" where
  "ip_want e acls = (case ipRules acls of Inl w \<Rightarrow> Inl w | Inr rs \<Rightarrow>
     (let from = (if ae_ssh_from e = [] then ae_probe e else ae_ssh_from e);
          dial = (if ae_ssh_to e = [] then ae_dial e else [ae_ssh_to e])
      in case cutsManagement acls from dial of None \<Rightarrow> Inr rs | Some w \<Rightarrow> Inl w))"

definition mac_want :: "acl_env \<Rightarrow> dm_macacl list \<Rightarrow> acl_why + rules" where
  "mac_want e acls = (case macRules (ae_native e) acls of Inl w \<Rightarrow> Inl w | Inr rs \<Rightarrow>
     (case cutsManagementMAC acls (ae_native e) (ae_l2 e) of None \<Rightarrow> Inr rs | Some w \<Rightarrow> Inl w))"

definition set_guards :: "acl_env \<Rightarrow> device_desired \<Rightarrow> int list \<Rightarrow> acl_want \<times> acl_note list" where
  "set_guards e d vlans = (case dd_dhcp_snoop d of
     None \<Rightarrow> ([], [])
   | Some False \<Rightarrow> ([(guardTable, [])], [])
   | Some True \<Rightarrow> (case guardRules (ae_native e) vlans (dd_guards d) of (rs, notes) \<Rightarrow> ([(guardTable, rs)], notes)))"

definition set_ip :: "acl_env \<Rightarrow> device_desired \<Rightarrow> acl_want \<times> acl_note list" where
  "set_ip e d = (if \<not> dd_ipacl_set d then ([], [])
     else case ip_want e (dd_ipacls d) of Inl w \<Rightarrow> ([], [IPRulesHeld w]) | Inr rs \<Rightarrow> ([(ipACLTable, rs)], []))"

definition set_mac :: "acl_env \<Rightarrow> device_desired \<Rightarrow> acl_want \<times> acl_note list" where
  "set_mac e d = (if \<not> dd_macacl_set d then ([], [])
     else if \<not> ae_mac_acl e then ([], if dd_macacls d \<noteq> [] then [NoL2Table (length (dd_macacls d))] else [])
     else case mac_want e (dd_macacls d) of Inl w \<Rightarrow> ([], [MACRulesHeld w]) | Inr rs \<Rightarrow> ([(macACLTable, rs)], []))"

definition aclSet :: "acl_env \<Rightarrow> device_desired \<Rightarrow> sw_state \<Rightarrow> acl_want \<times> acl_note list" where
  "aclSet e d st =
     (let g = set_guards e d (s_vlans st); i = set_ip e d; m = set_mac e d
      in (fst g @ fst i @ fst m, snd g @ snd i @ snd m))"

section \<open>Planned writes\<close>

datatype acl_op =
    DropRule string string
  | WriteRule string string fields
  | RemoveTable string
  | BindTable string string "string list"

fun acl_cmd :: "acl_op \<Rightarrow> string" where
  "acl_cmd (DropRule t r) = ''sudo '' @ delRule t r"
| "acl_cmd (WriteRule t r f) = ''sudo '' @ hsetRule t r f"
| "acl_cmd (RemoveTable t) = ''sudo config acl remove table '' @ t"
| "acl_cmd (BindTable t typ ports) = ''sudo config acl add table '' @ t @ '' '' @ typ @ '' -p ''
     @ join '','' (sortIfnames ports) @ '' -s '' @ aclStage"

definition rule_id :: "string \<Rightarrow> string \<Rightarrow> string" where
  "rule_id t r = t @ ''|'' @ r"

fun acl_eff :: "acl_op \<Rightarrow> sw_state \<Rightarrow> sw_state" where
  "acl_eff (DropRule t r) s = s\<lparr>s_acl_rules := AList.delete (rule_id t r) (s_acl_rules s)\<rparr>"
| "acl_eff (WriteRule t r f) s = s\<lparr>s_acl_rules := AList.update (rule_id t r) f (s_acl_rules s)\<rparr>"
| "acl_eff (RemoveTable t) s = s\<lparr>s_acl_tables := AList.delete t (s_acl_tables s)\<rparr>"
| "acl_eff (BindTable t typ ports) s = s\<lparr>s_acl_tables :=
     AList.update t \<lparr>at_typ = typ, at_stage = aclStage, at_ports = ports\<rparr> (s_acl_tables s)\<rparr>"

definition aclPorts :: "sw_state \<Rightarrow> string list" where
  "aclPorts st =
     (let members = concat (map snd (s_lags st))
      in map fst (filter (\<lambda>l. snd l \<noteq> []) (s_lags st)) @ filter (\<lambda>p. p \<notin> set members) (map fst (s_port st)))"

definition rulesOf :: "sw_state \<Rightarrow> string \<Rightarrow> rules" where
  "rulesOf s t = List.map_filter (\<lambda>(k, f). case str_cut (CHR ''|'') k of
     None \<Rightarrow> None | Some (t', r) \<Rightarrow> if t' = t then Some (r, f) else None) (s_acl_rules s)"

definition dropRules :: "string \<Rightarrow> string list \<Rightarrow> acl_op list" where
  "dropRules t names = map (DropRule t) (rev names)"

section \<open>One table\<close>

text \<open>
  The table is the driver's when its type and stage are. It goes first when no rule is wanted or it
  is not the driver's; then it is bound, stale rules go, and new or changed ones are written.
\<close>

definition acl_ours :: "string \<Rightarrow> acl_table option \<Rightarrow> bool" where
  "acl_ours t cur = (case cur of None \<Rightarrow> False | Some c \<Rightarrow> at_typ c = tableType t \<and> at_stage c = aclStage)"

definition acl_goes :: "string \<Rightarrow> rules \<Rightarrow> acl_table option \<Rightarrow> bool" where
  "acl_goes t rs cur \<longleftrightarrow> rs = [] \<or> cur \<noteq> None \<and> \<not> acl_ours t cur"

definition acl_remove :: "string \<Rightarrow> rules \<Rightarrow> acl_table option \<Rightarrow> acl_op list" where
  "acl_remove t have cur = dropRules t (byPriority have) @ (if cur \<noteq> None then [RemoveTable t] else [])"

definition acl_bind :: "string \<Rightarrow> string list \<Rightarrow> acl_table option \<Rightarrow> acl_op list" where
  "acl_bind t ports cur = (case cur of
     Some c \<Rightarrow> if equalSets (at_ports c) ports then [] else [BindTable t (tableType t) ports]
   | None \<Rightarrow> [BindTable t (tableType t) ports])"

definition acl_stale :: "rules \<Rightarrow> rules \<Rightarrow> string list" where
  "acl_stale rs have = filter (\<lambda>r. map_of rs r = None) (byPriority have)"

definition acl_write :: "string \<Rightarrow> rules \<Rightarrow> rules \<Rightarrow> string \<Rightarrow> acl_op list" where
  "acl_write t rs have r = (case map_of have r of
     None \<Rightarrow> [WriteRule t r (mget [] rs r)]
   | Some old \<Rightarrow> if same_fields old (mget [] rs r) then [] else [DropRule t r, WriteRule t r (mget [] rs r)])"

definition acl_fill :: "string \<Rightarrow> string list \<Rightarrow> rules \<Rightarrow> rules \<Rightarrow> acl_table option \<Rightarrow> acl_op list" where
  "acl_fill t ports rs have cur = acl_bind t ports cur @ dropRules t (acl_stale rs have)
     @ concat (map (acl_write t rs have) (byPriority rs))"

definition acl_table_ops :: "string list \<Rightarrow> sw_state \<Rightarrow> string \<Rightarrow> rules \<Rightarrow> acl_op list" where
  "acl_table_ops ports sim t rs =
     (let cur = map_of (s_acl_tables sim) t; have = rulesOf sim t
      in if acl_goes t rs cur then acl_remove t have cur @ (if rs = [] \<or> ports = [] then [] else acl_fill t ports rs [] None)
         else if ports = [] then [] else acl_fill t ports rs have cur)"

section \<open>The apply\<close>

text \<open>A table is counted when something is written for it.\<close>

fun acl_tables :: "string list \<Rightarrow> acl_want \<Rightarrow> string list \<Rightarrow> sw_state \<Rightarrow> acl_op list \<times> nat \<times> sw_state" where
  "acl_tables ports want [] sim = ([], 0, sim)"
| "acl_tables ports want (t # ts) sim =
     (let ops = acl_table_ops ports sim t (mget [] want t)
      in case acl_tables ports want ts (fold acl_eff ops sim) of
           (rest, n, out) \<Rightarrow> (ops @ rest, (if ops = [] then n else n + 1), out))"

definition acl_plan :: "acl_want \<Rightarrow> sw_state \<Rightarrow> acl_op list \<times> nat \<times> sw_state" where
  "acl_plan want st =
     (if want = [] \<or> \<not> s_acl_known st then ([], 0, st) else acl_tables (aclPorts st) want (sorted_keys want) st)"

record acl_col =
  ac_state :: "sw_state option"
  ac_want :: acl_want
  ac_written :: bool

text \<open>
  The batch runs on the switch: an error, or none; meanwhile a collect may have stored a fresh state.
\<close>

type_synonym batch_run = "string list \<Rightarrow> string option \<times> sw_state option"

definition acl_cmds :: "acl_op list \<Rightarrow> string list" where
  "acl_cmds ops = map acl_cmd ops @ [''sudo config save -y'']"

definition applyACL :: "batch_run \<Rightarrow> 'a acl_col_scheme \<Rightarrow> (string + nat) \<times> 'a acl_col_scheme" where
  "applyACL run c = (case ac_state c of None \<Rightarrow> (Inr 0, c) | Some st \<Rightarrow>
     (case acl_plan (ac_want c) st of (ops, n, sim) \<Rightarrow>
       if ops = [] then (Inr 0, c)
       else (case run (acl_cmds ops) of
           (Some e, fresh) \<Rightarrow> (Inl (''sonic apply acl: '' @ e), c\<lparr>ac_state := (if fresh = None then Some st else fresh)\<rparr>)
         | (None, fresh) \<Rightarrow> (Inr n, c\<lparr>ac_state := (if fresh = None then Some sim else fresh), ac_written := True\<rparr>))))"

end
