(* ===== verification/Sonic_Cage.thy ===== *)
theory Sonic_Cage
  imports Sonic_State
begin

text \<open>
  A cage of the SONiC switch: its breakout modes and the ports they make (\<^verbatim>\<open>breakout.go\<close>), what a
  module runs and the FEC it calls for (\<^verbatim>\<open>optic.go\<close>), storm control in kbit/s (\<^verbatim>\<open>storm.go\<close>).
\<close>

section \<open>Breakout modes\<close>

definition cageIndex :: "platform_port \<Rightarrow> int" where
  "cageIndex pp = sonic_atoi (hd (split_on (CHR '','') (pp_index pp)))"

definition cage_lanes :: "platform_port \<Rightarrow> string list" where
  "cage_lanes pp = filter (\<lambda>l. l \<noteq> []) (map trim_space (split_on (CHR '','') (pp_lanes pp)))"

definition cage_indexes :: "platform_port \<Rightarrow> string list" where
  "cage_indexes pp = map trim_space (split_on (CHR '','') (pp_index pp))"

record brk_mode =
  bm_name :: string
  bm_ports :: int
  bm_def :: int
  bm_speeds :: "int list"
  bm_assigned :: int

text \<open>
  The pattern \<^verbatim>\<open>^(\d{1,6})x(\d{1,6}G?)(\[([0-9G,]*)\])?(\((\d{1,6})\))?$\<close>, read from the left: after a run of
  digits only one continuation can match.
\<close>

definition take_digits :: "string \<Rightarrow> (string \<times> string) option" where
  "take_digits s = (let ds = takeWhile is_digit s
     in if ds = [] \<or> 6 < length ds then None else Some (ds, drop (length ds) s))"

definition mode_ports :: "string \<Rightarrow> (string \<times> string) option" where
  "mode_ports s = (case take_digits s of
     Some (ds, c # rest) \<Rightarrow> if c = CHR ''x'' then Some (ds, rest) else None
   | _ \<Rightarrow> None)"

definition mode_speed :: "string \<Rightarrow> (string \<times> string) option" where
  "mode_speed s = (case take_digits s of
     None \<Rightarrow> None
   | Some (ds, c # rest) \<Rightarrow> if c = CHR ''G'' then Some (ds @ ''G'', rest) else Some (ds, c # rest)
   | Some (ds, []) \<Rightarrow> Some (ds, []))"

definition is_alt :: "char \<Rightarrow> bool" where
  "is_alt c \<longleftrightarrow> is_digit c \<or> c = CHR ''G'' \<or> c = CHR '',''"

definition mode_alts :: "string \<Rightarrow> (string \<times> string) option" where
  "mode_alts s = (case s of
     [] \<Rightarrow> Some ([], [])
   | c # t \<Rightarrow> if c \<noteq> CHR ''['' then Some ([], s)
       else (let a = takeWhile is_alt t in case drop (length a) t of
           [] \<Rightarrow> None | e # rest \<Rightarrow> if e = CHR '']'' then Some (a, rest) else None))"

definition mode_assigned :: "string \<Rightarrow> string option" where
  "mode_assigned s = (case s of
     [] \<Rightarrow> Some []
   | c # t \<Rightarrow> if c \<noteq> CHR ''('' then None
       else (case take_digits t of Some (ds, [e]) \<Rightarrow> if e = CHR '')'' then Some ds else None | _ \<Rightarrow> None))"

definition mode_match :: "string \<Rightarrow> (string \<times> string \<times> string \<times> string) option" where
  "mode_match s = (case mode_ports s of None \<Rightarrow> None | Some (m1, r1) \<Rightarrow>
     (case mode_speed r1 of None \<Rightarrow> None | Some (m2, r2) \<Rightarrow>
     (case mode_alts r2 of None \<Rightarrow> None | Some (m4, r3) \<Rightarrow>
     (case mode_assigned r3 of None \<Rightarrow> None | Some m6 \<Rightarrow> Some (m1, m2, m4, m6)))))"

definition speed_of :: "string \<Rightarrow> int" where
  "speed_of s = (let t = trim_space s in case strip_suffix ''G'' t of
     Some ds \<Rightarrow> sonic_atoi ds * 1000 | None \<Rightarrow> sonic_atoi t)"

definition add_speed :: "string \<Rightarrow> int list \<Rightarrow> int list" where
  "add_speed s speeds = (let v = speed_of s in if 0 < v \<and> v \<notin> set speeds then speeds @ [v] else speeds)"

definition parseMode :: "string \<Rightarrow> brk_mode option" where
  "parseMode name = (case mode_match (trim_space name) of None \<Rightarrow> None
   | Some (m1, m2, m4, m6) \<Rightarrow>
       if sonic_atoi m1 \<le> 0 \<or> speed_of m2 \<le> 0 then None
       else Some \<lparr>bm_name = name, bm_ports = sonic_atoi m1, bm_def = speed_of m2,
         bm_speeds = fold add_speed (split_on (CHR '','') m4) [speed_of m2], bm_assigned = sonic_atoi m6\<rparr>)"

definition cage_modes :: "platform_port \<Rightarrow> brk_mode list" where
  "cage_modes pp = sort_key (\<lambda>m. (bm_ports m, bm_name m)) (List.map_filter parseMode (map fst (pp_modes pp)))"

definition mergeSpeeds :: "int list \<Rightarrow> int list \<Rightarrow> int list" where
  "mergeSpeeds a b = sort (remdups (a @ b))"

definition cage_speeds :: "platform_port \<Rightarrow> int list" where
  "cage_speeds pp = fold (\<lambda>m out. mergeSpeeds out (bm_speeds m)) (cage_modes pp) []"

section \<open>The ports of a mode\<close>

text \<open>\<open>DividesByZero\<close>: the mode's rate is divided by the lanes of a port, and there are none; Go panics.\<close>

datatype child_err = LanesDoNotFit string nat | FewAliases string nat int | DividesByZero

record brk_port =
  ch_name :: string
  ch_fields :: fields

definition child_at :: "platform_port \<Rightarrow> string list \<Rightarrow> int \<Rightarrow> brk_mode \<Rightarrow> nat \<Rightarrow> nat \<Rightarrow> brk_port" where
  "child_at pp aliases base m per i =
     (let lane = i * per; idx = cage_indexes pp
      in \<lparr>ch_name = ''Ethernet'' @ itoa (base + int lane),
          ch_fields = [(''alias'', aliases ! i), (''lanes'', join '','' (take per (drop lane (cage_lanes pp)))),
            (''speed'', itoa (bm_def m)), (''index'', idx ! min lane (length idx - 1)),
            (''subport'', if bm_ports m = 1 then ''0'' else itoa (int i + 1))]
            @ (if 50000 \<le> go_quot (bm_def m) (int per) then [(''fec'', ''rs'')] else [])\<rparr>)"

definition mode_lanes :: "platform_port \<Rightarrow> brk_mode \<Rightarrow> int" where
  "mode_lanes pp m = (if bm_assigned m = 0 then int (length (cage_lanes pp)) else bm_assigned m)"

definition children :: "platform_port \<Rightarrow> string \<Rightarrow> brk_mode \<Rightarrow> child_err + brk_port list" where
  "children pp parent m =
     (let lanes = cage_lanes pp; assigned = mode_lanes pp m;
          aliases = mget [] (pp_modes pp) (bm_name m)
      in if int (length lanes) < assigned \<or> bm_ports m = 0 \<or> go_rem assigned (bm_ports m) \<noteq> 0
         then Inl (LanesDoNotFit (bm_name m) (length lanes))
         else if int (length aliases) < bm_ports m then Inl (FewAliases (bm_name m) (length aliases) (bm_ports m))
         else if 0 < bm_ports m \<and> go_quot assigned (bm_ports m) = 0 then Inl DividesByZero
         else Inr (map (child_at pp aliases (ifNum parent) m (nat (go_quot assigned (bm_ports m)))) [0..<nat (bm_ports m)]))"

definition breakoutCommand :: "string \<Rightarrow> string \<Rightarrow> string" where
  "breakoutCommand parent mode = ''config interface breakout -f -y '' @ parent @ '' '' @ ShellQuote mode @ '' </dev/null''"

section \<open>The state's cages\<close>

definition platformCage :: "sw_state \<Rightarrow> int \<Rightarrow> (string \<times> platform_port) option" where
  "platformCage s idx = find (\<lambda>(name, pp). cageIndex pp = idx) (s_platform s)"

definition cagePorts :: "sw_state \<Rightarrow> int \<Rightarrow> string list" where
  "cagePorts s idx = sort_key ifNum (map fst (filter (\<lambda>(name, f). sonic_atoi (mget [] f ''index'') = idx) (s_port s)))"

definition drop_port :: "string \<Rightarrow> sw_state \<Rightarrow> sw_state" where
  "drop_port n s = s\<lparr>s_port := AList.delete n (s_port s), s_members := AList.delete n (s_members s),
     s_storm := AList.delete n (s_storm s), s_stp := AList.delete n (s_stp s),
     s_lags := map (\<lambda>(pc, ms). (pc, removeAll n ms)) (s_lags s)\<rparr>"

definition put_child :: "brk_port \<Rightarrow> sw_state \<Rightarrow> sw_state" where
  "put_child c s = s\<lparr>s_port := AList.update (ch_name c) (ch_fields c) (s_port s)\<rparr>"

definition applyBreakout :: "string \<Rightarrow> int \<Rightarrow> brk_port list \<Rightarrow> string \<Rightarrow> sw_state \<Rightarrow> sw_state" where
  "applyBreakout parent idx chs mode s =
     (let old = cagePorts s idx;
          s1 = s\<lparr>s_fecs := filter (\<lambda>(n, f). n \<notin> set old \<and> n \<notin> ch_name ` set chs) (s_fecs s)\<rparr>;
          s2 = fold put_child chs (fold drop_port old s1)
      in s2\<lparr>s_brkout := AList.update parent mode (s_brkout s2)\<rparr>)"

section \<open>Modules\<close>

record lane_cfg =
  lc_ports :: int
  lc_speed :: int

abbreviation cfg :: "int \<Rightarrow> int \<Rightarrow> lane_cfg" where
  "cfg p s \<equiv> \<lparr>lc_ports = p, lc_speed = s\<rparr>"

definition m_sr4 :: string where "m_sr4 = ''100GBASE-SR4 or 25GBASE-SR''"
definition m_cr4 :: string where "m_cr4 = ''100GBASE-CR4, 25GBASE-CR CA-25G-L or 50GBASE-CR2 with RS''"
definition m_aoc :: string where "m_aoc = ''100G AOC (Active Optical Cable) or 25GAUI C2M AOC''"
definition m_acc :: string where "m_acc = ''100G ACC (Active Copper Cable) or 25GAUI C2M ACC''"
definition m_lr4 :: string where "m_lr4 = ''100GBASE-LR4 or 25GBASE-LR''"
definition m_er4 :: string where "m_er4 = ''100GBASE-ER4 or 25GBASE-ER''"
definition m_aoc12 :: string where "m_aoc12 = ''100G AOC or 25GAUI C2M AOC''"
definition m_acc12 :: string where "m_acc12 = ''100G ACC or 25GAUI C2M ACC''"
definition m_cr_s :: string where "m_cr_s = ''25GBASE-CR CA-25G-S or 50GBASE-CR2 with BASE-R''"
definition m_cr_n :: string where "m_cr_n = ''25GBASE-CR CA-25G-N or 50GBASE-CR2 with no FEC''"

definition moduleFEC :: "string \<Rightarrow> int \<Rightarrow> fec option" where
  "moduleFEC name speed =
     (if speed = 40000 \<or> speed = 10000 then (if name \<noteq> [] then Some FECDisabled else None)
      else if speed = 100000 then
        (if name \<in> {''100G CWDM4'', m_sr4, ''100G PSM4 Parallel SMF'', m_cr4, m_aoc, m_acc, ''100G SWDM4'', ''100G PAM4 BiDi''} then Some FECRS
         else if name \<in> {m_lr4, m_er4, m_aoc12, m_acc12} then Some FECDisabled else None)
      else if speed = 25000 then
        (if name \<in> {m_sr4, m_cr4, m_aoc, m_acc} then Some FECRS
         else if name = m_cr_s then Some FECFC
         else if name \<in> {m_cr_n, m_lr4, m_er4, m_aoc12, m_acc12} then Some FECDisabled else None)
      else if speed = 50000 then
        (if name = m_cr4 then Some FECRS else if name = m_cr_s then Some FECFC
         else if name = m_cr_n then Some FECDisabled else None)
      else None)"

definition moduleRuns :: "string \<Rightarrow> lane_cfg list option" where
  "moduleRuns name =
     (if name \<in> {''100G CWDM4'', m_lr4, m_er4, ''100G SWDM4'', ''100G PAM4 BiDi'', ''100G CLR4'', ''100GBASE-DR'',
        ''100G-FR or 100GBASE-FR1'', ''100G-LR or 100GBASE-LR1''} then Some [cfg 1 100000]
      else if name \<in> {m_sr4, ''100G PSM4 Parallel SMF'', m_aoc, m_acc, m_aoc12, m_acc12} then Some [cfg 1 100000, cfg 4 25000]
      else if name = m_cr4 then Some [cfg 1 100000, cfg 4 25000, cfg 2 50000]
      else if name \<in> {m_cr_s, m_cr_n} then Some [cfg 4 25000, cfg 2 50000]
      else if name \<in> {''40GBASE-LR4'', ''40GBASE-ER4'', ''40G SWDM4''} then Some [cfg 1 40000]
      else if name \<in> {''40GBASE-SR4'', ''40GBASE-CR4'', ''40G Active Cable (XLPPI)'', ''40G PSM4 Parallel SMF''}
        then Some [cfg 1 40000, cfg 4 10000]
      else if name = ''4 x 10GBASE-SR'' then Some [cfg 4 10000]
      else None)"

definition fecKeyword :: "fec \<Rightarrow> string" where
  "fecKeyword f = (case f of FECRS \<Rightarrow> ''rs'' | FECFC \<Rightarrow> ''fc'' | FECDisabled \<Rightarrow> ''none'' | FECUnknown \<Rightarrow> [])"

definition isCopper :: "media \<Rightarrow> bool" where
  "isCopper m \<longleftrightarrow> m \<in> {MediaCopper1G, MediaCopper2G5, MediaCopper10G}"

section \<open>Storm control\<close>

definition stormTypes :: "string list" where
  "stormTypes = [''broadcast'', ''unknown-multicast'', ''unknown-unicast'']"

definition go_round :: "real \<Rightarrow> int" where
  "go_round x = (if x < 0 then - \<lfloor>1 / 2 - x\<rfloor> else \<lfloor>x + 1 / 2\<rfloor>)"

definition pctToKbps :: "real \<Rightarrow> int \<Rightarrow> int" where
  "pctToKbps pct speed = go_round (pct / 100 * real_of_int speed * 1000)"

definition storm_pct :: "storm_spec \<Rightarrow> string \<Rightarrow> real option" where
  "storm_pct sp t = (if t = ''broadcast'' then bcast_pct sp else if t = ''unknown-multicast'' then mcast_pct sp
     else if t = ''unknown-unicast'' then ucast_pct sp else None)"

definition stormWant :: "storm_spec option \<Rightarrow> int \<Rightarrow> string \<Rightarrow> int option" where
  "stormWant spec speed t = (case spec of None \<Rightarrow> None
     | Some sp \<Rightarrow> if speed \<le> 0 then None else map_option (\<lambda>p. pctToKbps p speed) (storm_pct sp t))"

end
