(* ===== verification/Sonic_Plan.thy ===== *)
theory Sonic_Plan
  imports Sonic_Acl Sonic_Cage
begin

text \<open>
  \<^verbatim>\<open>internal/drivers/sonic/control.go\<close>, the plan of a port push: what has to change on the switch,
  diffed against a copy of CONFIG_DB that each planned write is applied to. The effect closure of a
  write is a value of \<open>sw_eff\<close>, run by \<open>sw_apply\<close>; \<open>pl.add\<close> and \<open>pl.addOwn\<close> are \<open>pl_write\<close>.
\<close>

section \<open>Effects\<close>

datatype sw_eff =
    NoEffect
  | EField string string string
  | EVlanMTU int string
  | ENetMTU string int
  | EMirrorGone string
  | EMirror string string string
  | ELagLeave string string
  | ELagJoin string string
  | ELagNew string
  | ELagGone string
  | ELagMTU string string
  | ELagLACP string
  | EUntagged string int
  | ETagged string "int list"
  | EUnmember string "int list"
  | EStaticGone string
  | EStorm string string int
  | EStormGone string string
  | ESTP string string string
  | EMgmtPort
  | EBreakout string int "brk_port list" string
  | EAcl acl_op

definition defaultMTU :: int where "defaultMTU = 9100"

definition lacpWanted :: "string \<times> string" where "lacpWanted = (''true'', ''1'')"

definition lag_members :: "sw_state \<Rightarrow> string \<Rightarrow> string list" where
  "lag_members s pc = mget [] (s_lags s) pc"

definition set_lag :: "string \<Rightarrow> (string list \<Rightarrow> string list) \<Rightarrow> sw_state \<Rightarrow> sw_state" where
  "set_lag pc f s = s\<lparr>s_lags := AList.update pc (f (lag_members s pc)) (s_lags s)\<rparr>"

fun sw_apply :: "sw_eff \<Rightarrow> sw_state \<Rightarrow> sw_state" where
  "sw_apply NoEffect s = s"
| "sw_apply (EField lane k v) s = setField lane k v s"
| "sw_apply (EVlanMTU i m) s = s\<lparr>s_vlan_mtu := AList.update i m (s_vlan_mtu s)\<rparr>"
| "sw_apply (ENetMTU dev m) s = s\<lparr>s_net_mtu := AList.update dev m (s_net_mtu s)\<rparr>"
| "sw_apply (EMirrorGone n) s = s\<lparr>s_mirrors := AList.delete n (s_mirrors s)\<rparr>"
| "sw_apply (EMirror n dst src) s = s\<lparr>s_mirrors := AList.update n
     [(''type'', ''SPAN''), (''dst_port'', dst), (''src_port'', src), (''direction'', ''BOTH'')] (s_mirrors s)\<rparr>"
| "sw_apply (ELagLeave pc lane) s = set_lag pc (removeAll lane) s"
| "sw_apply (ELagJoin pc lane) s = set_lag pc (\<lambda>ms. if lane \<in> set ms then ms else ms @ [lane]) s"
| "sw_apply (ELagNew pc) s = s\<lparr>s_lags := AList.update pc [] (s_lags s),
     s_lag_mtu := AList.update pc (itoa defaultMTU) (s_lag_mtu s), s_lag_lacp := AList.update pc lacpWanted (s_lag_lacp s)\<rparr>"
| "sw_apply (ELagGone pc) s = s\<lparr>s_lags := AList.delete pc (s_lags s), s_members := AList.delete pc (s_members s),
     s_lag_mtu := AList.delete pc (s_lag_mtu s), s_lag_lacp := AList.delete pc (s_lag_lacp s)\<rparr>"
| "sw_apply (ELagMTU pc m) s = s\<lparr>s_lag_mtu := AList.update pc m (s_lag_mtu s)\<rparr>"
| "sw_apply (ELagLACP pc) s = s\<lparr>s_lag_lacp := AList.update pc lacpWanted (s_lag_lacp s)\<rparr>"
| "sw_apply (EUntagged lane i) s = setMember lane i False s"
| "sw_apply (ETagged lane ids) s = fold (\<lambda>i. setMember lane i True) ids s"
| "sw_apply (EUnmember lane ids) s = fold (delMember lane) ids s"
| "sw_apply (EStaticGone k) s = s\<lparr>s_l2mc := AList.delete k (s_l2mc s)\<rparr>"
| "sw_apply (EStorm lane t v) s = s\<lparr>s_storm := AList.update lane (AList.update t v (mget [] (s_storm s) lane)) (s_storm s)\<rparr>"
| "sw_apply (EStormGone lane t) s = s\<lparr>s_storm := AList.update lane (AList.delete t (mget [] (s_storm s) lane)) (s_storm s)\<rparr>"
| "sw_apply (ESTP lane k v) s = setSTP lane k v s"
| "sw_apply EMgmtPort s = s\<lparr>s_mgmt_port_missing := False\<rparr>"
| "sw_apply (EBreakout parent idx chs mode) s = applyBreakout parent idx chs mode s"
| "sw_apply (EAcl a) s = acl_eff a s"

section \<open>The plan\<close>

record sonic_port = dm_port +
  sp_caps :: "int list"
  sp_optic :: "string option"
  sp_mtu :: int

record sw_op =
  op_cmd :: string
  op_idx :: int
  op_eff :: sw_eff

datatype cage_held = InAggregate | IsMirrorDestination | IsMirrorSource

datatype plan_note =
    NativeCollision int int
  | TaggedDefault int int
  | NoMirrorSource int int
  | MirrorUnsupported int int
  | NoSuchVLAN int int
  | FECRefused int fec string
  | NoModuleFEC int string int string
  | ModuleFECRefused int string fec string
  | NeedsBreakout int int bool
  | SpeedNotListed int int "int list"
  | UnknownModule int string
  | ModuleCannotRun int string "lane_cfg list"
  | NoMode int string string
  | NoModeSpeed int int "int list"
  | CageHeld int int string cage_held
  | EthZeroNoGateway int int string "string list"
  | NTPSourceVLAN int int string string
  | ModeRefused int string string child_err
  | MgmtRowAdded int
  | AclNotOurs string string string
  | AclOnlyJoining string

record plan =
  pl_sim :: sw_state
  pl_ports :: "sonic_port alist"
  pl_native :: int
  pl_site :: "int list"
  pl_ops :: "sw_op list"
  pl_changed :: "int list"
  pl_own :: "int list"
  pl_only :: bool
  pl_notes :: "plan_note list"

definition pl_write :: "bool \<Rightarrow> int \<Rightarrow> string \<Rightarrow> sw_eff \<Rightarrow> plan \<Rightarrow> plan" where
  "pl_write own idx cmd e pl = pl\<lparr>
     pl_ops := pl_ops pl @ [\<lparr>op_cmd = ''sudo '' @ cmd, op_idx = idx, op_eff = e\<rparr>],
     pl_sim := sw_apply e (pl_sim pl),
     pl_changed := (if \<not> own \<and> 0 < idx \<and> idx \<notin> set (pl_changed pl) then pl_changed pl @ [idx] else pl_changed pl),
     pl_own := (if own \<and> idx \<notin> set (pl_own pl) then pl_own pl @ [idx] else pl_own pl)\<rparr>"

abbreviation pl_add :: "int \<Rightarrow> string \<Rightarrow> sw_eff \<Rightarrow> plan \<Rightarrow> plan" where
  "pl_add \<equiv> pl_write False"

definition pl_note :: "plan_note \<Rightarrow> plan \<Rightarrow> plan" where
  "pl_note n pl = pl\<lparr>pl_notes := pl_notes pl @ [n]\<rparr>"

definition pcName :: "int \<Rightarrow> string" where
  "pcName lag = ''PortChannel'' @ itoa lag"

definition lanesOf :: "sonic_port \<Rightarrow> string list" where
  "lanesOf p = (if po_interfaces p \<noteq> [] then po_interfaces p else [po_ifname p])"

text \<open>The zero port, what Go reads for an index the switch does not have.\<close>

definition no_port :: sonic_port where
  "no_port = \<lparr>po_index = 0, po_ifname = [], po_interfaces = [], po_description = [], po_media = MediaUnknown, po_lanes = 0,
     po_enabled = False, po_fault = [], po_up = False, po_neighbor = None, po_admin_speed = 0, po_lanes_diverge = False,
     po_vlan = \<lparr>pv_mode = [], pv_native = 0, pv_all = False, pv_allowed = []\<rparr>, po_lag = [], po_lag_id = 0, po_lacp = None,
     po_mirror_from = 0, po_fec_config = FECUnknown, po_bpdu_guard = False, po_stp_edge = False, po_storm = None, po_macs = [],
     sp_caps = [], sp_optic = None, sp_mtu = 0\<rparr>"

definition port_of :: "plan \<Rightarrow> int \<Rightarrow> sonic_port" where
  "port_of pl idx = mget no_port (pl_ports pl) idx"

definition lanes_at :: "plan \<Rightarrow> int \<Rightarrow> string list" where
  "lanes_at pl idx = lanesOf (port_of pl idx)"

definition joinInts :: "int list \<Rightarrow> string" where
  "joinInts ids = join '','' (map itoa ids)"

section \<open>VLANs\<close>

definition sonicID :: "plan \<Rightarrow> int \<Rightarrow> int" where
  "sonicID pl i = (if i = 1 then pl_native pl else i)"

definition collides :: "plan \<Rightarrow> port_desired \<Rightarrow> int" where
  "collides pl d = (if pd_vlan_set d \<and> (pd_native d = pl_native pl \<or> pl_native pl \<in> set (pd_tagged d)) then pl_native pl else 0)"

definition wanted_untagged :: "plan \<Rightarrow> port_desired \<Rightarrow> int" where
  "wanted_untagged pl d = (if 0 < pd_native d then sonicID pl (pd_native d) else 0)"

definition wanted_tagged :: "plan \<Rightarrow> port_desired \<Rightarrow> int list" where
  "wanted_tagged pl d =
     (let u = wanted_untagged pl d
      in filter (\<lambda>i. \<not> (i = u \<or> i \<le> 1 \<or> 4094 < i \<or> pd_tagged_all d \<and> i = pl_native pl))
           (if pd_tagged_all d then pl_site pl else map (sonicID pl) (pd_tagged d)))"

definition wanted_all :: "plan \<Rightarrow> port_desired \<Rightarrow> bool alist" where
  "wanted_all pl d = fold (\<lambda>i. AList.update i True) (wanted_tagged pl d)
     (if 0 < pd_native d then [(wanted_untagged pl d, False)] else [])"

definition vlans_named :: "port_desired \<Rightarrow> bool" where
  "vlans_named d \<longleftrightarrow> pd_vlan_set d \<and> \<not> (pd_native d = 0 \<and> \<not> pd_tagged_all d \<and> pd_tagged d = [])"

text \<open>The membership wanted, and a note for each VLAN the switch does not carry.\<close>

definition wantVLANs :: "port_desired \<Rightarrow> plan \<Rightarrow> bool alist option" where
  "wantVLANs d pl = (if \<not> vlans_named d then None
     else Some (filter (\<lambda>(i, t). i \<in> set (s_vlans (pl_sim pl))) (wanted_all pl d)))"

definition note_missing :: "int \<Rightarrow> port_desired \<Rightarrow> plan \<Rightarrow> plan" where
  "note_missing idx d pl = (if \<not> vlans_named d then pl
     else fold (\<lambda>i. pl_note (NoSuchVLAN idx i)) (filter (\<lambda>i. i \<notin> set (s_vlans (pl_sim pl))) (map fst (wanted_all pl d))) pl)"

definition staticsOf :: "sw_state \<Rightarrow> string \<Rightarrow> int \<Rightarrow> string list" where
  "staticsOf s iface i = sort (filter (\<lambda>k. case strip_prefix (''L2MC_STATIC_MEMBER|Vlan'' @ itoa i @ ''|'') k of
     None \<Rightarrow> False | Some rest \<Rightarrow> strip_suffix (''|'' @ iface) rest \<noteq> None) (map fst (s_l2mc s)))"

text \<open>The form of a membership command: the exceptions when they leave exactly the wanted VLANs.\<close>

definition vm_except :: "plan \<Rightarrow> int list \<Rightarrow> int list" where
  "vm_except pl ids = sort (remdups (filter (\<lambda>i. i \<notin> set ids) (s_vlans (pl_sim pl))))"

definition vm_except_ok :: "plan \<Rightarrow> int list \<Rightarrow> int \<Rightarrow> int \<Rightarrow> bool" where
  "vm_except_ok pl ids untagged also \<longleftrightarrow> 1 < length ids \<and> pl_native pl \<in> set (vm_except pl ids)
     \<and> list_all (\<lambda>i. i \<in> {pl_native pl, untagged, also}) (vm_except pl ids)"

definition vm_form :: "plan \<Rightarrow> int list \<Rightarrow> int \<Rightarrow> int \<Rightarrow> string" where
  "vm_form pl ids untagged also =
     (if vm_except_ok pl ids untagged also then ''-e -m '' @ joinInts (vm_except pl ids)
      else if 1 < length ids then ''-m '' @ joinInts ids else itoa (hd ids))"

definition drop_statics :: "int \<Rightarrow> string \<Rightarrow> int list \<Rightarrow> plan \<Rightarrow> plan" where
  "drop_statics idx iface ids = fold (\<lambda>i pl. fold (\<lambda>k. pl_add idx (''sonic-db-cli CONFIG_DB del '' @ ShellQuote k) (EStaticGone k))
     (staticsOf (pl_sim pl) iface i) pl) ids"

definition vlanMembers :: "int \<Rightarrow> string \<Rightarrow> bool \<Rightarrow> int list \<Rightarrow> int \<Rightarrow> int \<Rightarrow> plan \<Rightarrow> plan" where
  "vlanMembers idx iface add ids untagged also pl =
     (if ids = [] then pl
      else (let form = vm_form pl ids untagged also;
                pl1 = (if add then pl else drop_statics idx iface ids pl)
        in pl_add idx (''config vlan member '' @ (if add then ''add '' else ''del '') @ form @ '' '' @ iface)
             (if add then ETagged iface ids else EUnmember iface ids) pl1))"

definition stripVLANs :: "int \<Rightarrow> string \<Rightarrow> plan \<Rightarrow> plan" where
  "stripVLANs idx iface pl = vlanMembers idx iface False (memberIDs (pl_sim pl) iface) 0 0 pl"

text \<open>
  A range over a map visits each key once in any order; a port is an untagged member of at most one
  VLAN, so \<open>delUntagged\<close> and \<open>addUntagged\<close> are that one (0 for none).
\<close>

definition last_or_zero :: "int list \<Rightarrow> int" where
  "last_or_zero xs = (if xs = [] then 0 else last xs)"

definition sync_diff :: "bool \<Rightarrow> bool alist \<Rightarrow> bool alist \<Rightarrow> int list" where
  "sync_diff tagged from to = map fst (filter (\<lambda>(i, t). t = tagged \<and> map_of to i \<noteq> Some t) from)"

definition untagged_kept :: "bool alist \<Rightarrow> bool alist \<Rightarrow> int" where
  "untagged_kept have want = last_or_zero (map fst (filter (\<lambda>(i, t). \<not> t \<and> map_of want i = Some t) have))"

definition sync_to :: "int \<Rightarrow> string \<Rightarrow> bool alist \<Rightarrow> plan \<Rightarrow> plan" where
  "sync_to idx iface want pl =
     (let have = mget [] (s_members (pl_sim pl)) iface;
          delTagged = sort (sync_diff True have want); addTagged = sort (sync_diff True want have);
          delUntagged = last_or_zero (sync_diff False have want);
          addUntagged = last_or_zero (sync_diff False want have);
          after = (if addUntagged \<noteq> 0 then addUntagged else untagged_kept have want);
          pl1 = vlanMembers idx iface False delTagged after delUntagged pl;
          pl2 = (if 0 < delUntagged then vlanMembers idx iface False [delUntagged] 0 0 pl1 else pl1);
          pl3 = (if 0 < addUntagged then pl_add idx (''config vlan member add -u '' @ itoa addUntagged @ '' '' @ iface)
                   (EUntagged iface addUntagged) pl2 else pl2)
      in vlanMembers idx iface True addTagged after 0 pl3)"

definition syncVLANs :: "int \<Rightarrow> string \<Rightarrow> port_desired \<Rightarrow> plan \<Rightarrow> plan" where
  "syncVLANs idx iface d pl = (case wantVLANs d pl of None \<Rightarrow> pl
     | Some want \<Rightarrow> sync_to idx iface want (note_missing idx d pl))"

end
