(* ===== verification/Sonic_Ports.thy ===== *)
theory Sonic_Ports
  imports Sonic_Plan
begin

text \<open>
  \<^verbatim>\<open>internal/drivers/sonic/control.go\<close>, the rest of the plan: mirrors, aggregates, a port's state and
  speed (with \<^verbatim>\<open>breakout.go\<close>), the VLANs' MTU, and the operations that run it: \<open>newPlan\<close>,
  \<open>applyPorts\<close>, \<open>PlanPorts\<close>, \<open>EnsureVLANs\<close>. Also \<open>aclUnbind\<close> of \<^verbatim>\<open>acl.go\<close>.
\<close>

section \<open>Mirrors\<close>

definition mirror_src :: "sw_state \<Rightarrow> string \<Rightarrow> string" where
  "mirror_src s n = mget [] (mget [] (s_mirrors s) n) ''src_port''"

definition mirrorSource :: "plan \<Rightarrow> port_desired \<Rightarrow> string option" where
  "mirrorSource pl d = (case map_of (pl_ports pl) (pd_mirror d) of
     None \<Rightarrow> None
   | Some src \<Rightarrow> if pd_mirror d = pd_index d then None else Some (join '','' (lanesOf src)))"

definition mirror_dst :: "plan \<Rightarrow> port_desired \<Rightarrow> string" where
  "mirror_dst pl d = hd (lanes_at pl (pd_index d))"

definition mirror_removal :: "port_desired \<Rightarrow> plan \<Rightarrow> plan" where
  "mirror_removal d pl =
     (let cur = mirrorTo (pl_sim pl) (mirror_dst pl d)
      in if cur = [] then pl
         else if 0 < pd_mirror d \<and> mirrorSource pl d = Some (mirror_src (pl_sim pl) cur) then pl
         else pl_add (pd_index d) (''config mirror_session remove '' @ cur) (EMirrorGone cur) pl)"

definition mirror_put :: "port_desired \<Rightarrow> string \<Rightarrow> string \<Rightarrow> plan \<Rightarrow> plan" where
  "mirror_put d dst src pl =
     (let name = ''dui'' @ itoa (pd_index d);
          pl1 = (if map_of (s_mirrors (pl_sim pl)) name \<noteq> None
                 then pl_add (pd_index d) (''config mirror_session remove '' @ name) (EMirrorGone name) pl else pl);
          pl2 = stripVLANs (pd_index d) dst pl1
      in pl_add (pd_index d) (''config mirror_session span add '' @ name @ '' '' @ dst @ '' '' @ src @ '' both'') (EMirror name dst src) pl2)"

definition mirror_add :: "port_desired \<Rightarrow> plan \<Rightarrow> plan" where
  "mirror_add d pl =
     (if pd_mirror d = 0 then pl
      else (case mirrorSource pl d of
          None \<Rightarrow> pl_note (NoMirrorSource (pd_index d) (pd_mirror d)) pl
        | Some src \<Rightarrow>
            (let dst = mirror_dst pl d; cur = mirrorTo (pl_sim pl) dst
             in if cur \<noteq> [] \<and> mirror_src (pl_sim pl) cur = src then pl
                else if portMirrorUnsupported (pl_sim pl) then pl_note (MirrorUnsupported (pd_index d) (pd_mirror d)) pl
                else mirror_put d dst src pl)))"

section \<open>Aggregates\<close>

definition lag_leave :: "port_desired \<Rightarrow> string \<Rightarrow> plan \<Rightarrow> plan" where
  "lag_leave d lane pl =
     (let cur = lagOf (pl_sim pl) lane
      in if cur = [] \<or> 0 < pd_lag d \<and> cur = pcName (pd_lag d) then pl
         else pl_add (pd_index d) (''config portchannel member del '' @ cur @ '' '' @ lane) (ELagLeave cur lane) pl)"

definition lagLeaves :: "port_desired list \<Rightarrow> plan \<Rightarrow> plan" where
  "lagLeaves ds pl = fold (\<lambda>d pl. fold (lag_leave d) (lanes_at pl (pd_index d)) pl) ds pl"

definition setLAGMTU :: "int \<Rightarrow> string \<Rightarrow> string \<Rightarrow> plan \<Rightarrow> plan" where
  "setLAGMTU idx pc mtu pl =
     (if mget [] (s_lag_mtu (pl_sim pl)) pc = mtu then pl
      else pl_add idx (''sonic-db-cli CONFIG_DB hset '' @ ShellQuote (''PORTCHANNEL|'' @ pc) @ '' mtu '' @ mtu) (ELagMTU pc mtu) pl)"

definition setLAGLACP :: "int \<Rightarrow> string \<Rightarrow> plan \<Rightarrow> plan" where
  "setLAGLACP idx pc pl =
     (if mget ([], []) (s_lag_lacp (pl_sim pl)) pc = lacpWanted then pl
      else pl_add idx (''sonic-db-cli CONFIG_DB hset '' @ ShellQuote (''PORTCHANNEL|'' @ pc) @ '' fast_rate '' @ fst lacpWanted
        @ '' min_links '' @ snd lacpWanted) (ELagLACP pc) pl)"

definition join_fits_mtu :: "int \<Rightarrow> string \<Rightarrow> string \<Rightarrow> string \<Rightarrow> plan \<Rightarrow> plan" where
  "join_fits_mtu idx pc lane laneMTU pl =
     (let m = mget [] (s_lag_mtu (pl_sim pl)) pc
      in if laneMTU = [] \<or> laneMTU = m then pl
         else if lag_members (pl_sim pl) pc = [] then setLAGMTU idx pc laneMTU pl
         else pl_add idx (''config interface mtu '' @ lane @ '' '' @ m) (EField lane ''mtu'' m) pl)"

definition join_lane :: "int \<Rightarrow> string \<Rightarrow> string \<Rightarrow> plan \<Rightarrow> plan" where
  "join_lane idx pc lane pl =
     (if lane \<in> set (lag_members (pl_sim pl) pc) then pl
      else (let laneMTU = sw_field (pl_sim pl) lane ''mtu'';
                pl1 = (if map_of (s_lags (pl_sim pl)) pc = None
                       then pl_add idx (''config portchannel add '' @ pc @ '' --fast-rate '' @ fst lacpWanted @ '' --min-links ''
                         @ snd lacpWanted) (ELagNew pc) pl else pl);
                pl2 = join_fits_mtu idx pc lane laneMTU pl1;
                pl3 = stripVLANs idx lane pl2
            in pl_add idx (''config portchannel member add '' @ pc @ '' '' @ lane) (ELagJoin pc lane) pl3))"

definition members_of :: "port_desired list \<Rightarrow> int \<Rightarrow> port_desired list" where
  "members_of ds lag = filter (\<lambda>d. pd_lag d = lag) ds"

definition lag_ids :: "port_desired list \<Rightarrow> int list" where
  "lag_ids ds = sort (remdups (map pd_lag (filter (\<lambda>d. 0 < pd_lag d) ds)))"

definition lag_join :: "port_desired list \<Rightarrow> int \<Rightarrow> plan \<Rightarrow> plan" where
  "lag_join ds lag pl =
     (let pc = pcName lag; ms = members_of ds lag;
          pl1 = fold (\<lambda>d pl. fold (join_lane (pd_index d) pc) (lanes_at pl (pd_index d)) pl) ms pl
      in if map_of (s_lags (pl_sim pl1)) pc = None then pl1
         else syncVLANs (pd_index (hd ms)) pc (hd ms) (setLAGLACP (pd_index (hd ms)) pc pl1))"

definition joining_lanes :: "port_desired list \<Rightarrow> plan \<Rightarrow> string list" where
  "joining_lanes ds pl = concat (map (\<lambda>lag. concat (map (\<lambda>d. filter (\<lambda>lane. lane \<notin> set (lag_members (pl_sim pl) (pcName lag)))
     (lanes_at pl (pd_index d))) (members_of ds lag))) (lag_ids ds))"

text \<open>\<open>aclUnbind\<close>: the driver's tables let go of ports that are to join an aggregate.\<close>

definition acl_unbind_table :: "int \<Rightarrow> string list \<Rightarrow> string \<Rightarrow> plan \<Rightarrow> plan" where
  "acl_unbind_table idx ifaces t pl = (case map_of (s_acl_tables (pl_sim pl)) t of None \<Rightarrow> pl | Some cur \<Rightarrow>
     (let keep = filter (\<lambda>p. p \<notin> set ifaces) (at_ports cur)
      in if keep = at_ports cur then pl
         else if at_typ cur \<noteq> tableType t \<or> at_stage cur \<noteq> aclStage then pl_note (AclNotOurs t (at_typ cur) (at_stage cur)) pl
         else if keep = [] then pl_note (AclOnlyJoining t) pl
         else pl_add idx (''config acl add table '' @ t @ '' '' @ tableType t @ '' -p '' @ join '','' (sortIfnames keep) @ '' -s '' @ aclStage)
           (EAcl (BindTable t (tableType t) keep)) pl))"

definition aclUnbind :: "int \<Rightarrow> string list \<Rightarrow> plan \<Rightarrow> plan" where
  "aclUnbind idx ifaces pl = fold (acl_unbind_table idx ifaces) (sorted_keys (s_acl_tables (pl_sim pl))) pl"

text \<open>An aggregate this plan emptied, or a memberless one only the driver's own command makes.\<close>

definition emptiedHere :: "string \<Rightarrow> plan \<Rightarrow> bool" where
  "emptiedHere pc pl \<longleftrightarrow> list_ex (\<lambda>w. strip_prefix (''sudo config portchannel member del '' @ pc @ '' '') (op_cmd w) \<noteq> None) (pl_ops pl)"

definition ownOrphan :: "string \<Rightarrow> plan \<Rightarrow> bool" where
  "ownOrphan pc pl \<longleftrightarrow> lag_members (pl_sim pl) pc = [] \<and> mget ([], []) (s_lag_lacp (pl_sim pl)) pc = lacpWanted"

definition empty_lags :: "port_desired list \<Rightarrow> plan \<Rightarrow> string list" where
  "empty_lags ds pl = sort (filter (\<lambda>pc. lag_members (pl_sim pl) pc = [] \<and> pc \<notin> set (map pcName (lag_ids ds))
     \<and> (emptiedHere pc pl \<or> ownOrphan pc pl)) (map fst (s_lags (pl_sim pl))))"

definition lag_delete :: "string \<Rightarrow> plan \<Rightarrow> plan" where
  "lag_delete pc pl = pl_add 0 (''config portchannel del '' @ pc) (ELagGone pc) (stripVLANs 0 pc pl)"

definition lagJoins :: "port_desired list \<Rightarrow> plan \<Rightarrow> plan" where
  "lagJoins ds pl =
     (let joining = joining_lanes ds pl;
          pl1 = (if joining = [] then pl else aclUnbind (pd_index (hd (members_of ds (hd (lag_ids ds))))) joining pl);
          pl2 = fold (lag_join ds) (lag_ids ds) pl1
      in fold lag_delete (empty_lags ds pl2) pl2)"

definition memberMTUWritten :: "string \<Rightarrow> string \<Rightarrow> plan \<Rightarrow> bool" where
  "memberMTUWritten pc m pl \<longleftrightarrow> list_ex (\<lambda>w. strip_suffix
     (''sonic-db-cli CONFIG_DB hset '' @ ShellQuote (''PORTCHANNEL|'' @ pc) @ '' mtu '' @ m) (op_cmd w) \<noteq> None) (pl_ops pl)"

section \<open>Speed\<close>

text \<open>Each lane at a speed, autonegotiation off; the write is the controller's or the driver's own.\<close>

definition lane_speed :: "bool \<Rightarrow> int \<Rightarrow> int \<Rightarrow> string \<Rightarrow> plan \<Rightarrow> plan" where
  "lane_speed own idx want lane pl =
     (let pl1 = (if isTrue (sw_field (pl_sim pl) lane ''autoneg'')
                 then pl_write own idx (''config interface autoneg '' @ lane @ '' disabled'') (EField lane ''autoneg'' ''off'') pl else pl)
      in if sonic_atoi (sw_field (pl_sim pl1) lane ''speed'') \<noteq> want
         then pl_write own idx (''config interface speed '' @ lane @ '' '' @ itoa want) (EField lane ''speed'' (itoa want)) pl1 else pl1)"

definition lane_speeds :: "bool \<Rightarrow> int \<Rightarrow> int \<Rightarrow> string list \<Rightarrow> plan \<Rightarrow> plan" where
  "lane_speeds own idx want lanes pl = fold (lane_speed own idx want) lanes pl"

definition held_lane :: "sw_state \<Rightarrow> string \<Rightarrow> cage_held option" where
  "held_lane s lane =
     (if lagOf s lane \<noteq> [] then Some InAggregate
      else if mirrorTo s lane \<noteq> [] then Some IsMirrorDestination
      else if list_ex (\<lambda>(n, m). lane \<in> set (map trim_space (split_on (CHR '','') (mget [] m ''src_port'')))) (s_mirrors s)
        then Some IsMirrorSource else None)"

definition breakoutBlocked :: "port_desired \<Rightarrow> int \<Rightarrow> plan \<Rightarrow> cage_held option" where
  "breakoutBlocked d idx pl =
     (if 0 < pd_lag d then Some InAggregate else if 0 < pd_mirror d then Some IsMirrorDestination
      else first_some (held_lane (pl_sim pl)) (cagePorts (pl_sim pl) idx))"

definition mode_fits :: "lane_cfg \<Rightarrow> brk_mode \<Rightarrow> bool" where
  "mode_fits want m \<longleftrightarrow> lc_speed want \<in> set (bm_speeds m) \<and> (lc_ports want = 0 \<or> bm_ports m = lc_ports want)"

text \<open>The first fitting mode, unless a later one has the wanted speed as its default.\<close>

definition better_mode :: "lane_cfg \<Rightarrow> brk_mode \<Rightarrow> brk_mode option \<Rightarrow> brk_mode option" where
  "better_mode want m target =
     (if \<not> mode_fits want m then target
      else (case target of None \<Rightarrow> Some m
        | Some t \<Rightarrow> if bm_def m = lc_speed want \<and> bm_def t \<noteq> lc_speed want then Some m else target))"

definition target_mode :: "lane_cfg \<Rightarrow> platform_port \<Rightarrow> brk_mode option" where
  "target_mode want pp = fold (better_mode want) (cage_modes pp) None"

definition starts :: "string \<Rightarrow> string \<Rightarrow> bool" where
  "starts p s \<longleftrightarrow> strip_prefix p s \<noteq> None"

definition ntp_source :: "sw_state \<Rightarrow> string" where
  "ntp_source s = (case s_ntp_global s of None \<Rightarrow> [] | Some f \<Rightarrow> mget [] f ''src_intf'')"

text \<open>The new ports are read back from the copy; the cage has at least the parent's first port.\<close>

definition refold :: "int \<Rightarrow> int \<Rightarrow> plan \<Rightarrow> plan" where
  "refold idx cage pl =
     (let ifs = cagePorts (pl_sim pl) cage
      in pl\<lparr>pl_ports := AList.update idx ((port_of pl idx)\<lparr>po_interfaces := ifs, po_ifname := hd ifs\<rparr>) (pl_ports pl)\<rparr>)"

definition do_breakout :: "bool \<Rightarrow> int \<Rightarrow> int \<Rightarrow> string \<Rightarrow> string \<Rightarrow> brk_port list \<Rightarrow> plan \<Rightarrow> plan" where
  "do_breakout own idx cage parent mode chs pl =
     (let pl1 = (if s_mgmt_port_missing (pl_sim pl)
                 then pl_write own idx ''sonic-db-cli CONFIG_DB hset 'MGMT_PORT|eth0' alias eth0 admin_status up'' EMgmtPort
                   (pl_note (MgmtRowAdded idx) pl) else pl)
      in refold idx cage (pl_write own idx (breakoutCommand parent mode) (EBreakout parent cage chs mode) pl1))"

definition change_mode :: "bool \<Rightarrow> sonic_port \<Rightarrow> port_desired \<Rightarrow> lane_cfg \<Rightarrow> string \<Rightarrow> platform_port \<Rightarrow> plan \<Rightarrow> plan + plan" where
  "change_mode own p d want parent pp pl =
     (let idx = pd_index d; speed = lc_speed want in
      case target_mode want pp of
        None \<Rightarrow> Inl (pl_note (NoModeSpeed idx speed (cage_speeds pp)) pl)
      | Some m \<Rightarrow>
         (case breakoutBlocked d (po_index p) pl of Some why \<Rightarrow> Inl (pl_note (CageHeld idx speed (bm_name m) why) pl)
          | None \<Rightarrow>
            if s_mgmt_no_gateway (pl_sim pl) \<noteq> [] then Inl (pl_note (EthZeroNoGateway idx speed (bm_name m) (s_mgmt_no_gateway (pl_sim pl))) pl)
            else if starts ''Vlan'' (ntp_source (pl_sim pl)) then Inl (pl_note (NTPSourceVLAN idx speed (bm_name m) (ntp_source (pl_sim pl))) pl)
            else (case children pp parent m of
                Inl e \<Rightarrow> Inl (pl_note (ModeRefused idx (bm_name m) parent e) pl)
              | Inr chs \<Rightarrow> Inr (do_breakout own idx (po_index p) parent (bm_name m) chs pl))))"

definition breakoutSpeed :: "bool \<Rightarrow> sonic_port \<Rightarrow> port_desired \<Rightarrow> lane_cfg \<Rightarrow> string \<Rightarrow> platform_port \<Rightarrow> plan \<Rightarrow> plan" where
  "breakoutSpeed own p d want parent pp pl =
     (let mode = mget [] (s_brkout (pl_sim pl)) parent; idx = pd_index d in
      case parseMode mode of None \<Rightarrow> pl_note (NoMode idx parent mode) pl
      | Some cur \<Rightarrow>
          (case (if mode_fits want cur then Inr pl else change_mode own p d want parent pp pl) of
             Inl held \<Rightarrow> held
           | Inr pl1 \<Rightarrow> lane_speeds own idx (lc_speed want) (lanes_at pl1 idx) pl1))"

definition cage_modes_of :: "plan \<Rightarrow> sonic_port \<Rightarrow> (string \<times> platform_port) option" where
  "cage_modes_of pl p = (case platformCage (pl_sim pl) (po_index p) of
     None \<Rightarrow> None | Some (parent, pp) \<Rightarrow> if pp_modes pp \<noteq> [] then Some (parent, pp) else None)"

definition current_cfg :: "sw_state \<Rightarrow> string list \<Rightarrow> lane_cfg" where
  "current_cfg s lanes =
     (let speeds = map (\<lambda>l. sonic_atoi (sw_field s l ''speed'')) lanes
      in cfg (int (length lanes)) (if list_all (\<lambda>v. v = hd speeds) speeds then hd speeds else -1))"

text \<open>\<open>Inr\<close>: the module decided; \<open>Inl\<close>: the cage is treated as empty.\<close>

definition moduleSpeed :: "sonic_port \<Rightarrow> port_desired \<Rightarrow> string list \<Rightarrow> plan \<Rightarrow> plan + plan" where
  "moduleSpeed p d lanes pl = (case sp_optic p of None \<Rightarrow> Inl pl | Some name \<Rightarrow>
     (case moduleRuns name of None \<Rightarrow> Inl (pl_note (UnknownModule (pd_index d) name) pl) | Some runs \<Rightarrow>
       if pl_only pl then Inr pl
       else if current_cfg (pl_sim pl) lanes \<in> set runs then Inr pl
       else (let native = hd runs in
         case cage_modes_of pl p of
           Some (parent, pp) \<Rightarrow> Inr (breakoutSpeed True p d native parent pp pl)
         | None \<Rightarrow>
             if lc_ports native \<noteq> int (length lanes) \<or> sp_caps p \<noteq> [] \<and> lc_speed native \<notin> set (sp_caps p)
             then Inr (pl_note (ModuleCannotRun (pd_index d) name runs) pl)
             else Inr (lane_speeds True (pd_index d) (lc_speed native) lanes pl))))"

definition force_speed :: "sonic_port \<Rightarrow> port_desired \<Rightarrow> int \<Rightarrow> string list \<Rightarrow> plan \<Rightarrow> plan" where
  "force_speed p d want lanes pl = (case cage_modes_of pl p of
     Some (parent, pp) \<Rightarrow> breakoutSpeed False p d (cfg 0 want) parent pp pl
   | None \<Rightarrow>
      (let split = 1 < length lanes;
           serdes = sum_list (map (\<lambda>l. laneCount (sw_field (pl_sim pl) l ''lanes'')) lanes)
       in if \<not> split \<and> 4 \<le> serdes \<and> want \<le> 25000 \<or> split \<and> 40000 \<le> want
            then pl_note (NeedsBreakout (pd_index d) want (s_platform_json (pl_sim pl))) pl
          else if sp_caps p \<noteq> [] \<and> want \<notin> set (sp_caps p)
            then pl_note (SpeedNotListed (pd_index d) want (sp_caps p)) pl
          else lane_speeds False (pd_index d) want lanes pl))"

definition autoneg_lane :: "int \<Rightarrow> string \<Rightarrow> plan \<Rightarrow> plan" where
  "autoneg_lane idx lane pl = (if isTrue (sw_field (pl_sim pl) lane ''autoneg'') then pl
     else pl_add idx (''config interface autoneg '' @ lane @ '' enabled'') (EField lane ''autoneg'' ''on'') pl)"

definition port_speed :: "sonic_port \<Rightarrow> port_desired \<Rightarrow> string list \<Rightarrow> plan \<Rightarrow> plan" where
  "port_speed p d lanes pl =
     (if pd_speed d \<noteq> 0 then force_speed p d (pd_speed d) lanes pl
      else if isCopper (po_media p) then fold (autoneg_lane (pd_index d)) lanes pl
      else (case moduleSpeed p d lanes pl of Inr decided \<Rightarrow> decided
        | Inl pl1 \<Rightarrow> if 1 < length lanes then pl1
            else (let top = fold max (sp_caps p) 0 in if top = 0 then pl1 else force_speed p d top lanes pl1)))"

section \<open>One port\<close>

fun take_runes :: "nat \<Rightarrow> string \<Rightarrow> string" where
  "take_runes n [] = []"
| "take_runes n (c # cs) =
     (if 128 \<le> char_code c \<and> char_code c < 192 then c # take_runes n cs
      else if n = 0 then [] else c # take_runes (n - 1) cs)"

definition name_char :: "char \<Rightarrow> bool" where
  "name_char c \<longleftrightarrow> 32 \<le> char_code c \<and> char_code c \<notin> {127, 39, 34, 92, 96}"

definition sonic_description :: "string \<Rightarrow> string" where
  "sonic_description s = trim_space (take_runes 64 (filter name_char s))"

definition admin_lane :: "port_desired \<Rightarrow> string \<Rightarrow> plan \<Rightarrow> plan" where
  "admin_lane d lane pl =
     (if (sw_field (pl_sim pl) lane ''admin_status'' = ''up'') = pd_enabled d then pl
      else if pd_enabled d then pl_add (pd_index d) (''config interface startup '' @ lane) (EField lane ''admin_status'' ''up'') pl
      else pl_add (pd_index d) (''config interface shutdown '' @ lane) (EField lane ''admin_status'' ''down'') pl)"

definition name_lane :: "port_desired \<Rightarrow> string \<Rightarrow> plan \<Rightarrow> plan" where
  "name_lane d lane pl =
     (let want = sonic_description (pd_description d); key = ShellQuote (''PORT|'' @ lane)
      in if want = sw_field (pl_sim pl) lane ''description'' then pl
         else if want = [] then
           pl_add (pd_index d) (''sonic-db-cli CONFIG_DB hdel '' @ key @ '' description'') (EField lane ''description'' [])
             (pl_add (pd_index d) (''sonic-db-cli CONFIG_DB hset '' @ key @ '' description '' @ [CHR 0x27, CHR 0x27]) NoEffect pl)
         else pl_add (pd_index d) (''sonic-db-cli CONFIG_DB hset '' @ key @ '' description '' @ ShellQuote want)
           (EField lane ''description'' want) pl)"

text \<open>The FEC to write, whether it is the driver's own choice, and the note of a refusal.\<close>

definition fec_supported :: "sw_state \<Rightarrow> string \<Rightarrow> fec \<Rightarrow> bool" where
  "fec_supported s lane f \<longleftrightarrow> (let sup = mget [] (s_fecs s) lane in sup = [] \<or> fecKeyword f \<in> set sup)"

definition module_fec :: "int \<Rightarrow> string \<Rightarrow> plan \<Rightarrow> plan_note option \<times> fec option" where
  "module_fec idx lane pl =
     (let s = pl_sim pl in case sp_optic (port_of pl idx) of None \<Rightarrow> (None, None) | Some name \<Rightarrow>
       if pl_only pl then (None, None)
       else (let speed = sonic_atoi (sw_field s lane ''speed'') in
         case moduleFEC name speed of None \<Rightarrow> (Some (NoModuleFEC idx name speed lane), None)
         | Some f \<Rightarrow> if fec_supported s lane f then (None, Some f) else (Some (ModuleFECRefused idx name f lane), None)))"

definition fec_choice :: "port_desired \<Rightarrow> string \<Rightarrow> plan \<Rightarrow> bool \<times> plan_note option \<times> fec option" where
  "fec_choice d lane pl = (case pd_fec d of
     None \<Rightarrow> (True, module_fec (pd_index d) lane pl)
   | Some f \<Rightarrow> if fec_supported (pl_sim pl) lane f then (False, None, Some f)
       else (False, Some (FECRefused (pd_index d) f lane), None))"

definition write_fec :: "bool \<Rightarrow> int \<Rightarrow> string \<Rightarrow> fec \<Rightarrow> plan \<Rightarrow> plan" where
  "write_fec own idx lane f pl =
     (let cur = sw_field (pl_sim pl) lane ''fec''; kw = fecKeyword f
      in if f = fecOf cur \<or> kw = [] \<or> kw = ''none'' \<and> cur = [] then pl
         else pl_write own idx (''config interface fec '' @ lane @ '' '' @ kw) (EField lane ''fec'' kw) pl)"

definition fec_lane :: "port_desired \<Rightarrow> string \<Rightarrow> plan \<Rightarrow> plan" where
  "fec_lane d lane pl = (case fec_choice d lane pl of (own, n, f) \<Rightarrow>
     (let pl1 = (case n of None \<Rightarrow> pl | Some x \<Rightarrow> pl_note x pl)
      in case f of None \<Rightarrow> pl1 | Some v \<Rightarrow> write_fec own (pd_index d) lane v pl1))"

definition member_mtu :: "int \<Rightarrow> string \<Rightarrow> int \<Rightarrow> plan \<Rightarrow> plan" where
  "member_mtu idx lane want pl = (if sonic_atoi (sw_field (pl_sim pl) lane ''mtu'') = want then pl
     else pl_add idx (''sonic-db-cli CONFIG_DB hset '' @ ShellQuote (''PORT|'' @ lane) @ '' mtu '' @ itoa want)
       (EField lane ''mtu'' (itoa want)) pl)"

definition mtu_lane :: "port_desired \<Rightarrow> string \<Rightarrow> plan \<Rightarrow> plan" where
  "mtu_lane d lane pl =
     (let want = pd_mtu d; idx = pd_index d; pc = lagOf (pl_sim pl) lane
      in if want \<le> 0 then pl
         else if pc \<noteq> [] then
           (if sonic_atoi (mget [] (s_lag_mtu (pl_sim pl)) pc) \<noteq> want then member_mtu idx lane want (setLAGMTU idx pc (itoa want) pl)
            else if memberMTUWritten pc (itoa want) pl then member_mtu idx lane want pl
            else pl)
         else if sonic_atoi (sw_field (pl_sim pl) lane ''mtu'') = want then pl
         else pl_add idx (''config interface mtu '' @ lane @ '' '' @ itoa want) (EField lane ''mtu'' (itoa want)) pl)"

definition storm_one :: "port_desired \<Rightarrow> string \<Rightarrow> int option \<Rightarrow> int option \<Rightarrow> string \<Rightarrow> plan \<Rightarrow> plan" where
  "storm_one d lane have want t pl =
     (if have = want then pl
      else (let pl1 = (if have = None then pl
                  else pl_add (pd_index d) (''config interface storm-control del '' @ lane @ '' '' @ t) (EStormGone lane t) pl)
            in case want of None \<Rightarrow> pl1 | Some v \<Rightarrow>
              pl_add (pd_index d) (''config interface storm-control add '' @ lane @ '' '' @ t @ '' '' @ itoa v) (EStorm lane t v) pl1))"

definition stormOps :: "port_desired \<Rightarrow> string \<Rightarrow> plan \<Rightarrow> plan" where
  "stormOps d lane pl =
     (let want = stormWant (pd_storm d) (sonic_atoi (sw_field (pl_sim pl) lane ''speed''))
      in fold (\<lambda>t pl. storm_one d lane (map_of (mget [] (s_storm (pl_sim pl)) lane) t) (want t) t pl) stormTypes pl)"

definition stp_edge_of :: "fields \<Rightarrow> bool" where
  "stp_edge_of f \<longleftrightarrow> isTrue (mget [] f ''portfast'') \<and> mget [] f ''enabled'' = ''false''"

definition stp_edge_ops :: "port_desired \<Rightarrow> string \<Rightarrow> plan \<Rightarrow> plan" where
  "stp_edge_ops d lane pl =
     (if pd_stp_edge d then
        pl_add (pd_index d) (''config spanning-tree interface disable '' @ lane) (ESTP lane ''enabled'' ''false'')
          (pl_add (pd_index d) (''config spanning-tree interface portfast enable '' @ lane) (ESTP lane ''portfast'' ''true'') pl)
      else
        pl_add (pd_index d) (''config spanning-tree interface enable '' @ lane) (ESTP lane ''enabled'' ''true'')
          (pl_add (pd_index d) (''config spanning-tree interface portfast disable '' @ lane) (ESTP lane ''portfast'' ''false'') pl))"

definition bpdu_ops :: "port_desired \<Rightarrow> string \<Rightarrow> plan \<Rightarrow> plan" where
  "bpdu_ops d lane pl = pl_add (pd_index d) (''config spanning-tree interface bpdu_guard '' @ (if pd_bpdu d then ''enable'' else ''disable'')
     @ '' '' @ lane) (ESTP lane ''bpdu_guard'' (if pd_bpdu d then ''true'' else ''false'')) pl"

definition stpOps :: "port_desired \<Rightarrow> string \<Rightarrow> plan \<Rightarrow> plan" where
  "stpOps d lane pl =
     (let cur = mget [] (s_stp (pl_sim pl)) lane;
          bpdu = isTrue (mget [] cur ''bpdu_guard''); edge = stp_edge_of cur
      in if \<not> s_stp_feature (pl_sim pl) then pl
         else (let pl1 = (if bpdu = pd_bpdu d then pl else bpdu_ops d lane pl)
               in if edge = pd_stp_edge d then pl1 else stp_edge_ops d lane pl1))"

definition lane_state :: "port_desired \<Rightarrow> string \<Rightarrow> plan \<Rightarrow> plan" where
  "lane_state d lane pl = stpOps d lane (stormOps d lane (mtu_lane d lane (fec_lane d lane (name_lane d lane (admin_lane d lane pl)))))"

definition portState :: "port_desired \<Rightarrow> plan \<Rightarrow> plan" where
  "portState d pl =
     (let p = port_of pl (pd_index d); pl1 = port_speed p d (lanesOf p) pl
      in fold (lane_state d) (lanes_at pl1 (pd_index d)) pl1)"

section \<open>The whole plan\<close>

definition pushed_mtu :: "port_desired list \<Rightarrow> int" where
  "pushed_mtu ds = fold (\<lambda>d want. if 0 < pd_mtu d \<and> (want = 0 \<or> pd_mtu d < want) then pd_mtu d else want) ds 0"

definition vlan_mtu_one :: "int \<Rightarrow> int \<Rightarrow> int \<Rightarrow> plan \<Rightarrow> plan" where
  "vlan_mtu_one want kmtu i pl =
     (if i \<notin> set (s_vlans (pl_sim pl)) then pl
      else (let dev = ''Vlan'' @ itoa i; cur = sonic_atoi (mget [] (s_vlan_mtu (pl_sim pl)) i);
                pl1 = (if cur \<noteq> want \<and> (cur \<noteq> 0 \<or> want \<noteq> defaultMTU)
                       then pl_add 0 (''sonic-db-cli CONFIG_DB hset '' @ ShellQuote (''VLAN|'' @ dev) @ '' mtu '' @ itoa want)
                         (EVlanMTU i (itoa want)) pl else pl);
                net = mget 0 (s_net_mtu (pl_sim pl1)) dev
            in if 0 < net \<and> net \<noteq> kmtu
               then pl_add 0 (''ip link set dev '' @ dev @ '' mtu '' @ itoa kmtu) (ENetMTU dev kmtu) pl1 else pl1))"

definition vlanMTUs :: "port_desired list \<Rightarrow> plan \<Rightarrow> plan" where
  "vlanMTUs ds pl =
     (let want = pushed_mtu ds; b = mget 0 (s_net_mtu (pl_sim pl)) ''Bridge'';
          kmtu = (if 0 < b \<and> b < want then b else want)
      in if want = 0 then pl else fold (vlan_mtu_one want kmtu) (sort (pl_native pl # pl_site pl)) pl)"

text \<open>A port the switch has and whose VLANs do not collide with the stand-in for VLAN 1.\<close>

definition admit :: "port_desired \<Rightarrow> plan \<times> port_desired list \<Rightarrow> plan \<times> port_desired list" where
  "admit d acc = (case acc of (pl, ds) \<Rightarrow>
     if map_of (pl_ports pl) (pd_index d) = None then (pl, ds)
     else if collides pl d \<noteq> 0 then (pl_note (NativeCollision (pd_index d) (collides pl d)) pl, ds)
     else if pd_vlan_set d \<and> pd_native d \<noteq> 1 \<and> 1 \<in> set (pd_tagged d)
       then (pl_note (TaggedDefault (pd_index d) (pd_native d)) pl, ds @ [d\<lparr>pd_vlan_set := False\<rparr>])
     else (pl, ds @ [d]))"

definition port_vlans :: "port_desired \<Rightarrow> plan \<Rightarrow> plan" where
  "port_vlans d pl = (if 0 < pd_lag d \<or> 0 < pd_mirror d then pl
     else fold (\<lambda>lane. syncVLANs (pd_index d) lane d) (lanes_at pl (pd_index d)) pl)"

definition plan_all :: "port_desired list \<Rightarrow> plan \<Rightarrow> plan" where
  "plan_all ds pl =
     vlanMTUs ds (fold mirror_add ds (lagJoins ds (fold port_vlans ds (fold portState ds
       (lagLeaves ds (fold mirror_removal ds pl))))))"

record sonic_col = acl_col +
  sc_ports :: "sonic_port list option"
  sc_native :: int
  sc_site :: "int list"

definition first_plan :: "'a sonic_col_scheme \<Rightarrow> sonic_port list \<Rightarrow> sw_state \<Rightarrow> bool \<Rightarrow> plan" where
  "first_plan c ports st only = \<lparr>pl_sim = st, pl_ports = fold (\<lambda>p. AList.update (po_index p) p) ports [], pl_native = sc_native c,
     pl_site = (if sc_site c = [] then sort (filter (\<lambda>i. i \<noteq> sc_native c) (remdups (s_vlans st))) else sc_site c),
     pl_ops = [], pl_changed = [], pl_own = [], pl_only = only, pl_notes = []\<rparr>"

definition newPlan :: "'a sonic_col_scheme \<Rightarrow> port_desired list \<Rightarrow> bool \<Rightarrow> plan option" where
  "newPlan c desired only = (case (sc_ports c, ac_state c) of
     (Some ports, Some st) \<Rightarrow> (case fold admit desired (first_plan c ports st only, []) of (pl, ds) \<Rightarrow> Some (plan_all ds pl))
   | _ \<Rightarrow> None)"

section \<open>The interfaces\<close>

definition batch_of :: "sw_op list \<Rightarrow> string list" where
  "batch_of ops = map op_cmd ops @ [''sudo config save -y'']"

definition ports_written :: "plan \<Rightarrow> nat" where
  "ports_written pl = length (pl_changed pl) + length (filter (\<lambda>i. i \<notin> set (pl_changed pl)) (pl_own pl))"

definition applyPorts :: "batch_run \<Rightarrow> port_desired list \<Rightarrow> 'a sonic_col_scheme \<Rightarrow> (string + nat) \<times> 'a sonic_col_scheme" where
  "applyPorts run desired c = (case newPlan c desired False of
     None \<Rightarrow> (Inl ''sonic apply: no snapshot yet'', c)
   | Some pl \<Rightarrow>
      if pl_ops pl = [] then (Inr 0, c)
      else (case run (batch_of (pl_ops pl)) of
          (Some e, fresh) \<Rightarrow> (Inl (''sonic apply ('' @ itoa (int (ports_written pl)) @ '' ports): '' @ e), if fresh = None then c else c\<lparr>ac_state := fresh\<rparr>)
        | (None, fresh) \<Rightarrow> (Inr (ports_written pl), c\<lparr>ac_state := Some (pl_sim pl)\<rparr>)))"

definition PlanPorts :: "'a sonic_col_scheme \<Rightarrow> port_desired list \<Rightarrow> int list" where
  "PlanPorts c desired = (case newPlan c desired True of None \<Rightarrow> [] | Some pl \<Rightarrow> sort (pl_changed pl))"

text \<open>\<open>EnsureVLANs\<close>: the site's VLANs and, of those, the missing ones, by the switch's ids.\<close>

definition site_ids :: "int \<Rightarrow> int list \<Rightarrow> int list" where
  "site_ids native ids = remdups (filter (\<lambda>i. 2 \<le> i \<and> i \<le> 4094) (map (\<lambda>i. if i = 1 then native else i) ids))"

definition lowest_mtu :: "sonic_port list option \<Rightarrow> int" where
  "lowest_mtu snap = (case snap of None \<Rightarrow> 0 | Some ports \<Rightarrow>
     fold (\<lambda>p m. if 0 < sp_mtu p \<and> (m = 0 \<or> sp_mtu p < m) then sp_mtu p else m) ports 0)"

definition vlan_cmds :: "int list \<Rightarrow> int \<Rightarrow> string list" where
  "vlan_cmds missing mtu =
     (if 1 < length missing then ''sudo config vlan add -m '' @ joinInts missing else ''sudo config vlan add '' @ itoa (hd missing))
     # (if 0 < mtu \<and> mtu \<noteq> defaultMTU
        then map (\<lambda>i. ''sudo sonic-db-cli CONFIG_DB hset '' @ ShellQuote (''VLAN|Vlan'' @ itoa i) @ '' mtu '' @ itoa mtu) missing else [])
     @ [''sudo config save -y'']"

definition made_vlans :: "int list \<Rightarrow> int \<Rightarrow> sw_state \<Rightarrow> sw_state" where
  "made_vlans missing mtu st = st\<lparr>s_vlans := s_vlans st @ missing,
     s_vlan_mtu := (if 0 < mtu \<and> mtu \<noteq> defaultMTU then fold (\<lambda>i. AList.update i (itoa mtu)) missing (s_vlan_mtu st) else s_vlan_mtu st)\<rparr>"

datatype vlans_err = NetworkOnNative int | NoSnapshotYet | VLANBatch string "int list"

definition EnsureVLANs :: "batch_run \<Rightarrow> int list \<Rightarrow> 'a sonic_col_scheme \<Rightarrow> (vlans_err + nat) \<times> 'a sonic_col_scheme" where
  "EnsureVLANs run ids c =
     (if sc_native c \<in> set ids then (Inl (NetworkOnNative (sc_native c)), c)
      else (case ac_state c of None \<Rightarrow> (Inl NoSnapshotYet, c) | Some st \<Rightarrow>
       (let all_ids = site_ids (sc_native c) ids;
            missing = sort (filter (\<lambda>i. i \<notin> set (s_vlans st)) all_ids);
            mtu = lowest_mtu (sc_ports c);
            c1 = c\<lparr>sc_site := sort (filter (\<lambda>i. i \<noteq> sc_native c) all_ids)\<rparr>
        in if missing = [] then (Inr 0, c1)
           else (case run (vlan_cmds missing mtu) of
               (Some e, fresh) \<Rightarrow> (Inl (VLANBatch e missing), if fresh = None then c1 else c1\<lparr>ac_state := fresh\<rparr>)
             | (None, fresh) \<Rightarrow> (Inr (length missing),
                 c1\<lparr>ac_state := (if fresh = None then Some (made_vlans missing mtu st) else fresh)\<rparr>)))))"

end
