(* ===== verification/Sonic_Acl_Props.thy ===== *)
theory Sonic_Acl_Props
  imports Sonic_Acl
begin

text \<open>
  Applying the driver's ACL tables: after the planned writes every wanted table is as the push has
  it, nothing else moved, a second apply plans nothing, and while the batch runs a rule is written
  only when every wanted rule of higher priority is in place.
\<close>

section \<open>Rules by name\<close>

abbreviation bare :: "string \<Rightarrow> bool" where
  "bare t \<equiv> CHR ''|'' \<notin> set t"

definition acl_rule :: "sw_state \<Rightarrow> string \<Rightarrow> string \<Rightarrow> fields option" where
  "acl_rule s t r = map_of (s_acl_rules s) (rule_id t r)"

lemma str_cut_rule_id [simp]: "bare t \<Longrightarrow> str_cut (CHR ''|'') (rule_id t r) = Some (t, r)"
  by (simp add: rule_id_def)

lemma rule_id_inj: "bare t \<Longrightarrow> bare t' \<Longrightarrow> rule_id t r = rule_id t' r' \<longleftrightarrow> t = t' \<and> r = r'"
  by (metis str_cut_rule_id option.inject prod.inject)

lemma rule_id_same [simp]: "rule_id t r = rule_id t r' \<longleftrightarrow> r = r'"
  by (simp add: rule_id_def)

lemma cut_is_rule_id: "str_cut (CHR ''|'') k = Some (t, r) \<Longrightarrow> k = rule_id t r"
  by (simp add: str_cut_Some_iff rule_id_def)

lemma rulesOf_lookup:
  assumes "bare t"
  shows "map_of (rulesOf s t) r = acl_rule s t r"
proof -
  have "map_of (List.map_filter (\<lambda>(k, f). case str_cut (CHR ''|'') k of
      None \<Rightarrow> None | Some (t', r) \<Rightarrow> if t' = t then Some (r, f) else None) xs) r = map_of xs (rule_id t r)" for xs :: rules
  proof (induction xs)
    case Nil show ?case by (simp add: map_filter_simps)
  next
    case (Cons x xs)
    obtain k f where x: "x = (k, f)" by fastforce
    show ?case
    proof (cases "k = rule_id t r")
      case True with Cons x assms show ?thesis by (simp add: map_filter_simps)
    next
      case False
      with Cons x show ?thesis
        by (auto simp: map_filter_simps split: option.splits prod.splits dest: cut_is_rule_id)
    qed
  qed
  then show ?thesis by (simp add: rulesOf_def acl_rule_def)
qed

lemma set_byPriority [simp]: "set (byPriority rs) = fst ` set rs"
  by (simp add: byPriority_def)

lemma byPriority_Nil [simp]: "byPriority rs = [] \<longleftrightarrow> rs = []"
  by (metis set_byPriority image_is_empty set_empty)

lemma byPriority_empty [simp]: "byPriority [] = []"
  by simp

lemma in_names_iff: "r \<in> fst ` set rs \<longleftrightarrow> map_of rs r \<noteq> None"
  by (simp add: map_of_eq_None_iff)

lemma in_rulesOf_iff: "bare t \<Longrightarrow> r \<in> fst ` set (rulesOf s t) \<longleftrightarrow> acl_rule s t r \<noteq> None"
  by (simp add: in_names_iff rulesOf_lookup)

lemma rulesOf_Nil_iff: "bare t \<Longrightarrow> rulesOf s t = [] \<longleftrightarrow> (\<forall>r. acl_rule s t r = None)"
  by (metis in_rulesOf_iff image_is_empty set_empty ex_in_conv)

section \<open>What a write touches\<close>

fun op_table :: "acl_op \<Rightarrow> string" where
  "op_table (DropRule t r) = t"
| "op_table (WriteRule t r f) = t"
| "op_table (RemoveTable t) = t"
| "op_table (BindTable t typ ports) = t"

definition tab :: "sw_state \<Rightarrow> string \<Rightarrow> acl_table option" where
  "tab s t = map_of (s_acl_tables s) t"

lemma acl_eff_rule: "acl_rule (acl_eff op s) t r = (case op of
    DropRule t' r' \<Rightarrow> if rule_id t' r' = rule_id t r then None else acl_rule s t r
  | WriteRule t' r' f \<Rightarrow> if rule_id t' r' = rule_id t r then Some f else acl_rule s t r
  | _ \<Rightarrow> acl_rule s t r)"
  by (cases op) (auto simp: acl_rule_def delete_conv')

lemma acl_eff_tab: "tab (acl_eff op s) t = (case op of
    RemoveTable t' \<Rightarrow> if t' = t then None else tab s t
  | BindTable t' typ ports \<Rightarrow> if t' = t then Some \<lparr>at_typ = typ, at_stage = aclStage, at_ports = ports\<rparr> else tab s t
  | _ \<Rightarrow> tab s t)"
  by (cases op) (auto simp: tab_def delete_conv')

lemma acl_eff_frame [simp]:
  "s_port (acl_eff op s) = s_port s" "s_lags (acl_eff op s) = s_lags s" "s_acl_known (acl_eff op s) = s_acl_known s"
  by (cases op; simp)+

declare acl_eff.simps [simp del]

lemma acl_eff_other:
  assumes "op_table op \<noteq> t" "bare (op_table op)" "bare t"
  shows "acl_rule (acl_eff op s) t r = acl_rule s t r" "tab (acl_eff op s) t = tab s t"
  using assms by (auto simp: acl_eff_rule acl_eff_tab rule_id_inj split: acl_op.splits)

lemma acl_effs_other:
  assumes "list_all (\<lambda>op. op_table op = t') ops" "t' \<noteq> t" "bare t'" "bare t"
  shows "acl_rule (fold acl_eff ops s) t r = acl_rule s t r \<and> tab (fold acl_eff ops s) t = tab s t"
  using assms by (induction ops arbitrary: s) (auto simp: acl_eff_other)

lemma acl_effs_frame [simp]:
  "s_port (fold acl_eff ops s) = s_port s" "s_lags (fold acl_eff ops s) = s_lags s"
  "s_acl_known (fold acl_eff ops s) = s_acl_known s"
  by (induction ops arbitrary: s) simp_all

lemma aclPorts_effs [simp]: "aclPorts (fold acl_eff ops s) = aclPorts s"
  by (simp add: aclPorts_def)

lemma drops_effect:
  "acl_rule (fold acl_eff (dropRules t names) s) t r = (if r \<in> set names then None else acl_rule s t r)
   \<and> tab (fold acl_eff (dropRules t names) s) = tab s"
proof -
  have "acl_rule (fold acl_eff (map (DropRule t) ns) s) t r = (if r \<in> set ns then None else acl_rule s t r)
    \<and> tab (fold acl_eff (map (DropRule t) ns) s) = tab s" for ns
    by (induction ns arbitrary: s) (auto simp: acl_eff_rule acl_eff_tab fun_eq_iff)
  from this[of "rev names"] show ?thesis by (simp add: dropRules_def)
qed

lemma write_effect:
  "acl_rule (fold acl_eff (acl_write t rs have r') s) t r =
     (if r = r' \<and> (case map_of have r' of None \<Rightarrow> True | Some old \<Rightarrow> \<not> same_fields old (mget [] rs r'))
      then Some (mget [] rs r') else acl_rule s t r)
   \<and> tab (fold acl_eff (acl_write t rs have r') s) = tab s"
  by (auto simp: acl_write_def acl_eff_rule acl_eff_tab fun_eq_iff split: option.splits)

lemma writes_effect:
  "acl_rule (fold acl_eff (concat (map (acl_write t rs have) names)) s) t r =
     (if r \<in> set names \<and> (case map_of have r of None \<Rightarrow> True | Some old \<Rightarrow> \<not> same_fields old (mget [] rs r))
      then Some (mget [] rs r) else acl_rule s t r)
   \<and> tab (fold acl_eff (concat (map (acl_write t rs have) names)) s) = tab s"
  by (induction names arbitrary: s) (auto simp: write_effect)

lemma bind_effect:
  "acl_rule (fold acl_eff (acl_bind t ports cur) s) t r = acl_rule s t r
   \<and> (tab s t = cur \<longrightarrow> (cur \<noteq> None \<longrightarrow> acl_ours t cur) \<longrightarrow> ports \<noteq> [] \<longrightarrow>
      (\<exists>c. tab (fold acl_eff (acl_bind t ports cur) s) t = Some c \<and> acl_ours t (Some c) \<and> set (at_ports c) = set ports))"
  by (auto simp: acl_bind_def acl_eff_rule acl_eff_tab acl_ours_def equalSets_def split: option.splits)

section \<open>One table\<close>

text \<open>The table as the push has it; with no port to bind to, it is only kept from being another's.\<close>

definition acl_settled :: "string list \<Rightarrow> sw_state \<Rightarrow> string \<Rightarrow> rules \<Rightarrow> bool" where
  "acl_settled ports s t rs \<longleftrightarrow>
     (if rs = [] then tab s t = None \<and> (\<forall>r. acl_rule s t r = None)
      else if ports = [] then tab s t \<noteq> None \<longrightarrow> acl_ours t (tab s t)
      else (\<exists>c. tab s t = Some c \<and> acl_ours t (Some c) \<and> set (at_ports c) = set ports)
        \<and> (\<forall>r. rel_option same_fields (acl_rule s t r) (map_of rs r)))"

lemma same_fields_refl [simp]: "same_fields f f"
  by (simp add: same_fields_iff)

lemma remove_effect:
  assumes "bare t" "cur = tab s t"
  shows "tab (fold acl_eff (acl_remove t (rulesOf s t) cur) s) t = None
    \<and> (\<forall>r. acl_rule (fold acl_eff (acl_remove t (rulesOf s t) cur) s) t r = None)"
  using assms by (auto simp: acl_remove_def drops_effect acl_eff_tab acl_eff_rule in_rulesOf_iff)

lemma fill_effect:
  assumes b: "bare t" and have_is: "\<And>r. map_of have r = acl_rule s t r" and cur: "cur = tab s t"
    and ours: "cur \<noteq> None \<longrightarrow> acl_ours t cur" and p: "ports \<noteq> []" and rs: "rs \<noteq> []"
  shows "acl_settled ports (fold acl_eff (acl_fill t ports rs have cur) s) t rs"
proof -
  let ?s1 = "fold acl_eff (acl_bind t ports cur) s"
  let ?s2 = "fold acl_eff (dropRules t (acl_stale rs have)) ?s1"
  let ?s3 = "fold acl_eff (concat (map (acl_write t rs have) (byPriority rs))) ?s2"
  have r2: "acl_rule ?s2 t r = (if map_of rs r = None then None else acl_rule s t r)" for r
    using have_is[of r]
    by (auto simp: drops_effect bind_effect acl_stale_def in_names_iff)
  have r3: "rel_option same_fields (acl_rule ?s3 t r) (map_of rs r)" for r
  proof (cases "map_of rs r")
    case None
    then have "r \<notin> set (byPriority rs)" by (simp add: in_names_iff)
    with None r2[of r] show ?thesis by (simp add: writes_effect)
  next
    case (Some f)
    then have i: "r \<in> set (byPriority rs)" "mget [] rs r = f" by (auto simp: in_names_iff mget_def)
    show ?thesis
    proof (cases "map_of have r")
      case None with i Some show ?thesis by (simp add: writes_effect)
    next
      case old: (Some old)
      then have "acl_rule s t r = Some old" by (simp flip: have_is)
      with i Some r2[of r] old show ?thesis by (simp add: writes_effect)
    qed
  qed
  obtain c where "tab ?s1 t = Some c" "acl_ours t (Some c)" "set (at_ports c) = set ports"
    using bind_effect[of t ports cur s] cur ours p by blast
  then have "tab ?s3 t = Some c" by (simp add: drops_effect writes_effect)
  with \<open>acl_ours t (Some c)\<close> \<open>set (at_ports c) = set ports\<close> r3 p rs show ?thesis
    by (auto simp: acl_settled_def acl_fill_def)
qed

lemma table_settles:
  assumes b: "bare t"
  shows "acl_settled ports (fold acl_eff (acl_table_ops ports s t rs) s) t rs"
proof -
  let ?cur = "tab s t"
  let ?s1 = "fold acl_eff (acl_remove t (rulesOf s t) ?cur) s"
  have rem: "tab ?s1 t = None" "\<And>r. acl_rule ?s1 t r = None" using remove_effect[OF b refl] by blast+
  have empty: "\<And>r. map_of [] r = acl_rule ?s1 t r" using rem by simp
  have ops: "acl_table_ops ports s t rs = (if acl_goes t rs ?cur
      then acl_remove t (rulesOf s t) ?cur @ (if rs = [] \<or> ports = [] then [] else acl_fill t ports rs [] None)
      else if ports = [] then [] else acl_fill t ports rs (rulesOf s t) ?cur)"
    by (simp add: acl_table_ops_def tab_def Let_def)
  consider (gone) "acl_goes t rs ?cur" "rs = [] \<or> ports = []" | (again) "acl_goes t rs ?cur" "rs \<noteq> []" "ports \<noteq> []"
    | (held) "\<not> acl_goes t rs ?cur" "ports = []" | (stays) "\<not> acl_goes t rs ?cur" "ports \<noteq> []" by blast
  then show ?thesis
  proof cases
    case gone with rem show ?thesis by (auto simp: ops acl_settled_def)
  next
    case again
    have "acl_settled ports (fold acl_eff (acl_fill t ports rs [] None) ?s1) t rs"
      using fill_effect[OF b empty rem(1)[symmetric] _ again(3) again(2)] by simp
    with again show ?thesis by (simp add: ops)
  next
    case held
    then have "acl_table_ops ports s t rs = []" unfolding ops by simp
    with held show ?thesis by (auto simp: acl_settled_def acl_goes_def)
  next
    case stays
    then have "acl_settled ports (fold acl_eff (acl_fill t ports rs (rulesOf s t) ?cur) s) t rs"
      by (intro fill_effect[OF b rulesOf_lookup[OF b] refl]) (auto simp: acl_goes_def)
    with stays show ?thesis by (simp add: ops)
  qed
qed

lemma settled_no_ops:
  assumes b: "bare t" and st: "acl_settled ports s t rs"
  shows "acl_table_ops ports s t rs = []"
proof (cases "rs = []")
  case True
  with st have "tab s t = None" "rulesOf s t = []" by (auto simp: acl_settled_def rulesOf_Nil_iff[OF b])
  with True show ?thesis by (simp add: acl_table_ops_def acl_goes_def acl_remove_def dropRules_def tab_def)
next
  case rs: False
  show ?thesis
  proof (cases "ports = []")
    case True with rs st show ?thesis by (auto simp: acl_table_ops_def acl_goes_def acl_settled_def tab_def Let_def)
  next
    case p: False
    from st rs p obtain c where c: "tab s t = Some c" "acl_ours t (Some c)" "set (at_ports c) = set ports"
      and r: "\<And>r. rel_option same_fields (acl_rule s t r) (map_of rs r)" by (auto simp: acl_settled_def)
    have w: "acl_write t rs (rulesOf s t) r = []" if "r \<in> set (byPriority rs)" for r
      using r[of r] that by (auto simp: acl_write_def rulesOf_lookup[OF b] in_names_iff mget_def option.rel_sel
        split: option.splits)
    have st0: "map_of rs r \<noteq> None" if "acl_rule s t r \<noteq> None" for r
      using r[of r] that by (auto simp: option.rel_sel)
    then have "acl_stale rs (rulesOf s t) = []"
      by (auto simp: acl_stale_def filter_empty_conv in_rulesOf_iff[OF b])
    with c rs p w show ?thesis
      by (simp add: acl_table_ops_def acl_goes_def tab_def acl_fill_def acl_bind_def equalSets_def dropRules_def)
  qed
qed

lemma table_ops_of: "list_all (\<lambda>op. op_table op = t) (acl_table_ops ports s t rs)"
  by (auto simp: list_all_iff acl_table_ops_def acl_remove_def acl_fill_def acl_bind_def dropRules_def acl_write_def Let_def
    split: option.splits if_splits)

section \<open>All of them\<close>

lemma acl_tables_out: "acl_tables ports want ts s = (ops, n, out) \<Longrightarrow> out = fold acl_eff ops s \<and> (n = 0 \<longleftrightarrow> ops = [])"
  by (induction ts arbitrary: s ops n out) (fastforce simp: Let_def split: prod.splits if_splits)+

lemma settled_cong:
  "(\<And>r. acl_rule s' t r = acl_rule s t r) \<Longrightarrow> tab s' t = tab s t \<Longrightarrow> acl_settled ports s' t rs = acl_settled ports s t rs"
  by (simp add: acl_settled_def)

lemma settled_kept:
  assumes "acl_settled ports s t rs" "bare t" "bare t'" "t' = t \<longrightarrow> rs' = rs"
  shows "acl_settled ports (fold acl_eff (acl_table_ops ports s t' rs') s) t rs"
proof (cases "t' = t")
  case True with assms show ?thesis by (simp add: settled_no_ops)
next
  case False
  with assms acl_effs_other[OF table_ops_of False assms(3,2)] show ?thesis
    by (subst settled_cong) auto
qed

lemma acl_tables_keep:
  "acl_tables ports want ts s = (ops, n, out) \<Longrightarrow> list_all bare ts \<Longrightarrow> bare t \<Longrightarrow> acl_settled ports s t (mget [] want t) \<Longrightarrow>
   acl_settled ports out t (mget [] want t)"
proof (induction ts arbitrary: s ops n)
  case (Cons t' ts)
  then show ?case using settled_kept[of ports s t "mget [] want t" t' "mget [] want t'"]
    by (auto simp: Let_def split: prod.splits)
qed simp

lemma acl_tables_settle:
  "acl_tables ports want ts s = (ops, n, out) \<Longrightarrow> list_all bare ts \<Longrightarrow> t \<in> set ts \<Longrightarrow> acl_settled ports out t (mget [] want t)"
proof (induction ts arbitrary: s ops n)
  case (Cons t' ts)
  let ?s1 = "fold acl_eff (acl_table_ops ports s t' (mget [] want t')) s"
  obtain rest m where rest: "acl_tables ports want ts ?s1 = (rest, m, out)"
    using Cons.prems(1) by (auto simp: Let_def split: prod.splits)
  show ?case
  proof (cases "t \<in> set ts")
    case True with Cons.IH[OF rest] Cons.prems show ?thesis by simp
  next
    case False
    with Cons.prems have "t = t'" by simp
    with table_settles[of t' ports s "mget [] want t'"] Cons.prems acl_tables_keep[OF rest, of t'] show ?thesis by simp
  qed
qed simp

lemma acl_tables_idle:
  "list_all (\<lambda>t. acl_table_ops ports s t (mget [] want t) = []) ts \<Longrightarrow> acl_tables ports want ts s = ([], 0, s)"
  by (induction ts) (simp_all add: Let_def)

lemma plan_out: "acl_plan want st = (ops, n, sim) \<Longrightarrow> sim = fold acl_eff ops st \<and> (n = 0 \<longleftrightarrow> ops = [])"
  by (auto simp: acl_plan_def split: if_splits dest: acl_tables_out)

lemma bare_sorted_keys: "list_all bare (map fst want) \<Longrightarrow> list_all bare (sorted_keys want)"
  by (simp add: list_all_iff)

lemma plan_settles:
  assumes plan: "acl_plan want st = (ops, n, sim)" and known: "s_acl_known st"
    and b: "list_all bare (map fst want)" and t: "map_of want t = Some rs"
  shows "acl_settled (aclPorts st) sim t rs"
proof -
  from t have ne: "want \<noteq> []" and mem: "t \<in> set (sorted_keys want)" and rs: "mget [] want t = rs"
    by (auto simp: mget_def dest: mlookup_in_keys)
  from plan known ne have "acl_tables (aclPorts st) want (sorted_keys want) st = (ops, n, sim)" by (simp add: acl_plan_def)
  from acl_tables_settle[OF this bare_sorted_keys[OF b] mem] show ?thesis by (simp add: rs)
qed

lemma plan_again:
  assumes plan: "acl_plan want st = (ops, n, sim)" and b: "list_all bare (map fst want)"
  shows "acl_plan want sim = ([], 0, sim)"
proof (cases "want = [] \<or> \<not> s_acl_known st")
  case True with plan show ?thesis by (auto simp: acl_plan_def)
next
  case False
  from plan_out[OF plan] have frame: "aclPorts sim = aclPorts st" "s_acl_known sim" using False by auto
  have "acl_table_ops (aclPorts sim) sim t (mget [] want t) = []" if t: "t \<in> set (sorted_keys want)" for t
  proof -
    from t obtain rs where rs: "map_of want t = Some rs" using in_keys_mlookup by fastforce
    from t b have "bare t" by (auto simp: list_all_iff)
    from settled_no_ops[OF this plan_settles[OF plan _ b rs]] False rs frame show ?thesis by (simp add: mget_def)
  qed
  then show ?thesis using False frame by (simp add: acl_plan_def acl_tables_idle list_all_iff)
qed


section \<open>The order of the writes\<close>

lemma concat_split:
  "concat (map w as) = xs @ y # ys \<Longrightarrow>
   \<exists>bs a cs us vs. as = bs @ a # cs \<and> w a = us @ y # vs \<and> xs = concat (map w bs) @ us"
proof (induction as arbitrary: xs)
  case (Cons a as)
  show ?case
  proof (cases "length xs < length (w a)")
    case True
    with Cons.prems have "w a = xs @ y # drop (Suc (length xs)) (w a)"
      by (auto simp: append_eq_append_conv2 append_eq_Cons_conv Cons_eq_append_conv)
    then have "a # as = [] @ a # as \<and> w a = xs @ y # drop (Suc (length xs)) (w a) \<and> xs = concat (map w []) @ xs" by simp
    then show ?thesis by blast
  next
    case False
    with Cons.prems obtain zs where z: "xs = w a @ zs" "concat (map w as) = zs @ y # ys"
      by (auto simp: append_eq_append_conv2)
    from Cons.IH[OF z(2)] obtain bs b cs us vs where
      "as = bs @ b # cs" "w b = us @ y # vs" "zs = concat (map w bs) @ us" by blast
    with z have "a # as = (a # bs) @ b # cs \<and> w b = us @ y # vs \<and> xs = concat (map w (a # bs)) @ us" by simp
    then show ?thesis by blast
  qed
qed simp

lemma app_split:
  assumes "as @ bs = xs @ y # ys" "y \<notin> set as"
  obtains us where "xs = as @ us" "bs = us @ y # ys"
  using assms by (auto simp: append_eq_append_conv2 append_eq_Cons_conv)

lemma byPriority_sorted:
  assumes "byPriority rs = as @ low # bs" "high \<in> fst ` set rs" "priority_of (mget [] rs low) < priority_of (mget [] rs high)"
  shows "high \<in> set as"
proof -
  let ?k = "\<lambda>n. (- priority_of (mget [] rs n), n)"
  from assms(2) set_byPriority[of rs] have "high \<in> set (as @ low # bs)" unfolding assms(1) by blast
  moreover have "sorted (map ?k (as @ low # bs))" unfolding assms(1)[symmetric] byPriority_def by simp
  ultimately show ?thesis using assms(3) by (auto simp: sorted_append less_eq_prod_def)
qed

lemma write_shape:
  "acl_write t rs have a = us @ WriteRule t low f # vs \<Longrightarrow> a = low \<and> (us = [] \<or> us = [DropRule t low])"
  by (auto simp: acl_write_def Cons_eq_append_conv split: option.splits if_splits)

lemma no_write_before: "WriteRule t r f \<notin> set (acl_bind t' ports cur @ dropRules t' names)"
  "WriteRule t r f \<notin> set (acl_remove t' have cur)"
  by (auto simp: acl_bind_def dropRules_def acl_remove_def split: option.splits)

lemma fill_top_down:
  assumes ops: "acl_fill t ports rs have cur = xs @ WriteRule t low f # ys"
    and have_is: "\<And>r. map_of have r = acl_rule s t r"
    and high: "map_of rs high = Some g" and less: "priority_of (mget [] rs low) < priority_of g"
  shows "rel_option same_fields (acl_rule (fold acl_eff xs s) t high) (Some g)"
proof -
  let ?pre = "acl_bind t ports cur @ dropRules t (acl_stale rs have)"
  from ops have "?pre @ concat (map (acl_write t rs have) (byPriority rs)) = xs @ WriteRule t low f # ys" by (simp add: acl_fill_def)
  then obtain us where xs: "xs = ?pre @ us" and w: "concat (map (acl_write t rs have) (byPriority rs)) = us @ WriteRule t low f # ys"
    using no_write_before(1) by (rule app_split)
  from concat_split[OF w] obtain bs a cs vs zs where
    split: "byPriority rs = bs @ a # cs" "acl_write t rs have a = vs @ WriteRule t low f # zs" "us = concat (map (acl_write t rs have) bs) @ vs"
    by blast
  from write_shape[OF split(2)] have a: "a = low" and vs: "vs = [] \<or> vs = [DropRule t low]" by auto
  from high have g: "mget [] rs high = g" "high \<in> fst ` set rs" by (auto simp: mget_def in_names_iff)
  then have hb: "high \<in> set bs" using byPriority_sorted[OF split(1)[unfolded a] g(2)] less by simp
  from less g have ne: "low \<noteq> high" by auto
  let ?s1 = "fold acl_eff ?pre s"
  have r1: "acl_rule ?s1 t high = acl_rule s t high"
    using g(2) by (auto simp: drops_effect bind_effect acl_stale_def in_names_iff)
  have "rel_option same_fields (acl_rule (fold acl_eff (concat (map (acl_write t rs have) bs)) ?s1) t high) (Some g)"
  proof (cases "map_of have high")
    case None with hb g show ?thesis by (simp add: writes_effect)
  next
    case (Some old)
    then have "acl_rule s t high = Some old" by (simp flip: have_is)
    with hb g Some r1 show ?thesis by (simp add: writes_effect)
  qed
  moreover have "acl_rule (fold acl_eff xs s) t high = acl_rule (fold acl_eff (concat (map (acl_write t rs have) bs)) ?s1) t high"
    using vs ne by (auto simp: xs split(3) acl_eff_rule)
  ultimately show ?thesis by simp
qed

lemma table_top_down:
  assumes b: "bare t" and ops: "acl_table_ops ports s t rs = xs @ WriteRule t low f # ys"
    and high: "map_of rs high = Some g" "priority_of (mget [] rs low) < priority_of g"
  shows "rel_option same_fields (acl_rule (fold acl_eff xs s) t high) (Some g)"
proof -
  let ?cur = "tab s t" let ?rem = "acl_remove t (rulesOf s t) ?cur" let ?s1 = "fold acl_eff ?rem s"
  have o: "acl_table_ops ports s t rs = (if acl_goes t rs ?cur
      then ?rem @ (if rs = [] \<or> ports = [] then [] else acl_fill t ports rs [] None)
      else if ports = [] then [] else acl_fill t ports rs (rulesOf s t) ?cur)"
    by (simp add: acl_table_ops_def tab_def Let_def)
  show ?thesis
  proof (cases "acl_goes t rs ?cur")
    case True
    with o ops have "?rem @ (if rs = [] \<or> ports = [] then [] else acl_fill t ports rs [] None) = xs @ WriteRule t low f # ys" by simp
    then obtain us where us: "xs = ?rem @ us" "(if rs = [] \<or> ports = [] then [] else acl_fill t ports rs [] None) = us @ WriteRule t low f # ys"
      using no_write_before(2) by (rule app_split)
    then have fill: "acl_fill t ports rs [] None = us @ WriteRule t low f # ys" by (simp split: if_splits)
    have "\<And>r. map_of [] r = acl_rule ?s1 t r" using remove_effect[OF b refl] by simp
    from fill_top_down[OF fill this high] us show ?thesis by simp
  next
    case False
    with o ops have fill: "acl_fill t ports rs (rulesOf s t) ?cur = xs @ WriteRule t low f # ys" by (simp split: if_splits)
    from fill_top_down[OF fill rulesOf_lookup[OF b] high] show ?thesis .
  qed
qed

lemma tables_top_down:
  assumes "acl_tables ports want ts s = (xs @ WriteRule t low f # ys, n, out)" "list_all bare ts"
    "map_of (mget [] want t) high = Some g" "priority_of (mget [] (mget [] want t) low) < priority_of g"
  shows "rel_option same_fields (acl_rule (fold acl_eff xs s) t high) (Some g)"
  using assms
proof (induction ts arbitrary: s xs n)
  case (Cons t' ts)
  let ?ops = "acl_table_ops ports s t' (mget [] want t')" let ?s1 = "fold acl_eff ?ops s"
  from Cons.prems(1) obtain rest m where rest: "acl_tables ports want ts ?s1 = (rest, m, out)"
    and app: "?ops @ rest = xs @ WriteRule t low f # ys"
    by (auto simp: Let_def split: prod.splits)
  show ?case
  proof (cases "length xs < length ?ops")
    case True
    with app have here: "?ops = xs @ WriteRule t low f # drop (Suc (length xs)) ?ops"
      by (auto simp: append_eq_append_conv2 append_eq_Cons_conv Cons_eq_append_conv)
    then have "WriteRule t low f \<in> set ?ops" by (metis in_set_conv_decomp)
    with table_ops_of[of t' ports s "mget [] want t'"] have "t' = t" by (auto simp: list_all_iff)
    with table_top_down[OF _ here[unfolded this]] Cons.prems \<open>t' = t\<close> show ?thesis by simp
  next
    case False
    with app obtain zs where "xs = ?ops @ zs" "rest = zs @ WriteRule t low f # ys"
      by (auto simp: append_eq_append_conv2)
    with Cons.IH[of ?s1 zs m] rest Cons.prems show ?thesis by simp
  qed
qed simp

lemma tables_leave_others:
  "acl_tables ports want ts s = (ops, n, out) \<Longrightarrow> list_all bare ts \<Longrightarrow> bare t \<Longrightarrow> t \<notin> set ts \<Longrightarrow>
   tab out t = tab s t \<and> acl_rule out t r = acl_rule s t r"
proof (induction ts arbitrary: s ops n)
  case (Cons t' ts)
  then have "t' \<noteq> t" "bare t'" by auto
  from acl_effs_other[OF table_ops_of this Cons.prems(3), of ports s "mget [] want t'" s r] Cons show ?case
    by (auto simp: Let_def split: prod.splits)
qed simp


section \<open>The properties\<close>

lemma aclSet_bare: "list_all bare (map fst (fst (aclSet e d st)))"
  by (auto simp: aclSet_def set_guards_def set_ip_def set_mac_def list_all_iff guardTable_def ipACLTable_def macACLTable_def
    Let_def split: option.splits bool.splits sum.splits prod.splits)

definition demo_sw :: sw_state where
  "demo_sw = \<lparr>s_port = [(''Ethernet0'', []), (''Ethernet4'', [])], s_vlans = [10], s_vlan_mtu = [], s_net_mtu = [], s_members = [],
     s_lags = [(''PortChannel1'', [''Ethernet4''])], s_lag_mtu = [], s_lag_lacp = [], s_mirrors = [], s_storm = [], s_stp = [],
     s_stp_global = None, s_ntp = [], s_ntp_global = None, s_chrony_online = 0, s_chrony_offline = 0, s_chrony_known = False, s_carrier = [], s_syslog = [], s_snmp = [], s_snmp_yml = [], s_snmp_yml_ok = False,
     s_dns = [], s_routes = [], s_keys = [], s_ifaddrs = [], s_meta = [], s_stp_feature = False, s_platform_json = False,
     s_platform = [], s_brkout = [], s_fecs = [], s_switch_cap = [], s_mgmt_port_missing = False, s_mgmt_no_gateway = [],
     s_l2 = \<lparr>l2i_files = [], l2i_mstpd = [], l2i_service = [], l2i_deadman = [], l2i_build = [], l2i_docker = False, l2i_stp_state = [],
       l2i_conf = None, l2i_present = False\<rparr>,
     s_acl_known = True, s_acl_tables = [(''DUI_DHCP_GUARD'', \<lparr>at_typ = ''L3'', at_stage = ''ingress'', at_ports = [''Ethernet0'']\<rparr>)],
     s_acl_rules = [(''DUI_DHCP_GUARD|old'', [(''PRIORITY'', ''5'')]), (''DUI_DHCP_GUARD|low'', [(''PRIORITY'', ''3'')])],
     s_l2mc_known = False, s_l2mc_feature = [], s_l2mc = []\<rparr>"

definition demo_want :: acl_want where
  "demo_want = [(''DUI_DHCP_GUARD'', [(''low'', [(''PRIORITY'', ''8'')]), (''high'', [(''PRIORITY'', ''9'')])])]"

text \<open>
  C19. Applying the access rules brings every table the push names to what it names: with no rules
  the table and its rules are gone, otherwise the table is the driver's, bound to exactly the ports
  and aggregates there are, and has exactly the wanted rules; every other table and its rules stay.
\<close>

theorem sonic_acl_reaches_the_push:
  assumes "acl_plan want st = (ops, n, sim)" "s_acl_known st" "list_all bare (map fst want)" "bare t"
  shows "case map_of want t of
      Some rs \<Rightarrow> acl_settled (aclPorts st) sim t rs
    | None \<Rightarrow> tab sim t = tab st t \<and> (\<forall>r. acl_rule sim t r = acl_rule st t r)"
proof (cases "map_of want t")
  case (Some rs) with plan_settles[OF assms(1-3)] show ?thesis by simp
next
  case None
  then have "t \<notin> set (sorted_keys want)" by (metis set_sorted_keys in_keys_mlookup option.distinct(1))
  with tables_leave_others[OF _ bare_sorted_keys[OF assms(3)] assms(4)] assms(1) None show ?thesis
    by (auto simp: acl_plan_def split: if_splits)
qed

theorem sonic_acl_reaches_the_push_witness:
  "acl_settled (aclPorts demo_sw) (snd (snd (acl_plan demo_want demo_sw))) ''DUI_DHCP_GUARD''
     [(''low'', [(''PRIORITY'', ''8'')]), (''high'', [(''PRIORITY'', ''9'')])]"
  using sonic_acl_reaches_the_push[of demo_want demo_sw "fst (acl_plan demo_want demo_sw)" "fst (snd (acl_plan demo_want demo_sw))"
    "snd (snd (acl_plan demo_want demo_sw))" "''DUI_DHCP_GUARD''"]
  by (simp add: demo_want_def demo_sw_def)

text \<open>
  Once the batch a push asked for has run, applying the access rules again writes nothing: the
  driver compares with what it left, and what it left is what the push wants.
\<close>

theorem sonic_acl_apply_settles:
  assumes "applyACL run c = (Inr n, c')" "ac_want c = fst (aclSet e d st0)" "\<And>cmds. snd (run cmds) = None"
  shows "applyACL run' c' = (Inr 0, c')"
proof (cases "ac_state c")
  case None with assms(1) show ?thesis by (auto simp: applyACL_def)
next
  case (Some st)
  obtain ops m sim where plan: "acl_plan (ac_want c) st = (ops, m, sim)" by (cases "acl_plan (ac_want c) st")
  show ?thesis
  proof (cases "ops = []")
    case True with assms(1) Some plan show ?thesis by (auto simp: applyACL_def)
  next
    case False
    from assms(3)[of "acl_cmds ops"] obtain err where run: "run (acl_cmds ops) = (err, None)" by (metis prod.collapse)
    with assms(1) Some plan False have "c' = c\<lparr>ac_state := Some sim, ac_written := True\<rparr>"
      by (auto simp: applyACL_def split: option.splits)
    with plan_again[OF plan] assms(2) aclSet_bare show ?thesis by (simp add: applyACL_def)
  qed
qed

definition demo_acl_env :: acl_env where
  "demo_acl_env = \<lparr>ae_native = 4094, ae_ssh_from = [], ae_probe = [], ae_ssh_to = [], ae_dial = [], ae_mac_acl = False,
     ae_l2 = \<lparr>lp_vlan = 0, lp_peers = [], lp_dsts = []\<rparr>\<rparr>"

definition demo_unguard :: device_desired where
  "demo_unguard = \<lparr>dd_stp_set = False, dd_stp_enabled = False, dd_stp_mode = [], dd_stp_priority = 0, dd_igmp_snooping = [], dd_igmp = [],
     dd_igmp_flood = None, dd_igmp_unknown = None, dd_ntp = [], dd_syslog = [], dd_manage_ntp = False, dd_manage_syslog = False,
     dd_dhcp_snoop = Some False, dd_guards = [], dd_ipacl_set = False, dd_ipacls = [], dd_macacl_set = False, dd_macacls = [],
     dd_snmp_set = False, dd_snmp_community = [], dd_timezone = [], dd_hostname = []\<rparr>"

definition demo_acl_col :: acl_col where
  "demo_acl_col = \<lparr>ac_state = Some demo_sw, ac_want = [(guardTable, [])], ac_written = False\<rparr>"

lemma demo_unguard_ops: "fst (applyACL (\<lambda>_. (None, None)) demo_acl_col) = Inr 1"
  by code_simp

theorem sonic_acl_apply_settles_witness:
  "let c' = snd (applyACL (\<lambda>_. (None, None)) demo_acl_col) in applyACL (\<lambda>_. (Some ''down'', None)) c' = (Inr 0, c')"
proof -
  have "applyACL (\<lambda>_. (None, None)) demo_acl_col = (Inr 1, snd (applyACL (\<lambda>_. (None, None)) demo_acl_col))"
    using demo_unguard_ops by (metis prod.collapse)
  from sonic_acl_apply_settles[OF this, of demo_acl_env demo_unguard demo_sw] show ?thesis
    by (simp add: demo_acl_col_def aclSet_def set_guards_def set_ip_def set_mac_def demo_unguard_def Let_def)
qed

text \<open>
  C20. Rules are written from the top down: at the moment the batch writes a rule, every wanted rule
  of higher priority is in the table as wanted. A DHCP guard's drop is never in force before the
  servers it lets through, wherever the batch stops.
\<close>

theorem sonic_acl_written_top_down:
  assumes "acl_plan want st = (earlier @ WriteRule t low f # rest, n, sim)" "list_all bare (map fst want)"
    "map_of want t = Some rs" "map_of rs high = Some g" "priority_of (mget [] rs low) < priority_of g"
  shows "rel_option same_fields (acl_rule (fold acl_eff earlier st) t high) (Some g)"
proof -
  from assms(1) have "acl_tables (aclPorts st) want (sorted_keys want) st = (earlier @ WriteRule t low f # rest, n, sim)"
    by (auto simp: acl_plan_def split: if_splits)
  from tables_top_down[OF this bare_sorted_keys[OF assms(2)]] assms(3-5) show ?thesis by (simp add: mget_def)
qed

lemma demo_acl_ops: "acl_plan demo_want demo_sw = ([BindTable ''DUI_DHCP_GUARD'' ''L3'' [''PortChannel1'', ''Ethernet0''],
    DropRule ''DUI_DHCP_GUARD'' ''old'', WriteRule ''DUI_DHCP_GUARD'' ''high'' [(''PRIORITY'', ''9'')],
    DropRule ''DUI_DHCP_GUARD'' ''low'', WriteRule ''DUI_DHCP_GUARD'' ''low'' [(''PRIORITY'', ''8'')]],
    1, snd (snd (acl_plan demo_want demo_sw)))"
  by code_simp

theorem sonic_acl_written_top_down_witness:
  "rel_option same_fields (acl_rule (fold acl_eff [BindTable ''DUI_DHCP_GUARD'' ''L3'' [''PortChannel1'', ''Ethernet0''],
      DropRule ''DUI_DHCP_GUARD'' ''old'', WriteRule ''DUI_DHCP_GUARD'' ''high'' [(''PRIORITY'', ''9'')],
      DropRule ''DUI_DHCP_GUARD'' ''low''] demo_sw) ''DUI_DHCP_GUARD'' ''high'') (Some [(''PRIORITY'', ''9'')])"
proof (rule sonic_acl_written_top_down)
  show "acl_plan demo_want demo_sw = ([BindTable ''DUI_DHCP_GUARD'' ''L3'' [''PortChannel1'', ''Ethernet0''],
    DropRule ''DUI_DHCP_GUARD'' ''old'', WriteRule ''DUI_DHCP_GUARD'' ''high'' [(''PRIORITY'', ''9'')],
    DropRule ''DUI_DHCP_GUARD'' ''low''] @ [WriteRule ''DUI_DHCP_GUARD'' ''low'' [(''PRIORITY'', ''8'')]],
    1, snd (snd (acl_plan demo_want demo_sw)))" by (subst demo_acl_ops) simp
  show "list_all bare (map fst demo_want)" by (simp add: demo_want_def)
  show "map_of demo_want ''DUI_DHCP_GUARD'' = Some [(''low'', [(''PRIORITY'', ''8'')]), (''high'', [(''PRIORITY'', ''9'')])]"
    by (simp add: demo_want_def)
  show "map_of [(''low'', [(''PRIORITY'', ''8'')]), (''high'', [(''PRIORITY'', ''9'')])] ''high'' = Some [(''PRIORITY'', ''9'')]" by simp
  show "priority_of (mget [] [(''low'', [(''PRIORITY'', ''8'')]), (''high'', [(''PRIORITY'', ''9'')])] ''low'')
      < priority_of [(''PRIORITY'', ''9'')]" by code_simp
qed

end
