(* ===== verification/Sonic_Plan_Props.thy ===== *)
theory Sonic_Plan_Props
  imports Sonic_Ports Sonic_Acl_Props
begin

text \<open>
  The plan of a port push on SONiC: the copy it diffs against is the start state under the planned
  writes, and SONiC accepts every one of them where it stands in the batch; the VLAN memberships of
  an interface end as the push has them; what a breakout and \<open>EnsureVLANs\<close> do.
\<close>

section \<open>Memberships\<close>

definition memb :: "sw_state \<Rightarrow> string \<Rightarrow> bool alist" where
  "memb s lane = mget [] (s_members s) lane"

definition one_untagged :: "bool alist \<Rightarrow> bool" where
  "one_untagged m \<longleftrightarrow> (\<forall>i j. map_of m i = Some False \<longrightarrow> map_of m j = Some False \<longrightarrow> i = j)"

definition ids_ok :: "bool alist \<Rightarrow> bool" where
  "ids_ok m \<longleftrightarrow> distinct (map fst m) \<and> (\<forall>i t. map_of m i = Some t \<longrightarrow> 0 < i) \<and> one_untagged m"

definition members_ok :: "sw_state \<Rightarrow> bool" where
  "members_ok s \<longleftrightarrow> (\<forall>lane. ids_ok (memb s lane))"

lemma ids_ok_Nil [simp]: "ids_ok []"
  by (simp add: ids_ok_def one_untagged_def)

lemma ids_ok_tag: "ids_ok m \<Longrightarrow> 0 < i \<Longrightarrow> ids_ok (AList.update i True m)"
  unfolding ids_ok_def one_untagged_def by (simp add: distinct_update)

lemma ids_ok_untag: "ids_ok m \<Longrightarrow> 0 < i \<Longrightarrow> \<forall>j. map_of m j \<noteq> Some False \<Longrightarrow> ids_ok (AList.update i False m)"
  unfolding ids_ok_def one_untagged_def by (simp add: distinct_update)

lemma ids_ok_delete: "ids_ok m \<Longrightarrow> ids_ok (AList.delete i m)"
  unfolding ids_ok_def one_untagged_def by (simp add: distinct_delete delete_conv')

lemma memb_setMember: "memb (setMember l i t s) lane = (if lane = l then AList.update i t (memb s l) else memb s lane)"
  by (simp add: setMember_def memb_def mget_update)

lemma memb_delMember: "memb (delMember l i s) lane = (if lane = l then AList.delete i (memb s l) else memb s lane)"
  by (auto simp: delMember_def memb_def mget_def split: option.splits)

lemma memb_tags: "memb (fold (\<lambda>i. setMember l i True) ids s) lane
    = (if lane = l then fold (\<lambda>i. AList.update i True) ids (memb s l) else memb s lane)"
  by (induction ids arbitrary: s) (auto simp: memb_setMember)

lemma memb_dels: "memb (fold (delMember l) ids s) lane = (if lane = l then fold AList.delete ids (memb s l) else memb s lane)"
  by (induction ids arbitrary: s) (auto simp: memb_delMember)

lemma delete_all: "fold AList.delete ks m = filter (\<lambda>x. fst x \<notin> set ks) m"
  by (induction ks arbitrary: m) (auto simp: AList.delete_eq conj_commute intro: filter_cong)

lemma strip_all: "fold AList.delete (sort (map fst m)) m = []"
  by (simp add: delete_all filter_empty_conv)

lemma ids_ok_tags: "ids_ok m \<Longrightarrow> \<forall>i \<in> set ids. 0 < i \<Longrightarrow> ids_ok (fold (\<lambda>i. AList.update i True) ids m)"
  by (induction ids arbitrary: m) (auto simp: ids_ok_tag)

lemma ids_ok_dels: "ids_ok m \<Longrightarrow> ids_ok (fold AList.delete ids m)"
  by (induction ids arbitrary: m) (auto simp: ids_ok_delete)

section \<open>What SONiC accepts\<close>

text \<open>
  The preconditions the code's comments name: an aggregate takes a member without VLANs and with its
  own MTU, a mirror's destination has no VLANs, an interface is untagged in one VLAN at most, a VLAN
  exists before it has members, an aggregate is deleted empty, and a cage is broken out only when
  nothing depends on it and CONFIG_DB passes the YANG check.
\<close>

fun sonic_accepts :: "sw_eff \<Rightarrow> sw_state \<Rightarrow> bool" where
  "sonic_accepts (ELagJoin pc lane) s \<longleftrightarrow> memb s lane = []
     \<and> (sw_field s lane ''mtu'' = [] \<or> sw_field s lane ''mtu'' = mget [] (s_lag_mtu s) pc)"
| "sonic_accepts (ELagNew pc) s \<longleftrightarrow> map_of (s_lags s) pc = None"
| "sonic_accepts (ELagGone pc) s \<longleftrightarrow> lag_members s pc = [] \<and> memb s pc = []"
| "sonic_accepts (EMirror n dst src) s \<longleftrightarrow> memb s dst = [] \<and> \<not> portMirrorUnsupported s \<and> map_of (s_mirrors s) n = None"
| "sonic_accepts (EUntagged lane i) s \<longleftrightarrow> 0 < i \<and> i \<in> set (s_vlans s) \<and> (\<forall>j. map_of (memb s lane) j \<noteq> Some False)"
| "sonic_accepts (ETagged lane ids) s \<longleftrightarrow> list_all (\<lambda>i. 1 < i \<and> i \<le> 4094 \<and> i \<in> set (s_vlans s)) ids"
| "sonic_accepts (EBreakout parent cage chs mode) s \<longleftrightarrow> \<not> s_mgmt_port_missing s \<and> s_mgmt_no_gateway s = []
     \<and> \<not> starts ''Vlan'' (ntp_source s) \<and> list_all (\<lambda>l. held_lane s l = None) (cagePorts s cage)"
| "sonic_accepts _ s \<longleftrightarrow> True"

lemma vlans_apply [simp]: "s_vlans (sw_apply e s) = s_vlans s"
proof (cases e)
  case (EBreakout parent cage chs mode)
  have "s_vlans (fold put_child chs s) = s_vlans s" "s_vlans (fold drop_port ns s) = s_vlans s" for s ns
    by (induction chs arbitrary: s) (auto simp: put_child_def, induction ns arbitrary: s, auto simp: drop_port_def)
  with EBreakout show ?thesis by (simp add: applyBreakout_def Let_def)
next
  case (ETagged l ids)
  have "s_vlans (fold (\<lambda>i. setMember l i True) ids s) = s_vlans s" by (induction ids arbitrary: s) (auto simp: setMember_def)
  with ETagged show ?thesis by simp
next
  case (EUnmember l ids)
  have "s_vlans (fold (delMember l) ids s) = s_vlans s"
    by (induction ids arbitrary: s) (auto simp: delMember_def split: option.splits)
  with EUnmember show ?thesis by simp
next
  case (EAcl a) then show ?thesis by (cases a) (simp_all add: acl_eff.simps)
qed (auto simp: setField_def set_lag_def setMember_def setSTP_def)

lemma memb_drop: "memb (drop_port n s) lane = (if lane = n then [] else memb s lane)"
  by (simp add: drop_port_def memb_def mget_def delete_conv')

lemma memb_breakout: "memb (applyBreakout parent cage chs mode s) lane = (if lane \<in> set (cagePorts s cage) then [] else memb s lane)"
proof -
  have p: "memb (fold put_child chs s) = memb s" for s
    by (induction chs arbitrary: s) (auto simp: put_child_def memb_def fun_eq_iff)
  have d: "memb (fold drop_port ns s) lane = (if lane \<in> set ns then [] else memb s lane)" for ns s
    by (induction ns arbitrary: s) (auto simp: memb_drop)
  have b: "memb (s'\<lparr>s_brkout := x\<rparr>) = memb s'" "memb (s'\<lparr>s_fecs := y\<rparr>) = memb s'" for s' x y
    by (simp_all add: memb_def fun_eq_iff)
  show ?thesis by (simp add: applyBreakout_def Let_def b p d)
qed

lemma memb_apply: "memb (sw_apply e s) lane = (case e of
    ELagGone pc \<Rightarrow> if lane = pc then [] else memb s lane
  | EUntagged l i \<Rightarrow> if lane = l then AList.update i False (memb s l) else memb s lane
  | ETagged l ids \<Rightarrow> if lane = l then fold (\<lambda>i. AList.update i True) ids (memb s l) else memb s lane
  | EUnmember l ids \<Rightarrow> if lane = l then fold AList.delete ids (memb s l) else memb s lane
  | EBreakout parent cage chs mode \<Rightarrow> if lane \<in> set (cagePorts s cage) then [] else memb s lane
  | _ \<Rightarrow> memb s lane)"
proof (cases e)
  case (ELagGone pc) then show ?thesis by (simp add: memb_def mget_def delete_conv')
next
  case (EAcl a) then show ?thesis by (cases a) (simp_all add: acl_eff.simps memb_def)
qed (simp_all add: memb_tags memb_dels memb_setMember memb_breakout, simp_all add: memb_def setField_def set_lag_def setSTP_def)

declare sw_apply.simps [simp del]

lemma members_ok_apply:
  assumes "members_ok s" "sonic_accepts e s"
  shows "members_ok (sw_apply e s)"
  unfolding members_ok_def
proof
  fix lane
  from assms(1) have m: "ids_ok (memb s l)" for l by (simp add: members_ok_def)
  show "ids_ok (memb (sw_apply e s) lane)"
  proof (cases e)
    case (ETagged l ids)
    with assms(2) have "\<forall>i \<in> set ids. 0 < i" by (auto simp: list_all_iff)
    with ETagged m show ?thesis by (simp add: memb_apply ids_ok_tags)
  qed (use m assms(2) in \<open>simp_all add: memb_apply ids_ok_untag ids_ok_dels\<close>)
qed


section \<open>Plans whose writes are accepted\<close>

fun all_accepted :: "sw_op list \<Rightarrow> sw_state \<Rightarrow> bool" where
  "all_accepted [] s \<longleftrightarrow> True"
| "all_accepted (w # ws) s \<longleftrightarrow> sonic_accepts (op_eff w) s \<and> all_accepted ws (sw_apply (op_eff w) s)"

definition run_ops :: "sw_op list \<Rightarrow> sw_state \<Rightarrow> sw_state" where
  "run_ops ws s = fold (\<lambda>w. sw_apply (op_eff w)) ws s"

definition plan_ok :: "sw_state \<Rightarrow> bool \<Rightarrow> plan \<Rightarrow> bool" where
  "plan_ok st only pl \<longleftrightarrow> pl_sim pl = run_ops (pl_ops pl) st \<and> all_accepted (pl_ops pl) st \<and> members_ok (pl_sim pl)
     \<and> 0 < pl_native pl \<and> pl_only pl = only
     \<and> (only \<longrightarrow> pl_own pl = [] \<and> set (pl_changed pl) = {i \<in> op_idx ` set (pl_ops pl). 0 < i})"

lemma plan_ok_members: "plan_ok st only pl \<Longrightarrow> ids_ok (memb (pl_sim pl) lane)"
  unfolding plan_ok_def members_ok_def by blast

lemma all_accepted_app: "all_accepted (ws @ vs) s \<longleftrightarrow> all_accepted ws s \<and> all_accepted vs (run_ops ws s)"
  by (induction ws arbitrary: s) (auto simp: run_ops_def)

named_theorems keeps \<open>operations that keep a plan well-formed\<close>

lemma fold_keeps: "(\<And>x pl. P pl \<Longrightarrow> P (f x pl)) \<Longrightarrow> P pl \<Longrightarrow> P (fold f xs pl)"
  by (induction xs arbitrary: pl) auto

lemma write_sim [simp]: "pl_sim (pl_write own idx cmd e pl) = sw_apply e (pl_sim pl)"
  "pl_native (pl_write own idx cmd e pl) = pl_native pl" "pl_site (pl_write own idx cmd e pl) = pl_site pl"
  "pl_ports (pl_write own idx cmd e pl) = pl_ports pl" "pl_notes (pl_write own idx cmd e pl) = pl_notes pl"
  "pl_ops (pl_write own idx cmd e pl) = pl_ops pl @ [\<lparr>op_cmd = ''sudo '' @ cmd, op_idx = idx, op_eff = e\<rparr>]"
  by (simp_all add: pl_write_def)

lemma note_sim [simp]: "pl_sim (pl_note n pl) = pl_sim pl" "pl_ops (pl_note n pl) = pl_ops pl"
  "pl_native (pl_note n pl) = pl_native pl" "pl_site (pl_note n pl) = pl_site pl" "pl_ports (pl_note n pl) = pl_ports pl"
  "pl_only (pl_note n pl) = pl_only pl" "pl_own (pl_note n pl) = pl_own pl" "pl_changed (pl_note n pl) = pl_changed pl"
  by (simp_all add: pl_note_def)

lemma write_ok:
  "plan_ok st only pl \<Longrightarrow> sonic_accepts e (pl_sim pl) \<Longrightarrow> (own \<Longrightarrow> \<not> only) \<Longrightarrow> plan_ok st only (pl_write own idx cmd e pl)"
  unfolding plan_ok_def
  by (auto simp: all_accepted_app run_ops_def members_ok_apply) (auto simp: pl_write_def split: if_splits)

lemma note_ok [keeps]: "plan_ok st only pl \<Longrightarrow> plan_ok st only (pl_note n pl)"
  unfolding plan_ok_def by auto

lemma notes_ok [keeps]: "plan_ok st only pl \<Longrightarrow> plan_ok st only (fold (\<lambda>x. pl_note (f x)) xs pl)"
  by (rule fold_keeps) (auto intro: note_ok)

text \<open>A write SONiC has no condition on.\<close>

lemma add_ok:
  "plan_ok st only pl \<Longrightarrow> (\<And>s. sonic_accepts e s) \<Longrightarrow> plan_ok st only (pl_add idx cmd e pl)"
  by (rule write_ok) auto

section \<open>VLAN memberships\<close>

lemma statics_sim: "\<exists>x. pl_sim (drop_statics idx iface ids pl) = (pl_sim pl)\<lparr>s_l2mc := x\<rparr>"
proof -
  let ?Q = "\<lambda>q. \<exists>x. pl_sim q = (pl_sim pl)\<lparr>s_l2mc := x\<rparr>"
  have refl: "?Q pl" by (rule exI[of _ "s_l2mc (pl_sim pl)"]) simp
  show ?thesis unfolding drop_statics_def
    by (rule fold_keeps[where P = ?Q, OF _ refl], rule fold_keeps[where P = ?Q]) (auto simp: sw_apply.simps)
qed

lemma dels_sim: "\<exists>m. fold (delMember l) ids s = s\<lparr>s_members := m\<rparr>"
proof (induction ids arbitrary: s)
  case Nil show ?case by (rule exI[of _ "s_members s"]) simp
next
  case (Cons i ids)
  obtain m where "delMember l i s = s\<lparr>s_members := m\<rparr>"
  proof (cases "map_of (s_members s) l")
    case None
    then have "delMember l i s = s\<lparr>s_members := s_members s\<rparr>" by (simp add: delMember_def)
    with that show ?thesis .
  qed (auto simp: delMember_def intro: that)
  with Cons[of "s\<lparr>s_members := m\<rparr>"] show ?case by auto
qed

lemma unmember_sim:
  obtains x m where "pl_sim (vlanMembers idx iface False ids u a pl) = (pl_sim pl)\<lparr>s_l2mc := x, s_members := m\<rparr>"
proof (cases "ids = []")
  case True
  then have "pl_sim (vlanMembers idx iface False ids u a pl) = (pl_sim pl)\<lparr>s_l2mc := s_l2mc (pl_sim pl), s_members := s_members (pl_sim pl)\<rparr>"
    by (simp add: vlanMembers_def)
  with that show ?thesis .
next
  case False
  obtain x where x: "pl_sim (drop_statics idx iface ids pl) = (pl_sim pl)\<lparr>s_l2mc := x\<rparr>" using statics_sim by blast
  obtain m where "fold (delMember iface) ids ((pl_sim pl)\<lparr>s_l2mc := x\<rparr>) = (pl_sim pl)\<lparr>s_l2mc := x\<rparr>\<lparr>s_members := m\<rparr>"
    using dels_sim by blast
  with False x have "pl_sim (vlanMembers idx iface False ids u a pl) = (pl_sim pl)\<lparr>s_l2mc := x, s_members := m\<rparr>"
    by (simp add: vlanMembers_def sw_apply.simps)
  with that show ?thesis .
qed

lemma unmember_memb: "memb (pl_sim (vlanMembers idx iface False ids u a pl)) lane
    = (if lane = iface then fold AList.delete ids (memb (pl_sim pl) iface) else memb (pl_sim pl) lane)"
proof -
  obtain x where x: "pl_sim (drop_statics idx iface ids pl) = (pl_sim pl)\<lparr>s_l2mc := x\<rparr>" using statics_sim by blast
  have "memb (s\<lparr>s_l2mc := x\<rparr>) = memb s" for s by (simp add: memb_def fun_eq_iff)
  with x show ?thesis by (simp add: vlanMembers_def memb_apply)
qed

lemma statics_ok: "plan_ok st only pl \<Longrightarrow> plan_ok st only (drop_statics idx iface ids pl)"
  unfolding drop_statics_def by (intro fold_keeps[where P = "plan_ok st only"] add_ok) auto

lemma unmember_ok [keeps]: "plan_ok st only pl \<Longrightarrow> plan_ok st only (vlanMembers idx iface False ids u a pl)"
  by (auto simp: vlanMembers_def intro: add_ok statics_ok)

lemma strip_ok [keeps]: "plan_ok st only pl \<Longrightarrow> plan_ok st only (stripVLANs idx iface pl)"
  by (simp add: stripVLANs_def unmember_ok)

lemma strip_memb: "memb (pl_sim (stripVLANs idx iface pl)) lane = (if lane = iface then [] else memb (pl_sim pl) lane)"
  by (simp add: stripVLANs_def unmember_memb memberIDs_def strip_all flip: memb_def)

lemma strip_frame [simp]:
  "s_lags (pl_sim (stripVLANs idx iface pl)) = s_lags (pl_sim pl)" "s_lag_mtu (pl_sim (stripVLANs idx iface pl)) = s_lag_mtu (pl_sim pl)"
  "s_mirrors (pl_sim (stripVLANs idx iface pl)) = s_mirrors (pl_sim pl)" "sw_field (pl_sim (stripVLANs idx iface pl)) = sw_field (pl_sim pl)"
  "s_switch_cap (pl_sim (stripVLANs idx iface pl)) = s_switch_cap (pl_sim pl)" "s_vlans (pl_sim (stripVLANs idx iface pl)) = s_vlans (pl_sim pl)"
  by (rule unmember_sim[of idx iface "memberIDs (pl_sim pl) iface" 0 0 pl], simp add: stripVLANs_def sw_field_def fun_eq_iff)+

text \<open>What differs, by the maps.\<close>

lemma in_sync_diff: "distinct (map fst from) \<Longrightarrow> i \<in> set (sync_diff t from to) \<longleftrightarrow> map_of from i = Some t \<and> map_of to i \<noteq> Some t"
  by (auto simp: sync_diff_def image_iff)

lemma one_diff:
  assumes "ids_ok m"
  obtains "sync_diff False m to = []" "\<And>i. map_of m i = Some False \<Longrightarrow> map_of to i = Some False"
    | i where "sync_diff False m to = [i]" "map_of m i = Some False" "map_of to i \<noteq> Some False" "0 < i"
proof (cases "sync_diff False m to")
  case Nil
  with in_sync_diff[of m _ False to] assms have "\<And>i. map_of m i = Some False \<Longrightarrow> map_of to i = Some False"
    by (force simp: ids_ok_def)
  with Nil that(1) show ?thesis by blast
next
  case (Cons i js)
  have d: "distinct (sync_diff False m to)" using assms by (simp add: sync_diff_def ids_ok_def distinct_map_filter)
  have mem: "j \<in> set (sync_diff False m to) \<Longrightarrow> map_of m j = Some False \<and> map_of to j \<noteq> Some False" for j
    using in_sync_diff assms by (auto simp: ids_ok_def)
  then have "j = i" if "j \<in> set js" for j using that assms Cons by (auto simp: ids_ok_def one_untagged_def)
  with d Cons have "js = []" by (cases js) auto
  moreover from mem[of i] Cons have "map_of m i = Some False" "map_of to i \<noteq> Some False" by auto
  moreover from this have "0 < i" using assms unfolding ids_ok_def by blast
  ultimately show ?thesis using Cons that(2) by blast
qed

text \<open>A membership that can be asked for.\<close>

definition want_ok :: "int list \<Rightarrow> bool alist \<Rightarrow> bool" where
  "want_ok vlans want \<longleftrightarrow> ids_ok want \<and> (\<forall>i t. map_of want i = Some t \<longrightarrow> i \<in> set vlans \<and> (t \<longrightarrow> 1 < i \<and> i \<le> 4094))"

lemma map_of_tags: "map_of (fold (\<lambda>i. AList.update i True) ids m) j = (if j \<in> set ids then Some True else map_of m j)"
  by (induction ids arbitrary: m) auto

lemma map_of_dels: "map_of (fold AList.delete ids m) j = (if j \<in> set ids then None else map_of m j)"
  by (induction ids arbitrary: m) (auto simp: delete_conv')

lemma wanted_all_ok: "0 < pl_native pl \<Longrightarrow> ids_ok (wanted_all pl d)"
proof -
  assume n: "0 < pl_native pl"
  let ?base = "if 0 < pd_native d then [(wanted_untagged pl d, False)] else []"
  have base: "ids_ok ?base" using n by (auto simp: ids_ok_def one_untagged_def wanted_untagged_def sonicID_def split: if_splits)
  have "\<forall>i \<in> set (wanted_tagged pl d). 0 < i" by (auto simp: wanted_tagged_def Let_def)
  from ids_ok_tags[OF base this] show ?thesis by (simp add: wanted_all_def)
qed

lemma wanted_all_range: "map_of (wanted_all pl d) i = Some True \<Longrightarrow> 1 < i \<and> i \<le> 4094"
  by (auto simp: wanted_all_def map_of_tags wanted_tagged_def Let_def split: if_splits)

lemma map_of_filter_keys: "map_of (filter (\<lambda>(i, t). P i) m) j = (if P j then map_of m j else None)"
  by (induction m) auto

lemma wantVLANs_ok:
  assumes "wantVLANs d pl = Some want" "0 < pl_native pl"
  shows "want_ok (s_vlans (pl_sim pl)) want"
proof -
  let ?P = "\<lambda>i. i \<in> set (s_vlans (pl_sim pl))"
  from assms(1) have w: "want = filter (\<lambda>(i, t). ?P i) (wanted_all pl d)" by (auto simp: wantVLANs_def split: if_splits)
  from wanted_all_ok[OF assms(2)] have "ids_ok want"
    unfolding ids_ok_def one_untagged_def w map_of_filter_keys by (simp add: distinct_map_filter)
  moreover have "map_of want i = Some t \<Longrightarrow> ?P i \<and> (t \<longrightarrow> 1 < i \<and> i \<le> 4094)" for i t
    using wanted_all_range[of pl d i] by (cases t) (auto simp: w map_of_filter_keys split: if_splits)
  ultimately show ?thesis by (simp add: want_ok_def)
qed


lemma tag_memb: "memb (pl_sim (vlanMembers idx iface True ids u a pl)) lane
    = (if lane = iface then fold (\<lambda>i. AList.update i True) ids (memb (pl_sim pl) iface) else memb (pl_sim pl) lane)"
  by (simp add: vlanMembers_def memb_apply)

lemma tag_ok:
  "plan_ok st only pl \<Longrightarrow> list_all (\<lambda>i. 1 < i \<and> i \<le> 4094 \<and> i \<in> set (s_vlans (pl_sim pl))) ids \<Longrightarrow>
   plan_ok st only (vlanMembers idx iface True ids u a pl)"
  by (auto simp: vlanMembers_def intro: write_ok)

lemma unmember_vlans [simp]: "s_vlans (pl_sim (vlanMembers idx iface False ids u a pl)) = s_vlans (pl_sim pl)"
  by (rule unmember_sim[of idx iface ids u a pl]) simp

text \<open>
  The four steps of \<open>sync_to\<close>: what only \<open>have\<close> names goes, the untagged VLAN comes, the tagged come.
\<close>

lemma opt_bool: "(x :: bool option) = None \<or> x = Some True \<or> x = Some False"
  by (cases x) auto

lemma sync_steps:
  fixes pl :: plan and want :: "bool alist" and iface :: string
  defines "have \<equiv> memb (pl_sim pl) iface"
  assumes ok: "plan_ok st only pl" and w: "want_ok (s_vlans (pl_sim pl)) want"
  obtains pl3 a where
    "sync_to idx iface want pl = vlanMembers idx iface True (sort (sync_diff True want have)) a 0 pl3"
    "plan_ok st only pl3" "s_vlans (pl_sim pl3) = s_vlans (pl_sim pl)"
    "map_of (memb (pl_sim pl3) iface) = (\<lambda>i. if map_of want i = Some False then Some False
       else if map_of have i = map_of want i then map_of have i else None)"
    "\<And>lane. lane \<noteq> iface \<Longrightarrow> memb (pl_sim pl3) lane = memb (pl_sim pl) lane"
proof -
  from ok have h: "ids_ok have" by (simp add: have_def plan_ok_members)
  from w have wo: "ids_ok want" by (simp add: want_ok_def)
  let ?dt = "sort (sync_diff True have want)" let ?du = "last_or_zero (sync_diff False have want)"
  let ?au = "last_or_zero (sync_diff False want have)"
  let ?after = "if ?au \<noteq> 0 then ?au else untagged_kept have want"
  let ?p1 = "vlanMembers idx iface False ?dt ?after ?du pl"
  let ?p2 = "if 0 < ?du then vlanMembers idx iface False [?du] 0 0 ?p1 else ?p1"
  let ?p3 = "if 0 < ?au then pl_add idx (''config vlan member add -u '' @ itoa ?au @ '' '' @ iface) (EUntagged iface ?au) ?p2 else ?p2"
  have eq: "sync_to idx iface want pl = vlanMembers idx iface True (sort (sync_diff True want have)) ?after 0 ?p3"
    by (simp add: sync_to_def Let_def have_def flip: memb_def)
  have dt: "i \<in> set ?dt \<longleftrightarrow> map_of have i = Some True \<and> map_of want i \<noteq> Some True" for i
    using in_sync_diff[of "have" i True want] h by (simp add: ids_ok_def)
  have m2: "map_of (memb (pl_sim ?p2) iface) i = (if map_of have i = map_of want i then map_of have i else None)" for i
  proof (cases rule: one_diff[OF h, of want])
    case 1
    then have e: "map_of (memb (pl_sim ?p2) iface) i = (if i \<in> set ?dt then None else map_of have i)"
      by (simp add: last_or_zero_def unmember_memb map_of_dels have_def)
    show ?thesis unfolding e using 1 dt[of i] opt_bool[of "map_of have i"] by auto
  next
    case (2 j)
    then have e: "map_of (memb (pl_sim ?p2) iface) i = (if i \<in> set ?dt \<or> i = j then None else map_of have i)"
      by (simp add: last_or_zero_def unmember_memb map_of_dels delete_conv' have_def)
    have u: "map_of have i = Some False \<Longrightarrow> i = j" using 2(2) h by (simp add: ids_ok_def one_untagged_def)
    show ?thesis
    proof (cases "i = j")
      case True with 2(2,3) show ?thesis unfolding e by simp
    next
      case False
      then have "map_of have i = None \<or> map_of have i = Some True" using u opt_bool[of "map_of have i"] by blast
      then show ?thesis unfolding e dt using False by (elim disjE) simp_all
    qed
  qed
  have ok2: "plan_ok st only ?p2" using ok by (simp add: unmember_ok)
  have v2: "s_vlans (pl_sim ?p2) = s_vlans (pl_sim pl)" by simp
  have o2: "memb (pl_sim ?p2) lane = memb (pl_sim pl) lane" if "lane \<noteq> iface" for lane using that by (simp add: unmember_memb)
  show thesis
  proof (cases rule: one_diff[OF wo, of "have"])
    case 1
    then have p3: "?p3 = ?p2" by (simp add: last_or_zero_def)
    have "map_of (memb (pl_sim ?p3) iface) = (\<lambda>i. if map_of want i = Some False then Some False
       else if map_of have i = map_of want i then map_of have i else None)"
      unfolding p3 using m2 1 by (auto simp: fun_eq_iff)
    moreover have "plan_ok st only ?p3" "s_vlans (pl_sim ?p3) = s_vlans (pl_sim pl)" unfolding p3 by (rule ok2, rule v2)
    moreover have "memb (pl_sim ?p3) lane = memb (pl_sim pl) lane" if "lane \<noteq> iface" for lane unfolding p3 by (rule o2[OF that])
    ultimately show ?thesis by (intro that[OF eq])
  next
    case (2 a)
    then have au: "?au = a" "0 < a" by (simp_all add: last_or_zero_def)
    have only_a: "map_of want j = Some False \<Longrightarrow> j = a" for j using 2 wo by (simp add: ids_ok_def one_untagged_def)
    have acc: "sonic_accepts (EUntagged iface a) (pl_sim ?p2)"
    proof -
      have "map_of (memb (pl_sim ?p2) iface) j \<noteq> Some False" for j
      proof
        assume "map_of (memb (pl_sim ?p2) iface) j = Some False"
        then have e: "map_of have j = map_of want j" "map_of have j = Some False" unfolding m2 by (simp_all split: if_splits)
        then have "j = a" using only_a by simp
        with e 2(3) show False by simp
      qed
      moreover have "a \<in> set (s_vlans (pl_sim ?p2))" unfolding v2 using w 2(2) unfolding want_ok_def by blast
      ultimately show ?thesis using 2(4) by (simp only: sonic_accepts.simps) blast
    qed
    have ok3: "plan_ok st only ?p3" using au write_ok[OF ok2 acc] by simp
    have m3: "map_of (memb (pl_sim ?p3) iface) = (\<lambda>i. if map_of want i = Some False then Some False
       else if map_of have i = map_of want i then map_of have i else None)"
    proof
      fix i
      have p3: "memb (pl_sim ?p3) iface = AList.update a False (memb (pl_sim ?p2) iface)" using au by (simp add: memb_apply)
      show "map_of (memb (pl_sim ?p3) iface) i = (if map_of want i = Some False then Some False
        else if map_of have i = map_of want i then map_of have i else None)"
      proof (cases "i = a")
        case True with 2(2) show ?thesis unfolding p3 by simp
      next
        case False
        with only_a have "map_of want i \<noteq> Some False" by blast
        then show ?thesis unfolding p3 mlookup_update fun_upd_other[OF False] m2 by simp
      qed
    qed
    have "memb (pl_sim ?p3) lane = memb (pl_sim pl) lane" if "lane \<noteq> iface" for lane
      using au o2[OF that] that by (simp add: memb_apply)
    moreover have "s_vlans (pl_sim ?p3) = s_vlans (pl_sim pl)" using v2 by simp
    ultimately show ?thesis using ok3 m3 by (intro that[OF eq])
  qed
qed

lemma sync_to_ok:
  assumes ok: "plan_ok st only pl" and w: "want_ok (s_vlans (pl_sim pl)) want"
  shows "plan_ok st only (sync_to idx iface want pl)"
    and "map_of (memb (pl_sim (sync_to idx iface want pl)) iface) = map_of want"
    and "lane \<noteq> iface \<Longrightarrow> memb (pl_sim (sync_to idx iface want pl)) lane = memb (pl_sim pl) lane"
proof -
  let ?have = "memb (pl_sim pl) iface"
  obtain pl3 a where s: "sync_to idx iface want pl = vlanMembers idx iface True (sort (sync_diff True want ?have)) a 0 pl3"
    "plan_ok st only pl3" "s_vlans (pl_sim pl3) = s_vlans (pl_sim pl)"
    "map_of (memb (pl_sim pl3) iface) = (\<lambda>i. if map_of want i = Some False then Some False
       else if map_of ?have i = map_of want i then map_of ?have i else None)"
    "\<And>lane. lane \<noteq> iface \<Longrightarrow> memb (pl_sim pl3) lane = memb (pl_sim pl) lane"
    by (rule sync_steps[OF ok w, of idx iface], rule that)
  have tg: "i \<in> set (sort (sync_diff True want ?have)) \<longleftrightarrow> map_of want i = Some True \<and> map_of ?have i \<noteq> Some True" for i
    using in_sync_diff[of want i True ?have] w by (simp add: want_ok_def ids_ok_def)
  then have "list_all (\<lambda>i. 1 < i \<and> i \<le> 4094 \<and> i \<in> set (s_vlans (pl_sim pl3))) (sort (sync_diff True want ?have))"
    using w s(3) unfolding list_all_iff want_ok_def by metis
  with s(1,2) show "plan_ok st only (sync_to idx iface want pl)" by (simp add: tag_ok)
  show "map_of (memb (pl_sim (sync_to idx iface want pl)) iface) = map_of want"
  proof
    fix i
    have "map_of (memb (pl_sim (sync_to idx iface want pl)) iface) i
        = (if i \<in> set (sort (sync_diff True want ?have)) then Some True else map_of (memb (pl_sim pl3) iface) i)"
      by (simp add: s(1) tag_memb map_of_tags)
    with tg[of i] s(4) show "map_of (memb (pl_sim (sync_to idx iface want pl)) iface) i = map_of want i"
      using opt_bool[of "map_of want i"] by auto
  qed
  show "lane \<noteq> iface \<Longrightarrow> memb (pl_sim (sync_to idx iface want pl)) lane = memb (pl_sim pl) lane"
    by (simp add: s(1) tag_memb s(5))
qed

lemma missing_sim [simp]: "pl_sim (note_missing idx d pl) = pl_sim pl"
proof -
  have "pl_sim (fold (\<lambda>i. pl_note (f i)) xs q) = pl_sim q" for f :: "int \<Rightarrow> plan_note" and xs q
    by (induction xs arbitrary: q) auto
  then show ?thesis by (simp add: note_missing_def)
qed

lemma missing_ok [keeps]: "plan_ok st only pl \<Longrightarrow> plan_ok st only (note_missing idx d pl)"
  by (simp add: note_missing_def notes_ok)

lemma sync_ok [keeps]:
  assumes ok: "plan_ok st only pl"
  shows "plan_ok st only (syncVLANs idx iface d pl)"
proof (cases "wantVLANs d pl")
  case None with ok show ?thesis by (simp add: syncVLANs_def)
next
  case (Some want)
  from ok have "0 < pl_native pl" by (simp add: plan_ok_def)
  from sync_to_ok(1)[OF missing_ok[OF ok]] wantVLANs_ok[OF Some this] Some show ?thesis by (simp add: syncVLANs_def)
qed

end
