(* ===== verification/Sonic_Accept.thy ===== *)
theory Sonic_Accept
  imports Sonic_Plan_Props
begin

text \<open>
  Every part of a port push's plan keeps \<open>plan_ok\<close>: mirrors, aggregates, a port's state and speed,
  the VLANs' MTU. From it, the plan as a whole: every write is one SONiC accepts where it stands.
\<close>

section \<open>Mirrors\<close>

lemma mirror_removal_ok [keeps]: "plan_ok st only pl \<Longrightarrow> plan_ok st only (mirror_removal d pl)"
  by (simp add: mirror_removal_def Let_def add_ok)

lemma mirror_gone_frame: "portMirrorUnsupported (sw_apply (EMirrorGone n) s) = portMirrorUnsupported s"
  "map_of (s_mirrors (sw_apply (EMirrorGone n) s)) n = None"
  by (simp_all add: sw_apply.simps portMirrorUnsupported_def delete_conv')

lemma mirror_put_ok:
  assumes "plan_ok st only pl" "\<not> portMirrorUnsupported (pl_sim pl)"
  shows "plan_ok st only (mirror_put d dst src pl)"
proof -
  let ?name = "''dui'' @ itoa (pd_index d)"
  let ?p1 = "if map_of (s_mirrors (pl_sim pl)) ?name \<noteq> None
    then pl_add (pd_index d) (''config mirror_session remove '' @ ?name) (EMirrorGone ?name) pl else pl"
  let ?p2 = "stripVLANs (pd_index d) dst ?p1"
  have ok1: "plan_ok st only ?p1" using assms(1) by (simp add: add_ok)
  have "map_of (s_mirrors (pl_sim ?p1)) ?name = None" "\<not> portMirrorUnsupported (pl_sim ?p1)"
    using assms(2) mirror_gone_frame by auto
  then have "sonic_accepts (EMirror ?name dst src) (pl_sim ?p2)"
    unfolding sonic_accepts.simps by (simp only: strip_memb strip_frame portMirrorUnsupported_def if_True) simp
  from write_ok[OF strip_ok[OF ok1] this] show ?thesis unfolding mirror_put_def Let_def by blast
qed

lemma mirror_add_ok [keeps]: "plan_ok st only pl \<Longrightarrow> plan_ok st only (mirror_add d pl)"
  by (auto simp: mirror_add_def Let_def mirror_put_ok note_ok split: option.splits)

section \<open>Aggregates\<close>

lemma lag_leaves_ok [keeps]: "plan_ok st only pl \<Longrightarrow> plan_ok st only (lagLeaves ds pl)"
  unfolding lagLeaves_def
  by (intro fold_keeps[where P = "plan_ok st only"]) (auto simp: lag_leave_def Let_def add_ok)

lemma setLAGMTU_ok [keeps]: "plan_ok st only pl \<Longrightarrow> plan_ok st only (setLAGMTU idx pc mtu pl)"
  by (simp add: setLAGMTU_def add_ok)

lemma setLAGLACP_ok [keeps]: "plan_ok st only pl \<Longrightarrow> plan_ok st only (setLAGLACP idx pc pl)"
  by (simp add: setLAGLACP_def add_ok)

lemma sw_field_setField: "sw_field (setField l k v s) lane k' = (if lane = l \<and> k' = k then v else sw_field s lane k')"
  by (auto simp: sw_field_def setField_def mget_def delete_conv' Let_def split: option.splits)

lemma fits_mtu:
  assumes "sw_field (pl_sim pl) lane ''mtu'' = m"
  shows "sw_field (pl_sim (join_fits_mtu idx pc lane m pl)) lane ''mtu'' = []
    \<or> sw_field (pl_sim (join_fits_mtu idx pc lane m pl)) lane ''mtu'' = mget [] (s_lag_mtu (pl_sim (join_fits_mtu idx pc lane m pl))) pc"
  using assms
  by (auto simp: join_fits_mtu_def Let_def setLAGMTU_def sw_apply.simps sw_field_setField)
     (auto simp: sw_field_def setField_def mget_def Let_def)

lemma fits_mtu_ok: "plan_ok st only pl \<Longrightarrow> plan_ok st only (join_fits_mtu idx pc lane m pl)"
  by (simp add: join_fits_mtu_def Let_def add_ok setLAGMTU_ok)

lemma join_lane_ok [keeps]:
  assumes "plan_ok st only pl"
  shows "plan_ok st only (join_lane idx pc lane pl)"
proof -
  let ?m = "sw_field (pl_sim pl) lane ''mtu''"
  let ?p1 = "if map_of (s_lags (pl_sim pl)) pc = None
    then pl_add idx (''config portchannel add '' @ pc @ '' --fast-rate '' @ fst lacpWanted @ '' --min-links '' @ snd lacpWanted) (ELagNew pc) pl else pl"
  let ?p2 = "join_fits_mtu idx pc lane ?m ?p1"
  let ?p3 = "stripVLANs idx lane ?p2"
  have ok1: "plan_ok st only ?p1" using assms by (auto intro: write_ok)
  have "sw_field (pl_sim ?p1) lane ''mtu'' = ?m" by (simp add: sw_apply.simps sw_field_def)
  from fits_mtu[OF this, of idx pc] have "sonic_accepts (ELagJoin pc lane) (pl_sim ?p3)"
    unfolding sonic_accepts.simps strip_frame strip_memb by simp
  from write_ok[OF strip_ok[OF fits_mtu_ok[OF ok1]] this] assms show ?thesis
    by (simp add: join_lane_def Let_def)
qed

lemma lag_join_ok [keeps]:
  assumes "plan_ok st only pl"
  shows "plan_ok st only (lag_join ds lag pl)"
proof -
  let ?p1 = "fold (\<lambda>d pl. fold (join_lane (pd_index d) (pcName lag)) (lanes_at pl (pd_index d)) pl) (members_of ds lag) pl"
  have "plan_ok st only ?p1"
    by (rule fold_keeps[where P = "plan_ok st only", OF _ assms], rule fold_keeps[where P = "plan_ok st only"]) (auto intro: join_lane_ok)
  then show ?thesis by (simp add: lag_join_def Let_def sync_ok setLAGLACP_ok)
qed

lemma unbind_ok [keeps]: "plan_ok st only pl \<Longrightarrow> plan_ok st only (aclUnbind idx ifaces pl)"
  unfolding aclUnbind_def
  by (intro fold_keeps[where P = "plan_ok st only"])
    (auto simp: acl_unbind_table_def Let_def add_ok note_ok split: option.splits)

lemma lag_deletes_ok:
  assumes "plan_ok st only pl" "\<And>pc. pc \<in> set pcs \<Longrightarrow> lag_members (pl_sim pl) pc = []"
  shows "plan_ok st only (fold lag_delete pcs pl)"
  using assms
proof (induction pcs arbitrary: pl)
  case (Cons pc pcs)
  from Cons.prems have "lag_members (pl_sim pl) pc = []" by simp
  then have "sonic_accepts (ELagGone pc) (pl_sim (stripVLANs 0 pc pl))"
    by (simp add: strip_memb lag_members_def)
  from write_ok[OF strip_ok[OF Cons.prems(1)] this] have ok: "plan_ok st only (lag_delete pc pl)" by (simp add: lag_delete_def)
  have "lag_members (pl_sim (lag_delete pc pl)) q = []" if "q \<in> set pcs" for q
    using Cons.prems(2)[of q] that by (auto simp: lag_delete_def sw_apply.simps lag_members_def mget_def delete_conv')
  with Cons.IH[OF ok] show ?case by simp
qed simp

lemma lag_joins_ok [keeps]:
  assumes "plan_ok st only pl"
  shows "plan_ok st only (lagJoins ds pl)"
proof -
  let ?p1 = "if joining_lanes ds pl = [] then pl else aclUnbind (pd_index (hd (members_of ds (hd (lag_ids ds))))) (joining_lanes ds pl) pl"
  let ?p2 = "fold (lag_join ds) (lag_ids ds) ?p1"
  have ok2: "plan_ok st only ?p2" using assms by (intro fold_keeps[where P = "plan_ok st only"]) (simp_all add: lag_join_ok unbind_ok)
  have "plan_ok st only (fold lag_delete (empty_lags ds ?p2) ?p2)"
    by (rule lag_deletes_ok[OF ok2]) (simp add: empty_lags_def)
  then show ?thesis by (simp add: lagJoins_def Let_def)
qed

section \<open>Speed\<close>

lemma lane_speeds_ok: "plan_ok st only pl \<Longrightarrow> (own \<Longrightarrow> \<not> only) \<Longrightarrow> plan_ok st only (lane_speeds own idx want lanes pl)"
  unfolding lane_speeds_def
  by (intro fold_keeps[where P = "plan_ok st only"]) (simp_all add: lane_speed_def Let_def write_ok)

lemma first_some_all: "first_some f xs = None \<longleftrightarrow> list_all (\<lambda>x. f x = None) xs"
  by (induction xs) (auto split: option.splits)

lemma mgmt_frame: "cagePorts (sw_apply EMgmtPort s) = cagePorts s" "held_lane (sw_apply EMgmtPort s) = held_lane s"
  "s_mgmt_no_gateway (sw_apply EMgmtPort s) = s_mgmt_no_gateway s" "ntp_source (sw_apply EMgmtPort s) = ntp_source s"
  "s_mgmt_port_missing (sw_apply EMgmtPort s) = False"
  by (simp_all add: sw_apply.simps cagePorts_def held_lane_def lagOf_def mirrorTo_def ntp_source_def fun_eq_iff)

lemma refold_ok [keeps]: "plan_ok st only pl \<Longrightarrow> plan_ok st only (refold idx cage pl)"
  unfolding plan_ok_def by (auto simp: refold_def Let_def)

lemma do_breakout_ok:
  assumes ok: "plan_ok st only pl" and own: "own \<Longrightarrow> \<not> only"
    and free: "breakoutBlocked d cage pl = None" "s_mgmt_no_gateway (pl_sim pl) = []" "\<not> starts ''Vlan'' (ntp_source (pl_sim pl))"
  shows "plan_ok st only (do_breakout own idx cage parent mode chs pl)"
proof -
  let ?p1 = "if s_mgmt_port_missing (pl_sim pl)
    then pl_write own idx ''sonic-db-cli CONFIG_DB hset 'MGMT_PORT|eth0' alias eth0 admin_status up'' EMgmtPort (pl_note (MgmtRowAdded idx) pl) else pl"
  have ok1: "plan_ok st only ?p1" using ok own by (auto intro!: write_ok note_ok)
  from free(1) have "list_all (\<lambda>l. held_lane (pl_sim pl) l = None) (cagePorts (pl_sim pl) cage)"
    by (simp add: breakoutBlocked_def first_some_all split: if_splits)
  with free(2,3) have "sonic_accepts (EBreakout parent cage chs mode) (pl_sim ?p1)" by (simp add: mgmt_frame)
  from write_ok[OF ok1 this own] show ?thesis by (simp add: do_breakout_def Let_def refold_ok)
qed

lemma change_mode_ok:
  assumes "plan_ok st only pl" "own \<Longrightarrow> \<not> only"
  shows "case change_mode own p d want parent pp pl of Inl q \<Rightarrow> plan_ok st only q | Inr q \<Rightarrow> plan_ok st only q"
  using assms by (auto simp: change_mode_def Let_def note_ok do_breakout_ok split: option.split sum.split)

lemma breakoutSpeed_ok:
  assumes "plan_ok st only pl" "own \<Longrightarrow> \<not> only"
  shows "plan_ok st only (breakoutSpeed own p d want parent pp pl)"
  using assms change_mode_ok[of st only pl own p d want parent pp]
  by (auto simp: breakoutSpeed_def Let_def note_ok lane_speeds_ok split: option.split sum.splits)

lemma force_speed_ok [keeps]: "plan_ok st only pl \<Longrightarrow> plan_ok st only (force_speed p d want lanes pl)"
  by (auto simp: force_speed_def Let_def note_ok lane_speeds_ok breakoutSpeed_ok split: option.split prod.split)

lemma moduleSpeed_ok:
  assumes "plan_ok st only pl"
  shows "case moduleSpeed p d lanes pl of Inl q \<Rightarrow> plan_ok st only q | Inr q \<Rightarrow> plan_ok st only q"
proof -
  have only: "pl_only pl = only" using assms by (simp add: plan_ok_def)
  show ?thesis using assms
    by (auto simp: moduleSpeed_def Let_def only note_ok lane_speeds_ok breakoutSpeed_ok split: option.split prod.split)
qed

lemma autoneg_ok: "plan_ok st only pl \<Longrightarrow> plan_ok st only (fold (autoneg_lane idx) lanes pl)"
  by (intro fold_keeps[where P = "plan_ok st only"]) (auto simp: autoneg_lane_def add_ok)

lemma port_speed_ok [keeps]: "plan_ok st only pl \<Longrightarrow> plan_ok st only (port_speed p d lanes pl)"
  using moduleSpeed_ok[of st only pl p d lanes]
  by (auto simp: port_speed_def Let_def force_speed_ok autoneg_ok split: sum.splits)

section \<open>One port, and the whole plan\<close>

lemma admin_ok [keeps]: "plan_ok st only pl \<Longrightarrow> plan_ok st only (admin_lane d lane pl)"
  by (simp add: admin_lane_def add_ok)

lemma name_ok [keeps]: "plan_ok st only pl \<Longrightarrow> plan_ok st only (name_lane d lane pl)"
  by (simp add: name_lane_def Let_def add_ok)

lemma fec_ok [keeps]:
  assumes "plan_ok st only pl"
  shows "plan_ok st only (fec_lane d lane pl)"
proof -
  obtain own n f where c: "fec_choice d lane pl = (own, n, f)" by (cases "fec_choice d lane pl")
  have only: "pl_only pl = only" using assms by (simp add: plan_ok_def)
  from c have own: "own \<Longrightarrow> f \<noteq> None \<Longrightarrow> \<not> only"
    by (auto simp: fec_choice_def module_fec_def Let_def only split: option.splits if_splits)
  let ?p1 = "case n of None \<Rightarrow> pl | Some x \<Rightarrow> pl_note x pl"
  have ok1: "plan_ok st only ?p1" using assms by (simp add: note_ok split: option.split)
  then have "plan_ok st only (write_fec own (pd_index d) lane v ?p1)" if "f = Some v" for v
    using own that by (auto simp: write_fec_def Let_def intro: write_ok)
  with ok1 show ?thesis by (simp add: fec_lane_def c Let_def split: option.split)
qed

lemma member_mtu_ok: "plan_ok st only pl \<Longrightarrow> plan_ok st only (member_mtu idx lane want pl)"
  by (simp add: member_mtu_def add_ok)

lemma mtu_ok [keeps]: "plan_ok st only pl \<Longrightarrow> plan_ok st only (mtu_lane d lane pl)"
  by (simp add: mtu_lane_def Let_def add_ok member_mtu_ok setLAGMTU_ok)

lemma storm_ok [keeps]: "plan_ok st only pl \<Longrightarrow> plan_ok st only (stormOps d lane pl)"
  unfolding stormOps_def Let_def
  by (intro fold_keeps[where P = "plan_ok st only"]) (auto simp: storm_one_def Let_def add_ok split: option.splits)

lemma stp_ok [keeps]: "plan_ok st only pl \<Longrightarrow> plan_ok st only (stpOps d lane pl)"
  by (simp add: stpOps_def Let_def bpdu_ops_def stp_edge_ops_def add_ok)

lemma port_state_ok [keeps]:
  assumes "plan_ok st only pl"
  shows "plan_ok st only (portState d pl)"
  unfolding portState_def Let_def
  by (intro fold_keeps[where P = "plan_ok st only"]) (simp_all add: lane_state_def assms port_speed_ok admin_ok name_ok fec_ok mtu_ok storm_ok stp_ok)

lemma vlan_mtus_ok [keeps]:
  assumes "plan_ok st only pl"
  shows "plan_ok st only (vlanMTUs ds pl)"
proof -
  have "plan_ok st only (vlan_mtu_one want kmtu i q)" if "plan_ok st only q" for want kmtu i q
    using that by (simp add: vlan_mtu_one_def Let_def add_ok)
  then have "plan_ok st only (fold (vlan_mtu_one want kmtu) xs pl)" for want kmtu xs
    by (rule fold_keeps[where P = "plan_ok st only", OF _ assms])
  with assms show ?thesis by (simp add: vlanMTUs_def Let_def)
qed

lemma port_vlans_ok [keeps]:
  assumes "plan_ok st only pl"
  shows "plan_ok st only (port_vlans d pl)"
proof -
  have "plan_ok st only (fold (\<lambda>lane. syncVLANs (pd_index d) lane d) xs pl)" for xs
    by (rule fold_keeps[where P = "plan_ok st only", OF sync_ok assms])
  with assms show ?thesis by (simp add: port_vlans_def)
qed

lemma plan_all_ok:
  assumes "plan_ok st only pl"
  shows "plan_ok st only (plan_all ds pl)"
  unfolding plan_all_def
  by (intro vlan_mtus_ok fold_keeps[where P = "plan_ok st only" and f = mirror_add] mirror_add_ok lag_joins_ok
    fold_keeps[where P = "plan_ok st only" and f = port_vlans] port_vlans_ok
    fold_keeps[where P = "plan_ok st only" and f = portState] port_state_ok lag_leaves_ok
    fold_keeps[where P = "plan_ok st only" and f = mirror_removal] mirror_removal_ok assms)

lemma admits_ok: "plan_ok st only (fst acc) \<Longrightarrow> plan_ok st only (fst (fold admit ds acc))"
  by (rule fold_keeps[where P = "\<lambda>acc. plan_ok st only (fst acc)"]) (auto simp: admit_def note_ok split: prod.splits)

lemma first_plan_ok: "members_ok st \<Longrightarrow> 0 < sc_native c \<Longrightarrow> plan_ok st only (first_plan c ports st only)"
  by (simp add: plan_ok_def first_plan_def run_ops_def)

lemma newPlan_ok:
  assumes "newPlan c desired only = Some pl" "ac_state c = Some st" "members_ok st" "0 < sc_native c"
  shows "plan_ok st only pl"
proof -
  from assms(1,2) obtain ports where p: "sc_ports c = Some ports"
    "pl = plan_all (snd (fold admit desired (first_plan c ports st only, []))) (fst (fold admit desired (first_plan c ports st only, [])))"
    by (auto simp: newPlan_def split: option.splits prod.splits)
  with plan_all_ok[OF admits_ok] first_plan_ok[OF assms(3,4)] show ?thesis by simp
qed

end
