(* ===== verification/Sonic_Port_Props.thy ===== *)
theory Sonic_Port_Props
  imports Sonic_Accept
begin

text \<open>The properties of a port push on SONiC, with a switch to try them on.\<close>

section \<open>A second diff is empty\<close>

lemma sync_diff_same: "map_of a = map_of b \<Longrightarrow> distinct (map fst a) \<Longrightarrow> sync_diff t a b = []"
  unfolding sync_diff_def by (auto simp: filter_empty_conv simp del: map_of_eq_Some_iff) (metis map_of_is_SomeI)

lemma members_frame:
  "pl_native (vlanMembers idx iface add ids u a pl) = pl_native pl \<and> pl_site (vlanMembers idx iface add ids u a pl) = pl_site pl"
proof -
  let ?Q = "\<lambda>q. pl_native q = pl_native pl \<and> pl_site q = pl_site pl"
  have "?Q (drop_statics idx iface ids pl)" unfolding drop_statics_def
    by (rule fold_keeps[where P = ?Q], rule fold_keeps[where P = ?Q]) auto
  then show ?thesis by (simp add: vlanMembers_def)
qed

lemma missing_frame: "pl_native (note_missing idx d pl) = pl_native pl \<and> pl_site (note_missing idx d pl) = pl_site pl
    \<and> pl_ops (note_missing idx d pl) = pl_ops pl"
proof -
  have "pl_native (fold (\<lambda>i. pl_note (f i)) xs q) = pl_native q \<and> pl_site (fold (\<lambda>i. pl_note (f i)) xs q) = pl_site q
    \<and> pl_ops (fold (\<lambda>i. pl_note (f i)) xs q) = pl_ops q" for f :: "int \<Rightarrow> plan_note" and xs q
    by (induction xs arbitrary: q) auto
  then show ?thesis by (simp add: note_missing_def)
qed

lemma sync_to_frame: "pl_native (sync_to idx iface want pl) = pl_native pl" "pl_site (sync_to idx iface want pl) = pl_site pl"
  by (simp_all add: sync_to_def Let_def members_frame)

lemma sync_to_vlans: "s_vlans (pl_sim (sync_to idx iface want pl)) = s_vlans (pl_sim pl)"
proof -
  have "s_vlans (pl_sim (vlanMembers idx iface True ids u a q)) = s_vlans (pl_sim q)" for ids u a q
    by (simp add: vlanMembers_def)
  then show ?thesis by (simp add: sync_to_def Let_def)
qed

lemma want_cong: "pl_native q = pl_native pl \<Longrightarrow> pl_site q = pl_site pl \<Longrightarrow> s_vlans (pl_sim q) = s_vlans (pl_sim pl) \<Longrightarrow>
  wantVLANs d q = wantVLANs d pl"
proof -
  assume a: "pl_native q = pl_native pl" "pl_site q = pl_site pl" "s_vlans (pl_sim q) = s_vlans (pl_sim pl)"
  then have "sonicID q = sonicID pl" by (simp add: sonicID_def fun_eq_iff)
  with a show ?thesis by (simp add: wantVLANs_def wanted_all_def wanted_tagged_def wanted_untagged_def Let_def)
qed

lemma sync_to_idle:
  assumes "map_of (memb (pl_sim pl) iface) = map_of want" "distinct (map fst want)" "distinct (map fst (memb (pl_sim pl) iface))"
  shows "sync_to idx iface want pl = pl"
proof -
  have "sync_diff t (memb (pl_sim pl) iface) want = []" "sync_diff t want (memb (pl_sim pl) iface) = []" for t
    using sync_diff_same assms by metis+
  then show ?thesis by (simp add: sync_to_def Let_def vlanMembers_def last_or_zero_def flip: memb_def)
qed

section \<open>A switch\<close>

definition demo_row :: "string \<Rightarrow> fields" where
  "demo_row n = [(''admin_status'', ''up''), (''speed'', ''100''), (''mtu'', n)]"

definition demo_st :: sw_state where
  "demo_st = demo_sw\<lparr>s_port := [(''Ethernet0'', demo_row ''9''), (''Ethernet4'', demo_row ''9'')], s_vlans := [2, 10, 20],
     s_members := [(''Ethernet0'', [(10, False), (20, True)]), (''Ethernet4'', [(2, False), (10, True), (20, True)])],
     s_lags := [], s_acl_tables := [], s_acl_rules := []\<rparr>"

definition demo_port :: "int \<Rightarrow> string \<Rightarrow> sonic_port" where
  "demo_port i n = no_port\<lparr>po_index := i, po_ifname := n\<rparr>"

definition demo_col :: sonic_col where
  "demo_col = \<lparr>ac_state = Some demo_st, ac_want = [], ac_written = False,
     sc_ports = Some [demo_port 1 ''Ethernet0'', demo_port 2 ''Ethernet4''], sc_native = 2, sc_site = [10, 20]\<rparr>"

definition demo_pd :: "int \<Rightarrow> int \<Rightarrow> port_desired" where
  "demo_pd i lag = \<lparr>pd_index = i, pd_enabled = True, pd_description = [], pd_speed = 0, pd_vlan_set = True, pd_native = 1,
     pd_tagged_all = False, pd_tagged = [10], pd_fec = None, pd_storm = None, pd_bpdu = False, pd_stp_edge = False,
     pd_edge_mode = [], pd_loop_protect = False, pd_lag = lag, pd_mirror = 0, pd_mtu = 0\<rparr>"

definition demo_ports :: "port_desired list" where
  "demo_ports = [demo_pd 1 0]"

lemma demo_members: "members_ok demo_st"
  by (auto simp: members_ok_def demo_st_def memb_def mget_def ids_ok_def one_untagged_def)

lemma demo_planned: "newPlan demo_col demo_ports only = Some (the (newPlan demo_col demo_ports only))"
  by (simp add: newPlan_def demo_col_def split: prod.split)

lemma demo_commands: "map op_cmd (pl_ops (the (newPlan demo_col demo_ports False))) =
  [''sudo config vlan member del 20 Ethernet0'', ''sudo config vlan member del 10 Ethernet0'',
   ''sudo config vlan member add -u 2 Ethernet0'', ''sudo config vlan member add 10 Ethernet0'']"
  by code_simp


section \<open>The properties\<close>



text \<open>
  The plan the first-push hold asks for holds no write of the driver's own (the FEC and the speed
  a module calls for), and the ports it names are exactly those of its writes.
\<close>

theorem sonic_hold_sees_only_the_push:
  assumes "newPlan c desired True = Some pl" "ac_state c = Some st" "members_ok st" "0 < sc_native c"
  shows "pl_own pl = [] \<and> set (PlanPorts c desired) = {i \<in> op_idx ` set (pl_ops pl). 0 < i}"
  using newPlan_ok[OF assms] assms(1) unfolding plan_ok_def by (simp add: PlanPorts_def)

theorem sonic_hold_sees_only_the_push_witness:
  "pl_own (the (newPlan demo_col demo_ports True)) = []
   \<and> set (PlanPorts demo_col demo_ports) = {i \<in> op_idx ` set (pl_ops (the (newPlan demo_col demo_ports True))). 0 < i}"
  using sonic_hold_sees_only_the_push[OF demo_planned _ demo_members] by (simp add: demo_col_def)

text \<open>
  C36. Syncing an interface brings its VLAN memberships to exactly what the push asks for, of the VLANs
  the switch carries, leaves every other interface's alone, and a second sync plans nothing.
\<close>

theorem sonic_vlans_reach_the_push:
  assumes "plan_ok st only pl" "wantVLANs d pl = Some want"
  shows "map_of (memb (pl_sim (syncVLANs idx iface d pl)) iface) = map_of want
    \<and> (lane \<noteq> iface \<longrightarrow> memb (pl_sim (syncVLANs idx iface d pl)) lane = memb (pl_sim pl) lane)
    \<and> pl_ops (syncVLANs idx iface d (syncVLANs idx iface d pl)) = pl_ops (syncVLANs idx iface d pl)"
proof -
  let ?p0 = "note_missing idx d pl" let ?p1 = "sync_to idx iface want ?p0"
  from assms(1) have n: "0 < pl_native pl" by (simp add: plan_ok_def)
  have w: "want_ok (s_vlans (pl_sim ?p0)) want" using wantVLANs_ok[OF assms(2) n] by simp
  note s = sync_to_ok[OF missing_ok[OF assms(1), of idx d] w, where idx = idx and iface = iface]
  have p1: "syncVLANs idx iface d pl = ?p1" using assms(2) by (simp add: syncVLANs_def)
  have "wantVLANs d ?p1 = Some want"
    using assms(2) want_cong[of ?p1 pl d] by (simp add: sync_to_frame sync_to_vlans missing_frame)
  then have again: "syncVLANs idx iface d ?p1 = sync_to idx iface want (note_missing idx d ?p1)" by (simp add: syncVLANs_def)
  have "sync_to idx iface want (note_missing idx d ?p1) = note_missing idx d ?p1"
    by (rule sync_to_idle) (use s w plan_ok_members[OF s(1)] in \<open>simp_all add: want_ok_def ids_ok_def\<close>)
  with again s(2,3) show ?thesis by (simp add: p1 missing_frame)
qed

theorem sonic_vlans_reach_the_push_witness:
  "map_of (memb (pl_sim (syncVLANs 1 ''Ethernet0'' (demo_pd 1 0) (first_plan demo_col [] demo_st False))) ''Ethernet0'')
     = map_of [(2, False), (10, True)]"
proof -
  have ok: "plan_ok demo_st False (first_plan demo_col [] demo_st False)"
    by (rule first_plan_ok[OF demo_members]) (simp add: demo_col_def)
  have "wantVLANs (demo_pd 1 0) (first_plan demo_col [] demo_st False) = Some [(2, False), (10, True)]"
    by (simp add: wantVLANs_def vlans_named_def wanted_all_def wanted_tagged_def wanted_untagged_def sonicID_def Let_def
      first_plan_def demo_col_def demo_pd_def demo_st_def)
  from sonic_vlans_reach_the_push[OF ok this] show ?thesis by blast
qed

text \<open>
  Once \<open>EnsureVLANs\<close> has run, every VLAN of the site exists on the switch (VLAN 1 as the
  stand-in), none is gone, and asking again writes nothing.
\<close>

theorem sonic_ensure_vlans_completes:
  assumes "EnsureVLANs run ids c = (Inr n, c')" "ac_state c = Some st" "\<And>cmds. snd (run cmds) = None"
  shows "(\<exists>st'. ac_state c' = Some st' \<and> set (s_vlans st') = set (s_vlans st) \<union> set (site_ids (sc_native c) ids))
    \<and> EnsureVLANs run' ids c' = (Inr 0, c')"
proof -
  let ?ids = "site_ids (sc_native c) ids" let ?missing = "sort (filter (\<lambda>i. i \<notin> set (s_vlans st)) ?ids)"
  let ?c1 = "c\<lparr>sc_site := sort (filter (\<lambda>i. i \<noteq> sc_native c) ?ids)\<rparr>"
  from assms(1) have native: "sc_native c \<notin> set ids" by (auto simp: EnsureVLANs_def split: if_splits)
  show ?thesis
  proof (cases "?missing = []")
    case True
    then have "set ?missing = {}" by simp
    then have "set ?ids \<subseteq> set (s_vlans st)" by auto
    moreover have "c' = ?c1" using assms(1,2) native True by (simp add: EnsureVLANs_def Let_def)
    ultimately show ?thesis using assms(2) native True by (auto simp: EnsureVLANs_def Let_def)
  next
    case False
    let ?mtu = "lowest_mtu (sc_ports c)"
    let ?st = "made_vlans ?missing ?mtu st"
    obtain err where run: "run (vlan_cmds ?missing ?mtu) = (err, None)" using assms(3) by (metis prod.collapse)
    have c': "c' = ?c1\<lparr>ac_state := Some ?st\<rparr>"
      using assms(1,2) native False run by (auto simp: EnsureVLANs_def Let_def split: option.splits)
    have vl: "set (s_vlans ?st) = set (s_vlans st) \<union> set ?ids" by (auto simp: made_vlans_def)
    then have "filter (\<lambda>i. i \<notin> set (s_vlans ?st)) ?ids = []" by (auto simp: filter_empty_conv)
    then have "EnsureVLANs run' ids c' = (Inr 0, c')" using native by (simp add: EnsureVLANs_def Let_def c')
    with vl show ?thesis by (simp add: c')
  qed
qed

lemma demo_ensure: "fst (EnsureVLANs (\<lambda>_. (None, None)) [1, 10, 30] demo_col) = Inr 1"
  by code_simp

theorem sonic_ensure_vlans_completes_witness:
  "let c' = snd (EnsureVLANs (\<lambda>_. (None, None)) [1, 10, 30] demo_col) in EnsureVLANs (\<lambda>_. (Some ''down'', None)) [1, 10, 30] c' = (Inr 0, c')"
proof -
  have "EnsureVLANs (\<lambda>_. (None, None)) [1, 10, 30] demo_col = (Inr 1, snd (EnsureVLANs (\<lambda>_. (None, None)) [1, 10, 30] demo_col))"
    using demo_ensure by (metis prod.collapse)
  from sonic_ensure_vlans_completes[OF this, of demo_st "\<lambda>_. (Some ''down'', None)"] show ?thesis by (simp add: demo_col_def Let_def)
qed

text \<open>
  A site with no VLAN but the default: the remembered list is empty, which the plan takes for "not
  known yet", so "Allow All" tags every VLAN the switch still carries.
\<close>

lemma sonic_empty_site_allows_every_vlan:
  assumes "ac_state c = Some st0" "2 \<le> sc_native c" "EnsureVLANs run [1] c = (r, c')"
  shows "sc_site c' = [] \<and> set (pl_site (first_plan c' ports st only)) = set (s_vlans st) - {sc_native c}"
proof -
  from assms(2) have ids: "filter (\<lambda>i. i \<noteq> sc_native c) (site_ids (sc_native c) [1]) = []" by (auto simp: site_ids_def filter_empty_conv)
  have "sc_site c' = [] \<and> sc_native c' = sc_native c"
    using assms ids by (auto simp: EnsureVLANs_def Let_def split: if_splits prod.splits option.splits)
  then show ?thesis by (auto simp: first_plan_def)
qed

section \<open>Breakouts\<close>

fun chunks :: "nat \<Rightarrow> nat \<Rightarrow> 'a list \<Rightarrow> 'a list list" where
  "chunks per 0 xs = []"
| "chunks per (Suc n) xs = take per xs # chunks per n (drop per xs)"

lemma concat_chunks: "concat (chunks per n xs) = take (n * per) xs"
  by (induction n arbitrary: xs) (simp_all add: take_add)

lemma chunks_nth: "chunks per n xs = map (\<lambda>i. take per (drop (i * per) xs)) [0..<n]"
proof (induction n arbitrary: xs)
  case (Suc n)
  have "map (\<lambda>i. take per (drop (i * per) (drop per xs))) [0..<n] = map (\<lambda>i. take per (drop (Suc i * per) xs)) [0..<n]"
    by (simp add: add.commute)
  also have "\<dots> = map (\<lambda>i. take per (drop (i * per) xs)) (map Suc [0..<n])" by simp
  finally show ?case using Suc by (simp add: map_Suc_upt upt_conv_Cons del: upt_Suc)
qed simp

text \<open>
  The ports a breakout mode makes share the cage's lanes out: each takes the same number of them,
  in order, and together they take exactly those the mode assigns, none twice; their names differ,
  and each carries the parent's index, so the cage is read back as one.
\<close>

theorem sonic_breakout_shares_the_lanes:
  assumes "children pp parent m = Inr chs" "0 < bm_ports m" "0 \<le> bm_assigned m"
  shows "int (length chs) = bm_ports m
    \<and> (\<exists>per. 0 < per \<and> map (\<lambda>c. mget [] (ch_fields c) ''lanes'') chs = map (join '','') (chunks per (length chs) (cage_lanes pp))
         \<and> concat (chunks per (length chs) (cage_lanes pp)) = take (nat (mode_lanes pp m)) (cage_lanes pp)
         \<and> int (length chs * per) = mode_lanes pp m)
    \<and> distinct (map ch_name chs)"
proof -
  let ?per = "nat (go_quot (mode_lanes pp m) (bm_ports m))" let ?n = "nat (bm_ports m)"
  let ?al = "mget [] (pp_modes pp) (bm_name m)"
  have nonneg: "0 \<le> mode_lanes pp m" using assms(3) by (simp add: mode_lanes_def)
  from assms have chs: "chs = map (child_at pp ?al (ifNum parent) m ?per) [0..<?n]"
    and rem: "go_rem (mode_lanes pp m) (bm_ports m) = 0" and per: "go_quot (mode_lanes pp m) (bm_ports m) \<noteq> 0"
    by (auto simp: children_def Let_def split: if_splits)
  have "0 \<le> mode_lanes pp m div bm_ports m" using nonneg assms(2) by (simp add: pos_imp_zdiv_nonneg_iff)
  with per have p: "0 < ?per" using nonneg assms(2) by (simp add: go_quot_nonneg)
  have "mode_lanes pp m = bm_ports m * (mode_lanes pp m div bm_ports m)"
    using rem nonneg assms(2) by (simp add: go_rem_nonneg mod_eq_0_iff_dvd)
  then have tot: "int (?n * ?per) = mode_lanes pp m"
    using nonneg assms(2) by (simp add: go_quot_nonneg pos_imp_zdiv_nonneg_iff)
  have len: "length chs = ?n" by (simp add: chs)
  have "map (\<lambda>c. mget [] (ch_fields c) ''lanes'') chs = map (join '','') (chunks ?per ?n (cage_lanes pp))"
    by (simp add: chs chunks_nth child_at_def Let_def mget_def)
  moreover have "distinct (map ch_name chs)"
    using p by (auto simp: chs distinct_map inj_on_def child_at_def Let_def)
  moreover have "concat (chunks ?per ?n (cage_lanes pp)) = take (nat (mode_lanes pp m)) (cage_lanes pp)"
  proof -
    from tot have "nat (mode_lanes pp m) = ?n * ?per" by (metis nat_int)
    then show ?thesis by (simp only: concat_chunks)
  qed
  moreover have "int ?n = bm_ports m" using assms(2) by simp
  ultimately show ?thesis using p tot unfolding len by blast
qed

definition demo_pp :: platform_port where
  "demo_pp = \<lparr>pp_index = ''2,2'', pp_lanes = ''5,6'', pp_modes = [(''2x5'', [''a'', ''b''])]\<rparr>"

definition demo_mode :: brk_mode where
  "demo_mode = \<lparr>bm_name = ''2x5'', bm_ports = 2, bm_def = 5, bm_speeds = [5], bm_assigned = 0\<rparr>"

lemma demo_children: "map ch_name (projr (children demo_pp ''Ethernet4'' demo_mode)) = [''Ethernet4'', ''Ethernet5'']
    \<and> isl (children demo_pp ''Ethernet4'' demo_mode) = False"
  by code_simp

theorem sonic_breakout_shares_the_lanes_witness:
  "concat (chunks 1 2 (cage_lanes demo_pp)) = cage_lanes demo_pp \<and> distinct (map ch_name (projr (children demo_pp ''Ethernet4'' demo_mode)))"
proof -
  have c: "children demo_pp ''Ethernet4'' demo_mode = Inr (projr (children demo_pp ''Ethernet4'' demo_mode))"
    using demo_children by (metis sum.collapse(2))
  have "cage_lanes demo_pp = [''5'', ''6'']" by code_simp
  with sonic_breakout_shares_the_lanes[OF c] show ?thesis by (auto simp: demo_mode_def mode_lanes_def numeral_2_eq_2)
qed

text \<open>A cage without lanes: the rate is divided by zero lanes per port.\<close>

lemma sonic_breakout_panics_without_lanes:
  assumes "cage_lanes pp = []" "bm_assigned m = 0" "0 < bm_ports m" "bm_ports m \<le> int (length (mget [] (pp_modes pp) (bm_name m)))"
  shows "children pp parent m = Inl DividesByZero"
  using assms by (simp add: children_def mode_lanes_def go_rem_def go_quot_def Let_def)

end
