(* ===== verification/Sonic_L2.thy ===== *)
theory Sonic_L2
  imports Sonic_Ports
begin

text \<open>
  \<^verbatim>\<open>internal/drivers/sonic/l2.go\<close>, the write side: spanning tree and loop protection through
  disunified-l2d. The scripts the driver installs, the SHA-256 and the clock come with \<open>l2_env\<close>; what
  the switch answers is the function \<open>run\<close> and, for the fresh connections, \<open>l2_dial\<close>. A step of the
  shell script is a datatype, \<open>l2_line\<close> its text.
\<close>

section \<open>The intent\<close>

record l2_want =
  lw_stp_set :: bool
  lw_stp :: bool
  lw_version :: string
  lw_priority :: int
  lw_ports_set :: bool
  lw_ports :: "(string \<times> l2_port) list"
  lw_guard :: "string list"
  lw_off_seen :: bool
  lw_tried :: "int option"
  lw_deadman_seen :: string

text \<open>The zero want of a fresh collector.\<close>

definition l2_no_want :: l2_want where
  "l2_no_want = \<lparr>lw_stp_set = False, lw_stp = False, lw_version = [], lw_priority = 0, lw_ports_set = False, lw_ports = [],
     lw_guard = [], lw_off_seen = False, lw_tried = None, lw_deadman_seen = []\<rparr>"

record l2_col = sonic_col +
  lc_on :: bool
  lc_want :: l2_want
  lc_ifnames :: "string list alist"

definition anyPortSetting :: "l2_want \<Rightarrow> bool" where
  "anyPortSetting w \<longleftrightarrow> lw_guard w \<noteq> [] \<or> list_ex (\<lambda>(n, p). l2p_bpdu_guard p \<or> \<not> l2p_enabled p) (lw_ports w)"

definition l2_conf_of :: "l2_want \<Rightarrow> l2_conf" where
  "l2_conf_of w = \<lparr>l2c_stp = lw_stp w, l2c_version = (if lw_version w = [] then ''rstp'' else lw_version w),
     l2c_priority = (if lw_priority w = 0 then 32768 else lw_priority w),
     l2c_ports = (if lw_ports_set w then Some (lw_ports w) else None),
     l2c_guard = (lw_guard w \<noteq> []), l2c_threshold = 10, l2c_interval = 5, l2c_hold = 150,
     l2c_guard_ports = lw_guard w, l2c_deadman = []\<rparr>"

definition l2SetSTP :: "device_desired \<Rightarrow> l2_want \<Rightarrow> l2_want" where
  "l2SetSTP d w = (if \<not> dd_stp_set d then w
     else w\<lparr>lw_stp_set := True, lw_stp := dd_stp_enabled d, lw_version := to_lower (dd_stp_mode d),
            lw_priority := dd_stp_priority d, lw_off_seen := lw_off_seen w \<or> \<not> dd_stp_enabled d\<rparr>)"

text \<open>The kernel's bridge ports of a cage: its interfaces, or the PortChannel it is a member of.\<close>

definition bridge_ports :: "sw_state \<Rightarrow> string list \<Rightarrow> string list" where
  "bridge_ports st ifs = (if lagOf st (hd ifs) = [] then ifs else [lagOf st (hd ifs)])"

definition l2_port_of :: "port_desired \<Rightarrow> l2_port" where
  "l2_port_of d = \<lparr>l2p_enabled = (\<not> pd_stp_edge d), l2p_edge = (if pd_edge_mode d = [] then ''auto'' else pd_edge_mode d),
     l2p_bpdu_guard = pd_bpdu d\<rparr>"

fun l2_take :: "port_desired \<Rightarrow> string \<Rightarrow> (string \<times> l2_port) list \<times> string list \<Rightarrow> (string \<times> l2_port) list \<times> string list" where
  "l2_take d n (ps, g) = (if n \<in> fst ` set ps then (ps, g)
     else (ps @ [(n, l2_port_of d)], if pd_loop_protect d then g @ [n] else g))"

definition l2_take_port where
  "l2_take_port ifn st d acc = (let ifs = mget [] ifn (pd_index d) in
     if ifs = [] then acc else fold (l2_take d) (bridge_ports st ifs) acc)"

definition l2SetPorts :: "string list alist \<Rightarrow> port_desired list \<Rightarrow> sw_state \<Rightarrow> l2_want \<Rightarrow> l2_want" where
  "l2SetPorts ifn ds st w = (case fold (l2_take_port ifn st) ds ([], []) of
     (ps, g) \<Rightarrow> w\<lparr>lw_ports_set := True, lw_ports := ps, lw_guard := sort g\<rparr>)"

section \<open>What is installed\<close>

definition l2dPath :: string where "l2dPath = ''/usr/local/sbin/disunified-l2d''"
definition bridgeSTP :: string where "bridgeSTP = ''/usr/sbin/bridge-stp''"
definition l2dUnitPath :: string where "l2dUnitPath = ''/etc/systemd/system/disunified-l2d.service''"
definition l2ConfPath :: string where "l2ConfPath = ''/etc/sonic/disunified/l2.json''"

definition canRun :: "l2_inst \<Rightarrow> bool" where
  "canRun i \<longleftrightarrow> l2i_present i \<and> (l2i_mstpd i \<noteq> [] \<or> l2i_docker i)"

record l2_env =
  le_script :: string
  le_bridge :: string
  le_unit :: string
  le_sha :: "string \<Rightarrow> string"
  le_now :: int

definition l2_files :: "l2_env \<Rightarrow> (string \<times> string \<times> string) list" where
  "l2_files e = [(l2dPath, ''0755'', le_script e), (bridgeSTP, ''0755'', le_bridge e), (l2dUnitPath, ''0644'', le_unit e)]"

definition l2_stale :: "l2_env \<Rightarrow> l2_inst \<Rightarrow> (string \<times> string \<times> string) list" where
  "l2_stale e i = filter (\<lambda>(path, m, body). mget [] (l2i_files i) path \<noteq> le_sha e body) (l2_files e)"

definition is_stale :: "l2_env \<Rightarrow> l2_inst \<Rightarrow> string \<Rightarrow> bool" where
  "is_stale e i path \<longleftrightarrow> path \<in> fst ` set (l2_stale e i)"

text \<open>\<open>reflect.DeepEqual\<close> of two configs: a nil map and an empty one differ.\<close>

fun same_ports :: "(string \<times> l2_port) list option \<Rightarrow> (string \<times> l2_port) list option \<Rightarrow> bool" where
  "same_ports (Some a) (Some b) \<longleftrightarrow> same_fields a b"
| "same_ports a b \<longleftrightarrow> a = None \<and> b = None"

definition same_conf :: "l2_conf \<Rightarrow> l2_conf \<Rightarrow> bool" where
  "same_conf a b \<longleftrightarrow> same_ports (l2c_ports a) (l2c_ports b) \<and> a\<lparr>l2c_ports := None\<rparr> = b\<lparr>l2c_ports := None\<rparr>"

section \<open>The plan\<close>

datatype l2_note =
    L2Off
  | L2NoStateReported
  | L2NoMstpd
  | L2Undone string
  | L2Building
  | L2NoDocker
  | L2BuildFailed string

definition l2_asked :: "l2_want \<Rightarrow> bool" where
  "l2_asked w \<longleftrightarrow> lw_stp_set w \<and> lw_stp w \<or> anyPortSetting w"

definition l2_cannot :: "bool \<Rightarrow> l2_inst \<Rightarrow> l2_want \<Rightarrow> l2_note list" where
  "l2_cannot on i w = (if \<not> l2_asked w then []
     else [if \<not> on then L2Off else if l2i_present i then L2NoMstpd else L2NoStateReported])"

text \<open>The dead-man timer undid a first enable: spanning tree stays off until the push had it off.\<close>

definition l2_undone :: "l2_inst \<Rightarrow> string" where
  "l2_undone i = (case l2i_conf i of None \<Rightarrow> [] | Some cf \<Rightarrow> l2c_deadman cf)"

definition l2_first_sight :: "l2_inst \<Rightarrow> l2_want \<Rightarrow> l2_want" where
  "l2_first_sight i w = (if l2_undone i \<noteq> [] \<and> l2_undone i \<noteq> lw_deadman_seen w
     then w\<lparr>lw_deadman_seen := l2_undone i, lw_off_seen := False\<rparr> else w)"

definition l2_held :: "l2_inst \<Rightarrow> l2_want \<Rightarrow> bool" where
  "l2_held i w \<longleftrightarrow> l2_undone i \<noteq> [] \<and> lw_stp w \<and> \<not> lw_off_seen (l2_first_sight i w)"

definition l2_wish :: "l2_inst \<Rightarrow> l2_want \<Rightarrow> l2_conf" where
  "l2_wish i w = (if l2_held i w then (l2_conf_of w)\<lparr>l2c_stp := False, l2c_deadman := l2_undone i\<rparr> else l2_conf_of w)"

text \<open>Spanning tree waits for mstpd, which is built on the switch; a build is tried every ten minutes.\<close>

definition l2_waits :: "l2_inst \<Rightarrow> l2_want \<Rightarrow> bool" where
  "l2_waits i w \<longleftrightarrow> l2c_stp (l2_wish i w) \<and> l2i_mstpd i = []"

definition l2_tried_lately :: "l2_env \<Rightarrow> l2_want \<Rightarrow> bool" where
  "l2_tried_lately e w = (case lw_tried w of None \<Rightarrow> False | Some t \<Rightarrow> le_now e - t < 600 * 10 ^ 9)"

definition l2_builds :: "l2_env \<Rightarrow> l2_inst \<Rightarrow> l2_want \<Rightarrow> bool" where
  "l2_builds e i w \<longleftrightarrow> l2_waits i w \<and> l2i_build i \<noteq> ''running'' \<and> l2i_docker i \<and> \<not> l2_tried_lately e w"

definition l2_wait_note :: "l2_env \<Rightarrow> l2_inst \<Rightarrow> l2_want \<Rightarrow> l2_note list" where
  "l2_wait_note e i w = (if \<not> l2_waits i w then []
     else if l2i_build i = ''running'' then [L2Building]
     else if \<not> l2i_docker i then [L2NoDocker]
     else if l2_tried_lately e w \<and> strip_prefix ''failed'' (l2i_build i) \<noteq> None then [L2BuildFailed (l2i_build i)]
     else [])"

definition l2_final :: "l2_inst \<Rightarrow> l2_want \<Rightarrow> l2_conf" where
  "l2_final i w = (if l2_waits i w then (l2_wish i w)\<lparr>l2c_stp := False\<rparr> else l2_wish i w)"

definition l2_notes :: "l2_env \<Rightarrow> l2_inst \<Rightarrow> l2_want \<Rightarrow> l2_note list" where
  "l2_notes e i w = (if l2_held i w then [L2Undone (l2_undone i)] else []) @ l2_wait_note e i w"

section \<open>The steps\<close>

datatype l2_step =
    PutFile string string string
  | ReloadUnits
  | EnableUnit
  | PutConf l2_conf
  | StopTimer
  | ArmTimer
  | Restart
  | Reload

text \<open>A step's shell line, with the base64 and the JSON of the standard library.\<close>

definition installFile :: "(string \<Rightarrow> string) \<Rightarrow> string \<Rightarrow> string \<Rightarrow> string \<Rightarrow> string" where
  "installFile b64 path mode body = ''t=$(mktemp) && echo '' @ b64 body @ '' | base64 -d > '' @ [DQ] @ ''$t'' @ [DQ] @
     '' && sudo install -D -m '' @ mode @ '' '' @ [DQ] @ ''$t'' @ [DQ] @ '' '' @ path @ '' && rm -f '' @ [DQ] @ ''$t'' @ [DQ]"

fun l2_line :: "(string \<Rightarrow> string) \<Rightarrow> (l2_conf \<Rightarrow> string) \<Rightarrow> l2_step \<Rightarrow> string" where
  "l2_line b64 json (PutFile path mode body) = installFile b64 path mode body"
| "l2_line b64 json ReloadUnits = ''sudo systemctl daemon-reload''"
| "l2_line b64 json EnableUnit = ''sudo systemctl enable disunified-l2d >/dev/null 2>&1''"
| "l2_line b64 json (PutConf cf) = installFile b64 l2ConfPath ''0644'' (json cf @ [LF])"
| "l2_line b64 json StopTimer = ''sudo systemctl stop disunified-l2d-deadman.timer >/dev/null 2>&1 || true''"
| "l2_line b64 json ArmTimer = ''sudo systemd-run --quiet --unit=disunified-l2d-deadman --on-active=180 /usr/bin/python3 ''
     @ l2dPath @ '' --deadman''"
| "l2_line b64 json Restart = ''sudo systemctl restart disunified-l2d''"
| "l2_line b64 json Reload = ''sudo systemctl reload disunified-l2d''"

definition l2_running :: "l2_inst \<Rightarrow> bool" where
  "l2_running i \<longleftrightarrow> l2i_service i = ''active''"

definition conf_changed :: "l2_inst \<Rightarrow> l2_conf \<Rightarrow> bool" where
  "conf_changed i want = (case l2i_conf i of None \<Rightarrow> True | Some cf \<Rightarrow> \<not> same_conf cf want)"

text \<open>A first enable: the daemon does not run with spanning tree on yet.\<close>

definition runs_stp :: "l2_inst \<Rightarrow> bool" where
  "runs_stp i \<longleftrightarrow> l2_running i \<and> (case l2i_conf i of None \<Rightarrow> False | Some cf \<Rightarrow> l2c_stp cf)"

definition l2_arms :: "l2_inst \<Rightarrow> l2_conf \<Rightarrow> bool" where
  "l2_arms i want \<longleftrightarrow> l2c_stp want \<and> \<not> runs_stp i"

definition l2_steps :: "l2_env \<Rightarrow> l2_inst \<Rightarrow> l2_conf \<Rightarrow> l2_step list" where
  "l2_steps e i want =
     map (\<lambda>(path, mode, body). PutFile path mode body) (l2_stale e i)
     @ (if is_stale e i l2dUnitPath then [ReloadUnits, EnableUnit] else [])
     @ (if conf_changed i want then [PutConf want] else [])
     @ (if l2_arms i want then [StopTimer, ArmTimer] else [])
     @ (if \<not> l2_running i \<or> is_stale e i l2dUnitPath \<or> is_stale e i l2dPath then [Restart]
        else if conf_changed i want then [Reload] else [])"

definition l2_after :: "l2_env \<Rightarrow> l2_conf \<Rightarrow> l2_inst \<Rightarrow> l2_inst" where
  "l2_after e want i = i\<lparr>l2i_conf := Some want, l2i_service := ''active'',
     l2i_files := fold (\<lambda>(path, m, body). AList.update path (le_sha e body)) (l2_files e) (l2i_files i),
     l2i_deadman := (if l2_arms i want then ''active'' else l2i_deadman i)\<rparr>"

section \<open>Confirming a first enable\<close>

text \<open>
  One attempt over a fresh connection: what the check answers, the probe (on the switch itself) and
  the cancel. The wait ends early when the context does: then there is no further attempt.
\<close>

record l2_try =
  lt_check :: "string + string"
  lt_probe :: "string option"
  lt_cancel :: "string option"

record l2_dial =
  ld_redial :: bool
  ld_probe :: bool
  ld_tries :: "l2_try list"

datatype l2_event = Checked "string + string" | Probed "string option" | Cancelled "string option"

definition check_fails :: "string + string \<Rightarrow> string option" where
  "check_fails a = (case a of Inl e \<Rightarrow> Some e
     | Inr out \<Rightarrow> if trim_space out = ''running'' then None else Some (''mstpd '' @ trim_space out))"

definition probe_fails :: "bool \<Rightarrow> l2_try \<Rightarrow> string option" where
  "probe_fails probe t = (if probe then lt_probe t else None)"

definition confirm_try :: "bool \<Rightarrow> l2_try \<Rightarrow> l2_event list \<times> string option" where
  "confirm_try probe t = (let probed = (if probe then [Probed (lt_probe t)] else []) in
     case check_fails (lt_check t) of
       Some e \<Rightarrow> ([Checked (lt_check t)], Some e)
     | None \<Rightarrow> (case probe_fails probe t of
         Some e \<Rightarrow> (Checked (lt_check t) # probed, Some (''mstpd runs, but the switch does not reach the probe address: '' @ e))
       | None \<Rightarrow> (Checked (lt_check t) # probed @ [Cancelled (lt_cancel t)], lt_cancel t)))"

fun confirm_loop :: "bool \<Rightarrow> string \<Rightarrow> nat \<Rightarrow> l2_try list \<Rightarrow> l2_event list \<times> string option" where
  "confirm_loop probe err 0 ts = ([], Some (''spanning tree not confirmed: '' @ err))"
| "confirm_loop probe err (Suc n) [] = ([], Some ''spanning tree not confirmed: the context ended'')"
| "confirm_loop probe err (Suc n) (t # ts) = (case confirm_try probe t of
     (ev, None) \<Rightarrow> (ev, None)
   | (ev, Some e) \<Rightarrow> (case confirm_loop probe e n ts of (evs, r) \<Rightarrow> (ev @ evs, r)))"

definition confirmL2 :: "l2_dial \<Rightarrow> l2_event list \<times> string option" where
  "confirmL2 dl = (if \<not> ld_redial dl then ([], Some ''no way to dial the switch afresh; the dead-man timer stays'')
     else confirm_loop (ld_probe dl) [] 10 (ld_tries dl))"

section \<open>The apply\<close>

datatype l2_call = StartBuild | RunSteps "l2_step list"

text \<open>A call to the switch: an error, or none, and the state a collect stored meanwhile.\<close>

type_synonym l2_run = "l2_call \<Rightarrow> string option \<times> sw_state option"

definition stored :: "sw_state option \<Rightarrow> 'a acl_col_scheme \<Rightarrow> 'a acl_col_scheme" where
  "stored fresh c = (if fresh = None then c else c\<lparr>ac_state := fresh\<rparr>)"

definition l2_write :: "l2_env \<Rightarrow> l2_run \<Rightarrow> l2_dial \<Rightarrow> nat \<Rightarrow> bool \<Rightarrow> sw_state \<Rightarrow> l2_conf \<Rightarrow> 'a l2_col_scheme \<Rightarrow> (string + nat) \<times> 'a l2_col_scheme" where
  "l2_write e run dl started same st want c =
     (let steps = l2_steps e (s_l2 st) want in
      if steps = [] then (Inr started, c)
      else (case run (RunSteps steps) of
          (Some err, fresh) \<Rightarrow> (Inl (''sonic apply l2: '' @ err), stored fresh c)
        | (None, fresh) \<Rightarrow>
           (let c1 = (if same \<and> fresh = None then c\<lparr>ac_state := Some (st\<lparr>s_l2 := l2_after e want (s_l2 st)\<rparr>)\<rparr> else stored fresh c)
            in if l2_arms (s_l2 st) want
               then (case snd (confirmL2 dl) of Some err \<Rightarrow> (Inl (''sonic apply l2: '' @ err), c1) | None \<Rightarrow> (Inr 1, c1))
               else (Inr 1, c1))))"

definition l2_go :: "l2_env \<Rightarrow> l2_run \<Rightarrow> l2_dial \<Rightarrow> sw_state \<Rightarrow> 'a l2_col_scheme \<Rightarrow> (string + nat) \<times> 'a l2_col_scheme" where
  "l2_go e run dl st c =
     (let i = s_l2 st; w = lc_want c; want = l2_final i w; seen = l2_first_sight i w;
          stop = l2_waits i w \<and> \<not> l2c_guard want \<and> l2i_conf i = None
      in if l2_builds e i w
         then (let c1 = c\<lparr>lc_want := seen\<lparr>lw_tried := Some (le_now e)\<rparr>\<rparr>
               in case run StartBuild of
                    (Some err, fresh) \<Rightarrow> (Inl (''sonic apply l2: start the mstpd build: '' @ err), stored fresh c1)
                  | (None, fresh) \<Rightarrow> if stop then (Inr 1, stored fresh c1)
                      else l2_write e run dl 1 (fresh = None) st want (stored fresh c1))
         else if stop then (Inr 0, c\<lparr>lc_want := seen\<rparr>)
         else l2_write e run dl 0 True st want (c\<lparr>lc_want := seen\<rparr>))"

definition applyL2 :: "l2_env \<Rightarrow> l2_run \<Rightarrow> l2_dial \<Rightarrow> 'a l2_col_scheme \<Rightarrow> (string + nat) \<times> 'a l2_col_scheme \<times> l2_note list" where
  "applyL2 e run dl c = (case ac_state c of None \<Rightarrow> (Inr 0, c, []) | Some st \<Rightarrow>
     (let i = s_l2 st; w = lc_want c in
      if s_stp_feature st then (Inr 0, c, [])
      else if \<not> lc_on c \<or> \<not> canRun i then (Inr 0, c, l2_cannot (lc_on c) i w)
      else if \<not> lw_stp_set w \<or> \<not> lw_ports_set w then (Inr 0, c, [])
      else if \<not> lw_stp w \<and> lw_guard w = [] \<and> l2i_conf i = None then (Inr 0, c, [])
      else (case l2_go e run dl st c of (r, c1) \<Rightarrow> (r, c1, l2_notes e i w))))"

end
