(* ===== verification/Sonic_Address.thy ===== *)
theory Sonic_Address
  imports Sonic_L2
begin

text \<open>
  \<^verbatim>\<open>internal/drivers/sonic/address.go\<close> and \<^verbatim>\<open>dial.go\<close>: moving the address the bridge itself dials. A
  shell command is a datatype, \<open>addr_line\<close> its text; the switch is any type of states, which the
  batches of an \<open>addr_world\<close> act on. A collect during a move is left out, and keeping
  sonic-managed.json always works: the dial targets are those held in memory.
\<close>

section \<open>The collector's view\<close>

record if_addr =
  fa_iface :: string
  fa_ip :: string
  fa_len :: int

record addr_col = l2_col +
  vc_addrs :: "if_addr list option"
  vc_dhcp :: bool
  vc_gateway :: string
  vc_dial :: string
  vc_saved :: string
  vc_pending :: string
  vc_config :: string

datatype addr_cmd =
    IpAdd string "string \<times> int"
  | IpRemove string "string \<times> int"
  | RouteAdd string
  | RouteDel string
  | NameserverDel string
  | NameserverAdd string
  | Promote string
  | Verify string "string \<times> int"
  | SaveConfig

definition cidr :: "string \<times> int \<Rightarrow> string" where
  "cidr a = fst a @ ''/'' @ itoa (snd a)"

fun addr_line :: "addr_cmd \<Rightarrow> string" where
  "addr_line (IpAdd iface a) = ''sudo config interface ip add '' @ iface @ '' '' @ cidr a"
| "addr_line (IpRemove iface a) = ''sudo config interface ip remove '' @ iface @ '' '' @ cidr a"
| "addr_line (RouteAdd gw) = ''sudo config route add prefix 0.0.0.0/0 nexthop '' @ gw"
| "addr_line (RouteDel gw) = ''sudo config route del prefix 0.0.0.0/0 nexthop '' @ gw"
| "addr_line (NameserverDel s) = ''sudo config dns nameserver del '' @ s"
| "addr_line (NameserverAdd s) = ''sudo config dns nameserver add '' @ s"
| "addr_line (Promote iface) = ''echo 1 | sudo tee /proc/sys/net/ipv4/conf/'' @ iface @ ''/promote_secondaries >/dev/null''"
| "addr_line (Verify iface a) = ''ip -4 -o addr show dev '' @ iface @ '' | grep -q '' @ [CHR 0x27] @ '' '' @ cidr a @ '' '' @ [CHR 0x27]"
| "addr_line SaveConfig = ''sudo config save -y''"

section \<open>The dial target\<close>

definition setPendingDial :: "string \<Rightarrow> 'a addr_col_scheme \<Rightarrow> 'a addr_col_scheme" where
  "setPendingDial ip c = c\<lparr>vc_pending := ip\<rparr>"

definition adoptDial :: "string \<Rightarrow> 'a addr_col_scheme \<Rightarrow> 'a addr_col_scheme" where
  "adoptDial ip c = c\<lparr>vc_dial := ip, vc_saved := ip, vc_pending := []\<rparr>"

definition dialCandidates :: "'a addr_col_scheme \<Rightarrow> string list" where
  "dialCandidates c = rev (fold (\<lambda>a out. if a = [] \<or> a = vc_dial c \<or> a \<in> set out then out else a # out)
     [vc_pending c, vc_saved c, vc_config c] [])"

definition isDialError :: "string \<Rightarrow> bool" where
  "isDialError e \<longleftrightarrow> contains e ''ssh dial '' \<or> contains e ''ssh handshake ''"

text \<open>
  A command on the switch, by the address it is sent to. When the current target cannot be dialled,
  the first other one that answers \<open>true\<close> is adopted and runs the command.
\<close>

definition sonic_run :: "bool \<Rightarrow> (string \<Rightarrow> string \<Rightarrow> string + string) \<Rightarrow> string \<Rightarrow> 'a addr_col_scheme \<Rightarrow> (string + string) \<times> 'a addr_col_scheme" where
  "sonic_run redial on cmd c = (case on (vc_dial c) cmd of
     Inr out \<Rightarrow> (Inr out, c)
   | Inl e \<Rightarrow> (if \<not> isDialError e \<or> \<not> redial then (Inl e, c)
       else (case find (\<lambda>a. \<not> isl (on a ''true'')) (dialCandidates c) of
           None \<Rightarrow> (Inl e, c)
         | Some a \<Rightarrow> (on a cmd, adoptDial a c))))"

section \<open>What to change\<close>

definition dns_add :: "sw_state \<Rightarrow> address_desired \<Rightarrow> string list" where
  "dns_add st d = sort (filter (\<lambda>s. s \<notin> set (s_dns st)) (ad_dns d))"

definition dns_del :: "sw_state \<Rightarrow> address_desired \<Rightarrow> string list" where
  "dns_del st d = (if ad_dns d = [] then [] else sort (filter (\<lambda>s. s \<notin> set (ad_dns d)) (s_dns st)))"

definition gw_change :: "sw_state \<Rightarrow> address_desired \<Rightarrow> bool" where
  "gw_change st d \<longleftrightarrow> ad_gateway d \<noteq> [] \<and> ad_gateway d \<noteq> defaultRoute st"

definition if_key :: "if_addr \<Rightarrow> string" where
  "if_key a = fa_iface a @ ''|'' @ cidr (fa_ip a, fa_len a)"

datatype not_movable = MoveLease | MoveManagement | MoveNotOwned

definition addressMovable :: "bool \<Rightarrow> sw_state \<Rightarrow> if_addr \<Rightarrow> not_movable option" where
  "addressMovable dhcp st cur =
     (if dhcp then Some MoveLease
      else if \<not> list_ex (\<lambda>p. strip_prefix p (fa_iface cur) \<noteq> None) [''Vlan'', ''Ethernet'', ''PortChannel'', ''Loopback''] then Some MoveManagement
      else if if_key cur \<notin> set (s_ifaddrs st) then Some MoveNotOwned else None)"

definition first_cmds :: "sw_state \<Rightarrow> if_addr \<Rightarrow> address_desired \<Rightarrow> addr_cmd list" where
  "first_cmds st cur d =
     (if fa_ip cur \<noteq> ad_ip d then [IpAdd (fa_iface cur) (ad_ip d, ad_prefix d)] else [])
     @ (if gw_change st d then [RouteAdd (ad_gateway d)] else [])
     @ map NameserverDel (dns_del st d) @ map NameserverAdd (dns_add st d)"

definition stale_route :: "sw_state \<Rightarrow> address_desired \<Rightarrow> addr_cmd list" where
  "stale_route st d = (if gw_change st d \<and> defaultRoute st \<noteq> [] then [RouteDel (defaultRoute st)] else [])"

definition moveFinish :: "string \<Rightarrow> string \<times> int \<Rightarrow> string \<times> int \<Rightarrow> addr_cmd list" where
  "moveFinish iface old new = [Promote iface, IpRemove iface old, Verify iface new]"

definition finish_cmds :: "sw_state \<Rightarrow> if_addr \<Rightarrow> address_desired \<Rightarrow> addr_cmd list" where
  "finish_cmds st cur d = moveFinish (fa_iface cur) (fa_ip cur, fa_len cur) (ad_ip d, ad_prefix d) @ stale_route st d @ [SaveConfig]"

definition undo_cmds :: "sw_state \<Rightarrow> if_addr \<Rightarrow> address_desired \<Rightarrow> addr_cmd list" where
  "undo_cmds st cur d = IpRemove (fa_iface cur) (ad_ip d, ad_prefix d)
     # (if gw_change st d then [RouteDel (ad_gateway d)] else [])"

definition note_state :: "if_addr \<Rightarrow> address_desired \<Rightarrow> string \<Rightarrow> string list \<Rightarrow> string list \<Rightarrow> sw_state \<Rightarrow> sw_state" where
  "note_state cur d oldgw added dropped st = st\<lparr>
     s_routes := (if ad_gateway d \<noteq> [] \<and> ad_gateway d \<noteq> oldgw
       then AList.update ''default|0.0.0.0/0'' [(''nexthop'', ad_gateway d)] (s_routes st) else s_routes st),
     s_dns := filter (\<lambda>s. s \<notin> set dropped) (s_dns st @ filter (\<lambda>s. s \<notin> set (s_dns st)) (remdups added)),
     s_ifaddrs := filter (\<lambda>k. k \<noteq> if_key cur) (s_ifaddrs st) @ [if_key (cur\<lparr>fa_ip := ad_ip d, fa_len := ad_prefix d\<rparr>)]\<rparr>"

definition noteAddress :: "if_addr \<Rightarrow> address_desired \<Rightarrow> string \<Rightarrow> string list \<Rightarrow> string list \<Rightarrow> 'a addr_col_scheme \<Rightarrow> 'a addr_col_scheme" where
  "noteAddress cur d oldgw added dropped c = c\<lparr>
     vc_addrs := map_option (map (\<lambda>a. if a = cur then cur\<lparr>fa_ip := ad_ip d, fa_len := ad_prefix d\<rparr> else a)) (vc_addrs c),
     vc_gateway := (if vc_addrs c \<noteq> None \<and> ad_gateway d \<noteq> [] then ad_gateway d else vc_gateway c),
     ac_state := map_option (note_state cur d oldgw added dropped) (ac_state c)\<rparr>"

section \<open>The move\<close>

text \<open>
  How the new address is proven: a probe from it (on the switch itself), a fresh dial, or neither.
  A batch is sent over the address the bridge has, or over the new one.
\<close>

datatype addr_proof = ByProbe | ByDial | NoProof

record 's addr_world =
  aw_dials :: "string list"
  aw_proof :: addr_proof
  aw_answers :: "string \<Rightarrow> string option"
  aw_batch :: "bool \<Rightarrow> addr_cmd list \<Rightarrow> 's \<Rightarrow> string option \<times> 's"

datatype addr_err =
    WantsDHCP
  | NoStaticAddress
  | NoAddrSnapshot
  | NobodyCarriesIt string
  | NotApplied not_movable
  | PrefixWouldDrop
  | ChangeFailed string
  | AddFailed string
  | TakenBack string
  | CarriesBoth string string
  | NotFinished string

definition cannot_prove :: "'s addr_world \<Rightarrow> string \<Rightarrow> string option" where
  "cannot_prove wd ip = (case aw_proof wd of
     NoProof \<Rightarrow> Some ''this runner cannot be re-dialled''
   | _ \<Rightarrow> aw_answers wd ip)"

definition undoAddress :: "'s addr_world \<Rightarrow> addr_cmd list \<Rightarrow> string \<Rightarrow> 's \<Rightarrow> addr_err \<times> 's" where
  "undoAddress wd cmds why s = (case aw_batch wd False cmds s of
     (Some e, s1) \<Rightarrow> (CarriesBoth why e, s1) | (None, s1) \<Rightarrow> (TakenBack why, s1))"

definition change_kept :: "'s addr_world \<Rightarrow> sw_state \<Rightarrow> if_addr \<Rightarrow> address_desired \<Rightarrow> 'a addr_col_scheme \<Rightarrow> 's \<Rightarrow> (addr_err + bool) \<times> 'a addr_col_scheme \<times> 's" where
  "change_kept wd st cur d c s = (case aw_batch wd False (first_cmds st cur d @ stale_route st d @ [SaveConfig]) s of
     (Some e, s1) \<Rightarrow> (Inl (ChangeFailed e), c, s1)
   | (None, s1) \<Rightarrow> (Inr True, noteAddress cur d (defaultRoute st) (dns_add st d) (dns_del st d) c, s1))"

definition move_finish :: "'s addr_world \<Rightarrow> sw_state \<Rightarrow> if_addr \<Rightarrow> address_desired \<Rightarrow> 'a addr_col_scheme \<Rightarrow> 's \<Rightarrow> (addr_err + bool) \<times> 'a addr_col_scheme \<times> 's" where
  "move_finish wd st cur d c s =
     (let c1 = setPendingDial (ad_ip d) c in
      case aw_batch wd (aw_proof wd \<noteq> ByProbe) (finish_cmds st cur d) s of
        (Some e, s1) \<Rightarrow> (Inl (NotFinished e), c1, s1)
      | (None, s1) \<Rightarrow> (Inr True, noteAddress cur d (defaultRoute st) (dns_add st d) (dns_del st d) (adoptDial (ad_ip d) c1), s1))"

definition move_address :: "'s addr_world \<Rightarrow> sw_state \<Rightarrow> if_addr \<Rightarrow> address_desired \<Rightarrow> 'a addr_col_scheme \<Rightarrow> 's \<Rightarrow> (addr_err + bool) \<times> 'a addr_col_scheme \<times> 's" where
  "move_address wd st cur d c s = (case aw_batch wd False (first_cmds st cur d) s of
     (Some e, s1) \<Rightarrow> (Inl (AddFailed e), c, s1)
   | (None, s1) \<Rightarrow> (case cannot_prove wd (ad_ip d) of
       Some why \<Rightarrow> (case undoAddress wd (undo_cmds st cur d) why s1 of (err, s2) \<Rightarrow> (Inl err, c, s2))
     | None \<Rightarrow> move_finish wd st cur d c s1))"

definition same_settings :: "sw_state \<Rightarrow> if_addr \<Rightarrow> address_desired \<Rightarrow> bool" where
  "same_settings st cur d \<longleftrightarrow> fa_ip cur = ad_ip d \<and> fa_len cur = ad_prefix d \<and> \<not> gw_change st d
     \<and> dns_add st d = [] \<and> dns_del st d = []"

definition ApplyAddress :: "'s addr_world \<Rightarrow> address_desired \<Rightarrow> 'a addr_col_scheme \<Rightarrow> 's \<Rightarrow> (addr_err + bool) \<times> 'a addr_col_scheme \<times> 's" where
  "ApplyAddress wd d c s =
     (if ad_dhcp d then (Inl WantsDHCP, c, s)
      else if ad_ip d = [] \<or> ad_prefix d \<le> 0 then (Inl NoStaticAddress, c, s)
      else (case (vc_addrs c, ac_state c) of
         (Some addrs, Some st) \<Rightarrow> (case find (\<lambda>a. fa_ip a \<in> set (aw_dials wd)) addrs of
             None \<Rightarrow> (Inl (NobodyCarriesIt (vc_dial c)), c, s)
           | Some cur \<Rightarrow>
              if fa_iface cur = [] then (Inl (NobodyCarriesIt (vc_dial c)), c, s)
              else if same_settings st cur d then (Inr False, c, s)
              else (case addressMovable (vc_dhcp c) st cur of
                  Some why \<Rightarrow> (Inl (NotApplied why), c, s)
                | None \<Rightarrow> if fa_ip cur = ad_ip d
                    then (if fa_len cur \<noteq> ad_prefix d then (Inl PrefixWouldDrop, c, s) else change_kept wd st cur d c s)
                    else move_address wd st cur d c s))
       | _ \<Rightarrow> (Inl NoAddrSnapshot, c, s)))"

end
