(* ===== verification/Sonic_Igmp.thy ===== *)
theory Sonic_Igmp
  imports Sonic_Address
begin

text \<open>
  \<^verbatim>\<open>internal/drivers/sonic/igmp.go\<close>: IGMP snooping through l2mcd. The controller's per-VLAN settings
  become whole rows of CONFIG_DB's L2MC tables; the difference to the rows the switch has is written
  in an order its CLI would accept. The loop hands the driver no snooping map at all or one with
  entries, so the nil map is the empty one.
\<close>

section \<open>The intent\<close>

record igmp_want =
  iw_set :: bool
  iw_vlans :: "bool alist"
  iw_igmp :: "igmp_vlan alist"
  iw_flood_reserved :: bool
  iw_unknown :: "bool option"

definition igmpSet :: "device_desired \<Rightarrow> igmp_want" where
  "igmpSet d = \<lparr>iw_set = (dd_igmp_snooping d \<noteq> []), iw_vlans = dd_igmp_snooping d, iw_igmp = dd_igmp d,
     iw_flood_reserved = (dd_igmp_flood d = Some True), iw_unknown = dd_igmp_unknown d\<rparr>"

definition no_igmp :: igmp_vlan where
  "no_igmp = \<lparr>iv_querier = False, iv_querier_addr = [], iv_fast_leave = False, iv_max_response = 0, iv_membership = 0,
     iv_router_expiry = 0, iv_suppression = False, iv_flood_unknown = None\<rparr>"

section \<open>The tables\<close>

definition l2mcRow :: string where "l2mcRow = ''L2MC|''"
definition l2mcSupp :: string where "l2mcSupp = ''L2MC_SUPPRESS|''"
definition l2mcGroup :: string where "l2mcGroup = ''L2MC_STATIC_GROUP|''"
definition l2mcMember :: string where "l2mcMember = ''L2MC_STATIC_MEMBER|''"
definition l2mcRouter :: string where "l2mcRouter = ''L2MC_MROUTER|''"

definition has_prefix :: "string \<Rightarrow> string \<Rightarrow> bool" where
  "has_prefix p s \<longleftrightarrow> strip_prefix p s \<noteq> None"

definition reservedGroups :: "string list" where
  "reservedGroups = [''239.255.255.250'', ''224.0.1.1'', ''224.0.1.129'', ''224.0.1.41'', ''224.0.1.35'', ''224.0.1.22'', ''239.255.255.253'']"

definition vlan_name :: "int \<Rightarrow> string" where
  "vlan_name sid = ''Vlan'' @ itoa sid"

definition row_key :: "int \<Rightarrow> string" where
  "row_key sid = l2mcRow @ vlan_name sid"

definition group_key :: "int \<Rightarrow> string \<Rightarrow> string" where
  "group_key sid grp = l2mcGroup @ vlan_name sid @ ''|'' @ grp"

definition member_key :: "int \<Rightarrow> string \<Rightarrow> string \<Rightarrow> string" where
  "member_key sid grp m = l2mcMember @ vlan_name sid @ ''|'' @ grp @ ''|'' @ m"

section \<open>The rows wanted\<close>

datatype igmp_note =
    NoSuchVLAN int
  | MaxResponseClamped int int int
  | IntervalClamped int int int
  | QuerierAddress int string string
  | QuerierUnnumbered int
  | RouterExpiryUnwritten "int list"
  | SuppressionUnwritten "int list"
  | FloodRefused "int list"
  | UnknownReachesRouters

definition igmp_mr :: "igmp_vlan \<Rightarrow> int" where
  "igmp_mr g = (if iv_max_response g = 0 then 10 else iv_max_response g)"

definition igmp_response :: "igmp_vlan \<Rightarrow> int" where
  "igmp_response g = (if igmp_mr g < 1 \<or> 25 < igmp_mr g then min (max (igmp_mr g) 1) 25 else igmp_mr g)"

definition igmp_membership :: "igmp_vlan \<Rightarrow> int" where
  "igmp_membership g = (if iv_membership g = 0 then 260 else iv_membership g)"

definition igmp_qi :: "igmp_vlan \<Rightarrow> int" where
  "igmp_qi g = go_quot (igmp_membership g - igmp_response g) 2"

definition igmp_interval :: "igmp_vlan \<Rightarrow> int" where
  "igmp_interval g = (if igmp_qi g \<le> igmp_response g \<or> 18000 < igmp_qi g
     then min (max (igmp_qi g) (igmp_response g + 1)) 18000 else igmp_qi g)"

definition format_bool :: "bool \<Rightarrow> string" where
  "format_bool b = (if b then ''true'' else ''false'')"

definition igmp_row :: "igmp_vlan \<Rightarrow> fields" where
  "igmp_row g = [(''enabled'', ''true''), (''querier'', format_bool (iv_querier g)), (''fast-leave'', format_bool (iv_fast_leave g)),
     (''version'', ''3''), (''query-interval'', itoa (igmp_interval g)), (''query-max-response-time'', itoa (igmp_response g)),
     (''last-member-query-interval'', ''1000'')]"

text \<open>An IPv4 address of the VLAN's interface, l2mcd's query source.\<close>

definition vlanAddress :: "sw_state \<Rightarrow> string \<Rightarrow> string" where
  "vlanAddress st vlan = (case sort (List.map_filter (\<lambda>k. case strip_prefix (vlan @ ''|'') k of
       None \<Rightarrow> None
     | Some rest \<Rightarrow> if contains rest '':'' then None
         else Some (case str_cut (CHR ''/'') rest of None \<Rightarrow> rest | Some (ip, r) \<Rightarrow> ip)) (s_ifaddrs st)) of
     [] \<Rightarrow> [] | ip # ips \<Rightarrow> ip)"

definition igmp_querier_notes :: "int \<Rightarrow> igmp_vlan \<Rightarrow> string \<Rightarrow> igmp_note list" where
  "igmp_querier_notes i g own = (if \<not> iv_querier g then []
     else if iv_querier_addr g \<noteq> [] then [QuerierAddress i (iv_querier_addr g) own]
     else if own = [] then [QuerierUnnumbered i] else [])"

definition igmp_clamp_notes :: "int \<Rightarrow> igmp_vlan \<Rightarrow> igmp_note list" where
  "igmp_clamp_notes i g =
     (if igmp_mr g < 1 \<or> 25 < igmp_mr g then [MaxResponseClamped i (igmp_mr g) (igmp_response g)] else [])
     @ (if igmp_qi g \<le> igmp_response g \<or> 18000 < igmp_qi g then [IntervalClamped i (igmp_qi g) (igmp_interval g)] else [])"

definition igmp_members :: "sw_state \<Rightarrow> int \<Rightarrow> string list" where
  "igmp_members st sid = sortIfnames (map fst (filter (\<lambda>(iface, m). sid \<in> fst ` set m) (s_members st)))"

definition group_rows :: "int \<Rightarrow> string list \<Rightarrow> string \<Rightarrow> (string \<times> fields) list \<Rightarrow> (string \<times> fields) list" where
  "group_rows sid ms grp rows = fold (\<lambda>m. AList.update (member_key sid grp m) [(''port'', m)]) ms
     (AList.update (group_key sid grp) [(''static-members@'', join '','' ms)] rows)"

definition igmp_statics :: "igmp_want \<Rightarrow> sw_state \<Rightarrow> int \<Rightarrow> (string \<times> fields) list \<Rightarrow> (string \<times> fields) list" where
  "igmp_statics w st sid rows = (let ms = igmp_members st sid in
     if \<not> iw_flood_reserved w \<or> ms = [] then rows else fold (group_rows sid ms) reservedGroups rows)"

definition igmp_vlan_rows :: "int \<Rightarrow> igmp_want \<Rightarrow> sw_state \<Rightarrow> int \<Rightarrow> (string \<times> fields) list \<Rightarrow> (string \<times> fields) list" where
  "igmp_vlan_rows native w st i rows = (let sid = sonic_vlan native i; g = mget no_igmp (iw_igmp w) i in
     if sid \<notin> set (s_vlans st) then rows else igmp_statics w st sid (AList.update (row_key sid) (igmp_row g) rows))"

definition igmp_vlan_notes :: "int \<Rightarrow> igmp_want \<Rightarrow> sw_state \<Rightarrow> int \<Rightarrow> igmp_note list" where
  "igmp_vlan_notes native w st i = (let sid = sonic_vlan native i; g = mget no_igmp (iw_igmp w) i in
     if sid \<notin> set (s_vlans st) then [NoSuchVLAN i]
     else igmp_clamp_notes i g @ igmp_querier_notes i g (vlanAddress st (vlan_name sid)))"

definition igmp_on_ids :: "igmp_want \<Rightarrow> int list" where
  "igmp_on_ids w = sort (map fst (filter snd (iw_vlans w)))"

text \<open>The VLANs of a kind the notes list: those on, on the switch, with a setting that cannot be written.\<close>

definition igmp_listed :: "int \<Rightarrow> igmp_want \<Rightarrow> sw_state \<Rightarrow> (igmp_vlan \<Rightarrow> bool) \<Rightarrow> (int list \<Rightarrow> igmp_note) \<Rightarrow> igmp_note list" where
  "igmp_listed native w st P mk =
     (let ids = filter (\<lambda>i. sonic_vlan native i \<in> set (s_vlans st) \<and> P (mget no_igmp (iw_igmp w) i)) (igmp_on_ids w)
      in if ids = [] then [] else [mk ids])"

definition l2mc_rows :: "int \<Rightarrow> igmp_want \<Rightarrow> sw_state \<Rightarrow> (string \<times> fields) list" where
  "l2mc_rows native w st = fold (igmp_vlan_rows native w st) (igmp_on_ids w) []"

definition l2mc_notes :: "int \<Rightarrow> igmp_want \<Rightarrow> sw_state \<Rightarrow> igmp_note list" where
  "l2mc_notes native w st =
     concat (map (igmp_vlan_notes native w st) (igmp_on_ids w))
     @ igmp_listed native w st (\<lambda>g. 0 < iv_router_expiry g) RouterExpiryUnwritten
     @ igmp_listed native w st iv_suppression SuppressionUnwritten
     @ igmp_listed native w st (\<lambda>g. iv_flood_unknown g = Some False) FloodRefused
     @ (if iw_unknown w = Some False then [UnknownReachesRouters] else [])"

section \<open>The difference\<close>

datatype l2mc_op = DelRow string | SetRow string fields

fun l2mc_eff :: "l2mc_op \<Rightarrow> (string \<times> fields) list \<Rightarrow> (string \<times> fields) list" where
  "l2mc_eff (DelRow k) rows = AList.delete k rows"
| "l2mc_eff (SetRow k f) rows = AList.update k f rows"

definition l2mc_going :: "(string \<times> fields) list \<Rightarrow> (string \<times> fields) list \<Rightarrow> string \<Rightarrow> bool" where
  "l2mc_going want have v \<longleftrightarrow> l2mcRow @ v \<in> fst ` set have \<and> l2mcRow @ v \<notin> fst ` set want"

text \<open>The order rows go in: static members, their groups, suppression rows, router ports, the VLAN's row.\<close>

definition del_class :: "(string \<times> fields) list \<Rightarrow> (string \<times> fields) list \<Rightarrow> string \<Rightarrow> nat option" where
  "del_class want have k =
     (if has_prefix l2mcMember k then Some 0
      else if has_prefix l2mcGroup k then Some 1
      else if has_prefix l2mcSupp k then Some 2
      else case strip_prefix l2mcRouter k of
        Some rest \<Rightarrow> if l2mc_going want have (case str_cut (CHR ''|'') rest of None \<Rightarrow> rest | Some (v, r) \<Rightarrow> v) then Some 3 else None
      | None \<Rightarrow> if has_prefix l2mcRow k then Some 4 else None)"

definition l2mc_dels :: "(string \<times> fields) list \<Rightarrow> (string \<times> fields) list \<Rightarrow> nat \<Rightarrow> string list" where
  "l2mc_dels want have n = sort (filter (\<lambda>k. k \<notin> fst ` set want \<and> del_class want have k = Some n) (map fst have))"

definition set_class :: "string \<Rightarrow> nat" where
  "set_class k = (if has_prefix l2mcRow k then 0 else if has_prefix l2mcGroup k then 1 else 2)"

definition row_same :: "(string \<times> fields) list \<Rightarrow> string \<Rightarrow> fields \<Rightarrow> bool" where
  "row_same have k f = (case map_of have k of None \<Rightarrow> False | Some g \<Rightarrow> same_fields g f)"

definition l2mc_sets :: "(string \<times> fields) list \<Rightarrow> (string \<times> fields) list \<Rightarrow> nat \<Rightarrow> string list" where
  "l2mc_sets want have n = sort (filter (\<lambda>k. \<not> row_same have k (mget [] want k) \<and> set_class k = n) (map fst want))"

definition l2mcOps :: "(string \<times> fields) list \<Rightarrow> (string \<times> fields) list \<Rightarrow> l2mc_op list" where
  "l2mcOps want have =
     concat (map (\<lambda>n. map DelRow (l2mc_dels want have n)) [0, 1, 2, 3, 4])
     @ concat (map (\<lambda>n. map (\<lambda>k. SetRow k (mget [] want k)) (l2mc_sets want have n)) [0, 1, 2])"

section \<open>The apply\<close>

record igmp_col = addr_col +
  gc_on :: bool
  gc_want :: igmp_want

datatype igmp_call = EnableFeature | RunRows "l2mc_op list" | SaveRows

type_synonym igmp_run = "igmp_call \<Rightarrow> string option \<times> sw_state option"

datatype igmp_warn = IgmpNoDaemon | IgmpOptionOff | IgmpNote igmp_note

definition igmp_feature_needed :: "(string \<times> fields) list \<Rightarrow> sw_state \<Rightarrow> bool" where
  "igmp_feature_needed want st \<longleftrightarrow> list_ex (has_prefix l2mcRow) (map fst want) \<and> s_l2mc_feature st \<noteq> ''enabled''"

text \<open>The calls in order; the first that fails ends them.\<close>

definition igmp_calls :: "bool \<Rightarrow> l2mc_op list \<Rightarrow> igmp_call list" where
  "igmp_calls feature ops = (if feature then [EnableFeature] else []) @ (if ops = [] then [] else [RunRows ops]) @ [SaveRows]"

fun run_calls :: "igmp_run \<Rightarrow> igmp_call list \<Rightarrow> string option \<times> sw_state option" where
  "run_calls run [] = (None, None)"
| "run_calls run (x # xs) = (case run x of
     (Some e, fresh) \<Rightarrow> (Some e, fresh)
   | (None, fresh) \<Rightarrow> (case run_calls run xs of (e, later) \<Rightarrow> (e, if later = None then fresh else later)))"

definition applyIGMP :: "igmp_run \<Rightarrow> 'a igmp_col_scheme \<Rightarrow> (string + nat) \<times> 'a igmp_col_scheme \<times> igmp_warn list" where
  "applyIGMP run c = (case ac_state c of None \<Rightarrow> (Inr 0, c, []) | Some st \<Rightarrow>
     (let w = gc_want c in
      if \<not> iw_set w then (Inr 0, c, [])
      else if \<not> gc_on c \<or> \<not> s_l2mc_known st then (Inr 0, c,
        if list_ex snd (iw_vlans w) then [if s_l2mc_known st then IgmpOptionOff else IgmpNoDaemon] else [])
      else (let want = l2mc_rows (sc_native c) w st; notes = map IgmpNote (l2mc_notes (sc_native c) w st);
                ops = l2mcOps want (s_l2mc st); feature = igmp_feature_needed want st
        in if ops = [] \<and> \<not> feature then (Inr 0, c, notes)
           else (case run_calls run (igmp_calls feature ops) of
               (Some e, fresh) \<Rightarrow> (Inl (''sonic apply igmp: '' @ e), stored fresh c, notes)
             | (None, fresh) \<Rightarrow> (Inr 1,
                 if fresh = None then c\<lparr>ac_state := Some (st\<lparr>s_l2mc := fold l2mc_eff ops (s_l2mc st),
                     s_l2mc_feature := (if feature then ''enabled'' else s_l2mc_feature st)\<rparr>)\<rparr>
                 else stored fresh c, notes)))))"

end
