(* ===== verification/Sonic_L2_Props.thy ===== *)
theory Sonic_L2_Props
  imports Sonic_L2 Sonic_Acl_Props
begin

text \<open>
  Spanning tree on a SONiC switch: a first enable runs under the dead-man timer, the timer is only
  cancelled once a fresh connection proved the switch reachable, an enable the switch undid stays
  undone, and the apply settles.
\<close>

section \<open>A first enable runs under the timer\<close>

text \<open>
  The script, step by step: whether the timer is armed and whether the config on disk has spanning
  tree on. A start or a reload makes the daemon read that config.
\<close>

fun guarded_steps :: "bool \<Rightarrow> bool \<Rightarrow> l2_step list \<Rightarrow> bool" where
  "guarded_steps armed stp [] \<longleftrightarrow> True"
| "guarded_steps armed stp (PutConf cf # ss) \<longleftrightarrow> guarded_steps armed (l2c_stp cf) ss"
| "guarded_steps armed stp (StopTimer # ss) \<longleftrightarrow> guarded_steps False stp ss"
| "guarded_steps armed stp (ArmTimer # ss) \<longleftrightarrow> guarded_steps True stp ss"
| "guarded_steps armed stp (Restart # ss) \<longleftrightarrow> (stp \<longrightarrow> armed) \<and> guarded_steps armed stp ss"
| "guarded_steps armed stp (Reload # ss) \<longleftrightarrow> (stp \<longrightarrow> armed) \<and> guarded_steps armed stp ss"
| "guarded_steps armed stp (s # ss) \<longleftrightarrow> guarded_steps armed stp ss"

definition disk_stp :: "l2_inst \<Rightarrow> bool" where
  "disk_stp i \<longleftrightarrow> (case l2i_conf i of None \<Rightarrow> False | Some cf \<Rightarrow> l2c_stp cf)"

lemma guarded_files: "guarded_steps a s (map (\<lambda>(p, m, b). PutFile p m b) fs @ ss) = guarded_steps a s ss"
  by (induction fs) auto

lemma same_conf_stp: "same_conf a b \<Longrightarrow> l2c_stp a = l2c_stp b"
  unfolding same_conf_def by (metis l2_conf.select_convs(1) l2_conf.surjective l2_conf.update_convs(4))

lemma unchanged_disk: "\<not> conf_changed i want \<Longrightarrow> disk_stp i = l2c_stp want"
  by (auto simp: conf_changed_def disk_stp_def same_conf_stp split: option.splits)

text \<open>
  C9. A first enable of spanning tree runs under the dead-man timer: on a switch whose daemon does
  not run with spanning tree on, whatever is installed, stale or pending there, every start and every
  reload of the daemon that reads a config with spanning tree on comes after the timer was armed,
  and nothing disarms it before.
\<close>

theorem sonic_first_enable_is_guarded:
  assumes "\<not> runs_stp i"
  shows "guarded_steps armed (disk_stp i) (l2_steps e i want)"
  using assms unchanged_disk[of i want] by (auto simp: l2_steps_def guarded_files l2_arms_def)

theorem sonic_first_enable_is_guarded_witness:
  "guarded_steps False (disk_stp (s_l2 demo_sw)) (l2_steps \<lparr>le_script = ''x'', le_bridge = ''y'', le_unit = ''z'', le_sha = (\<lambda>s. s), le_now = 0\<rparr>
     (s_l2 demo_sw) ((l2_conf_of l2_no_want)\<lparr>l2c_stp := True\<rparr>))"
  by (rule sonic_first_enable_is_guarded) (simp add: demo_sw_def runs_stp_def l2_running_def)

section \<open>The timer is cancelled on proof\<close>

definition proven :: "bool \<Rightarrow> l2_event list \<Rightarrow> bool" where
  "proven probe evs \<longleftrightarrow> (\<exists>pre out. trim_space out = ''running'' \<and>
     evs = pre @ Checked (Inr out) # (if probe then [Probed None] else []))"

definition no_cancel :: "l2_event list \<Rightarrow> bool" where
  "no_cancel evs \<longleftrightarrow> (\<forall>pre r post. evs \<noteq> pre @ Cancelled r # post)"

lemma check_passes: "check_fails a = None \<Longrightarrow> \<exists>out. a = Inr out \<and> trim_space out = ''running''"
  by (auto simp: check_fails_def split: sum.splits if_splits)

lemma confirm_try_proves:
  assumes "fst (confirm_try probe t) = pre @ Cancelled r # post"
  shows "proven probe pre \<and> post = [] \<and> r = snd (confirm_try probe t)"
proof -
  from assms obtain out where o: "lt_check t = Inr out" "trim_space out = ''running''" "probe_fails probe t = None"
    by (auto simp: confirm_try_def Let_def append_eq_Cons_conv Cons_eq_append_conv split: option.splits if_splits dest!: check_passes)
  then have "fst (confirm_try probe t) = (Checked (Inr out) # (if probe then [Probed None] else [])) @ [Cancelled (lt_cancel t)]"
    and r: "snd (confirm_try probe t) = lt_cancel t"
    by (auto simp: confirm_try_def check_fails_def probe_fails_def)
  with assms have "pre @ Cancelled r # post = (Checked (Inr out) # (if probe then [Probed None] else [])) @ [Cancelled (lt_cancel t)]"
    by simp
  then have "pre = Checked (Inr out) # (if probe then [Probed None] else []) \<and> post = [] \<and> r = lt_cancel t"
    by (auto simp: append_eq_Cons_conv Cons_eq_append_conv append_eq_append_conv2 split: if_splits)
  with o r show ?thesis unfolding proven_def by (metis append_Nil)
qed

lemma proven_later: "proven probe pre \<Longrightarrow> proven probe (evs @ pre)"
  unfolding proven_def by (metis append_assoc)

lemma confirm_loop_proves:
  "fst (confirm_loop probe err n ts) = pre @ Cancelled r # post \<Longrightarrow> proven probe pre"
proof (induction probe err n ts arbitrary: pre rule: confirm_loop.induct)
  case (3 probe err n t ts)
  obtain ev res where t: "confirm_try probe t = (ev, res)" by (cases "confirm_try probe t")
  show ?case
  proof (cases res)
    case None with 3(2) t show ?thesis using confirm_try_proves[of probe t pre r post] by simp
  next
    case (Some e)
    obtain evs rr where l: "confirm_loop probe e n ts = (evs, rr)" by (cases "confirm_loop probe e n ts")
    from 3(2) t Some l have a: "ev @ evs = pre @ Cancelled r # post" by simp
    then consider us where "ev = pre @ Cancelled r # us" | us where "pre = ev @ us" "evs = us @ Cancelled r # post"
      by (auto simp: append_eq_append_conv2 Cons_eq_append_conv append_eq_Cons_conv)
    then show ?thesis
    proof cases
      case 1 with confirm_try_proves[of probe t pre r us] t show ?thesis by simp
    next
      case 2 with 3(1)[OF t[symmetric] Some, of us] l show ?thesis by (simp add: proven_later)
    qed
  qed
qed simp_all

lemma confirm_loop_success:
  "snd (confirm_loop probe err n ts) = None \<Longrightarrow> \<exists>pre. fst (confirm_loop probe err n ts) = pre @ [Cancelled None]"
proof (induction probe err n ts rule: confirm_loop.induct)
  case (3 probe err n t ts)
  obtain ev res where t: "confirm_try probe t = (ev, res)" by (cases "confirm_try probe t")
  show ?case
  proof (cases res)
    case None
    with t have "\<exists>pre. ev = pre @ [Cancelled None]"
      by (auto simp: confirm_try_def Let_def split: option.splits if_splits)
    with None t show ?thesis by simp
  next
    case (Some e)
    obtain evs rr where l: "confirm_loop probe e n ts = (evs, rr)" by (cases "confirm_loop probe e n ts")
    with 3(1)[OF t[symmetric] Some] 3(2) t Some show ?thesis by auto
  qed
qed simp_all

text \<open>
  C10. The dead-man timer is cancelled only on proof: right before every cancel the driver sends, the
  check over the same fresh connection answered that mstpd runs and, on the switch itself, the probe
  reached its address; and the confirmation succeeds only when a cancel it sent succeeded, as the last
  thing it did.
\<close>

theorem sonic_timer_cancelled_on_proof:
  "(\<forall>pre r post. fst (confirmL2 dl) = pre @ Cancelled r # post \<longrightarrow> proven (ld_probe dl) pre)
   \<and> (snd (confirmL2 dl) = None \<longrightarrow> (\<exists>pre. fst (confirmL2 dl) = pre @ [Cancelled None] \<and> proven (ld_probe dl) pre))"
proof -
  have c: "proven (ld_probe dl) pre" if "fst (confirmL2 dl) = pre @ Cancelled r # post" for pre r post
  proof (cases "ld_redial dl")
    case True with that show ?thesis using confirm_loop_proves[of "ld_probe dl" "[]" 10 "ld_tries dl" pre r post] by (simp only: confirmL2_def simp_thms if_False)
  next
    case False with that show ?thesis by (simp add: confirmL2_def)
  qed
  have "\<exists>pre. fst (confirmL2 dl) = pre @ [Cancelled None]" if "snd (confirmL2 dl) = None"
  proof (cases "ld_redial dl")
    case True with that show ?thesis using confirm_loop_success[of "ld_probe dl" "[]" 10 "ld_tries dl"] by (simp only: confirmL2_def simp_thms if_False)
  next
    case False with that show ?thesis by (simp add: confirmL2_def)
  qed
  with c show ?thesis by blast
qed

definition demo_dial :: l2_dial where
  "demo_dial = \<lparr>ld_redial = True, ld_probe = True, ld_tries =
     [\<lparr>lt_check = Inl ''timeout'', lt_probe = None, lt_cancel = None\<rparr>,
      \<lparr>lt_check = Inr ''running'', lt_probe = Some ''no route'', lt_cancel = None\<rparr>,
      \<lparr>lt_check = Inr ''running'', lt_probe = None, lt_cancel = None\<rparr>]\<rparr>"

lemma demo_confirmed: "confirmL2 demo_dial = ([Checked (Inl ''timeout''), Checked (Inr ''running''), Probed (Some ''no route''),
    Checked (Inr ''running''), Probed None, Cancelled None], None)"
  by code_simp

theorem sonic_timer_cancelled_on_proof_witness:
  "\<exists>pre. fst (confirmL2 demo_dial) = pre @ [Cancelled None] \<and> proven True pre"
proof -
  have "ld_probe demo_dial" by (simp add: demo_dial_def)
  with sonic_timer_cancelled_on_proof[of demo_dial] demo_confirmed show ?thesis by simp
qed

section \<open>An undone enable stays undone\<close>

datatype l2_event_in =
    DevicePush device_desired
  | PortsPush "port_desired list"
  | Collected sw_state
  | Applied l2_env l2_run l2_dial

text \<open>What the two pushes, a collect and an apply do to the collector.\<close>

fun l2_react :: "l2_event_in \<Rightarrow> l2_col \<Rightarrow> l2_col" where
  "l2_react (DevicePush d) c = c\<lparr>lc_want := l2SetSTP d (lc_want c)\<rparr>"
| "l2_react (PortsPush ds) c = (case ac_state c of None \<Rightarrow> c | Some st \<Rightarrow> c\<lparr>lc_want := l2SetPorts (lc_ifnames c) ds st (lc_want c)\<rparr>)"
| "l2_react (Collected st) c = c\<lparr>ac_state := Some st\<rparr>"
| "l2_react (Applied e run dl) c = fst (snd (applyL2 e run dl c))"

definition undone_by :: "string \<Rightarrow> sw_state \<Rightarrow> bool" where
  "undone_by t st \<longleftrightarrow> l2_undone (s_l2 st) = t"

text \<open>No push turns spanning tree off, and every collect shows the same undone enable.\<close>

fun keeps_asking :: "string \<Rightarrow> l2_event_in \<Rightarrow> bool" where
  "keeps_asking t (DevicePush d) \<longleftrightarrow> (dd_stp_set d \<longrightarrow> dd_stp_enabled d)"
| "keeps_asking t (PortsPush ds) \<longleftrightarrow> True"
| "keeps_asking t (Collected st) \<longleftrightarrow> undone_by t st"
| "keeps_asking t (Applied e run dl) \<longleftrightarrow> (\<forall>call st. snd (run call) = Some st \<longrightarrow> undone_by t st)"

definition holds_off :: "string \<Rightarrow> 'a l2_col_scheme \<Rightarrow> bool" where
  "holds_off t c \<longleftrightarrow> (case ac_state c of None \<Rightarrow> False | Some st \<Rightarrow> undone_by t st)
     \<and> lw_stp_set (lc_want c) \<and> lw_stp (lc_want c)
     \<and> (lw_deadman_seen (lc_want c) = t \<longrightarrow> \<not> lw_off_seen (lc_want c))"

lemma holds_off_held:
  assumes "holds_off t c" "ac_state c = Some st" "t \<noteq> []"
  shows "l2_held (s_l2 st) (lc_want c)" "l2c_stp (l2_final (s_l2 st) (lc_want c)) = False"
    "l2c_deadman (l2_final (s_l2 st) (lc_want c)) = t"
proof -
  show "l2_held (s_l2 st) (lc_want c)"
    using assms by (auto simp: holds_off_def undone_by_def l2_held_def l2_first_sight_def)
  with assms show "l2c_stp (l2_final (s_l2 st) (lc_want c)) = False" "l2c_deadman (l2_final (s_l2 st) (lc_want c)) = t"
    by (auto simp: l2_final_def l2_wish_def holds_off_def undone_by_def)
qed

lemma first_sight_frame:
  "lw_stp_set (l2_first_sight i w) = lw_stp_set w" "lw_stp (l2_first_sight i w) = lw_stp w"
  by (simp_all add: l2_first_sight_def)

lemma first_sight_holds:
  "l2_undone i = t \<Longrightarrow> t \<noteq> [] \<Longrightarrow> (lw_deadman_seen w = t \<longrightarrow> \<not> lw_off_seen w) \<Longrightarrow>
   lw_deadman_seen (l2_first_sight i w) = t \<longrightarrow> \<not> lw_off_seen (l2_first_sight i w)"
  by (auto simp: l2_first_sight_def)

lemma stored_holds: "holds_off t c \<Longrightarrow> (\<And>st. fresh = Some st \<Longrightarrow> undone_by t st) \<Longrightarrow> holds_off t (stored fresh c)"
  for c :: "'a l2_col_scheme"
  by (auto simp: holds_off_def stored_def split: option.splits)

lemma write_holds:
  assumes "holds_off t c" "l2c_deadman want = t" "\<And>call st. snd (run call) = Some st \<Longrightarrow> undone_by t st"
  shows "holds_off t (snd (l2_write e run dl n same st want c))"
proof -
  obtain r f where run: "run (RunSteps (l2_steps e (s_l2 st) want)) = (r, f)" by fastforce
  have f: "holds_off t (stored f c)" using assms(1) assms(3)[of "RunSteps (l2_steps e (s_l2 st) want)"] run by (simp add: stored_holds)
  have new: "holds_off t (c\<lparr>ac_state := Some (st\<lparr>s_l2 := l2_after e want (s_l2 st)\<rparr>)\<rparr>)"
    using assms(1,2) by (simp add: holds_off_def undone_by_def l2_undone_def l2_after_def)
  show ?thesis using assms(1) f new run
    by (auto simp: l2_write_def Let_def split: option.splits)
qed

lemma go_holds:
  assumes "holds_off t c" "ac_state c = Some st" "t \<noteq> []"
    "\<And>call st. snd (run call) = Some st \<Longrightarrow> undone_by t st"
  shows "holds_off t (snd (l2_go e run dl st c))"
proof -
  note h = holds_off_held[OF assms(1,2,3)]
  have u: "l2_undone (s_l2 st) = t" using assms(1,2) by (simp add: holds_off_def undone_by_def)
  have seen: "holds_off t (c\<lparr>lc_want := l2_first_sight (s_l2 st) (lc_want c)\<rparr>)"
    "holds_off t (c\<lparr>lc_want := (l2_first_sight (s_l2 st) (lc_want c))\<lparr>lw_tried := k\<rparr>\<rparr>)" for k
    using assms(1,2) first_sight_holds[OF u assms(3), of "lc_want c"]
    by (simp_all add: holds_off_def first_sight_frame)
  obtain r f where run: "run StartBuild = (r, f)" by fastforce
  have f: "holds_off t (stored f (c\<lparr>lc_want := (l2_first_sight (s_l2 st) (lc_want c))\<lparr>lw_tried := k\<rparr>\<rparr>))" for k
    using seen(2) assms(4)[of StartBuild] run by (simp add: stored_holds)
  show ?thesis
    using seen f run write_holds[OF seen(1) h(3), of run] write_holds[OF f h(3), of run] assms(4)
    by (auto simp: l2_go_def Let_def split: option.splits)
qed

lemma react_holds:
  assumes "holds_off t c" "t \<noteq> []" "keeps_asking t ev"
  shows "holds_off t (l2_react ev c)"
proof (cases ev)
  case (DevicePush d)
  with assms show ?thesis by (auto simp: holds_off_def l2SetSTP_def split: option.splits)
next
  case (PortsPush ds)
  with assms show ?thesis by (auto simp: holds_off_def l2SetPorts_def split: option.splits prod.splits)
next
  case (Collected st)
  with assms show ?thesis by (auto simp: holds_off_def)
next
  case (Applied e run dl)
  from assms(1) obtain st where st: "ac_state c = Some st" by (auto simp: holds_off_def split: option.splits)
  have fresh: "undone_by t s" if "snd (run call) = Some s" for call s using assms(3) Applied that by auto
  have "holds_off t (snd (l2_go e run dl st c))" by (rule go_holds[OF assms(1) st assms(2)]) (rule fresh)
  then show ?thesis
    using assms(1) st Applied
    by (auto simp: applyL2_def Let_def split: prod.splits)
qed

lemma reacts_hold: "holds_off t c \<Longrightarrow> t \<noteq> [] \<Longrightarrow> list_all (keeps_asking t) evs \<Longrightarrow> holds_off t (fold l2_react evs c)"
  by (induction evs arbitrary: c) (simp_all add: react_holds)

text \<open>
  C11. What the switch undid stays undone: once the dead-man timer turned spanning tree off at time t
  and as long as no push turns it off, every config the driver would write, after any sequence of
  pushes, collects and applies, has spanning tree off and keeps the mark t.
\<close>

theorem sonic_undone_stays_off:
  assumes "ac_state c = Some st" "l2_undone (s_l2 st) = t" "t \<noteq> []" "lw_stp_set (lc_want c)" "lw_stp (lc_want c)"
    and "lw_deadman_seen (lc_want c) \<noteq> t" and "list_all (keeps_asking t) evs"
    and "c' = fold l2_react evs c" "ac_state c' = Some st'"
  shows "l2c_stp (l2_final (s_l2 st') (lc_want c')) = False \<and> l2c_deadman (l2_final (s_l2 st') (lc_want c')) = t"
proof -
  have "holds_off t c" using assms(1-6) by (simp add: holds_off_def undone_by_def)
  then have "holds_off t c'" using reacts_hold assms(3,7,8) by blast
  from holds_off_held[OF this assms(9,3)] show ?thesis by blast
qed

definition demo_undone :: sw_state where
  "demo_undone = demo_sw\<lparr>s_l2 := (s_l2 demo_sw)\<lparr>l2i_present := True, l2i_docker := True, l2i_mstpd := ''0.2.0'',
     l2i_conf := Some ((l2_conf_of l2_no_want)\<lparr>l2c_deadman := ''noon''\<rparr>)\<rparr>\<rparr>"

definition demo_l2_col :: l2_col where
  "demo_l2_col = \<lparr>ac_state = Some demo_undone, ac_want = [], ac_written = False, sc_ports = None, sc_native = 2, sc_site = [],
     lc_on = True, lc_want = l2_no_want\<lparr>lw_stp_set := True, lw_stp := True, lw_off_seen := True\<rparr>, lc_ifnames = []\<rparr>"

theorem sonic_undone_stays_off_witness:
  "l2c_stp (l2_final (s_l2 demo_undone) (lc_want (fold l2_react [PortsPush [], Collected demo_undone] demo_l2_col))) = False
   \<and> l2c_deadman (l2_final (s_l2 demo_undone) (lc_want (fold l2_react [PortsPush [], Collected demo_undone] demo_l2_col))) = ''noon''"
proof -
  have u: "l2_undone (s_l2 demo_undone) = ''noon''" by (simp add: demo_undone_def l2_undone_def)
  show ?thesis
    by (rule sonic_undone_stays_off[of demo_l2_col demo_undone _ "[PortsPush [], Collected demo_undone]", OF _ u])
       (simp_all add: demo_l2_col_def l2_no_want_def undone_by_def u)
qed

section \<open>The apply settles\<close>

lemma same_conf_refl: "same_conf a a"
  by (cases "l2c_ports a") (simp_all add: same_conf_def same_fields_iff)

lemma fold_files:
  "distinct (map fst fs) \<Longrightarrow> (p, m, b) \<in> set fs \<Longrightarrow> map_of (fold (\<lambda>(p, m, b). AList.update p (h b)) fs acc) p = Some (h b)"
proof (induction fs arbitrary: acc)
  case (Cons f fs)
  have frame: "map_of (fold (\<lambda>(p, m, b). AList.update p (h b)) gs acc) q = map_of acc q"
    if "q \<notin> fst ` set gs" for gs :: "('a \<times> 'b \<times> 'c) list" and acc q
    using that by (induction gs arbitrary: acc) (auto simp: update_conv' split: prod.splits)
  obtain p' m' b' where f: "f = (p', m', b')" by (cases f)
  show ?case
  proof (cases "f = (p, m, b)")
    case True
    with Cons.prems(1) have "p \<notin> fst ` set fs" by auto
    with True frame[of p fs] show ?thesis by (simp add: update_conv')
  next
    case False with Cons f show ?thesis by auto
  qed
qed simp

lemma files_distinct: "distinct (map fst (l2_files e))"
  by (simp add: l2_files_def l2dPath_def bridgeSTP_def l2dUnitPath_def)

lemma nothing_stale: "l2_stale e (l2_after e want i) = []"
  unfolding l2_stale_def filter_empty_conv
  by (auto simp: l2_after_def mget_def fold_files[OF files_distinct] split: option.splits)

lemma settled_steps: "l2_steps e (l2_after e want i) want = []"
  by (simp add: l2_steps_def nothing_stale is_stale_def l2_running_def conf_changed_def l2_arms_def runs_stp_def)
     (simp add: l2_after_def same_conf_refl)

lemma after_undone: "l2_undone (l2_after e want i) = l2c_deadman want"
  by (simp add: l2_after_def l2_undone_def)

lemma after_inst:
  "l2i_mstpd (l2_after e want i) = l2i_mstpd i" "l2i_build (l2_after e want i) = l2i_build i"
  "l2i_docker (l2_after e want i) = l2i_docker i" "l2i_present (l2_after e want i) = l2i_present i"
  by (simp_all add: l2_after_def)

lemma wish_mark: "l2c_deadman (l2_final i w) = (if l2_held i w then l2_undone i else [])"
  by (simp add: l2_final_def l2_wish_def l2_conf_of_def)

lemma sight_frame: "l2_conf_of (l2_first_sight i w) = l2_conf_of w" "lw_tried (l2_first_sight i w) = lw_tried w"
  "lw_guard (l2_first_sight i w) = lw_guard w" "lw_ports_set (l2_first_sight i w) = lw_ports_set w"
  by (simp_all add: l2_first_sight_def l2_conf_of_def)

lemma after_sight: "l2_first_sight (l2_after e (l2_final i w) i) (l2_first_sight i w) = l2_first_sight i w"
  by (auto simp: l2_first_sight_def after_undone wish_mark)

lemma after_held: "l2_held (l2_after e (l2_final i w) i) (l2_first_sight i w) = l2_held i w"
  unfolding l2_held_def[of "l2_after e (l2_final i w) i"] after_sight after_undone wish_mark
  by (auto simp: l2_held_def first_sight_frame)

lemma after_wish: "l2_wish (l2_after e (l2_final i w) i) (l2_first_sight i w) = l2_wish i w"
  by (simp add: l2_wish_def after_held after_undone wish_mark sight_frame)

lemma after_waits: "l2_waits (l2_after e (l2_final i w) i) (l2_first_sight i w) = l2_waits i w"
  by (simp add: l2_waits_def after_wish after_inst)

lemma after_final: "l2_final (l2_after e (l2_final i w) i) (l2_first_sight i w) = l2_final i w"
  unfolding l2_final_def[of "l2_after e (l2_final i w) i"] after_wish after_waits by (simp add: l2_final_def)

lemma after_builds: "l2_builds e (l2_after e (l2_final i w) i) (l2_first_sight i w) = l2_builds e i w"
  by (simp add: l2_builds_def after_waits after_inst l2_tried_lately_def sight_frame)

text \<open>Looking again at the same mark changes nothing.\<close>

lemma sight_again: "l2_first_sight i (l2_first_sight i w) = l2_first_sight i w"
  by (simp add: l2_first_sight_def)

lemma held_again: "l2_held i (l2_first_sight i w) = l2_held i w"
  unfolding l2_held_def sight_again first_sight_frame ..

lemma wish_again: "l2_wish i (l2_first_sight i w) = l2_wish i w"
  unfolding l2_wish_def held_again sight_frame ..

lemma waits_again: "l2_waits i (l2_first_sight i w) = l2_waits i w"
  unfolding l2_waits_def wish_again ..

lemma final_again: "l2_final i (l2_first_sight i w) = l2_final i w"
  unfolding l2_final_def waits_again wish_again ..

lemma builds_again: "l2_builds e i (l2_first_sight i w) = l2_builds e i w"
  unfolding l2_builds_def waits_again l2_tried_lately_def sight_frame ..

text \<open>An apply that does not build leaves the collector idle: looked at, or with the steps taken.\<close>

definition l2_idle :: "l2_env \<Rightarrow> sw_state \<Rightarrow> l2_want \<Rightarrow> bool" where
  "l2_idle e st w \<longleftrightarrow> \<not> l2_builds e (s_l2 st) w \<and> l2_first_sight (s_l2 st) w = w
     \<and> (l2_waits (s_l2 st) w \<and> \<not> l2c_guard (l2_final (s_l2 st) w) \<and> l2i_conf (s_l2 st) = None
        \<or> l2_steps e (s_l2 st) (l2_final (s_l2 st) w) = [])"

lemma idle_go: "l2_idle e st (lc_want c) \<Longrightarrow> l2_go e run dl st c = (Inr 0, c)"
  by (auto simp: l2_idle_def l2_go_def Let_def l2_write_def)

lemma go_idles:
  assumes "ac_state c = Some st" "\<not> l2_builds e (s_l2 st) (lc_want c)" "\<And>steps. run (RunSteps steps) = (None, None)"
    and "c1 = snd (l2_go e run dl st c)"
  obtains st1 where "ac_state c1 = Some st1" "l2_idle e st1 (lc_want c1)"
proof -
  let ?i = "s_l2 st" let ?w = "lc_want c" let ?f = "l2_final ?i ?w"
  let ?seen = "c\<lparr>lc_want := l2_first_sight ?i ?w\<rparr>"
  let ?taken = "?seen\<lparr>ac_state := Some (st\<lparr>s_l2 := l2_after e ?f ?i\<rparr>)\<rparr>"
  show thesis
  proof (cases "l2_waits ?i ?w \<and> \<not> l2c_guard ?f \<and> l2i_conf ?i = None \<or> l2_steps e ?i ?f = []")
    case True
    then have "c1 = ?seen" using assms(2,4) by (auto simp: l2_go_def Let_def l2_write_def)
    with True assms(1,2) that show thesis
      by (simp add: l2_idle_def final_again waits_again builds_again sight_again)
  next
    case False
    then have "c1 = ?taken" using assms(2,3,4) by (auto simp: l2_go_def Let_def l2_write_def split: option.splits)
    with assms(2) that show thesis
      by (simp add: l2_idle_def after_final after_builds after_sight settled_steps)
  qed
qed

text \<open>
  The apply settles: when the switch takes the steps, no collect comes between and mstpd need not
  be built first, applying the same intent again runs nothing on the switch, whatever a call would
  answer, reports nothing written and changes nothing.
\<close>

theorem sonic_l2_settles:
  assumes "ac_state c = Some st" "\<not> l2_builds e (s_l2 st) (lc_want c)" "\<And>steps. run (RunSteps steps) = (None, None)"
    and "c1 = fst (snd (applyL2 e run dl c))"
  shows "fst (applyL2 e run' dl' c1) = Inr 0 \<and> fst (snd (applyL2 e run' dl' c1)) = c1"
proof (cases "s_stp_feature st \<or> \<not> lc_on c \<or> \<not> canRun (s_l2 st) \<or> \<not> lw_stp_set (lc_want c) \<or> \<not> lw_ports_set (lc_want c)
    \<or> \<not> lw_stp (lc_want c) \<and> lw_guard (lc_want c) = [] \<and> l2i_conf (s_l2 st) = None")
  case True
  then have "c1 = c" using assms(1,4) by (auto simp: applyL2_def Let_def)
  with True assms(1) show ?thesis by (auto simp: applyL2_def Let_def)
next
  case False
  then have "c1 = snd (l2_go e run dl st c)" using assms(1,4) by (auto simp: applyL2_def Let_def split: prod.splits)
  from go_idles[OF assms(1-3) this] obtain st1 where "ac_state c1 = Some st1" "l2_idle e st1 (lc_want c1)" by blast
  with idle_go[of e st1 c1 run' dl'] show ?thesis by (auto simp: applyL2_def Let_def)
qed

definition demo_l2_env :: l2_env where
  "demo_l2_env = \<lparr>le_script = ''x'', le_bridge = ''y'', le_unit = ''z'', le_sha = (\<lambda>s. s), le_now = 0\<rparr>"

theorem sonic_l2_settles_witness:
  "fst (applyL2 demo_l2_env (\<lambda>call. (Some ''down'', None)) demo_dial
     (fst (snd (applyL2 demo_l2_env (\<lambda>call. (None, None)) demo_dial (l2_react (PortsPush []) demo_l2_col))))) = Inr 0"
proof -
  let ?c = "l2_react (PortsPush []) demo_l2_col"
  have st: "ac_state ?c = Some demo_undone" by (simp add: demo_l2_col_def l2SetPorts_def)
  have "\<not> l2_builds demo_l2_env (s_l2 demo_undone) (lc_want ?c)"
    by (simp add: l2_builds_def l2_waits_def demo_undone_def)
  from sonic_l2_settles[OF st this _ refl, of "\<lambda>call. (None, None)"] show ?thesis by simp
qed

text \<open>
  A push without ports writes the config again after every collect: the file leaves the empty map out,
  it is read back as a nil map, and the two differ.
\<close>

lemma sonic_l2_no_ports_never_equal:
  assumes "lw_ports_set w" "lw_ports w = []" "l2i_conf i = Some ((l2_final i w)\<lparr>l2c_ports := None\<rparr>)"
  shows "conf_changed i (l2_final i w)"
proof -
  have "l2c_ports (l2_final i w) = Some []" using assms(1,2) by (simp add: l2_final_def l2_wish_def l2_conf_of_def)
  with assms(3) show ?thesis by (simp add: conf_changed_def same_conf_def)
qed

section \<open>The confirmation ends\<close>

fun is_check :: "l2_event \<Rightarrow> bool" where
  "is_check (Checked a) = True" | "is_check (Probed a) = False" | "is_check (Cancelled a) = False"

lemma confirm_try_checks: "length (filter is_check (fst (confirm_try probe t))) = 1"
  by (auto simp: confirm_try_def Let_def split: option.split)

lemma confirm_loop_checks: "length (filter is_check (fst (confirm_loop probe err n ts))) \<le> n"
proof (induction probe err n ts rule: confirm_loop.induct)
  case (3 probe err n t ts)
  obtain ev res where t: "confirm_try probe t = (ev, res)" by (cases "confirm_try probe t")
  have one: "length (filter is_check ev) = 1" using confirm_try_checks[of probe t] t by simp
  show ?case
  proof (cases res)
    case None
    then show ?thesis using t one by simp
  next
    case (Some e)
    obtain evs rr where l: "confirm_loop probe e n ts = (evs, rr)" by (cases "confirm_loop probe e n ts")
    show ?thesis using 3[OF t[symmetric] Some] t one l Some by simp
  qed
qed simp_all

lemma confirm_loop_take: "confirm_loop probe err n (take n ts) = confirm_loop probe err n ts"
proof (induction probe err n ts rule: confirm_loop.induct)
  case (3 probe err n t ts)
  obtain ev res where t: "confirm_try probe t = (ev, res)" by (cases "confirm_try probe t")
  show ?case using 3[OF t[symmetric]] t by (cases res) simp_all
qed simp_all

lemma confirm_loop_ends:
  "length ts \<ge> n \<Longrightarrow> (case snd (confirm_loop probe err n ts) of
     None \<Rightarrow> \<exists>pre. fst (confirm_loop probe err n ts) = pre @ [Cancelled None]
   | Some e \<Rightarrow> length (filter is_check (fst (confirm_loop probe err n ts))) = n)"
proof (induction probe err n ts rule: confirm_loop.induct)
  case (3 probe err n t ts)
  obtain ev res where t: "confirm_try probe t = (ev, res)" by (cases "confirm_try probe t")
  have one: "length (filter is_check ev) = 1" using confirm_try_checks[of probe t] t by simp
  show ?case
  proof (cases res)
    case None
    with t have "\<exists>pre. ev = pre @ [Cancelled None]"
      by (auto simp: confirm_try_def Let_def split: option.splits if_splits)
    with None t show ?thesis by simp
  next
    case (Some e)
    obtain evs rr where l: "confirm_loop probe e n ts = (evs, rr)" by (cases "confirm_loop probe e n ts")
    have "length ts \<ge> n" using 3(2) by simp
    from 3(1)[OF t[symmetric] Some this] show ?thesis using t one l Some by (auto split: option.splits)
  qed
qed simp_all


definition demo_slow :: l2_dial where
  "demo_slow = \<lparr>ld_redial = True, ld_probe = False,
     ld_tries = replicate 12 \<lparr>lt_check = Inr ''starting'', lt_probe = None, lt_cancel = None\<rparr>\<rparr>"

lemma demo_slow_end: "snd (confirmL2 demo_slow) = Some ''spanning tree not confirmed: mstpd starting''"
  by code_simp


end
