(* ===== verification/Sonic_Address_Props.thy ===== *)
theory Sonic_Address_Props
  imports Sonic_Address Sonic_L2_Props
begin

text \<open>
  Moving the bridge's own address never strands it: whatever fails and wherever a batch is cut, the
  switch keeps an address among the bridge's dial targets. A move that succeeded is not made again.
\<close>

section \<open>What Linux does with the addresses\<close>

text \<open>
  \<open>held s\<close> are the interface's addresses, oldest first; \<open>promoted s\<close>: promote_secondaries is on;
  \<open>ok cmd s\<close>: the command succeeds there. Removing an address keeps the older ones, and every other
  one when secondaries are promoted; without, younger ones in its subnet may go with it.
\<close>

record 's linux =
  lx_exec :: "addr_cmd \<Rightarrow> 's \<Rightarrow> 's"
  lx_ok :: "addr_cmd \<Rightarrow> 's \<Rightarrow> bool"
  lx_held :: "'s \<Rightarrow> (string \<times> int) list"
  lx_promoted :: "'s \<Rightarrow> bool"

definition keeps_older :: "'s linux \<Rightarrow> bool" where
  "keeps_older lx \<longleftrightarrow> (\<forall>i a s. set (takeWhile (\<lambda>x. x \<noteq> a) (lx_held lx s)) \<subseteq> set (lx_held lx (lx_exec lx (IpRemove i a) s)))"

definition keeps_promoted :: "'s linux \<Rightarrow> bool" where
  "keeps_promoted lx \<longleftrightarrow> (\<forall>i a s. lx_promoted lx s \<longrightarrow> set (lx_held lx s) - {a} \<subseteq> set (lx_held lx (lx_exec lx (IpRemove i a) s)))"

definition adds_last :: "'s linux \<Rightarrow> bool" where
  "adds_last lx \<longleftrightarrow> (\<forall>i a s. lx_held lx (lx_exec lx (IpAdd i a) s) \<in> {lx_held lx s, lx_held lx s @ [a]}
     \<and> (lx_ok lx (IpAdd i a) s \<longrightarrow> a \<in> set (lx_held lx (lx_exec lx (IpAdd i a) s))))"

fun changes_addresses :: "addr_cmd \<Rightarrow> bool" where
  "changes_addresses (IpAdd i a) = True"
| "changes_addresses (IpRemove i a) = True"
| "changes_addresses cmd = False"

definition others_keep :: "'s linux \<Rightarrow> bool" where
  "others_keep lx \<longleftrightarrow> (\<forall>cmd s. \<not> changes_addresses cmd \<longrightarrow> lx_held lx (lx_exec lx cmd s) = lx_held lx s)"

definition promotes :: "'s linux \<Rightarrow> bool" where
  "promotes lx \<longleftrightarrow> (\<forall>i s. lx_ok lx (Promote i) s \<longrightarrow> lx_promoted lx (lx_exec lx (Promote i) s))"

definition linux_addresses :: "'s linux \<Rightarrow> bool" where
  "linux_addresses lx \<longleftrightarrow> keeps_older lx \<and> keeps_promoted lx \<and> adds_last lx \<and> others_keep lx \<and> promotes lx"

lemma lx_add: "linux_addresses lx \<Longrightarrow> lx_held lx (lx_exec lx (IpAdd i a) s) = lx_held lx s
    \<or> lx_held lx (lx_exec lx (IpAdd i a) s) = lx_held lx s @ [a]"
  unfolding linux_addresses_def adds_last_def by blast

lemma lx_added: "linux_addresses lx \<Longrightarrow> lx_ok lx (IpAdd i a) s \<Longrightarrow> a \<in> set (lx_held lx (lx_exec lx (IpAdd i a) s))"
  unfolding linux_addresses_def adds_last_def by blast

lemma lx_older: "linux_addresses lx \<Longrightarrow> x \<in> set (takeWhile (\<lambda>x. x \<noteq> a) (lx_held lx s)) \<Longrightarrow> x \<in> set (lx_held lx (lx_exec lx (IpRemove i a) s))"
  unfolding linux_addresses_def keeps_older_def by blast

lemma lx_secondary: "linux_addresses lx \<Longrightarrow> lx_promoted lx s \<Longrightarrow> x \<in> set (lx_held lx s) \<Longrightarrow> x \<noteq> a
    \<Longrightarrow> x \<in> set (lx_held lx (lx_exec lx (IpRemove i a) s))"
  unfolding linux_addresses_def keeps_promoted_def by blast

lemma lx_other: "linux_addresses lx \<Longrightarrow> \<not> changes_addresses cmd \<Longrightarrow> lx_held lx (lx_exec lx cmd s) = lx_held lx s"
  unfolding linux_addresses_def others_keep_def by blast

lemma lx_promote: "linux_addresses lx \<Longrightarrow> lx_ok lx (Promote i) s \<Longrightarrow> lx_promoted lx (lx_exec lx (Promote i) s)"
  unfolding linux_addresses_def promotes_def by blast

text \<open>
  A batch runs under \<open>set -e\<close> and may be cut anywhere: it runs some first commands, all of which but
  the last succeeded; without an error it ran them all.
\<close>

definition all_ok :: "'s linux \<Rightarrow> addr_cmd list \<Rightarrow> 's \<Rightarrow> bool" where
  "all_ok lx cmds s \<longleftrightarrow> (\<forall>k < length cmds. lx_ok lx (cmds ! k) (fold (lx_exec lx) (take k cmds) s))"

definition set_e :: "'s linux \<Rightarrow> (addr_cmd list \<Rightarrow> 's \<Rightarrow> string option \<times> 's) \<Rightarrow> bool" where
  "set_e lx batch \<longleftrightarrow> (\<forall>cmds s. (fst (batch cmds s) = None \<and> snd (batch cmds s) = fold (lx_exec lx) cmds s \<and> all_ok lx cmds s)
     \<or> fst (batch cmds s) \<noteq> None \<and> (\<exists>n. snd (batch cmds s) = fold (lx_exec lx) (take n cmds) s \<and> all_ok lx (take (n - 1) cmds) s))"

lemma batch_cut:
  assumes "set_e lx batch" "batch cmds s = (r, s')"
  obtains n where "s' = fold (lx_exec lx) (take n cmds) s" "all_ok lx (take (n - 1) cmds) s"
    "r = None \<Longrightarrow> length cmds \<le> n \<and> all_ok lx cmds s"
proof -
  from assms have "(r = None \<and> s' = fold (lx_exec lx) cmds s \<and> all_ok lx cmds s)
     \<or> r \<noteq> None \<and> (\<exists>n. s' = fold (lx_exec lx) (take n cmds) s \<and> all_ok lx (take (n - 1) cmds) s)"
    unfolding set_e_def by (metis fst_conv snd_conv)
  then show thesis
  proof
    assume a: "r = None \<and> s' = fold (lx_exec lx) cmds s \<and> all_ok lx cmds s"
    show thesis by (rule that[of "Suc (length cmds)"]) (use a in simp_all)
  next
    assume "r \<noteq> None \<and> (\<exists>n. s' = fold (lx_exec lx) (take n cmds) s \<and> all_ok lx (take (n - 1) cmds) s)"
    then show thesis using that by blast
  qed
qed

section \<open>Each batch\<close>

lemma held_others:
  assumes "linux_addresses lx" "list_all (\<lambda>cmd. \<not> changes_addresses cmd) cmds"
  shows "lx_held lx (fold (lx_exec lx) cmds s) = lx_held lx s"
  using assms(2) by (induction cmds arbitrary: s) (simp_all add: lx_other[OF assms(1)])

definition tame :: "addr_cmd list \<Rightarrow> bool" where
  "tame cmds \<longleftrightarrow> list_all (\<lambda>cmd. \<not> changes_addresses cmd) cmds"

lemma tame_take: "tame cmds \<Longrightarrow> tame (take n cmds)"
  unfolding tame_def list_all_iff by (meson in_set_takeD)

lemma tame_first: "tame ((if b then [RouteAdd gw] else []) @ map NameserverDel xs @ map NameserverAdd ys)"
  by (auto simp: tame_def list_all_iff)

lemma tame_stale: "tame (stale_route st d @ [SaveConfig])" "tame (stale_route st d)"
  by (simp_all add: stale_route_def tame_def)

lemma held_tame: "linux_addresses lx \<Longrightarrow> tame cmds \<Longrightarrow> lx_held lx (fold (lx_exec lx) (take n cmds) s) = lx_held lx s"
  using held_others[of lx "take n cmds"] tame_take[of cmds n] by (simp only: tame_def)

lemma held_add:
  assumes "linux_addresses lx" "tame rest"
  shows "lx_held lx (fold (lx_exec lx) (take n (IpAdd i a # rest)) s) \<in> {lx_held lx s, lx_held lx s @ [a]}"
proof (cases n)
  case (Suc k)
  then show ?thesis using lx_add[OF assms(1), of i a s] by (simp add: held_tame[OF assms])
qed simp

lemma held_added:
  assumes "linux_addresses lx" "tame rest" "all_ok lx (IpAdd i a # rest) s"
  shows "a \<in> set (lx_held lx (fold (lx_exec lx) (take (Suc n) (IpAdd i a # rest)) s))"
proof -
  have "lx_ok lx (IpAdd i a) s" using assms(3) unfolding all_ok_def by (metis fold_simps(1) length_Cons nth_Cons_0 take0 zero_less_Suc)
  from lx_added[OF assms(1) this] show ?thesis by (simp add: held_tame[OF assms(1,2)])
qed

text \<open>Removing the new address again keeps the old one, which is older.\<close>

lemma held_undo:
  assumes "linux_addresses lx" "tame rest" "old \<in> set (takeWhile (\<lambda>x. x \<noteq> new) (lx_held lx s))"
  shows "old \<in> set (lx_held lx (fold (lx_exec lx) (take n (IpRemove i new # rest)) s))"
proof (cases n)
  case 0 with set_takeWhileD[OF assms(3)] show ?thesis by simp
next
  case (Suc k)
  with lx_older[OF assms(1,3)] show ?thesis by (simp add: held_tame[OF assms(1,2)])
qed

text \<open>The finish promotes secondaries before it removes the old address: the new one stays.\<close>

lemma held_finish:
  assumes "linux_addresses lx" "tame rest" "new \<in> set (lx_held lx s)" "new \<noteq> old"
    and "all_ok lx (take (n - 1) (moveFinish i old new @ rest)) s"
  shows "new \<in> set (lx_held lx (fold (lx_exec lx) (take n (moveFinish i old new @ rest)) s))"
proof -
  have p: "lx_held lx (lx_exec lx (Promote i) s) = lx_held lx s" "lx_held lx (lx_exec lx (Verify i new) t) = lx_held lx t" for t
    by (simp_all add: lx_other[OF assms(1)])
  consider "n = 0" | "n = 1" | k where "n = Suc (Suc k)" by (metis One_nat_def not0_implies_Suc)
  then show ?thesis
  proof cases
    case 3
    let ?t = "lx_exec lx (Promote i) s"
    have "lx_ok lx (Promote i) s"
      using assms(5) 3 unfolding all_ok_def moveFinish_def by (auto dest!: spec[of _ 0])
    then have new: "new \<in> set (lx_held lx (lx_exec lx (IpRemove i old) ?t))"
      using lx_secondary[OF assms(1) lx_promote[OF assms(1)]] assms(3,4) p(1) by metis
    have "tame (Verify i new # rest)" using assms(2) by (simp add: tame_def)
    from held_tame[OF assms(1) this] new 3 show ?thesis by (simp add: moveFinish_def)
  qed (use assms(3) p in \<open>simp_all add: moveFinish_def\<close>)
qed

section \<open>A way in\<close>

definition way_in :: "'s linux \<Rightarrow> string list \<Rightarrow> 's \<Rightarrow> bool" where
  "way_in lx targets s \<longleftrightarrow> (\<exists>a \<in> set (lx_held lx s). fst a \<in> set targets)"

definition move_targets :: "'s addr_world \<Rightarrow> 'a addr_col_scheme \<Rightarrow> 'a addr_col_scheme \<Rightarrow> string list" where
  "move_targets wd c c' = (if vc_dial c' = vc_dial c then aw_dials wd else []) @ [vc_dial c', vc_pending c']"

lemma way_in_dialled: "(ip, l) \<in> set (lx_held lx s) \<Longrightarrow> ip \<in> set ts \<Longrightarrow> way_in lx ts s"
  unfolding way_in_def by (metis fst_conv)

lemma note_dial: "vc_dial (noteAddress cur d g a b c) = vc_dial c" "vc_pending (noteAddress cur d g a b c) = vc_pending c"
  by (simp_all add: noteAddress_def)

lemma finish_way:
  assumes lx: "linux_addresses lx" and se: "\<And>over. set_e lx (aw_batch wd over)"
    and new: "(ad_ip d, ad_prefix d) \<in> set (lx_held lx s)" "ad_ip d \<noteq> fa_ip cur"
    and r: "move_finish wd st cur d c s = (r, c', s')"
  shows "(ad_ip d, ad_prefix d) \<in> set (lx_held lx s') \<and> (vc_pending c' = ad_ip d \<or> vc_dial c' = ad_ip d)"
proof -
  let ?cmds = "finish_cmds st cur d"
  obtain b s1 where b: "aw_batch wd (aw_proof wd \<noteq> ByProbe) ?cmds s = (b, s1)" by fastforce
  from batch_cut[OF se b] obtain n where n: "s1 = fold (lx_exec lx) (take n ?cmds) s" "all_ok lx (take (n - 1) ?cmds) s" by blast
  have "(ad_ip d, ad_prefix d) \<in> set (lx_held lx s1)"
    unfolding n(1) finish_cmds_def by (rule held_finish[OF lx tame_stale(1) new(1)]) (use new(2) n(2) in \<open>simp_all add: finish_cmds_def\<close>)
  with r b show ?thesis
    by (auto simp: move_finish_def Let_def note_dial setPendingDial_def adoptDial_def split: option.splits)
qed

lemma older_kept:
  assumes "ys \<in> {xs, xs @ [new]}" "new \<notin> set xs" "old \<in> set xs"
  shows "old \<in> set (takeWhile (\<lambda>x. x \<noteq> new) ys)"
proof -
  have "takeWhile (\<lambda>x. x \<noteq> new) (xs @ zs) = xs @ takeWhile (\<lambda>x. x \<noteq> new) zs" for zs
    using assms(2) by (intro takeWhile_append2) blast
  note t = this[of "[]"] this[of "[new]"]
  from assms(1) consider "ys = xs" | "ys = xs @ [new]" by blast
  then show ?thesis
  proof cases
    case 1 with t(1) assms(3) show ?thesis by (simp only: append_Nil2 takeWhile.simps)
  next
    case 2 with t(2) assms(3) show ?thesis by (simp only: set_append Un_iff simp_thms)
  qed
qed

lemma move_way:
  assumes lx: "linux_addresses lx" and se: "\<And>over. set_e lx (aw_batch wd over)"
    and old: "(fa_ip cur, fa_len cur) \<in> set (lx_held lx s)" "fa_ip cur \<in> set (aw_dials wd)"
    and new: "(ad_ip d, ad_prefix d) \<notin> set (lx_held lx s)" "ad_ip d \<noteq> fa_ip cur"
    and r: "move_address wd st cur d c s = (r, c', s')"
  shows "way_in lx (move_targets wd c c') s'"
proof -
  let ?new = "(ad_ip d, ad_prefix d)" let ?old = "(fa_ip cur, fa_len cur)"
  let ?rest = "(if gw_change st d then [RouteAdd (ad_gateway d)] else []) @ map NameserverDel (dns_del st d) @ map NameserverAdd (dns_add st d)"
  have first: "first_cmds st cur d = IpAdd (fa_iface cur) ?new # ?rest" using new(2) by (simp add: first_cmds_def)
  obtain b s1 where b: "aw_batch wd False (first_cmds st cur d) s = (b, s1)" by fastforce
  from batch_cut[OF se b] obtain n where n: "s1 = fold (lx_exec lx) (take n (first_cmds st cur d)) s"
    "b = None \<Longrightarrow> length (first_cmds st cur d) \<le> n \<and> all_ok lx (first_cmds st cur d) s" by blast
  have held: "lx_held lx s1 \<in> {lx_held lx s, lx_held lx s @ [?new]}"
    unfolding n(1) first by (rule held_add[OF lx tame_first])
  have same: "way_in lx (move_targets wd c c') t" if "c' = c" "?old \<in> set (lx_held lx t)" for t
    using way_in_dialled[OF that(2)] old(2) that(1) by (simp add: move_targets_def)
  show ?thesis
  proof (cases b)
    case (Some e)
    with r b have c: "c' = c" "s' = s1" by (auto simp: move_address_def)
    show ?thesis unfolding c(2) by (rule same[OF c(1)]) (use held old(1) in auto)
  next
    case None
    show ?thesis
    proof (cases "cannot_prove wd (ad_ip d)")
      case (Some why)
      let ?undo = "undo_cmds st cur d"
      obtain u s2 where u: "aw_batch wd False ?undo s1 = (u, s2)" by fastforce
      from batch_cut[OF se u] obtain m where m: "s2 = fold (lx_exec lx) (take m ?undo) s1" by blast
      have "?old \<in> set (takeWhile (\<lambda>x. x \<noteq> ?new) (lx_held lx s1))" by (rule older_kept[OF held new(1) old(1)])
      then have "?old \<in> set (lx_held lx s2)"
        unfolding m undo_cmds_def by (rule held_undo[OF lx, rotated]) (simp add: tame_def)
      moreover have "c' = c \<and> s' = s2"
        using r by (cases u) (simp_all add: move_address_def b None Some undoAddress_def u)
      ultimately show ?thesis using same by blast
    next
      case p: None
      from n None obtain k where k: "n = Suc k" "all_ok lx (IpAdd (fa_iface cur) ?new # ?rest) s"
        using first by (metis Suc_le_D length_Cons)
      have "?new \<in> set (lx_held lx s1)"
        unfolding n(1) first k(1) by (rule held_added[OF lx tame_first k(2)])
      from finish_way[OF lx se this new(2), of st c r c' s'] r b None p
      have f: "?new \<in> set (lx_held lx s')" "vc_pending c' = ad_ip d \<or> vc_dial c' = ad_ip d" by (auto simp: move_address_def)
      from f(2) have "ad_ip d \<in> set (move_targets wd c c')" by (elim disjE) (simp_all add: move_targets_def)
      with way_in_dialled[OF f(1)] show ?thesis by blast
    qed
  qed
qed

text \<open>A change of gateway or name servers touches no address.\<close>

lemma change_way:
  assumes lx: "linux_addresses lx" and se: "\<And>over. set_e lx (aw_batch wd over)"
    and old: "(fa_ip cur, fa_len cur) \<in> set (lx_held lx s)" "fa_ip cur \<in> set (aw_dials wd)" "fa_ip cur = ad_ip d"
    and r: "change_kept wd st cur d c s = (r, c', s')"
  shows "way_in lx (move_targets wd c c') s'"
proof -
  let ?cmds = "first_cmds st cur d @ stale_route st d @ [SaveConfig]"
  obtain b s1 where b: "aw_batch wd False ?cmds s = (b, s1)" by fastforce
  from batch_cut[OF se b] obtain n where n: "s1 = fold (lx_exec lx) (take n ?cmds) s" by blast
  have "tame ?cmds" using old(3) tame_stale(1)[of st d] by (auto simp: tame_def first_cmds_def list_all_iff)
  then have "(fa_ip cur, fa_len cur) \<in> set (lx_held lx s1)" using old(1) by (simp only: n held_tame[OF lx])
  from way_in_dialled[OF this, of "move_targets wd c c'"] r b old(2) show ?thesis
    by (auto simp: change_kept_def note_dial move_targets_def split: option.splits)
qed


text \<open>A switch that drops every younger address with the one removed, unless secondaries are promoted.\<close>

fun demo_exec :: "addr_cmd \<Rightarrow> (string \<times> int) list \<times> bool \<Rightarrow> (string \<times> int) list \<times> bool" where
  "demo_exec (IpAdd i a) (as, p) = (as @ [a], p)"
| "demo_exec (IpRemove i a) (as, p) = (if p then removeAll a as else takeWhile (\<lambda>x. x \<noteq> a) as, p)"
| "demo_exec (Promote i) (as, p) = (as, True)"
| "demo_exec cmd s = s"

definition demo_linux :: "((string \<times> int) list \<times> bool) linux" where
  "demo_linux = \<lparr>lx_exec = demo_exec, lx_ok = (\<lambda>cmd s. True), lx_held = fst, lx_promoted = snd\<rparr>"

definition demo_world :: "((string \<times> int) list \<times> bool) addr_world" where
  "demo_world = \<lparr>aw_dials = [''10.0.0.2''], aw_proof = ByDial, aw_answers = (\<lambda>ip. None),
     aw_batch = (\<lambda>over cmds s. (None, fold demo_exec cmds s))\<rparr>"

lemma demo_linux_ok: "linux_addresses demo_linux"
proof -
  have "fst (demo_exec cmd s) = fst s" if "\<not> changes_addresses cmd" for cmd s
    using that by (cases "(cmd, s)" rule: demo_exec.cases) auto
  then have "others_keep demo_linux" by (simp add: others_keep_def demo_linux_def)
  moreover have "keeps_older demo_linux" by (auto simp: keeps_older_def demo_linux_def dest: set_takeWhileD)
  moreover have "keeps_promoted demo_linux" "adds_last demo_linux" "promotes demo_linux"
    by (auto simp: keeps_promoted_def adds_last_def promotes_def demo_linux_def)
  ultimately show ?thesis by (simp add: linux_addresses_def)
qed

lemma demo_set_e: "set_e demo_linux (aw_batch demo_world over)"
  by (simp add: set_e_def demo_world_def demo_linux_def all_ok_def)

definition demo_if :: if_addr where
  "demo_if = \<lparr>fa_iface = ''Vlan2'', fa_ip = ''10.0.0.2'', fa_len = 24\<rparr>"

definition demo_addr_col :: addr_col where
  "demo_addr_col = \<lparr>ac_state = Some (demo_sw\<lparr>s_ifaddrs := [''Vlan2|10.0.0.2/24'']\<rparr>), ac_want = [], ac_written = False, sc_ports = None,
     sc_native = 2, sc_site = [], lc_on = True, lc_want = l2_no_want, lc_ifnames = [],
     vc_addrs = Some [demo_if], vc_dhcp = False, vc_gateway = [],
     vc_dial = ''10.0.0.2'', vc_saved = [], vc_pending = [], vc_config = ''10.0.0.2''\<rparr>"

definition demo_move :: address_desired where
  "demo_move = \<lparr>ad_dhcp = False, ad_ip = ''10.0.0.9'', ad_prefix = 24, ad_gateway = [], ad_dns = []\<rparr>"


section \<open>A move is made once\<close>

lemma note_settings:
  "same_settings (note_state cur d (defaultRoute st) (dns_add st d) (dns_del st d) st) (cur\<lparr>fa_ip := ad_ip d, fa_len := ad_prefix d\<rparr>) d"
proof -
  let ?n = "note_state cur d (defaultRoute st) (dns_add st d) (dns_del st d) st"
  have dns: "set (s_dns ?n) = (set (s_dns st) \<union> set (dns_add st d)) - set (dns_del st d)"
    by (auto simp: note_state_def)
  have "\<not> gw_change ?n d" by (simp add: gw_change_def note_state_def defaultRoute_def mget_def update_conv' split: option.splits)
  moreover have "set (dns_add ?n d) = {}" unfolding dns_add_def[of ?n] set_sort set_filter dns by (auto simp: dns_add_def dns_del_def)
  moreover have "set (dns_del ?n d) = {}"
    unfolding dns_del_def[of ?n] set_sort set_filter dns if_distrib[of set] by (auto simp: dns_add_def dns_del_def)
  ultimately show ?thesis by (simp add: same_settings_def)
qed

lemma noted_by_change:
  assumes "change_kept wd st cur d c s = (Inr True, c', s')"
  shows "ac_state c' = map_option (note_state cur d (defaultRoute st) (dns_add st d) (dns_del st d)) (ac_state c)"
    and "vc_addrs c' = map_option (map (\<lambda>a. if a = cur then cur\<lparr>fa_ip := ad_ip d, fa_len := ad_prefix d\<rparr> else a)) (vc_addrs c)"
  using assms by (auto simp: change_kept_def noteAddress_def split: option.splits prod.splits)

lemma noted_by_move:
  assumes "move_address wd st cur d c s = (Inr True, c', s')"
  shows "ac_state c' = map_option (note_state cur d (defaultRoute st) (dns_add st d) (dns_del st d)) (ac_state c)"
    and "vc_addrs c' = map_option (map (\<lambda>a. if a = cur then cur\<lparr>fa_ip := ad_ip d, fa_len := ad_prefix d\<rparr> else a)) (vc_addrs c)"
proof -
  obtain s1 where "move_finish wd st cur d c s1 = (Inr True, c', s')"
    using assms by (auto simp: move_address_def split: option.splits prod.splits)
  then show "ac_state c' = map_option (note_state cur d (defaultRoute st) (dns_add st d) (dns_del st d)) (ac_state c)"
    "vc_addrs c' = map_option (map (\<lambda>a. if a = cur then cur\<lparr>fa_ip := ad_ip d, fa_len := ad_prefix d\<rparr> else a)) (vc_addrs c)"
    by (auto simp: move_finish_def Let_def noteAddress_def adoptDial_def setPendingDial_def split: option.splits prod.splits)
qed

lemma applied_noted:
  assumes "ApplyAddress wd d c s = (Inr True, c', s')" "vc_addrs c = Some addrs" "ac_state c = Some st"
    and "find (\<lambda>a. fa_ip a \<in> set (aw_dials wd)) addrs = Some cur"
  shows "ac_state c' = Some (note_state cur d (defaultRoute st) (dns_add st d) (dns_del st d) st)"
    and "vc_addrs c' = Some (map (\<lambda>a. if a = cur then cur\<lparr>fa_ip := ad_ip d, fa_len := ad_prefix d\<rparr> else a) addrs)"
    and "fa_iface cur \<noteq> []" "\<not> ad_dhcp d" "ad_ip d \<noteq> []" "0 < ad_prefix d"
proof -
  have "(change_kept wd st cur d c s = (Inr True, c', s') \<or> move_address wd st cur d c s = (Inr True, c', s'))
     \<and> fa_iface cur \<noteq> [] \<and> \<not> ad_dhcp d \<and> ad_ip d \<noteq> [] \<and> 0 < ad_prefix d"
    using assms by (simp add: ApplyAddress_def split: if_splits option.splits)
  with noted_by_change[of wd st cur d c s c' s'] noted_by_move[of wd st cur d c s c' s'] assms(2,3)
  show "ac_state c' = Some (note_state cur d (defaultRoute st) (dns_add st d) (dns_del st d) st)"
    "vc_addrs c' = Some (map (\<lambda>a. if a = cur then cur\<lparr>fa_ip := ad_ip d, fa_len := ad_prefix d\<rparr> else a) addrs)"
    "fa_iface cur \<noteq> []" "\<not> ad_dhcp d" "ad_ip d \<noteq> []" "0 < ad_prefix d" by force+
qed

lemma find_moved:
  assumes "cur \<in> set addrs" "P new" "\<And>a. a \<in> set addrs \<Longrightarrow> P a \<Longrightarrow> a = cur"
  shows "find P (map (\<lambda>a. if a = cur then new else a) addrs) = Some new"
  using assms(1,3)
proof (induction addrs)
  case (Cons a addrs)
  show ?case
  proof (cases "a = cur")
    case True with assms(2) show ?thesis by simp
  next
    case False
    with Cons.prems have "\<not> P a" "cur \<in> set addrs" by (metis list.set_intros(1), simp)
    with Cons.IH Cons.prems(2) False show ?thesis by simp
  qed
qed simp

text \<open>
  An address change that succeeded is not made again: with the new address resolved from the dial
  target and on no other interface, the same settings applied again find nothing to do and run
  nothing on the switch.
\<close>

theorem sonic_address_settles:
  assumes "ApplyAddress wd d c s = (Inr True, c', s')" "vc_addrs c = Some addrs" "ac_state c = Some st"
    and "find (\<lambda>a. fa_ip a \<in> set (aw_dials wd)) addrs = Some cur"
    and "ad_ip d \<in> set (aw_dials wd')" "\<And>a. a \<in> set addrs \<Longrightarrow> fa_ip a \<in> set (aw_dials wd') \<Longrightarrow> a = cur"
  shows "ApplyAddress wd' d c' t = (Inr False, c', t)"
proof -
  let ?new = "cur\<lparr>fa_ip := ad_ip d, fa_len := ad_prefix d\<rparr>"
  note n = applied_noted[OF assms(1-4)]
  have "cur \<in> set addrs" using assms(4) by (auto simp: find_Some_iff)
  then have "find (\<lambda>a. fa_ip a \<in> set (aw_dials wd')) (map (\<lambda>a. if a = cur then ?new else a) addrs) = Some ?new"
    by (rule find_moved) (use assms(5,6) in auto)
  with n note_settings[of cur d st] show ?thesis by (simp add: ApplyAddress_def)
qed

lemma answered:
  assumes "\<not> isl (fst r) \<and> projr (fst r)"
  obtains c s where "r = (Inr True, c, s)"
proof -
  obtain a c s where r: "r = (a, c, s)" by (rule prod_cases3)
  with assms have "a = Inr True" by (cases a) simp_all
  with r that show thesis by blast
qed

theorem sonic_address_settles_witness:
  "\<exists>c' s'. ApplyAddress demo_world demo_move demo_addr_col ([(''10.0.0.2'', 24)], False) = (Inr True, c', s')
     \<and> ApplyAddress (demo_world\<lparr>aw_dials := [''10.0.0.9'']\<rparr>) demo_move c' s' = (Inr False, c', s')"
proof -
  let ?s = "([(''10.0.0.2'', 24)], False) :: (string \<times> int) list \<times> bool"
  have "\<not> isl (fst (ApplyAddress demo_world demo_move demo_addr_col ?s)) \<and> projr (fst (ApplyAddress demo_world demo_move demo_addr_col ?s))"
    by code_simp
  then obtain c' s' where a: "ApplyAddress demo_world demo_move demo_addr_col ?s = (Inr True, c', s')"
    by (rule answered)
  have "ApplyAddress (demo_world\<lparr>aw_dials := [''10.0.0.9'']\<rparr>) demo_move c' s' = (Inr False, c', s')"
    by (rule sonic_address_settles[where addrs = "[demo_if]" and cur = demo_if, OF a])
       (simp_all add: demo_addr_col_def demo_if_def demo_world_def demo_move_def)
  with a show ?thesis by blast
qed

text \<open>The fallback adopts only an address that answered, and only when the current one cannot be dialled.\<close>

lemma sonic_run_adopts_what_answers:
  assumes "sonic_run redial on cmd c = (r, c')" "vc_dial c' \<noteq> vc_dial c"
  shows "vc_dial c' \<in> set (dialCandidates c) \<and> (\<exists>out. on (vc_dial c') ''true'' = Inr out)
    \<and> (\<exists>e. on (vc_dial c) cmd = Inl e \<and> isDialError e)"
proof -
  obtain e where e: "on (vc_dial c) cmd = Inl e" "isDialError e" "redial"
    using assms by (auto simp: sonic_run_def split: sum.splits if_splits)
  then obtain a where a: "find (\<lambda>a. \<not> isl (on a ''true'')) (dialCandidates c) = Some a" "c' = adoptDial a c"
    using assms by (auto simp: sonic_run_def split: option.splits)
  then have "a \<in> set (dialCandidates c)" "\<not> isl (on a ''true'')" by (auto simp: find_Some_iff)
  with a(2) e show ?thesis by (auto simp: adoptDial_def isl_def split: sum.splits) (metis obj_sumE)
qed

end
