(* ===== verification/Sonic_Igmp_Props.thy ===== *)
theory Sonic_Igmp_Props
  imports Sonic_Igmp Sonic_Address_Props
begin

text \<open>
  IGMP snooping on a SONiC switch: the writes bring the L2MC tables to the rows wanted, no row ever
  stands without the row it belongs to, the timers stay in l2mcd's range, and the apply settles.
\<close>

section \<open>The timers\<close>

text \<open>
  The timers written are in l2mcd's range whatever the controller pushes: the max response is 1 to
  25 s and the query interval above it and at most 18000 s; and where the pushed values fit, the
  membership time l2mcd derives, twice the interval and the max response, is the pushed one, or one
  second less when it cannot be even.
\<close>

theorem sonic_igmp_timers_in_range:
  "1 \<le> igmp_response g \<and> igmp_response g \<le> 25 \<and> igmp_response g < igmp_interval g \<and> igmp_interval g \<le> 18000
   \<and> (igmp_qi g \<in> {igmp_response g <.. 18000} \<longrightarrow>
        2 * igmp_interval g + igmp_response g \<in> {igmp_membership g - 1, igmp_membership g})"
proof -
  have r: "1 \<le> igmp_response g" "igmp_response g \<le> 25" by (auto simp: igmp_response_def)
  have q: "2 * igmp_qi g + igmp_response g \<in> {igmp_membership g - 1, igmp_membership g}" if "igmp_response g < igmp_qi g"
  proof -
    have "0 \<le> igmp_membership g - igmp_response g"
    proof (rule ccontr)
      assume "\<not> 0 \<le> igmp_membership g - igmp_response g"
      then have "igmp_qi g \<le> 0" by (simp add: igmp_qi_def go_quot_def)
      with that r show False by linarith
    qed
    then have "igmp_qi g = (igmp_membership g - igmp_response g) div 2"
      by (cases "igmp_membership g = igmp_response g") (simp_all add: igmp_qi_def go_quot_def)
    then show ?thesis by auto
  qed
  show ?thesis using r q by (auto simp: igmp_interval_def)
qed

theorem sonic_igmp_timers_in_range_witness:
  "2 * igmp_interval no_igmp + igmp_response no_igmp = 260"
proof -
  have m: "igmp_membership no_igmp = 260" "igmp_response no_igmp = 10" "igmp_qi no_igmp = 125"
    by (simp_all add: igmp_membership_def igmp_response_def igmp_mr_def igmp_qi_def go_quot_def no_igmp_def)
  have "2 * igmp_interval no_igmp + igmp_response no_igmp \<in> {259, 260}"
    using sonic_igmp_timers_in_range[of no_igmp] m by simp
  then show ?thesis unfolding m(2) by (simp, presburger)
qed

section \<open>The rows reached\<close>

definition op_key :: "l2mc_op \<Rightarrow> string" where
  "op_key op = (case op of DelRow k \<Rightarrow> k | SetRow k f \<Rightarrow> k)"

lemma ops_cases:
  "op \<in> set (l2mcOps want have) \<Longrightarrow>
    (\<exists>k n. op = DelRow k \<and> k \<in> fst ` set have \<and> k \<notin> fst ` set want \<and> del_class want have k = Some n \<and> n \<le> 4)
    \<or> (\<exists>k. op = SetRow k (mget [] want k) \<and> k \<in> fst ` set want \<and> \<not> row_same have k (mget [] want k) \<and> set_class k \<le> 2)"
  unfolding l2mcOps_def l2mc_dels_def l2mc_sets_def by auto

lemma del_class_le: "del_class want have k = Some n \<Longrightarrow> n \<in> {0, 1, 2, 3, 4}"
  by (auto simp: del_class_def split: if_splits option.splits)

lemma set_class_le: "set_class k \<in> {0, 1, 2}"
  by (simp add: set_class_def)

lemma del_in_ops:
  "DelRow k \<in> set (l2mcOps want have) \<longleftrightarrow> k \<in> fst ` set have \<and> k \<notin> fst ` set want \<and> del_class want have k \<noteq> None"
proof
  assume "DelRow k \<in> set (l2mcOps want have)"
  from ops_cases[OF this] show "k \<in> fst ` set have \<and> k \<notin> fst ` set want \<and> del_class want have k \<noteq> None" by auto
next
  assume a: "k \<in> fst ` set have \<and> k \<notin> fst ` set want \<and> del_class want have k \<noteq> None"
  then obtain n where n: "del_class want have k = Some n" by blast
  with a have "k \<in> set (l2mc_dels want have n)" by (auto simp: l2mc_dels_def)
  with del_class_le[OF n] show "DelRow k \<in> set (l2mcOps want have)" by (auto simp: l2mcOps_def)
qed

lemma set_in_ops:
  "SetRow k f \<in> set (l2mcOps want have) \<longleftrightarrow> f = mget [] want k \<and> k \<in> fst ` set want \<and> \<not> row_same have k f"
proof
  assume "SetRow k f \<in> set (l2mcOps want have)"
  from ops_cases[OF this] show "f = mget [] want k \<and> k \<in> fst ` set want \<and> \<not> row_same have k f" by auto
next
  assume a: "f = mget [] want k \<and> k \<in> fst ` set want \<and> \<not> row_same have k f"
  then have "k \<in> set (l2mc_sets want have (set_class k))" by (auto simp: l2mc_sets_def)
  with set_class_le[of k] a show "SetRow k f \<in> set (l2mcOps want have)" by (auto simp: l2mcOps_def)
qed

text \<open>What some first operations leave at a key: no operation deletes what another one sets.\<close>

definition clean :: "l2mc_op list \<Rightarrow> bool" where
  "clean ops \<longleftrightarrow> (\<forall>k f. DelRow k \<in> set ops \<longrightarrow> SetRow k f \<notin> set ops) \<and> (\<forall>k f g. SetRow k f \<in> set ops \<longrightarrow> SetRow k g \<in> set ops \<longrightarrow> f = g)"

lemma clean_tail: "clean (ops @ [op]) \<Longrightarrow> clean ops"
  unfolding clean_def by auto

lemma eff_at:
  "clean ops \<Longrightarrow> map_of (fold l2mc_eff ops rows) k =
    (if \<exists>f. SetRow k f \<in> set ops then Some (THE f. SetRow k f \<in> set ops)
     else if DelRow k \<in> set ops then None else map_of rows k)"
proof (induction ops rule: rev_induct)
  case (snoc op ops)
  note IH = snoc.IH[OF clean_tail[OF snoc.prems]]
  show ?case
  proof (cases op)
    case (DelRow k')
    show ?thesis
    proof (cases "k' = k")
      case True
      with DelRow snoc.prems have "\<not> (\<exists>f. SetRow k f \<in> set (ops @ [op]))" unfolding clean_def by auto
      with True DelRow show ?thesis by (simp add: delete_conv')
    next
      case False with DelRow IH show ?thesis by (simp add: delete_conv')
    qed
  next
    case (SetRow k' f')
    show ?thesis
    proof (cases "k' = k")
      case True
      with SetRow snoc.prems have "SetRow k f \<in> set (ops @ [op]) \<longleftrightarrow> f = f'" for f unfolding clean_def by auto
      then have "(THE f. SetRow k f \<in> set (ops @ [op])) = f'" "\<exists>f. SetRow k f \<in> set (ops @ [op])" by auto
      with True SetRow show ?thesis by simp
    next
      case False with SetRow IH show ?thesis by simp
    qed
  qed
qed simp

lemma ops_clean: "clean (l2mcOps want have)"
  unfolding clean_def by (auto simp: del_in_ops set_in_ops)

lemma want_at: "map_of want k = Some f \<Longrightarrow> mget [] want k = f \<and> k \<in> fst ` set want"
  by (metis mget_def option.simps(5) mlookup_in_keys list.set_map)

lemma ops_at:
  "map_of (fold l2mc_eff (l2mcOps want have) have) k = (case map_of want k of
      Some f \<Rightarrow> (if row_same have k f then map_of have k else Some f)
    | None \<Rightarrow> (if del_class want have k = None then map_of have k else None))"
proof (cases "map_of want k")
  case None
  then have "k \<notin> fst ` set want" by (metis map_of_eq_None_iff)
  moreover have "map_of have k = None" if "k \<notin> fst ` set have" using that by (metis map_of_eq_None_iff)
  ultimately show ?thesis using None by (auto simp: eff_at[OF ops_clean] del_in_ops set_in_ops)
next
  case (Some f)
  from want_at[OF this] have w: "mget [] want k = f" "k \<in> fst ` set want" by auto
  then have s: "SetRow k g \<in> set (l2mcOps want have) \<longleftrightarrow> g = f \<and> \<not> row_same have k f" for g
    by (auto simp: set_in_ops)
  have d: "DelRow k \<notin> set (l2mcOps want have)" using w(2) by (simp add: del_in_ops)
  show ?thesis
  proof (cases "row_same have k f")
    case True with s d Some show ?thesis by (simp add: eff_at[OF ops_clean])
  next
    case False
    with s have "(THE g. SetRow k g \<in> set (l2mcOps want have)) = f" by simp
    with False s Some show ?thesis by (simp add: eff_at[OF ops_clean])
  qed
qed

text \<open>
  C40. The writes bring the switch to the rows wanted: afterwards every row the push asks for has exactly
  its fields; every static member, group and suppression row it does not ask for, every VLAN row it
  does not ask for and the router ports of those VLANs are gone; everything else is as it was.
\<close>

theorem sonic_igmp_reaches_the_rows:
  "case map_of want k of
     Some f \<Rightarrow> (\<exists>g. map_of (fold l2mc_eff (l2mcOps want have) have) k = Some g \<and> map_of g = map_of f)
   | None \<Rightarrow> map_of (fold l2mc_eff (l2mcOps want have) have) k
       = (if del_class want have k = None then map_of have k else None)"
  by (auto simp: ops_at row_same_def same_fields_iff split: option.splits)

section \<open>No row without the row it belongs to\<close>

text \<open>A group belongs to its VLAN's row, a static member to its group; so do suppression rows and router ports.\<close>

definition bar_free :: "string \<Rightarrow> bool" where
  "bar_free s \<longleftrightarrow> CHR ''|'' \<notin> set s"

inductive belongs :: "string \<Rightarrow> string \<Rightarrow> bool" where
  belongs_group: "bar_free v \<Longrightarrow> belongs (l2mcGroup @ v @ ''|'' @ grp) (l2mcRow @ v)"
| belongs_member: "bar_free v \<Longrightarrow> bar_free grp \<Longrightarrow> belongs (l2mcMember @ v @ ''|'' @ grp @ ''|'' @ m) (l2mcGroup @ v @ ''|'' @ grp)"
| belongs_supp: "belongs (l2mcSupp @ v) (l2mcRow @ v)"
| belongs_router: "bar_free v \<Longrightarrow> belongs (l2mcRouter @ v @ ''|'' @ port) (l2mcRow @ v)"

definition l2mc_closed :: "(string \<times> fields) list \<Rightarrow> bool" where
  "l2mc_closed rows \<longleftrightarrow> (\<forall>k p. belongs k p \<longrightarrow> k \<in> fst ` set rows \<longrightarrow> p \<in> fst ` set rows)"

lemma table_prefixes:
  "has_prefix p (p @ s)"
  "\<not> has_prefix l2mcMember (l2mcGroup @ s)" "\<not> has_prefix l2mcMember (l2mcSupp @ s)" "\<not> has_prefix l2mcMember (l2mcRouter @ s)"
  "\<not> has_prefix l2mcMember (l2mcRow @ s)" "\<not> has_prefix l2mcGroup (l2mcSupp @ s)" "\<not> has_prefix l2mcGroup (l2mcRouter @ s)"
  "\<not> has_prefix l2mcGroup (l2mcRow @ s)" "\<not> has_prefix l2mcGroup (l2mcMember @ s)" "\<not> has_prefix l2mcSupp (l2mcRouter @ s)" "\<not> has_prefix l2mcSupp (l2mcRow @ s)"
  "\<not> has_prefix l2mcRow (l2mcMember @ s)" "\<not> has_prefix l2mcRow (l2mcGroup @ s)" "\<not> has_prefix l2mcRow (l2mcSupp @ s)" "\<not> has_prefix l2mcRow (l2mcRouter @ s)"
  "strip_prefix l2mcRouter (l2mcRow @ s) = None"
  by (simp_all add: has_prefix_def strip_prefix_def l2mcMember_def l2mcGroup_def l2mcSupp_def l2mcRouter_def l2mcRow_def)

lemma str_cut_bar: "bar_free v \<Longrightarrow> str_cut (CHR ''|'') (v @ CHR ''|'' # s) = Some (v, s)"
  by (induction v) (auto simp: bar_free_def)

text \<open>Both orders, deletions and writes, follow what belongs to what.\<close>

definition op_rank :: "(string \<times> fields) list \<Rightarrow> (string \<times> fields) list \<Rightarrow> l2mc_op \<Rightarrow> nat" where
  "op_rank want have op = (case op of DelRow k \<Rightarrow> (case del_class want have k of None \<Rightarrow> 0 | Some n \<Rightarrow> n) | SetRow k f \<Rightarrow> 5 + set_class k)"

lemma del_before_parent:
  assumes "belongs k p" "p \<in> fst ` set have" "p \<notin> fst ` set want" "del_class want have p = Some n"
  obtains m where "del_class want have k = Some m" "m < n"
  using assms
proof cases
  case (belongs_group v grp)
  then show thesis using assms(4) that[of 1] by (auto simp: del_class_def table_prefixes)
next
  case (belongs_member v grp m)
  then show thesis using assms(4) that[of 0] by (auto simp: del_class_def table_prefixes)
next
  case (belongs_supp v)
  then show thesis using assms(4) that[of 2] by (auto simp: del_class_def table_prefixes)
next
  case (belongs_router v port)
  then have "l2mc_going want have v" using assms(2,3) by (simp add: l2mc_going_def)
  with belongs_router show thesis using assms(4) that[of 3] by (auto simp: del_class_def table_prefixes str_cut_bar)
qed

lemma set_after_parent: "belongs k p \<Longrightarrow> set_class p < set_class k"
  by (cases rule: belongs.cases) (auto simp: set_class_def table_prefixes)

lemma parent_class: "belongs k p \<Longrightarrow> del_class want have p \<noteq> None"
  by (cases rule: belongs.cases) (auto simp: del_class_def table_prefixes)

lemma sorted_const: "(\<And>x. x \<in> set xs \<Longrightarrow> r x = (c::nat)) \<Longrightarrow> sorted (map r xs)"
  by (induction xs) auto

lemma sorted_concat:
  assumes "\<And>n x. n \<in> set ns \<Longrightarrow> x \<in> set (f n) \<Longrightarrow> r x = (g n :: nat)" "sorted (map g ns)"
  shows "sorted (map r (concat (map f ns)))"
  using assms
proof (induction ns)
  case (Cons n ns)
  have "sorted (map r (f n))" by (rule sorted_const[of _ _ "g n"]) (use Cons.prems(1) in simp)
  moreover have "r x \<le> r y" if "x \<in> set (f n)" "y \<in> set (concat (map f ns))" for x y
  proof -
    from that(2) obtain m where "m \<in> set ns" "y \<in> set (f m)" by auto
    with Cons.prems(1)[of m y] Cons.prems(1)[of n x] Cons.prems(2) that(1) show ?thesis by simp
  qed
  ultimately show ?case using Cons by (simp add: sorted_append) blast
qed simp

lemma concat_rank:
  assumes "\<And>n x. n \<in> set ns \<Longrightarrow> x \<in> set (f n) \<Longrightarrow> r x = (g n :: nat)" "x \<in> set (concat (map f ns))"
  shows "r x \<in> g ` set ns"
  using assms by auto

lemma ops_ranked: "sorted (map (op_rank want have) (l2mcOps want have))"
proof -
  have d: "op_rank want have x = n" if "x \<in> set (map DelRow (l2mc_dels want have n))" for x n
    using that by (auto simp: op_rank_def l2mc_dels_def)
  have s: "op_rank want have x = 5 + n" if "x \<in> set (map (\<lambda>k. SetRow k (mget [] want k)) (l2mc_sets want have n))" for x n
    using that by (auto simp: op_rank_def l2mc_sets_def)
  have a: "sorted (map (op_rank want have) (concat (map (\<lambda>n. map DelRow (l2mc_dels want have n)) [0, 1, 2, 3, 4])))"
    by (rule sorted_concat[where g = "\<lambda>n. n"]) (use d in auto)
  have b: "sorted (map (op_rank want have) (concat (map (\<lambda>n. map (\<lambda>k. SetRow k (mget [] want k)) (l2mc_sets want have n)) [0, 1, 2])))"
    by (rule sorted_concat[where g = "\<lambda>n. 5 + n"]) (use s in auto)
  have "op_rank want have x \<le> op_rank want have y"
    if "x \<in> set (concat (map (\<lambda>n. map DelRow (l2mc_dels want have n)) [0, 1, 2, 3, 4]))"
      "y \<in> set (concat (map (\<lambda>n. map (\<lambda>k. SetRow k (mget [] want k)) (l2mc_sets want have n)) [0, 1, 2]))" for x y
  proof -
    have "op_rank want have x \<in> (\<lambda>n. n) ` set [0, 1, 2, 3, 4]" by (rule concat_rank[OF _ that(1)]) (use d in auto)
    moreover have "op_rank want have y \<in> (\<lambda>n. 5 + n) ` set [0, 1, 2]" by (rule concat_rank[OF _ that(2)]) (use s in auto)
    ultimately show ?thesis by auto
  qed
  with a b show ?thesis unfolding l2mcOps_def map_append sorted_append set_map by blast
qed

lemma earlier_done:
  assumes "sorted (map r xs)" "x \<in> set (take n xs)" "y \<in> set xs" "r y < (r x :: nat)"
  shows "y \<in> set (take n xs)"
proof (rule ccontr)
  assume "y \<notin> set (take n xs)"
  then have "y \<in> set (drop n xs)" using assms(3) by (metis Un_iff append_take_drop_id set_append)
  moreover have "sorted (map r (take n xs @ drop n xs))" using assms(1) by simp
  ultimately have "r x \<le> r y" using assms(2) by (simp add: sorted_append del: append_take_drop_id)
  with assms(4) show False by simp
qed

lemma clean_take: "clean ops \<Longrightarrow> clean (take n ops)"
  unfolding clean_def by (meson in_set_takeD)

lemma keys_after:
  assumes "clean ops"
  shows "k \<in> fst ` set (fold l2mc_eff ops rows) \<longleftrightarrow> (\<exists>f. SetRow k f \<in> set ops) \<or> k \<in> fst ` set rows \<and> DelRow k \<notin> set ops"
proof -
  have key: "x \<in> fst ` set m \<longleftrightarrow> map_of m x \<noteq> None" for x and m :: "(string \<times> fields) list" by (metis map_of_eq_None_iff)
  show ?thesis unfolding key using eff_at[OF assms, of rows k] by auto
qed

lemma closed_all_along:
  assumes "l2mc_closed have" "l2mc_closed want"
  shows "l2mc_closed (fold l2mc_eff (take n (l2mcOps want have)) have)"
  unfolding l2mc_closed_def
proof (intro allI impI)
  let ?ops = "l2mcOps want have" let ?done = "take n ?ops"
  note after = keys_after[OF clean_take[OF ops_clean]]
  note first = earlier_done[OF ops_ranked]
  fix k p
  assume b: "belongs k p" and k: "k \<in> fst ` set (fold l2mc_eff ?done have)"
  show "p \<in> fst ` set (fold l2mc_eff ?done have)"
  proof (rule ccontr)
    assume "p \<notin> fst ` set (fold l2mc_eff ?done have)"
    then have no: "SetRow p f \<notin> set ?done" "p \<in> fst ` set have \<Longrightarrow> DelRow p \<in> set ?done" for f
      using after by blast+
    from k consider f where "SetRow k f \<in> set ?done" | "k \<in> fst ` set have" "DelRow k \<notin> set ?done" using after by blast
    then show False
    proof cases
      case 1
      then have "SetRow k f \<in> set ?ops" by (rule in_set_takeD)
      then have "k \<in> fst ` set want" by (simp add: set_in_ops)
      with assms(2) b have p: "p \<in> fst ` set want" unfolding l2mc_closed_def by blast
      show False
      proof (cases "row_same have p (mget [] want p)")
        case True
        then have "p \<in> fst ` set have" by (auto simp: row_same_def split: option.splits dest!: mlookup_in_keys)
        from in_set_takeD[OF no(2)[OF this]] p show False by (simp add: del_in_ops)
      next
        case False
        with p have "SetRow p (mget [] want p) \<in> set ?ops" by (simp add: set_in_ops)
        from first[OF 1 this] set_after_parent[OF b] no(1) show False by (simp add: op_rank_def)
      qed
    next
      case 2
      with assms(1) b have p: "p \<in> fst ` set have" unfolding l2mc_closed_def by blast
      from in_set_takeD[OF no(2)[OF p]] obtain m where m: "p \<notin> fst ` set want" "del_class want have p = Some m"
        by (auto simp: del_in_ops)
      from del_before_parent[OF b p m] obtain l where l: "del_class want have k = Some l" "l < m" .
      have "k \<notin> fst ` set want" using assms(2) b m(1) unfolding l2mc_closed_def by blast
      with 2 l have "DelRow k \<in> set ?ops" by (simp add: del_in_ops)
      from first[OF no(2)[OF p] this] l m(2) 2(2) show False by (simp add: op_rank_def)
    qed
  qed
qed

section \<open>The wanted rows are closed\<close>

lemma bar_free_itoa: "bar_free (itoa i)"
proof -
  have "CHR ''|'' \<notin> set (nat_digits n)" for n by (rule nat_digits_no_char) (simp add: is_digit_def char_code_def)
  then show ?thesis by (simp add: bar_free_def itoa_def)
qed

lemma bar_free_vlan: "bar_free (vlan_name i)"
  using bar_free_itoa[of i] by (simp add: vlan_name_def bar_free_def)

lemma bar_split:
  assumes "bar_free v" "bar_free u" "v @ CHR ''|'' # a = u @ CHR ''|'' # b"
  shows "v = u \<and> a = b"
proof -
  have "Some (v, a) = Some (u, b)"
    using arg_cong[OF assms(3), of "str_cut (CHR ''|'')"] by (simp only: str_cut_bar[OF assms(1)] str_cut_bar[OF assms(2)])
  then show ?thesis by (simp only: option.inject prod.inject)
qed

lemma no_clash:
  "l2mcRow @ a \<noteq> l2mcGroup @ b" "l2mcRow @ a \<noteq> l2mcMember @ b" "l2mcRow @ a \<noteq> l2mcSupp @ b" "l2mcRow @ a \<noteq> l2mcRouter @ b"
  "l2mcGroup @ a \<noteq> l2mcMember @ b" "l2mcGroup @ a \<noteq> l2mcSupp @ b" "l2mcGroup @ a \<noteq> l2mcRouter @ b"
  "l2mcMember @ a \<noteq> l2mcSupp @ b" "l2mcMember @ a \<noteq> l2mcRouter @ b"
  by (simp_all add: l2mcMember_def l2mcGroup_def l2mcSupp_def l2mcRouter_def l2mcRow_def)

lemma belongs_row: "\<not> belongs (row_key sid) p"
  by (auto simp: row_key_def no_clash elim!: belongs.cases)

lemma belongs_group_key:
  assumes "belongs (group_key sid grp) p" shows "p = row_key sid"
  using assms
proof cases
  case (belongs_group v g)
  then have "vlan_name sid @ CHR ''|'' # grp = v @ CHR ''|'' # g" by (simp only: group_key_def same_append_eq append_Cons append_Nil)
  from bar_split[OF bar_free_vlan belongs_group(3) this] belongs_group(2) show ?thesis by (simp only: row_key_def)
qed (simp_all only: group_key_def no_clash no_clash[symmetric])

lemma belongs_member_key:
  assumes "belongs (member_key sid grp m) p" "bar_free grp" shows "p = group_key sid grp"
  using assms(1)
proof cases
  case (belongs_member v g m')
  then have "vlan_name sid @ CHR ''|'' # grp @ CHR ''|'' # m = v @ CHR ''|'' # g @ CHR ''|'' # m'"
    by (simp only: member_key_def same_append_eq append_Cons append_Nil)
  from bar_split[OF bar_free_vlan belongs_member(3) this] have v: "v = vlan_name sid" "grp @ CHR ''|'' # m = g @ CHR ''|'' # m'" by blast+
  from bar_split[OF assms(2) belongs_member(4) v(2)] belongs_member(2) v(1) show ?thesis by (simp only: group_key_def)
qed (simp_all only: member_key_def no_clash no_clash[symmetric])

lemma keys_update: "fst ` set (AList.update k f rows) = insert k (fst ` set rows)"
  using set_mkeys_update[of k f rows] by simp

lemma closed_update:
  assumes "l2mc_closed rows" "\<And>p. belongs k p \<Longrightarrow> p \<in> fst ` set rows"
  shows "l2mc_closed (AList.update k f rows)"
  unfolding l2mc_closed_def keys_update
proof (intro allI impI)
  fix k' p
  assume b: "belongs k' p" "k' \<in> insert k (fst ` set rows)"
  then have "p \<in> fst ` set rows"
  proof (cases "k' = k")
    case False with b assms(1) show ?thesis unfolding l2mc_closed_def by blast
  qed (use assms(2) in blast)
  then show "p \<in> insert k (fst ` set rows)" by simp
qed

lemma members_closed:
  assumes "l2mc_closed rows" "group_key sid grp \<in> fst ` set rows" "bar_free grp"
  shows "l2mc_closed (fold (\<lambda>m. AList.update (member_key sid grp m) (h m)) ms rows)
    \<and> fst ` set rows \<subseteq> fst ` set (fold (\<lambda>m. AList.update (member_key sid grp m) (h m)) ms rows)"
  using assms(1,2)
proof (induction ms arbitrary: rows)
  case (Cons m ms)
  let ?r = "AList.update (member_key sid grp m) (h m) rows"
  have "l2mc_closed ?r" by (rule closed_update[OF Cons.prems(1)]) (use belongs_member_key assms(3) Cons.prems(2) in blast)
  with Cons.IH[of ?r] Cons.prems(2) show ?case by (auto simp: keys_update)
qed simp

lemma group_closed:
  assumes "l2mc_closed rows" "row_key sid \<in> fst ` set rows" "bar_free grp"
  shows "l2mc_closed (group_rows sid ms grp rows) \<and> row_key sid \<in> fst ` set (group_rows sid ms grp rows)"
proof -
  let ?g = "AList.update (group_key sid grp) [(''static-members@'', join '','' ms)] rows"
  have c: "l2mc_closed ?g" by (rule closed_update[OF assms(1)]) (use belongs_group_key assms(2) in blast)
  have "group_key sid grp \<in> fst ` set ?g" by (simp add: keys_update)
  from members_closed[OF c this assms(3), of "\<lambda>m. [(''port'', m)]" ms] show ?thesis
    unfolding group_rows_def using assms(2) by (auto simp: keys_update)
qed

lemma groups_closed:
  assumes "l2mc_closed rows" "row_key sid \<in> fst ` set rows" "list_all bar_free grps"
  shows "l2mc_closed (fold (group_rows sid ms) grps rows)"
  using assms by (induction grps arbitrary: rows) (simp_all add: group_closed)

lemma reserved_bar_free: "list_all bar_free reservedGroups"
  by (simp add: reservedGroups_def bar_free_def)

lemma vlan_rows_closed: "l2mc_closed rows \<Longrightarrow> l2mc_closed (igmp_vlan_rows native w st i rows)"
  by (auto simp: igmp_vlan_rows_def igmp_statics_def Let_def keys_update belongs_row intro!: groups_closed[OF _ _ reserved_bar_free] closed_update)

lemma wanted_closed: "l2mc_closed (l2mc_rows native w st)"
proof -
  have "l2mc_closed (fold (igmp_vlan_rows native w st) ids rows)" if "l2mc_closed rows" for ids rows
    using that by (induction ids arbitrary: rows) (simp_all add: vlan_rows_closed)
  then show ?thesis by (simp add: l2mc_rows_def l2mc_closed_def)
qed

text \<open>
  C39. At no moment is there a row without the row it belongs to: when that holds of the switch's tables
  it holds after every one of the writes, in the order they are made, whatever the push asks for; so
  l2mcd and the CLI never see a group without its VLAN, or a member without its group.
\<close>

theorem sonic_igmp_rows_never_orphaned:
  assumes "l2mc_closed have"
  shows "l2mc_closed (fold l2mc_eff (take n (l2mcOps (l2mc_rows native w st) have)) have)"
  by (rule closed_all_along[OF assms wanted_closed])

definition demo_igmp_want :: igmp_want where
  "demo_igmp_want = \<lparr>iw_set = True, iw_vlans = [(10, True)], iw_igmp = [], iw_flood_reserved = True, iw_unknown = None\<rparr>"

definition demo_rows :: "(string \<times> fields) list" where
  "demo_rows = group_rows 20 [''Ethernet0''] ''224.0.1.1'' [(row_key 20, igmp_row no_igmp)]"

theorem sonic_igmp_rows_never_orphaned_witness:
  "l2mc_closed (fold l2mc_eff (take 2 (l2mcOps (l2mc_rows 2 demo_igmp_want demo_sw) demo_rows)) demo_rows)"
proof (rule sonic_igmp_rows_never_orphaned)
  have "l2mc_closed (AList.update (row_key 20) (igmp_row no_igmp) [])"
    by (rule closed_update) (simp_all add: l2mc_closed_def belongs_row)
  then show "l2mc_closed demo_rows"
    unfolding demo_rows_def by (intro conjunct1[OF group_closed]) (simp_all add: bar_free_def)
qed

section \<open>The apply settles\<close>

lemma going_later:
  assumes "map_of have k \<noteq> None" "del_class want (fold l2mc_eff (l2mcOps want have) have) k \<noteq> None" "k \<notin> fst ` set want"
  shows "del_class want have k \<noteq> None"
proof (rule ccontr)
  let ?t = "fold l2mc_eff (l2mcOps want have) have"
  assume no: "\<not> del_class want have k \<noteq> None"
  then obtain rest where r: "strip_prefix l2mcRouter k = Some rest"
    using assms(2) by (auto simp: del_class_def split: if_splits option.splits)
  define v where "v = (case str_cut (CHR ''|'') rest of None \<Rightarrow> rest | Some (v, r) \<Rightarrow> v)"
  from assms(2) no r have "l2mc_going want ?t v" "\<not> l2mc_going want have v"
    by (auto simp: del_class_def v_def split: if_splits)
  then have "l2mcRow @ v \<in> fst ` set ?t" "l2mcRow @ v \<notin> fst ` set have" "l2mcRow @ v \<notin> fst ` set want"
    unfolding l2mc_going_def by blast+
  then show False using keys_after[OF ops_clean] set_in_ops by blast
qed

lemma ops_settle: "l2mcOps want (fold l2mc_eff (l2mcOps want have) have) = []"
proof (rule ccontr)
  let ?t = "fold l2mc_eff (l2mcOps want have) have"
  assume "l2mcOps want ?t \<noteq> []"
  then obtain op where op: "op \<in> set (l2mcOps want ?t)" by (meson list.set_sel(1))
  show False
  proof (cases op)
    case (DelRow k)
    with op have d: "k \<in> fst ` set ?t" "k \<notin> fst ` set want" "del_class want ?t k \<noteq> None" by (auto simp: del_in_ops)
    from d(1,2) have h: "k \<in> fst ` set have" "DelRow k \<notin> set (l2mcOps want have)"
      using keys_after[OF ops_clean] set_in_ops by blast+
    then have "map_of have k \<noteq> None" by (metis map_of_eq_None_iff)
    from going_later[OF this d(3,2)] h d(2) show False by (simp add: del_in_ops)
  next
    case (SetRow k f)
    with op have s: "f = mget [] want k" "k \<in> fst ` set want" "\<not> row_same ?t k f" by (auto simp: set_in_ops)
    from s(2) obtain g where g: "map_of want k = Some g" by (metis map_of_eq_None_iff not_Some_eq)
    with s(1) have "f = g" by (simp add: mget_def)
    with s(3) g show False
      by (auto simp: row_same_def ops_at same_fields_iff split: option.splits if_splits)
  qed
qed

lemma rows_frame: "l2mc_rows native w (st\<lparr>s_l2mc := x, s_l2mc_feature := y\<rparr>) = l2mc_rows native w st"
proof -
  have "igmp_vlan_rows native w (st\<lparr>s_l2mc := x, s_l2mc_feature := y\<rparr>) = igmp_vlan_rows native w st"
    by (intro ext) (simp add: igmp_vlan_rows_def igmp_statics_def igmp_members_def Let_def)
  then show ?thesis by (simp only: l2mc_rows_def)
qed

text \<open>
  The apply settles: when every call succeeds and no collect comes between, applying the same intent
  again runs nothing on the switch, whatever a call would answer, and changes nothing.
\<close>

theorem sonic_igmp_settles:
  assumes "\<And>call. run call = (None, None)" "c1 = fst (snd (applyIGMP run c))"
  shows "fst (applyIGMP run' c1) = Inr 0 \<and> fst (snd (applyIGMP run' c1)) = c1"
proof (cases "ac_state c")
  case None with assms(2) show ?thesis by (simp add: applyIGMP_def)
next
  case (Some st)
  let ?want = "l2mc_rows (sc_native c) (gc_want c) st" let ?ops = "l2mcOps ?want (s_l2mc st)"
  have calls: "run_calls run xs = (None, None)" for xs by (induction xs) (simp_all add: assms(1))
  show ?thesis
  proof (cases "\<not> iw_set (gc_want c) \<or> \<not> gc_on c \<or> \<not> s_l2mc_known st \<or> ?ops = [] \<and> \<not> igmp_feature_needed ?want st")
    case True
    then have "c1 = c" using assms(2) Some by (auto simp: applyIGMP_def Let_def)
    with True Some show ?thesis by (auto simp: applyIGMP_def Let_def)
  next
    case False
    let ?st = "st\<lparr>s_l2mc := fold l2mc_eff ?ops (s_l2mc st),
      s_l2mc_feature := (if igmp_feature_needed ?want st then ''enabled'' else s_l2mc_feature st)\<rparr>"
    have c1: "c1 = c\<lparr>ac_state := Some ?st\<rparr>" using False assms(2) Some by (auto simp: applyIGMP_def Let_def calls)
    have rows: "l2mc_rows (sc_native c) (gc_want c) ?st = ?want"
      by (rule rows_frame)
    have "\<not> igmp_feature_needed ?want ?st" by (simp add: igmp_feature_needed_def)
    with False c1 rows ops_settle[of ?want "s_l2mc st"] show ?thesis by (simp add: applyIGMP_def Let_def)
  qed
qed

definition demo_igmp_col :: igmp_col where
  "demo_igmp_col = (addr_col.extend demo_addr_col \<lparr>gc_on = True, gc_want = demo_igmp_want\<rparr>)
     \<lparr>ac_state := Some (demo_sw\<lparr>s_l2mc_known := True, s_members := [(''Ethernet0'', [(10, False)])]\<rparr>)\<rparr>"

theorem sonic_igmp_settles_witness:
  "fst (applyIGMP (\<lambda>call. (Some ''down'', None)) (fst (snd (applyIGMP (\<lambda>call. (None, None)) demo_igmp_col)))) = Inr 0"
  by (rule sonic_igmp_settles[THEN conjunct1, OF _ refl]) simp

end
