(* ===== verification/Sonic_Device.thy ===== *)
theory Sonic_Device
  imports Sonic_Igmp Eos
begin

text \<open>
  \<^verbatim>\<open>internal/drivers/sonic/device.go\<close> and \<^verbatim>\<open>zones.go\<close>: the switch-wide settings (PVST, NTP, syslog,
  SNMP, time zone, host name), chrony's nudge, the SSH keys, and the device and port pushes as a whole.
  Name resolution, \<open>net.ParseIP\<close> and \<open>net.SplitHostPort\<close> come with \<open>dev_env\<close>, and the body of the zones
  section the switch answers with. A Go set is a list;
  sonic-managed.json is the record \<open>managed\<close> in memory.
\<close>

section \<open>Time zones\<close>

record zone =
  z_name :: string
  z_rule :: string

definition zone_char :: "char \<Rightarrow> bool" where
  "zone_char c \<longleftrightarrow> is_digit c \<or> is_lower c \<or> is_upper c \<or> c \<in> set ''/_+-''"

definition zoneNameRe :: "string \<Rightarrow> bool" where
  "zoneNameRe s \<longleftrightarrow> s \<noteq> [] \<and> length s \<le> 64 \<and> list_all zone_char s"

definition posixTZRe :: "string \<Rightarrow> bool" where
  "posixTZRe s \<longleftrightarrow> s \<noteq> [] \<and> length s \<le> 64 \<and> list_all (\<lambda>c. is_digit c \<or> is_lower c \<or> is_upper c \<or> c \<in> set ''<>+-:,./'') s"

definition parseZones :: "string \<Rightarrow> zone list" where
  "parseZones body = List.map_filter (\<lambda>line. case str_cut (CHR 0x09) (trim_right (\<lambda>c. c = CR) line) of
     None \<Rightarrow> None | Some (name, rule) \<Rightarrow> if name = [] then None else Some \<lparr>z_name = name, z_rule = trim_space rule\<rparr>) (split_on LF body)"

datatype zone_why = ZoneUnknown | ZoneNoRule | ZoneList string | ZoneNotPlain string

text \<open>The standard-time abbreviation of a POSIX rule.\<close>

definition zone_head :: "string \<Rightarrow> string" where
  "zone_head pushed = (case str_cut (CHR '','') pushed of None \<Rightarrow> pushed | Some (h, r) \<Rightarrow> h)"

definition zone_std :: "string \<Rightarrow> string" where
  "zone_std pushed = (let std = dropWhile (\<lambda>c. c = CHR ''<'') (zone_head pushed);
       abbr = takeWhile (\<lambda>c. \<not> is_digit c \<and> c \<notin> set ''+-<>'') std
     in if abbr = [] then std else abbr)"

definition zoneFor :: "string \<Rightarrow> string \<Rightarrow> zone list \<Rightarrow> zone_why + string" where
  "zoneFor pushed current zs =
     (if pushed \<in> set (map z_name zs) then Inr pushed
      else if \<not> posixTZRe pushed then Inl ZoneUnknown
      else (let matches = sort (map z_name (filter (\<lambda>z. z_rule z = pushed) zs)) in
        if matches = [] then Inl ZoneNoRule
        else if current \<in> set matches then Inr current
        else if zone_head pushed \<in> set matches then Inr (zone_head pushed)
        else if zone_std pushed \<in> set matches then Inr (zone_std pushed)
        else Inr (hd matches)))"

section \<open>Names\<close>

datatype hostname_why = HostTooLong | HostLabel | HostHyphen | HostNotDNS

definition dns_char :: "char \<Rightarrow> bool" where
  "dns_char c \<longleftrightarrow> is_lower c \<or> is_upper c \<or> is_digit c \<or> c = CHR ''-''"

definition bad_label :: "string \<Rightarrow> hostname_why option" where
  "bad_label l = (if l = [] \<or> 63 < length l then Some HostLabel
     else if hd l = CHR ''-'' \<or> last l = CHR ''-'' then Some HostHyphen
     else if \<not> list_all dns_char l then Some HostNotDNS else None)"

fun first_bad :: "string list \<Rightarrow> hostname_why option" where
  "first_bad [] = None"
| "first_bad (l # ls) = (case bad_label l of None \<Rightarrow> first_bad ls | Some w \<Rightarrow> Some w)"

definition badHostname :: "string \<Rightarrow> hostname_why option" where
  "badHostname h = (if 63 < length h then Some HostTooLong else first_bad (split_on (CHR ''.'') h))"

text \<open>\<open>strings.ReplaceAll\<close> of a non-empty pattern.\<close>

function replace_all :: "string \<Rightarrow> string \<Rightarrow> string \<Rightarrow> string" where
  "replace_all x r [] = []"
| "replace_all x r (c # s) = (if x = [] then c # s else case strip_prefix x (c # s) of
     Some rest \<Rightarrow> r @ replace_all x r rest | None \<Rightarrow> c # replace_all x r s)"
  by pat_completeness auto

termination
proof (relation "measure (\<lambda>(x, r, s). length s)")
  fix x :: string and r c s rest assume "x \<noteq> []" "strip_prefix x (c # s) = Some rest"
  then have "c # s = x @ rest" by (simp add: strip_prefix_Some)
  then have "length (c # s) = length x + length rest" by simp
  with \<open>x \<noteq> []\<close> show "((x, r, rest), x, r, c # s) \<in> measure (\<lambda>(x, r, s). length s)" by (cases x) simp_all
qed simp_all

fun redact :: "string \<Rightarrow> string list \<Rightarrow> string" where
  "redact s [] = s"
| "redact s (x # xs) = redact (if x = [] then s else replace_all x ''<community>'' s) xs"

section \<open>The collector and the writes\<close>

record managed =
  mg_ntp :: "string list"
  mg_syslog :: "string list"
  mg_snmp :: string
  mg_pins :: fields

record dev_col = igmp_col +
  vd_managed :: managed
  vd_zones :: "zone list"
  vd_nudged :: bool
  vd_stuck :: bool

record dev_env =
  de_parse :: "string \<Rightarrow> string option"
  de_resolve :: "string \<Rightarrow> string + string"
  de_split :: "string \<Rightarrow> (string \<times> string) option"
  de_dials :: "string list"
  de_zones :: "string + string"

datatype dev_op =
    StpEnable
  | StpDisable
  | StpPriority int
  | NtpSourceDel
  | NtpSourceSet string
  | NtpAdd string
  | NtpDel string
  | SyslogAdd string string
  | SyslogDel string
  | SnmpAdd string
  | SnmpDel string
  | SetTimezone string
  | SetHostname string

fun dev_cmd :: "dev_op \<Rightarrow> string" where
  "dev_cmd StpEnable = ''config spanning-tree enable pvst''"
| "dev_cmd StpDisable = ''config spanning-tree disable pvst''"
| "dev_cmd (StpPriority p) = ''config spanning-tree priority '' @ itoa p"
| "dev_cmd NtpSourceDel = ''sonic-db-cli CONFIG_DB hdel '' @ ShellQuote ''NTP|global'' @ '' src_intf''"
| "dev_cmd (NtpSourceSet src) = ''sonic-db-cli CONFIG_DB hset '' @ ShellQuote ''NTP|global'' @ '' src_intf '' @ src"
| "dev_cmd (NtpAdd a) = ''config ntp add '' @ a"
| "dev_cmd (NtpDel a) = ''config ntp del '' @ a"
| "dev_cmd (SyslogAdd a p) = ''config syslog add '' @ a @ '' --port '' @ p"
| "dev_cmd (SyslogDel a) = ''config syslog del '' @ a"
| "dev_cmd (SnmpAdd w) = ''config snmp community add '' @ ShellQuote w @ '' RO''"
| "dev_cmd (SnmpDel w) = ''config snmp community del '' @ ShellQuote w"
| "dev_cmd (SetTimezone z) = ''config clock timezone '' @ z"
| "dev_cmd (SetHostname h) = ''config hostname '' @ h"

definition set_add :: "string \<Rightarrow> string list \<Rightarrow> string list" where
  "set_add x xs = (if x \<in> set xs then xs else xs @ [x])"

fun dev_eff :: "dev_op \<Rightarrow> sw_state \<Rightarrow> sw_state" where
  "dev_eff StpEnable s = s\<lparr>s_stp_global := Some [(''mode'', ''pvst''), (''priority'', ''32768''), (''hello_time'', ''2''), (''forward_delay'', ''15''), (''max_age'', ''20'')]\<rparr>"
| "dev_eff StpDisable s = s\<lparr>s_stp_global := None\<rparr>"
| "dev_eff (StpPriority p) s = s\<lparr>s_stp_global := map_option (AList.update ''priority'' (itoa p)) (s_stp_global s)\<rparr>"
| "dev_eff NtpSourceDel s = s\<lparr>s_ntp_global := map_option (AList.delete ''src_intf'') (s_ntp_global s)\<rparr>"
| "dev_eff (NtpSourceSet src) s = s\<lparr>s_ntp_global := map_option (AList.update ''src_intf'' src) (s_ntp_global s)\<rparr>"
| "dev_eff (NtpAdd a) s = s\<lparr>s_ntp := set_add a (s_ntp s)\<rparr>"
| "dev_eff (NtpDel a) s = s\<lparr>s_ntp := removeAll a (s_ntp s)\<rparr>"
| "dev_eff (SyslogAdd a p) s = s\<lparr>s_syslog := AList.update a p (s_syslog s)\<rparr>"
| "dev_eff (SyslogDel a) s = s\<lparr>s_syslog := AList.delete a (s_syslog s)\<rparr>"
| "dev_eff (SnmpAdd w) s = s\<lparr>s_snmp := set_add w (s_snmp s)\<rparr>"
| "dev_eff (SnmpDel w) s = s\<lparr>s_snmp := removeAll w (s_snmp s)\<rparr>"
| "dev_eff (SetTimezone z) s = s\<lparr>s_meta := AList.update ''timezone'' z (s_meta s)\<rparr>"
| "dev_eff (SetHostname h) s = s\<lparr>s_meta := AList.update ''hostname'' h (s_meta s)\<rparr>"

datatype dev_note =
    MSTPUnsupported
  | NtpSkipped string
  | SyslogSkipped string
  | SnmpYmlUnread
  | ZoneHeld string zone_why
  | HostnameHeld string hostname_why

text \<open>What the planning of a push carries along.\<close>

record dev_plan =
  dp_sim :: sw_state
  dp_ops :: "dev_op list"
  dp_notes :: "dev_note list"
  dp_man :: managed

definition dp_add :: "dev_op \<Rightarrow> dev_plan \<Rightarrow> dev_plan" where
  "dp_add op p = p\<lparr>dp_sim := dev_eff op (dp_sim p), dp_ops := dp_ops p @ [op]\<rparr>"

definition dp_note :: "dev_note \<Rightarrow> dev_plan \<Rightarrow> dev_plan" where
  "dp_note n p = p\<lparr>dp_notes := dp_notes p @ [n]\<rparr>"

section \<open>Spanning tree by the community daemon\<close>

definition stp_prio :: "sw_state \<Rightarrow> int" where
  "stp_prio s = sonic_atoi (case s_stp_global s of None \<Rightarrow> [] | Some g \<Rightarrow> mget [] g ''priority'')"

definition dev_stp :: "device_desired \<Rightarrow> dev_plan \<Rightarrow> dev_plan" where
  "dev_stp d p =
     (if \<not> dd_stp_set d \<or> \<not> s_stp_feature (dp_sim p) then p
      else if dd_stp_enabled d \<and> dd_stp_mode d = ''mstp'' then dp_note MSTPUnsupported p
      else (let enabled = s_stp_global (dp_sim p) \<noteq> None;
                p1 = (if dd_stp_enabled d \<and> \<not> enabled then dp_add StpEnable p
                      else if \<not> dd_stp_enabled d \<and> enabled then dp_add StpDisable p else p)
            in if dd_stp_enabled d \<and> 0 < dd_stp_priority d \<and> stp_prio (dp_sim p1) \<noteq> dd_stp_priority d
               then dp_add (StpPriority (dd_stp_priority d)) p1 else p1))"

section \<open>NTP and syslog\<close>

definition ntpSource :: "string list \<Rightarrow> if_addr list option \<Rightarrow> sw_state \<Rightarrow> string" where
  "ntpSource dials addrs st = (case addrs of None \<Rightarrow> [] | Some as \<Rightarrow>
     (case find (\<lambda>a. fa_ip a \<in> set dials \<and> if_key a \<in> set (s_ifaddrs st)) as of None \<Rightarrow> [] | Some a \<Rightarrow> fa_iface a))"

definition dev_ntp_source :: "string \<Rightarrow> dev_plan \<Rightarrow> dev_plan" where
  "dev_ntp_source src p = (case s_ntp_global (dp_sim p) of None \<Rightarrow> p | Some g \<Rightarrow>
     if src = [] then p
     else if has_prefix ''Vlan'' src then (if map_of g ''src_intf'' \<noteq> None then dp_add NtpSourceDel p else p)
     else if mget [] g ''src_intf'' \<noteq> src then dp_add (NtpSourceSet src) p else p)"

definition pin_key :: "string \<Rightarrow> string \<Rightarrow> string" where
  "pin_key kind host = kind @ ''|'' @ host"

definition pinnedIP :: "dev_env \<Rightarrow> string \<Rightarrow> string \<Rightarrow> fields \<Rightarrow> (string \<Rightarrow> bool) \<Rightarrow> (string + string) \<times> fields" where
  "pinnedIP e kind host pins configured = (case de_parse e host of
     Some ip \<Rightarrow> (Inr ip, pins)
   | None \<Rightarrow> (case map_of pins (pin_key kind host) of
        Some ip \<Rightarrow> if configured ip then (Inr ip, pins) else
          (case de_resolve e host of Inl er \<Rightarrow> (Inl er, AList.delete (pin_key kind host) pins) | Inr ip' \<Rightarrow> (Inr ip', AList.update (pin_key kind host) ip' pins))
      | None \<Rightarrow> (case de_resolve e host of Inl er \<Rightarrow> (Inl er, AList.delete (pin_key kind host) pins) | Inr ip' \<Rightarrow> (Inr ip', AList.update (pin_key kind host) ip' pins))))"

definition dropPins :: "string \<Rightarrow> string list \<Rightarrow> fields \<Rightarrow> fields" where
  "dropPins kind hosts pins = filter (\<lambda>(k, ip). \<not> has_prefix (kind @ ''|'') k \<or> k \<in> set (map (pin_key kind) hosts)) pins"

definition dp_pin :: "fields \<Rightarrow> dev_plan \<Rightarrow> dev_plan" where
  "dp_pin pins p = p\<lparr>dp_man := (dp_man p)\<lparr>mg_pins := pins\<rparr>\<rparr>"

text \<open>One server: the plan and the addresses wanted so far.\<close>

definition ntp_host :: "dev_env \<Rightarrow> string \<Rightarrow> dev_plan \<times> string list \<Rightarrow> dev_plan \<times> string list" where
  "ntp_host e h acc = (case acc of (p, want) \<Rightarrow>
     (case pinnedIP e ''ntp'' h (mg_pins (dp_man p)) (\<lambda>ip. ip \<in> set (s_ntp (dp_sim p))) of
        (Inl er, pins) \<Rightarrow> (dp_note (NtpSkipped er) (dp_pin pins p), want)
      | (Inr ip, pins) \<Rightarrow> (if ip \<in> set (s_ntp (dp_sim p)) then dp_pin pins p else dp_add (NtpAdd ip) (dp_pin pins p), set_add ip want)))"

definition drop_others :: "(string \<Rightarrow> dev_op) \<Rightarrow> string list \<Rightarrow> string list \<Rightarrow> dev_plan \<Rightarrow> dev_plan" where
  "drop_others op want present p = fold (\<lambda>a. dp_add (op a)) (sort (filter (\<lambda>a. a \<notin> set want) (remdups present))) p"

definition dev_ntp :: "dev_env \<Rightarrow> string \<Rightarrow> device_desired \<Rightarrow> dev_plan \<Rightarrow> dev_plan" where
  "dev_ntp e src d p = (if \<not> dd_manage_ntp d then p else
     (case fold (ntp_host e) (dd_ntp d) (dev_ntp_source src p, []) of (p1, want) \<Rightarrow>
       (let p2 = drop_others NtpDel want (s_ntp (dp_sim p1)) p1
        in p2\<lparr>dp_man := (dp_man p2)\<lparr>mg_ntp := want, mg_pins := dropPins ''ntp'' (dd_ntp d) (mg_pins (dp_man p2))\<rparr>\<rparr>)))"

definition host_port :: "dev_env \<Rightarrow> string \<Rightarrow> string \<times> string" where
  "host_port e h = (case de_split e h of None \<Rightarrow> (h, ''514'') | Some hp \<Rightarrow> hp)"

definition syslog_write :: "string \<Rightarrow> string \<Rightarrow> dev_plan \<Rightarrow> dev_plan" where
  "syslog_write ip port p = (case map_of (s_syslog (dp_sim p)) ip of
     None \<Rightarrow> dp_add (SyslogAdd ip port) p
   | Some cur \<Rightarrow> if (if cur = [] then ''514'' else cur) = port then p
       else dp_add (SyslogAdd ip port) (dp_add (SyslogDel ip) p))"

definition syslog_host :: "dev_env \<Rightarrow> string \<Rightarrow> dev_plan \<times> string list \<Rightarrow> dev_plan \<times> string list" where
  "syslog_host e h acc = (case acc of (p, want) \<Rightarrow>
     (case pinnedIP e ''syslog'' (fst (host_port e h)) (mg_pins (dp_man p)) (\<lambda>ip. map_of (s_syslog (dp_sim p)) ip \<noteq> None) of
        (Inl er, pins) \<Rightarrow> (dp_note (SyslogSkipped er) (dp_pin pins p), want)
      | (Inr ip, pins) \<Rightarrow> (syslog_write ip (snd (host_port e h)) (dp_pin pins p), set_add ip want)))"

definition dev_syslog :: "dev_env \<Rightarrow> device_desired \<Rightarrow> dev_plan \<Rightarrow> dev_plan" where
  "dev_syslog e d p = (if \<not> dd_manage_syslog d then p else
     (case fold (syslog_host e) (dd_syslog d) (p, []) of (p1, want) \<Rightarrow>
       (let p2 = drop_others SyslogDel want (map fst (s_syslog (dp_sim p1))) p1
        in p2\<lparr>dp_man := (dp_man p2)\<lparr>mg_syslog := want,
             mg_pins := dropPins ''syslog'' (map (\<lambda>h. fst (host_port e h)) (dd_syslog d)) (mg_pins (dp_man p2))\<rparr>\<rparr>)))"

section \<open>SNMP, time zone, host name\<close>

definition yml_drop :: "device_desired \<Rightarrow> sw_state \<Rightarrow> string list" where
  "yml_drop d st = (if dd_snmp_set d then sort (filter (\<lambda>n. n \<noteq> dd_snmp_community d) (remdups (s_snmp_yml st))) else [])"

definition without_yml :: "string list \<Rightarrow> sw_state \<Rightarrow> sw_state" where
  "without_yml names s = s\<lparr>s_snmp_yml := filter (\<lambda>n. n \<notin> set names) (s_snmp_yml s)\<rparr>"

definition dev_snmp :: "device_desired \<Rightarrow> dev_plan \<Rightarrow> dev_plan" where
  "dev_snmp d p = (if \<not> dd_snmp_set d then p else
     (let want = dd_snmp_community d;
          p1 = (if s_snmp_yml_ok (dp_sim p) then p else dp_note SnmpYmlUnread p);
          p2 = p1\<lparr>dp_sim := without_yml (yml_drop d (dp_sim p1)) (dp_sim p1)\<rparr>;
          p3 = (if want \<noteq> [] \<and> want \<notin> set (s_snmp (dp_sim p2)) then dp_add (SnmpAdd want) p2 else p2);
          p4 = drop_others SnmpDel [want] (s_snmp (dp_sim p3)) p3
      in p4\<lparr>dp_man := (dp_man p4)\<lparr>mg_snmp := want\<rparr>\<rparr>))"

text \<open>The switch's zones are read once per run; an empty list is an error and read again.\<close>

definition zoneTable :: "dev_env \<Rightarrow> zone list \<Rightarrow> zone_why + zone list" where
  "zoneTable e zs = (if zs \<noteq> [] then Inr zs else case de_zones e of
     Inl er \<Rightarrow> Inl (ZoneList er)
   | Inr body \<Rightarrow> if parseZones body = [] then Inl (ZoneList ''the switch listed no time zones'') else Inr (parseZones body))"

definition current_zone :: "sw_state \<Rightarrow> string" where
  "current_zone s = (let z = mget [] (s_meta s) ''timezone'' in if z = [] then ''UTC'' else z)"

definition zone_target :: "string \<Rightarrow> string \<Rightarrow> zone_why + zone list \<Rightarrow> zone_why + string" where
  "zone_target tz cur table = (case table of Inl w \<Rightarrow> Inl w | Inr zs \<Rightarrow>
     (case zoneFor tz cur zs of Inl w \<Rightarrow> Inl w | Inr t \<Rightarrow> if zoneNameRe t then Inr t else Inl (ZoneNotPlain t)))"

definition zone_asked :: "device_desired \<Rightarrow> sw_state \<Rightarrow> bool" where
  "zone_asked d s \<longleftrightarrow> trim_space (dd_timezone d) \<noteq> [] \<and> trim_space (dd_timezone d) \<noteq> current_zone s"

definition dev_timezone :: "dev_env \<Rightarrow> zone list \<Rightarrow> device_desired \<Rightarrow> dev_plan \<Rightarrow> dev_plan" where
  "dev_timezone e zs d p = (if \<not> zone_asked d (dp_sim p) then p
     else (let tz = trim_space (dd_timezone d); cur = current_zone (dp_sim p) in
       case zone_target tz cur (zoneTable e zs) of
         Inl w \<Rightarrow> dp_note (ZoneHeld tz w) p
       | Inr t \<Rightarrow> if t = cur then p else dp_add (SetTimezone t) p))"

definition dev_hostname :: "device_desired \<Rightarrow> dev_plan \<Rightarrow> dev_plan" where
  "dev_hostname d p = (let h = trim_space (dd_hostname d) in
     if h = [] then p
     else (case badHostname h of
         Some w \<Rightarrow> dp_note (HostnameHeld h w) p
       | None \<Rightarrow> if h = mget [] (s_meta (dp_sim p)) ''hostname'' then p else dp_add (SetHostname h) p))"

section \<open>The apply\<close>

text \<open>The batch as it is sent.\<close>

definition dev_batch :: "dev_op list \<Rightarrow> string list" where
  "dev_batch ops = map (\<lambda>op. ''sudo '' @ dev_cmd op) ops @ [''sudo config save -y'']"

datatype dev_call = DropSnmpYml "string list" | RunDevice "string list" | ChronyOnoffline

type_synonym dev_run = "dev_call \<Rightarrow> string option \<times> sw_state option"

definition dev_plan_of :: "dev_env \<Rightarrow> device_desired \<Rightarrow> 'a dev_col_scheme \<Rightarrow> sw_state \<Rightarrow> dev_plan" where
  "dev_plan_of e d c st =
     dev_hostname d (dev_timezone e (vd_zones c) d (dev_snmp d (dev_syslog e d
       (dev_ntp e (ntpSource (de_dials e) (vc_addrs c) st) d
         (dev_stp d \<lparr>dp_sim = st, dp_ops = [], dp_notes = [], dp_man = vd_managed c\<rparr>)))))"

text \<open>
  An NTP write restarts chrony anyway; without one, chrony is nudged once per collect while every
  source is offline and the interface it sends from has carrier.
\<close>

definition ntp_quiet :: "dev_env \<Rightarrow> device_desired \<Rightarrow> 'a dev_col_scheme \<Rightarrow> sw_state \<Rightarrow> bool" where
  "ntp_quiet e d c st = (let p = dev_stp d \<lparr>dp_sim = st, dp_ops = [], dp_notes = [], dp_man = vd_managed c\<rparr>
     in dd_manage_ntp d \<and> dp_ops (dev_ntp e (ntpSource (de_dials e) (vc_addrs c) st) d p) = dp_ops p)"

definition chrony_stuck :: "sw_state \<Rightarrow> bool" where
  "chrony_stuck st \<longleftrightarrow> s_chrony_online st = 0 \<and> 0 < s_chrony_offline st"

definition nudges :: "dev_env \<Rightarrow> sw_state \<Rightarrow> 'a dev_col_scheme \<Rightarrow> bool" where
  "nudges e st c \<longleftrightarrow> s_chrony_known st \<and> s_ntp st \<noteq> [] \<and> vc_addrs c \<noteq> None \<and> chrony_stuck st \<and> \<not> vd_nudged c
     \<and> (let src = ntpSource (de_dials e) (vc_addrs c) st in src \<noteq> [] \<and> src \<in> set (s_carrier st))"

definition chronyNudge :: "dev_env \<Rightarrow> dev_run \<Rightarrow> sw_state \<Rightarrow> 'a dev_col_scheme \<Rightarrow> 'a dev_col_scheme" where
  "chronyNudge e run st c =
     (if \<not> s_chrony_known st \<or> s_ntp st = [] \<or> vc_addrs c = None then c
      else if \<not> chrony_stuck st then c\<lparr>vd_stuck := False\<rparr>
      else if nudges e st c then stored (snd (run ChronyOnoffline)) (c\<lparr>vd_nudged := True, vd_stuck := True\<rparr>)
      else c)"

definition seen_zones :: "dev_env \<Rightarrow> device_desired \<Rightarrow> sw_state \<Rightarrow> 'a dev_col_scheme \<Rightarrow> 'a dev_col_scheme" where
  "seen_zones e d st c = (if zone_asked d st
     then (case zoneTable e (vd_zones c) of Inl w \<Rightarrow> c | Inr zs \<Rightarrow> c\<lparr>vd_zones := zs\<rparr>) else c)"

definition dev_write :: "dev_run \<Rightarrow> device_desired \<Rightarrow> nat \<Rightarrow> dev_plan \<Rightarrow> 'a dev_col_scheme \<Rightarrow> (string + nat) \<times> 'a dev_col_scheme" where
  "dev_write run d changed p c =
     (if dp_ops p = [] then (Inr changed, c\<lparr>vd_managed := dp_man p\<rparr>)
      else (case run (RunDevice (dev_batch (dp_ops p))) of
          (Some er, fresh) \<Rightarrow> (Inl (''sonic apply switch settings: '' @ redact er [dd_snmp_community d, mg_snmp (dp_man p)]), stored fresh c)
        | (None, fresh) \<Rightarrow> (Inr (changed + length (dp_ops p)), c\<lparr>ac_state := Some (dp_sim p), vd_managed := dp_man p\<rparr>)))"

text \<open>Whether no collect has replaced the state so far.\<close>

definition dev_kept :: "dev_env \<Rightarrow> dev_run \<Rightarrow> device_desired \<Rightarrow> sw_state \<Rightarrow> 'a dev_col_scheme \<Rightarrow> bool" where
  "dev_kept e run d st c \<longleftrightarrow> \<not> (ntp_quiet e d c st \<and> nudges e st c \<and> snd (run ChronyOnoffline) \<noteq> None)"

definition applyDevice :: "dev_env \<Rightarrow> dev_run \<Rightarrow> device_desired \<Rightarrow> 'a dev_col_scheme \<Rightarrow> (string + nat) \<times> 'a dev_col_scheme" where
  "applyDevice e run d c = (case ac_state c of None \<Rightarrow> (Inl ''sonic apply switch: no snapshot yet'', c) | Some st \<Rightarrow>
     (let p = dev_plan_of e d c st;
          c1 = seen_zones e d st (if ntp_quiet e d c st then chronyNudge e run st c else c);
          gone = yml_drop d st in
      if gone = [] then dev_write run d 0 p c1
      else (case run (DropSnmpYml gone) of
          (Some er, fresh) \<Rightarrow> (Inl (''sonic apply switch settings: snmp.yml: '' @ redact er gone), stored fresh c1)
        | (None, fresh) \<Rightarrow> dev_write run d 1 p
            (if fresh = None \<and> dev_kept e run d st c then c1\<lparr>ac_state := Some (without_yml gone st)\<rparr> else stored fresh c1))))"

end
