(* ===== verification/Sonic_Keys.thy ===== *)
theory Sonic_Keys
  imports Sonic_Device
begin

text \<open>
  \<^verbatim>\<open>internal/drivers/sonic/device.go\<close>, the SSH key installer and the reboot: the controller's keys in the
  bridge's marked block of \<^verbatim>\<open>authorized_keys\<close>. The rewrite is a shell script; what its \<open>awk\<close> and \<open>cat\<close>
  do to the file's lines is \<open>keys_file_after\<close>.
\<close>

section \<open>A key's line\<close>

definition keysBegin :: string where "keysBegin = ''# disunified-managed-begin''"
definition keysEnd :: string where "keysEnd = ''# disunified-managed-end''"
definition keysHere :: string where "keysHere = ''DISUNIFIED_KEYS''"

definition type_char :: "char \<Rightarrow> bool" where
  "type_char c \<longleftrightarrow> is_lower c \<or> is_digit c \<or> c \<in> set ''@.-''"

definition value_char :: "char \<Rightarrow> bool" where
  "value_char c \<longleftrightarrow> is_lower c \<or> is_upper c \<or> is_digit c \<or> c \<in> set ''+/''"

definition keyTypeRe :: "string \<Rightarrow> bool" where
  "keyTypeRe s \<longleftrightarrow> s \<noteq> [] \<and> list_all type_char s"

definition keyValueRe :: "string \<Rightarrow> bool" where
  "keyValueRe s \<longleftrightarrow> takeWhile value_char s \<noteq> [] \<and> list_all (\<lambda>c. c = CHR ''='') (dropWhile value_char s)"

definition sanitizeComment :: "string \<Rightarrow> string" where
  "sanitizeComment s = trim_space (filter (\<lambda>c. 32 \<le> char_code c \<and> c \<noteq> CHR 0x7F) s)"

definition key_ok :: "ssh_key \<Rightarrow> bool" where
  "key_ok k \<longleftrightarrow> keyTypeRe (trim_space (sk_type k)) \<and> keyValueRe (trim_space (sk_value k))"

definition key_id :: "ssh_key \<Rightarrow> string" where
  "key_id k = trim_space (sk_type k) @ '' '' @ trim_space (sk_value k)"

definition sonic_key_line :: "ssh_key \<Rightarrow> string" where
  "sonic_key_line k = key_id k @ (let cm = sanitizeComment (sk_comment k) in if cm = [] then [] else '' '' @ cm)"

text \<open>The lines of the block: the well-formed keys, each once, in the push's order.\<close>

fun key_lines :: "string list \<Rightarrow> ssh_key list \<Rightarrow> string list" where
  "key_lines seen [] = []"
| "key_lines seen (k # ks) = (if \<not> key_ok k \<or> key_id k \<in> set seen then key_lines seen ks
     else sonic_key_line k # key_lines (key_id k # seen) ks)"

section \<open>The script\<close>

definition keys_head :: "string list" where
  "keys_head = [''set -e'', ''f=\"$HOME/.ssh/authorized_keys\"'',
     ''mkdir -p \"$HOME/.ssh\" && chmod 700 \"$HOME/.ssh\" && touch \"$f\"'',
     ''tmp=$(mktemp \"$HOME/.ssh/.authorized_keys.XXXXXX\")'',
     ''awk '' @ [CHR 0x27] @ ''$0==\"'' @ keysBegin @ ''\"{skip=1;next} $0==\"'' @ keysEnd @ ''\"{skip=0;next} !skip'' @ [CHR 0x27] @ '' \"$f\" > \"$tmp\"'']"

definition cat_line :: string where
  "cat_line = ''cat >> \"$tmp\" <<'' @ [CHR 0x27] @ keysHere @ [CHR 0x27]"

definition keysScript :: "string list \<Rightarrow> string" where
  "keysScript ls = concat (map (\<lambda>l. l @ [LF])
     (keys_head @ (if ls = [] then [] else cat_line # keysBegin # ls @ [keysEnd, keysHere])
      @ [''chmod 600 \"$tmp\" && mv -f \"$tmp\" \"$f\"'']))"

text \<open>\<open>awk\<close> over the file's lines, and the block \<open>cat\<close> appends.\<close>

fun awk_skip :: "bool \<Rightarrow> string list \<Rightarrow> string list" where
  "awk_skip skip [] = []"
| "awk_skip skip (l # ls) = (if l = keysBegin then awk_skip True ls else if l = keysEnd then awk_skip False ls
     else if skip then awk_skip skip ls else l # awk_skip skip ls)"

definition keys_file_after :: "string list \<Rightarrow> string list \<Rightarrow> string list" where
  "keys_file_after ls file = awk_skip False file @ (if ls = [] then [] else keysBegin # ls @ [keysEnd])"

text \<open>The next collect reads the block's lines (\<^verbatim>\<open>collect.py\<close>), and the state takes them trimmed.\<close>

fun collect_keys :: "bool \<Rightarrow> string list \<Rightarrow> string list" where
  "collect_keys inside [] = []"
| "collect_keys inside (l # ls) = (if l = keysBegin then collect_keys True ls else if l = keysEnd then collect_keys False ls
     else if inside \<and> trim_space l \<noteq> [] then l # collect_keys inside ls else collect_keys inside ls)"

definition state_keys :: "string list \<Rightarrow> string list" where
  "state_keys ls = filter (\<lambda>l. l \<noteq> []) (map trim_space ls)"

section \<open>The installer\<close>

type_synonym keys_run = "string \<Rightarrow> string option \<times> sw_state option"

definition have_keys :: "sw_state \<Rightarrow> string list" where
  "have_keys st = List.map_filter key_value (s_keys st)"

definition sonic_InstallSSHKeys :: "keys_run \<Rightarrow> ssh_key list \<Rightarrow> 'a acl_col_scheme \<Rightarrow> (string + nat) \<times> 'a acl_col_scheme" where
  "sonic_InstallSSHKeys run keys c = (case ac_state c of None \<Rightarrow> (Inl ''sonic install ssh keys: no snapshot yet'', c) | Some st \<Rightarrow>
     (let ls = key_lines [] keys in
      if set (have_keys st) = set (map key_id (filter key_ok keys)) then (Inr 0, c)
      else (case run (keysScript ls) of
          (Some e, fresh) \<Rightarrow> (Inl (''sonic install ssh keys: '' @ e), stored fresh c)
        | (None, fresh) \<Rightarrow> (Inr (length ls), if fresh = None then c\<lparr>ac_state := Some (st\<lparr>s_keys := ls\<rparr>)\<rparr> else stored fresh c))))"

section \<open>Reboot\<close>

text \<open>A session that drops once \<open>sudo reboot\<close> was sent is the reload under way.\<close>

datatype run_end = RanOk | Dropped string | RanFailed string

definition sonic_Reboot :: "run_end \<Rightarrow> string option \<times> bool" where
  "sonic_Reboot r = (case r of RanOk \<Rightarrow> (None, True) | Dropped e \<Rightarrow> (None, True) | RanFailed e \<Rightarrow> (Some e, False))"

end
