(* ===== verification/Sonic_Keys_Props.thy ===== *)
theory Sonic_Keys_Props
  imports Sonic_Keys Eos_Props Sonic_Acl_Props
begin

text \<open>
  The SSH keys: what the shell makes of the script, whatever the controller pushes as a key or its
  comment; the lines outside the block stay, and the push after it has nothing to write.
\<close>

section \<open>A key's line\<close>

lemma trim_space_subset: "set (trim_space s) \<subseteq> set s"
  by (auto simp: trim_space_def trim_right_def dest!: set_dropWhileD)

lemma type_char_facts: "type_char c \<Longrightarrow> \<not> is_space c \<and> c \<noteq> CHR ''#'' \<and> c \<noteq> CHR '' '' \<and> c \<noteq> LF"
  by (auto simp: type_char_def is_digit_def is_lower_def is_space_def char_code_def)

lemma value_char_facts: "value_char c \<Longrightarrow> \<not> is_space c \<and> c \<noteq> CHR '' '' \<and> c \<noteq> LF"
  by (auto simp: value_char_def is_digit_def is_lower_def is_upper_def is_space_def char_code_def)

lemma key_type: "key_ok k \<Longrightarrow> trim_space (sk_type k) \<noteq> [] \<and> (\<forall>c \<in> set (trim_space (sk_type k)). type_char c)"
  by (simp add: key_ok_def keyTypeRe_def list_all_iff)

lemma key_value_chars:
  assumes "key_ok k" shows "trim_space (sk_value k) \<noteq> []" "\<forall>c \<in> set (trim_space (sk_value k)). value_char c \<or> c = CHR ''=''"
proof -
  let ?v = "trim_space (sk_value k)"
  have t: "takeWhile value_char ?v \<noteq> []" "list_all (\<lambda>c. c = CHR ''='') (dropWhile value_char ?v)"
    using assms by (simp_all add: key_ok_def keyValueRe_def)
  from t(1) show "?v \<noteq> []" by auto
  have "set ?v = set (takeWhile value_char ?v) \<union> set (dropWhile value_char ?v)"
    by (metis set_append takeWhile_dropWhile_id)
  with t(2) show "\<forall>c \<in> set ?v. value_char c \<or> c = CHR ''=''" by (auto simp: list_all_iff dest: set_takeWhileD)
qed

lemma no_space_words:
  assumes "key_ok k"
  shows "\<forall>c \<in> set (trim_space (sk_type k)). \<not> is_space c \<and> c \<noteq> LF"
    and "\<forall>c \<in> set (trim_space (sk_value k)). \<not> is_space c \<and> c \<noteq> LF"
proof -
  show "\<forall>c \<in> set (trim_space (sk_type k)). \<not> is_space c \<and> c \<noteq> LF" using key_type[OF assms] type_char_facts by blast
  have "\<not> is_space (CHR ''='') \<and> CHR ''='' \<noteq> LF" by (simp add: is_space_def char_code_def)
  then show "\<forall>c \<in> set (trim_space (sk_value k)). \<not> is_space c \<and> c \<noteq> LF"
    using key_value_chars(2)[OF assms] value_char_facts by blast
qed

lemma comment_clean: "LF \<notin> set (sanitizeComment s)"
  using trim_space_subset[of "filter (\<lambda>c. 32 \<le> char_code c \<and> c \<noteq> CHR 0x7F) s"]
  by (auto simp: sanitizeComment_def char_code_def)

definition plain_key :: "string \<Rightarrow> bool" where
  "plain_key l \<longleftrightarrow> LF \<notin> set l \<and> CHR '' '' \<in> set l \<and> l \<noteq> [] \<and> type_char (hd l)"

lemma plain_sonic_key_line: "key_ok k \<Longrightarrow> plain_key (sonic_key_line k)"
  using key_type[of k] no_space_words[of k] comment_clean[of "sk_comment k"]
  by (auto simp: plain_key_def sonic_key_line_def key_id_def Let_def hd_append)

lemma plain_key_lines: "l \<in> set (key_lines seen ks) \<Longrightarrow> plain_key l"
  by (induction seen ks rule: key_lines.induct) (auto simp: plain_sonic_key_line split: if_splits)

lemma plain_not_marks:
  assumes "plain_key l" shows "l \<noteq> keysBegin" "l \<noteq> keysEnd" "l \<noteq> keysHere" "trim_space l \<noteq> []"
proof -
  have h: "hd l \<noteq> CHR ''#''" "\<not> is_space (hd l)" using assms type_char_facts by (auto simp: plain_key_def)
  from h(1) show "l \<noteq> keysBegin" "l \<noteq> keysEnd" by (auto simp: keysBegin_def keysEnd_def)
  show "l \<noteq> keysHere" using assms by (auto simp: plain_key_def keysHere_def)
  show "trim_space l \<noteq> []" using trim_space_keeps_hd[of l] h assms by (simp add: plain_key_def)
qed

section \<open>What the shell makes of the script\<close>

text \<open>The here-document of a script: the lines after \<open>cat\<close>'s, up to the line that is its mark.\<close>

fun here_doc :: "string list \<Rightarrow> string list" where
  "here_doc [] = []"
| "here_doc (l # ls) = (if l = cat_line then takeWhile (\<lambda>l. l \<noteq> keysHere) ls else here_doc ls)"

fun after_here :: "string list \<Rightarrow> string list" where
  "after_here [] = []"
| "after_here (l # ls) = (if l = cat_line then tl (dropWhile (\<lambda>l. l \<noteq> keysHere) ls) else after_here ls)"

lemma split_lines: "\<forall>l \<in> set ls. LF \<notin> set l \<Longrightarrow> split_on LF (concat (map (\<lambda>l. l @ [LF]) ls)) = ls @ [[]]"
  by (induction ls) (simp_all add: split_on_app_sep split_on_no_sep)

lemma fixed_lines:
  "\<forall>l \<in> set keys_head. LF \<notin> set l" "\<forall>l \<in> set keys_head. l \<noteq> cat_line" "LF \<notin> set cat_line"
  "LF \<notin> set keysBegin" "LF \<notin> set keysEnd" "LF \<notin> set keysHere" "keysBegin \<noteq> keysHere" "keysEnd \<noteq> keysHere"
  by (simp_all add: keys_head_def cat_line_def keysBegin_def keysEnd_def keysHere_def)

lemma here_skip: "cat_line \<notin> set xs \<Longrightarrow> here_doc (xs @ ys) = here_doc ys" "cat_line \<notin> set xs \<Longrightarrow> after_here (xs @ ys) = after_here ys"
  by (induction xs) auto

lemma here_block:
  assumes "\<forall>l \<in> set ls. plain_key l" "ls \<noteq> []"
  shows "here_doc (cat_line # keysBegin # ls @ keysEnd # keysHere # rest) = keysBegin # ls @ [keysEnd]"
    and "after_here (cat_line # keysBegin # ls @ keysEnd # keysHere # rest) = rest"
proof -
  have t: "takeWhile (\<lambda>l. l \<noteq> keysHere) (ls @ keysEnd # keysHere # rest) = ls @ [keysEnd]"
    "dropWhile (\<lambda>l. l \<noteq> keysHere) (ls @ keysEnd # keysHere # rest) = keysHere # rest"
    using assms(1) plain_not_marks(3) fixed_lines(8) by (induction ls) auto
  show "here_doc (cat_line # keysBegin # ls @ keysEnd # keysHere # rest) = keysBegin # ls @ [keysEnd]"
    "after_here (cat_line # keysBegin # ls @ keysEnd # keysHere # rest) = rest"
    using t fixed_lines(7) by simp_all
qed

definition keys_tail :: string where "keys_tail = ''chmod 600 \"$tmp\" && mv -f \"$tmp\" \"$f\"''"

text \<open>
  C15. No key the controller pushes reaches beyond its line of the block: whatever its type, value and
  comment, the shell's here-document is exactly the bridge's block, and the script goes on with the move
  into place and nothing else.
\<close>

theorem sonic_keys_stay_in_the_script:
  "if key_lines [] keys = []
    then here_doc (split_on LF (keysScript (key_lines [] keys))) = []
      \<and> split_on LF (keysScript (key_lines [] keys)) = keys_head @ [keys_tail, []]
    else here_doc (split_on LF (keysScript (key_lines [] keys))) = keysBegin # key_lines [] keys @ [keysEnd]
      \<and> after_here (split_on LF (keysScript (key_lines [] keys))) = [keys_tail, []]"
proof -
  let ?ls = "key_lines [] keys"
  let ?all = "keys_head @ (if ?ls = [] then [] else cat_line # keysBegin # ?ls @ [keysEnd, keysHere]) @ [keys_tail]"
  have p: "\<forall>l \<in> set ?ls. plain_key l" using plain_key_lines by blast
  have "\<forall>l \<in> set ?all. LF \<notin> set l" using fixed_lines p by (auto simp: plain_key_def keys_tail_def)
  then have s: "split_on LF (keysScript ?ls) = ?all @ [[]]"
    unfolding keysScript_def keys_tail_def[symmetric] by (rule split_lines)
  have no: "cat_line \<notin> set keys_head" "keys_tail \<noteq> cat_line" "cat_line \<noteq> []"
    using fixed_lines(2) by (auto simp: keys_tail_def cat_line_def)
  show ?thesis
  proof (cases "?ls = []")
    case True
    then show ?thesis using s no by (simp add: here_skip)
  next
    case False
    then show ?thesis using s no here_block[OF p False, of "[keys_tail, []]"] by (simp add: here_skip)
  qed
qed

section \<open>The file\<close>

lemma awk_outside: "\<forall>l \<in> set xs. l \<noteq> keysBegin \<and> l \<noteq> keysEnd \<Longrightarrow> awk_skip skip (xs @ ys) = (if skip then [] else xs) @ awk_skip skip ys"
  by (induction xs) auto

lemma collect_block: "\<forall>l \<in> set xs. plain_key l \<Longrightarrow> collect_keys True (xs @ ys) = xs @ collect_keys True ys"
  by (induction xs) (simp_all add: plain_not_marks)

lemma collect_outside: "\<forall>l \<in> set xs. l \<noteq> keysBegin \<and> l \<noteq> keysEnd \<Longrightarrow> collect_keys False (xs @ ys) = collect_keys False ys"
  by (induction xs) auto

lemma marks_differ: "keysBegin \<noteq> keysEnd" "keysEnd \<noteq> keysBegin"
  by (simp_all add: keysBegin_def keysEnd_def)

lemma words_of_id:
  assumes "a \<noteq> []" "b \<noteq> []" "\<forall>c \<in> set a. \<not> is_space c" "\<forall>c \<in> set b. \<not> is_space c" "r = [] \<or> is_space (hd r)"
  shows "\<exists>ws. str_fields (a @ '' '' @ b @ r) = a # b # ws"
proof -
  let ?blank = "\<lambda>c. if is_space c then CHR '' '' else c"
  have sp: "is_space (CHR '' '')" by (simp add: is_space_def)
  have a: "map ?blank a = a" "CHR '' '' \<notin> set a" using assms(3) sp by (auto intro: map_idI)
  have b: "map ?blank b = b" "CHR '' '' \<notin> set b" using assms(4) sp by (auto intro: map_idI)
  show ?thesis
  proof (cases r)
    case Nil
    then show ?thesis using a b sp assms(1,2) by (simp add: str_fields_def split_on_app_sep split_on_no_sep)
  next
    case (Cons x xs)
    then have "map ?blank (a @ '' '' @ b @ r) = a @ CHR '' '' # b @ CHR '' '' # map ?blank xs"
      using a b sp assms(5) by simp
    then show ?thesis using a(2) b(2) assms(1,2) by (simp add: str_fields_def split_on_app_sep split_on_no_sep)
  qed
qed

lemma key_value_of_line:
  assumes "key_ok k" shows "key_value (sonic_key_line k) = Some (key_id k)"
proof -
  let ?a = "trim_space (sk_type k)" and ?b = "trim_space (sk_value k)" and ?cm = "sanitizeComment (sk_comment k)"
  let ?r = "if ?cm = [] then [] else '' '' @ ?cm"
  have "\<exists>ws. str_fields (?a @ '' '' @ ?b @ ?r) = ?a # ?b # ws"
  proof (rule words_of_id)
    show "?a \<noteq> []" "?b \<noteq> []" using key_type[OF assms] key_value_chars(1)[OF assms] by blast+
    show "\<forall>c \<in> set ?a. \<not> is_space c" "\<forall>c \<in> set ?b. \<not> is_space c" using no_space_words[OF assms] by blast+
    show "?r = [] \<or> is_space (hd ?r)" by (simp add: is_space_def)
  qed
  then obtain ws where w: "str_fields (?a @ '' '' @ ?b @ ?r) = ?a # ?b # ws" by blast
  have "sonic_key_line k = ?a @ '' '' @ ?b @ ?r" by (simp only: sonic_key_line_def key_id_def Let_def append_assoc)
  then have "str_fields (sonic_key_line k) = ?a # ?b # ws" using w by (simp only:)
  then show ?thesis by (simp only: key_value_def key_id_def list.case)
qed

lemma ids_of_lines:
  "set (List.map_filter key_value (key_lines seen ks)) \<union> set seen = set (map key_id (filter key_ok ks)) \<union> set seen"
proof (induction ks arbitrary: seen)
  case (Cons k ks)
  show ?case
  proof (cases "\<not> key_ok k \<or> key_id k \<in> set seen")
    case True
    then have "key_lines seen (k # ks) = key_lines seen ks" by simp
    with Cons[of seen] True show ?thesis by auto
  next
    case False
    then have l: "key_lines seen (k # ks) = sonic_key_line k # key_lines (key_id k # seen) ks" and ok: "key_ok k" by simp_all
    show ?thesis using Cons[of "key_id k # seen"] ok unfolding l by (simp add: List.map_filter_simps key_value_of_line)
  qed
qed (simp add: List.map_filter_simps)

lemma last_not_space: "trim_space s \<noteq> [] \<Longrightarrow> \<not> is_space (last (trim_space s))"
  by (metis (no_types, lifting) hd_dropWhile last_rev rev_is_Nil_conv trim_right_def trim_space_def)

lemma key_line_trimmed: "key_ok k \<Longrightarrow> trim_space (sonic_key_line k) = sonic_key_line k"
proof (rule trim_space_id)
  assume ok: "key_ok k"
  from plain_sonic_key_line[OF ok] show "sonic_key_line k \<noteq> []" "\<not> is_space (hd (sonic_key_line k))"
    using type_char_facts by (auto simp: plain_key_def)
  show "\<not> is_space (last (sonic_key_line k))"
    using last_not_space[of "sk_value k"] key_value_chars(1)[OF ok] last_not_space sanitizeComment_def
    by (auto simp: sonic_key_line_def key_id_def Let_def)
qed

lemma key_lines_trimmed: "map trim_space (key_lines seen ks) = key_lines seen ks"
  by (induction seen ks rule: key_lines.induct) (simp_all add: key_line_trimmed)

lemma state_keys_lines: "state_keys (key_lines seen ks) = key_lines seen ks"
proof -
  have "\<forall>l \<in> set (key_lines seen ks). l \<noteq> []" using plain_key_lines by (auto simp: plain_key_def)
  then show ?thesis by (simp add: state_keys_def key_lines_trimmed filter_id_conv)
qed

text \<open>
  C16. An install rewrites the bridge's block and nothing else: the operator's lines around the old
  block stay, in their order; the collect after it reads back exactly the keys written, and with them
  the same push finds nothing to write.
\<close>

theorem sonic_keys_round_trip:
  assumes "\<forall>l \<in> set (pre @ old @ post). l \<noteq> keysBegin \<and> l \<noteq> keysEnd"
    and "new = keys_file_after (key_lines [] keys) (pre @ keysBegin # old @ keysEnd # post)"
    and "ac_state c = Some st" and "s_keys st = state_keys (collect_keys False new)"
  shows "awk_skip False new = pre @ post \<and> s_keys st = key_lines [] keys
    \<and> sonic_InstallSSHKeys run keys c = (Inr 0, c)"
proof -
  let ?ls = "key_lines [] keys"
  let ?block = "if ?ls = [] then [] else keysBegin # ?ls @ [keysEnd]"
  have m: "\<forall>l \<in> set pre. l \<noteq> keysBegin \<and> l \<noteq> keysEnd" "\<forall>l \<in> set old. l \<noteq> keysBegin \<and> l \<noteq> keysEnd"
    "\<forall>l \<in> set post. l \<noteq> keysBegin \<and> l \<noteq> keysEnd" using assms(1) by auto
  have p: "\<forall>l \<in> set ?ls. plain_key l" using plain_key_lines by blast
  then have pm: "\<forall>l \<in> set ?ls. l \<noteq> keysBegin \<and> l \<noteq> keysEnd" using plain_not_marks by blast
  have "awk_skip False (pre @ keysBegin # old @ keysEnd # post) = pre @ post"
    using awk_outside[OF m(1)] awk_outside[OF m(2), of True] awk_outside[OF m(3), of False "[]"] marks_differ by simp
  then have new: "new = (pre @ post) @ ?block" using assms(2) by (simp add: keys_file_after_def)
  have mm: "\<forall>l \<in> set (pre @ post). l \<noteq> keysBegin \<and> l \<noteq> keysEnd" using m by auto
  have kept: "awk_skip False new = pre @ post"
    using awk_outside[OF mm, of False] awk_outside[OF pm, of True] marks_differ unfolding new by simp
  have "collect_keys False new = ?ls"
    using collect_outside[OF mm] collect_block[OF p] marks_differ unfolding new by simp
  then have s: "s_keys st = ?ls" using assms(4) by (simp add: state_keys_lines)
  have "set (have_keys st) = set (map key_id (filter key_ok keys))"
    using ids_of_lines[of "[]" keys] by (simp add: have_keys_def s)
  then show ?thesis using kept s assms(3) by (simp add: sonic_InstallSSHKeys_def)
qed

definition demo_keys :: "ssh_key list" where
  "demo_keys = [\<lparr>sk_type = ''ssh-ed25519'', sk_value = ''AAAAC3Nz='', sk_comment = ''me'' @ [LF] @ ''DISUNIFIED_KEYS''\<rparr>,
     \<lparr>sk_type = ''SSH RSA'', sk_value = ''AAAA'', sk_comment = []\<rparr>]"

definition demo_key_lines :: "string list" where
  "demo_key_lines = [''ssh-ed25519 AAAAC3Nz= meDISUNIFIED_KEYS'']"

definition demo_keys_col :: acl_col where
  "demo_keys_col = \<lparr>ac_state = Some (demo_sw\<lparr>s_keys := demo_key_lines\<rparr>), ac_want = [], ac_written = False\<rparr>"

lemma demo_keys_lines: "key_lines [] demo_keys = demo_key_lines"
  by code_simp

theorem sonic_keys_round_trip_witness:
  "awk_skip False (keys_file_after demo_key_lines ([''ssh-rsa AAAA op''] @ keysBegin # [''ssh-rsa OLD''] @ keysEnd # [''# mine''])) = [''ssh-rsa AAAA op''] @ [''# mine'']
    \<and> sonic_InstallSSHKeys (\<lambda>s. (Some ''down'', None)) demo_keys demo_keys_col = (Inr 0, demo_keys_col)"
proof -
  have m: "\<forall>l \<in> set ([''ssh-rsa AAAA op''] @ [''ssh-rsa OLD''] @ [''# mine'']). l \<noteq> keysBegin \<and> l \<noteq> keysEnd"
    by (simp add: keysBegin_def keysEnd_def)
  have k: "demo_key_lines = state_keys (collect_keys False (keys_file_after demo_key_lines ([''ssh-rsa AAAA op''] @ keysBegin # [''ssh-rsa OLD''] @ keysEnd # [''# mine''])))"
    by code_simp
  show ?thesis
    using sonic_keys_round_trip[OF m refl, of demo_keys_col "demo_sw\<lparr>s_keys := demo_key_lines\<rparr>" demo_keys] k
    by (simp add: demo_keys_lines demo_keys_col_def)
qed

end
