(* ===== verification/Sonic_Push.thy ===== *)
theory Sonic_Push
  imports Sonic_Keys Sonic_Ports
begin

text \<open>
  \<^verbatim>\<open>ApplyDevice\<close> (\<^verbatim>\<open>internal/drivers/sonic/device.go\<close>) and \<^verbatim>\<open>ApplyPorts\<close> (\<^verbatim>\<open>control.go\<close>): a push as the driver
  composes it of its parts. A part's error ends the push; the parts before it have run.
\<close>

section \<open>What the parts call\<close>

record push_world =
  pw_dev :: dev_env
  pw_dev_run :: dev_run
  pw_l2 :: l2_env
  pw_l2_run :: l2_run
  pw_l2_dial :: l2_dial
  pw_acl :: acl_env
  pw_batch :: batch_run
  pw_igmp_run :: igmp_run

section \<open>The parts\<close>

definition then_part :: "(string + nat) \<times> 'c \<Rightarrow> ('c \<Rightarrow> (string + nat) \<times> 'c) \<Rightarrow> (string + nat) \<times> 'c" where
  "then_part r f = (case r of
     (Inl e, c) \<Rightarrow> (Inl e, c)
   | (Inr n, c) \<Rightarrow> (case f c of (Inl e, c1) \<Rightarrow> (Inl e, c1) | (Inr m, c1) \<Rightarrow> (Inr (n + m), c1)))"

definition l2_part :: "push_world \<Rightarrow> 'a dev_col_scheme \<Rightarrow> (string + nat) \<times> 'a dev_col_scheme" where
  "l2_part w c = (case applyL2 (pw_l2 w) (pw_l2_run w) (pw_l2_dial w) c of (r, c1, notes) \<Rightarrow> (r, c1))"

definition acl_part :: "push_world \<Rightarrow> 'a dev_col_scheme \<Rightarrow> (string + nat) \<times> 'a dev_col_scheme" where
  "acl_part w c = applyACL (pw_batch w) c"

definition igmp_part :: "push_world \<Rightarrow> 'a dev_col_scheme \<Rightarrow> (string + nat) \<times> 'a dev_col_scheme" where
  "igmp_part w c = (case applyIGMP (pw_igmp_run w) c of (r, c1, notes) \<Rightarrow> (r, c1))"

section \<open>The device push\<close>

text \<open>The state the decisions are taken on is the one after the settings were written.\<close>

definition device_l2 :: "push_world \<Rightarrow> device_desired \<Rightarrow> sw_state option \<Rightarrow> 'a dev_col_scheme \<Rightarrow> (string + nat) \<times> 'a dev_col_scheme" where
  "device_l2 w d st c = (case st of None \<Rightarrow> (Inr 0, c)
   | Some s \<Rightarrow> if s_stp_feature s then (Inr 0, c) else l2_part w (c\<lparr>lc_want := l2SetSTP d (lc_want c)\<rparr>))"

definition device_acl :: "push_world \<Rightarrow> device_desired \<Rightarrow> sw_state option \<Rightarrow> 'a dev_col_scheme \<Rightarrow> (string + nat) \<times> 'a dev_col_scheme" where
  "device_acl w d st c = (case st of None \<Rightarrow> (Inr 0, c)
   | Some s \<Rightarrow> acl_part w (c\<lparr>ac_want := fst (aclSet (pw_acl w) d s)\<rparr>))"

definition device_igmp :: "push_world \<Rightarrow> device_desired \<Rightarrow> 'a dev_col_scheme \<Rightarrow> (string + nat) \<times> 'a dev_col_scheme" where
  "device_igmp w d c = igmp_part w (c\<lparr>gc_want := igmpSet d\<rparr>)"

definition sonic_ApplyDevice :: "push_world \<Rightarrow> device_desired \<Rightarrow> 'a dev_col_scheme \<Rightarrow> (string + nat) \<times> 'a dev_col_scheme" where
  "sonic_ApplyDevice w d c = (case applyDevice (pw_dev w) (pw_dev_run w) d c of
     (Inl e, c1) \<Rightarrow> (Inl e, c1)
   | (Inr n, c1) \<Rightarrow> (let st = ac_state c1 in
       then_part (then_part (then_part (Inr n, c1) (device_l2 w d st)) (device_acl w d st)) (device_igmp w d)))"

section \<open>The port push\<close>

text \<open>What the parts after the ports write is not counted.\<close>

definition uncounted :: "('c \<Rightarrow> (string + nat) \<times> 'c) \<Rightarrow> 'c \<Rightarrow> (string + nat) \<times> 'c" where
  "uncounted f c = (case f c of (Inl e, c1) \<Rightarrow> (Inl e, c1) | (Inr m, c1) \<Rightarrow> (Inr 0, c1))"

definition ports_l2 :: "push_world \<Rightarrow> port_desired list \<Rightarrow> sw_state option \<Rightarrow> 'a dev_col_scheme \<Rightarrow> (string + nat) \<times> 'a dev_col_scheme" where
  "ports_l2 w ds st c = (case st of None \<Rightarrow> (Inr 0, c)
   | Some s \<Rightarrow> if s_stp_feature s then (Inr 0, c) else l2_part w (c\<lparr>lc_want := l2SetPorts (lc_ifnames c) ds s (lc_want c)\<rparr>))"

definition sonic_ApplyPorts :: "push_world \<Rightarrow> port_desired list \<Rightarrow> 'a dev_col_scheme \<Rightarrow> (string + nat) \<times> 'a dev_col_scheme" where
  "sonic_ApplyPorts w ds c = (case applyPorts (pw_batch w) ds c of
     (Inl e, c1) \<Rightarrow> (Inl e, c1)
   | (Inr n, c1) \<Rightarrow>
       then_part (then_part (then_part (Inr n, c1) (uncounted (ports_l2 w ds (ac_state c1)))) (uncounted (acl_part w)))
         (uncounted (igmp_part w)))"

end
