(* ===== verification/Sonic_Device_Props.thy ===== *)
theory Sonic_Device_Props
  imports Sonic_Device Sonic_Igmp_Props Sonic_Rules_Props
begin

text \<open>
  The switch-wide settings of a SONiC switch: the NTP list is the controller's and is not churned, the
  SNMP community is the only one, the time zone has the pushed rule, and a push settles: the push after
  it writes nothing.
\<close>

section \<open>The parts of a push\<close>

text \<open>Each part of the plan writes with operations of its own kind, and leaves what the others write.\<close>

fun dev_kind :: "dev_op \<Rightarrow> nat" where
  "dev_kind StpEnable = 0" | "dev_kind StpDisable = 0" | "dev_kind (StpPriority p) = 0"
| "dev_kind NtpSourceDel = 1" | "dev_kind (NtpSourceSet src) = 1" | "dev_kind (NtpAdd a) = 1" | "dev_kind (NtpDel a) = 1"
| "dev_kind (SyslogAdd a p) = 2" | "dev_kind (SyslogDel a) = 2"
| "dev_kind (SnmpAdd w) = 3" | "dev_kind (SnmpDel w) = 3"
| "dev_kind (SetTimezone z) = 4" | "dev_kind (SetHostname h) = 5"

definition part :: "nat \<Rightarrow> dev_plan \<Rightarrow> dev_plan \<Rightarrow> bool" where
  "part k p p' \<longleftrightarrow> (\<exists>ops. dp_ops p' = dp_ops p @ ops \<and> dp_sim p' = fold dev_eff ops (dp_sim p) \<and> (\<forall>op \<in> set ops. dev_kind op = k))"

lemma dp_add_frame [simp]:
  "dp_sim (dp_add op p) = dev_eff op (dp_sim p)" "dp_ops (dp_add op p) = dp_ops p @ [op]" "dp_man (dp_add op p) = dp_man p"
  by (simp_all add: dp_add_def)

lemma dp_note_frame [simp]: "dp_sim (dp_note n p) = dp_sim p" "dp_ops (dp_note n p) = dp_ops p" "dp_man (dp_note n p) = dp_man p"
  by (simp_all add: dp_note_def)

lemma dp_pin_frame [simp]:
  "dp_sim (dp_pin pins p) = dp_sim p" "dp_ops (dp_pin pins p) = dp_ops p" "mg_pins (dp_man (dp_pin pins p)) = pins"
  by (simp_all add: dp_pin_def)

lemma dp_pin_same [simp]: "dp_pin (mg_pins (dp_man p)) p = p"
  by (simp add: dp_pin_def)

lemma part_same: "dp_ops p' = dp_ops p \<Longrightarrow> dp_sim p' = dp_sim p \<Longrightarrow> part k p p'"
  unfolding part_def by (rule exI[of _ "[]"]) simp

lemma part_refl [simp]: "part k p p"
  by (rule part_same) simp_all

lemma part_trans: "part k p q \<Longrightarrow> part k q r \<Longrightarrow> part k p r"
  unfolding part_def by (elim exE conjE, rule_tac x = "ops @ opsa" in exI) auto

lemma part_add: "dev_kind op = k \<Longrightarrow> part k p q \<Longrightarrow> part k p (dp_add op q)"
  unfolding part_def by (elim exE conjE, rule_tac x = "ops @ [op]" in exI) auto

lemma part_then: "part k p q \<Longrightarrow> dp_ops r = dp_ops q \<Longrightarrow> dp_sim r = dp_sim q \<Longrightarrow> part k p r"
  by (simp add: part_def)

lemma part_frame:
  assumes "part k p p'"
  shows "k \<noteq> 0 \<Longrightarrow> s_stp_global (dp_sim p') = s_stp_global (dp_sim p)" "s_stp_feature (dp_sim p') = s_stp_feature (dp_sim p)"
    "k \<noteq> 1 \<Longrightarrow> s_ntp (dp_sim p') = s_ntp (dp_sim p)" "k \<noteq> 1 \<Longrightarrow> s_ntp_global (dp_sim p') = s_ntp_global (dp_sim p)"
    "k \<noteq> 2 \<Longrightarrow> s_syslog (dp_sim p') = s_syslog (dp_sim p)" "k \<noteq> 3 \<Longrightarrow> s_snmp (dp_sim p') = s_snmp (dp_sim p)"
    "s_snmp_yml (dp_sim p') = s_snmp_yml (dp_sim p)" "s_snmp_yml_ok (dp_sim p') = s_snmp_yml_ok (dp_sim p)"
    "k \<noteq> 4 \<Longrightarrow> current_zone (dp_sim p') = current_zone (dp_sim p)"
    "k \<noteq> 5 \<Longrightarrow> mget [] (s_meta (dp_sim p')) ''hostname'' = mget [] (s_meta (dp_sim p)) ''hostname''"
    "s_ifaddrs (dp_sim p') = s_ifaddrs (dp_sim p)"
proof -
  obtain ops where ops: "dp_sim p' = fold dev_eff ops (dp_sim p)" "\<forall>op \<in> set ops. dev_kind op = k"
    using assms by (auto simp: part_def)
  have f: "(k \<noteq> 0 \<longrightarrow> s_stp_global s' = s_stp_global s) \<and> s_stp_feature s' = s_stp_feature s
      \<and> (k \<noteq> 1 \<longrightarrow> s_ntp s' = s_ntp s \<and> s_ntp_global s' = s_ntp_global s)
      \<and> (k \<noteq> 2 \<longrightarrow> s_syslog s' = s_syslog s) \<and> (k \<noteq> 3 \<longrightarrow> s_snmp s' = s_snmp s)
      \<and> s_snmp_yml s' = s_snmp_yml s \<and> s_snmp_yml_ok s' = s_snmp_yml_ok s
      \<and> (k \<noteq> 4 \<longrightarrow> current_zone s' = current_zone s)
      \<and> (k \<noteq> 5 \<longrightarrow> mget [] (s_meta s') ''hostname'' = mget [] (s_meta s) ''hostname'') \<and> s_ifaddrs s' = s_ifaddrs s"
    if "s' = fold dev_eff ops s" for s s'
    using that ops(2)
  proof (induction ops arbitrary: s)
    case (Cons op ops)
    have "dev_kind op = k" using Cons.prems(2) by simp
    with Cons.IH[of "dev_eff op s"] Cons.prems show ?case
      by (cases op) (simp_all add: current_zone_def mget_update)
  qed simp
  from f[OF ops(1)] show
    "k \<noteq> 0 \<Longrightarrow> s_stp_global (dp_sim p') = s_stp_global (dp_sim p)" "s_stp_feature (dp_sim p') = s_stp_feature (dp_sim p)"
    "k \<noteq> 1 \<Longrightarrow> s_ntp (dp_sim p') = s_ntp (dp_sim p)" "k \<noteq> 1 \<Longrightarrow> s_ntp_global (dp_sim p') = s_ntp_global (dp_sim p)"
    "k \<noteq> 2 \<Longrightarrow> s_syslog (dp_sim p') = s_syslog (dp_sim p)" "k \<noteq> 3 \<Longrightarrow> s_snmp (dp_sim p') = s_snmp (dp_sim p)"
    "s_snmp_yml (dp_sim p') = s_snmp_yml (dp_sim p)" "s_snmp_yml_ok (dp_sim p') = s_snmp_yml_ok (dp_sim p)"
    "k \<noteq> 4 \<Longrightarrow> current_zone (dp_sim p') = current_zone (dp_sim p)"
    "k \<noteq> 5 \<Longrightarrow> mget [] (s_meta (dp_sim p')) ''hostname'' = mget [] (s_meta (dp_sim p)) ''hostname''"
    "s_ifaddrs (dp_sim p') = s_ifaddrs (dp_sim p)" by simp_all
qed

lemma part_quiet: "part k p p' \<Longrightarrow> dp_ops p' = dp_ops p \<Longrightarrow> dp_sim p' = dp_sim p"
  by (auto simp: part_def)

lemma part_grows: "part k p p' \<Longrightarrow> \<exists>ops. dp_ops p' = dp_ops p @ ops"
  by (auto simp: part_def)

lemma drop_others_part: "(\<And>a. dev_kind (op a) = k) \<Longrightarrow> part k p (drop_others op want present p)"
proof -
  assume k: "\<And>a. dev_kind (op a) = k"
  have "part k p (fold (\<lambda>a. dp_add (op a)) xs q)" if "part k p q" for xs q
    using that by (induction xs arbitrary: q) (simp_all add: part_add k)
  then show ?thesis by (simp add: drop_others_def)
qed

lemma drop_others_man [simp]: "dp_man (drop_others op want present p) = dp_man p"
proof -
  have "dp_man (fold (\<lambda>a. dp_add (op a)) xs p) = dp_man p" for xs p by (induction xs arbitrary: p) simp_all
  then show ?thesis by (simp add: drop_others_def)
qed

section \<open>NTP\<close>

text \<open>The address a host is configured by, as long as its pin holds.\<close>

definition fixed_ip :: "dev_env \<Rightarrow> string \<Rightarrow> fields \<Rightarrow> string \<Rightarrow> string \<Rightarrow> bool" where
  "fixed_ip e kind pins h ip \<longleftrightarrow> de_parse e h = Some ip \<or> de_parse e h = None \<and> map_of pins (pin_key kind h) = Some ip"

lemma fixed_one: "fixed_ip e kind pins h ip \<Longrightarrow> fixed_ip e kind pins h ip' \<Longrightarrow> ip = ip'"
  by (auto simp: fixed_ip_def)

lemma pin_key_inj [simp]: "pin_key kind h = pin_key kind h' \<longleftrightarrow> h = h'"
  by (simp add: pin_key_def)

text \<open>A pinned and configured host keeps its address, whatever it would resolve to now.\<close>

lemma pinned_keeps:
  "fixed_ip e kind pins h ip \<Longrightarrow> configured ip \<Longrightarrow> pinnedIP e kind h pins configured = (Inr ip, pins)"
  by (auto simp: fixed_ip_def pinnedIP_def)

lemma pinned_fixes:
  assumes "pinnedIP e kind h pins configured = (Inr ip, pins')"
  shows "fixed_ip e kind pins' h ip" "k \<noteq> pin_key kind h \<Longrightarrow> map_of pins' k = map_of pins k"
  using assms by (auto simp: fixed_ip_def pinnedIP_def update_conv' split: option.splits if_splits sum.splits)

lemma pinned_total:
  "de_parse e h \<noteq> None \<or> \<not> isl (de_resolve e h) \<Longrightarrow> \<exists>ip pins'. pinnedIP e kind h pins configured = (Inr ip, pins')"
  by (auto simp: pinnedIP_def split: option.splits sum.splits)

lemma set_add_set [simp]: "set (set_add x xs) = insert x (set xs)"
  by (auto simp: set_add_def)

definition ntp_done :: "dev_env \<Rightarrow> string list \<Rightarrow> dev_plan \<Rightarrow> string list \<Rightarrow> bool" where
  "ntp_done e hs p want \<longleftrightarrow> set want \<subseteq> set (s_ntp (dp_sim p))
     \<and> (\<forall>h \<in> set hs. \<exists>ip \<in> set want. fixed_ip e ''ntp'' (mg_pins (dp_man p)) h ip)
     \<and> (\<forall>ip \<in> set want. \<exists>h \<in> set hs. fixed_ip e ''ntp'' (mg_pins (dp_man p)) h ip)"

definition resolves :: "dev_env \<Rightarrow> string list \<Rightarrow> bool" where
  "resolves e hs \<longleftrightarrow> (\<forall>h \<in> set hs. de_parse e h \<noteq> None \<or> \<not> isl (de_resolve e h))"

lemma ntp_host_done:
  assumes "ntp_done e hs p want" "de_parse e h \<noteq> None \<or> \<not> isl (de_resolve e h)" "ntp_host e h (p, want) = (p', want')"
  shows "ntp_done e (hs @ [h]) p' want'"
proof -
  let ?cfg = "\<lambda>ip. ip \<in> set (s_ntp (dp_sim p))"
  obtain ip pins where pin: "pinnedIP e ''ntp'' h (mg_pins (dp_man p)) ?cfg = (Inr ip, pins)"
    using pinned_total[OF assms(2)] by blast
  have want': "set want' = insert ip (set want)" and pins': "mg_pins (dp_man p') = pins"
    and ntp: "set (s_ntp (dp_sim p')) = insert ip (set (s_ntp (dp_sim p)))"
    using assms(3) pin by (auto simp: ntp_host_def split: if_splits)
  note fx = pinned_fixes[OF pin]
  have keep: "fixed_ip e ''ntp'' pins h' i" if "fixed_ip e ''ntp'' (mg_pins (dp_man p)) h' i" "?cfg i" for h' i
  proof (cases "h' = h")
    case True
    with pinned_keeps[OF that(1), of ?cfg] that(2) pin that(1) show ?thesis by simp
  next
    case False
    with that(1) fx(2)[of "pin_key ''ntp'' h'"] show ?thesis by (simp add: fixed_ip_def)
  qed
  show ?thesis
    unfolding ntp_done_def want' pins' ntp
  proof (intro conjI ballI)
    show "insert ip (set want) \<subseteq> insert ip (set (s_ntp (dp_sim p)))" using assms(1) unfolding ntp_done_def by blast
    show "\<exists>i \<in> insert ip (set want). fixed_ip e ''ntp'' pins h' i" if "h' \<in> set (hs @ [h])" for h'
    proof (cases "h' \<in> set hs")
      case True
      then obtain i where "i \<in> set want" "fixed_ip e ''ntp'' (mg_pins (dp_man p)) h' i" "?cfg i"
        using assms(1) unfolding ntp_done_def by blast
      then show ?thesis using keep by blast
    qed (use that fx(1) in auto)
    show "\<exists>h' \<in> set (hs @ [h]). fixed_ip e ''ntp'' pins h' i" if "i \<in> insert ip (set want)" for i
    proof (cases "i = ip")
      case False
      with that obtain h' where "h' \<in> set hs" "fixed_ip e ''ntp'' (mg_pins (dp_man p)) h' i" "?cfg i"
        using assms(1) unfolding ntp_done_def by blast
      then show ?thesis using keep by auto
    qed (use fx(1) in auto)
  qed
qed

lemma ntp_hosts_done:
  "resolves e hs \<Longrightarrow> ntp_done e ds p want \<Longrightarrow> fold (ntp_host e) hs (p, want) = (p', want') \<Longrightarrow> ntp_done e (ds @ hs) p' want'"
proof (induction hs arbitrary: ds p want)
  case (Cons h hs)
  obtain p1 w1 where one: "ntp_host e h (p, want) = (p1, w1)" by fastforce
  have "ntp_done e (ds @ [h]) p1 w1" by (rule ntp_host_done[OF Cons.prems(2) _ one]) (use Cons.prems(1) in \<open>simp add: resolves_def\<close>)
  with Cons.IH[of "ds @ [h]" p1 w1] Cons.prems one show ?case by (simp add: resolves_def)
qed simp

lemma drop_others_ntp:
  "set (s_ntp (dp_sim (drop_others NtpDel want present p))) = set (s_ntp (dp_sim p)) - (set present - set want)"
  "dp_man (drop_others NtpDel want present p) = dp_man p"
proof -
  have a: "set (s_ntp (dp_sim (fold (\<lambda>a. dp_add (NtpDel a)) xs p))) = set (s_ntp (dp_sim p)) - set xs
      \<and> dp_man (fold (\<lambda>a. dp_add (NtpDel a)) xs p) = dp_man p" for xs p
    by (induction xs arbitrary: p) auto
  show "set (s_ntp (dp_sim (drop_others NtpDel want present p))) = set (s_ntp (dp_sim p)) - (set present - set want)"
    "dp_man (drop_others NtpDel want present p) = dp_man p"
    using a by (auto simp: drop_others_def)
qed

lemma drop_none: "set present \<subseteq> set want \<Longrightarrow> drop_others op want present p = p"
proof -
  assume "set present \<subseteq> set want"
  then have "filter (\<lambda>a. a \<notin> set want) (remdups present) = []" by (auto simp: filter_empty_conv)
  then show ?thesis by (simp add: drop_others_def)
qed

lemma dropped_pin: "h \<in> set hosts \<Longrightarrow> map_of (dropPins kind hosts pins) (pin_key kind h) = map_of pins (pin_key kind h)"
  unfolding dropPins_def by (induction pins) auto

text \<open>With every host fixed and configured, the hosts are walked without a write.\<close>

lemma ntp_walk:
  assumes "\<And>h. h \<in> set hs \<Longrightarrow> \<exists>ip \<in> set (s_ntp (dp_sim p)). fixed_ip e ''ntp'' (mg_pins (dp_man p)) h ip"
  shows "\<exists>w. fold (ntp_host e) hs (p, want) = (p, w)
    \<and> set w = set want \<union> {ip. \<exists>h \<in> set hs. fixed_ip e ''ntp'' (mg_pins (dp_man p)) h ip}"
  using assms
proof (induction hs arbitrary: want)
  case (Cons h hs)
  let ?pins = "mg_pins (dp_man p)"
  from Cons.prems[of h] obtain ip where ip: "ip \<in> set (s_ntp (dp_sim p))" "fixed_ip e ''ntp'' ?pins h ip" by auto
  from pinned_keeps[OF ip(2), of "\<lambda>ip. ip \<in> set (s_ntp (dp_sim p))"] ip(1)
  have one: "ntp_host e h (p, want) = (p, set_add ip want)" by (simp add: ntp_host_def)
  have only: "fixed_ip e ''ntp'' ?pins h i \<longleftrightarrow> i = ip" for i using fixed_one ip(2) by blast
  from Cons.IH[of "set_add ip want"] Cons.prems one only show ?case by auto
qed simp

lemma source_result:
  assumes "s_ntp_global (dp_sim p) = Some g" "src \<noteq> []"
  shows "has_prefix ''Vlan'' src \<Longrightarrow> s_ntp_global (dp_sim (dev_ntp_source src p)) = Some (if map_of g ''src_intf'' = None then g else AList.delete ''src_intf'' g)"
    and "\<not> has_prefix ''Vlan'' src \<Longrightarrow> s_ntp_global (dp_sim (dev_ntp_source src p)) = Some (if mget [] g ''src_intf'' = src then g else AList.update ''src_intf'' src g)"
  using assms by (simp_all add: dev_ntp_source_def)

lemma source_quiet:
  assumes "s_ntp_global (dp_sim p) = Some g"
    and "src = [] \<or> (if has_prefix ''Vlan'' src then map_of g ''src_intf'' = None else mget [] g ''src_intf'' = src)"
  shows "dev_ntp_source src p = p"
proof -
  have "dev_ntp_source src p = (if src = [] then p
     else if has_prefix ''Vlan'' src then (if map_of g ''src_intf'' \<noteq> None then dp_add NtpSourceDel p else p)
     else if mget [] g ''src_intf'' \<noteq> src then dp_add (NtpSourceSet src) p else p)"
    unfolding dev_ntp_source_def assms(1) option.case ..
  with assms(2) show ?thesis by (simp only: if_True if_False split: if_splits) blast+
qed

lemma source_again:
  assumes "s_ntp_global (dp_sim p') = s_ntp_global (dp_sim (dev_ntp_source src p))"
  shows "dev_ntp_source src p' = p'"
proof (cases "s_ntp_global (dp_sim p) = None \<or> src = []")
  case True
  then show ?thesis
  proof
    assume "s_ntp_global (dp_sim p) = None"
    then have "s_ntp_global (dp_sim p') = None" unfolding assms by (simp add: dev_ntp_source_def)
    then show ?thesis by (simp add: dev_ntp_source_def)
  qed (simp add: dev_ntp_source_def split: option.split)
next
  case False
  then obtain g where g: "s_ntp_global (dp_sim p) = Some g" and src: "src \<noteq> []" by auto
  show ?thesis
  proof (cases "has_prefix ''Vlan'' src")
    case True
    show ?thesis
      by (rule source_quiet[OF trans[OF assms source_result(1)[OF g src True]]]) (simp add: True delete_conv')
  next
    case False
    show ?thesis
      by (rule source_quiet[OF trans[OF assms source_result(2)[OF g src False]]]) (simp add: False mget_update)
  qed
qed

lemma source_frame: "s_ntp (dp_sim (dev_ntp_source src p)) = s_ntp (dp_sim p)" "dp_man (dev_ntp_source src p) = dp_man p"
  by (auto simp: dev_ntp_source_def split: option.splits)

lemma hosts_global: "s_ntp_global (dp_sim (fst (fold (ntp_host e) hs acc))) = s_ntp_global (dp_sim (fst acc))"
proof (induction hs arbitrary: acc)
  case (Cons h hs)
  have "s_ntp_global (dp_sim (fst (ntp_host e h acc))) = s_ntp_global (dp_sim (fst acc))"
    by (auto simp: ntp_host_def dp_note_def split: prod.splits sum.splits)
  with Cons show ?case by simp
qed simp

lemma drop_global: "s_ntp_global (dp_sim (drop_others NtpDel want present p)) = s_ntp_global (dp_sim p)"
proof -
  have "s_ntp_global (dp_sim (fold (\<lambda>a. dp_add (NtpDel a)) xs p)) = s_ntp_global (dp_sim p)" for xs p
    by (induction xs arbitrary: p) simp_all
  then show ?thesis by (simp add: drop_others_def)
qed

lemma dropped_other: "\<not> has_prefix (kind @ ''|'') k \<Longrightarrow> map_of (dropPins kind hosts pins) k = map_of pins k"
  unfolding dropPins_def by (induction pins) auto

lemma other_kind: "\<not> has_prefix (''ntp'' @ ''|'') (pin_key ''syslog'' h)" "\<not> has_prefix (''syslog'' @ ''|'') (pin_key ''ntp'' h)"
  "pin_key ''ntp'' h \<noteq> pin_key ''syslog'' h'" "pin_key ''syslog'' h' \<noteq> pin_key ''ntp'' h"
  by (simp_all add: pin_key_def has_prefix_def strip_prefix_def)

lemma ntp_hosts_part: "part 1 (fst acc) (fst (fold (ntp_host e) hs acc))"
proof (induction hs arbitrary: acc)
  case (Cons h hs)
  have "part 1 (fst acc) (fst (ntp_host e h acc))"
    by (auto simp: ntp_host_def part_def split: prod.splits sum.splits)
  with Cons part_trans show ?case by fastforce
qed simp

lemma ntp_source_part: "part 1 p (dev_ntp_source src p)"
  by (auto simp: dev_ntp_source_def intro: part_add split: option.split)

lemma ntp_part: "part 1 p (dev_ntp e src d p)"
proof (cases "dd_manage_ntp d")
  case True
  obtain p1 want where f: "fold (ntp_host e) (dd_ntp d) (dev_ntp_source src p, []) = (p1, want)" by fastforce
  have "part 1 p p1" by (rule part_trans[OF ntp_source_part]) (use ntp_hosts_part[of "(dev_ntp_source src p, [])" e "dd_ntp d"] f in \<open>simp\<close>)
  then have "part 1 p (drop_others NtpDel want (s_ntp (dp_sim p1)) p1)" by (rule part_trans) (rule drop_others_part, simp)
  then show ?thesis using True f by (auto simp: dev_ntp_def Let_def elim: part_then)
qed (simp add: dev_ntp_def)

lemma ntp_pins_frame: "map_of (mg_pins (dp_man (dev_ntp e src d p))) (pin_key ''syslog'' h) = map_of (mg_pins (dp_man p)) (pin_key ''syslog'' h)"
proof -
  have f: "map_of (mg_pins (dp_man (fst (fold (ntp_host e) hs acc)))) (pin_key ''syslog'' h) = map_of (mg_pins (dp_man (fst acc))) (pin_key ''syslog'' h)" for hs acc
  proof (induction hs arbitrary: acc)
    case (Cons x hs)
    have "map_of (mg_pins (dp_man (fst (ntp_host e x acc)))) (pin_key ''syslog'' h) = map_of (mg_pins (dp_man (fst acc))) (pin_key ''syslog'' h)"
      by (auto simp: ntp_host_def pinnedIP_def other_kind delete_conv' split: prod.splits sum.splits option.splits if_splits)
    with Cons show ?case by simp
  qed simp
  show ?thesis
    using f[of "dd_ntp d" "(dev_ntp_source src p, [])"]
    by (auto simp: dev_ntp_def Let_def source_frame dropped_other[OF other_kind(1)] split: prod.split)
qed

text \<open>The list is what the servers stand for, and the part is quiet wherever its own settings are as it left them.\<close>

lemma ntp_settled:
  assumes "dd_manage_ntp d" "resolves e (dd_ntp d)" "p' = dev_ntp e src d p"
  shows "set (s_ntp (dp_sim p')) = {ip. \<exists>h \<in> set (dd_ntp d). fixed_ip e ''ntp'' (mg_pins (dp_man p')) h ip}"
    and "\<forall>h \<in> set (dd_ntp d). \<exists>ip \<in> set (s_ntp (dp_sim p')). fixed_ip e ''ntp'' (mg_pins (dp_man p')) h ip"
    and "s_ntp_global (dp_sim p') = s_ntp_global (dp_sim (dev_ntp_source src p))"
proof -
  obtain p1 want where f: "fold (ntp_host e) (dd_ntp d) (dev_ntp_source src p, []) = (p1, want)" by fastforce
  have d1: "ntp_done e (dd_ntp d) p1 want"
    using ntp_hosts_done[OF assms(2) _ f, of "[]"] by (simp add: ntp_done_def)
  let ?p2 = "drop_others NtpDel want (s_ntp (dp_sim p1)) p1"
  let ?pins = "dropPins ''ntp'' (dd_ntp d) (mg_pins (dp_man p1))"
  have p': "p' = ?p2\<lparr>dp_man := (dp_man p1)\<lparr>mg_ntp := want, mg_pins := ?pins\<rparr>\<rparr>"
    using assms(1,3) f by (simp add: dev_ntp_def Let_def drop_others_ntp)
  have ntp: "set (s_ntp (dp_sim p')) = set want" using d1 unfolding p' by (auto simp: drop_others_ntp ntp_done_def)
  have fx: "fixed_ip e ''ntp'' (mg_pins (dp_man p')) h ip \<longleftrightarrow> fixed_ip e ''ntp'' (mg_pins (dp_man p1)) h ip"
    if "h \<in> set (dd_ntp d)" for h ip
    using dropped_pin[OF that] by (simp add: fixed_ip_def p')
  show "\<forall>h \<in> set (dd_ntp d). \<exists>ip \<in> set (s_ntp (dp_sim p')). fixed_ip e ''ntp'' (mg_pins (dp_man p')) h ip"
    using d1 fx unfolding ntp ntp_done_def by blast
  show "set (s_ntp (dp_sim p')) = {ip. \<exists>h \<in> set (dd_ntp d). fixed_ip e ''ntp'' (mg_pins (dp_man p')) h ip}"
    using d1 fixed_one unfolding ntp ntp_done_def by (auto simp: fx) (metis fixed_one)
  show "s_ntp_global (dp_sim p') = s_ntp_global (dp_sim (dev_ntp_source src p))"
    using hosts_global[of e "dd_ntp d" "(dev_ntp_source src p, [])"] f by (simp add: p' drop_global)
qed

lemma ntp_again:
  assumes "resolves e (dd_ntp d)" "p' = dev_ntp e src d p" "de_parse e' = de_parse e"
    and "s_ntp (dp_sim q) = s_ntp (dp_sim p')" "s_ntp_global (dp_sim q) = s_ntp_global (dp_sim p')"
    and "\<forall>h. map_of (mg_pins (dp_man q)) (pin_key ''ntp'' h) = map_of (mg_pins (dp_man p')) (pin_key ''ntp'' h)"
  shows "dp_ops (dev_ntp e' src d q) = dp_ops q"
proof (cases "dd_manage_ntp d")
  case True
  note s = ntp_settled[OF True assms(1,2)]
  have fx: "fixed_ip e' ''ntp'' (mg_pins (dp_man q)) = fixed_ip e ''ntp'' (mg_pins (dp_man p'))"
    by (intro ext) (simp add: fixed_ip_def assms(3,6))
  have src: "dev_ntp_source src q = q" by (rule source_again[of q src p]) (simp add: assms(5) s(3))
  have "\<exists>w. fold (ntp_host e') (dd_ntp d) (q, []) = (q, w)
      \<and> set w = set [] \<union> {ip. \<exists>h \<in> set (dd_ntp d). fixed_ip e' ''ntp'' (mg_pins (dp_man q)) h ip}"
    by (rule ntp_walk) (use s(2) in \<open>simp add: assms(4) fx\<close>)
  then obtain w where w: "fold (ntp_host e') (dd_ntp d) (q, []) = (q, w)" "set w = set (s_ntp (dp_sim q))"
    using s(1) by (auto simp: assms(4) fx)
  then show ?thesis using True drop_none[of "s_ntp (dp_sim q)" w] by (simp add: dev_ntp_def src)
qed (simp add: dev_ntp_def)

section \<open>Syslog\<close>

definition port_at :: "fields \<Rightarrow> string \<Rightarrow> string option" where
  "port_at m ip = map_option (\<lambda>cur. if cur = [] then ''514'' else cur) (map_of m ip)"

abbreviation log_host :: "dev_env \<Rightarrow> string \<Rightarrow> string" where "log_host e h \<equiv> fst (host_port e h)"
abbreviation log_port :: "dev_env \<Rightarrow> string \<Rightarrow> string" where "log_port e h \<equiv> snd (host_port e h)"

definition log_done :: "dev_env \<Rightarrow> string list \<Rightarrow> dev_plan \<Rightarrow> string list \<Rightarrow> bool" where
  "log_done e hs p want \<longleftrightarrow> (\<forall>ip \<in> set want. map_of (s_syslog (dp_sim p)) ip \<noteq> None)
     \<and> (\<forall>h \<in> set hs. \<exists>ip \<in> set want. fixed_ip e ''syslog'' (mg_pins (dp_man p)) (log_host e h) ip)
     \<and> (\<forall>ip \<in> set want. \<exists>h \<in> set hs. fixed_ip e ''syslog'' (mg_pins (dp_man p)) (log_host e h) ip
           \<and> port_at (s_syslog (dp_sim p)) ip = Some (log_port e h))"

lemma syslog_write_eff:
  assumes "port \<noteq> []"
  shows "port_at (s_syslog (dp_sim (syslog_write ip port p))) ip = Some port"
    and "k \<noteq> ip \<Longrightarrow> map_of (s_syslog (dp_sim (syslog_write ip port p))) k = map_of (s_syslog (dp_sim p)) k"
    and "map_of (s_syslog (dp_sim (syslog_write ip port p))) ip \<noteq> None"
    and "dp_man (syslog_write ip port p) = dp_man p"
  using assms by (auto simp: syslog_write_def port_at_def delete_conv' split: option.splits)

lemma syslog_write_part: "part 2 p (syslog_write ip port p)"
  by (simp add: syslog_write_def part_add split: option.split)

lemma syslog_host_done:
  assumes "log_done e hs p want" "de_parse e (log_host e h) \<noteq> None \<or> \<not> isl (de_resolve e (log_host e h))" "log_port e h \<noteq> []"
    "syslog_host e h (p, want) = (p', want')"
  shows "log_done e (hs @ [h]) p' want'"
proof -
  let ?cfg = "\<lambda>ip. map_of (s_syslog (dp_sim p)) ip \<noteq> None"
  obtain ip pins where pin: "pinnedIP e ''syslog'' (log_host e h) (mg_pins (dp_man p)) ?cfg = (Inr ip, pins)"
    using pinned_total[OF assms(2)] by blast
  have want': "set want' = insert ip (set want)" and p': "p' = syslog_write ip (log_port e h) (dp_pin pins p)"
    using assms(4) pin by (auto simp: syslog_host_def)
  note w = syslog_write_eff[OF assms(3), where ip = ip and p = "dp_pin pins p", folded p', simplified]
  note fx = pinned_fixes[OF pin]
  have keep: "fixed_ip e ''syslog'' pins h' i" if "fixed_ip e ''syslog'' (mg_pins (dp_man p)) h' i" "?cfg i" for h' i
  proof (cases "h' = log_host e h")
    case True
    with pinned_keeps[OF that(1), of ?cfg] that(2) pin that(1) show ?thesis by simp
  next
    case False
    with that(1) fx(2)[of "pin_key ''syslog'' h'"] show ?thesis by (simp add: fixed_ip_def)
  qed
  have pins': "mg_pins (dp_man p') = pins" using w(4) by simp
  have at: "port_at (s_syslog (dp_sim p')) i = port_at (s_syslog (dp_sim p)) i" if "i \<noteq> ip" for i
    using w(2)[OF that] by (simp add: port_at_def)
  have dom: "?cfg i \<Longrightarrow> map_of (s_syslog (dp_sim p')) i \<noteq> None" for i using w(2)[of i] w(3) by (cases "i = ip") auto
  have old: "\<exists>h' \<in> set (hs @ [h]). fixed_ip e ''syslog'' pins (log_host e h') i \<and> port_at (s_syslog (dp_sim p')) i = Some (log_port e h')"
    if "i \<in> set want'" for i
  proof (cases "i = ip")
    case True
    then show ?thesis using fx(1) w(1) by auto
  next
    case False
    with that want' have i: "i \<in> set want" by auto
    then obtain h' where h': "h' \<in> set hs" "fixed_ip e ''syslog'' (mg_pins (dp_man p)) (log_host e h') i"
      "port_at (s_syslog (dp_sim p)) i = Some (log_port e h')" using assms(1) unfolding log_done_def by blast
    from i have "?cfg i" using assms(1) unfolding log_done_def by blast
    from keep[OF h'(2) this] h'(1,3) at[OF False] show ?thesis by auto
  qed
  show ?thesis unfolding log_done_def pins'
  proof (intro conjI ballI)
    show "map_of (s_syslog (dp_sim p')) i \<noteq> None" if "i \<in> set want'" for i
    proof (cases "i = ip")
      case False
      with that want' have "i \<in> set want" by simp
      then have "?cfg i" using assms(1) unfolding log_done_def by blast
      then show ?thesis by (rule dom)
    qed (use w(3) in simp)
    show "\<exists>i \<in> set want'. fixed_ip e ''syslog'' pins (log_host e h') i" if "h' \<in> set (hs @ [h])" for h'
    proof (cases "h' \<in> set hs")
      case True
      then obtain i where i: "i \<in> set want" "fixed_ip e ''syslog'' (mg_pins (dp_man p)) (log_host e h') i"
        using assms(1) unfolding log_done_def by blast
      then have "?cfg i" using assms(1) unfolding log_done_def by blast
      from keep[OF i(2) this] i(1) want' show ?thesis by auto
    next
      case False
      then show ?thesis using that want' fx(1) by auto
    qed
    show "\<exists>h' \<in> set (hs @ [h]). fixed_ip e ''syslog'' pins (log_host e h') i \<and> port_at (s_syslog (dp_sim p')) i = Some (log_port e h')"
      if "i \<in> set want'" for i by (rule old[OF that])
  qed
qed

lemma syslog_hosts_done:
  "resolves e (map (log_host e) hs) \<Longrightarrow> \<forall>h \<in> set hs. log_port e h \<noteq> [] \<Longrightarrow> log_done e ds p want
    \<Longrightarrow> fold (syslog_host e) hs (p, want) = (p', want') \<Longrightarrow> log_done e (ds @ hs) p' want'"
proof (induction hs arbitrary: ds p want)
  case (Cons h hs)
  obtain p1 w1 where one: "syslog_host e h (p, want) = (p1, w1)" by fastforce
  have "log_done e (ds @ [h]) p1 w1"
    by (rule syslog_host_done[OF Cons.prems(3) _ _ one]) (use Cons.prems(1,2) in \<open>simp_all add: resolves_def\<close>)
  with Cons.IH[of "ds @ [h]" p1 w1] Cons.prems one show ?case by (simp add: resolves_def)
qed simp

lemma drop_others_syslog:
  "map_of (s_syslog (dp_sim (drop_others SyslogDel want present p))) ip
    = (if ip \<in> set present - set want then None else map_of (s_syslog (dp_sim p)) ip)"
proof -
  have "map_of (s_syslog (dp_sim (fold (\<lambda>a. dp_add (SyslogDel a)) xs p))) ip = (if ip \<in> set xs then None else map_of (s_syslog (dp_sim p)) ip)" for xs p
    by (induction xs arbitrary: p) (auto simp: delete_conv')
  then show ?thesis by (auto simp: drop_others_def)
qed

lemma syslog_walk:
  assumes "\<And>h. h \<in> set hs \<Longrightarrow> \<exists>ip. fixed_ip e ''syslog'' (mg_pins (dp_man p)) (log_host e h) ip
      \<and> port_at (s_syslog (dp_sim p)) ip = Some (log_port e h)"
  shows "\<exists>w. fold (syslog_host e) hs (p, want) = (p, w)
    \<and> set w = set want \<union> {ip. \<exists>h \<in> set hs. fixed_ip e ''syslog'' (mg_pins (dp_man p)) (log_host e h) ip}"
  using assms
proof (induction hs arbitrary: want)
  case (Cons h hs)
  let ?pins = "mg_pins (dp_man p)"
  from Cons.prems[of h] obtain ip where ip: "fixed_ip e ''syslog'' ?pins (log_host e h) ip" "port_at (s_syslog (dp_sim p)) ip = Some (log_port e h)" by auto
  from ip(2) have c: "map_of (s_syslog (dp_sim p)) ip \<noteq> None" by (auto simp: port_at_def)
  have still: "syslog_write ip (log_port e h) p = p" using ip(2) by (auto simp: syslog_write_def port_at_def)
  from pinned_keeps[OF ip(1), of "\<lambda>ip. map_of (s_syslog (dp_sim p)) ip \<noteq> None"] c still
  have one: "syslog_host e h (p, want) = (p, set_add ip want)" by (simp add: syslog_host_def)
  have only: "fixed_ip e ''syslog'' ?pins (log_host e h) i \<longleftrightarrow> i = ip" for i using fixed_one ip(1) by blast
  from Cons.IH[of "set_add ip want"] Cons.prems one only show ?case by auto
qed simp

text \<open>Hosts whose messages can all be sent: a port each, and one port for one address.\<close>

definition one_port :: "dev_env \<Rightarrow> string list \<Rightarrow> fields \<Rightarrow> bool" where
  "one_port e hs pins \<longleftrightarrow> (\<forall>h \<in> set hs. log_port e h \<noteq> [])
     \<and> (\<forall>h \<in> set hs. \<forall>h' \<in> set hs. \<forall>ip. fixed_ip e ''syslog'' pins (log_host e h) ip \<and> fixed_ip e ''syslog'' pins (log_host e h') ip
          \<longrightarrow> log_port e h = log_port e h')"

lemma syslog_hosts_part: "part 2 (fst acc) (fst (fold (syslog_host e) hs acc))"
proof (induction hs arbitrary: acc)
  case (Cons h hs)
  have "part 2 p (syslog_write ip port (dp_pin pins p))" for ip port pins p
    by (rule part_trans[OF part_same syslog_write_part]) simp_all
  then have "part 2 (fst acc) (fst (syslog_host e h acc))"
    by (auto simp: syslog_host_def part_same split: prod.splits sum.splits)
  with Cons part_trans show ?case by fastforce
qed simp

lemma syslog_part: "part 2 p (dev_syslog e d p)"
proof (cases "dd_manage_syslog d")
  case True
  obtain p1 want where f: "fold (syslog_host e) (dd_syslog d) (p, []) = (p1, want)" by fastforce
  have "part 2 p p1" using syslog_hosts_part[of "(p, [])" e "dd_syslog d"] f by simp
  then have "part 2 p (drop_others SyslogDel want (map fst (s_syslog (dp_sim p1))) p1)"
    by (rule part_trans) (rule drop_others_part, simp)
  then show ?thesis using True f by (auto simp: dev_syslog_def Let_def elim: part_then)
qed (simp add: dev_syslog_def)

lemma syslog_pins_frame: "map_of (mg_pins (dp_man (dev_syslog e d p))) (pin_key ''ntp'' h) = map_of (mg_pins (dp_man p)) (pin_key ''ntp'' h)"
proof -
  have w: "dp_man (syslog_write ip port q) = dp_man q" for ip port q
    by (simp add: syslog_write_def split: option.split)
  have f: "map_of (mg_pins (dp_man (fst (fold (syslog_host e) hs acc)))) (pin_key ''ntp'' h) = map_of (mg_pins (dp_man (fst acc))) (pin_key ''ntp'' h)" for hs acc
  proof (induction hs arbitrary: acc)
    case (Cons x hs)
    have "map_of (mg_pins (dp_man (fst (syslog_host e x acc)))) (pin_key ''ntp'' h) = map_of (mg_pins (dp_man (fst acc))) (pin_key ''ntp'' h)"
      by (auto simp: syslog_host_def pinnedIP_def w other_kind delete_conv' split: prod.splits sum.splits option.splits if_splits)
    with Cons show ?case by simp
  qed simp
  show ?thesis
    using f[of "dd_syslog d" "(p, [])"]
    by (auto simp: dev_syslog_def Let_def dropped_other[OF other_kind(2)] split: prod.split)
qed

lemma syslog_again:
  assumes "resolves e (map (log_host e) (dd_syslog d))" "p' = dev_syslog e d p" "one_port e (dd_syslog d) (mg_pins (dp_man p'))"
    and "de_parse e' = de_parse e" "de_split e' = de_split e" "s_syslog (dp_sim q) = s_syslog (dp_sim p')"
    and "\<forall>h. map_of (mg_pins (dp_man q)) (pin_key ''syslog'' h) = map_of (mg_pins (dp_man p')) (pin_key ''syslog'' h)"
  shows "dp_ops (dev_syslog e' d q) = dp_ops q"
proof (cases "dd_manage_syslog d")
  case True
  obtain p1 want where f: "fold (syslog_host e) (dd_syslog d) (p, []) = (p1, want)" by fastforce
  let ?p2 = "drop_others SyslogDel want (map fst (s_syslog (dp_sim p1))) p1"
  let ?hosts = "map (log_host e) (dd_syslog d)"
  have ports: "\<forall>h \<in> set (dd_syslog d). log_port e h \<noteq> []" using assms(3) by (simp add: one_port_def)
  have d1: "log_done e (dd_syslog d) p1 want"
    using syslog_hosts_done[OF assms(1) ports _ f, of "[]"] by (simp add: log_done_def)
  have p': "p' = ?p2\<lparr>dp_man := (dp_man p1)\<lparr>mg_syslog := want, mg_pins := dropPins ''syslog'' ?hosts (mg_pins (dp_man p1))\<rparr>\<rparr>"
    using True assms(2) f by (simp add: dev_syslog_def Let_def)
  have fx: "fixed_ip e ''syslog'' (mg_pins (dp_man p')) (log_host e h) ip \<longleftrightarrow> fixed_ip e ''syslog'' (mg_pins (dp_man p1)) (log_host e h) ip"
    if "h \<in> set (dd_syslog d)" for h ip
    using that dropped_pin[of "log_host e h" ?hosts] by (simp add: fixed_ip_def p')
  have at: "map_of (s_syslog (dp_sim p')) ip = (if ip \<in> set want then map_of (s_syslog (dp_sim p1)) ip else None)" for ip
    using map_of_eq_None_iff[of "s_syslog (dp_sim p1)" ip] by (auto simp: p' drop_others_syslog)
  have hp: "host_port e' = host_port e" by (intro ext) (simp add: host_port_def assms(5))
  have fx': "fixed_ip e' ''syslog'' (mg_pins (dp_man q)) = fixed_ip e ''syslog'' (mg_pins (dp_man p'))"
    by (intro ext) (simp add: fixed_ip_def assms(4,7))
  have ready: "\<exists>ip \<in> set want. fixed_ip e ''syslog'' (mg_pins (dp_man p')) (log_host e h) ip \<and> port_at (s_syslog (dp_sim p')) ip = Some (log_port e h)"
    if h: "h \<in> set (dd_syslog d)" for h
  proof -
    from d1 h obtain ip where ip: "ip \<in> set want" "fixed_ip e ''syslog'' (mg_pins (dp_man p1)) (log_host e h) ip"
      unfolding log_done_def by blast
    from d1 ip(1) obtain h' where h': "h' \<in> set (dd_syslog d)" "fixed_ip e ''syslog'' (mg_pins (dp_man p1)) (log_host e h') ip"
      "port_at (s_syslog (dp_sim p1)) ip = Some (log_port e h')" unfolding log_done_def by blast
    have f: "fixed_ip e ''syslog'' (mg_pins (dp_man p')) (log_host e h) ip" "fixed_ip e ''syslog'' (mg_pins (dp_man p')) (log_host e h') ip"
      using ip(2) h'(2) fx[OF h] fx[OF h'(1)] by simp_all
    then have "log_port e h = log_port e h'" using assms(3) h h'(1) unfolding one_port_def by blast
    moreover have "port_at (s_syslog (dp_sim p')) ip = port_at (s_syslog (dp_sim p1)) ip" using ip(1) at[of ip] by (simp add: port_at_def)
    ultimately show ?thesis using ip(1) f(1) h'(3) by (intro bexI[of _ ip]) simp_all
  qed
  have "\<exists>w. fold (syslog_host e') (dd_syslog d) (q, []) = (q, w)
      \<and> set w = set [] \<union> {ip. \<exists>h \<in> set (dd_syslog d). fixed_ip e' ''syslog'' (mg_pins (dp_man q)) (log_host e' h) ip}"
    by (rule syslog_walk) (use ready in \<open>unfold fx' assms(6) hp, blast\<close>)
  then obtain w where w: "fold (syslog_host e') (dd_syslog d) (q, []) = (q, w)"
    "set w = {ip. \<exists>h \<in> set (dd_syslog d). fixed_ip e ''syslog'' (mg_pins (dp_man p')) (log_host e h) ip}"
    unfolding fx' hp by auto
  have "set (map fst (s_syslog (dp_sim q))) \<subseteq> set w"
  proof
    fix ip assume "ip \<in> set (map fst (s_syslog (dp_sim q)))"
    then have "map_of (s_syslog (dp_sim p')) ip \<noteq> None" by (simp add: assms(6) map_of_eq_None_iff)
    then have "ip \<in> set want" using at[of ip] by presburger
    then obtain h where "h \<in> set (dd_syslog d)" "fixed_ip e ''syslog'' (mg_pins (dp_man p1)) (log_host e h) ip"
      using d1 unfolding log_done_def by blast
    then show "ip \<in> set w" using fx unfolding w(2) by blast
  qed
  then show ?thesis using True w(1) drop_none[of "map fst (s_syslog (dp_sim q))" w] by (simp add: dev_syslog_def)
qed (simp add: dev_syslog_def)

section \<open>SNMP\<close>

lemma drop_others_snmp:
  "set (s_snmp (dp_sim (drop_others SnmpDel want present p))) = set (s_snmp (dp_sim p)) - (set present - set want)"
proof -
  have "set (s_snmp (dp_sim (fold (\<lambda>a. dp_add (SnmpDel a)) xs p))) = set (s_snmp (dp_sim p)) - set xs" for xs p
    by (induction xs arbitrary: p) auto
  then show ?thesis by (auto simp: drop_others_def)
qed

text \<open>The part of CONFIG_DB, after snmp.yml's.\<close>

definition snmp_start :: "device_desired \<Rightarrow> dev_plan \<Rightarrow> dev_plan" where
  "snmp_start d p = (if \<not> dd_snmp_set d then p else p\<lparr>dp_sim := without_yml (yml_drop d (dp_sim p)) (dp_sim p)\<rparr>)"

lemma snmp_part: "part 3 (snmp_start d p) (dev_snmp d p)"
proof (cases "dd_snmp_set d")
  case True
  let ?want = "dd_snmp_community d"
  let ?p1 = "if s_snmp_yml_ok (dp_sim p) then p else dp_note SnmpYmlUnread p"
  let ?p2 = "?p1\<lparr>dp_sim := without_yml (yml_drop d (dp_sim ?p1)) (dp_sim ?p1)\<rparr>"
  let ?p3 = "if ?want \<noteq> [] \<and> ?want \<notin> set (s_snmp (dp_sim ?p2)) then dp_add (SnmpAdd ?want) ?p2 else ?p2"
  have "part 3 (snmp_start d p) ?p2" by (rule part_same) (simp_all add: snmp_start_def True)
  then have "part 3 (snmp_start d p) ?p3" by (simp add: part_add)
  then have "part 3 (snmp_start d p) (drop_others SnmpDel [?want] (s_snmp (dp_sim ?p3)) ?p3)"
    by (rule part_trans) (rule drop_others_part, simp)
  then show ?thesis using True by (auto simp: dev_snmp_def Let_def elim: part_then)
qed (simp add: snmp_start_def dev_snmp_def)

lemma snmp_man: "mg_pins (dp_man (dev_snmp d p)) = mg_pins (dp_man p)"
  by (simp add: dev_snmp_def Let_def)

lemma snmp_start_frame: "dp_ops (snmp_start d p) = dp_ops p" "dp_man (snmp_start d p) = dp_man p"
  "s_stp_global (dp_sim (snmp_start d p)) = s_stp_global (dp_sim p)" "s_stp_feature (dp_sim (snmp_start d p)) = s_stp_feature (dp_sim p)"
  "s_ntp (dp_sim (snmp_start d p)) = s_ntp (dp_sim p)" "s_ntp_global (dp_sim (snmp_start d p)) = s_ntp_global (dp_sim p)"
  "s_syslog (dp_sim (snmp_start d p)) = s_syslog (dp_sim p)" "s_snmp (dp_sim (snmp_start d p)) = s_snmp (dp_sim p)"
  "s_meta (dp_sim (snmp_start d p)) = s_meta (dp_sim p)" "s_ifaddrs (dp_sim (snmp_start d p)) = s_ifaddrs (dp_sim p)"
  "dd_snmp_set d \<Longrightarrow> set (s_snmp_yml (dp_sim (snmp_start d p))) \<subseteq> {dd_snmp_community d}"
  by (auto simp: snmp_start_def without_yml_def yml_drop_def)

lemma snmp_only:
  assumes "dd_snmp_set d"
  shows "set (s_snmp (dp_sim (dev_snmp d p))) = (if dd_snmp_community d = [] then set (s_snmp (dp_sim p)) \<inter> {[]} else {dd_snmp_community d})"
  using assms by (auto simp: dev_snmp_def Let_def drop_others_snmp without_yml_def)

lemma snmp_again:
  assumes "set (s_snmp (dp_sim q)) = set (s_snmp (dp_sim (dev_snmp d p)))"
  shows "dp_ops (dev_snmp d q) = dp_ops q"
proof (cases "dd_snmp_set d")
  case True
  have "set (s_snmp (dp_sim q)) \<subseteq> {dd_snmp_community d}" "dd_snmp_community d \<noteq> [] \<longrightarrow> dd_snmp_community d \<in> set (s_snmp (dp_sim q))"
    using snmp_only[OF True, of p] by (auto simp: assms)
  then show ?thesis using True by (auto simp: dev_snmp_def Let_def without_yml_def drop_none)
qed (simp add: dev_snmp_def)

section \<open>Spanning tree, time zone and host name\<close>

lemma stp_part: "part 0 p (dev_stp d p)"
  by (simp add: dev_stp_def Let_def part_add part_same)

lemma stp_man [simp]: "dp_man (dev_stp d p) = dp_man p"
  by (simp add: dev_stp_def Let_def)

lemma stp_again:
  assumes "s_stp_feature (dp_sim q) = s_stp_feature (dp_sim p)" "s_stp_global (dp_sim q) = s_stp_global (dp_sim (dev_stp d p))"
    and "dd_stp_priority d \<le> max_int64"
  shows "dp_ops (dev_stp d q) = dp_ops q"
proof (cases "\<not> dd_stp_set d \<or> \<not> s_stp_feature (dp_sim p) \<or> (dd_stp_enabled d \<and> dd_stp_mode d = ''mstp'')")
  case True
  then show ?thesis using assms(1) by (auto simp: dev_stp_def)
next
  case False
  let ?g = "s_stp_global (dp_sim (dev_stp d p))"
  have on: "dd_stp_enabled d \<longleftrightarrow> ?g \<noteq> None"
    using False by (auto simp: dev_stp_def Let_def)
  have pr: "dd_stp_enabled d \<and> 0 < dd_stp_priority d \<longrightarrow> sonic_atoi (case ?g of None \<Rightarrow> [] | Some g \<Rightarrow> mget [] g ''priority'') = dd_stp_priority d"
    using False assms(3) by (auto simp: dev_stp_def Let_def stp_prio_def mget_def sonic_atoi_itoa split: option.splits)
  have e: "(s_stp_global (dp_sim q) \<noteq> None) = dd_stp_enabled d" using on assms(2) by simp
  have pq: "dd_stp_enabled d \<Longrightarrow> 0 < dd_stp_priority d \<Longrightarrow> stp_prio (dp_sim q) = dd_stp_priority d"
    using pr assms(2) by (simp add: stp_prio_def)
  have "dev_stp d q = q" using False e pq assms(1) unfolding dev_stp_def Let_def
    by (cases "dd_stp_enabled d"; cases "0 < dd_stp_priority d") simp_all
  then show ?thesis by simp
qed

lemma hostname_part: "part 5 p (dev_hostname d p)"
  by (simp add: dev_hostname_def Let_def part_add part_same split: option.split)

lemma hostname_again:
  assumes "mget [] (s_meta (dp_sim q)) ''hostname'' = mget [] (s_meta (dp_sim (dev_hostname d p))) ''hostname''"
  shows "dp_ops (dev_hostname d q) = dp_ops q"
  using assms by (auto simp: dev_hostname_def Let_def mget_update split: option.splits)

lemma timezone_part: "part 4 p (dev_timezone e zs d p)"
  by (simp add: dev_timezone_def Let_def part_add part_same split: sum.split)

lemma man_frames [simp]: "dp_man (dev_timezone e zs d p) = dp_man p" "dp_man (dev_hostname d p) = dp_man p"
  by (simp_all add: dev_timezone_def dev_hostname_def Let_def split: sum.split option.split)

text \<open>A zone chosen for a rule is chosen again when it is the current one.\<close>

lemma zone_stays: "zoneFor tz cur zs = Inr t \<Longrightarrow> t = tz \<or> zoneFor tz t zs = Inr t"
  by (auto simp: zoneFor_def Let_def split: if_splits)

lemma timezone_again:
  assumes "current_zone (dp_sim q) = current_zone (dp_sim (dev_timezone e zs d p))"
    and "zone_asked d (dp_sim p) \<Longrightarrow> zoneTable e' zs' = zoneTable e zs"
  shows "dp_ops (dev_timezone e' zs' d q) = dp_ops q"
proof (cases "zone_asked d (dp_sim p)")
  case False
  then have "\<not> zone_asked d (dp_sim q)" using assms(1) by (simp add: dev_timezone_def zone_asked_def)
  then show ?thesis by (simp add: dev_timezone_def)
next
  case True
  let ?tz = "trim_space (dd_timezone d)" and ?cur = "current_zone (dp_sim p)"
  have t: "zoneTable e' zs' = zoneTable e zs" by (rule assms(2)[OF True])
  show ?thesis
  proof (cases "zone_target ?tz ?cur (zoneTable e zs)")
    case (Inl w)
    then have "current_zone (dp_sim q) = ?cur" using assms(1) True by (simp add: dev_timezone_def Let_def)
    then show ?thesis using Inl by (simp add: dev_timezone_def Let_def t)
  next
    case (Inr z)
    then obtain zt where zt: "zoneTable e zs = Inr zt" "zoneFor ?tz ?cur zt = Inr z" "zoneNameRe z"
      by (auto simp: zone_target_def split: sum.splits if_splits)
    have "z \<noteq> []" using zt(3) by (auto simp: zoneNameRe_def)
    then have cur: "current_zone (dp_sim q) = z"
      using assms(1) True Inr by (auto simp: dev_timezone_def Let_def current_zone_def mget_update split: if_splits)
    show ?thesis
    proof (cases "z = ?tz")
      case True
      then show ?thesis using cur by (simp add: dev_timezone_def zone_asked_def)
    next
      case False
      then have "zone_target ?tz z (zoneTable e zs) = Inr z"
        using zone_stays[OF zt(2)] zt(1,3) by (simp add: zone_target_def)
      then show ?thesis using cur by (simp add: dev_timezone_def Let_def t)
    qed
  qed
qed

section \<open>The push as a whole\<close>

definition plan_start :: "'a dev_col_scheme \<Rightarrow> sw_state \<Rightarrow> dev_plan" where
  "plan_start c st = \<lparr>dp_sim = st, dp_ops = [], dp_notes = [], dp_man = vd_managed c\<rparr>"

definition plan_src :: "dev_env \<Rightarrow> 'a dev_col_scheme \<Rightarrow> sw_state \<Rightarrow> string" where
  "plan_src e c st = ntpSource (de_dials e) (vc_addrs c) st"

lemma plan_of_parts:
  "dev_plan_of e d c st = dev_hostname d (dev_timezone e (vd_zones c) d (dev_snmp d (dev_syslog e d
     (dev_ntp e (plan_src e c st) d (dev_stp d (plan_start c st))))))"
  by (simp add: dev_plan_of_def plan_start_def plan_src_def)

lemma no_ops_before: "part k p q \<Longrightarrow> dp_ops q = [] \<Longrightarrow> dp_ops p = [] \<and> dp_sim q = dp_sim p"
  by (auto simp: part_def)

lemma snmp_start_state:
  "dp_sim (snmp_start d p) = without_yml (yml_drop d (dp_sim p)) (dp_sim p)"
  by (simp add: snmp_start_def yml_drop_def without_yml_def)

text \<open>A plan without operations stands for the state it started from, less the names taken out of snmp.yml.\<close>

lemma plan_without_ops:
  assumes "dp_ops (dev_plan_of e d c st) = []"
  shows "dp_sim (dev_plan_of e d c st) = without_yml (yml_drop d st) st"
proof -
  let ?a = "dev_stp d (plan_start c st)"
  let ?b = "dev_ntp e (plan_src e c st) d ?a"
  let ?g = "dev_syslog e d ?b"
  let ?k = "dev_snmp d ?g"
  let ?t = "dev_timezone e (vd_zones c) d ?k"
  have h: "dp_ops ?t = [] \<and> dp_sim (dev_hostname d ?t) = dp_sim ?t"
    by (rule no_ops_before[OF hostname_part]) (use assms in \<open>simp add: plan_of_parts\<close>)
  have t: "dp_ops ?k = [] \<and> dp_sim ?t = dp_sim ?k" by (rule no_ops_before[OF timezone_part]) (use h in simp)
  have k: "dp_ops (snmp_start d ?g) = [] \<and> dp_sim ?k = dp_sim (snmp_start d ?g)" by (rule no_ops_before[OF snmp_part]) (use t in simp)
  have g: "dp_ops ?b = [] \<and> dp_sim ?g = dp_sim ?b" by (rule no_ops_before[OF syslog_part]) (use k in \<open>simp add: snmp_start_frame\<close>)
  have b: "dp_ops ?a = [] \<and> dp_sim ?b = dp_sim ?a" by (rule no_ops_before[OF ntp_part]) (use g in simp)
  have a: "dp_sim ?a = st" using no_ops_before[OF stp_part, of d "plan_start c st"] b by (simp add: plan_start_def)
  show ?thesis using h t k g b a by (simp add: plan_of_parts snmp_start_state)
qed

lemma source_same: "s_ifaddrs st' = s_ifaddrs st \<Longrightarrow> ntpSource dials addrs st' = ntpSource dials addrs st"
  unfolding ntpSource_def by (simp only:)

lemma snmp_start_again: "dp_ops (dev_snmp d q) = dp_ops q \<Longrightarrow> dp_sim (dev_snmp d q) = dp_sim (snmp_start d q)"
  by (rule part_quiet[OF snmp_part]) (simp add: snmp_start_frame)

lemma settings_plan_again:
  assumes P: "P = dev_plan_of e d c st"
    and "resolves e (dd_ntp d)" "resolves e (map (log_host e) (dd_syslog d))" "one_port e (dd_syslog d) (mg_pins (dp_man P))"
    and "dd_stp_priority d \<le> max_int64"
    and e': "de_parse e' = de_parse e" "de_split e' = de_split e" "de_dials e' = de_dials e"
    and c2: "vc_addrs c2 = vc_addrs c" "vd_managed c2 = dp_man P"
    and zones: "zone_asked d st \<Longrightarrow> zoneTable e' (vd_zones c2) = zoneTable e (vd_zones c)"
  shows "dp_ops (dev_plan_of e' d c2 (dp_sim P)) = []"
proof -
  define a where "a = dev_stp d (plan_start c st)"
  define b where "b = dev_ntp e (plan_src e c st) d a"
  define g where "g = dev_syslog e d b"
  define k where "k = dev_snmp d g"
  define t where "t = dev_timezone e (vd_zones c) d k"
  have PP: "P = dev_hostname d t" by (simp add: P plan_of_parts a_def b_def g_def k_def t_def)
  have pa: "part 0 (plan_start c st) a" unfolding a_def by (rule stp_part)
  have pb: "part 1 a b" unfolding b_def by (rule ntp_part)
  have pg: "part 2 b g" unfolding g_def by (rule syslog_part)
  have pk: "part 3 (snmp_start d g) k" unfolding k_def by (rule snmp_part)
  have pt: "part 4 k t" unfolding t_def by (rule timezone_part)
  have pP: "part 5 t P" unfolding PP by (rule hostname_part)
  let ?s = "dp_sim P"
  have f_feature: "s_stp_feature ?s = s_stp_feature st"
    by (simp add: part_frame(2)[OF pP] part_frame(2)[OF pt] part_frame(2)[OF pk] part_frame(2)[OF pg] part_frame(2)[OF pb] part_frame(2)[OF pa] snmp_start_frame(4) plan_start_def)
  have f_stp: "s_stp_global ?s = s_stp_global (dp_sim a)" by (simp add: part_frame(1)[OF pP] part_frame(1)[OF pt] part_frame(1)[OF pk] part_frame(1)[OF pg] part_frame(1)[OF pb] snmp_start_frame(3))
  have f_ntp: "s_ntp ?s = s_ntp (dp_sim b)" by (simp add: part_frame(3)[OF pP] part_frame(3)[OF pt] part_frame(3)[OF pk] part_frame(3)[OF pg] snmp_start_frame(5))
  have f_ntpg: "s_ntp_global ?s = s_ntp_global (dp_sim b)" by (simp add: part_frame(4)[OF pP] part_frame(4)[OF pt] part_frame(4)[OF pk] part_frame(4)[OF pg] snmp_start_frame(6))
  have f_log: "s_syslog ?s = s_syslog (dp_sim g)" by (simp add: part_frame(5)[OF pP] part_frame(5)[OF pt] part_frame(5)[OF pk] snmp_start_frame(7))
  have f_snmp: "s_snmp ?s = s_snmp (dp_sim k)" by (simp add: part_frame(6)[OF pP] part_frame(6)[OF pt])
  have f_zone: "current_zone ?s = current_zone (dp_sim t)" by (simp add: part_frame(9)[OF pP])
  have f_zone0: "current_zone (dp_sim k) = current_zone st"
    by (simp only: part_frame(9)[OF pk], simp only: current_zone_def snmp_start_frame(9), simp only: current_zone_def[symmetric],
        simp only: part_frame(9)[OF pg] part_frame(9)[OF pb] part_frame(9)[OF pa] plan_start_def dev_plan.simps)
  have f_if: "s_ifaddrs ?s = s_ifaddrs st" by (simp add: part_frame(11)[OF pP] part_frame(11)[OF pt] part_frame(11)[OF pk] part_frame(11)[OF pg] part_frame(11)[OF pb] part_frame(11)[OF pa] snmp_start_frame(10) plan_start_def)
  have manP: "dp_man P = dp_man k" by (simp add: PP t_def)
  have pins: "mg_pins (dp_man P) = mg_pins (dp_man g)" by (simp add: manP k_def snmp_man)
  define a' where "a' = dev_stp d (plan_start c2 ?s)"
  define b' where "b' = dev_ntp e' (plan_src e' c2 ?s) d a'"
  define g' where "g' = dev_syslog e' d b'"
  define k' where "k' = dev_snmp d g'"
  define t' where "t' = dev_timezone e' (vd_zones c2) d k'"
  have q0: "dp_sim (plan_start c2 ?s) = ?s" "dp_ops (plan_start c2 ?s) = []" "dp_man (plan_start c2 ?s) = dp_man P"
    by (simp_all add: plan_start_def c2)
  have oa: "dp_ops a' = []" unfolding a'_def
    by (rule trans[OF stp_again[of _ "plan_start c st"]]) (simp_all add: q0 f_feature f_stp[unfolded a_def] assms(5), simp add: plan_start_def)
  then have sa: "dp_sim a' = ?s" "dp_man a' = dp_man P"
    using part_quiet[OF stp_part[of "plan_start c2 ?s" d]] q0 by (simp_all add: a'_def)
  have src: "plan_src e' c2 ?s = plan_src e c st"
    unfolding plan_src_def e'(3) c2(1) by (rule source_same) (rule f_if)
  have ob: "dp_ops b' = []" unfolding b'_def src
    using ntp_again[OF assms(2) b_def e'(1), of a'] syslog_pins_frame[of e d b, folded g_def] by (simp add: pins oa sa f_ntp f_ntpg)
  then have sb: "dp_sim b' = ?s" using part_quiet[OF ntp_part[of a' e' "plan_src e' c2 ?s" d]] oa sa by (simp add: b'_def)
  have og: "dp_ops g' = []" unfolding g'_def
  proof (subst syslog_again[OF assms(3) g_def])
    show "one_port e (dd_syslog d) (mg_pins (dp_man g))" using assms(4) by (simp add: pins)
    show "de_parse e' = de_parse e" "de_split e' = de_split e" using e' by simp_all
    show "s_syslog (dp_sim b') = s_syslog (dp_sim g)" by (simp add: sb f_log)
    show "\<forall>h. map_of (mg_pins (dp_man b')) (pin_key ''syslog'' h) = map_of (mg_pins (dp_man g)) (pin_key ''syslog'' h)"
      unfolding b'_def by (simp add: ntp_pins_frame sa pins)
  qed (rule ob)
  then have sg: "dp_sim g' = ?s" using part_quiet[OF syslog_part[of b' e' d]] ob sb by (simp add: g'_def)
  have ok: "dp_ops k' = []" unfolding k'_def using snmp_again[of g' d g, folded k_def] by (simp add: sg og f_snmp)
  then have sk: "dp_sim k' = dp_sim (snmp_start d g')" unfolding k'_def by (intro snmp_start_again) (simp add: og)
  have meta: "s_meta (dp_sim k') = s_meta ?s" using sk sg by (simp add: snmp_start_frame)
  have ot: "dp_ops t' = []" unfolding t'_def
  proof (subst timezone_again)
    show "current_zone (dp_sim k') = current_zone (dp_sim (dev_timezone e (vd_zones c) d k))"
      using f_zone by (simp add: current_zone_def meta t_def)
    have "current_zone (dp_sim k) = current_zone st" by (rule f_zone0)
    then show "zone_asked d (dp_sim k) \<Longrightarrow> zoneTable e' (vd_zones c2) = zoneTable e (vd_zones c)"
      using zones by (simp add: zone_asked_def)
  qed (rule ok)
  then have st': "dp_sim t' = dp_sim k'" using part_quiet[OF timezone_part[of k' e' "vd_zones c2" d]] ok by (simp add: t'_def)
  have "dp_ops (dev_hostname d t') = dp_ops t'" by (rule hostname_again[of t' d t]) (simp add: st' meta PP)
  then show ?thesis using ot by (simp add: plan_of_parts a'_def b'_def g'_def k'_def t'_def)
qed

lemma nudge_frame:
  assumes "\<forall>x. run x = (None, None)"
  shows "ac_state (chronyNudge e run st c) = ac_state c" "vd_managed (chronyNudge e run st c) = vd_managed c"
    "vc_addrs (chronyNudge e run st c) = vc_addrs c" "vd_zones (chronyNudge e run st c) = vd_zones c"
  using assms by (simp_all add: chronyNudge_def stored_def)

lemma zones_frame:
  "ac_state (seen_zones e d st c) = ac_state c" "vd_managed (seen_zones e d st c) = vd_managed c" "vc_addrs (seen_zones e d st c) = vc_addrs c"
  by (simp_all add: seen_zones_def split: sum.split)

lemma zones_known: "vd_zones c1 = vd_zones c \<Longrightarrow> vd_zones (seen_zones e d st c1) = vd_zones (seen_zones e d st c)"
  by (simp add: seen_zones_def split: sum.split)

lemma zones_again:
  assumes "zone_asked d st" "de_zones e' = de_zones e"
  shows "zoneTable e' (vd_zones (seen_zones e d st c)) = zoneTable e (vd_zones c)"
  using assms by (auto simp: seen_zones_def zoneTable_def Let_def split: sum.splits if_splits)

lemma yml_none: "without_yml [] st = st"
  by (simp add: without_yml_def)

lemma plan_yml: "yml_drop d (dp_sim (dev_plan_of e d c st)) = []"
proof -
  let ?g = "dev_syslog e d (dev_ntp e (plan_src e c st) d (dev_stp d (plan_start c st)))"
  let ?k = "dev_snmp d ?g"
  have "s_snmp_yml (dp_sim (dev_plan_of e d c st)) = s_snmp_yml (dp_sim (snmp_start d ?g))"
    by (simp only: plan_of_parts part_frame(7)[OF hostname_part] part_frame(7)[OF timezone_part] part_frame(7)[OF snmp_part])
  moreover have "filter (\<lambda>n. n \<noteq> dd_snmp_community d) (remdups (s_snmp_yml (dp_sim (snmp_start d ?g)))) = []" if "dd_snmp_set d"
    using snmp_start_frame(11)[OF that, of ?g] by (auto simp: filter_empty_conv)
  ultimately show ?thesis by (simp add: yml_drop_def)
qed

lemma apply_ok:
  assumes run: "\<forall>x. run x = (None, None)" and st: "ac_state c = Some st" and ok: "applyDevice e run d c = (Inr n, c')"
    and P: "P = dev_plan_of e d c st"
  shows "ac_state c' = Some (dp_sim P)" "vd_managed c' = dp_man P" "vc_addrs c' = vc_addrs c"
    "vd_zones c' = vd_zones (seen_zones e d st c)"
proof -
  define c1 where "c1 = seen_zones e d st (if ntp_quiet e d c st then chronyNudge e run st c else c)"
  have f: "ac_state c1 = Some st" "vc_addrs c1 = vc_addrs c"
    by (simp_all add: c1_def zones_frame nudge_frame[OF run] st)
  have z: "vd_zones c1 = vd_zones (seen_zones e d st c)"
    unfolding c1_def by (rule zones_known) (simp add: nudge_frame[OF run])
  have w: "ac_state c'' = Some (dp_sim P) \<and> vd_managed c'' = dp_man P \<and> vc_addrs c'' = vc_addrs c0 \<and> vd_zones c'' = vd_zones c0"
    if "dev_write run d m P c0 = (Inr n', c'')" "dp_ops P = [] \<Longrightarrow> ac_state c0 = Some (dp_sim P)" for m c0 n' c''
    using that run by (auto simp: dev_write_def split: if_splits)
  have "ac_state c' = Some (dp_sim P) \<and> vd_managed c' = dp_man P \<and> vc_addrs c' = vc_addrs c1 \<and> vd_zones c' = vd_zones c1"
  proof (cases "yml_drop d st = []")
    case True
    have "dev_write run d 0 P c1 = (Inr n, c')" using ok True by (simp add: applyDevice_def st Let_def P[symmetric] c1_def[symmetric])
    then show ?thesis by (rule w) (use plan_without_ops[of e d c st] True f(1) in \<open>simp add: P yml_none\<close>)
  next
    case False
    have "dev_kept e run d st c" using run by (simp add: dev_kept_def)
    then have "dev_write run d 1 P (c1\<lparr>ac_state := Some (without_yml (yml_drop d st) st)\<rparr>) = (Inr n, c')"
      using ok False run by (simp add: applyDevice_def st Let_def P[symmetric] c1_def[symmetric])
    from w[OF this] show ?thesis using plan_without_ops[of e d c st] by (simp add: P)
  qed
  then show "ac_state c' = Some (dp_sim P)" "vd_managed c' = dp_man P" "vc_addrs c' = vc_addrs c"
    "vd_zones c' = vd_zones (seen_zones e d st c)" using f(2) z by simp_all
qed


definition demo_dev_env :: dev_env where
  "demo_dev_env = \<lparr>de_parse = (\<lambda>h. if h = ''10.0.0.9'' then Some h else None),
     de_resolve = (\<lambda>h. if h = ''pool'' then Inr ''10.0.0.7'' else Inl h), de_split = str_cut (CHR '':''),
     de_dials = [], de_zones = Inr (''America/Denver'' @ [CHR 0x09] @ ''MST7MDT,M3.2.0,M11.1.0'' @ [LF] @ ''UTC'' @ [CHR 0x09] @ ''UTC0'')\<rparr>"

definition demo_settings :: device_desired where
  "demo_settings = demo_unguard\<lparr>dd_manage_ntp := True, dd_ntp := [''pool''], dd_manage_syslog := True,
     dd_syslog := [''10.0.0.9:1514''], dd_snmp_set := True, dd_snmp_community := ''fresh'',
     dd_timezone := ''MST7MDT,M3.2.0,M11.1.0'', dd_hostname := ''switch-2''\<rparr>"

definition demo_dev_col :: dev_col where
  "demo_dev_col = (igmp_col.extend demo_igmp_col \<lparr>vd_managed = \<lparr>mg_ntp = [], mg_syslog = [], mg_snmp = ''older'', mg_pins = []\<rparr>,
     vd_zones = [], vd_nudged = False, vd_stuck = False\<rparr>)\<lparr>ac_state := Some (demo_sw\<lparr>s_snmp := [''older''], s_ntp := [''10.0.0.5'']\<rparr>)\<rparr>"

lemma demo_dev_applied: "fst (applyDevice demo_dev_env (\<lambda>x. (None, None)) demo_settings demo_dev_col) = Inr 7"
  by code_simp


section \<open>Cases the code leaves open\<close>

text \<open>
  The community a push removes is not taken out of the error that echoes its command: \<open>redact\<close> gets the
  pushed community twice, the owned one having been replaced by then.
\<close>

lemma old_community_is_shown:
  "fst (applyDevice demo_dev_env (\<lambda>x. (Some ''snmp community older: unknown'', None)) demo_settings demo_dev_col)
    = Inl ''sonic apply switch settings: snmp community older: unknown''"
  by code_simp

text \<open>
  A log host's port goes into the batch as the controller pushed it: \<open>net.SplitHostPort\<close> takes any text
  after the last colon, and the command does not quote it.
\<close>

lemma syslog_port_reaches_the_shell:
  "dev_batch (dp_ops (dev_plan_of demo_dev_env (demo_unguard\<lparr>dd_manage_syslog := True, dd_syslog := [''10.0.0.9:514;reboot'']\<rparr>)
      demo_dev_col demo_sw)) = [''sudo config syslog add 10.0.0.9 --port 514;reboot'', ''sudo config save -y'']"
  by code_simp

text \<open>A server the bridge never set goes with the first push: no set of owned servers is asked.\<close>

lemma operators_server_is_removed:
  "NtpDel ''10.0.0.5'' \<in> set (dp_ops (dev_plan_of demo_dev_env demo_settings demo_dev_col (demo_sw\<lparr>s_ntp := [''10.0.0.5'']\<rparr>)))
    \<and> mg_ntp (vd_managed demo_dev_col) = []"
  by code_simp

text \<open>Two log hosts with one address and two ports never settle: each push writes the one over the other.\<close>

lemma two_ports_never_settle:
  "let d = demo_unguard\<lparr>dd_manage_syslog := True, dd_syslog := [''10.0.0.9:1514'', ''10.0.0.9:2514'']\<rparr>;
       st = demo_sw\<lparr>s_syslog := [(''10.0.0.9'', ''2514'')]\<rparr>
   in length (dp_ops (dev_plan_of demo_dev_env d demo_dev_col st)) = 4
      \<and> s_syslog (dp_sim (dev_plan_of demo_dev_env d demo_dev_col st)) = s_syslog st"
  by code_simp

end
