(* ===== verification/Sonic_Push_Props.thy ===== *)
theory Sonic_Push_Props
  imports Sonic_Push Sonic_Device_Props
begin

text \<open>
  A push as a whole: when it went through undisturbed, the access rules are bound to every port and
  aggregate there is by then, and the snooping rows follow the memberships.
\<close>

section \<open>The parts\<close>

text \<open>No collect stores a fresh state while the push runs.\<close>

definition undisturbed :: "push_world \<Rightarrow> bool" where
  "undisturbed w \<longleftrightarrow> (\<forall>x. snd (pw_l2_run w x) = None) \<and> (\<forall>x. snd (pw_batch w x) = None) \<and> (\<forall>x. snd (pw_igmp_run w x) = None)"

lemma then_part_ok: "then_part r f = (Inr n, c') \<longleftrightarrow> (\<exists>m k c. r = (Inr m, c) \<and> f c = (Inr k, c') \<and> n = m + k)"
  by (auto simp: then_part_def split: prod.splits sum.splits)

lemma uncounted_ok: "uncounted f c = (Inr n, c') \<longleftrightarrow> n = 0 \<and> (\<exists>m. f c = (Inr m, c'))"
  by (auto simp: uncounted_def split: prod.splits sum.splits)

definition push_wants :: "'a dev_col_scheme \<Rightarrow> acl_want \<times> igmp_want \<times> bool \<times> int" where
  "push_wants c = (ac_want c, gc_want c, gc_on c, sc_native c)"

lemma wants_stored [simp]: "push_wants (stored fresh c) = push_wants c"
  by (simp add: push_wants_def stored_def)

lemma wants_upd [simp]:
  "push_wants (c\<lparr>lc_want := a\<rparr>) = push_wants c" "push_wants (c\<lparr>ac_state := s\<rparr>) = push_wants c"
  by (simp_all add: push_wants_def)

lemma l2_write_wants: "push_wants (snd (l2_write e run dl n same st want c)) = push_wants c"
  by (simp add: l2_write_def Let_def split: prod.split option.split)

lemma l2_part_wants: "push_wants (snd (l2_part w c)) = push_wants c"
proof -
  have go: "push_wants (snd (l2_go e run dl st c)) = push_wants c" for e run dl st
    by (simp add: l2_go_def Let_def l2_write_wants split: prod.split option.split)
  have "push_wants (fst (snd (applyL2 e run dl c))) = push_wants c" for e run dl
    using go[of e run dl] by (auto simp: applyL2_def Let_def split_beta split: option.split)
  then show ?thesis by (simp add: l2_part_def split_beta)
qed

lemma acl_part_state:
  assumes "undisturbed w" "acl_part w c = (Inr n, c')"
  shows "case ac_state c of None \<Rightarrow> ac_state c' = None | Some st \<Rightarrow> ac_state c' = Some (snd (snd (acl_plan (ac_want c) st)))"
    and "push_wants c' = push_wants c"
proof -
  have r: "snd (pw_batch w x) = None" for x using assms(1) by (simp add: undisturbed_def)
  show "push_wants c' = push_wants c"
    using assms(2) by (auto simp: acl_part_def applyACL_def push_wants_def split: prod.splits option.splits if_splits)
  show "case ac_state c of None \<Rightarrow> ac_state c' = None | Some st \<Rightarrow> ac_state c' = Some (snd (snd (acl_plan (ac_want c) st)))"
  proof (cases "ac_state c")
    case None then show ?thesis using assms(2) by (simp add: acl_part_def applyACL_def)
  next
    case (Some st)
    obtain ops m sim where plan: "acl_plan (ac_want c) st = (ops, m, sim)" by (cases "acl_plan (ac_want c) st")
    from r[of "acl_cmds ops"] obtain err where run: "pw_batch w (acl_cmds ops) = (err, None)" by (metis prod.collapse)
    show ?thesis
      using assms(2) Some plan run plan_out[OF plan] by (auto simp: acl_part_def applyACL_def split: if_splits option.splits)
  qed
qed

lemma run_calls_fresh: "\<forall>x. snd (run x) = None \<Longrightarrow> snd (run_calls run xs) = None"
proof (induction xs)
  case (Cons x xs)
  from Cons.prems have "snd (run x) = None" by blast
  with Cons show ?case by (cases "run x") (auto split: option.split prod.split)
qed simp

text \<open>What a push leaves: the access rules on the ports there are, the snooping rows on the members there are.\<close>

definition in_line :: "'a igmp_col_scheme \<Rightarrow> sw_state \<Rightarrow> bool" where
  "in_line c st \<longleftrightarrow> (\<forall>t rs. map_of (ac_want c) t = Some rs \<longrightarrow> s_acl_known st \<longrightarrow> acl_settled (aclPorts st) st t rs)
     \<and> (iw_set (gc_want c) \<and> gc_on c \<and> s_l2mc_known st \<longrightarrow> l2mcOps (l2mc_rows (sc_native c) (gc_want c) st) (s_l2mc st) = [])"

lemma settled_frame: "acl_settled ports (st\<lparr>s_l2mc := x, s_l2mc_feature := y\<rparr>) t rs = acl_settled ports st t rs"
  "aclPorts (st\<lparr>s_l2mc := x, s_l2mc_feature := y\<rparr>) = aclPorts st"
  by (simp_all add: acl_settled_def tab_def acl_rule_def aclPorts_def)

lemma igmp_part_lines:
  assumes "undisturbed w" "igmp_part w c = (Inr n, c')" "ac_state c = Some st"
    and "\<forall>t rs. map_of (ac_want c) t = Some rs \<longrightarrow> s_acl_known st \<longrightarrow> acl_settled (aclPorts st) st t rs"
  shows "\<exists>st'. ac_state c' = Some st' \<and> in_line c' st' \<and> push_wants c' = push_wants c"
proof -
  let ?want = "l2mc_rows (sc_native c) (gc_want c) st" let ?ops = "l2mcOps ?want (s_l2mc st)"
  let ?calls = "igmp_calls (igmp_feature_needed ?want st) ?ops"
  obtain ws where ap: "applyIGMP (pw_igmp_run w) c = (Inr n, c', ws)"
    using assms(2) by (auto simp: igmp_part_def split: prod.splits)
  then have ap': "c' = fst (snd (applyIGMP (pw_igmp_run w) c))" by simp
  show ?thesis
  proof (cases "\<not> iw_set (gc_want c) \<or> \<not> gc_on c \<or> \<not> s_l2mc_known st \<or> ?ops = [] \<and> \<not> igmp_feature_needed ?want st")
    case True
    then have "c' = c" unfolding ap' using assms(3) by (auto simp: applyIGMP_def Let_def)
    with True assms(3,4) show ?thesis by (auto simp: in_line_def)
  next
    case False
    let ?st = "st\<lparr>s_l2mc := fold l2mc_eff ?ops (s_l2mc st),
      s_l2mc_feature := (if igmp_feature_needed ?want st then ''enabled'' else s_l2mc_feature st)\<rparr>"
    have "snd (run_calls (pw_igmp_run w) ?calls) = None"
      by (rule run_calls_fresh) (use assms(1) in \<open>simp add: undisturbed_def\<close>)
    then obtain err where run: "run_calls (pw_igmp_run w) ?calls = (err, None)" by (metis prod.collapse)
    have c': "c' = c\<lparr>ac_state := Some ?st\<rparr>"
    proof (cases err)
      case None
      then show ?thesis unfolding ap' using False assms(3) run by (auto simp: applyIGMP_def Let_def)
    next
      case (Some e)
      then show ?thesis using False ap assms(3) run by (auto simp: applyIGMP_def Let_def)
    qed
    have known: "s_acl_known ?st = s_acl_known st" by simp
    have "in_line c' ?st"
      unfolding in_line_def c' settled_frame known using assms(4) ops_settle[of ?want "s_l2mc st"] by (simp add: rows_frame)
    then show ?thesis by (intro exI[of _ ?st]) (simp add: c' push_wants_def)
  qed
qed

lemma acl_part_lines:
  assumes "undisturbed w" "acl_part w c = (Inr n, c')" "ac_state c = Some st" "list_all bare (map fst (ac_want c))"
  shows "\<exists>st'. ac_state c' = Some st' \<and> push_wants c' = push_wants c
    \<and> (\<forall>t rs. map_of (ac_want c') t = Some rs \<longrightarrow> s_acl_known st' \<longrightarrow> acl_settled (aclPorts st') st' t rs)"
proof -
  obtain ops m sim where plan: "acl_plan (ac_want c) st = (ops, m, sim)" by (cases "acl_plan (ac_want c) st")
  note a = acl_part_state[OF assms(1,2)]
  have st': "ac_state c' = Some sim" using a(1) assms(3) plan by simp
  have sim: "sim = fold acl_eff ops st" using plan_out[OF plan] by simp
  have w: "ac_want c' = ac_want c" using a(2) by (simp add: push_wants_def)
  have "acl_settled (aclPorts sim) sim t rs" if "map_of (ac_want c) t = Some rs" "s_acl_known sim" for t rs
    using plan_settles[OF plan _ assms(4) that(1)] that(2) by (simp add: sim)
  then show ?thesis using st' a(2) w by simp
qed

lemma ports_frame: "push_wants (snd (applyPorts run ds c)) = push_wants c"
  by (simp add: applyPorts_def push_wants_def split: option.split prod.split)

lemma batch_frame: "undisturbed w \<Longrightarrow> ac_state c = Some st \<Longrightarrow> ac_state (snd (applyPorts (pw_batch w) ds c)) \<noteq> None"
  by (simp add: applyPorts_def split: option.split prod.split)

lemma wants_fields: "push_wants c' = push_wants c \<Longrightarrow> ac_want c' = ac_want c \<and> gc_want c' = gc_want c \<and> gc_on c' = gc_on c \<and> sc_native c' = sc_native c"
  by (simp add: push_wants_def)

lemma l2_keeps_state: "ac_state c = Some st \<Longrightarrow> undisturbed w \<Longrightarrow> \<exists>st'. ac_state (snd (l2_part w c)) = Some st'"
proof -
  assume st: "ac_state c = Some st" and u: "undisturbed w"
  have f: "snd (pw_l2_run w x) = None" for x using u by (simp add: undisturbed_def)
  have wr: "\<exists>y. ac_state (snd (l2_write e (pw_l2_run w) dl n same st' want c')) = Some y" if "ac_state c' = Some x" for e dl n same st' want c' x
    using that by (simp add: l2_write_def Let_def stored_def split: prod.split option.split)
  have wr': "\<exists>y. ac_state (snd (l2_write e (pw_l2_run w) dl n same st' want (c\<lparr>lc_want := v\<rparr>))) = Some y" for e dl n same st' want v
    by (rule wr) (simp add: st)
  obtain err where b: "pw_l2_run w StartBuild = (err, None)" using f[of StartBuild] by (metis prod.collapse)
  have go: "ac_state (snd (l2_go e (pw_l2_run w) dl st' c)) \<noteq> None" for e dl st'
    by (simp add: l2_go_def Let_def stored_def b st wr' split: option.split)
  have "ac_state (fst (snd (applyL2 e (pw_l2_run w) dl c))) \<noteq> None" for e dl
    using go[of e dl] st by (auto simp: applyL2_def Let_def split_beta split: option.split)
  then show ?thesis by (simp add: l2_part_def split_beta)
qed

section \<open>The whole push\<close>

definition demo_push_world :: push_world where
  "demo_push_world = \<lparr>pw_dev = demo_dev_env, pw_dev_run = (\<lambda>x. (None, None)),
     pw_l2 = \<lparr>le_script = [], le_bridge = [], le_unit = [], le_sha = (\<lambda>x. x), le_now = 0\<rparr>, pw_l2_run = (\<lambda>x. (None, None)),
     pw_l2_dial = \<lparr>ld_redial = False, ld_probe = False, ld_tries = []\<rparr>, pw_acl = demo_acl_env,
     pw_batch = (\<lambda>x. (None, None)), pw_igmp_run = (\<lambda>x. (None, None))\<rparr>"

definition demo_push_col :: dev_col where
  "demo_push_col = demo_dev_col\<lparr>sc_ports := Some [], ac_want := demo_want\<rparr>"

lemma demo_undisturbed: "undisturbed demo_push_world"
  by (simp add: undisturbed_def demo_push_world_def)

lemma demo_port_push: "fst (sonic_ApplyPorts demo_push_world [] demo_push_col) = Inr 0"
  by code_simp

lemma demo_device_push: "fst (sonic_ApplyDevice demo_push_world (demo_settings\<lparr>dd_igmp_snooping := [(10, True)]\<rparr>) demo_push_col) = Inr 8"
  by code_simp

lemma pair_fst: "fst r = x \<Longrightarrow> r = (x, snd r)"
  by (cases r) simp

lemma wants_through:
  "l2_part w c = (Inr k, c') \<Longrightarrow> undisturbed w \<Longrightarrow> ac_state c = Some st \<Longrightarrow> push_wants c' = push_wants c \<and> (\<exists>st'. ac_state c' = Some st')"
  using l2_part_wants[of w c] l2_keeps_state[of c st w] by auto

text \<open>
  C12. A port push leaves no port behind: once it went through undisturbed, every table of access rules
  the controller wants is bound to exactly the ports and aggregates there are after it, those its own
  breakouts and aggregates made included, and the snooping rows follow the memberships it wrote.
\<close>

theorem sonic_port_push_covers_its_ports:
  assumes "undisturbed w" "sonic_ApplyPorts w ds c = (Inr n, c')" "list_all bare (map fst (ac_want c))"
  shows "\<exists>st'. ac_state c' = Some st' \<and> in_line c' st' \<and> ac_want c' = ac_want c \<and> gc_want c' = gc_want c"
proof -
  obtain n1 c1 where p: "applyPorts (pw_batch w) ds c = (Inr n1, c1)"
    using assms(2) by (auto simp: sonic_ApplyPorts_def split: prod.splits sum.splits)
  obtain k2 c2 k3 c3 k4 where l2: "ports_l2 w ds (ac_state c1) c1 = (Inr k2, c2)" and acl: "acl_part w c2 = (Inr k3, c3)"
    and ig: "igmp_part w c3 = (Inr k4, c')"
    using assms(2) p by (auto simp: sonic_ApplyPorts_def then_part_ok uncounted_ok)
  have w1: "push_wants c1 = push_wants c" using ports_frame[of "pw_batch w" ds c] p by simp
  obtain st where "ac_state c = Some st"
    using p by (auto simp: applyPorts_def newPlan_def split: option.splits)
  then obtain st1 where st1: "ac_state c1 = Some st1" using batch_frame[OF assms(1), of c st ds] p by auto
  have c2: "push_wants c2 = push_wants c1 \<and> (\<exists>st2. ac_state c2 = Some st2)"
    using l2 st1 wants_through[OF _ assms(1)] by (fastforce simp: ports_l2_def split: if_splits)
  then obtain st2 where st2: "ac_state c2 = Some st2" by blast
  have bare: "list_all bare (map fst (ac_want c2))" using wants_fields[of c2 c] c2 w1 assms(3) by simp
  obtain st3 where st3: "ac_state c3 = Some st3" and w3: "push_wants c3 = push_wants c2"
    and cover: "\<forall>t rs. map_of (ac_want c3) t = Some rs \<longrightarrow> s_acl_known st3 \<longrightarrow> acl_settled (aclPorts st3) st3 t rs"
    using acl_part_lines[OF assms(1) acl st2 bare] by blast
  from igmp_part_lines[OF assms(1) ig st3 cover] obtain st' where
    "ac_state c' = Some st'" "in_line c' st'" "push_wants c' = push_wants c3" by blast
  then show ?thesis using w3 c2 w1 wants_fields[of c' c] by auto
qed

theorem sonic_port_push_covers_its_ports_witness:
  "\<exists>st'. ac_state (snd (sonic_ApplyPorts demo_push_world [] demo_push_col)) = Some st'
    \<and> in_line (snd (sonic_ApplyPorts demo_push_world [] demo_push_col)) st'
    \<and> ac_want (snd (sonic_ApplyPorts demo_push_world [] demo_push_col)) = demo_want
    \<and> gc_want (snd (sonic_ApplyPorts demo_push_world [] demo_push_col)) = gc_want demo_push_col"
  using sonic_port_push_covers_its_ports[OF demo_undisturbed pair_fst[OF demo_port_push]]
  by (simp add: demo_push_col_def demo_want_def)

text \<open>
  C13. A device push that went through undisturbed leaves the switch in line with the intent it records:
  the access rules the push means, on every port there is, and the snooping rows of its VLANs.
\<close>

theorem sonic_device_push_in_line:
  assumes "undisturbed w" "sonic_ApplyDevice w d c = (Inr n, c')" "ac_state c' = Some st'"
  shows "in_line c' st' \<and> gc_want c' = igmpSet d \<and> (\<exists>st0. ac_want c' = fst (aclSet (pw_acl w) d st0))"
proof -
  obtain n1 c1 where p: "applyDevice (pw_dev w) (pw_dev_run w) d c = (Inr n1, c1)"
    using assms(2) by (auto simp: sonic_ApplyDevice_def split: prod.splits sum.splits)
  obtain k2 c2 k3 c3 k4 where l2: "device_l2 w d (ac_state c1) c1 = (Inr k2, c2)" and acl: "device_acl w d (ac_state c1) c2 = (Inr k3, c3)"
    and ig: "device_igmp w d c3 = (Inr k4, c')"
    using assms(2) p by (auto simp: sonic_ApplyDevice_def Let_def then_part_ok)
  show ?thesis
  proof (cases "ac_state c1")
    case None
    then have "c3 = c1" using l2 acl by (simp add: device_l2_def device_acl_def)
    with None ig assms(3) show ?thesis by (auto simp: device_igmp_def igmp_part_def applyIGMP_def)
  next
    case (Some st1)
    have c2: "\<exists>st2. ac_state c2 = Some st2"
      using l2 Some wants_through[OF _ assms(1)] by (fastforce simp: device_l2_def split: if_splits)
    then obtain st2 where st2: "ac_state c2 = Some st2" by blast
    let ?c2 = "c2\<lparr>ac_want := fst (aclSet (pw_acl w) d st1)\<rparr>"
    have a: "acl_part w ?c2 = (Inr k3, c3)" using acl Some by (simp add: device_acl_def)
    obtain st3 where st3: "ac_state c3 = Some st3" and w3: "push_wants c3 = push_wants ?c2"
      and cover: "\<forall>t rs. map_of (ac_want c3) t = Some rs \<longrightarrow> s_acl_known st3 \<longrightarrow> acl_settled (aclPorts st3) st3 t rs"
      using acl_part_lines[OF assms(1) a, of st2] st2 aclSet_bare by auto
    let ?c3 = "c3\<lparr>gc_want := igmpSet d\<rparr>"
    have i: "igmp_part w ?c3 = (Inr k4, c')" using ig by (simp add: device_igmp_def)
    from igmp_part_lines[OF assms(1) i, of st3] st3 cover assms(3)
    have "in_line c' st'" "push_wants c' = push_wants ?c3" by auto
    then show ?thesis using wants_fields[of c' ?c3] wants_fields[of c3 ?c2] w3 by auto
  qed
qed

theorem sonic_device_push_in_line_witness:
  "let c' = snd (sonic_ApplyDevice demo_push_world (demo_settings\<lparr>dd_igmp_snooping := [(10, True)]\<rparr>) demo_push_col)
   in in_line c' (the (ac_state c')) \<and> gc_want c' = igmpSet (demo_settings\<lparr>dd_igmp_snooping := [(10, True)]\<rparr>)"
proof -
  let ?d = "demo_settings\<lparr>dd_igmp_snooping := [(10, True)]\<rparr>"
  let ?c' = "snd (sonic_ApplyDevice demo_push_world ?d demo_push_col)"
  have "ac_state ?c' \<noteq> None" by code_simp
  then have "ac_state ?c' = Some (the (ac_state ?c'))" by simp
  from sonic_device_push_in_line[OF demo_undisturbed pair_fst[OF demo_device_push] this] show ?thesis by (simp add: Let_def)
qed

end
