(* ===== verification/Spec2Isabelle.thy ===== *)
theory Spec2Isabelle
  imports UnifiCfg_Props Session_Props PowerEvent_Props Recorder_Props Intent_Props Loop_Apply Loop_Live
    ApcUps ApcPdu Eos_Props Nutd_Props Sonic_Rules_Props Sonic_Port_Props Sonic_Igmp_Props Sonic_Keys_Props Sonic_Push_Props
begin

text \<open>
  A verification library of disunified, the bridge that makes a device that is not a UniFi device
  (an Arista switch, an APC UPS or rack PDU, a hypervisor) appear in a UniFi controller, follow the
  configuration the controller pushes, and report its state.

  \<^bold>\<open>The program and how its parts interact.\<close> The bridge polls the controller in a loop
  (\<^verbatim>\<open>internal/informloop\<close>): each cycle it collects a snapshot from the driver of the device, posts
  an inform, and handles the reply through the device session (\<^verbatim>\<open>internal/device\<close>), which keeps the
  adoption, the key, the pushed and the applied configuration. A pushed configuration is text
  (\<^verbatim>\<open>system_cfg\<close>), read by \<^verbatim>\<open>internal/unificfg\<close>; the loop translates it into vendor-neutral intents
  (\<^verbatim>\<open>internal/devicemodel\<close>) and hands them to the driver, holding the first push after an adoption
  while the driver's plan says it would change something, and reconciling the device to the applied
  push in every later cycle. Replies are recorded in a rotated log, power readings become event
  lines (\<^verbatim>\<open>internal/powerevent\<close>), and a UPS is also served to NUT clients (\<^verbatim>\<open>internal/nutd\<close>).

  \<^bold>\<open>Theories and sources\<close> (file names under \<^verbatim>\<open>src/internal\<close>; operations keep the names of the Go
  functions, a prefix tells drivers apart).

  \<^item> \<open>GoLib\<close>, \<open>NetAddr\<close>: the prelude. Go strings, \<^verbatim>\<open>strconv\<close>, \<^verbatim>\<open>strings\<close>, maps as association lists,
    truncating division, 64-bit wrap-around; IPv4 addresses and prefixes (\<^verbatim>\<open>net/netip\<close>).
  \<^item> \<open>UnifiCfg\<close>, \<open>UnifiCfg_Groups\<close>, \<open>UnifiCfg_Props\<close>: \<^verbatim>\<open>unificfg/parse.go\<close>, \<open>Parse\<close> as a fold of one
    step per line over the parser state, then the resolution of VLAN slots. Shown: well-formedness
    of every result, what decides a port's state and VLANs and an outlet's relay, independence of
    map iteration order with at most one default route, dependence on it with two, CRLF.
  \<^item> \<open>DeviceModel\<close>: \<^verbatim>\<open>devicemodel/model.go\<close>, the records that drivers and loop exchange, the uplink.
  \<^item> \<open>Session\<close>, \<open>Session_Props\<close>: \<^verbatim>\<open>device/session.go\<close>, \<^verbatim>\<open>device/state.go\<close>, the adoption state machine:
    when the key rotates, that a push waits unclaimed, that marking moves it, that a factory reset
    keeps the configuration, that state comparison is equality.
  \<^item> \<open>Intent\<close>, \<open>Intent_Props\<close>: the pure translations of \<^verbatim>\<open>informloop/loop.go\<close> and \<^verbatim>\<open>informloop/acl.go\<close>.
  \<^item> \<open>LoopState\<close>, \<open>Loop\<close>, \<open>LoopCycle\<close>: \<^verbatim>\<open>informloop/loop.go\<close> and \<^verbatim>\<open>informloop/children.go\<close>: the loop's
    state (a record over the driver's own state), applying and holding, reconciling, one cycle
    (\<open>informOnce\<close>) with every outcome of the exchange, the start, and \<open>RunLoop\<close>, any number of cycles.
    \<open>Loop_Frame\<close> says what each step leaves alone, \<open>Loop_Demo\<close> is the device the instances use.
    \<open>Loop_Apply\<close>: the hold of the first push and the claim of a push. \<open>Loop_Runs\<close>: invariants of runs
    (control sets, adoption state, connected). \<open>Loop_Live\<close>: reconciling without an answer, fresh
    ports, stale devices, DHCP.
  \<^item> \<open>Recorder\<close>, \<open>Recorder_Props\<close>: \<^verbatim>\<open>informloop/recorder.go\<close>, the reply log over a model of its files,
    each I/O call failing or not as an input; a refinement to the stream of entries, and bounds.
  \<^item> \<open>PowerEvent\<close>, \<open>PowerEvent_Props\<close>: \<^verbatim>\<open>powerevent/powerevent.go\<close>, the tracker and its lines.
  \<^item> \<open>Nutd\<close>, \<open>Nutd_Props\<close>: \<^verbatim>\<open>nutd/server.go\<close>, a session line by line, the variables, and the running
    server as a step relation whose reachable states satisfy the client-table invariant.
  \<^item> \<open>OutletContract\<close>, \<open>PortContract\<close>: the contract between the loop's hold and a driver's plan, as
    locales (an empty plan means applying writes nothing), with the loop's side proved in them.
  \<^item> \<open>ApcUps\<close>, \<open>ApcBackups\<close>, \<open>ApcPdu\<close>: the apply sides of \<^verbatim>\<open>drivers/apc-ups\<close>, \<^verbatim>\<open>drivers/apc-backups\<close>,
    \<^verbatim>\<open>drivers/apc-pdu\<close>. The first two interpret \<open>outlet_driver\<close>; the third has no plan.
  \<^item> \<open>Eos\<close>, \<open>Eos_Props\<close>: \<^verbatim>\<open>drivers/arista-eos\<close>, the plan as command lines, applying, switch-wide
    settings, and the address change with its commit timer. It interprets \<open>port_driver\<close>.
  \<^item> \<open>Sonic_Rules\<close>, \<open>Sonic_Rules_Props\<close>: \<^verbatim>\<open>drivers/sonic/acl.go\<close>, the controller's access rules and DHCP
    guards as rows of the driver's own ACL tables: the rows decide packets as the rules do, a rule
    set that passes the check does not cut the switch off, and two ways the check is passed wrongly.
  \<^item> \<open>Sonic_State\<close>: \<^verbatim>\<open>drivers/sonic/state.go\<close>, CONFIG_DB as the control side diffs against it. A Go
    closure that is a planned write's effect is a value (\<open>acl_op\<close>, \<open>sw_eff\<close>), so a batch is a list of
    writes and the state after any prefix of it can be spoken of.
  \<^item> \<open>Sonic_Acl\<close>, \<open>Sonic_Acl_Props\<close>: the tables of \<^verbatim>\<open>acl.go\<close>: what applying them reaches, that it settles,
    and that rules are written from the top down.
  \<^item> \<open>Sonic_Cage\<close>, \<open>Sonic_Plan\<close>, \<open>Sonic_Ports\<close>: \<^verbatim>\<open>drivers/sonic/breakout.go\<close>, \<^verbatim>\<open>optic.go\<close>, \<^verbatim>\<open>storm.go\<close> and
    \<^verbatim>\<open>control.go\<close>: the whole plan of a port push and the operations that run it.
    \<open>Sonic_Plan_Props\<close>: VLAN memberships and the invariant \<open>plan_ok\<close>; \<open>Sonic_Accept\<close>: every part of the
    plan keeps it; \<open>Sonic_Port_Props\<close>: the properties.
  \<^item> \<open>Sonic_L2\<close>, \<open>Sonic_L2_Props\<close>: \<^verbatim>\<open>drivers/sonic/l2.go\<close>, spanning tree through disunified-l2d: a first
    enable runs under the switch's dead-man timer, which is cancelled on proof only, and an enable the
    switch undid stays undone.
  \<^item> \<open>Sonic_Address\<close>, \<open>Sonic_Address_Props\<close>: \<^verbatim>\<open>drivers/sonic/address.go\<close> and \<^verbatim>\<open>dial.go\<close>: moving the address
    the bridge dials never strands it, on any switch whose addresses behave as Linux's do
    (\<open>linux_addresses\<close>), wherever a batch is cut.
  \<^item> \<open>Sonic_Igmp\<close>, \<open>Sonic_Igmp_Props\<close>: \<^verbatim>\<open>drivers/sonic/igmp.go\<close>: the L2MC rows a push asks for, the order
    they are written in, and the timers.
  \<^item> \<open>Sonic_Device\<close>, \<open>Sonic_Device_Props\<close>: \<^verbatim>\<open>drivers/sonic/device.go\<close> and \<^verbatim>\<open>zones.go\<close>: the plan of the
    switch-wide settings, part by part, and that it settles. \<open>Sonic_Keys\<close>, \<open>Sonic_Keys_Props\<close>: the SSH keys,
    down to what the shell makes of the script. \<open>Sonic_Push\<close>, \<open>Sonic_Push_Props\<close>: \<open>ApplyDevice\<close> and
    \<open>ApplyPorts\<close> as the driver composes them of settings, spanning tree, access rules and snooping.

  \<^bold>\<open>Parameters.\<close> What is not under \<^verbatim>\<open>src/\<close> or is the world outside is an argument: a driver's
  transport (what it answers, with its own state), the HTTP exchange, clock and file operations of
  a cycle (\<open>env\<close>), JSON text, quoting of log lines, and Go's map iteration order. No theorem assumes
  that they succeed unless its statement says so. There is no fuel: every loop of the modelled code
  is structural recursion, a fold, or a recursion on a text that shrinks, and \<open>RunLoop\<close> takes the list of cycles it runs.

  \<^bold>\<open>Numbers and text.\<close> Go ints are HOL ints where the code only compares and prints them, with
  wrap-around written out where it can be reached; command words and counters are words. Floats are
  reals, so rounding of float arithmetic is not modelled. Text is a list of bytes; case mapping and
  white space are ASCII.

  \<^bold>\<open>Not modelled.\<close> The payload tables of the inform (\<^verbatim>\<open>device/tables.go\<close>, \<^verbatim>\<open>device/caps.go\<close>) beyond the
  outlet base; reading devices (collectors parse vendor JSON, SNMP and Modbus answers); of the SONiC
  driver, the LED, the build script of mstpd and the snmp.yml script; the drivers proxmox, podman and
  stub; goroutines and time budgets inside a cycle (calls run one after
  another, a timeout is an error answer); \<^verbatim>\<open>cmd/\<close>, YAML configuration and the REST client, which are
  wiring and I/O. What would come next: the interface naming of
  \<^verbatim>\<open>devicemodel/naming.go\<close> and the payload tables.
\<close>

end
